(* ===== verification/Prelude.thy ===== *)
theory Prelude
  imports Complex_Main "HOL-Library.Product_Lexorder" "HOL-Library.List_Lexorder" "HOL-Library.Char_ord"
begin

text \<open>
  Shared vocabulary of the development.

  \<^item> Tables: an SQL table is the list of its rows. \<open>row_get\<close> is a SELECT by key that fetches one
    row, \<open>upd_where\<close> an UPDATE, \<open>del_where\<close> a DELETE, \<open>row_put\<close> an
    INSERT with ON CONFLICT DO UPDATE, \<open>row_ins\<close> an INSERT OR IGNORE. The locale
    \<open>row_table\<close> states what the code relies on.
  \<^item> Runs: the locale \<open>kept_invariant\<close> lifts an invariant from one operation to every sequence
    of operations.
  \<^item> \<open>py_round\<close>: the rounding of Python's \<open>round\<close> (halves go to the even neighbour).
\<close>

named_theorems row_simps \<open>equations of the table operations\<close>
named_theorems wf_intros \<open>preservation of the constraints by the operations\<close>

subsection \<open>Tables as lists of rows\<close>

definition uniq_on :: "('r \<Rightarrow> 'k) \<Rightarrow> 'r list \<Rightarrow> bool" where
  "uniq_on f t \<longleftrightarrow> distinct (map f t)"

definition refs :: "('r \<Rightarrow> 'k) \<Rightarrow> 'r list \<Rightarrow> ('s \<Rightarrow> 'k) \<Rightarrow> 's list \<Rightarrow> bool" where
  "refs f t g u \<longleftrightarrow> f ` set t \<subseteq> g ` set u"

definition row_get :: "('r \<Rightarrow> 'k) \<Rightarrow> 'k \<Rightarrow> 'r list \<Rightarrow> 'r option" where
  "row_get key k t = find (\<lambda>r. key r = k) t"

definition upd_where :: "('r \<Rightarrow> bool) \<Rightarrow> ('r \<Rightarrow> 'r) \<Rightarrow> 'r list \<Rightarrow> 'r list" where
  "upd_where P f t = map (\<lambda>r. if P r then f r else r) t"

definition del_where :: "('r \<Rightarrow> bool) \<Rightarrow> 'r list \<Rightarrow> 'r list" where
  "del_where P t = filter (\<lambda>r. \<not> P r) t"

definition has_row :: "('r \<Rightarrow> bool) \<Rightarrow> 'r list \<Rightarrow> bool" where
  "has_row P t \<longleftrightarrow> list_ex P t"

definition row_put :: "('r \<Rightarrow> 'k) \<Rightarrow> ('r \<Rightarrow> 'r) \<Rightarrow> 'r \<Rightarrow> 'r list \<Rightarrow> 'r list" where
  "row_put key f r t =
     (if has_row (\<lambda>x. key x = key r) t then upd_where (\<lambda>x. key x = key r) f t else t @ [r])"

definition row_ins :: "('r \<Rightarrow> 'k) \<Rightarrow> 'r \<Rightarrow> 'r list \<Rightarrow> 'r list" where
  "row_ins key r t = (if has_row (\<lambda>x. key x = key r) t then t else t @ [r])"

lemma has_row_iff [row_simps]: "has_row P t \<longleftrightarrow> (\<exists>r \<in> set t. P r)"
  by (simp add: has_row_def list_ex_iff)

lemma has_row_key: "has_row (\<lambda>x. key x = k) t \<longleftrightarrow> k \<in> key ` set t"
  unfolding has_row_def list_ex_iff by (metis (mono_tags, lifting) image_iff)

lemma set_upd_where [row_simps]: "set (upd_where P f t) = (\<lambda>r. if P r then f r else r) ` set t"
  by (simp add: upd_where_def)

lemma set_del_where [row_simps]: "set (del_where P t) = {r \<in> set t. \<not> P r}"
  by (simp add: del_where_def)

lemma length_upd_where [simp]: "length (upd_where P f t) = length t"
  by (simp add: upd_where_def)

lemma upd_where_Nil [simp]: "upd_where P f [] = []"
  by (simp add: upd_where_def)

lemma upd_where_Cons [simp]:
  "upd_where P f (r # t) = (if P r then f r else r) # upd_where P f t"
  by (simp add: upd_where_def)

lemma del_where_Nil [simp]: "del_where P [] = []"
  by (simp add: del_where_def)

lemma del_where_Cons [simp]:
  "del_where P (r # t) = (if P r then del_where P t else r # del_where P t)"
  by (simp add: del_where_def)

lemma map_upd_where:
  "(\<And>r. P r \<Longrightarrow> h (f r) = h r) \<Longrightarrow> map h (upd_where P f t) = map h t"
  by (simp add: upd_where_def)

lemma upd_where_id: "(\<And>r. r \<in> set t \<Longrightarrow> \<not> P r) \<Longrightarrow> upd_where P f t = t"
  by (induction t) auto

lemma upd_where_cong: "(\<And>r. r \<in> set t \<Longrightarrow> P r \<Longrightarrow> f r = g r) \<Longrightarrow> upd_where P f t = upd_where P g t"
  by (simp add: upd_where_def)

lemma del_where_id: "(\<And>r. r \<in> set t \<Longrightarrow> \<not> P r) \<Longrightarrow> del_where P t = t"
  by (induction t) auto

lemma row_get_None_iff: "row_get key k t = None \<longleftrightarrow> k \<notin> key ` set t"
  by (auto simp: row_get_def find_None_iff)

lemma row_get_SomeD: "row_get key k t = Some r \<Longrightarrow> r \<in> set t \<and> key r = k"
  by (auto simp: row_get_def find_Some_iff)

lemma row_get_uniq:
  assumes "uniq_on key t" and "r \<in> set t" and "key r = k"
  shows "row_get key k t = Some r"
proof (cases "row_get key k t")
  case None
  with assms(2,3) show ?thesis by (auto simp: row_get_None_iff)
next
  case (Some r')
  then have "r' \<in> set t" "key r' = key r" using assms(3) by (auto dest: row_get_SomeD)
  with assms(1,2) have "r' = r" by (auto simp: uniq_on_def distinct_map inj_on_def)
  with Some show ?thesis by simp
qed

lemma uniq_on_upd_where:
  "uniq_on h t \<Longrightarrow> (\<And>r. P r \<Longrightarrow> h (f r) = h r) \<Longrightarrow> uniq_on h (upd_where P f t)"
  by (simp add: uniq_on_def map_upd_where)

lemma uniq_on_del_where: "uniq_on h t \<Longrightarrow> uniq_on h (del_where P t)"
  by (simp add: uniq_on_def del_where_def distinct_map_filter)

lemma uniq_on_filter: "uniq_on h t \<Longrightarrow> uniq_on h (filter P t)"
  by (simp add: uniq_on_def distinct_map_filter)

lemma uniq_on_snoc:
  "uniq_on h t \<Longrightarrow> h r \<notin> h ` set t \<Longrightarrow> uniq_on h (t @ [r])"
  by (auto simp: uniq_on_def)

lemma uniq_on_Nil [simp]: "uniq_on h []"
  by (simp add: uniq_on_def)

lemma uniq_on_same:
  "uniq_on h t \<Longrightarrow> r \<in> set t \<Longrightarrow> s \<in> set t \<Longrightarrow> h r = h s \<Longrightarrow> r = s"
  by (auto simp: uniq_on_def distinct_map inj_on_def)

lemma refs_upd_where:
  assumes "refs f t g u" and "\<And>r. P r \<Longrightarrow> f (m r) = f r"
  shows "refs f (upd_where P m t) g u"
proof -
  have "f ` set (upd_where P m t) = set (map f (upd_where P m t))" by simp
  also have "\<dots> = f ` set t" using assms(2) by (simp add: map_upd_where)
  finally show ?thesis using assms(1) by (simp add: refs_def)
qed

lemma refs_target_upd_where:
  assumes "refs f t g u" and "\<And>r. P r \<Longrightarrow> g (m r) = g r"
  shows "refs f t g (upd_where P m u)"
proof -
  have "g ` set (upd_where P m u) = set (map g (upd_where P m u))" by simp
  also have "\<dots> = g ` set u" using assms(2) by (simp add: map_upd_where)
  finally show ?thesis using assms(1) by (simp add: refs_def)
qed

lemma refs_del_where: "refs f t g u \<Longrightarrow> refs f (del_where P t) g u"
  by (auto simp: refs_def row_simps)

lemma refs_snoc: "refs f t g u \<Longrightarrow> f r \<in> g ` set u \<Longrightarrow> refs f (t @ [r]) g u"
  by (simp add: refs_def)

lemma refs_target_mono: "refs f t g u \<Longrightarrow> set u \<subseteq> set v \<Longrightarrow> refs f t g v"
  by (auto simp: refs_def)

lemma refs_Nil [simp]: "refs f [] g u"
  by (simp add: refs_def)

subsection \<open>The contract of a keyed table\<close>

text \<open>
  What the callers of a keyed table use: a row that was put is the one found under its key, no
  other key is touched, a deleted key is gone, and the key stays a key.
\<close>

locale row_table =
  fixes key :: "'r \<Rightarrow> 'k"
    and look :: "'k \<Rightarrow> 'r list \<Rightarrow> 'r option"
    and put :: "('r \<Rightarrow> 'r) \<Rightarrow> 'r \<Rightarrow> 'r list \<Rightarrow> 'r list"
    and del :: "'k \<Rightarrow> 'r list \<Rightarrow> 'r list"
    and keyed :: "('r \<Rightarrow> 'r) \<Rightarrow> bool"
  assumes look_new: "look (key r) t = None \<Longrightarrow> look (key r) (put f r t) = Some r"
    and look_old: "keyed f \<Longrightarrow> look (key r) t = Some x \<Longrightarrow> look (key r) (put f r t) = Some (f x)"
    and look_other: "keyed f \<Longrightarrow> k \<noteq> key r \<Longrightarrow> look k (put f r t) = look k t"
    and look_del: "look k (del k' t) = (if k = k' then None else look k t)"
    and put_unique: "keyed f \<Longrightarrow> uniq_on key t \<Longrightarrow> uniq_on key (put f r t)"
begin

lemma look_put:
  "keyed f \<Longrightarrow> look k (put f r t) =
    (if k = key r then (case look k t of None \<Rightarrow> Some r | Some x \<Rightarrow> Some (f x)) else look k t)"
  by (cases "look k t") (auto simp: look_new look_old look_other)

lemma look_put_del: "keyed f \<Longrightarrow> look (key r) (del (key r) (put f r t)) = None"
  by (simp add: look_del)

lemma look_reput:
  "keyed f \<Longrightarrow> look (key r) (put f r (put f r t)) = map_option f (look (key r) (put f r t))"
  by (cases "look (key r) t") (auto simp: look_put)

end

definition keeps_key :: "('r \<Rightarrow> 'k) \<Rightarrow> ('r \<Rightarrow> 'r) \<Rightarrow> bool" where
  "keeps_key key f \<longleftrightarrow> (\<forall>r. key (f r) = key r)"

lemma find_upd_where:
  "(\<And>r. key (f r) = key r) \<Longrightarrow>
   find (\<lambda>x. key x = k) (upd_where (\<lambda>x. key x = j) f t) =
   map_option (\<lambda>x. if k = j then f x else x) (find (\<lambda>x. key x = k) t)"
  by (induction t) auto

lemma row_get_del_where:
  "row_get key k (del_where (\<lambda>x. key x = j) t) = (if k = j then None else row_get key k t)"
  unfolding row_get_def by (induction t) auto

lemma find_append:
  "find P (t @ u) = (case find P t of None \<Rightarrow> find P u | Some x \<Rightarrow> Some x)"
  by (induction t) auto

lemma row_get_put:
  assumes "keeps_key key f"
  shows "row_get key k (row_put key f r t) =
    (if k = key r then (case row_get key k t of None \<Rightarrow> Some r | Some x \<Rightarrow> Some (f x))
     else row_get key k t)"
proof -
  have kf: "key (f x) = key x" for x using assms by (simp add: keeps_key_def)
  show ?thesis
  proof (cases "has_row (\<lambda>x. key x = key r) t")
    case True
    then have "row_get key (key r) t \<noteq> None"
      by (simp add: row_get_None_iff has_row_key)
    with True kf show ?thesis
      by (auto simp: row_put_def row_get_def find_upd_where option.map_ident)
  next
    case False
    then have "row_get key (key r) t = None" by (auto simp: row_get_None_iff row_simps)
    with False show ?thesis
      by (auto simp: row_put_def row_get_def find_append split: option.splits)
  qed
qed

lemma uniq_on_row_put:
  "keeps_key key f \<Longrightarrow> uniq_on key t \<Longrightarrow> uniq_on key (row_put key f r t)"
  by (auto simp: row_put_def keeps_key_def row_simps intro!: uniq_on_upd_where uniq_on_snoc)

lemma row_table_list:
  "row_table key (row_get key) (row_put key) (\<lambda>k. del_where (\<lambda>x. key x = k)) (keeps_key key)"
proof
  show "row_get key (key r) (row_put key f r t) = Some r" if "row_get key (key r) t = None"
    for f r t
  proof -
    have "\<not> has_row (\<lambda>x. key x = key r) t"
      using that by (simp add: row_get_None_iff has_row_key)
    with that show ?thesis by (simp add: row_put_def row_get_def find_append)
  qed
qed (auto simp: row_get_put uniq_on_row_put row_get_del_where)

subsection \<open>Runs of operations\<close>

text \<open>
  Every stateful component is a step function. An invariant that holds at the start and that each
  operation keeps holds after every sequence of operations.
\<close>

primrec run_ops :: "('o \<Rightarrow> 's \<Rightarrow> 's) \<Rightarrow> 'o list \<Rightarrow> 's \<Rightarrow> 's" where
  "run_ops step [] s = s"
| "run_ops step (x # xs) s = run_ops step xs (step x s)"

lemma run_ops_append: "run_ops step (xs @ ys) s = run_ops step ys (run_ops step xs s)"
  by (induction xs arbitrary: s) auto

locale kept_invariant =
  fixes step :: "'o \<Rightarrow> 's \<Rightarrow> 's" and inv :: "'s \<Rightarrow> bool"
  assumes step_inv: "inv s \<Longrightarrow> inv (step x s)"
begin

lemma run_inv: "inv s \<Longrightarrow> inv (run_ops step xs s)"
  by (induction xs arbitrary: s) (auto intro: step_inv)

lemma run_inv_prefix: "inv s \<Longrightarrow> inv (run_ops step (take n xs) s)"
  by (rule run_inv)

end

subsection \<open>Rounding\<close>

definition py_round :: "rat \<Rightarrow> int" where
  "py_round x =
     (let n = \<lfloor>x\<rfloor>; d = x - of_int n in
      if d < 1/2 then n else if d > 1/2 then n + 1 else if even n then n else n + 1)"

lemma py_round_of_int [simp]: "py_round (of_int n) = n"
  by (simp add: py_round_def)

lemma py_round_error: "\<bar>of_int (py_round x) - x\<bar> \<le> 1/2"
proof -
  have "of_int \<lfloor>x\<rfloor> \<le> x" and "x < of_int \<lfloor>x\<rfloor> + 1" by linarith+
  then show ?thesis
    by (simp add: py_round_def Let_def abs_le_iff)
qed

end
