(* ===== verification/PyValue.thy ===== *)
theory PyValue
  imports Prelude "HOL-Library.AList" "HOL-Library.Sublist"
begin

text \<open>
  The Python values and string methods the program uses.

  \<^item> A character is a code point below 256 (the range of \<open>char\<close>); on that range \<open>py_lower\<close>,
    \<open>py_space\<close> and \<open>printable\<close> agree with \<open>str.lower\<close>, \<open>str.strip\<close> and \<open>repr\<close>.
  \<^item> \<open>pyval\<close> is a JSON document without fractional numbers: the inventory documents that the
    modules here pass around hold none. A dict is an association list in insertion order.
  \<^item> \<open>dget\<close> is \<open>d.get(k)\<close>, \<open>dset\<close> is \<open>d[k] = v\<close>, \<open>dmerge\<close> is
    \<open>{**a, **b}\<close> and \<open>a.update(b)\<close>, \<open>dpop\<close> is \<open>d.pop(k, None)\<close>,
    \<open>dsetdefault\<close> is \<open>d.setdefault(k, v)\<close>.
  The locale \<open>py_dict\<close> states the laws of the dict operations that the components use; it is
  interpreted on association lists.
\<close>

named_theorems py_simps \<open>evaluation of Python values\<close>

subsection \<open>Characters and strings\<close>

definition lower_code :: "nat \<Rightarrow> nat" where
  "lower_code n =
     (if 65 \<le> n \<and> n \<le> 90 \<or> 192 \<le> n \<and> n \<le> 222 \<and> n \<noteq> 215 then n + 32 else n)"

definition lower_char :: "char \<Rightarrow> char" where
  "lower_char c = char_of (lower_code (of_char c))"

definition py_lower :: "string \<Rightarrow> string" where
  "py_lower s = map lower_char s"

lemma lower_code_bound: "n < 256 \<Longrightarrow> lower_code n < 256"
  by (simp add: lower_code_def)

lemma lower_code_idem: "lower_code (lower_code n) = lower_code n"
  by (auto simp: lower_code_def)

lemma lower_char_idem [simp]: "lower_char (lower_char c) = lower_char c"
proof -
  have "lower_code (of_char c) < 256" by (rule lower_code_bound) simp
  then have "of_char (lower_char c) = lower_code (of_char c)"
    by (simp add: lower_char_def)
  then show ?thesis by (simp add: lower_char_def [of "lower_char c"] lower_code_idem lower_char_def)
qed

lemma py_lower_idem [simp]: "py_lower (py_lower s) = py_lower s"
  by (simp add: py_lower_def)

lemma py_lower_Nil [simp]: "py_lower [] = []" "py_lower s = [] \<longleftrightarrow> s = []"
  by (auto simp: py_lower_def)

lemma py_lower_append [simp]: "py_lower (s @ t) = py_lower s @ py_lower t"
  by (simp add: py_lower_def)

definition py_space :: "char \<Rightarrow> bool" where
  "py_space c = (let n = of_char c :: nat in
     9 \<le> n \<and> n \<le> 13 \<or> 28 \<le> n \<and> n \<le> 32 \<or> n = 133 \<or> n = 160)"

definition py_lstrip :: "string \<Rightarrow> string" where
  "py_lstrip s = dropWhile py_space s"

definition py_rstrip :: "string \<Rightarrow> string" where
  "py_rstrip s = rev (dropWhile py_space (rev s))"

definition py_strip :: "string \<Rightarrow> string" where
  "py_strip s = py_rstrip (py_lstrip s)"

lemma py_strip_Nil [simp]: "py_strip [] = []"
  by (simp add: py_strip_def py_rstrip_def py_lstrip_def)

lemma dropWhile_rev_dropWhile:
  "dropWhile P (rev (dropWhile P (rev (dropWhile P s)))) = rev (dropWhile P (rev (dropWhile P s)))"
proof (cases "dropWhile P s")
  case Nil
  then show ?thesis by (simp only: Nil rev.simps dropWhile.simps)
next
  case (Cons x xs)
  then have nx: "\<not> P x" by (metis dropWhile_eq_Cons_conv)
  have "dropWhile P (rev (x # xs)) = dropWhile P (rev xs) @ [x]" using nx
    by (induction "rev xs" rule: rev_induct) (auto simp: dropWhile_append)
  with Cons nx show ?thesis by simp
qed

lemma py_strip_idem [simp]: "py_strip (py_strip s) = py_strip s"
  by (simp add: py_strip_def py_rstrip_def py_lstrip_def dropWhile_rev_dropWhile)

definition startswith :: "string \<Rightarrow> string \<Rightarrow> bool" where
  "startswith s p = prefix p s"

definition endswith :: "string \<Rightarrow> string \<Rightarrow> bool" where
  "endswith s p = suffix p s"

fun contains :: "string \<Rightarrow> string \<Rightarrow> bool" where
  "contains [] p = (p = [])"
| "contains (c # s) p = (prefix p (c # s) \<or> contains s p)"

lemma contains_sublist: "contains s p \<longleftrightarrow> sublist p s"
  by (induction s) (auto simp: sublist_Cons_right)

fun partition_char :: "char \<Rightarrow> string \<Rightarrow> string \<times> bool \<times> string" where
  "partition_char c [] = ([], False, [])"
| "partition_char c (x # s) =
     (if x = c then ([], True, s)
      else (case partition_char c s of (a, f, b) \<Rightarrow> (x # a, f, b)))"

lemma partition_char_absent:
  "c \<notin> set s \<Longrightarrow> partition_char c s = (s, False, [])"
  by (induction s) auto

lemma partition_char_at:
  "c \<notin> set s \<Longrightarrow> partition_char c (s @ c # t) = (s, True, t)"
  by (induction s) auto

definition rpartition_char :: "char \<Rightarrow> string \<Rightarrow> string \<times> bool \<times> string" where
  "rpartition_char c s =
     (case partition_char c (rev s) of
        (b, True, a) \<Rightarrow> (rev a, True, rev b)
      | (b, False, a) \<Rightarrow> ([], False, s))"

fun split_char :: "char \<Rightarrow> string \<Rightarrow> string list" where
  "split_char c [] = [[]]"
| "split_char c (x # s) =
     (if x = c then [] # split_char c s
      else (case split_char c s of [] \<Rightarrow> [[x]] | w # ws \<Rightarrow> (x # w) # ws))"

definition py_join :: "string \<Rightarrow> string list \<Rightarrow> string" where
  "py_join sep ws = (case ws of [] \<Rightarrow> [] | w # r \<Rightarrow> w @ concat (map (\<lambda>x. sep @ x) r))"

lemma split_char_nonempty: "split_char c s \<noteq> []"
  by (induction s) (auto split: list.splits)

lemma join_split_char: "py_join [c] (split_char c s) = s"
proof (induction s)
  case Nil
  then show ?case by (simp add: py_join_def)
next
  case (Cons x s)
  then show ?case using split_char_nonempty [of c s]
    by (auto simp: py_join_def append_Cons [abs_def] split: list.splits)
qed

definition is_digit :: "char \<Rightarrow> bool" where
  "is_digit c = (let n = of_char c :: nat in 48 \<le> n \<and> n \<le> 57)"

definition is_alpha_ascii :: "char \<Rightarrow> bool" where
  "is_alpha_ascii c = (let n = of_char c :: nat in 65 \<le> n \<and> n \<le> 90 \<or> 97 \<le> n \<and> n \<le> 122)"

fun nat_digits :: "nat \<Rightarrow> string" where
  "nat_digits n =
     (if n < 10 then [char_of (48 + n)] else nat_digits (n div 10) @ [char_of (48 + n mod 10)])"

declare nat_digits.simps [simp del]

definition int_str :: "int \<Rightarrow> string" where
  "int_str i = (if i < 0 then CHR ''-'' # nat_digits (nat (- i)) else nat_digits (nat i))"

definition digits_val :: "string \<Rightarrow> nat" where
  "digits_val s = foldl (\<lambda>n c. 10 * n + (of_char c - 48)) 0 s"

lemma digits_val_snoc: "digits_val (s @ [c]) = 10 * digits_val s + (of_char c - 48)"
  by (simp add: digits_val_def)

lemma of_char_digit: "n < 10 \<Longrightarrow> of_char (char_of (48 + n) :: char) = (48 + n :: nat)"
  by simp

lemma digits_val_nat_digits: "digits_val (nat_digits n) = n"
proof (induction n rule: nat_digits.induct)
  case (1 n)
  show ?case
  proof (cases "n < 10")
    case True
    then show ?thesis
      by (subst nat_digits.simps) (simp add: digits_val_def)
  next
    case False
    have "digits_val (nat_digits n) = 10 * digits_val (nat_digits (n div 10)) + n mod 10"
      using False by (subst nat_digits.simps) (simp add: digits_val_snoc)
    with "1" False show ?thesis by simp
  qed
qed

lemma is_digit_char_of: "(n::nat) < 10 \<Longrightarrow> is_digit (char_of (48 + n))"
  by (simp add: is_digit_def Let_def)

lemma nat_digits_all: "list_all is_digit (nat_digits n)"
proof (induction n rule: nat_digits.induct)
  case (1 n)
  show ?case
  proof (cases "n < 10")
    case True
    then show ?thesis by (subst nat_digits.simps) (simp add: is_digit_char_of)
  next
    case False
    with "1" show ?thesis
      by (subst nat_digits.simps) (simp add: is_digit_char_of)
  qed
qed

lemma nat_digits_nonempty [simp]: "nat_digits n \<noteq> []"
  by (subst nat_digits.simps) simp

lemma nat_digits_inj: "nat_digits m = nat_digits n \<Longrightarrow> m = n"
  by (metis digits_val_nat_digits)

subsection \<open>Values\<close>

datatype pyval =
    PNone
  | PBool bool
  | PInt int
  | PStr string
  | PList "pyval list"
  | PDict "(string \<times> pyval) list"

type_synonym pydict = "(string \<times> pyval) list"

fun truthy :: "pyval \<Rightarrow> bool" where
  "truthy PNone = False"
| "truthy (PBool b) = b"
| "truthy (PInt i) = (i \<noteq> 0)"
| "truthy (PStr s) = (s \<noteq> [])"
| "truthy (PList l) = (l \<noteq> [])"
| "truthy (PDict d) = (d \<noteq> [])"

definition py_or :: "pyval \<Rightarrow> pyval \<Rightarrow> pyval" where
  "py_or a b = (if truthy a then a else b)"

lemma py_or_simps [simp, py_simps]:
  "truthy a \<Longrightarrow> py_or a b = a" "\<not> truthy a \<Longrightarrow> py_or a b = b"
  by (simp_all add: py_or_def)

text \<open>\<open>repr\<close> of a string quotes it; \<open>str\<close> of a container shows the \<open>repr\<close> of its parts.\<close>

definition printable :: "char \<Rightarrow> bool" where
  "printable c = (let n = of_char c :: nat in 32 \<le> n \<and> n < 127 \<or> 161 \<le> n \<and> n \<noteq> 173)"

definition hex_digit :: "nat \<Rightarrow> char" where
  "hex_digit n = (if n < 10 then char_of (48 + n) else char_of (87 + n))"

definition repr_char :: "char \<Rightarrow> char \<Rightarrow> string" where
  "repr_char q c =
     (if c = q \<or> c = CHR 0x5C then [CHR 0x5C, c]
      else if c = CHR 0x09 then [CHR 0x5C, CHR ''t'']
      else if c = CHR 0x0A then [CHR 0x5C, CHR ''n'']
      else if c = CHR 0x0D then [CHR 0x5C, CHR ''r'']
      else if printable c then [c]
      else [CHR 0x5C, CHR ''x'', hex_digit (of_char c div 16), hex_digit (of_char c mod 16)])"

definition repr_str :: "string \<Rightarrow> string" where
  "repr_str s =
     (let q = (if CHR 0x27 \<in> set s \<and> CHR 0x22 \<notin> set s then CHR 0x22 else CHR 0x27)
      in [q] @ concat (map (repr_char q) s) @ [q])"

fun py_repr :: "pyval \<Rightarrow> string" where
  "py_repr PNone = ''None''"
| "py_repr (PBool b) = (if b then ''True'' else ''False'')"
| "py_repr (PInt i) = int_str i"
| "py_repr (PStr s) = repr_str s"
| "py_repr (PList l) = ''['' @ py_join '', '' (map py_repr l) @ '']''"
| "py_repr (PDict d) =
     ''{'' @ py_join '', '' (map (\<lambda>(k, v). repr_str k @ '': '' @ py_repr v) d) @ ''}''"

definition py_str :: "pyval \<Rightarrow> string" where
  "py_str v = (case v of PStr s \<Rightarrow> s | _ \<Rightarrow> py_repr v)"

lemma py_str_PStr [simp]: "py_str (PStr s) = s"
  by (simp add: py_str_def)

subsection \<open>Dicts\<close>

definition dget :: "pydict \<Rightarrow> string \<Rightarrow> pyval" where
  "dget d k = (case map_of d k of None \<Rightarrow> PNone | Some v \<Rightarrow> v)"

definition dhas :: "string \<Rightarrow> pydict \<Rightarrow> bool" where
  "dhas k d = (map_of d k \<noteq> None)"

definition dget_or :: "pydict \<Rightarrow> string \<Rightarrow> pyval \<Rightarrow> pyval" where
  "dget_or d k v = (case map_of d k of None \<Rightarrow> v | Some x \<Rightarrow> x)"

definition dset :: "string \<Rightarrow> pyval \<Rightarrow> pydict \<Rightarrow> pydict" where
  "dset k v d = AList.update k v d"

definition dpop :: "string \<Rightarrow> pydict \<Rightarrow> pydict" where
  "dpop k d = AList.delete k d"

definition dsetdefault :: "string \<Rightarrow> pyval \<Rightarrow> pydict \<Rightarrow> pydict" where
  "dsetdefault k v d = (if dhas k d then d else dset k v d)"

fun dmerge :: "pydict \<Rightarrow> pydict \<Rightarrow> pydict" where
  "dmerge a [] = a"
| "dmerge a ((k, v) # b) = dmerge (dset k v a) b"

text \<open>A nested dict is read with \<open>x.get(k) or {}\<close>; on the documents here \<open>x[k]\<close> is a dict or None.\<close>

definition dsub :: "pydict \<Rightarrow> string \<Rightarrow> pydict" where
  "dsub d k = (case dget d k of PDict e \<Rightarrow> e | _ \<Rightarrow> [])"

definition dlist :: "pydict \<Rightarrow> string \<Rightarrow> pyval list" where
  "dlist d k = (case dget d k of PList l \<Rightarrow> l | _ \<Rightarrow> [])"

definition dict_items :: "pyval list \<Rightarrow> pydict list" where
  "dict_items l = concat (map (\<lambda>v. case v of PDict d \<Rightarrow> [d] | _ \<Rightarrow> []) l)"

locale py_dict =
  fixes lookup :: "'d \<Rightarrow> 'k \<Rightarrow> 'v option"
    and assign :: "'k \<Rightarrow> 'v \<Rightarrow> 'd \<Rightarrow> 'd"
    and pop :: "'k \<Rightarrow> 'd \<Rightarrow> 'd"
  assumes lookup_assign: "lookup (assign k v d) j = (if j = k then Some v else lookup d j)"
    and lookup_pop: "lookup (pop k d) j = (if j = k then None else lookup d j)"
begin

lemma lookup_assign_same: "lookup (assign k v d) k = Some v"
  by (simp add: lookup_assign)

lemma lookup_pop_assign: "lookup (pop k (assign k v d)) j = lookup (pop k d) j"
  by (simp add: lookup_pop lookup_assign)

end

interpretation pd: py_dict "map_of :: pydict \<Rightarrow> string \<Rightarrow> pyval option" dset dpop
  by unfold_locales (auto simp: dset_def dpop_def update_conv delete_conv)

lemma map_of_dset [simp]: "map_of (dset k v d) j = (if j = k then Some v else map_of d j)"
  by (rule pd.lookup_assign)

lemma map_of_dpop [simp]: "map_of (dpop k d) j = (if j = k then None else map_of d j)"
  by (rule pd.lookup_pop)

lemma dget_dset [simp]: "dget (dset k v d) j = (if j = k then v else dget d j)"
  by (simp add: dget_def)

lemma dget_dpop [simp]: "dget (dpop k d) j = (if j = k then PNone else dget d j)"
  by (simp add: dget_def)

lemma dhas_dset [simp]: "dhas j (dset k v d) \<longleftrightarrow> j = k \<or> dhas j d"
  by (auto simp: dhas_def)

lemma dhas_dpop [simp]: "dhas j (dpop k d) \<longleftrightarrow> j \<noteq> k \<and> dhas j d"
  by (auto simp: dhas_def)

lemma dget_Nil [simp]: "dget [] k = PNone"
  by (simp add: dget_def)

lemma dget_absent: "\<not> dhas k d \<Longrightarrow> dget d k = PNone"
  by (auto simp: dhas_def dget_def)

lemma map_of_dsetdefault [simp]:
  "map_of (dsetdefault k v d) j = (if j = k \<and> \<not> dhas k d then Some v else map_of d j)"
  by (auto simp: dsetdefault_def)

lemma dget_dsetdefault [simp]:
  "dget (dsetdefault k v d) j = (if j = k \<and> \<not> dhas k d then v else dget d j)"
  by (simp add: dget_def)

lemma dhas_dsetdefault [simp]: "dhas j (dsetdefault k v d) \<longleftrightarrow> j = k \<or> dhas j d"
  by (auto simp: dsetdefault_def)

lemma map_of_dmerge_absent: "k \<notin> fst ` set b \<Longrightarrow> map_of (dmerge a b) k = map_of a k"
  by (induction a b rule: dmerge.induct) auto

lemma map_of_dmerge:
  "distinct (map fst b) \<Longrightarrow>
   map_of (dmerge a b) k = (case map_of b k of None \<Rightarrow> map_of a k | Some v \<Rightarrow> Some v)"
  by (induction a b rule: dmerge.induct) (auto simp: map_of_dmerge_absent split: option.split)

lemma dmerge_Nil_right [simp]: "dmerge a [] = a"
  by simp

end
