(* ===== verification/Net.thy ===== *)
theory Net
  imports PyValue
begin

text \<open>
  IPv4 addresses and networks, as Python's \<open>ipaddress\<close> parses and prints them. An address is its
  32-bit number, a network its first address and prefix length (\<open>strict=False\<close> clears the host
  bits). \<open>parse_ipv4\<close> refuses leading zeros and octets above 255 as the library does;
  \<open>parse_network\<close> takes a prefix length, a netmask or a hostmask after the slash.
\<close>

type_synonym ipv4 = nat

record ipv4_network =
  net_base :: ipv4
  net_plen :: nat

definition parse_octet :: "string \<Rightarrow> nat option" where
  "parse_octet s =
     (if s = [] \<or> \<not> list_all is_digit s \<or> 3 < length s then None
      else if s \<noteq> ''0'' \<and> hd s = CHR ''0'' then None
      else if 255 < digits_val s then None else Some (digits_val s))"

definition parse_ipv4 :: "string \<Rightarrow> ipv4 option" where
  "parse_ipv4 s =
     (case map parse_octet (split_char CHR ''.'' s) of
        [Some a, Some b, Some c, Some d] \<Rightarrow> Some (((a * 256 + b) * 256 + c) * 256 + d)
      | _ \<Rightarrow> None)"

definition octets :: "ipv4 \<Rightarrow> nat list" where
  "octets n = [n div 16777216 mod 256, n div 65536 mod 256, n div 256 mod 256, n mod 256]"

definition ipv4_str :: "ipv4 \<Rightarrow> string" where
  "ipv4_str n = py_join ''.'' (map nat_digits (octets n))"

definition net_size :: "nat \<Rightarrow> nat" where
  "net_size p = 2 ^ (32 - p)"

definition mk_network :: "ipv4 \<Rightarrow> nat \<Rightarrow> ipv4_network" where
  "mk_network a p = \<lparr>net_base = a div net_size p * net_size p, net_plen = p\<rparr>"

definition num_addresses :: "ipv4_network \<Rightarrow> nat" where
  "num_addresses n = net_size (net_plen n)"

definition in_net :: "ipv4 \<Rightarrow> ipv4_network \<Rightarrow> bool" where
  "in_net a n \<longleftrightarrow> a div net_size (net_plen n) * net_size (net_plen n) = net_base n"

definition broadcast :: "ipv4_network \<Rightarrow> ipv4" where
  "broadcast n = net_base n + num_addresses n - 1"

definition subnet_of :: "ipv4_network \<Rightarrow> ipv4_network \<Rightarrow> bool" where
  "subnet_of a b \<longleftrightarrow> net_base b \<le> net_base a \<and> broadcast a \<le> broadcast b"

definition network_str :: "ipv4_network \<Rightarrow> string" where
  "network_str n = ipv4_str (net_base n) @ ''/'' @ nat_digits (net_plen n)"

definition prefix_of_mask :: "nat \<Rightarrow> nat option" where
  "prefix_of_mask m = find (\<lambda>p. m = 2 ^ 32 - net_size p) [0..<33]"

definition parse_prefix :: "string \<Rightarrow> nat option" where
  "parse_prefix s =
     (if s \<noteq> [] \<and> list_all is_digit s then
        (if digits_val s \<le> 32 then Some (digits_val s) else None)
      else
        (case parse_ipv4 s of
           None \<Rightarrow> None
         | Some m \<Rightarrow>
             (case prefix_of_mask m of
                Some p \<Rightarrow> Some p
              | None \<Rightarrow> prefix_of_mask (2 ^ 32 - 1 - m))))"

definition parse_network :: "string \<Rightarrow> ipv4_network option" where
  "parse_network s =
     (case split_char CHR ''/'' s of
        [a] \<Rightarrow> map_option (\<lambda>n. mk_network n 32) (parse_ipv4 a)
      | [a, p] \<Rightarrow>
          (case (parse_ipv4 a, parse_prefix p) of
             (Some n, Some k) \<Rightarrow> Some (mk_network n k)
           | _ \<Rightarrow> None)
      | _ \<Rightarrow> None)"

definition private_networks :: "ipv4_network list" where
  "private_networks = map (\<lambda>(a, b, c, d, p). mk_network (((a * 256 + b) * 256 + c) * 256 + d) p)
     [(0, 0, 0, 0, 8), (10, 0, 0, 0, 8), (127, 0, 0, 0, 8), (169, 254, 0, 0, 16),
      (172, 16, 0, 0, 12), (192, 0, 0, 0, 24), (192, 0, 0, 170, 31), (192, 0, 2, 0, 24),
      (192, 168, 0, 0, 16), (198, 18, 0, 0, 15), (198, 51, 100, 0, 24), (203, 0, 113, 0, 24),
      (240, 0, 0, 0, 4), (255, 255, 255, 255, 32)]"

definition private_exceptions :: "ipv4_network list" where
  "private_exceptions = map (\<lambda>d. mk_network (192 * 16777216 + d) 32) [9, 10]"

definition is_private :: "ipv4 \<Rightarrow> bool" where
  "is_private a \<longleftrightarrow> list_ex (in_net a) private_networks \<and> \<not> list_ex (in_net a) private_exceptions"

definition is_loopback :: "ipv4 \<Rightarrow> bool" where
  "is_loopback a \<longleftrightarrow> in_net a (mk_network (127 * 16777216) 8)"

definition is_link_local :: "ipv4 \<Rightarrow> bool" where
  "is_link_local a \<longleftrightarrow> in_net a (mk_network (169 * 16777216 + 254 * 65536) 16)"

definition is_multicast :: "ipv4 \<Rightarrow> bool" where
  "is_multicast a \<longleftrightarrow> in_net a (mk_network (224 * 16777216) 4)"

definition is_unspecified :: "ipv4 \<Rightarrow> bool" where
  "is_unspecified a \<longleftrightarrow> a = 0"

subsection \<open>Networks\<close>

lemma net_size_pos [simp]: "0 < net_size p"
  by (simp add: net_size_def)

lemma net_size_nonzero [simp]: "net_size p \<noteq> 0"
  by (simp add: net_size_def)

lemma in_net_mk_network [simp]:
  "in_net a (mk_network b p) \<longleftrightarrow> a div net_size p = b div net_size p"
  by (simp add: in_net_def mk_network_def)

lemma in_net_range:
  "in_net a (mk_network b p) \<longleftrightarrow>
   net_base (mk_network b p) \<le> a \<and> a \<le> broadcast (mk_network b p)"
proof -
  let ?s = "net_size p"
  have "a div ?s = b div ?s \<longleftrightarrow> b div ?s * ?s \<le> a \<and> a < b div ?s * ?s + ?s"
    by (metis add.commute div_nat_eqI div_times_less_eq_dividend dividend_less_times_div
        mult.commute mult_Suc net_size_pos)
  moreover have "a < b div ?s * ?s + ?s \<longleftrightarrow> a \<le> b div ?s * ?s + ?s - 1"
    using net_size_pos [of p] by linarith
  ultimately show ?thesis
    by (simp add: mk_network_def broadcast_def num_addresses_def in_net_def)
qed

lemma subnet_of_in_net:
  assumes "subnet_of (mk_network a p) (mk_network b q)" and "in_net x (mk_network a p)"
  shows "in_net x (mk_network b q)"
  using assms unfolding in_net_range subnet_of_def by simp

lemma mk_network_self: "in_net a (mk_network a p)"
  by simp

subsection \<open>Printing and parsing\<close>

lemma digit_not_dot: "list_all is_digit s \<Longrightarrow> CHR ''.'' \<notin> set s"
  by (auto simp: list_all_iff is_digit_def)

lemma digit_not_slash: "list_all is_digit s \<Longrightarrow> CHR ''/'' \<notin> set s"
  by (auto simp: list_all_iff is_digit_def)

lemma split_char_absent: "c \<notin> set s \<Longrightarrow> split_char c s = [s]"
  by (induction s) auto

lemma split_char_append: "c \<notin> set s \<Longrightarrow> split_char c (s @ c # t) = s # split_char c t"
  by (induction s) auto

lemma nat_digits_length:
  "n < 256 \<Longrightarrow> length (nat_digits n) \<le> 3"
  by (subst nat_digits.simps, simp, subst nat_digits.simps, simp, subst nat_digits.simps, simp)

lemma nat_digits_hd: "0 < n \<Longrightarrow> hd (nat_digits n) \<noteq> CHR ''0''"
proof (induction n rule: nat_digits.induct)
  case (1 n)
  show ?case
  proof (cases "n < 10")
    case True
    have "char_of (48 + n) \<noteq> CHR ''0''"
    proof
      assume "char_of (48 + n) = CHR ''0''"
      then have "of_char (char_of (48 + n) :: char) = (48 :: nat)" by simp
      with True "1.prems" show False by simp
    qed
    with True show ?thesis by (subst nat_digits.simps) simp
  next
    case False
    with "1" show ?thesis by (subst nat_digits.simps) (simp add: hd_append)
  qed
qed

lemma parse_octet_digits: "n < 256 \<Longrightarrow> parse_octet (nat_digits n) = Some n"
proof -
  assume n: "n < 256"
  have "nat_digits n \<noteq> ''0'' \<Longrightarrow> hd (nat_digits n) \<noteq> CHR ''0''"
  proof (cases n)
    case 0
    assume "nat_digits n \<noteq> ''0''"
    moreover have "nat_digits 0 = ''0''" by (subst nat_digits.simps) code_simp
    ultimately show ?thesis using 0 by simp
  next
    case (Suc k)
    then show ?thesis using nat_digits_hd [of n] by simp
  qed
  moreover have "\<not> 3 < length (nat_digits n)" using nat_digits_length [OF n] by simp
  ultimately show ?thesis using n
    by (auto simp: parse_octet_def nat_digits_all digits_val_nat_digits)
qed

lemma split_ipv4_str:
  "split_char CHR ''.'' (ipv4_str n) = map nat_digits (octets n)"
  by (simp add: ipv4_str_def octets_def py_join_def split_char_append split_char_absent
      digit_not_dot nat_digits_all)

lemma octets_value:
  assumes "(n::nat) < 2 ^ 32"
  shows "((n div 16777216 mod 256 * 256 + n div 65536 mod 256) * 256 + n div 256 mod 256) * 256
    + n mod 256 = n"
proof -
  have "n div 16777216 < 256" using assms by (simp add: div_less_iff_less_mult)
  then have a: "n div 16777216 mod 256 = n div 16777216" by simp
  have d: "n div 65536 = n div 256 div 256" "n div 16777216 = n div 65536 div 256"
    by (simp_all add: div_mult2_eq [symmetric])
  have "n div 16777216 * 256 + n div 65536 mod 256 = n div 65536"
    by (simp only: d(2) div_mult_mod_eq)
  moreover have "n div 65536 * 256 + n div 256 mod 256 = n div 256"
    by (simp only: d(1) div_mult_mod_eq)
  ultimately show ?thesis by (simp only: a div_mult_mod_eq)
qed

theorem parse_ipv4_str: "n < 2 ^ 32 \<Longrightarrow> parse_ipv4 (ipv4_str n) = Some n"
  using octets_value [of n]
  by (simp add: parse_ipv4_def split_ipv4_str octets_def parse_octet_digits)

lemma ipv4_str_inj: "m < 2 ^ 32 \<Longrightarrow> n < 2 ^ 32 \<Longrightarrow> ipv4_str m = ipv4_str n \<Longrightarrow> m = n"
  by (metis option.inject parse_ipv4_str)

lemma slash_ipv4_str: "CHR ''/'' \<notin> set (ipv4_str n)"
  by (auto simp: ipv4_str_def octets_def py_join_def dest: digit_not_slash [OF nat_digits_all, THEN notE])

lemma parse_network_str:
  assumes "net_base n < 2 ^ 32" "net_plen n \<le> 32" "net_base n mod net_size (net_plen n) = 0"
  shows "parse_network (network_str n) = Some n"
proof -
  have "split_char CHR ''/'' (network_str n) = [ipv4_str (net_base n), nat_digits (net_plen n)]"
    by (simp add: network_str_def split_char_append slash_ipv4_str split_char_absent
        digit_not_slash nat_digits_all)
  moreover have "parse_prefix (nat_digits (net_plen n)) = Some (net_plen n)"
    using assms(2) by (simp add: parse_prefix_def nat_digits_all digits_val_nat_digits)
  moreover have "net_base n div net_size (net_plen n) * net_size (net_plen n) = net_base n"
    using assms(3) by (simp add: mod_eq_0_iff_dvd)
  ultimately show ?thesis using assms(1)
    by (simp add: parse_network_def parse_ipv4_str mk_network_def)
qed


lemmas net_eval_simps =
  parse_ipv4_def parse_octet_def digits_val_def is_digit_def

end
