(* ===== verification/Inventory.thy ===== *)
theory Inventory
  imports Net "HOL-Library.Multiset"
begin

text \<open>
  The discovery inventory (camadmiral/inventory.py and camadmiral/scan_state.py). A device is a
  dict; a scan yields observations that are reconciled with the previous inventory by ONVIF
  endpoint reference, then MAC, then (for observations with no stable identity) IP address.

  \<open>fresh n\<close> is the n-th value of \<open>str(uuid.uuid4())\<close>: the observation at position n of
  the scan and the previous device at position \<open>length current + n\<close> draw from different positions.
  An \<open>onvif\<close> entry is a dict or None and \<open>missed_scans\<close> an int or absent, as the scanner
  writes them.
\<close>

type_synonym device = pydict

definition text_of :: "pydict \<Rightarrow> string \<Rightarrow> string" where
  "text_of d k = py_str (py_or (dget d k) (PStr []))"

definition ident_of :: "pydict \<Rightarrow> string \<Rightarrow> string" where
  "ident_of d k = py_lower (py_strip (text_of d k))"

definition stable_keys :: "device \<Rightarrow> string list" where
  "stable_keys d =
     (let mac = ident_of d ''mac'';
          endpoint_reference = ident_of (dsub d ''onvif'') ''endpoint_reference''
      in (if mac \<noteq> [] then [''mac:'' @ mac] else []) @
         (if endpoint_reference \<noteq> [] then [''onvif:'' @ endpoint_reference] else []))"

definition onvif_key :: "device \<Rightarrow> string option" where
  "onvif_key d =
     (let endpoint_reference = ident_of (dsub d ''onvif'') ''endpoint_reference''
      in if endpoint_reference \<noteq> [] then Some (''onvif:'' @ endpoint_reference) else None)"

definition mac_key :: "device \<Rightarrow> string option" where
  "mac_key d = (let mac = ident_of d ''mac'' in if mac \<noteq> [] then Some (''mac:'' @ mac) else None)"

subsection \<open>Identity conflicts\<close>

text \<open>\<open>owners items k\<close> is the list of indices the dict \<open>owners\<close> (and
  \<open>previous_stable_indices\<close>) holds under key \<open>k\<close>.\<close>

definition owners :: "device list \<Rightarrow> string \<Rightarrow> nat list" where
  "owners items k = filter (\<lambda>i. k \<in> set (stable_keys (items ! i))) [0..<length items]"

definition key_label :: "string \<Rightarrow> string" where
  "key_label k = (if startswith k ''mac:'' then ''MAC address'' else ''ONVIF identity'')"

definition conflict_labels :: "device list \<Rightarrow> nat \<Rightarrow> string list" where
  "conflict_labels items index =
     sort (remdups (map key_label
       (filter (\<lambda>k. 1 < length (owners items k)) (stable_keys (items ! index)))))"

definition annotate_device :: "string list \<Rightarrow> device \<Rightarrow> device" where
  "annotate_device labels d =
     (let d1 = dset ''identity_conflict'' (PBool (labels \<noteq> [])) d in
      if labels \<noteq> []
      then dset ''identity_conflict_reason'' (PStr (''Duplicate '' @ py_join '' and '' labels)) d1
      else dpop ''identity_conflict_reason'' d1)"

definition annotate_identity_conflicts :: "device list \<Rightarrow> device list" where
  "annotate_identity_conflicts devices =
     map (\<lambda>i. annotate_device (conflict_labels devices i) (devices ! i)) [0..<length devices]"

subsection \<open>Merging one observation\<close>

definition keep_services :: "pydict \<Rightarrow> device \<Rightarrow> device \<Rightarrow> device" where
  "keep_services previous current merged =
     foldl (\<lambda>m field. if \<not> truthy (dget current field) \<and> truthy (dget previous field)
                      then dset field (dget previous field) m else m)
       merged [''onvif'', ''rtsp'']"

definition merge_online :: "device option \<Rightarrow> device \<Rightarrow> string \<Rightarrow> string \<Rightarrow> device" where
  "merge_online previous current seen_at new_uuid =
     (let prev = (case previous of None \<Rightarrow> [] | Some p \<Rightarrow> p);
          merged = dpop ''ignored'' (dmerge prev current);
          same_address = (prev \<noteq> [] \<and> dget prev ''ip'' = dget current ''ip'');
          merged = (if same_address then keep_services prev current merged else merged);
          merged = (if same_address \<and> dget current ''display_name'' = dget current ''ip''
                       \<and> truthy (dget prev ''display_name'')
                    then dset ''display_name'' (dget prev ''display_name'') merged else merged)
      in dmerge merged
           [(''candidate_uuid'', py_or (py_or (dget prev ''candidate_uuid'')
                                             (dget current ''candidate_uuid'')) (PStr new_uuid)),
            (''status'', PStr ''online''),
            (''first_seen'', dget_or prev ''first_seen'' (PStr seen_at)),
            (''last_seen'', PStr seen_at),
            (''last_service_seen'', PStr seen_at),
            (''service_status'', PStr ''available''),
            (''missed_scans'', PInt 0)])"

subsection \<open>Reconciliation\<close>

definition stable_index :: "device list \<Rightarrow> device list \<Rightarrow> string \<Rightarrow> nat option" where
  "stable_index previous current k =
     (case owners previous k of
        [i] \<Rightarrow> if length (owners current k) = 1 then Some i else None
      | _ \<Rightarrow> None)"

definition ip_index :: "device list \<Rightarrow> string \<Rightarrow> nat option" where
  "ip_index previous a =
     find (\<lambda>i. text_of (previous ! i) ''ip'' \<noteq> [] \<and> text_of (previous ! i) ''ip'' = a)
       [0..<length previous]"

definition unmatched :: "nat list \<Rightarrow> nat option \<Rightarrow> nat option" where
  "unmatched matched c = (case c of Some i \<Rightarrow> if i \<notin> set matched then Some i else None | None \<Rightarrow> None)"

definition match_previous :: "device list \<Rightarrow> device list \<Rightarrow> nat list \<Rightarrow> device \<Rightarrow> nat option" where
  "match_previous previous current matched observation =
     (let by_key = (\<lambda>key. case key of None \<Rightarrow> None
                     | Some k \<Rightarrow> unmatched matched (stable_index previous current k))
      in case by_key (onvif_key observation) of
           Some i \<Rightarrow> Some i
         | None \<Rightarrow>
             (case by_key (mac_key observation) of
                Some i \<Rightarrow> Some i
              | None \<Rightarrow>
                  if stable_keys observation = []
                  then unmatched matched (ip_index previous (text_of observation ''ip''))
                  else None))"

fun match_loop ::
  "device list \<Rightarrow> device list \<Rightarrow> string \<Rightarrow> (nat \<Rightarrow> string) \<Rightarrow> device list \<Rightarrow> nat \<Rightarrow> nat list
    \<Rightarrow> nat list \<times> device list" where
  "match_loop previous current seen_at fresh [] n matched = (matched, [])"
| "match_loop previous current seen_at fresh (observation # rest) n matched =
     (let previous_index = match_previous previous current matched observation;
          old = map_option (\<lambda>i. previous ! i) previous_index;
          matched' = (case previous_index of None \<Rightarrow> matched | Some i \<Rightarrow> i # matched);
          (final, reconciled) = match_loop previous current seen_at fresh rest (Suc n) matched'
      in (final, merge_online old observation seen_at (fresh n) # reconciled))"

definition missed_scans :: "device \<Rightarrow> int" where
  "missed_scans d =
     (case dget_or d ''missed_scans'' (PInt 0) of PInt i \<Rightarrow> i | PBool b \<Rightarrow> of_bool b | _ \<Rightarrow> 0)"

definition carry_over :: "string list \<Rightarrow> string \<Rightarrow> string \<Rightarrow> device \<Rightarrow> device" where
  "carry_over reachable seen_at new_uuid old =
     (let candidate_uuid = py_or (dget old ''candidate_uuid'') (PStr new_uuid);
          base = dpop ''ignored'' old;
          first_seen = dget_or old ''last_seen'' (PStr seen_at)
      in if text_of old ''ip'' \<in> set reachable
         then dsetdefault ''first_seen'' first_seen
                (dmerge base
                   [(''candidate_uuid'', candidate_uuid),
                    (''status'', PStr ''online''),
                    (''service_status'', PStr ''unavailable''),
                    (''last_seen'', PStr seen_at),
                    (''last_service_seen'', py_or (dget old ''last_service_seen'') (dget old ''last_seen'')),
                    (''missed_scans'', PInt 0)])
         else dsetdefault ''last_seen'' (PStr seen_at)
                (dsetdefault ''first_seen'' first_seen
                  (dmerge base
                     [(''candidate_uuid'', candidate_uuid),
                      (''status'', PStr ''offline''),
                      (''missed_scans'', PInt (missed_scans old + 1))])))"

definition display_key :: "device \<Rightarrow> bool \<times> string" where
  "display_key d =
     (dget d ''status'' \<noteq> PStr ''online'',
      py_lower (py_str (py_or (py_or (dget d ''display_name'') (dget d ''ip'')) (PStr []))))"

definition reconcile_list ::
  "device list \<Rightarrow> device list \<Rightarrow> string \<Rightarrow> string list \<Rightarrow> (nat \<Rightarrow> string) \<Rightarrow> device list" where
  "reconcile_list previous current seen_at reachable fresh =
     (case match_loop previous current seen_at fresh current 0 [] of
        (matched, reconciled) \<Rightarrow>
          reconciled @
          map (\<lambda>i. carry_over reachable seen_at (fresh (length current + i)) (previous ! i))
            (filter (\<lambda>i. i \<notin> set matched) [0..<length previous]))"

definition reconcile_inventory ::
  "device list \<Rightarrow> device list \<Rightarrow> string \<Rightarrow> string list \<Rightarrow> (nat \<Rightarrow> string) \<Rightarrow> device list" where
  "reconcile_inventory previous current seen_at reachable fresh =
     sort_key display_key
       (annotate_identity_conflicts (reconcile_list previous current seen_at reachable fresh))"

text \<open>A bad CIDR makes \<open>IPv4Network\<close> raise ValueError before anything else is done: None.\<close>

fun parse_networks :: "string list \<Rightarrow> ipv4_network list option" where
  "parse_networks [] = Some []"
| "parse_networks (s # ss) =
     (case parse_network s of
        None \<Rightarrow> None
      | Some n \<Rightarrow> map_option ((#) n) (parse_networks ss))"

definition targeted_device :: "ipv4_network list \<Rightarrow> string list \<Rightarrow> device \<Rightarrow> bool" where
  "targeted_device networks observed_keys d =
     ((case parse_ipv4 (text_of d ''ip'') of
         None \<Rightarrow> False
       | Some address \<Rightarrow> list_ex (in_net address) networks)
      \<or> list_ex (\<lambda>k. k \<in> set observed_keys) (stable_keys d))"

definition reconcile_scanned_subnets ::
  "device list \<Rightarrow> device list \<Rightarrow> string \<Rightarrow> string list \<Rightarrow> string list \<Rightarrow> (nat \<Rightarrow> string)
    \<Rightarrow> device list option" where
  "reconcile_scanned_subnets previous current seen_at subnets reachable fresh =
     (case parse_networks subnets of
        None \<Rightarrow> None
      | Some networks \<Rightarrow>
          let observed_keys = concat (map stable_keys current);
              targeted = filter (targeted_device networks observed_keys) previous;
              untouched = filter (\<lambda>d. \<not> targeted_device networks observed_keys d) previous;
              reconciled = reconcile_inventory targeted current seen_at reachable fresh
          in Some (sort_key display_key (annotate_identity_conflicts (untouched @ reconciled))))"

record summary =
  sum_devices :: nat
  sum_online :: nat
  sum_offline :: nat
  sum_onvif :: nat
  sum_rtsp :: nat
  sum_services_unavailable :: nat
  sum_conflicts :: nat

definition count_where :: "('a \<Rightarrow> bool) \<Rightarrow> 'a list \<Rightarrow> nat" where
  "count_where P xs = length (filter P xs)"

definition inventory_summary :: "device list \<Rightarrow> summary" where
  "inventory_summary items =
     \<lparr>sum_devices = length items,
      sum_online = count_where (\<lambda>d. dget d ''status'' = PStr ''online'') items,
      sum_offline = count_where (\<lambda>d. dget d ''status'' = PStr ''offline'') items,
      sum_onvif = count_where (\<lambda>d. truthy (dget d ''onvif'')) items,
      sum_rtsp = count_where (\<lambda>d. truthy (dget d ''rtsp'')) items,
      sum_services_unavailable =
        count_where (\<lambda>d. dget d ''status'' = PStr ''online''
                        \<and> dget d ''service_status'' = PStr ''unavailable'') items,
      sum_conflicts = count_where (\<lambda>d. truthy (dget d ''identity_conflict'')) items\<rparr>"

text \<open>scan_state.py: while a scan is queued or running and has no devices yet, the last inventory shows.\<close>

definition preserve_inventory :: "pydict \<Rightarrow> pydict \<Rightarrow> pydict" where
  "preserve_inventory state inventory =
     (if (dget state ''status'' \<noteq> PStr ''queued'' \<and> dget state ''status'' \<noteq> PStr ''running'')
         \<or> truthy (dget state ''devices'')
      then state
      else
        let m = dset ''inventory_scan_id'' (dget inventory ''scan_id'') state;
            m = dset ''devices'' (dget_or inventory ''devices'' (PList [])) m;
            m = dset ''summary'' (dget_or inventory ''summary'' (PDict [])) m;
            m = dset ''network'' (py_or (dget m ''network'') (dget inventory ''network'')) m;
            m = dset ''networks'' (py_or (dget m ''networks'')
                                        (dget_or inventory ''networks'' (PList []))) m;
            m = dset ''duration_ms'' (dget inventory ''duration_ms'') m;
            m = dset ''completed_at'' (dget inventory ''completed_at'') m
        in dset ''raw_log'' (dget_or inventory ''raw_log'' (PList [])) m)"


subsection \<open>Stable keys and conflicts\<close>

lemma stable_keys_set: "set (stable_keys d) = set_option (mac_key d) \<union> set_option (onvif_key d)"
  by (auto simp: stable_keys_def mac_key_def onvif_key_def Let_def)

lemma stable_keys_distinct: "distinct (stable_keys d)"
  by (auto simp: stable_keys_def Let_def)

lemma owners_set: "set (owners items k) = {i. i < length items \<and> k \<in> set (stable_keys (items ! i))}"
  by (auto simp: owners_def)

lemma owners_distinct: "distinct (owners items k)"
  by (simp add: owners_def)

lemma distinct_other:
  "distinct xs \<Longrightarrow> i \<in> set xs \<Longrightarrow> 1 < length xs \<longleftrightarrow> (\<exists>j \<in> set xs. j \<noteq> i)"
proof (cases xs rule: remdups_adj.cases)
  case (3 a b ys)
  assume "distinct xs" "i \<in> set xs"
  with 3 have "a \<noteq> b" "a \<in> set xs" "b \<in> set xs" "1 < length xs" by auto
  then show ?thesis by metis
qed auto

lemma owners_shared:
  "i \<in> set (owners items k) \<Longrightarrow>
   1 < length (owners items k) \<longleftrightarrow> (\<exists>j \<in> set (owners items k). j \<noteq> i)"
  by (rule distinct_other [OF owners_distinct])

lemma annotate_other [simp]:
  "k \<noteq> ''identity_conflict'' \<Longrightarrow> k \<noteq> ''identity_conflict_reason'' \<Longrightarrow>
   dget (annotate_device l d) k = dget d k"
  by (auto simp: annotate_device_def Let_def)

lemma annotate_map_of:
  "k \<noteq> ''identity_conflict'' \<Longrightarrow> k \<noteq> ''identity_conflict_reason'' \<Longrightarrow>
   map_of (annotate_device l d) k = map_of d k"
  by (auto simp: annotate_device_def Let_def)

lemma annotate_flag: "dget (annotate_device l d) ''identity_conflict'' = PBool (l \<noteq> [])"
  by (auto simp: annotate_device_def Let_def)

lemma length_annotate [simp]: "length (annotate_identity_conflicts ds) = length ds"
  by (simp add: annotate_identity_conflicts_def)

lemma nth_annotate:
  "i < length ds \<Longrightarrow>
   annotate_identity_conflicts ds ! i = annotate_device (conflict_labels ds i) (ds ! i)"
  by (simp add: annotate_identity_conflicts_def)

lemma map_annotate:
  "(\<And>l d. h (annotate_device l d) = h d) \<Longrightarrow> map h (annotate_identity_conflicts ds) = map h ds"
  by (rule nth_equalityI) (auto simp: nth_annotate)

lemma conflict_labels_iff:
  assumes "i < length ds"
  shows "conflict_labels ds i \<noteq> [] \<longleftrightarrow>
    (\<exists>j < length ds. j \<noteq> i \<and> set (stable_keys (ds ! i)) \<inter> set (stable_keys (ds ! j)) \<noteq> {})"
proof -
  have "sort xs = [] \<longleftrightarrow> xs = []" for xs :: "string list"
    by (metis length_0_conv length_sort)
  then have "conflict_labels ds i \<noteq> [] \<longleftrightarrow>
      filter (\<lambda>k. 1 < length (owners ds k)) (stable_keys (ds ! i)) \<noteq> []"
    unfolding conflict_labels_def by (metis map_is_Nil_conv remdups_eq_nil_iff)
  also have "\<dots> \<longleftrightarrow> (\<exists>k \<in> set (stable_keys (ds ! i)). 1 < length (owners ds k))"
    unfolding filter_empty_conv by blast
  also have "\<dots> \<longleftrightarrow> (\<exists>k \<in> set (stable_keys (ds ! i)). \<exists>j \<in> set (owners ds k). j \<noteq> i)"
    using assms by (intro bex_cong refl owners_shared) (simp add: owners_set)
  finally show ?thesis using assms by (auto simp: owners_set)
qed

subsection \<open>Matching\<close>

lemma unmatched_SomeD: "unmatched m c = Some i \<Longrightarrow> c = Some i \<and> i \<notin> set m"
  by (auto simp: unmatched_def split: option.splits if_splits)

lemma stable_index_SomeD:
  "stable_index prev cur k = Some i \<Longrightarrow> owners prev k = [i] \<and> length (owners cur k) = 1"
  by (auto simp: stable_index_def split: list.splits if_splits)

lemma stable_index_owner:
  "stable_index prev cur k = Some i \<Longrightarrow> i < length prev \<and> k \<in> set (stable_keys (prev ! i))"
proof -
  assume "stable_index prev cur k = Some i"
  then have "i \<in> set (owners prev k)" by (auto dest: stable_index_SomeD)
  then show ?thesis by (simp add: owners_set)
qed

lemma ip_index_SomeD:
  "ip_index prev a = Some i \<Longrightarrow> i < length prev \<and> text_of (prev ! i) ''ip'' = a \<and> a \<noteq> []"
  by (auto simp: ip_index_def find_Some_iff)

lemma match_previous_cases:
  assumes "match_previous prev cur m obs = Some i"
  obtains (key) k where "k \<in> set (stable_keys obs)" "unmatched m (stable_index prev cur k) = Some i"
  | (ip) "stable_keys obs = []" "unmatched m (ip_index prev (text_of obs ''ip'')) = Some i"
proof -
  define by_key where "by_key key = (case key of None \<Rightarrow> None
      | Some k \<Rightarrow> unmatched m (stable_index prev cur k))" for key
  have keyed: thesis if "by_key key = Some i" "set_option key \<subseteq> set (stable_keys obs)" for key
    using that by (auto simp: by_key_def split: option.splits intro: key)
  have sub: "set_option (onvif_key obs) \<subseteq> set (stable_keys obs)"
    "set_option (mac_key obs) \<subseteq> set (stable_keys obs)"
    by (simp_all add: stable_keys_set)
  have "by_key (onvif_key obs) = Some i \<or> by_key (mac_key obs) = Some i \<or>
      stable_keys obs = [] \<and> unmatched m (ip_index prev (text_of obs ''ip'')) = Some i"
    using assms unfolding match_previous_def by_key_def [abs_def, symmetric] Let_def
    by (simp split: option.splits if_splits)
  then show thesis using keyed sub ip by blast
qed

lemma match_previous_fresh:
  "match_previous prev cur m obs = Some i \<Longrightarrow> i < length prev \<and> i \<notin> set m"
  by (erule match_previous_cases)
    (auto dest!: unmatched_SomeD dest: stable_index_owner ip_index_SomeD)

text \<open>The outcome of the loop: which previous device (if any) each observation took.\<close>

fun assignment :: "device list \<Rightarrow> device list \<Rightarrow> device list \<Rightarrow> nat list \<Rightarrow> nat option list" where
  "assignment previous current [] matched = []"
| "assignment previous current (obs # rest) matched =
     (let i = match_previous previous current matched obs
      in i # assignment previous current rest (case i of None \<Rightarrow> matched | Some j \<Rightarrow> j # matched))"

lemma length_assignment [simp]: "length (assignment p c rest m) = length rest"
  by (induction p c rest m rule: assignment.induct) (auto simp: Let_def)

definition taken :: "nat option list \<Rightarrow> nat list" where
  "taken as = concat (map (\<lambda>a. case a of None \<Rightarrow> [] | Some i \<Rightarrow> [i]) as)"

lemma taken_simps [simp]:
  "taken [] = []" "taken (None # as) = taken as" "taken (Some i # as) = i # taken as"
  by (simp_all add: taken_def)

lemma assignment_taken:
  "distinct (taken (assignment p c rest m)) \<and>
   set (taken (assignment p c rest m)) \<subseteq> {..<length p} - set m"
proof (induction p c rest m rule: assignment.induct)
  case (1 p c m)
  then show ?case by simp
next
  case (2 p c obs rest m)
  show ?case
  proof (cases "match_previous p c m obs")
    case None
    with 2 show ?thesis by (simp add: Let_def)
  next
    case (Some i)
    with 2 [OF refl] match_previous_fresh [OF Some] show ?thesis by (auto simp: Let_def)
  qed
qed

lemma match_loop_eq:
  "match_loop p c t fresh rest n m =
   (rev (taken (assignment p c rest m)) @ m,
    map (\<lambda>(j, obs, a). merge_online (map_option ((!) p) a) obs t (fresh (n + j)))
      (zip [0..<length rest] (zip rest (assignment p c rest m))))"
proof (induction p c t fresh rest n m rule: match_loop.induct)
  case (1 p c t fresh n m)
  then show ?case by simp
next
  case (2 p c t fresh obs rest n m)
  let ?i = "match_previous p c m obs"
  let ?m = "case ?i of None \<Rightarrow> m | Some i \<Rightarrow> i # m"
  have "match_loop p c t fresh (obs # rest) n m =
      (rev (taken (assignment p c (obs # rest) m)) @ m,
       merge_online (map_option ((!) p) ?i) obs t (fresh n) #
       map (\<lambda>(j, obs, a). merge_online (map_option ((!) p) a) obs t (fresh (Suc n + j)))
         (zip [0..<length rest] (zip rest (assignment p c rest ?m))))"
    using 2 [OF refl refl refl] by (auto simp: Let_def split: option.splits)
  moreover have "zip [0..<length (obs # rest)] (zip (obs # rest) (assignment p c (obs # rest) m)) =
      (0, obs, ?i) # map (\<lambda>(j, x). (Suc j, x))
        (zip [0..<length rest] (zip rest (assignment p c rest ?m)))"
    by (simp add: Let_def upt_conv_Cons map_Suc_upt [symmetric] zip_map1 del: upt_Suc)
  ultimately show ?case by (simp add: case_prod_unfold comp_def)
qed


subsection \<open>What a merge and a carried-over device hold\<close>

lemma keep_services_other [simp]:
  "k \<noteq> ''onvif'' \<Longrightarrow> k \<noteq> ''rtsp'' \<Longrightarrow> dget (keep_services p c m) k = dget m k"
  by (simp add: keep_services_def)

lemma merge_online_fields:
  "dget (merge_online p c t u) ''candidate_uuid'' =
     py_or (py_or (dget (case p of None \<Rightarrow> [] | Some d \<Rightarrow> d) ''candidate_uuid'')
             (dget c ''candidate_uuid'')) (PStr u)"
  "dget (merge_online p c t u) ''status'' = PStr ''online''"
  "dget (merge_online p c t u) ''missed_scans'' = PInt 0"
  "dget (merge_online p c t u) ''last_seen'' = PStr t"
  "dget (merge_online p c t u) ''first_seen'' =
     dget_or (case p of None \<Rightarrow> [] | Some d \<Rightarrow> d) ''first_seen'' (PStr t)"
  by (simp_all add: merge_online_def Let_def)

lemma carry_over_fields:
  "dget (carry_over reach t u d) ''candidate_uuid'' = py_or (dget d ''candidate_uuid'') (PStr u)"
  "dget (carry_over reach t u d) ''status'' =
     PStr (if text_of d ''ip'' \<in> set reach then ''online'' else ''offline'')"
  "dget (carry_over reach t u d) ''missed_scans'' =
     PInt (if text_of d ''ip'' \<in> set reach then 0 else missed_scans d + 1)"
  by (auto simp: carry_over_def Let_def)

lemma reconcile_list_eq:
  "reconcile_list p c t reach fresh =
   (let as = assignment p c c [] in
    map (\<lambda>(j, obs, a). merge_online (map_option ((!) p) a) obs t (fresh j))
      (zip [0..<length c] (zip c as)) @
    map (\<lambda>i. carry_over reach t (fresh (length c + i)) (p ! i))
      (filter (\<lambda>i. i \<notin> set (taken as)) [0..<length p]))"
  by (simp add: reconcile_list_def match_loop_eq Let_def)

lemma set_reconcile:
  "h ` set (reconcile_inventory p c t reach fresh) = h ` set (reconcile_list p c t reach fresh)"
  if "\<And>l d. h (annotate_device l d) = h d"
proof -
  have "h ` set (reconcile_inventory p c t reach fresh) =
      set (map h (annotate_identity_conflicts (reconcile_list p c t reach fresh)))"
    by (simp add: reconcile_inventory_def)
  also have "\<dots> = set (map h (reconcile_list p c t reach fresh))"
    using that by (simp only: map_annotate)
  finally show ?thesis by simp
qed

lemma mset_reconcile:
  "image_mset h (mset (reconcile_inventory p c t reach fresh)) =
   image_mset h (mset (reconcile_list p c t reach fresh))"
  if "\<And>l d. h (annotate_device l d) = h d"
  using map_annotate [OF that, of "reconcile_list p c t reach fresh"]
  by (metis mset_map mset_sort reconcile_inventory_def)

definition uuid_of :: "device \<Rightarrow> pyval" where
  "uuid_of d = dget d ''candidate_uuid''"

lemma uuid_annotate [simp]: "uuid_of (annotate_device l d) = uuid_of d"
  by (simp add: uuid_of_def)

lemma taken_member:
  "i \<in> set (taken as) \<Longrightarrow> \<exists>j < length as. as ! j = Some i"
  by (force simp: taken_def in_set_conv_nth split: option.splits)

lemma reconcile_matched:
  assumes "j < length c" and "assignment p c c [] ! j = a"
  shows "merge_online (map_option ((!) p) a) (c ! j) t (fresh j)
    \<in> set (reconcile_list p c t reach fresh)"
proof -
  have "(j, c ! j, a) \<in> set (zip [0..<length c] (zip c (assignment p c c [])))"
    using assms by (auto simp: set_zip intro!: exI [of _ j])
  then show ?thesis by (force simp: reconcile_list_eq Let_def)
qed

text \<open>
  reconciliation never loses a known device. Whatever the scan saw, each device of the previous
  inventory that has a candidate UUID is still in the new inventory under that UUID.
\<close>

theorem reconcile_keeps_candidates:
  assumes "d \<in> set previous" and "truthy (uuid_of d)"
  shows "\<exists>r \<in> set (reconcile_inventory previous current seen_at reachable fresh). uuid_of r = uuid_of d"
proof -
  let ?as = "assignment previous current current []"
  let ?out = "reconcile_list previous current seen_at reachable fresh"
  obtain i where i: "i < length previous" "d = previous ! i"
    using assms(1) by (auto simp: in_set_conv_nth)
  have "\<exists>r \<in> set ?out. uuid_of r = uuid_of d"
  proof (cases "i \<in> set (taken ?as)")
    case True
    then obtain j where "j < length current" "?as ! j = Some i"
      using taken_member by fastforce
    then have "merge_online (Some d) (current ! j) seen_at (fresh j) \<in> set ?out"
      using reconcile_matched [of j current previous "Some i"] i(2) by simp
    moreover have "uuid_of (merge_online (Some d) (current ! j) seen_at (fresh j)) = uuid_of d"
      using assms(2) by (simp add: uuid_of_def merge_online_fields)
    ultimately show ?thesis by blast
  next
    case False
    then have "carry_over reachable seen_at (fresh (length current + i)) d \<in> set ?out"
      using i by (auto simp: reconcile_list_eq Let_def)
    moreover have "uuid_of (carry_over reachable seen_at (fresh (length current + i)) d) = uuid_of d"
      using assms(2) by (simp add: uuid_of_def carry_over_fields)
    ultimately show ?thesis by blast
  qed
  then have "uuid_of d \<in> uuid_of ` set ?out" by (metis image_eqI)
  then have "uuid_of d \<in> uuid_of ` set (reconcile_inventory previous current seen_at reachable fresh)"
    by (simp add: set_reconcile)
  then show ?thesis by auto
qed


theorem reconcile_keeps_candidates_witness:
  "\<exists>r \<in> set (reconcile_inventory [[(''candidate_uuid'', PStr ''a''), (''ip'', PStr ''10.0.0.2'')]] []
        ''t1'' [] (\<lambda>_. ''new'')). uuid_of r = PStr ''a''"
  using reconcile_keeps_candidates
    [of "[(''candidate_uuid'', PStr ''a''), (''ip'', PStr ''10.0.0.2'')]"
        "[[(''candidate_uuid'', PStr ''a''), (''ip'', PStr ''10.0.0.2'')]]" "[]" "''t1''" "[]"
        "\<lambda>_. ''new''"]
  by (simp add: uuid_of_def dget_def)

subsection \<open>Candidate UUIDs stay distinct\<close>

text \<open>The source of each entry's UUID: a previous device, or the position it drew a fresh one at.\<close>

datatype uuid_source = FromPrevious nat | FromFresh nat

definition entry_source :: "nat \<Rightarrow> nat option \<Rightarrow> uuid_source" where
  "entry_source j a = (case a of None \<Rightarrow> FromFresh j | Some i \<Rightarrow> FromPrevious i)"

lemma entry_source_simps [simp]:
  "entry_source j None = FromFresh j" "entry_source j (Some i) = FromPrevious i"
  by (simp_all add: entry_source_def)

definition sources :: "device list \<Rightarrow> device list \<Rightarrow> uuid_source list" where
  "sources previous current =
     (let as = assignment previous current current [] in
      map2 entry_source [0..<length current] as @
      map FromPrevious (filter (\<lambda>i. i \<notin> set (taken as)) [0..<length previous]))"

lemma entry_sources_distinct:
  "distinct (taken as) \<Longrightarrow> distinct ns \<Longrightarrow> length ns = length as \<Longrightarrow>
   distinct (map2 entry_source ns as) \<and>
   set (map2 entry_source ns as) \<subseteq> FromPrevious ` set (taken as) \<union> FromFresh ` set ns"
proof (induction as arbitrary: ns)
  case Nil
  then show ?case by simp
next
  case (Cons a as)
  then obtain n ns' where ns: "ns = n # ns'" by (cases ns) auto
  have "distinct (taken as)" using Cons.prems(1) by (cases a) auto
  with Cons.IH [of ns'] Cons.prems ns have
    IH: "distinct (map2 entry_source ns' as)"
      "set (map2 entry_source ns' as) \<subseteq> FromPrevious ` set (taken as) \<union> FromFresh ` set ns'"
    by auto
  have "entry_source n a \<notin> set (map2 entry_source ns' as)"
    using IH(2) Cons.prems(1,2) ns by (cases a) auto
  moreover have "set (map2 entry_source (n # ns') (a # as))
      \<subseteq> FromPrevious ` set (taken (a # as)) \<union> FromFresh ` set (n # ns')"
    using IH(2) by (cases a) auto
  ultimately show ?case using IH(1) ns by simp
qed

lemma entry_sources:
  "distinct (map2 entry_source [0..<length c] (assignment p c c []))"
  "set (map2 entry_source [0..<length c] (assignment p c c []))
    \<subseteq> FromPrevious ` set (taken (assignment p c c [])) \<union> FromFresh ` {..<length c}"
  using entry_sources_distinct [of "assignment p c c []" "[0..<length c]"]
    assignment_taken [of p c c "[]"]
  by (auto simp: atLeast0LessThan)

lemma sources_distinct: "distinct (sources p c)"
proof -
  let ?as = "assignment p c c []"
  have "set (map2 entry_source [0..<length c] ?as) \<inter>
      set (map FromPrevious (filter (\<lambda>i. i \<notin> set (taken ?as)) [0..<length p])) = {}"
    using entry_sources(2) [of c p] by fastforce
  then show ?thesis using entry_sources(1) [of c p]
    by (simp only: sources_def Let_def distinct_append)
      (simp add: distinct_map inj_on_def del: set_map)
qed

lemma set_sources_bound:
  "set (sources p c) \<subseteq> FromPrevious ` {..<length p} \<union> FromFresh ` {..<length c}"
proof -
  have "set (taken (assignment p c c [])) \<subseteq> {..<length p}"
    using assignment_taken [of p c c "[]"] by auto
  moreover have "set (map FromPrevious (filter P [0..<length p])) \<subseteq> FromPrevious ` {..<length p}" for P
    by auto
  ultimately show ?thesis using entry_sources(2) [of c p]
    unfolding sources_def Let_def set_append by blast
qed

fun source_uuid :: "device list \<Rightarrow> (nat \<Rightarrow> string) \<Rightarrow> uuid_source \<Rightarrow> pyval" where
  "source_uuid previous fresh (FromPrevious i) = uuid_of (previous ! i)"
| "source_uuid previous fresh (FromFresh j) = PStr (fresh j)"

lemma merged_uuid:
  assumes "\<And>d. d \<in> set p \<Longrightarrow> truthy (uuid_of d)" "\<not> truthy (uuid_of obs)"
    and "\<And>i. a = Some i \<Longrightarrow> i < length p"
  shows "uuid_of (merge_online (map_option ((!) p) a) obs t (fresh j)) =
    source_uuid p fresh (entry_source j a)"
  using assms by (cases a) (auto simp: uuid_of_def merge_online_fields)

lemma assignment_bound: "Some i \<in> set (assignment p c c []) \<Longrightarrow> i < length p"
proof -
  assume "Some i \<in> set (assignment p c c [])"
  then have "i \<in> set (taken (assignment p c c []))" by (force simp: taken_def)
  then show ?thesis using assignment_taken [of p c c "[]"] by auto
qed

lemma reconcile_uuids:
  assumes known: "\<And>d. d \<in> set p \<Longrightarrow> truthy (uuid_of d)"
    and new: "\<And>d. d \<in> set c \<Longrightarrow> \<not> truthy (uuid_of d)"
  shows "map uuid_of (reconcile_list p c t reach fresh) = map (source_uuid p fresh) (sources p c)"
proof -
  let ?as = "assignment p c c []"
  have "map uuid_of (map (\<lambda>(j, obs, a). merge_online (map_option ((!) p) a) obs t (fresh j))
          (zip [0..<length c] (zip c ?as))) =
      map (source_uuid p fresh) (map2 entry_source [0..<length c] ?as)"
  proof (rule nth_equalityI)
    fix j assume "j < length (map uuid_of (map (\<lambda>(j, obs, a).
        merge_online (map_option ((!) p) a) obs t (fresh j)) (zip [0..<length c] (zip c ?as))))"
    then have j: "j < length c" by simp
    then have "?as ! j \<in> set ?as" "c ! j \<in> set c" by simp_all
    then have "uuid_of (merge_online (map_option ((!) p) (?as ! j)) (c ! j) t (fresh j)) =
        source_uuid p fresh (entry_source j (?as ! j))"
      using assignment_bound [of _ p c]
      by (intro merged_uuid) (auto simp: known new)
    with j show "map uuid_of (map (\<lambda>(j, obs, a).
        merge_online (map_option ((!) p) a) obs t (fresh j)) (zip [0..<length c] (zip c ?as))) ! j =
        map (source_uuid p fresh) (map2 entry_source [0..<length c] ?as) ! j"
      by simp
  qed simp
  moreover have "map uuid_of (map (\<lambda>i. carry_over reach t (fresh (length c + i)) (p ! i))
        (filter (\<lambda>i. i \<notin> set (taken ?as)) [0..<length p])) =
      map (source_uuid p fresh) (map FromPrevious (filter (\<lambda>i. i \<notin> set (taken ?as)) [0..<length p]))"
    using known by (auto simp: uuid_of_def carry_over_fields)
  ultimately show ?thesis
    by (simp only: reconcile_list_eq sources_def Let_def map_append)
qed

lemma source_uuid_inj:
  assumes "distinct (map uuid_of p)" and "inj_on fresh {..<n}"
    and "\<And>j d. j < n \<Longrightarrow> d \<in> set p \<Longrightarrow> uuid_of d \<noteq> PStr (fresh j)"
  shows "inj_on (source_uuid p fresh) (FromPrevious ` {..<length p} \<union> FromFresh ` {..<n})"
proof (rule inj_onI)
  fix x y
  assume x: "x \<in> FromPrevious ` {..<length p} \<union> FromFresh ` {..<n}"
    and y: "y \<in> FromPrevious ` {..<length p} \<union> FromFresh ` {..<n}"
    and eq: "source_uuid p fresh x = source_uuid p fresh y"
  have "uuid_of (p ! i) = uuid_of (p ! k) \<longleftrightarrow> i = k" if "i < length p" "k < length p" for i k
    using assms(1) that nth_eq_iff_index_eq [of "map uuid_of p" i k] by simp
  moreover have "fresh i = fresh k \<longleftrightarrow> i = k" if "i < n" "k < n" for i k
    using assms(2) that by (auto simp: inj_on_def)
  moreover have "uuid_of (p ! i) \<noteq> PStr (fresh k)" if "i < length p" "k < n" for i k
    using assms(3) [OF that(2)] that(1) by simp
  ultimately show "x = y" using x y eq by (auto dest: sym)
qed

text \<open>
  C29: candidate UUIDs are a key of the inventory. If they are distinct before the scan, the
  observations carry none of their own and the generated UUIDs are new and distinct, then they are
  distinct after reconciliation: no two entries merge into one identity and no UUID is shared.
\<close>

theorem reconcile_uuids_distinct:
  assumes "\<forall>d \<in> set previous. truthy (uuid_of d)" and "distinct (map uuid_of previous)"
    and "\<forall>d \<in> set current. \<not> truthy (uuid_of d)"
    and "inj fresh" and "\<forall>d \<in> set previous. \<forall>n. uuid_of d \<noteq> PStr (fresh n)"
  shows "distinct (map uuid_of (reconcile_inventory previous current seen_at reachable fresh))"
proof -
  have "inj_on (source_uuid previous fresh) (set (sources previous current))"
    using source_uuid_inj [of previous fresh "length current"] assms(2,4,5)
      set_sources_bound [of previous current]
    by (meson inj_on_subset subset_UNIV)
  then have "distinct (map uuid_of (reconcile_list previous current seen_at reachable fresh))"
    using assms(1,3) by (simp add: reconcile_uuids distinct_map sources_distinct)
  moreover have "mset (map uuid_of (reconcile_inventory previous current seen_at reachable fresh)) =
      mset (map uuid_of (reconcile_list previous current seen_at reachable fresh))"
    by (simp add: mset_reconcile)
  ultimately show ?thesis by (metis mset_eq_imp_distinct_iff)
qed


theorem reconcile_uuids_distinct_witness:
  "distinct (map uuid_of (reconcile_inventory
     [[(''candidate_uuid'', PStr ''a''), (''mac'', PStr ''m1'')], [(''candidate_uuid'', PStr ''b'')]]
     [[(''mac'', PStr ''M1'')], [(''mac'', PStr ''m2'')]] ''t1'' [] (\<lambda>n. ''u'' @ nat_digits n)))"
proof (rule reconcile_uuids_distinct)
  show "inj (\<lambda>n. ''u'' @ nat_digits n)" by (auto intro: injI nat_digits_inj)
qed (auto simp: uuid_of_def dget_def)

subsection \<open>Online and offline\<close>

lemma reconcile_cases:
  assumes "r \<in> set (reconcile_list p c t reach fresh)"
  obtains (seen) j where "j < length c"
      "r = merge_online (map_option ((!) p) (assignment p c c [] ! j)) (c ! j) t (fresh j)"
  | (kept) i where "i < length p" "i \<notin> set (taken (assignment p c c []))"
      "r = carry_over reach t (fresh (length c + i)) (p ! i)"
  using assms by (auto simp: reconcile_list_eq Let_def set_zip)

lemma status_annotate [simp]: "dget (annotate_device l d) ''status'' = dget d ''status''"
  by simp

text \<open>
  after a reconciliation every device is either online or offline, and the summary's two
  counters add up to the number of devices.
\<close>

theorem summary_partition:
  "sum_online (inventory_summary (reconcile_inventory previous current seen_at reachable fresh)) +
   sum_offline (inventory_summary (reconcile_inventory previous current seen_at reachable fresh)) =
   sum_devices (inventory_summary (reconcile_inventory previous current seen_at reachable fresh))"
proof -
  let ?out = "reconcile_inventory previous current seen_at reachable fresh"
  let ?st = "\<lambda>d. dget d ''status''"
  have "?st ` set ?out = ?st ` set (reconcile_list previous current seen_at reachable fresh)"
    by (rule set_reconcile) simp
  also have "\<dots> \<subseteq> {PStr ''online'', PStr ''offline''}"
    by (auto elim!: reconcile_cases simp: merge_online_fields carry_over_fields)
  finally have st: "\<forall>d \<in> set ?out. ?st d = PStr ''online'' \<or> ?st d = PStr ''offline''" by auto
  have "length (filter (\<lambda>d. ?st d = PStr ''online'') xs) +
      length (filter (\<lambda>d. ?st d = PStr ''offline'') xs) = length xs"
    if "\<forall>d \<in> set xs. ?st d = PStr ''online'' \<or> ?st d = PStr ''offline''" for xs
    using that by (induction xs) auto
  from this [OF st] show ?thesis by (simp add: inventory_summary_def count_where_def)
qed

text \<open>
  an offline mark is evidence-based. A previous device that no observation matched and whose
  address did not answer is offline afterwards, with its missed-scan counter one higher; one whose
  address did answer stays online with its service marked unavailable.
\<close>

theorem unobserved_device_outcome:
  assumes "i < length previous" and "i \<notin> set (taken (assignment previous current current []))"
  shows "\<exists>r \<in> set (reconcile_inventory previous current seen_at reachable fresh).
    uuid_of r = py_or (uuid_of (previous ! i)) (PStr (fresh (length current + i))) \<and>
    (if text_of (previous ! i) ''ip'' \<in> set reachable
     then dget r ''status'' = PStr ''online'' \<and> dget r ''service_status'' = PStr ''unavailable'' \<and>
       dget r ''missed_scans'' = PInt 0
     else dget r ''status'' = PStr ''offline'' \<and>
       dget r ''missed_scans'' = PInt (missed_scans (previous ! i) + 1))"
proof -
  let ?r = "carry_over reachable seen_at (fresh (length current + i)) (previous ! i)"
  let ?h = "\<lambda>d. (uuid_of d, dget d ''status'', dget d ''service_status'', dget d ''missed_scans'')"
  have "?r \<in> set (reconcile_list previous current seen_at reachable fresh)"
    using assms by (auto simp: reconcile_list_eq Let_def)
  then have "?h ?r \<in> ?h ` set (reconcile_inventory previous current seen_at reachable fresh)"
    by (subst set_reconcile) simp_all
  then obtain r where r: "r \<in> set (reconcile_inventory previous current seen_at reachable fresh)"
    "?h r = ?h ?r" by auto
  have "text_of (previous ! i) ''ip'' \<in> set reachable \<Longrightarrow>
      dget ?r ''service_status'' = PStr ''unavailable''"
    by (simp add: carry_over_def Let_def)
  with r show ?thesis
    by (intro bexI [of _ r]) (auto simp: uuid_of_def carry_over_fields)
qed

theorem unobserved_device_outcome_witness:
  "\<exists>r \<in> set (reconcile_inventory [[(''candidate_uuid'', PStr ''a''), (''ip'', PStr ''10.0.0.2'')]]
      [] ''t1'' [] (\<lambda>_. ''new'')).
    uuid_of r = PStr ''a'' \<and> dget r ''status'' = PStr ''offline'' \<and> dget r ''missed_scans'' = PInt 1"
  using unobserved_device_outcome
    [of 0 "[[(''candidate_uuid'', PStr ''a''), (''ip'', PStr ''10.0.0.2'')]]" "[]" "''t1''" "[]"
        "\<lambda>_. ''new''"]
  by (simp add: uuid_of_def dget_def missed_scans_def dget_or_def)

subsection \<open>Who may take over an identity\<close>

text \<open>
  an observation takes over a previous device only on evidence of identity. If it has a MAC or
  an ONVIF endpoint reference, the device it is matched with shares one of these keys, and that key
  belongs to exactly one previous device and one observation; an IP address alone matches only
  observations that have neither.
\<close>

theorem match_needs_identity:
  assumes "match_previous previous current matched observation = Some i"
  shows "i < length previous \<and> i \<notin> set matched \<and>
    (if stable_keys observation = []
     then text_of (previous ! i) ''ip'' = text_of observation ''ip''
     else \<exists>k \<in> set (stable_keys observation). k \<in> set (stable_keys (previous ! i)) \<and>
       owners previous k = [i] \<and> length (owners current k) = 1)"
  using assms
proof (cases rule: match_previous_cases)
  case (key k)
  then have si: "stable_index previous current k = Some i" "i \<notin> set matched"
    by (auto dest: unmatched_SomeD)
  then show ?thesis
    using key(1) stable_index_owner [OF si(1)] stable_index_SomeD [OF si(1)] by auto
next
  case ip
  then show ?thesis by (auto dest!: unmatched_SomeD ip_index_SomeD)
qed

theorem match_needs_identity_witness:
  "owners [[(''mac'', PStr ''AA'')]] ''mac:aa'' = [0]"
  using match_needs_identity [of "[[(''mac'', PStr ''AA'')]]" "[[(''mac'', PStr ''aa '')]]" "[]"
      "[(''mac'', PStr ''aa '')]" 0]
  by code_simp

text \<open>
  the ONVIF endpoint reference wins over a recycled MAC. If the observation's endpoint reference
  belongs to exactly one previous device, not taken yet, and to no other observation, that device is
  the match, whatever device the MAC points at.
\<close>

theorem onvif_reference_preferred:
  assumes "onvif_key observation = Some k" and "owners previous k = [i]"
    and "length (owners current k) = 1" and "i \<notin> set matched"
  shows "match_previous previous current matched observation = Some i"
  using assms by (simp add: match_previous_def stable_index_def unmatched_def)

theorem onvif_reference_preferred_witness:
  "match_previous
     [[(''mac'', PStr ''aa'')], [(''onvif'', PDict [(''endpoint_reference'', PStr ''urn:x'')])]]
     [[(''mac'', PStr ''aa''), (''onvif'', PDict [(''endpoint_reference'', PStr ''urn:x'')])]] []
     [(''mac'', PStr ''aa''), (''onvif'', PDict [(''endpoint_reference'', PStr ''urn:x'')])] = Some 1"
  by (rule onvif_reference_preferred [where k = "''onvif:urn:x''"]; code_simp)

text \<open>
  the conflict flag is exact: a device is flagged precisely when another device of the list has
  its MAC address or its ONVIF endpoint reference.
\<close>

theorem conflict_flag_exact:
  "i < length devices \<Longrightarrow>
   dget (annotate_identity_conflicts devices ! i) ''identity_conflict'' =
   PBool (\<exists>j < length devices. j \<noteq> i \<and>
     set (stable_keys (devices ! i)) \<inter> set (stable_keys (devices ! j)) \<noteq> {})"
  by (simp add: nth_annotate annotate_flag conflict_labels_iff)

theorem conflict_flag_exact_witness:
  "dget (annotate_identity_conflicts [[(''mac'', PStr ''aa'')], [(''mac'', PStr ''AA'')]] ! 0)
     ''identity_conflict'' = PBool True"
proof -
  let ?ds = "[[(''mac'', PStr ''aa'')], [(''mac'', PStr ''AA'')]]"
  have len: "0 < length ?ds" by simp
  have keys: "stable_keys (?ds ! 0) = [''mac:aa'']" "stable_keys (?ds ! 1) = [''mac:aa'']"
    by code_simp+
  have "\<exists>j < length ?ds. j \<noteq> 0 \<and> set (stable_keys (?ds ! 0)) \<inter> set (stable_keys (?ds ! j)) \<noteq> {}"
    by (rule exI [of _ 1], simp only: keys) simp
  then show ?thesis by (simp only: conflict_flag_exact [OF len])
qed

text \<open>
  a scan of selected subnets touches only devices it has evidence about. A previous device
  outside the scanned subnets whose identity was not observed is in the result with every field
  unchanged but the conflict annotation.
\<close>

theorem subnet_scan_leaves_others:
  assumes "reconcile_scanned_subnets previous current seen_at subnets reachable fresh = Some result"
    and "parse_networks subnets = Some networks" and "d \<in> set previous"
    and "\<not> targeted_device networks (concat (map stable_keys current)) d"
  shows "\<exists>r \<in> set result. \<forall>k. k \<noteq> ''identity_conflict'' \<and> k \<noteq> ''identity_conflict_reason''
    \<longrightarrow> map_of r k = map_of d k"
proof -
  define all where "all = filter (\<lambda>d. \<not> targeted_device networks (concat (map stable_keys current)) d)
      previous @ reconcile_inventory (filter (targeted_device networks
        (concat (map stable_keys current))) previous) current seen_at reachable fresh"
  have result: "set result = set (annotate_identity_conflicts all)"
    using assms(1,2) by (auto simp: reconcile_scanned_subnets_def Let_def all_def)
  have "d \<in> set all" using assms(3,4) by (simp add: all_def)
  then obtain i where "i < length all" "all ! i = d" by (auto simp: in_set_conv_nth)
  then have "annotate_device (conflict_labels all i) d \<in> set result"
    unfolding result by (metis length_annotate nth_annotate nth_mem)
  then show ?thesis using annotate_map_of by blast
qed

theorem subnet_scan_leaves_others_witness:
  "\<exists>r \<in> set (the (reconcile_scanned_subnets [[(''ip'', PStr ''192.168.1.9'')]] [] ''t'' [''10.0.0.0/8''] []
     (\<lambda>_. ''u''))). map_of r ''ip'' = Some (PStr ''192.168.1.9'')"
proof -
  let ?d = "[(''ip'', PStr ''192.168.1.9'')]"
  have net: "parse_networks [''10.0.0.0/8''] = Some [mk_network 167772160 8]"
    by (simp add: parse_network_def parse_prefix_def net_eval_simps)
  have out: "\<not> targeted_device [mk_network 167772160 8] (concat (map stable_keys [])) ?d"
    by (simp add: targeted_device_def text_of_def dget_def stable_keys_def ident_of_def dsub_def
        net_size_def net_eval_simps)
  obtain r where r: "reconcile_scanned_subnets [?d] [] ''t'' [''10.0.0.0/8''] [] (\<lambda>_. ''u'') = Some r"
    using net by (simp add: reconcile_scanned_subnets_def Let_def)
  have "?d \<in> set [?d]" by simp
  from subnet_scan_leaves_others [OF r net this out] obtain x where
    x: "x \<in> set r" "\<And>k. k \<noteq> ''identity_conflict'' \<Longrightarrow> k \<noteq> ''identity_conflict_reason'' \<Longrightarrow>
      map_of x k = map_of ?d k" by blast
  have "map_of x ''ip'' = Some (PStr ''192.168.1.9'')" by (subst x(2)) simp_all
  with x(1) r show ?thesis by auto
qed

end
