(* ===== verification/Schema.thy ===== *)
theory Schema
  imports PyValue
begin

text \<open>
  The SQLite schema of camadmiral/storage.py after all migrations: one record per table, one field
  per column. A table is the list of its rows in insertion order (for AUTOINCREMENT tables the
  order of the ids). TEXT columns with a CHECK on their values are datatypes, a nullable column is
  an option, a JSON column holds the document it encodes, and a timestamp written by
  \<open>_now()\<close> is its microsecond count: all of them are UTC in one format, so the text order is the
  order of the counts. \<open>uuid_at n\<close> is the n-th value \<open>uuid.uuid4()\<close> returns and
  \<open>uuid_next\<close> how many were drawn. Epoch seconds (\<open>time.time()\<close>) are rationals.

  The predicates below are the constraints SQLite enforces: primary keys, UNIQUE, the partial unique
  indexes and the foreign keys. \<open>delete_camera_cascade\<close> is what one DELETE from
  \<open>cameras\<close> does through ON DELETE CASCADE and SET NULL.
\<close>

type_synonym timestamp = int

datatype health = Unknown | Healthy | Degraded | Offline | AuthFailed
datatype camera_state = CHealthy | CDegraded | COffline | CAuthFailed | CUnknown | CDisabled
datatype role = Detect | Record
datatype address_mode = Lan | Localhost
datatype camera_origin = Discovery | Direct
datatype incident_kind = MediaOffline | AuthenticationFailed | CameraAddressChanged
datatype severity = Critical | Warning
datatype event_type = IncidentOpened | IncidentResolved | RelayRestarted | TestEvent
datatype outbox_status = Pending | Retry | Sent | Failed
datatype revision_status = Desired | Applied | RevFailed
datatype binding_status = BindPending | BindApplied | BindError
datatype connection_status = ConnPending | Connected | ConnError

text \<open>\<open>ORDER BY role\<close> compares the column's text: 'detect' before 'record'.\<close>

instantiation role :: linorder
begin

definition less_eq_role :: "role \<Rightarrow> role \<Rightarrow> bool" where
  "less_eq_role a b \<longleftrightarrow> a = Detect \<or> b = Record"

definition less_role :: "role \<Rightarrow> role \<Rightarrow> bool" where
  "less_role a b \<longleftrightarrow> a = Detect \<and> b = Record"

instance
proof
  fix x y z :: role
  show "(x < y) = (x \<le> y \<and> \<not> y \<le> x)" by (cases x; cases y) (simp_all add: less_eq_role_def less_role_def)
  show "x \<le> x" by (cases x) (simp_all add: less_eq_role_def)
  show "x \<le> y \<Longrightarrow> y \<le> z \<Longrightarrow> x \<le> z" by (cases x; cases y; cases z) (simp_all add: less_eq_role_def)
  show "x \<le> y \<Longrightarrow> y \<le> x \<Longrightarrow> x = y" by (cases x; cases y) (simp_all add: less_eq_role_def)
  show "x \<le> y \<or> y \<le> x" by (cases x; cases y) (simp_all add: less_eq_role_def)
qed

end

record credential_row =
  crd_uuid :: string
  crd_username :: string
  crd_cipher :: string
  crd_created :: timestamp
  crd_updated :: timestamp

record camera_row =
  cam_uuid :: string
  cam_candidate :: string
  cam_name :: string
  cam_credential :: string
  cam_adopted :: timestamp
  cam_updated :: timestamp
  cam_enabled :: bool
  cam_address_mode :: address_mode
  cam_origin :: camera_origin
  cam_silenced :: bool
  cam_custom :: bool

record profile_row =
  prf_uuid :: string
  prf_camera :: string
  prf_token :: string
  prf_name :: string
  prf_width :: int
  prf_height :: int
  prf_encoding :: "string option"
  prf_fps :: rat
  prf_bitrate :: int
  prf_uri :: "string option"
  prf_updated :: timestamp
  prf_kind :: string
  prf_scheme :: "string option"
  prf_host :: "string option"
  prf_port :: "nat option"
  prf_path :: "string option"
  prf_query :: "string option"
  prf_cat_revision :: "string option"
  prf_cat_rule :: "string option"
  prf_cat_url :: "string option"

record stream_row =
  str_uuid :: string
  str_camera :: string
  str_profile :: string
  str_key :: string
  str_created :: timestamp
  str_probe_status :: string
  str_probed_at :: "timestamp option"
  str_latency :: "int option"
  str_vcodec :: "string option"
  str_acodec :: "string option"
  str_pwidth :: "int option"
  str_pheight :: "int option"
  str_pfps :: "rat option"
  str_health :: health
  str_failures :: nat
  str_last_ready :: "timestamp option"
  str_last_failure :: "timestamp option"
  str_enabled :: bool

record binding_row =
  bnd_camera :: string
  bnd_role :: role
  bnd_stream :: string
  bnd_updated :: timestamp

record secret_row =
  sec_name :: string
  sec_cipher :: string
  sec_created :: timestamp
  sec_updated :: timestamp

record address_event_row =
  aev_uuid :: string
  aev_camera :: string
  aev_previous :: string
  aev_current :: string
  aev_evidence :: string
  aev_at :: timestamp

record source_ref =
  src_stream_uuid :: string
  src_stream_key :: string
  src_credential :: string
  src_scheme :: string
  src_host :: "string option"
  src_port :: "nat option"
  src_path :: string
  src_query :: string

record revision_row =
  rev_id :: nat
  rev_hash :: string
  rev_config :: "source_ref list"
  rev_status :: revision_status
  rev_error :: "string option"
  rev_created :: timestamp
  rev_completed :: "timestamp option"

record frigate_binding_row =
  fbd_target :: string
  fbd_camera :: string
  fbd_key :: string
  fbd_record :: string
  fbd_detect :: string
  fbd_desired :: string
  fbd_applied :: "string option"
  fbd_status :: binding_status
  fbd_error :: "string option"
  fbd_attempt :: timestamp
  fbd_updated :: timestamp
  fbd_enabled_applied :: bool

record health_event_row =
  hev_camera :: string
  hev_state :: camera_state
  hev_reason :: string
  hev_at :: timestamp

record incident_row =
  inc_uuid :: string
  inc_camera :: string
  inc_kind :: incident_kind
  inc_severity :: severity
  inc_opened :: timestamp
  inc_last :: timestamp
  inc_resolved :: "timestamp option"
  inc_reason :: "string option"
  inc_details :: pydict

record notification_settings_row =
  nts_enabled :: bool
  nts_token :: "string option"
  nts_bot_id :: "string option"
  nts_bot_username :: "string option"
  nts_chat_id :: "string option"
  nts_chat_label :: "string option"
  nts_pairing :: "string option"
  nts_pairing_expires :: "timestamp option"
  nts_offset :: "int option"
  nts_created :: timestamp
  nts_updated :: timestamp

record outbox_row =
  out_uuid :: string
  out_incident :: "string option"
  out_event :: event_type
  out_payload :: pydict
  out_key :: string
  out_status :: outbox_status
  out_attempts :: nat
  out_next :: timestamp
  out_message :: "string option"
  out_error :: "string option"
  out_created :: timestamp
  out_sent :: "timestamp option"

record frigate_target_row =
  ftg_id :: string
  ftg_name :: string
  ftg_url :: string
  ftg_status :: connection_status
  ftg_error :: "string option"
  ftg_checked :: "timestamp option"
  ftg_restart :: bool
  ftg_mode :: "address_mode option"
  ftg_created :: timestamp
  ftg_updated :: timestamp

record frigate_selection_row =
  fsl_target :: string
  fsl_camera :: string
  fsl_selected :: timestamp
  fsl_mode :: address_mode
  fsl_width :: "int option"
  fsl_height :: "int option"
  fsl_error :: "string option"

record discovery_settings_row =
  dsc_custom :: "string list"
  dsc_excluded_detected :: "string list"
  dsc_excluded_custom :: "string list"
  dsc_updated :: timestamp

record blocked_row =
  blk_uuid :: string
  blk_candidate :: "string option"
  blk_onvif :: "string option"
  blk_mac :: "string option"
  blk_name :: string
  blk_last_ip :: "string option"
  blk_at :: timestamp
  blk_updated :: timestamp

record period_row =
  per_uuid :: string
  per_camera :: string
  per_ip :: "string option"
  per_mac :: "string option"
  per_onvif :: "string option"
  per_started :: timestamp
  per_ended :: "timestamp option"

record retired_row =
  ret_target :: string
  ret_key :: string
  ret_restore :: pydict

record identity_link_row =
  lnk_camera :: string
  lnk_payload :: pydict

record auth_retry_row =
  rty_stream :: string
  rty_attempts :: nat
  rty_next :: rat

record db =
  credentials :: "credential_row list"
  cameras :: "camera_row list"
  profiles :: "profile_row list"
  streams :: "stream_row list"
  bindings :: "binding_row list"
  service_secrets :: "secret_row list"
  address_events :: "address_event_row list"
  revisions :: "revision_row list"
  frigate_bindings :: "frigate_binding_row list"
  health_events :: "health_event_row list"
  incidents :: "incident_row list"
  notification_settings :: "notification_settings_row option"
  outbox :: "outbox_row list"
  frigate_targets :: "frigate_target_row list"
  frigate_selections :: "frigate_selection_row list"
  discovery_settings :: "discovery_settings_row option"
  blocked_devices :: "blocked_row list"
  identity_periods :: "period_row list"
  retired_cameras :: "retired_row list"
  identity_links :: "identity_link_row list"
  auth_retries :: "auth_retry_row list"
  uuid_at :: "nat \<Rightarrow> string"
  uuid_next :: nat

definition empty_db :: "(nat \<Rightarrow> string) \<Rightarrow> db" where
  "empty_db supply =
     \<lparr>credentials = [], cameras = [], profiles = [], streams = [], bindings = [],
      service_secrets = [], address_events = [], revisions = [], frigate_bindings = [],
      health_events = [], incidents = [], notification_settings = None, outbox = [],
      frigate_targets = [], frigate_selections = [], discovery_settings = None,
      blocked_devices = [], identity_periods = [], retired_cameras = [], identity_links = [],
      auth_retries = [], uuid_at = supply, uuid_next = 0\<rparr>"

datatype repo_error =
    IntegrityError string
  | ValueError string
  | SourceAlreadyAssignedError string string
  | KeyError string

subsection \<open>Drawing a UUID\<close>

definition new_uuid :: "db \<Rightarrow> string \<times> db" where
  "new_uuid d = (uuid_at d (uuid_next d), d\<lparr>uuid_next := Suc (uuid_next d)\<rparr>)"

definition drawn :: "db \<Rightarrow> string set" where
  "drawn d = uuid_at d ` {..<uuid_next d}"

lemma new_uuid_fresh:
  "inj (uuid_at d) \<Longrightarrow> uuid_at d (uuid_next d) \<notin> drawn d"
  by (auto simp: drawn_def inj_def)

lemma drawn_Suc [simp]:
  "drawn (d\<lparr>uuid_next := Suc (uuid_next d)\<rparr>) = insert (uuid_at d (uuid_next d)) (drawn d)"
  by (auto simp: drawn_def lessThan_Suc)

subsection \<open>Deleting a camera\<close>

definition clear_incidents :: "string list \<Rightarrow> outbox_row \<Rightarrow> outbox_row" where
  "clear_incidents gone r =
     (case out_incident r of
        Some i \<Rightarrow> if i \<in> set gone then r\<lparr>out_incident := None\<rparr> else r
      | None \<Rightarrow> r)"

definition delete_camera_cascade :: "string \<Rightarrow> db \<Rightarrow> db" where
  "delete_camera_cascade c d =
     (let gone_streams = map str_uuid (filter (\<lambda>s. str_camera s = c) (streams d));
          gone_incidents = map inc_uuid (filter (\<lambda>i. inc_camera i = c) (incidents d))
      in d\<lparr>cameras := del_where (\<lambda>r. cam_uuid r = c) (cameras d),
           profiles := del_where (\<lambda>r. prf_camera r = c) (profiles d),
           streams := del_where (\<lambda>r. str_camera r = c) (streams d),
           bindings := del_where (\<lambda>r. bnd_camera r = c) (bindings d),
           address_events := del_where (\<lambda>r. aev_camera r = c) (address_events d),
           frigate_bindings := del_where (\<lambda>r. fbd_camera r = c) (frigate_bindings d),
           health_events := del_where (\<lambda>r. hev_camera r = c) (health_events d),
           incidents := del_where (\<lambda>r. inc_camera r = c) (incidents d),
           outbox := map (clear_incidents gone_incidents) (outbox d),
           frigate_selections := del_where (\<lambda>r. fsl_camera r = c) (frigate_selections d),
           identity_periods := del_where (\<lambda>r. per_camera r = c) (identity_periods d),
           identity_links := del_where (\<lambda>r. lnk_camera r = c) (identity_links d),
           auth_retries := del_where (\<lambda>r. rty_stream r \<in> set gone_streams) (auth_retries d)\<rparr>)"

subsection \<open>Table contracts\<close>

interpretation cameras_t: row_table cam_uuid "row_get cam_uuid" "row_put cam_uuid"
    "\<lambda>k. del_where (\<lambda>x. cam_uuid x = k)" "keeps_key cam_uuid"
  by (rule row_table_list)

interpretation credentials_t: row_table crd_uuid "row_get crd_uuid" "row_put crd_uuid"
    "\<lambda>k. del_where (\<lambda>x. crd_uuid x = k)" "keeps_key crd_uuid"
  by (rule row_table_list)

interpretation streams_t: row_table str_uuid "row_get str_uuid" "row_put str_uuid"
    "\<lambda>k. del_where (\<lambda>x. str_uuid x = k)" "keeps_key str_uuid"
  by (rule row_table_list)

interpretation targets_t: row_table ftg_id "row_get ftg_id" "row_put ftg_id"
    "\<lambda>k. del_where (\<lambda>x. ftg_id x = k)" "keeps_key ftg_id"
  by (rule row_table_list)

abbreviation binding_key :: "binding_row \<Rightarrow> string \<times> role" where
  "binding_key b \<equiv> (bnd_camera b, bnd_role b)"

interpretation bindings_t: row_table binding_key "row_get binding_key" "row_put binding_key"
    "\<lambda>k. del_where (\<lambda>x. binding_key x = k)" "keeps_key binding_key"
  by (rule row_table_list)

abbreviation selection_key :: "frigate_selection_row \<Rightarrow> string \<times> string" where
  "selection_key r \<equiv> (fsl_target r, fsl_camera r)"

interpretation selections_t: row_table selection_key "row_get selection_key" "row_put selection_key"
    "\<lambda>k. del_where (\<lambda>x. selection_key x = k)" "keeps_key selection_key"
  by (rule row_table_list)

abbreviation fbinding_key :: "frigate_binding_row \<Rightarrow> string \<times> string" where
  "fbinding_key r \<equiv> (fbd_target r, fbd_camera r)"

interpretation fbindings_t: row_table fbinding_key "row_get fbinding_key" "row_put fbinding_key"
    "\<lambda>k. del_where (\<lambda>x. fbinding_key x = k)" "keeps_key fbinding_key"
  by (rule row_table_list)

end
