(* ===== verification/Health.thy ===== *)
theory Health
  imports Schema
begin

text \<open>
  Camera health, incidents and the alerts they queue (camadmiral/storage.py,
  \<open>CameraRepository\<close>): from probe results to stream health, from stream health to the camera's
  state and its event history, from the state to at most one open health incident per camera, and
  from incidents to rows of the notification outbox.

  The repository is fully migrated, so \<open>camera_incidents\<close> exists. \<open>results.items()\<close> is a list
  of pairs; the set of affected cameras is visited in order of first appearance.
\<close>

subsection \<open>The state of a camera\<close>

definition role_bound :: "db \<Rightarrow> stream_row \<Rightarrow> bool" where
  "role_bound d s \<longleftrightarrow> has_row (\<lambda>b. bnd_stream b = str_uuid s) (bindings d)"

definition bound_states :: "db \<Rightarrow> string \<Rightarrow> health list" where
  "bound_states d c =
     remdups (map str_health (filter (\<lambda>s. str_camera s = c \<and> role_bound d s) (streams d)))"

definition camera_health_state :: "db \<Rightarrow> string \<Rightarrow> (camera_state \<times> string) option" where
  "camera_health_state d c =
     (case row_get cam_uuid c (cameras d) of
        None \<Rightarrow> None
      | Some camera \<Rightarrow>
          if \<not> cam_enabled camera then Some (CDisabled, ''operator_disabled'')
          else
            let states = bound_states d c;
                observed_states = filter (\<lambda>s. s \<noteq> Unknown) states
            in Some
              (if observed_states = [] then (CUnknown, ''media_check_pending'')
               else if AuthFailed \<in> set observed_states then (CAuthFailed, ''authentication_failed'')
               else if list_all (\<lambda>s. s = Healthy) observed_states
                 then (CHealthy, ''all_streams_healthy'')
               else if list_all (\<lambda>s. s = Offline) states then (COffline, ''all_streams_offline'')
               else if Offline \<in> set observed_states then (CDegraded, ''partial_stream_failure'')
               else if Degraded \<in> set observed_states then (CDegraded, ''media_probe_failed'')
               else (CUnknown, ''media_check_pending'')))"

subsection \<open>Queueing an alert\<close>

fun event_text :: "event_type \<Rightarrow> string" where
  "event_text IncidentOpened = ''incident_opened''"
| "event_text IncidentResolved = ''incident_resolved''"
| "event_text RelayRestarted = ''relay_restarted''"
| "event_text TestEvent = ''test''"

fun kind_text :: "incident_kind \<Rightarrow> string" where
  "kind_text MediaOffline = ''media_offline''"
| "kind_text AuthenticationFailed = ''authentication_failed''"
| "kind_text CameraAddressChanged = ''camera_address_changed''"

definition incident_event_key :: "string \<Rightarrow> event_type \<Rightarrow> string" where
  "incident_event_key i e = i @ '':'' @ event_text e"

definition notifications_on :: "db \<Rightarrow> bool" where
  "notifications_on d \<longleftrightarrow>
     (case notification_settings d of
        None \<Rightarrow> False
      | Some s \<Rightarrow> nts_enabled s \<and> nts_chat_id s \<noteq> None \<and> nts_chat_id s \<noteq> Some [])"

definition new_outbox_row ::
  "string \<Rightarrow> string option \<Rightarrow> event_type \<Rightarrow> pydict \<Rightarrow> string \<Rightarrow> timestamp \<Rightarrow> outbox_row" where
  "new_outbox_row u i e payload key t =
     \<lparr>out_uuid = u, out_incident = i, out_event = e, out_payload = payload, out_key = key,
      out_status = Pending, out_attempts = 0, out_next = t, out_message = None, out_error = None,
      out_created = t, out_sent = None\<rparr>"

definition address_details :: "db \<Rightarrow> string \<Rightarrow> incident_kind \<Rightarrow> pydict \<Rightarrow> pydict" where
  "address_details d i kind payload =
     (if kind = CameraAddressChanged then
        (case row_get inc_uuid i (incidents d) of
           None \<Rightarrow> payload
         | Some inc \<Rightarrow>
             foldl (\<lambda>p field. let value = dget (inc_details inc) field
                              in if truthy value then dset field (PStr (py_str value)) p else p)
               (dset ''opened_at'' (PInt (inc_opened inc)) payload)
               [''previous_address'', ''current_address''])
      else payload)"

definition enqueue_incident_notification ::
  "string \<Rightarrow> string \<Rightarrow> incident_kind \<Rightarrow> event_type \<Rightarrow> timestamp \<Rightarrow> db \<Rightarrow> db" where
  "enqueue_incident_notification i c kind event t d =
     (if \<not> notifications_on d then d
      else
        case row_get cam_uuid c (cameras d) of
          None \<Rightarrow> d
        | Some camera \<Rightarrow>
            if cam_silenced camera then d
            else if event = IncidentResolved
              \<and> \<not> has_row (\<lambda>r. out_key r = incident_event_key i IncidentOpened) (outbox d) then d
            else
              let payload = address_details d i kind
                    [(''camera_id'', PStr c), (''camera_name'', PStr (cam_name camera)),
                     (''kind'', PStr (kind_text kind)), (''observed_at'', PInt t)];
                  (u, d') = new_uuid d
              in d'\<lparr>outbox := row_ins out_key
                      (new_outbox_row u (Some i) event payload (incident_event_key i event) t)
                      (outbox d')\<rparr>)"

subsection \<open>Incidents\<close>

definition is_open :: "incident_row \<Rightarrow> bool" where
  "is_open i \<longleftrightarrow> inc_resolved i = None"

definition is_health :: "incident_row \<Rightarrow> bool" where
  "is_health i \<longleftrightarrow> inc_kind i = MediaOffline \<or> inc_kind i = AuthenticationFailed"

definition open_health :: "incident_row \<Rightarrow> bool" where
  "open_health i \<longleftrightarrow> is_open i \<and> is_health i"

definition open_address :: "incident_row \<Rightarrow> bool" where
  "open_address i \<longleftrightarrow> is_open i \<and> inc_kind i = CameraAddressChanged"

definition resolve_row :: "timestamp \<Rightarrow> string \<Rightarrow> incident_row \<Rightarrow> incident_row" where
  "resolve_row t reason i = i\<lparr>inc_last := t, inc_resolved := Some t, inc_reason := Some reason\<rparr>"

definition resolve_incident :: "string \<Rightarrow> timestamp \<Rightarrow> string \<Rightarrow> db \<Rightarrow> db" where
  "resolve_incident i t reason d =
     (case row_get inc_uuid i (incidents d) of
        None \<Rightarrow> d
      | Some inc \<Rightarrow>
          enqueue_incident_notification i (inc_camera inc) (inc_kind inc) IncidentResolved t
            (d\<lparr>incidents := upd_where (\<lambda>r. inc_uuid r = i \<and> is_open r) (resolve_row t reason)
                 (incidents d)\<rparr>))"

definition new_incident ::
  "string \<Rightarrow> string \<Rightarrow> incident_kind \<Rightarrow> severity \<Rightarrow> timestamp \<Rightarrow> pydict \<Rightarrow> incident_row" where
  "new_incident u c kind sev t details =
     \<lparr>inc_uuid = u, inc_camera = c, inc_kind = kind, inc_severity = sev, inc_opened = t,
      inc_last = t, inc_resolved = None, inc_reason = None, inc_details = details\<rparr>"

definition open_incident ::
  "string \<Rightarrow> incident_kind \<Rightarrow> severity \<Rightarrow> timestamp \<Rightarrow> pydict \<Rightarrow> db \<Rightarrow> string \<times> db" where
  "open_incident c kind sev t details d =
     (let (u, d1) = new_uuid d;
          d2 = d1\<lparr>incidents := incidents d1 @ [new_incident u c kind sev t details]\<rparr>
      in (u, enqueue_incident_notification u c kind IncidentOpened t d2))"

fun desired_kind :: "camera_state \<Rightarrow> incident_kind option" where
  "desired_kind COffline = Some MediaOffline"
| "desired_kind CAuthFailed = Some AuthenticationFailed"
| "desired_kind _ = None"

definition opened_health :: "string \<Rightarrow> db \<Rightarrow> incident_row option" where
  "opened_health c d = find (\<lambda>i. inc_camera i = c \<and> open_health i) (incidents d)"

definition reconcile_camera_incident :: "string \<Rightarrow> timestamp \<Rightarrow> db \<Rightarrow> db" where
  "reconcile_camera_incident c t d =
     (case camera_health_state d c of
        None \<Rightarrow> d
      | Some (state, _) \<Rightarrow>
          (case desired_kind state of
             Some kind \<Rightarrow>
               (case opened_health c d of
                  Some opened \<Rightarrow>
                    if inc_kind opened = kind
                    then d\<lparr>incidents := upd_where (\<lambda>r. inc_uuid r = inc_uuid opened)
                             (\<lambda>r. r\<lparr>inc_last := t\<rparr>) (incidents d)\<rparr>
                    else snd (open_incident c kind Critical t []
                               (resolve_incident (inc_uuid opened) t ''cause_changed'' d))
                | None \<Rightarrow> snd (open_incident c kind Critical t [] d))
           | None \<Rightarrow>
               (case opened_health c d of
                  Some opened \<Rightarrow>
                    if state = CHealthy then resolve_incident (inc_uuid opened) t ''recovered'' d
                    else if state = CDisabled
                      then resolve_incident (inc_uuid opened) t ''operator_disabled'' d
                    else d
                | None \<Rightarrow> d)))"

subsection \<open>The event history\<close>

text \<open>\<open>ORDER BY observed_at DESC, event_id DESC LIMIT 1\<close>: the last of the rows with the greatest time.\<close>

definition latest_by :: "('r \<Rightarrow> int) \<Rightarrow> 'r list \<Rightarrow> 'r option" where
  "latest_by f xs =
     foldl (\<lambda>best r. case best of None \<Rightarrow> Some r | Some b \<Rightarrow> if f b \<le> f r then Some r else Some b)
       None xs"

definition latest_event :: "string \<Rightarrow> db \<Rightarrow> health_event_row option" where
  "latest_event c d = latest_by hev_at (filter (\<lambda>e. hev_camera e = c) (health_events d))"

definition record_camera_health_transition :: "string \<Rightarrow> timestamp \<Rightarrow> db \<Rightarrow> db" where
  "record_camera_health_transition c t d =
     (case camera_health_state d c of
        None \<Rightarrow> d
      | Some (state, reason) \<Rightarrow>
          let changed = (case latest_event c d of
                           None \<Rightarrow> True
                         | Some e \<Rightarrow> hev_state e \<noteq> state \<or> hev_reason e \<noteq> reason);
              d' = (if changed
                    then d\<lparr>health_events := health_events d @
                            [\<lparr>hev_camera = c, hev_state = state, hev_reason = reason, hev_at = t\<rparr>]\<rparr>
                    else d)
          in reconcile_camera_incident c t d')"

subsection \<open>Probe results\<close>

record probe_result =
  pr_status :: string
  pr_latency :: int
  pr_vcodec :: "string option"
  pr_acodec :: "string option"
  pr_width :: int
  pr_height :: int
  pr_fps :: rat

definition simple_result :: "string \<Rightarrow> int \<Rightarrow> probe_result" where
  "simple_result status latency =
     \<lparr>pr_status = status, pr_latency = latency, pr_vcodec = None, pr_acodec = None,
      pr_width = 0, pr_height = 0, pr_fps = 0\<rparr>"

definition next_failures :: "string \<Rightarrow> nat \<Rightarrow> nat" where
  "next_failures status failures =
     (if status = ''ready'' \<or> status = ''idle'' then 0 else Suc failures)"

definition next_health :: "string \<Rightarrow> nat \<Rightarrow> health \<Rightarrow> health" where
  "next_health status failures current =
     (if status = ''ready'' then Healthy
      else if status = ''idle'' then Unknown
      else if status = ''auth_failed'' then AuthFailed
      else if 3 \<le> failures then Offline
      else if 2 \<le> failures then Degraded
      else if current = Healthy then Healthy else Unknown)"

definition coalesce :: "'a option \<Rightarrow> 'a option \<Rightarrow> 'a option" where
  "coalesce a b = (case a of Some x \<Rightarrow> Some x | None \<Rightarrow> b)"

definition apply_probe :: "probe_result \<Rightarrow> timestamp \<Rightarrow> stream_row \<Rightarrow> stream_row" where
  "apply_probe r t s =
     (let status = pr_status r;
          failures = next_failures status (str_failures s);
          s1 = s\<lparr>str_probe_status := status, str_probed_at := Some t, str_latency := Some (pr_latency r),
                 str_health := next_health status failures (str_health s), str_failures := failures,
                 str_last_ready := (if status = ''ready'' then Some t else str_last_ready s),
                 str_last_failure := (if status = ''ready'' then str_last_failure s else Some t)\<rparr>
      in if status = ''ready''
         then s1\<lparr>str_vcodec := coalesce (pr_vcodec r) (str_vcodec s1),
                 str_acodec := coalesce (pr_acodec r) (str_acodec s1),
                 str_pwidth := (if pr_width r > 0 then Some (pr_width r) else str_pwidth s1),
                 str_pheight := (if pr_height r > 0 then Some (pr_height r) else str_pheight s1),
                 str_pfps := (if pr_fps r > 0 then Some (pr_fps r) else str_pfps s1)\<rparr>
         else s1)"

definition retry_after_result :: "string \<Rightarrow> string \<Rightarrow> rat \<Rightarrow> auth_retry_row list \<Rightarrow> auth_retry_row list" where
  "retry_after_result u status epoch t =
     (if status = ''auth_failed''
      then row_ins rty_stream \<lparr>rty_stream = u, rty_attempts = 0, rty_next = epoch + 60\<rparr> t
      else if status = ''ready'' then del_where (\<lambda>r. rty_stream r = u) t
      else t)"

definition record_one :: "timestamp \<Rightarrow> rat \<Rightarrow> string \<times> probe_result \<Rightarrow> db \<Rightarrow> db" where
  "record_one t epoch ur d =
     (case ur of (u, r) \<Rightarrow>
        (case row_get str_uuid u (streams d) of
           None \<Rightarrow> d
         | Some current \<Rightarrow>
             d\<lparr>auth_retries := retry_after_result u (pr_status r) epoch (auth_retries d),
               streams := upd_where (\<lambda>s. str_uuid s = u) (apply_probe r t) (streams d)\<rparr>))"

definition affected_cameras :: "(string \<times> probe_result) list \<Rightarrow> db \<Rightarrow> string list" where
  "affected_cameras results d =
     remdups (concat (map (\<lambda>(u, r). case row_get str_uuid u (streams d) of
                                       None \<Rightarrow> [] | Some s \<Rightarrow> [str_camera s]) results))"

definition record_probe_results ::
  "(string \<times> probe_result) list \<Rightarrow> timestamp \<Rightarrow> rat \<Rightarrow> db \<Rightarrow> db" where
  "record_probe_results results t epoch d =
     fold (\<lambda>c. record_camera_health_transition c t) (affected_cameras results d)
       (fold (record_one t epoch) results d)"

definition record_camera_auth_failure :: "string \<Rightarrow> probe_result \<Rightarrow> timestamp \<Rightarrow> rat \<Rightarrow> db \<Rightarrow> db" where
  "record_camera_auth_failure c r t epoch d =
     record_probe_results
       (map (\<lambda>s. (str_uuid s, r)) (filter (\<lambda>s. str_camera s = c) (streams d))) t epoch d"

subsection \<open>Retrying authentication\<close>

definition auth_retry_schedule :: "rat \<Rightarrow> db \<Rightarrow> (string \<times> rat) list \<times> db" where
  "auth_retry_schedule epoch d =
     (let kept = del_where (\<lambda>r. has_row (\<lambda>s. str_uuid s = rty_stream r
                    \<and> (str_health s \<noteq> AuthFailed \<or> \<not> str_enabled s)) (streams d)) (auth_retries d);
          due = map str_uuid (filter (\<lambda>s. str_health s = AuthFailed \<and> str_enabled s) (streams d));
          t = fold (\<lambda>u. row_ins rty_stream \<lparr>rty_stream = u, rty_attempts = 0, rty_next = epoch + 60\<rparr>)
                due kept
      in (map (\<lambda>r. (rty_stream r, rty_next r)) t, d\<lparr>auth_retries := t\<rparr>))"

definition retry_delay :: "nat \<Rightarrow> rat" where
  "retry_delay attempts = [300, 900, 1800] ! min attempts 2"

definition claim_auth_retry :: "string \<Rightarrow> rat \<Rightarrow> db \<Rightarrow> bool \<times> db" where
  "claim_auth_retry u now d =
     (case find (\<lambda>r. rty_stream r = u \<and> rty_next r \<le> now) (auth_retries d) of
        None \<Rightarrow> (False, d)
      | Some row \<Rightarrow>
          (True, d\<lparr>auth_retries := upd_where (\<lambda>r. rty_stream r = u)
                     (\<lambda>r. r\<lparr>rty_attempts := Suc (rty_attempts r),
                            rty_next := now + retry_delay (rty_attempts row)\<rparr>) (auth_retries d)\<rparr>))"

subsection \<open>Operator settings that change the state\<close>

definition set_camera_enabled :: "string \<Rightarrow> bool \<Rightarrow> timestamp \<Rightarrow> db \<Rightarrow> bool \<times> db" where
  "set_camera_enabled c e t d =
     (let found = has_row (\<lambda>r. cam_uuid r = c) (cameras d);
          d' = d\<lparr>cameras := upd_where (\<lambda>r. cam_uuid r = c)
                   (\<lambda>r. r\<lparr>cam_enabled := e, cam_updated := t\<rparr>) (cameras d)\<rparr>
      in (found, if found then record_camera_health_transition c t d' else d'))"

definition set_camera_notifications_silenced :: "string \<Rightarrow> bool \<Rightarrow> timestamp \<Rightarrow> db \<Rightarrow> bool \<times> db" where
  "set_camera_notifications_silenced c silenced t d =
     (let found = has_row (\<lambda>r. cam_uuid r = c) (cameras d);
          d' = d\<lparr>cameras := upd_where (\<lambda>r. cam_uuid r = c)
                   (\<lambda>r. r\<lparr>cam_silenced := silenced, cam_updated := t\<rparr>) (cameras d)\<rparr>;
          of_camera = (\<lambda>i. has_row (\<lambda>r. inc_uuid r = i \<and> inc_camera r = c) (incidents d'))
      in (found,
          if found \<and> silenced
          then d'\<lparr>outbox := del_where (\<lambda>r. (out_status r = Pending \<or> out_status r = Retry)
                     \<and> (case out_incident r of None \<Rightarrow> False | Some i \<Rightarrow> of_camera i)) (outbox d')\<rparr>
          else d'))"

subsection \<open>Address incidents and relay notices\<close>

definition address_incident_details :: "string \<Rightarrow> string \<Rightarrow> string \<Rightarrow> pydict" where
  "address_incident_details previous current evidence =
     [(''previous_address'', PStr previous), (''current_address'', PStr current),
      (''evidence'', PStr evidence)]"

definition open_camera_address_incident ::
  "string \<Rightarrow> string \<Rightarrow> string \<Rightarrow> string \<Rightarrow> timestamp \<Rightarrow> db \<Rightarrow> repo_error + string \<times> db" where
  "open_camera_address_incident c previous current evidence t d =
     (let details = address_incident_details previous current evidence in
      case find (\<lambda>i. inc_camera i = c \<and> open_address i) (incidents d) of
        Some opened \<Rightarrow>
          Inr (inc_uuid opened,
               d\<lparr>incidents := upd_where (\<lambda>r. inc_uuid r = inc_uuid opened)
                   (\<lambda>r. r\<lparr>inc_last := t, inc_details := details\<rparr>) (incidents d)\<rparr>)
      | None \<Rightarrow>
          if \<not> has_row (\<lambda>r. cam_uuid r = c) (cameras d)
          then Inl (IntegrityError ''camera_incidents.camera_uuid'')
          else Inr (open_incident c CameraAddressChanged Warning t details d))"

definition resolve_camera_address_incident :: "string \<Rightarrow> timestamp \<Rightarrow> db \<Rightarrow> db" where
  "resolve_camera_address_incident i t d =
     (case row_get inc_uuid i (incidents d) of
        None \<Rightarrow> d
      | Some inc \<Rightarrow>
          if inc_kind inc \<noteq> CameraAddressChanged \<or> inc_resolved inc \<noteq> None then d
          else resolve_incident i t ''stream_recovered'' d)"

definition enqueue_relay_restart_notification ::
  "string \<Rightarrow> int \<Rightarrow> timestamp \<Rightarrow> db \<Rightarrow> string option \<times> db" where
  "enqueue_relay_restart_notification reason camera_count t d =
     (let (u, d') = new_uuid d in
      if \<not> notifications_on d' then (None, d')
      else (Some u,
            d'\<lparr>outbox := outbox d' @
                [new_outbox_row u None RelayRestarted
                   [(''reason'', PStr reason), (''camera_count'', PInt (max 0 camera_count)),
                    (''observed_at'', PInt t)] (''relay-restarted:'' @ u) t]\<rparr>))"

end
