(* ===== verification/HealthInv.thy ===== *)
theory HealthInv
  imports Health
begin

text \<open>
  The constraints of the incident and outbox tables, and that every operation of \<open>Health\<close> keeps
  them: primary keys, the UNIQUE idempotency key, the partial unique indexes
  \<open>camera_incidents_one_open_health_per_camera\<close> and \<open>..._address_per_camera\<close>, and the
  foreign keys. \<open>uuid_supply_ok\<close> is what the code relies on from \<open>uuid4\<close>: no value
  repeats, and none holds a colon or is one of the two words that start a synthetic key.
\<close>

definition uuid_supply_ok :: "(nat \<Rightarrow> string) \<Rightarrow> bool" where
  "uuid_supply_ok f \<longleftrightarrow>
     inj f \<and> (\<forall>n. CHR '':'' \<notin> set (f n) \<and> f n \<noteq> ''relay-restarted'' \<and> f n \<noteq> ''test'')"

definition outbox_key_shape :: "db \<Rightarrow> outbox_row \<Rightarrow> bool" where
  "outbox_key_shape d r \<longleftrightarrow>
     (\<exists>i e. i \<in> drawn d \<and> (e = IncidentOpened \<or> e = IncidentResolved) \<and> out_key r = incident_event_key i e)
     \<or> out_key r = ''relay-restarted:'' @ out_uuid r \<or> out_key r = ''test:'' @ out_uuid r"

definition outbox_incident_ref :: "db \<Rightarrow> outbox_row \<Rightarrow> bool" where
  "outbox_incident_ref d r \<longleftrightarrow>
     (case out_incident r of None \<Rightarrow> True | Some i \<Rightarrow> i \<in> inc_uuid ` set (incidents d))"

definition incidents_ok :: "db \<Rightarrow> bool" where
  "incidents_ok d \<longleftrightarrow>
     uniq_on inc_uuid (incidents d) \<and>
     uniq_on inc_camera (filter open_health (incidents d)) \<and>
     uniq_on inc_camera (filter open_address (incidents d)) \<and>
     refs inc_camera (incidents d) cam_uuid (cameras d) \<and>
     inc_uuid ` set (incidents d) \<subseteq> drawn d"

definition outbox_ok :: "db \<Rightarrow> bool" where
  "outbox_ok d \<longleftrightarrow>
     uniq_on out_uuid (outbox d) \<and> uniq_on out_key (outbox d) \<and>
     out_uuid ` set (outbox d) \<subseteq> drawn d \<and>
     (\<forall>r \<in> set (outbox d). outbox_key_shape d r \<and> outbox_incident_ref d r)"

definition health_inv :: "db \<Rightarrow> bool" where
  "health_inv d \<longleftrightarrow>
     uuid_supply_ok (uuid_at d) \<and> uniq_on cam_uuid (cameras d) \<and> incidents_ok d \<and> outbox_ok d"

lemma health_inv_empty: "uuid_supply_ok f \<Longrightarrow> health_inv (empty_db f)"
  by (simp add: health_inv_def incidents_ok_def outbox_ok_def empty_db_def)

lemma uniq_filter_upd:
  assumes "uniq_on h (filter Q t)"
    and "\<And>r. P r \<Longrightarrow> Q (f r) \<Longrightarrow> Q r \<and> h (f r) = h r"
  shows "uniq_on h (filter Q (upd_where P f t))"
  using assms(1)
proof (induction t)
  case Nil
  then show ?case by simp
next
  case (Cons r t)
  have sub: "h ` set (filter Q (upd_where P f t)) \<subseteq> h ` set (filter Q t)"
    using assms(2) by (auto simp: row_simps)
  show ?case using Cons sub assms(2) [of r] by (auto simp: uniq_on_def split: if_splits)
qed

lemma drawn_new_uuid [simp]: "drawn (snd (new_uuid d)) = insert (fst (new_uuid d)) (drawn d)"
  by (simp add: new_uuid_def)

lemma new_uuid_sel [simp]:
  "cameras (snd (new_uuid d)) = cameras d" "incidents (snd (new_uuid d)) = incidents d"
  "outbox (snd (new_uuid d)) = outbox d" "uuid_at (snd (new_uuid d)) = uuid_at d"
  "notification_settings (snd (new_uuid d)) = notification_settings d"
  "streams (snd (new_uuid d)) = streams d" "bindings (snd (new_uuid d)) = bindings d"
  "health_events (snd (new_uuid d)) = health_events d"
  by (simp_all add: new_uuid_def)

lemma drawn_upd [simp]:
  "drawn (d\<lparr>outbox := x\<rparr>) = drawn d" "drawn (d\<lparr>incidents := y\<rparr>) = drawn d"
  "drawn (d\<lparr>cameras := z\<rparr>) = drawn d" "drawn (d\<lparr>health_events := w\<rparr>) = drawn d"
  "drawn (d\<lparr>streams := s\<rparr>) = drawn d" "drawn (d\<lparr>auth_retries := a\<rparr>) = drawn d"
  by (simp_all add: drawn_def)

lemma new_uuid_not_drawn: "uuid_supply_ok (uuid_at d) \<Longrightarrow> fst (new_uuid d) \<notin> drawn d"
  by (auto simp: new_uuid_def uuid_supply_ok_def dest: new_uuid_fresh)

lemma new_uuid_ok:
  "uuid_supply_ok (uuid_at d) \<Longrightarrow>
   CHR '':'' \<notin> set (fst (new_uuid d)) \<and> fst (new_uuid d) \<noteq> ''relay-restarted'' \<and> fst (new_uuid d) \<noteq> ''test''"
  by (auto simp: new_uuid_def uuid_supply_ok_def)

lemma drawn_ok:
  "uuid_supply_ok (uuid_at d) \<Longrightarrow> u \<in> drawn d \<Longrightarrow>
   CHR '':'' \<notin> set u \<and> u \<noteq> ''relay-restarted'' \<and> u \<noteq> ''test''"
  by (auto simp: drawn_def uuid_supply_ok_def)

subsection \<open>Idempotency keys\<close>

lemma colon_split_inj:
  "i @ '':'' @ x = j @ '':'' @ y \<Longrightarrow> CHR '':'' \<notin> set i \<Longrightarrow> CHR '':'' \<notin> set j \<Longrightarrow> i = j \<and> x = y"
proof -
  assume eq: "i @ '':'' @ x = j @ '':'' @ y" and i: "CHR '':'' \<notin> set i" and j: "CHR '':'' \<notin> set j"
  have "i @ CHR '':'' # x = j @ CHR '':'' # y" using eq by simp
  then have "(i, True, x) = (j, True, y)"
    by (metis partition_char_at [OF i] partition_char_at [OF j])
  then show ?thesis by simp
qed

lemma relay_key_new:
  assumes "uuid_supply_ok (uuid_at d)" "i \<in> drawn d"
  shows "incident_event_key i e \<noteq> ''relay-restarted:'' @ u" "incident_event_key i e \<noteq> ''test:'' @ u"
proof -
  have i: "CHR '':'' \<notin> set i" "i \<noteq> ''relay-restarted''" "i \<noteq> ''test''"
    using drawn_ok [OF assms] by auto
  show "incident_event_key i e \<noteq> ''relay-restarted:'' @ u"
    using i colon_split_inj [of i "event_text e" "''relay-restarted''" u]
    by (auto simp: incident_event_key_def)
  show "incident_event_key i e \<noteq> ''test:'' @ u"
    using i colon_split_inj [of i "event_text e" "''test''" u]
    by (auto simp: incident_event_key_def)
qed

lemma incident_ref_cong:
  "incidents d' = incidents d \<Longrightarrow> outbox_incident_ref d' r = outbox_incident_ref d r"
  by (cases "out_incident r") (simp_all add: outbox_incident_ref_def)

lemma incident_ref_simps [simp]:
  "outbox_incident_ref (d\<lparr>outbox := x\<rparr>) r = outbox_incident_ref d r"
  "outbox_incident_ref (snd (new_uuid d)) r = outbox_incident_ref d r"
  by (rule incident_ref_cong, simp)+

lemma key_shape_mono:
  "outbox_key_shape d r \<Longrightarrow> drawn d \<subseteq> drawn d' \<Longrightarrow> outbox_key_shape d' r"
  by (auto simp: outbox_key_shape_def)

lemma row_ins_cases: "row_ins key r t = t \<or> (key r \<notin> key ` set t \<and> row_ins key r t = t @ [r])"
  by (auto simp: row_ins_def has_row_key)

text \<open>Adding one row with a fresh UUID keeps the outbox constraints.\<close>

lemma outbox_ok_add:
  assumes "outbox_ok d" and "uuid_supply_ok (uuid_at d)" and "(u, d') = new_uuid d"
    and "out_uuid r = u" and "out_key r \<notin> out_key ` set (outbox d)"
    and "outbox_key_shape d' r" and "outbox_incident_ref d r"
  shows "outbox_ok (d'\<lparr>outbox := outbox d @ [r]\<rparr>)"
proof -
  have d': "d' = snd (new_uuid d)" "u = fst (new_uuid d)" using assms(3) by (metis snd_conv, metis fst_conv)
  have fresh: "u \<notin> drawn d" using new_uuid_not_drawn [OF assms(2)] d' by simp
  have mono: "drawn d \<subseteq> drawn (d'\<lparr>outbox := outbox d @ [r]\<rparr>)" unfolding d' by auto
  have "outbox_key_shape (d'\<lparr>outbox := outbox d @ [r]\<rparr>) x" if "x \<in> set (outbox d) \<or> x = r" for x
    using that assms(1,6) key_shape_mono [OF _ mono] key_shape_mono [of d' r]
    by (auto simp: outbox_ok_def)
  moreover have "outbox_incident_ref (d'\<lparr>outbox := outbox d @ [r]\<rparr>) x" if "x \<in> set (outbox d) \<or> x = r" for x
    using that assms(1,7) unfolding d' by (auto simp: outbox_ok_def)
  ultimately show ?thesis
    using assms(1,4,5) fresh unfolding d'
    by (auto simp: outbox_ok_def intro!: uniq_on_snoc)
qed

lemma outbox_ok_draw: "outbox_ok d \<Longrightarrow> outbox_ok (snd (new_uuid d))"
  unfolding outbox_ok_def using key_shape_mono [of d _ "snd (new_uuid d)"] by auto

lemma incidents_ok_draw: "incidents_ok d \<Longrightarrow> incidents_ok (snd (new_uuid d))"
  by (auto simp: incidents_ok_def)

lemma incidents_ok_outbox [simp]: "incidents_ok (d\<lparr>outbox := x\<rparr>) = incidents_ok d"
  by (simp add: incidents_ok_def)

subsection \<open>Alerts\<close>

lemma enqueue_cases:
  obtains (same) "enqueue_incident_notification i c k e t d = d"
  | (drawn_only) "enqueue_incident_notification i c k e t d = snd (new_uuid d)"
  | (added) r where "enqueue_incident_notification i c k e t d =
        (snd (new_uuid d))\<lparr>outbox := outbox d @ [r]\<rparr>"
      "out_uuid r = fst (new_uuid d)" "out_key r = incident_event_key i e" "out_incident r = Some i"
      "incident_event_key i e \<notin> out_key ` set (outbox d)"
proof (cases "enqueue_incident_notification i c k e t d = d")
  case True
  then show ?thesis by (rule same)
next
  case False
  obtain camera where camera: "row_get cam_uuid c (cameras d) = Some camera"
    using False by (auto simp: enqueue_incident_notification_def split: if_splits option.splits)
  define r where "r = new_outbox_row (fst (new_uuid d)) (Some i) e (address_details d i k
      [(''camera_id'', PStr c), (''camera_name'', PStr (cam_name camera)),
       (''kind'', PStr (kind_text k)), (''observed_at'', PInt t)]) (incident_event_key i e) t"
  have eq: "enqueue_incident_notification i c k e t d =
      (snd (new_uuid d))\<lparr>outbox := row_ins out_key r (outbox d)\<rparr>"
    using False camera
    by (auto simp: enqueue_incident_notification_def r_def Let_def case_prod_unfold split: if_splits)
  from row_ins_cases [of out_key r "outbox d"] show ?thesis
  proof
    assume "row_ins out_key r (outbox d) = outbox d"
    then show ?thesis using eq drawn_only by simp
  next
    assume "out_key r \<notin> out_key ` set (outbox d) \<and> row_ins out_key r (outbox d) = outbox d @ [r]"
    then show ?thesis using eq by (intro added [of r]) (auto simp: r_def new_outbox_row_def)
  qed
qed

lemma enqueue_sel [simp]:
  "cameras (enqueue_incident_notification i c k e t d) = cameras d"
  "incidents (enqueue_incident_notification i c k e t d) = incidents d"
  "streams (enqueue_incident_notification i c k e t d) = streams d"
  "bindings (enqueue_incident_notification i c k e t d) = bindings d"
  "health_events (enqueue_incident_notification i c k e t d) = health_events d"
  "notification_settings (enqueue_incident_notification i c k e t d) = notification_settings d"
  by (cases rule: enqueue_cases [of i c k e t d]; simp)+

lemma enqueue_inv [wf_intros]:
  assumes "health_inv d" and "i \<in> inc_uuid ` set (incidents d)"
    and "e = IncidentOpened \<or> e = IncidentResolved"
  shows "health_inv (enqueue_incident_notification i c k e t d)"
proof (cases rule: enqueue_cases [of i c k e t d])
  case same
  with assms(1) show ?thesis by simp
next
  case drawn_only
  with assms(1) show ?thesis by (simp add: health_inv_def outbox_ok_draw incidents_ok_draw)
next
  case (added r)
  have "i \<in> drawn d" using assms(1,2) by (auto simp: health_inv_def incidents_ok_def)
  then have "outbox_key_shape (snd (new_uuid d)) r"
    using assms(3) added(3) by (auto simp: outbox_key_shape_def)
  moreover have "outbox_incident_ref d r" using assms(2) added(4) by (simp add: outbox_incident_ref_def)
  ultimately have "outbox_ok ((snd (new_uuid d))\<lparr>outbox := outbox d @ [r]\<rparr>)"
    using assms(1) added(2,3,5)
    by (intro outbox_ok_add [where u = "fst (new_uuid d)"]) (auto simp: health_inv_def)
  then show ?thesis using assms(1) added(1)
    by (simp add: health_inv_def incidents_ok_draw)
qed


subsection \<open>Incidents\<close>

lemma image_upd_where:
  "(\<And>r. P r \<Longrightarrow> h (f r) = h r) \<Longrightarrow> h ` set (upd_where P f t) = h ` set t"
  by (metis list.set_map map_upd_where)

lemma incidents_ok_upd:
  assumes "incidents_ok d"
    and "\<And>r. P r \<Longrightarrow> inc_uuid (f r) = inc_uuid r \<and> inc_camera (f r) = inc_camera r"
    and "\<And>r. P r \<Longrightarrow> open_health (f r) \<Longrightarrow> open_health r"
    and "\<And>r. P r \<Longrightarrow> open_address (f r) \<Longrightarrow> open_address r"
  shows "incidents_ok (d\<lparr>incidents := upd_where P f (incidents d)\<rparr>)"
  using assms
  by (auto simp: incidents_ok_def image_upd_where intro!: uniq_on_upd_where uniq_filter_upd refs_upd_where)

lemma outbox_ok_incidents:
  assumes "outbox_ok d" and "inc_uuid ` set (incidents d) \<subseteq> inc_uuid ` set x"
  shows "outbox_ok (d\<lparr>incidents := x\<rparr>)"
proof -
  have "outbox_incident_ref (d\<lparr>incidents := x\<rparr>) r" if "outbox_incident_ref d r" for r
    using that assms(2) by (cases "out_incident r") (auto simp: outbox_incident_ref_def)
  moreover have "outbox_key_shape (d\<lparr>incidents := x\<rparr>) r" if "outbox_key_shape d r" for r
    using that by (rule key_shape_mono) simp
  ultimately show ?thesis using assms(1) by (auto simp: outbox_ok_def)
qed

lemma resolve_row_sel [simp]:
  "inc_uuid (resolve_row t x r) = inc_uuid r" "inc_camera (resolve_row t x r) = inc_camera r"
  "inc_kind (resolve_row t x r) = inc_kind r" "is_open (resolve_row t x r) = False"
  "open_health (resolve_row t x r) = False" "open_address (resolve_row t x r) = False"
  by (simp_all add: resolve_row_def is_open_def open_health_def open_address_def)

lemma resolve_sel [simp]:
  "cameras (resolve_incident i t x d) = cameras d"
  "streams (resolve_incident i t x d) = streams d"
  "bindings (resolve_incident i t x d) = bindings d"
  "health_events (resolve_incident i t x d) = health_events d"
  "notification_settings (resolve_incident i t x d) = notification_settings d"
  by (auto simp: resolve_incident_def split: option.splits)

lemma resolve_inv [wf_intros]:
  assumes "health_inv d"
  shows "health_inv (resolve_incident i t x d)"
proof (cases "row_get inc_uuid i (incidents d)")
  case None
  with assms show ?thesis by (simp add: resolve_incident_def)
next
  case (Some inc)
  let ?P = "\<lambda>r. inc_uuid r = i \<and> is_open r"
  let ?d = "d\<lparr>incidents := upd_where ?P (resolve_row t x) (incidents d)\<rparr>"
  have ids: "inc_uuid ` set (incidents ?d) = inc_uuid ` set (incidents d)"
    by (simp add: image_upd_where)
  have "incidents_ok ?d" using assms by (intro incidents_ok_upd) (auto simp: health_inv_def)
  moreover have "outbox_ok ?d" using assms ids by (intro outbox_ok_incidents) (auto simp: health_inv_def)
  ultimately have "health_inv ?d" using assms by (simp add: health_inv_def)
  moreover have "i \<in> inc_uuid ` set (incidents ?d)" using Some ids row_get_SomeD by fastforce
  ultimately show ?thesis using Some by (simp add: resolve_incident_def enqueue_inv)
qed

lemma filter_upd_false:
  "(\<And>r. P r \<Longrightarrow> \<not> Q (f r)) \<Longrightarrow> filter Q (upd_where P f t) = filter (\<lambda>r. Q r \<and> \<not> P r) t"
  by (induction t) auto

lemma incidents_resolve:
  assumes "inc \<in> set (incidents d)" "inc_uuid inc = i"
  shows "incidents (resolve_incident i t x d) =
    upd_where (\<lambda>r. inc_uuid r = i \<and> is_open r) (resolve_row t x) (incidents d)"
proof -
  have "row_get inc_uuid i (incidents d) \<noteq> None" using assms by (auto simp: row_get_None_iff)
  then show ?thesis by (auto simp: resolve_incident_def)
qed

lemma open_incident_sel [simp]:
  "cameras (snd (open_incident c k sev t det d)) = cameras d"
  "streams (snd (open_incident c k sev t det d)) = streams d"
  "bindings (snd (open_incident c k sev t det d)) = bindings d"
  "health_events (snd (open_incident c k sev t det d)) = health_events d"
  "notification_settings (snd (open_incident c k sev t det d)) = notification_settings d"
  "incidents (snd (open_incident c k sev t det d)) =
     incidents d @ [new_incident (fst (new_uuid d)) c k sev t det]"
  "fst (open_incident c k sev t det d) = fst (new_uuid d)"
  by (simp_all add: open_incident_def Let_def case_prod_unfold)

lemma open_incident_inv [wf_intros]:
  assumes "health_inv d" and "c \<in> cam_uuid ` set (cameras d)"
    and "k \<noteq> CameraAddressChanged \<Longrightarrow> \<not> (\<exists>i \<in> set (incidents d). inc_camera i = c \<and> open_health i)"
    and "k = CameraAddressChanged \<Longrightarrow> \<not> (\<exists>i \<in> set (incidents d). inc_camera i = c \<and> open_address i)"
  shows "health_inv (snd (open_incident c k sev t det d))"
proof -
  define u where "u = fst (new_uuid d)"
  define d1 where "d1 = snd (new_uuid d)"
  define r where "r = new_incident u c k sev t det"
  let ?d = "d1\<lparr>incidents := incidents d1 @ [r]\<rparr>"
  have r: "inc_uuid r = u" "inc_camera r = c" "inc_kind r = k" "is_open r"
    by (simp_all add: r_def new_incident_def is_open_def)
  have d1: "incidents d1 = incidents d" "cameras d1 = cameras d" "drawn d1 = insert u (drawn d)"
    "uuid_at d1 = uuid_at d" by (simp_all add: d1_def u_def)
  have fresh: "u \<notin> drawn d" using assms(1) new_uuid_not_drawn by (auto simp: u_def health_inv_def)
  have inc: "incidents_ok d" and out: "outbox_ok d1"
    using assms(1) by (auto simp: health_inv_def d1_def outbox_ok_draw)
  have "uniq_on inc_camera (filter open_health (incidents d @ [r]))"
    using inc assms(3) r by (cases k) (auto simp: incidents_ok_def open_health_def is_health_def intro!: uniq_on_snoc)
  moreover have "uniq_on inc_camera (filter open_address (incidents d @ [r]))"
    using inc assms(4) r by (cases k) (auto simp: incidents_ok_def open_address_def intro!: uniq_on_snoc)
  moreover have "uniq_on inc_uuid (incidents d @ [r])"
    using inc fresh r by (auto simp: incidents_ok_def intro!: uniq_on_snoc)
  ultimately have "incidents_ok ?d"
    using inc assms(2) r d1 by (auto simp: incidents_ok_def intro!: refs_snoc)
  moreover have "outbox_ok ?d" using out by (rule outbox_ok_incidents) auto
  ultimately have "health_inv ?d" using assms(1) d1 by (simp add: health_inv_def)
  then have "health_inv (enqueue_incident_notification u c k IncidentOpened t ?d)"
    by (rule enqueue_inv) (use r in auto)
  then show ?thesis
    by (simp add: open_incident_def Let_def case_prod_unfold d1_def u_def r_def)
qed

lemma opened_health_SomeD:
  "opened_health c d = Some i \<Longrightarrow> i \<in> set (incidents d) \<and> inc_camera i = c \<and> open_health i"
  by (auto simp: opened_health_def find_Some_iff)

lemma opened_health_NoneD:
  "opened_health c d = None \<Longrightarrow> \<not> (\<exists>i \<in> set (incidents d). inc_camera i = c \<and> open_health i)"
  by (auto simp: opened_health_def find_None_iff)

lemma open_health_uniq:
  assumes "incidents_ok d" "i \<in> set (incidents d)" "j \<in> set (incidents d)"
    "open_health i" "open_health j" "inc_camera i = inc_camera j"
  shows "i = j"
  using assms by (auto simp: incidents_ok_def intro: uniq_on_same [of inc_camera "filter open_health (incidents d)"])

lemma resolve_closes:
  assumes "incidents_ok d" "opened_health c d = Some i"
  shows "\<not> (\<exists>j \<in> set (incidents (resolve_incident (inc_uuid i) t x d)). inc_camera j = c \<and> open_health j)"
proof -
  have i: "i \<in> set (incidents d)" "inc_camera i = c" "open_health i"
    using opened_health_SomeD [OF assms(2)] by auto
  have "\<not> open_health r'" if "r' \<in> set (incidents (resolve_incident (inc_uuid i) t x d))"
    and "inc_camera r' = c" for r'
  proof -
    let ?P = "\<lambda>r. inc_uuid r = inc_uuid i \<and> is_open r"
    from that(1) obtain r where r: "r \<in> set (incidents d)"
      "r' = (if ?P r then resolve_row t x r else r)"
      by (auto simp: incidents_resolve [OF i(1) refl] set_upd_where)
    show ?thesis
    proof (cases "?P r")
      case True
      with r show ?thesis by simp
    next
      case False
      with r have "r' = r" by simp
      have "\<not> open_health r"
      proof
        assume "open_health r"
        then have "r = i" using open_health_uniq [OF assms(1) r(1) i(1)] i that(2) \<open>r' = r\<close> by simp
        with False i(3) show False by (simp add: open_health_def)
      qed
      with \<open>r' = r\<close> show ?thesis by simp
    qed
  qed
  then show ?thesis by blast
qed

lemma camera_known: "camera_health_state d c = Some x \<Longrightarrow> c \<in> cam_uuid ` set (cameras d)"
  by (auto simp: camera_health_state_def row_get_None_iff split: option.splits dest: row_get_SomeD)

lemma touch_inv:
  assumes "health_inv d"
  shows "health_inv (d\<lparr>incidents := upd_where (\<lambda>r. inc_uuid r = i) (\<lambda>r. r\<lparr>inc_last := t\<rparr>) (incidents d)\<rparr>)"
proof -
  let ?d = "d\<lparr>incidents := upd_where (\<lambda>r. inc_uuid r = i) (\<lambda>r. r\<lparr>inc_last := t\<rparr>) (incidents d)\<rparr>"
  have "incidents_ok ?d" using assms
    by (intro incidents_ok_upd) (auto simp: health_inv_def open_health_def open_address_def is_open_def is_health_def)
  moreover have "outbox_ok ?d" using assms
    by (intro outbox_ok_incidents) (auto simp: health_inv_def image_upd_where)
  ultimately show ?thesis using assms by (simp add: health_inv_def)
qed

lemma desired_kind_health: "desired_kind s = Some k \<Longrightarrow> k \<noteq> CameraAddressChanged"
  by (cases s) auto

lemma reconcile_inv [wf_intros]:
  assumes "health_inv d"
  shows "health_inv (reconcile_camera_incident c t d)"
proof (cases "camera_health_state d c")
  case None
  with assms show ?thesis by (simp add: reconcile_camera_incident_def)
next
  case (Some sr)
  then obtain state reason where sr: "camera_health_state d c = Some (state, reason)" by (cases sr) auto
  have c: "c \<in> cam_uuid ` set (cameras d)" using camera_known [OF sr] .
  have inc: "incidents_ok d" using assms by (simp add: health_inv_def)
  show ?thesis
  proof (cases "opened_health c d")
    case None
    have "health_inv (snd (open_incident c k Critical t [] d))" if "k \<noteq> CameraAddressChanged" for k
      using assms c opened_health_NoneD [OF None] that by (intro open_incident_inv) auto
    with sr None assms show ?thesis
      by (auto simp: reconcile_camera_incident_def dest: desired_kind_health split: option.split)
  next
    case (Some i)
    have "health_inv (snd (open_incident c k Critical t []
        (resolve_incident (inc_uuid i) t ''cause_changed'' d)))" if "k \<noteq> CameraAddressChanged" for k
      using assms c resolve_closes [OF inc Some] that
      by (intro open_incident_inv resolve_inv) auto
    with sr Some assms show ?thesis
      by (auto simp: reconcile_camera_incident_def touch_inv resolve_inv dest: desired_kind_health
          split: option.split)
  qed
qed


subsection \<open>Every operation\<close>

lemma outbox_ok_cong:
  assumes "incidents d' = incidents d" "outbox d' = outbox d" "drawn d' = drawn d"
  shows "outbox_ok d' = outbox_ok d"
proof -
  have "outbox_key_shape d' r = outbox_key_shape d r" for r
    using assms(3) by (simp add: outbox_key_shape_def)
  moreover have "outbox_incident_ref d' r = outbox_incident_ref d r" for r
    using assms(1) by (rule incident_ref_cong)
  ultimately show ?thesis using assms by (simp add: outbox_ok_def)
qed

lemma health_inv_cong:
  assumes "cameras d' = cameras d" "incidents d' = incidents d" "outbox d' = outbox d"
    "uuid_at d' = uuid_at d" "drawn d' = drawn d"
  shows "health_inv d' = health_inv d"
  using assms outbox_ok_cong [OF assms(2,3,5)] by (simp add: health_inv_def incidents_ok_def)

lemma health_inv_frames [simp]:
  "health_inv (d\<lparr>health_events := e\<rparr>) = health_inv d"
  "health_inv (d\<lparr>streams := s\<rparr>) = health_inv d"
  "health_inv (d\<lparr>auth_retries := a\<rparr>) = health_inv d"
  "health_inv (d\<lparr>auth_retries := a, streams := s\<rparr>) = health_inv d"
  by (rule health_inv_cong; simp add: drawn_def)+

lemma health_inv_cameras:
  assumes "health_inv d" and "map cam_uuid x = map cam_uuid (cameras d)"
  shows "health_inv (d\<lparr>cameras := x\<rparr>)"
proof -
  have "cam_uuid ` set x = cam_uuid ` set (cameras d)" using assms(2) by (metis list.set_map)
  moreover have "outbox_ok (d\<lparr>cameras := x\<rparr>) = outbox_ok d"
    by (rule outbox_ok_cong) (simp_all add: drawn_def)
  ultimately show ?thesis using assms
    by (simp add: health_inv_def incidents_ok_def uniq_on_def refs_def)
qed

lemma transition_inv [wf_intros]:
  "health_inv d \<Longrightarrow> health_inv (record_camera_health_transition c t d)"
  by (auto simp: record_camera_health_transition_def Let_def intro!: reconcile_inv split: option.splits)

lemma record_one_inv [wf_intros]: "health_inv d \<Longrightarrow> health_inv (record_one t epoch ur d)"
  by (auto simp: record_one_def split: option.splits prod.splits)

lemma fold_inv: "(\<And>x d. P d \<Longrightarrow> P (f x d)) \<Longrightarrow> P d \<Longrightarrow> P (fold f xs d)"
  by (induction xs arbitrary: d) auto

lemma record_probe_results_inv [wf_intros]:
  "health_inv d \<Longrightarrow> health_inv (record_probe_results results t epoch d)"
  unfolding record_probe_results_def
  by (intro fold_inv [where P = health_inv] transition_inv record_one_inv)

lemma set_camera_enabled_inv [wf_intros]:
  "health_inv d \<Longrightarrow> health_inv (snd (set_camera_enabled c e t d))"
  by (auto simp: set_camera_enabled_def Let_def intro!: transition_inv health_inv_cameras map_upd_where)

lemma outbox_ok_subset:
  assumes "outbox_ok d" and "x = filter P (outbox d)"
  shows "outbox_ok (d\<lparr>outbox := x\<rparr>)"
proof -
  have "outbox_key_shape (d\<lparr>outbox := x\<rparr>) r = outbox_key_shape d r" for r
    by (simp add: outbox_key_shape_def)
  then show ?thesis using assms by (auto simp: outbox_ok_def intro: uniq_on_filter)
qed

lemma silenced_inv [wf_intros]:
  assumes "health_inv d"
  shows "health_inv (snd (set_camera_notifications_silenced c b t d))"
proof -
  let ?d = "d\<lparr>cameras := upd_where (\<lambda>r. cam_uuid r = c) (\<lambda>r. r\<lparr>cam_silenced := b, cam_updated := t\<rparr>) (cameras d)\<rparr>"
  have inv: "health_inv ?d" using assms by (intro health_inv_cameras) (simp_all add: map_upd_where)
  have "health_inv (?d\<lparr>outbox := del_where P (outbox d)\<rparr>)" for P
  proof -
    have "outbox_ok (?d\<lparr>outbox := del_where P (outbox d)\<rparr>)"
      using inv by (intro outbox_ok_subset [where P = "\<lambda>r. \<not> P r"]) (auto simp: health_inv_def del_where_def)
    then show ?thesis using inv by (simp add: health_inv_def)
  qed
  then show ?thesis
    unfolding set_camera_notifications_silenced_def Let_def snd_conv
    using inv by (cases b; cases "has_row (\<lambda>r. cam_uuid r = c) (cameras d)") (simp_all)
qed

lemma open_address_inv [wf_intros]:
  assumes "health_inv d" and "open_camera_address_incident c p a e t d = Inr (u, d')"
  shows "health_inv d'"
proof (cases "find (\<lambda>i. inc_camera i = c \<and> open_address i) (incidents d)")
  case None
  then have "\<not> (\<exists>i \<in> set (incidents d). inc_camera i = c \<and> open_address i)"
    by (auto simp: find_None_iff)
  moreover have "c \<in> cam_uuid ` set (cameras d)"
    "open_incident c CameraAddressChanged Warning t (address_incident_details p a e) d = (u, d')"
    using assms(2) None
    by (auto simp: open_camera_address_incident_def Let_def has_row_key split: if_splits)
  ultimately show ?thesis
    using open_incident_inv [OF assms(1), of c CameraAddressChanged Warning t "address_incident_details p a e"]
    by simp
next
  case (Some i)
  let ?f = "\<lambda>r. r\<lparr>inc_last := t, inc_details := address_incident_details p a e\<rparr>"
  let ?d = "d\<lparr>incidents := upd_where (\<lambda>r. inc_uuid r = inc_uuid i) ?f (incidents d)\<rparr>"
  have "d' = ?d" using assms(2) Some by (auto simp: open_camera_address_incident_def Let_def)
  moreover have "incidents_ok ?d" using assms
    by (intro incidents_ok_upd) (auto simp: health_inv_def open_health_def open_address_def is_open_def is_health_def)
  moreover have "outbox_ok ?d" using assms
    by (intro outbox_ok_incidents) (auto simp: health_inv_def image_upd_where)
  ultimately show ?thesis using assms(1) by (simp add: health_inv_def)
qed

lemma resolve_address_inv [wf_intros]:
  "health_inv d \<Longrightarrow> health_inv (resolve_camera_address_incident i t d)"
  by (auto simp: resolve_camera_address_incident_def intro: resolve_inv split: option.splits)

lemma relay_notice_inv [wf_intros]:
  assumes "health_inv d"
  shows "health_inv (snd (enqueue_relay_restart_notification reason n t d))"
proof -
  have ok: "uuid_supply_ok (uuid_at d)" "outbox_ok d" "incidents_ok d" "uniq_on cam_uuid (cameras d)"
    using assms by (auto simp: health_inv_def)
  let ?u = "fst (new_uuid d)"
  let ?r = "new_outbox_row ?u None RelayRestarted
    [(''reason'', PStr reason), (''camera_count'', PInt (max 0 n)), (''observed_at'', PInt t)]
    (''relay-restarted:'' @ ?u) t"
  have fresh: "?u \<notin> drawn d" using new_uuid_not_drawn [OF ok(1)] .
  have "''relay-restarted:'' @ ?u \<noteq> out_key r" if "r \<in> set (outbox d)" for r
  proof -
    have "outbox_key_shape d r" "out_uuid r \<in> drawn d" using ok(2) that by (auto simp: outbox_ok_def)
    then show ?thesis using fresh relay_key_new [OF ok(1)]
      by (auto simp: outbox_key_shape_def) metis+
  qed
  then have "outbox_ok ((snd (new_uuid d))\<lparr>outbox := outbox d @ [?r]\<rparr>)"
    using ok by (intro outbox_ok_add [where u = ?u])
      (auto simp: new_outbox_row_def outbox_key_shape_def outbox_incident_ref_def)
  then show ?thesis using ok
    by (simp add: enqueue_relay_restart_notification_def Let_def case_prod_unfold health_inv_def
        incidents_ok_draw outbox_ok_draw)
qed

lemma auth_schedule_inv [wf_intros]: "health_inv d \<Longrightarrow> health_inv (snd (auth_retry_schedule epoch d))"
  by (simp add: auth_retry_schedule_def Let_def)

lemma claim_inv [wf_intros]: "health_inv d \<Longrightarrow> health_inv (snd (claim_auth_retry u now d))"
  by (auto simp: claim_auth_retry_def split: option.splits)

datatype health_op =
    ProbeResults "(string \<times> probe_result) list" timestamp rat
  | CameraAuthFailure string probe_result timestamp rat
  | SetCameraEnabled string bool timestamp
  | SetSilenced string bool timestamp
  | OpenAddressIncident string string string string timestamp
  | ResolveAddressIncident string timestamp
  | RelayRestartNotice string int timestamp
  | AuthRetrySchedule rat
  | ClaimAuthRetry string rat

fun health_step :: "health_op \<Rightarrow> db \<Rightarrow> db" where
  "health_step (ProbeResults results t epoch) d = record_probe_results results t epoch d"
| "health_step (CameraAuthFailure c r t epoch) d = record_camera_auth_failure c r t epoch d"
| "health_step (SetCameraEnabled c e t) d = snd (set_camera_enabled c e t d)"
| "health_step (SetSilenced c b t) d = snd (set_camera_notifications_silenced c b t d)"
| "health_step (OpenAddressIncident c p a e t) d =
     (case open_camera_address_incident c p a e t d of Inl _ \<Rightarrow> d | Inr (_, d') \<Rightarrow> d')"
| "health_step (ResolveAddressIncident i t) d = resolve_camera_address_incident i t d"
| "health_step (RelayRestartNotice reason n t) d = snd (enqueue_relay_restart_notification reason n t d)"
| "health_step (AuthRetrySchedule epoch) d = snd (auth_retry_schedule epoch d)"
| "health_step (ClaimAuthRetry u now) d = snd (claim_auth_retry u now d)"

interpretation health_ops: kept_invariant health_step health_inv
proof
  fix d x
  assume d: "health_inv d"
  show "health_inv (health_step x d)"
  proof (cases x)
    case (OpenAddressIncident c p a e t)
    with d show ?thesis
      by (auto split: sum.split dest: open_address_inv)
  qed (use d in \<open>auto simp: record_camera_auth_failure_def intro: wf_intros\<close>)
qed

end
