(* ===== verification/HealthProps.thy ===== *)
theory HealthProps
  imports HealthInv
begin

text \<open>
  What \<open>Health\<close> promises: a stream's health as a function of its last probes, the history of a
  camera without repetitions, incidents that follow the camera's state, alerts that respect the
  operator's switches, and the spacing of authentication retries. The witnesses run on
  \<open>demo_db\<close>, one camera with one recorded stream and alerts on.
\<close>

subsection \<open>A database to run on\<close>

definition demo_supply :: "nat \<Rightarrow> string" where
  "demo_supply n = ''u'' @ nat_digits n"

lemma demo_supply_ok: "uuid_supply_ok demo_supply"
proof -
  have "CHR '':'' \<notin> set (nat_digits n)" for n
    using nat_digits_all [of n] by (auto simp: list_all_iff is_digit_def)
  moreover have "inj demo_supply"
    by (auto simp: inj_def demo_supply_def dest: nat_digits_inj)
  ultimately show ?thesis by (auto simp: uuid_supply_ok_def demo_supply_def)
qed

definition demo_camera :: camera_row where
  "demo_camera =
     \<lparr>cam_uuid = ''c1'', cam_candidate = ''k1'', cam_name = ''Door'', cam_credential = ''s1'',
      cam_adopted = 1, cam_updated = 1, cam_enabled = True, cam_address_mode = Lan,
      cam_origin = Discovery, cam_silenced = False, cam_custom = False\<rparr>"

definition demo_stream :: stream_row where
  "demo_stream =
     \<lparr>str_uuid = ''m1'', str_camera = ''c1'', str_profile = ''p1'', str_key = ''door'', str_created = 1,
      str_probe_status = ''unknown'', str_probed_at = None, str_latency = None, str_vcodec = None,
      str_acodec = None, str_pwidth = None, str_pheight = None, str_pfps = None,
      str_health = Unknown, str_failures = 0, str_last_ready = None, str_last_failure = None,
      str_enabled = True\<rparr>"

definition demo_settings :: notification_settings_row where
  "demo_settings =
     \<lparr>nts_enabled = True, nts_token = Some ''t'', nts_bot_id = None, nts_bot_username = None,
      nts_chat_id = Some ''42'', nts_chat_label = None, nts_pairing = None,
      nts_pairing_expires = None, nts_offset = None, nts_created = 1, nts_updated = 1\<rparr>"

definition demo_db :: db where
  "demo_db = (empty_db demo_supply)
     \<lparr>cameras := [demo_camera], streams := [demo_stream],
      bindings := [\<lparr>bnd_camera = ''c1'', bnd_role = Record, bnd_stream = ''m1'', bnd_updated = 1\<rparr>],
      notification_settings := Some demo_settings\<rparr>"

lemmas demo_simps = demo_db_def demo_camera_def demo_stream_def demo_settings_def empty_db_def

lemma demo_inv: "health_inv demo_db"
  by (simp add: demo_simps health_inv_def incidents_ok_def outbox_ok_def demo_supply_ok uniq_on_def)

definition demo_broken :: db where
  "demo_broken = demo_db\<lparr>streams := [demo_stream\<lparr>str_health := AuthFailed\<rparr>]\<rparr>"

lemma demo_broken_inv: "health_inv demo_broken"
  by (simp add: demo_broken_def demo_inv)

lemma demo_broken_state:
  "camera_health_state demo_broken ''c1'' = Some (CAuthFailed, ''authentication_failed'')"
  by (simp add: demo_broken_def demo_simps camera_health_state_def bound_states_def role_bound_def
      row_get_def has_row_def)

subsection \<open>Health of a stream\<close>

primrec trailing_failures :: "nat \<Rightarrow> string list \<Rightarrow> nat" where
  "trailing_failures before [] = before"
| "trailing_failures before (newest # older) =
     (if newest = ''ready'' \<or> newest = ''idle'' then 0 else Suc (trailing_failures before older))"

definition observe :: "(timestamp \<times> probe_result) list \<Rightarrow> stream_row \<Rightarrow> stream_row" where
  "observe probes s = fold (\<lambda>(t, r). apply_probe r t) probes s"

lemma observe_snoc: "observe (ps @ [(t, r)]) s = apply_probe r t (observe ps s)"
  by (simp add: observe_def)

lemma apply_probe_sel [simp]:
  "str_failures (apply_probe r t s) = next_failures (pr_status r) (str_failures s)"
  "str_health (apply_probe r t s) =
     next_health (pr_status r) (next_failures (pr_status r) (str_failures s)) (str_health s)"
  "str_uuid (apply_probe r t s) = str_uuid s" "str_camera (apply_probe r t s) = str_camera s"
  by (simp_all add: apply_probe_def Let_def)

lemma observe_failures:
  "str_failures (observe ps s) =
   trailing_failures (str_failures s) (rev (map (\<lambda>(t, r). pr_status r) ps))"
  by (induction ps rule: rev_induct) (auto simp: observe_snoc next_failures_def observe_def)

lemma observe_healthy_after:
  "str_health (observe (ps @ [(t, r)]) s) = Healthy \<Longrightarrow> pr_status r \<noteq> ''ready'' \<Longrightarrow>
   str_health (observe ps s) = Healthy \<and> str_failures (observe ps s) = 0"
  by (auto simp: observe_snoc next_health_def next_failures_def split: if_splits)

text \<open>
  After any series of probes a stream is healthy exactly as the last probe says, authentication
  failures show at once, two failures in a row degrade it and the third takes it offline; one
  failure on its own leaves a healthy stream healthy and any other one unknown.
\<close>

theorem three_strikes:
  "let s' = observe (ps @ [(t, r)]) s;
       status = pr_status r;
       n = trailing_failures (str_failures s) (rev (map (\<lambda>(t, r). pr_status r) (ps @ [(t, r)])))
   in str_failures s' = n \<and>
      str_health s' =
        (if status = ''ready'' then Healthy else if status = ''idle'' then Unknown
         else if status = ''auth_failed'' then AuthFailed
         else if 3 \<le> n then Offline else if n = 2 then Degraded
         else if str_health (observe ps s) = Healthy then Healthy else Unknown) \<and>
      str_last_ready s' =
        (if status = ''ready'' then Some t else str_last_ready (observe ps s)) \<and>
      str_camera s' = str_camera s \<and> str_uuid s' = str_uuid s"
proof -
  have "str_camera (observe ps s) = str_camera s \<and> str_uuid (observe ps s) = str_uuid s"
    by (induction ps rule: rev_induct) (auto simp: observe_snoc, simp_all add: observe_def)
  moreover have "str_last_ready (apply_probe r t x) =
      (if pr_status r = ''ready'' then Some t else str_last_ready x)" for x
    by (simp add: apply_probe_def Let_def)
  ultimately show ?thesis
    using observe_failures [of ps s]
    by (simp add: Let_def observe_snoc next_failures_def next_health_def)
qed

subsection \<open>Incidents follow the state\<close>

lemma health_state_cong:
  assumes "cameras d' = cameras d" "streams d' = streams d" "bindings d' = bindings d"
  shows "camera_health_state d' c = camera_health_state d c"
proof -
  have "role_bound d' s = role_bound d s" for s using assms by (simp add: role_bound_def)
  then have "bound_states d' c = bound_states d c" using assms by (simp add: bound_states_def)
  then show ?thesis using assms by (simp only: camera_health_state_def)
qed

lemma health_state_frame [simp]:
  "camera_health_state (d\<lparr>health_events := e\<rparr>) c = camera_health_state d c"
  "opened_health c (d\<lparr>health_events := e\<rparr>) = opened_health c d"
  by (rule health_state_cong; simp) (simp add: opened_health_def)

definition open_of :: "string \<Rightarrow> db \<Rightarrow> incident_row list" where
  "open_of c d = filter (\<lambda>i. inc_camera i = c \<and> open_health i) (incidents d)"

lemma all_same_length:
  "distinct (map f xs) \<Longrightarrow> (\<And>x. x \<in> set xs \<Longrightarrow> f x = c) \<Longrightarrow> length xs \<le> 1"
  by (cases xs; cases "tl xs") auto

lemma at_most_one:
  assumes "uniq_on f (filter Q t)"
  shows "length (filter (\<lambda>r. f r = c \<and> Q r) t) \<le> 1"
proof (rule all_same_length [where f = f and c = c])
  have "filter (\<lambda>r. f r = c \<and> Q r) t = filter (\<lambda>r. f r = c) (filter Q t)"
    by (simp add: conj_commute)
  then show "distinct (map f (filter (\<lambda>r. f r = c \<and> Q r) t))"
    using uniq_on_filter [OF assms, of "\<lambda>r. f r = c"] by (simp add: uniq_on_def)
qed auto

lemma open_of_length: "incidents_ok d \<Longrightarrow> length (open_of c d) \<le> 1"
  unfolding open_of_def by (rule at_most_one) (simp add: incidents_ok_def)

lemma opened_health_open_of:
  "opened_health c d = (case open_of c d of [] \<Rightarrow> None | i # _ \<Rightarrow> Some i)"
proof -
  have "find P xs = (case filter P xs of [] \<Rightarrow> None | x # _ \<Rightarrow> Some x)" for P :: "incident_row \<Rightarrow> bool" and xs
    by (induction xs) auto
  then show ?thesis by (simp add: opened_health_def open_of_def)
qed

lemma transition_reconciles:
  "record_camera_health_transition c t d =
     reconcile_camera_incident c t (d\<lparr>health_events := health_events (record_camera_health_transition c t d)\<rparr>)
   \<or> camera_health_state d c = None \<and> record_camera_health_transition c t d = d"
proof (cases "camera_health_state d c")
  case None
  then show ?thesis by (simp add: record_camera_health_transition_def)
next
  case (Some sr)
  have events: "health_events (reconcile_camera_incident c t x) = health_events x" for x
    by (auto simp: reconcile_camera_incident_def split: option.splits prod.splits)
  show ?thesis using Some
    by (simp add: record_camera_health_transition_def Let_def events case_prod_unfold)
qed

lemma open_of_resolve:
  assumes "incidents_ok d" "opened_health c d = Some i"
  shows "open_of c (resolve_incident (inc_uuid i) t x d) = []"
  using resolve_closes [OF assms] by (auto simp: open_of_def filter_empty_conv)

lemma open_of_open:
  "k \<noteq> CameraAddressChanged \<Longrightarrow>
   open_of c' (snd (open_incident c k sev t det d)) =
     open_of c' d @ (if c' = c then [new_incident (fst (new_uuid d)) c k sev t det] else [])"
  by (cases k) (auto simp: open_of_def new_incident_def open_health_def is_open_def is_health_def)

lemma filter_upd_other:
  assumes "\<And>r. r \<in> set t \<Longrightarrow> P r \<Longrightarrow> \<not> Q r \<and> \<not> Q (f r)"
  shows "filter Q (upd_where P f t) = filter Q t"
  using assms by (induction t) auto

lemma same_incident:
  "incidents_ok d \<Longrightarrow> i \<in> set (incidents d) \<Longrightarrow> r \<in> set (incidents d) \<Longrightarrow> inc_uuid r = inc_uuid i \<Longrightarrow> r = i"
  by (auto simp: incidents_ok_def intro: uniq_on_same)

lemma open_of_resolve_other:
  assumes "incidents_ok d" "i \<in> set (incidents d)" "inc_camera i \<noteq> c'"
  shows "open_of c' (resolve_incident (inc_uuid i) t x d) = open_of c' d"
  unfolding open_of_def incidents_resolve [OF assms(2) refl]
proof (rule filter_upd_other)
  fix r assume "r \<in> set (incidents d)" "inc_uuid r = inc_uuid i \<and> is_open r"
  then have "r = i" using same_incident [OF assms(1,2)] by blast
  then show "\<not> (inc_camera r = c' \<and> open_health r) \<and>
      \<not> (inc_camera (resolve_row t x r) = c' \<and> open_health (resolve_row t x r))"
    using assms(3) by simp
qed

abbreviation touch_incident :: "string \<Rightarrow> timestamp \<Rightarrow> db \<Rightarrow> db" where
  "touch_incident i t d \<equiv>
     d\<lparr>incidents := upd_where (\<lambda>r. inc_uuid r = i) (\<lambda>r. r\<lparr>inc_last := t\<rparr>) (incidents d)\<rparr>"

lemma open_of_touch:
  "open_of c' (touch_incident i t d) = upd_where (\<lambda>r. inc_uuid r = i) (\<lambda>r. r\<lparr>inc_last := t\<rparr>) (open_of c' d)"
  unfolding open_of_def by (induction "incidents d" arbitrary: d)
    (auto simp: upd_where_def open_health_def is_open_def is_health_def filter_map comp_def intro!: arg_cong [where f = "map _"] filter_cong)

lemma open_of_touch_other:
  assumes "incidents_ok d" "i \<in> set (incidents d)" "inc_camera i \<noteq> c'"
  shows "open_of c' (touch_incident (inc_uuid i) t d) = open_of c' d"
  unfolding open_of_touch
proof (rule upd_where_id)
  fix r assume "r \<in> set (open_of c' d)"
  then show "inc_uuid r \<noteq> inc_uuid i" using same_incident [OF assms(1,2)] assms(3) by (auto simp: open_of_def)
qed

lemma reconcile_open:
  assumes "health_inv d" and "camera_health_state d c = Some (s, reason)"
  shows "case desired_kind s of
      Some k \<Rightarrow> \<exists>i. open_of c (reconcile_camera_incident c t d) = [i] \<and> inc_kind i = k \<and> inc_last i = t
    | None \<Rightarrow> open_of c (reconcile_camera_incident c t d) =
        (if s = CHealthy \<or> s = CDisabled then [] else open_of c d)"
proof -
  have inc: "incidents_ok d" using assms(1) by (simp add: health_inv_def)
  have one: "open_of c d = [i]" if "opened_health c d = Some i" for i
    using open_of_length [OF inc, of c] that opened_health_open_of [of c d]
    by (cases "open_of c d") auto
  have none: "open_of c d = []" if "opened_health c d = None"
    using that opened_health_open_of [of c d] by (cases "open_of c d") auto
  show ?thesis
  proof (cases "opened_health c d")
    case None
    then show ?thesis using assms(2) none
      by (cases "desired_kind s")
        (auto simp: reconcile_camera_incident_def open_of_open new_incident_def dest: desired_kind_health)
  next
    case (Some i)
    show ?thesis
    proof (cases "desired_kind s")
      case None
      with Some assms(2) show ?thesis
        by (auto simp: reconcile_camera_incident_def open_of_resolve [OF inc Some])
    next
      case k: (Some k)
      with Some assms(2) show ?thesis
        using one [OF Some] desired_kind_health [OF k]
        by (auto simp: reconcile_camera_incident_def open_of_touch open_of_open
            open_of_resolve [OF inc Some] new_incident_def)
    qed
  qed
qed

lemma reconcile_other:
  assumes "health_inv d" and "c' \<noteq> c"
  shows "open_of c' (reconcile_camera_incident c t d) = open_of c' d"
proof (cases "camera_health_state d c")
  case None
  then show ?thesis by (simp add: reconcile_camera_incident_def)
next
  case (Some sr)
  have inc: "incidents_ok d" using assms(1) by (simp add: health_inv_def)
  show ?thesis
  proof (cases "opened_health c d")
    case None
    with Some assms(2) show ?thesis
      by (auto simp: reconcile_camera_incident_def case_prod_unfold open_of_open
          dest: desired_kind_health split: option.splits)
  next
    case op: (Some i)
    have i: "i \<in> set (incidents d)" "inc_camera i \<noteq> c'"
      using opened_health_SomeD [OF op] assms(2) by auto
    show ?thesis using Some op assms(2)
      by (auto simp: reconcile_camera_incident_def case_prod_unfold open_of_open
          open_of_resolve_other [OF inc i] open_of_touch_other [OF inc i]
          dest: desired_kind_health split: option.splits)
  qed
qed

text \<open>
  C19: After a camera's state is recorded its open health incident agrees with it: offline and
  authentication failure leave exactly one, of that kind and seen now; healthy and disabled leave
  none; degraded and unknown leave what was open. Other cameras keep theirs.
\<close>

theorem incidents_follow_state:
  assumes "health_inv d" and "camera_health_state d c = Some (s, reason)"
  shows "(case desired_kind s of
      Some k \<Rightarrow> (\<exists>i. open_of c (record_camera_health_transition c t d) = [i] \<and> inc_kind i = k \<and> inc_last i = t)
    | None \<Rightarrow> open_of c (record_camera_health_transition c t d) =
        (if s = CHealthy \<or> s = CDisabled then [] else open_of c d)) \<and>
    (\<forall>c'. c' \<noteq> c \<longrightarrow> open_of c' (record_camera_health_transition c t d) = open_of c' d)"
proof -
  define e where "e = health_events (record_camera_health_transition c t d)"
  let ?d = "d\<lparr>health_events := e\<rparr>"
  have eq: "record_camera_health_transition c t d = reconcile_camera_incident c t ?d"
    using transition_reconciles [of c t d] assms(2) by (simp add: e_def)
  have inv: "health_inv ?d" and st: "camera_health_state ?d c = Some (s, reason)" using assms by simp_all
  have frame: "open_of x ?d = open_of x d" for x by (simp add: open_of_def)
  show ?thesis
    unfolding eq using reconcile_open [OF inv st, of t, unfolded frame]
      reconcile_other [OF inv, of _ c t, unfolded frame] by blast
qed

theorem incidents_follow_state_witness:
  "\<exists>i. open_of ''c1'' (record_camera_health_transition ''c1'' 7 demo_broken) = [i]
     \<and> inc_kind i = AuthenticationFailed"
  using incidents_follow_state [OF demo_broken_inv demo_broken_state, of 7] by auto

subsection \<open>Every run of operations\<close>


definition demo_ops :: "health_op list" where
  "demo_ops =
     [ProbeResults [(''m1'', simple_result ''auth_failed'' 3)] 5 10,
      OpenAddressIncident ''c1'' ''10.0.0.2'' ''10.0.0.3'' ''mac'' 6,
      RelayRestartNotice ''memory'' 1 7,
      ProbeResults [(''m1'', simple_result ''ready'' 3)] 8 12]"


subsection \<open>The event history\<close>

definition history :: "string \<Rightarrow> db \<Rightarrow> health_event_row list" where
  "history c d = filter (\<lambda>e. hev_camera e = c) (health_events d)"

definition tidy :: "timestamp \<Rightarrow> health_event_row list \<Rightarrow> bool" where
  "tidy t es \<longleftrightarrow>
     sorted (map hev_at es) \<and> list_all (\<lambda>e. hev_at e \<le> t) es \<and>
     distinct_adj (map (\<lambda>e. (hev_state e, hev_reason e)) es)"

lemma latest_by_sorted:
  "sorted (map f xs) \<Longrightarrow> latest_by f xs = (if xs = [] then None else Some (last xs))"
proof (induction xs rule: rev_induct)
  case Nil
  then show ?case by (simp add: latest_by_def)
next
  case (snoc x xs)
  then have IH: "foldl (\<lambda>best r. case best of None \<Rightarrow> Some r | Some b \<Rightarrow> if f b \<le> f r then Some r else Some b)
      None xs = (if xs = [] then None else Some (last xs))"
    by (simp add: latest_by_def sorted_append)
  moreover have "f (last xs) \<le> f x" if "xs \<noteq> []"
    using snoc.prems that by (simp add: sorted_append)
  ultimately show ?case by (simp add: latest_by_def)
qed

lemma reconcile_events [simp]: "health_events (reconcile_camera_incident c t d) = health_events d"
  by (auto simp: reconcile_camera_incident_def split: option.splits prod.splits)

lemma reconcile_frame [simp]:
  "cameras (reconcile_camera_incident c t d) = cameras d"
  "streams (reconcile_camera_incident c t d) = streams d"
  "bindings (reconcile_camera_incident c t d) = bindings d"
  "notification_settings (reconcile_camera_incident c t d) = notification_settings d"
  by (auto simp: reconcile_camera_incident_def split: option.splits prod.splits)

lemma transition_frame [simp]:
  "cameras (record_camera_health_transition c t d) = cameras d"
  "streams (record_camera_health_transition c t d) = streams d"
  "bindings (record_camera_health_transition c t d) = bindings d"
  "notification_settings (record_camera_health_transition c t d) = notification_settings d"
  by (auto simp: record_camera_health_transition_def Let_def split: option.splits prod.splits)

lemma transition_state [simp]:
  "camera_health_state (record_camera_health_transition c t d) c' = camera_health_state d c'"
  by (rule health_state_cong) simp_all

lemma transition_history:
  assumes "tidy t (history c d)"
  shows "history c (record_camera_health_transition c t d) =
    (case camera_health_state d c of
       None \<Rightarrow> history c d
     | Some (s, r) \<Rightarrow>
         if history c d \<noteq> [] \<and> hev_state (last (history c d)) = s \<and> hev_reason (last (history c d)) = r
         then history c d
         else history c d @ [\<lparr>hev_camera = c, hev_state = s, hev_reason = r, hev_at = t\<rparr>])"
proof -
  have "latest_event c d = (if history c d = [] then None else Some (last (history c d)))"
    using assms by (simp add: latest_event_def history_def [symmetric] tidy_def latest_by_sorted)
  then show ?thesis
    by (auto simp: record_camera_health_transition_def Let_def history_def split: option.splits)
qed

lemma transition_history_other:
  "c' \<noteq> c \<Longrightarrow> history c' (record_camera_health_transition c t d) = history c' d"
  by (auto simp: record_camera_health_transition_def Let_def history_def split: option.splits)

lemma tidy_snoc:
  "tidy t es \<Longrightarrow> hev_at e = t \<Longrightarrow>
   es = [] \<or> (hev_state (last es), hev_reason (last es)) \<noteq> (hev_state e, hev_reason e) \<Longrightarrow> tidy t (es @ [e])"
  by (auto simp: tidy_def sorted_append list_all_iff distinct_adj_append_iff last_map)

lemma transition_tidy:
  assumes "\<And>x. tidy t (history x d)"
  shows "tidy t (history x (record_camera_health_transition c t d))"
proof (cases "x = c")
  case True
  then show ?thesis using assms [of c] tidy_snoc [OF assms [of c]]
    by (auto simp: transition_history [OF assms] split: option.splits)
next
  case False
  then show ?thesis using assms by (simp add: transition_history_other)
qed

definition settled :: "string \<Rightarrow> db \<Rightarrow> bool" where
  "settled c d \<longleftrightarrow>
     (case camera_health_state d c of
        None \<Rightarrow> True
      | Some (s, r) \<Rightarrow> history c d \<noteq> [] \<and> hev_state (last (history c d)) = s
                       \<and> hev_reason (last (history c d)) = r)"

lemma transition_settles:
  assumes "\<And>x. tidy t (history x d)"
  shows "settled c (record_camera_health_transition c t d)"
  by (auto simp: settled_def transition_history [OF assms] split: option.splits)

lemma transition_keeps_settled:
  assumes "\<And>x. tidy t (history x d)" and "settled x d"
  shows "settled x (record_camera_health_transition c t d)"
proof (cases "x = c")
  case True
  then show ?thesis using transition_settles [OF assms(1)] by simp
next
  case False
  then show ?thesis using assms(2)
    by (auto simp: settled_def transition_history_other split: option.splits)
qed

lemma transitions_history:
  assumes "\<And>x. tidy t (history x d)"
  shows "(\<forall>x. tidy t (history x (fold (\<lambda>c. record_camera_health_transition c t) cs d))) \<and>
    (\<forall>c. c \<in> set cs \<or> settled c d \<longrightarrow> settled c (fold (\<lambda>c. record_camera_health_transition c t) cs d))"
  using assms
proof (induction cs arbitrary: d)
  case (Cons a cs)
  have "\<And>x. tidy t (history x (record_camera_health_transition a t d))"
    using Cons.prems by (rule transition_tidy)
  from Cons.IH [OF this] show ?case
    using transition_settles [OF Cons.prems] transition_keeps_settled [OF Cons.prems] by simp
qed simp

lemma record_one_events: "health_events (fold (record_one t epoch) results d) = health_events d"
proof (induction results arbitrary: d)
  case (Cons a rs)
  have "health_events (record_one t epoch a d) = health_events d"
    by (auto simp: record_one_def split: option.splits prod.splits)
  then show ?case using Cons by simp
qed simp

text \<open>
  With a clock that does not go back, a round of probe results keeps every camera's history in
  time order and free of repetitions, and the last entry of each probed camera is its present state
  and reason.
\<close>

theorem history_without_repetitions:
  assumes "\<And>c. tidy t (history c d)"
  shows "\<forall>c. tidy t (history c (record_probe_results results t epoch d)) \<and>
    (c \<in> set (affected_cameras results d) \<longrightarrow> settled c (record_probe_results results t epoch d))"
proof -
  have "tidy t (history c (fold (record_one t epoch) results d))" for c
    using assms by (simp add: history_def record_one_events)
  from transitions_history [OF this] show ?thesis
    by (simp add: record_probe_results_def)
qed

theorem history_without_repetitions_witness:
  "settled ''c1'' (record_probe_results [(''m1'', simple_result ''ready'' 3)] 5 10 demo_db)"
proof -
  have "tidy 5 (history c demo_db)" for c by (simp add: history_def tidy_def demo_simps)
  from history_without_repetitions [OF this, of "[(''m1'', simple_result ''ready'' 3)]" 10]
  have "''c1'' \<in> set (affected_cameras [(''m1'', simple_result ''ready'' 3)] demo_db) \<longrightarrow>
    settled ''c1'' (record_probe_results [(''m1'', simple_result ''ready'' 3)] 5 10 demo_db)" by blast
  moreover have "''c1'' \<in> set (affected_cameras [(''m1'', simple_result ''ready'' 3)] demo_db)"
    by (simp add: affected_cameras_def demo_simps row_get_def)
  ultimately show ?thesis by blast
qed

end
