(* ===== verification/AlertProps.thy ===== *)
theory AlertProps
  imports HealthProps
begin

text \<open>
  The alerts that incidents queue and the retries of failed authentication: which alerts a round of
  probes may add, which one a new incident adds, what silencing a camera drops, and how far apart the
  granted retries of one stream are.
\<close>

subsection \<open>Which alerts are queued\<close>

definition incident_pairs :: "db \<Rightarrow> (string \<times> string) set" where
  "incident_pairs d = (\<lambda>i. (inc_uuid i, inc_camera i)) ` set (incidents d)"

text \<open>
  A justified alert: alerts are on, it is pending, it refers to an incident of a camera that is not
  silenced, and a "resolved" alert follows an "opened" one of the same incident.
\<close>

definition justified :: "db \<Rightarrow> outbox_row \<Rightarrow> bool" where
  "justified d r \<longleftrightarrow>
     notifications_on d \<and> out_status r = Pending \<and>
     (\<exists>i c camera. out_incident r = Some i \<and> (i, c) \<in> incident_pairs d \<and>
        row_get cam_uuid c (cameras d) = Some camera \<and> \<not> cam_silenced camera \<and>
        (out_event r = IncidentOpened \<or>
         out_event r = IncidentResolved \<and> incident_event_key i IncidentOpened \<in> out_key ` set (outbox d)))"

definition adds_justified_alerts :: "db \<Rightarrow> db \<Rightarrow> bool" where
  "adds_justified_alerts d d' \<longleftrightarrow>
     cameras d' = cameras d \<and> notification_settings d' = notification_settings d \<and>
     incident_pairs d \<subseteq> incident_pairs d' \<and>
     (\<exists>new. outbox d' = outbox d @ new \<and> list_all (justified d') new)"

lemma adds_refl: "adds_justified_alerts d d"
  by (simp add: adds_justified_alerts_def)

lemma notifications_on_cong:
  "notification_settings d' = notification_settings d \<Longrightarrow> notifications_on d' = notifications_on d"
  by (simp add: notifications_on_def)

lemma justified_mono:
  assumes "justified d r" "cameras d' = cameras d" "notification_settings d' = notification_settings d"
    "incident_pairs d \<subseteq> incident_pairs d'" "outbox d' = outbox d @ new"
  shows "justified d' r"
  using assms notifications_on_cong [OF assms(3)] unfolding justified_def by fastforce

lemma adds_trans:
  assumes "adds_justified_alerts d d'" "adds_justified_alerts d' d''"
  shows "adds_justified_alerts d d''"
proof -
  obtain n m where n: "outbox d' = outbox d @ n" "list_all (justified d') n"
    and m: "outbox d'' = outbox d' @ m" "list_all (justified d'') m"
    using assms by (auto simp: adds_justified_alerts_def)
  have "list_all (justified d'') n"
    using n(2) assms(2) m(1) by (auto simp: list_all_iff adds_justified_alerts_def intro: justified_mono)
  then show ?thesis using assms n m by (auto simp: adds_justified_alerts_def)
qed

lemma adds_same:
  "cameras d' = cameras d \<Longrightarrow> notification_settings d' = notification_settings d \<Longrightarrow>
   incident_pairs d \<subseteq> incident_pairs d' \<Longrightarrow> outbox d' = outbox d \<Longrightarrow> adds_justified_alerts d d'"
  by (simp add: adds_justified_alerts_def)

lemma new_uuid_pairs [simp]: "incident_pairs (snd (new_uuid d)) = incident_pairs d"
  by (simp add: incident_pairs_def)

lemma enqueue_adds:
  assumes "(i, c) \<in> incident_pairs d" and "e = IncidentOpened \<or> e = IncidentResolved"
  shows "adds_justified_alerts d (enqueue_incident_notification i c k e t d)"
proof (cases rule: enqueue_cases [of i c k e t d])
  case same
  then show ?thesis by (simp add: adds_refl)
next
  case drawn_only
  then show ?thesis by (simp add: adds_same)
next
  case (added r)
  let ?d = "enqueue_incident_notification i c k e t d"
  have "?d \<noteq> d"
  proof
    assume "?d = d"
    then have "outbox ?d = outbox d" by simp
    then show False using added(1) by simp
  qed
  then obtain camera where g: "notifications_on d" "row_get cam_uuid c (cameras d) = Some camera"
      "\<not> cam_silenced camera"
      "e = IncidentResolved \<longrightarrow> has_row (\<lambda>r. out_key r = incident_event_key i IncidentOpened) (outbox d)"
    by (auto simp: enqueue_incident_notification_def split: if_splits option.splits)
  have "outbox ?d = outbox d @ [r]" using added(1) by simp
  then obtain p where "r = new_outbox_row (fst (new_uuid d)) (Some i) e p (incident_event_key i e) t"
    using g by (auto simp: enqueue_incident_notification_def Let_def case_prod_unfold row_ins_def split: if_splits)
  then have "out_status r = Pending" "out_event r = e" by (simp_all add: new_outbox_row_def)
  moreover have "notifications_on ?d" using g(1) by (simp add: notifications_on_def)
  moreover have "incident_pairs ?d = incident_pairs d" by (simp add: incident_pairs_def)
  ultimately have "justified ?d r"
    unfolding justified_def using assms g(2-4) added(4) \<open>outbox ?d = outbox d @ [r]\<close>
    by (auto simp: has_row_key)
  then show ?thesis using \<open>outbox ?d = outbox d @ [r]\<close> \<open>incident_pairs ?d = incident_pairs d\<close>
    by (simp add: adds_justified_alerts_def)
qed

lemma pairs_upd_where:
  "(\<And>r. P r \<Longrightarrow> inc_uuid (f r) = inc_uuid r \<and> inc_camera (f r) = inc_camera r) \<Longrightarrow>
   incident_pairs (d\<lparr>incidents := upd_where P f (incidents d)\<rparr>) = incident_pairs d"
  unfolding incident_pairs_def by (simp add: image_upd_where)

lemma resolve_adds: "adds_justified_alerts d (resolve_incident i t x d)"
proof (cases "row_get inc_uuid i (incidents d)")
  case None
  then show ?thesis by (simp add: resolve_incident_def adds_refl)
next
  case (Some inc)
  let ?d = "d\<lparr>incidents := upd_where (\<lambda>r. inc_uuid r = i \<and> is_open r) (resolve_row t x) (incidents d)\<rparr>"
  have pairs: "incident_pairs ?d = incident_pairs d" by (simp add: pairs_upd_where)
  then have "adds_justified_alerts d ?d" by (simp add: adds_same)
  moreover have "(i, inc_camera inc) \<in> incident_pairs ?d"
    unfolding pairs using row_get_SomeD [OF Some] by (auto simp: incident_pairs_def)
  then have "adds_justified_alerts ?d
      (enqueue_incident_notification i (inc_camera inc) (inc_kind inc) IncidentResolved t ?d)"
    by (simp add: enqueue_adds)
  ultimately show ?thesis using Some adds_trans by (simp add: resolve_incident_def)
qed

lemma open_adds: "adds_justified_alerts d (snd (open_incident c k sev t det d))"
proof -
  define d1 where "d1 = snd (new_uuid d)"
  let ?u = "fst (new_uuid d)"
  let ?d = "d1\<lparr>incidents := incidents d1 @ [new_incident ?u c k sev t det]\<rparr>"
  have "adds_justified_alerts d ?d" by (rule adds_same) (auto simp: d1_def incident_pairs_def)
  moreover have "(?u, c) \<in> incident_pairs ?d" by (simp add: incident_pairs_def new_incident_def)
  then have "adds_justified_alerts ?d (enqueue_incident_notification ?u c k IncidentOpened t ?d)"
    by (simp add: enqueue_adds)
  ultimately show ?thesis using adds_trans
    by (simp add: open_incident_def Let_def case_prod_unfold d1_def)
qed

lemma touch_adds: "adds_justified_alerts d (touch_incident i t d)"
  by (rule adds_same) (simp_all add: pairs_upd_where)

lemma reconcile_adds: "adds_justified_alerts d (reconcile_camera_incident c t d)"
  by (auto simp: reconcile_camera_incident_def adds_refl touch_adds resolve_adds open_adds
      intro: adds_trans [OF resolve_adds open_adds] split: option.splits prod.splits)

lemma transition_adds: "adds_justified_alerts d (record_camera_health_transition c t d)"
proof -
  have "adds_justified_alerts d (d\<lparr>health_events := e\<rparr>)" for e
    by (rule adds_same) (simp_all add: incident_pairs_def)
  then have "adds_justified_alerts d (reconcile_camera_incident c t (d\<lparr>health_events := e\<rparr>))" for e
    by (rule adds_trans [OF _ reconcile_adds])
  then show ?thesis using transition_reconciles [of c t d] adds_refl by metis
qed

lemma fold_adds:
  "(\<And>x d. adds_justified_alerts d (f x d)) \<Longrightarrow> adds_justified_alerts d (fold f xs d)"
  by (induction xs arbitrary: d) (auto intro: adds_refl adds_trans)

lemma record_one_adds: "adds_justified_alerts d (record_one t epoch ur d)"
proof -
  have "adds_justified_alerts d (d\<lparr>auth_retries := a, streams := s\<rparr>)" for a s
    by (rule adds_same) (simp_all add: incident_pairs_def)
  then show ?thesis by (auto simp: record_one_def adds_refl split: option.splits prod.splits)
qed

lemma probe_round_adds: "adds_justified_alerts d (record_probe_results results t epoch d)"
  unfolding record_probe_results_def
  by (rule adds_trans [OF fold_adds fold_adds]) (simp_all add: record_one_adds transition_adds)

text \<open>
  C31: A round of probe results only appends to the outbox, and each alert it adds is justified:
  alerts are on, the alert is for an incident of a camera that is not silenced, and no recovery
  is announced for an incident whose opening was not.
\<close>

theorem probe_round_alerts_justified:
  "adds_justified_alerts d (record_probe_results results t epoch d)"
  by (rule probe_round_adds)

text \<open>The key of an incident that is about to be opened is not in the outbox yet.\<close>

lemma fresh_key_not_queued:
  assumes "health_inv d"
  shows "incident_event_key (fst (new_uuid d)) IncidentOpened \<notin> out_key ` set (outbox d)"
proof
  define u where "u = fst (new_uuid d)"
  have ok: "uuid_supply_ok (uuid_at d)" using assms by (simp add: health_inv_def)
  have u: "u \<notin> drawn d" "CHR '':'' \<notin> set u" "u \<noteq> ''relay-restarted''" "u \<noteq> ''test''"
    using new_uuid_not_drawn [OF ok] new_uuid_ok [OF ok] by (auto simp: u_def)
  assume "incident_event_key (fst (new_uuid d)) IncidentOpened \<in> out_key ` set (outbox d)"
  then obtain r where r: "r \<in> set (outbox d)" "out_key r = incident_event_key u IncidentOpened"
    by (auto simp: u_def)
  then have shape: "outbox_key_shape d r" using assms by (auto simp: health_inv_def outbox_ok_def)
  have "i = u" if "i \<in> drawn d" "incident_event_key u IncidentOpened = incident_event_key i e'" for i e'
    using that colon_split_inj [of u "event_text IncidentOpened" i] u drawn_ok [OF ok]
    by (auto simp: incident_event_key_def)
  moreover have "incident_event_key u IncidentOpened \<noteq> ''relay-restarted:'' @ x"
    "incident_event_key u IncidentOpened \<noteq> ''test:'' @ x" for x
    using u colon_split_inj [of u "event_text IncidentOpened" "''relay-restarted''" x]
      colon_split_inj [of u "event_text IncidentOpened" "''test''" x]
    by (auto simp: incident_event_key_def)
  ultimately show False using shape r(2) u(1) by (auto simp: outbox_key_shape_def)
qed

text \<open>
  C30: When a camera with no open health incident goes offline or fails authentication, alerts are
  on and the camera is not silenced, exactly one pending alert is queued, due at once, under the key
  of the incident that is now open, naming the camera and the kind.
\<close>

theorem outage_queues_one_alert:
  assumes "health_inv d" and "camera_health_state d c = Some (s, reason)"
    and "desired_kind s = Some k" and "open_of c d = []"
    and "notifications_on d" and "row_get cam_uuid c (cameras d) = Some camera"
    and "\<not> cam_silenced camera"
  shows "\<exists>i r. open_of c (record_camera_health_transition c t d) = [i] \<and>
    outbox (record_camera_health_transition c t d) = outbox d @ [r] \<and>
    out_incident r = Some (inc_uuid i) \<and> out_event r = IncidentOpened \<and> out_status r = Pending \<and>
    out_next r = t \<and> out_key r = incident_event_key (inc_uuid i) IncidentOpened \<and>
    out_payload r = [(''camera_id'', PStr c), (''camera_name'', PStr (cam_name camera)),
                     (''kind'', PStr (kind_text k)), (''observed_at'', PInt t)]"
proof -
  define e where "e = health_events (record_camera_health_transition c t d)"
  let ?d = "d\<lparr>health_events := e\<rparr>"
  have eq: "record_camera_health_transition c t d = reconcile_camera_incident c t ?d"
    using transition_reconciles [of c t d] assms(2) by (simp add: e_def)
  have "opened_health c d = None" using assms(4) by (simp add: opened_health_open_of)
  then have rec: "record_camera_health_transition c t d = snd (open_incident c k Critical t [] ?d)"
    unfolding eq using assms(2,3) by (simp add: reconcile_camera_incident_def)
  define u where "u = fst (new_uuid d)"
  have key: "incident_event_key u IncidentOpened \<notin> out_key ` set (outbox d)"
    unfolding u_def using assms(1) by (rule fresh_key_not_queued)
  have kind: "k \<noteq> CameraAddressChanged" using desired_kind_health [OF assms(3)] .
  let ?r = "new_outbox_row (uuid_at d (Suc (uuid_next d))) (Some u) IncidentOpened
    [(''camera_id'', PStr c), (''camera_name'', PStr (cam_name camera)),
     (''kind'', PStr (kind_text k)), (''observed_at'', PInt t)] (incident_event_key u IncidentOpened) t"
  have "outbox (snd (open_incident c k Critical t [] ?d)) = outbox d @ [?r]"
    using assms(5-7) key kind
    by (simp add: open_incident_def enqueue_incident_notification_def Let_def new_uuid_def u_def
        address_details_def notifications_on_def row_ins_def has_row_key case_prod_unfold
        new_outbox_row_def)
  moreover have "open_of c (snd (open_incident c k Critical t [] ?d)) = [new_incident u c k Critical t []]"
    using assms(4) kind by (simp add: open_of_open) (simp add: open_of_def u_def new_uuid_def)
  ultimately show ?thesis unfolding rec by (auto simp: new_outbox_row_def new_incident_def)
qed

theorem outage_queues_one_alert_witness:
  "\<exists>r. outbox (record_camera_health_transition ''c1'' 7 demo_broken) = [r] \<and> out_status r = Pending"
proof -
  have "open_of ''c1'' demo_broken = []" "notifications_on demo_broken"
    "row_get cam_uuid ''c1'' (cameras demo_broken) = Some demo_camera" "\<not> cam_silenced demo_camera"
    "outbox demo_broken = []"
    by (simp_all add: demo_broken_def demo_simps open_of_def notifications_on_def row_get_def)
  then show ?thesis
    using outage_queues_one_alert [OF demo_broken_inv demo_broken_state, of AuthenticationFailed demo_camera 7]
    by auto
qed

subsection \<open>Silencing\<close>

definition of_camera :: "db \<Rightarrow> string \<Rightarrow> outbox_row \<Rightarrow> bool" where
  "of_camera d c r \<longleftrightarrow>
     (case out_incident r of
        None \<Rightarrow> False
      | Some i \<Rightarrow> has_row (\<lambda>x. inc_uuid x = i \<and> inc_camera x = c) (incidents d))"

definition unsent :: "outbox_row \<Rightarrow> bool" where
  "unsent r \<longleftrightarrow> out_status r = Pending \<or> out_status r = Retry"

lemma silence_outbox:
  assumes "c \<in> cam_uuid ` set (cameras d)"
  shows "outbox (snd (set_camera_notifications_silenced c True t d)) =
    filter (\<lambda>r. \<not> (unsent r \<and> of_camera d c r)) (outbox d)"
  using assms
  by (simp add: set_camera_notifications_silenced_def Let_def has_row_key del_where_def unsent_def
      of_camera_def cong: option.case_cong)

text \<open>
  Silencing a camera drops its alerts that were not sent, and only those, and whatever is probed
  afterwards queues no further alert for one of its incidents.
\<close>

theorem silenced_camera_sends_nothing:
  assumes "health_inv d" and "c \<in> cam_uuid ` set (cameras d)"
  shows "let d1 = snd (set_camera_notifications_silenced c True t d);
             d2 = record_probe_results results t' epoch d1
    in outbox d1 = filter (\<lambda>r. \<not> (unsent r \<and> of_camera d c r)) (outbox d) \<and>
       filter (\<lambda>r. unsent r \<and> of_camera d2 c r) (outbox d2) = []"
proof -
  define d1 where "d1 = snd (set_camera_notifications_silenced c True t d)"
  define d2 where "d2 = record_probe_results results t' epoch d1"
  have inv1: "health_inv d1" unfolding d1_def using assms(1) by (rule silenced_inv)
  have inv2: "health_inv d2" unfolding d2_def using inv1 by (rule record_probe_results_inv)
  have out1: "outbox d1 = filter (\<lambda>r. \<not> (unsent r \<and> of_camera d c r)) (outbox d)"
    unfolding d1_def using assms(2) by (rule silence_outbox)
  have inc1: "incidents d1 = incidents d"
    by (simp add: d1_def set_camera_notifications_silenced_def Let_def)
  have cams1: "cameras d1 = upd_where (\<lambda>r. cam_uuid r = c) (\<lambda>r. r\<lparr>cam_silenced := True, cam_updated := t\<rparr>) (cameras d)"
    by (simp add: d1_def set_camera_notifications_silenced_def Let_def)
  have quiet: "cam_silenced x" if "row_get cam_uuid c (cameras d1) = Some x" for x
  proof -
    from row_get_SomeD [OF that] obtain y where
      "x = (if cam_uuid y = c then y\<lparr>cam_silenced := True, cam_updated := t\<rparr> else y)" "cam_uuid x = c"
      unfolding cams1 set_upd_where by blast
    then show ?thesis by (cases "cam_uuid y = c") simp_all
  qed
  have adds: "adds_justified_alerts d1 d2" unfolding d2_def by (rule probe_round_adds)
  then obtain new where new: "outbox d2 = outbox d1 @ new" "list_all (justified d2) new"
      "cameras d2 = cameras d1" "incident_pairs d1 \<subseteq> incident_pairs d2"
    by (auto simp: adds_justified_alerts_def)
  have pair: "(i, c) \<in> incident_pairs d2" if "of_camera d2 c r" "out_incident r = Some i" for r i
    using that by (auto simp: of_camera_def has_row_def list_ex_iff incident_pairs_def)
  have one: "x = y" if "(i, x) \<in> incident_pairs d2" "(i, y) \<in> incident_pairs d2" for i x y
  proof -
    have "uniq_on inc_uuid (incidents d2)" using inv2 by (simp add: health_inv_def incidents_ok_def)
    then show ?thesis using that
      by (auto simp: incident_pairs_def dest: uniq_on_same [where h = inc_uuid])
  qed
  have False if row: "r \<in> set (outbox d2)" and unsent: "unsent r" and mine: "of_camera d2 c r" for r
  proof -
    obtain i where i: "out_incident r = Some i" using mine by (auto simp: of_camera_def split: option.splits)
    from row new(1) consider "r \<in> set (outbox d1)" | "r \<in> set new" by auto
    then show False
    proof cases
      case 1
      then have "\<not> of_camera d c r" "outbox_incident_ref d1 r"
        using out1 unsent inv1 by (auto simp: health_inv_def outbox_ok_def)
      then obtain x where "x \<in> set (incidents d1)" "inc_uuid x = i" "inc_camera x \<noteq> c"
        using i inc1 by (auto simp: of_camera_def outbox_incident_ref_def has_row_def list_ex_iff)
      then have "(i, inc_camera x) \<in> incident_pairs d2" "inc_camera x \<noteq> c"
        using new(4) by (auto simp: incident_pairs_def)
      then show False using one pair [OF mine i] by blast
    next
      case 2
      then have "justified d2 r" using new(2) by (simp add: list_all_iff)
      then obtain c' x where "(i, c') \<in> incident_pairs d2" "row_get cam_uuid c' (cameras d2) = Some x"
          "\<not> cam_silenced x"
        using i by (auto simp: justified_def)
      then show False using one pair [OF mine i] quiet new(3) by metis
    qed
  qed
  then show ?thesis using out1 unfolding d1_def [symmetric] Let_def d2_def [symmetric]
    by (auto simp: filter_empty_conv)
qed

theorem silenced_camera_sends_nothing_witness:
  "outbox (snd (set_camera_notifications_silenced ''c1'' True 9
     (record_camera_health_transition ''c1'' 7 demo_broken))) =
   filter (\<lambda>r. \<not> (unsent r \<and> of_camera (record_camera_health_transition ''c1'' 7 demo_broken) ''c1'' r))
     (outbox (record_camera_health_transition ''c1'' 7 demo_broken))"
proof -
  have inv: "health_inv (record_camera_health_transition ''c1'' 7 demo_broken)"
    using demo_broken_inv by (rule transition_inv)
  have "''c1'' \<in> cam_uuid ` set (cameras (record_camera_health_transition ''c1'' 7 demo_broken))"
    by (simp add: demo_broken_def demo_simps)
  from silenced_camera_sends_nothing [OF inv this, of 9 "[]" 0 0] show ?thesis
    unfolding Let_def by (rule conjunct1)
qed

subsection \<open>Spacing of authentication retries\<close>

text \<open>The times at which the claims of one stream are granted, when it is claimed at each time of a list.\<close>

primrec granted :: "string \<Rightarrow> rat list \<Rightarrow> db \<Rightarrow> rat list" where
  "granted u [] d = []"
| "granted u (now # rest) d =
     (case claim_auth_retry u now d of
        (True, d') \<Rightarrow> now # granted u rest d'
      | (False, d') \<Rightarrow> granted u rest d')"

fun spaced :: "nat \<Rightarrow> rat \<Rightarrow> rat list \<Rightarrow> bool" where
  "spaced attempts earliest [] \<longleftrightarrow> True"
| "spaced attempts earliest (now # rest) \<longleftrightarrow>
     earliest \<le> now \<and> spaced (Suc attempts) (now + retry_delay attempts) rest"

lemma find_retry:
  assumes "row_get rty_stream u t = Some r" and "uniq_on rty_stream t"
  shows "find (\<lambda>x. rty_stream x = u \<and> rty_next x \<le> now) t = (if rty_next r \<le> now then Some r else None)"
  using assms
proof (induction t)
  case (Cons x t)
  show ?case
  proof (cases "rty_stream x = u")
    case True
    with Cons.prems have "x = r" by (simp add: row_get_def)
    have "find (\<lambda>y. rty_stream y = u \<and> rty_next y \<le> now) t = None"
      using Cons.prems(2) True by (auto simp: find_None_iff uniq_on_def) (metis image_eqI)
    with True \<open>x = r\<close> show ?thesis by simp
  next
    case False
    with Cons show ?thesis by (simp add: row_get_def uniq_on_def)
  qed
qed (simp add: row_get_def)

lemma granted_spaced:
  assumes "row_get rty_stream u (auth_retries d) = Some r" and "uniq_on rty_stream (auth_retries d)"
  shows "spaced (rty_attempts r) (rty_next r) (granted u claims d)"
  using assms
proof (induction claims arbitrary: d r)
  case (Cons now claims)
  show ?case
  proof (cases "rty_next r \<le> now")
    case True
    let ?f = "\<lambda>a. a\<lparr>rty_attempts := Suc (rty_attempts a), rty_next := now + retry_delay (rty_attempts r)\<rparr>"
    let ?d = "d\<lparr>auth_retries := upd_where (\<lambda>a. rty_stream a = u) ?f (auth_retries d)\<rparr>"
    have claim: "claim_auth_retry u now d = (True, ?d)"
      using True by (simp add: claim_auth_retry_def find_retry [OF Cons.prems])
    have "row_get rty_stream u (auth_retries ?d) = Some (?f r)"
      using Cons.prems(1) find_upd_where [of rty_stream ?f u u "auth_retries d"]
      by (simp add: row_get_def)
    moreover have "uniq_on rty_stream (auth_retries ?d)"
      using Cons.prems(2) by (simp add: uniq_on_upd_where)
    ultimately have "spaced (rty_attempts (?f r)) (rty_next (?f r)) (granted u claims ?d)" by (rule Cons.IH)
    with True claim show ?thesis by simp
  next
    case False
    then have "claim_auth_retry u now d = (False, d)"
      by (simp add: claim_auth_retry_def find_retry [OF Cons.prems])
    with Cons show ?thesis by simp
  qed
qed simp

text \<open>
  However often a stream's retry is claimed, the first grant is not before the scheduled time
  and each later one at least 300, 900 and then 1800 seconds after the one before, by the number of
  attempts already made.
\<close>

theorem auth_retries_back_off:
  assumes "row_get rty_stream u (auth_retries d) = Some r" and "uniq_on rty_stream (auth_retries d)"
  shows "spaced (rty_attempts r) (rty_next r) (granted u claims d) \<and>
    (rty_next r \<le> now \<longleftrightarrow> fst (claim_auth_retry u now d)) \<and>
    map retry_delay [0, 1, 2, 3, Suc n + 2] = [300, 900, 1800, 1800, 1800]"
  using granted_spaced [OF assms] by (simp add: claim_auth_retry_def find_retry [OF assms] retry_delay_def)

theorem auth_retries_back_off_witness:
  "spaced 0 60 (granted ''m1'' [10, 60, 200, 360, 400]
     (demo_db\<lparr>auth_retries := [\<lparr>rty_stream = ''m1'', rty_attempts = 0, rty_next = 60\<rparr>]\<rparr>))"
proof -
  let ?r = "\<lparr>rty_stream = ''m1'', rty_attempts = 0, rty_next = 60\<rparr> :: auth_retry_row"
  let ?d = "demo_db\<lparr>auth_retries := [?r]\<rparr>"
  have "row_get rty_stream ''m1'' (auth_retries ?d) = Some ?r" "uniq_on rty_stream (auth_retries ?d)"
    by (simp_all add: row_get_def uniq_on_def)
  from auth_retries_back_off [OF this, THEN conjunct1] show ?thesis
    by (simp del: granted.simps)
qed

end
