(* ===== verification/Availability.thy ===== *)
theory Availability
  imports HealthProps
begin

text \<open>
  \<open>camera_availability\<close> (camadmiral/storage.py): the history of one camera cut into segments of
  constant state over a window that ends now, the share of observed time it was healthy, and the
  same segments clipped to equal buckets. Times are microseconds; \<open>timedelta\<close> rounds a bucket's
  edge to the nearest one. Python's float arithmetic is exact rational arithmetic here, and
  \<open>round(x, n)\<close> rounds the exact value half to even.
\<close>

type_synonym segment = "timestamp \<times> timestamp \<times> camera_state \<times> string"

record availability_bucket =
  bk_start :: timestamp
  bk_end :: timestamp
  bk_state :: camera_state
  bk_reason :: string
  bk_segments :: "(timestamp \<times> timestamp \<times> camera_state \<times> string \<times> rat) list"

record availability =
  av_window :: string
  av_start :: timestamp
  av_end :: timestamp
  av_percent :: "rat option"
  av_observed :: rat
  av_buckets :: "availability_bucket list"

definition round_to :: "nat \<Rightarrow> rat \<Rightarrow> rat" where
  "round_to n x = of_int (py_round (x * 10 ^ n)) / 10 ^ n"

definition seconds :: "int \<Rightarrow> rat" where
  "seconds us = of_int us / 1000000"

fun segment_loop ::
  "timestamp \<Rightarrow> timestamp \<Rightarrow> timestamp \<Rightarrow> camera_state \<Rightarrow> string \<Rightarrow> health_event_row list \<Rightarrow> segment list" where
  "segment_loop ws we cursor state reason [] =
     (if cursor < we then [(cursor, we, state, reason)] else [])"
| "segment_loop ws we cursor state reason (row # rows) =
     (let observed_at = min we (max ws (hev_at row));
          rest = segment_loop ws we observed_at (hev_state row) (hev_reason row) rows
      in if observed_at > cursor then (cursor, observed_at, state, reason) # rest else rest)"

definition availability_segments :: "string \<Rightarrow> timestamp \<Rightarrow> timestamp \<Rightarrow> db \<Rightarrow> segment list" where
  "availability_segments c ws we d =
     (let of_camera = filter (\<lambda>e. hev_camera e = c) (health_events d);
          previous = latest_by hev_at (filter (\<lambda>e. hev_at e < ws) of_camera);
          rows = sort_key hev_at (filter (\<lambda>e. ws \<le> hev_at e \<and> hev_at e \<le> we) of_camera)
      in case previous of
           Some e \<Rightarrow> segment_loop ws we ws (hev_state e) (hev_reason e) rows
         | None \<Rightarrow> segment_loop ws we ws CUnknown ''no_observation'' rows)"

definition is_observed :: "camera_state \<Rightarrow> bool" where
  "is_observed s \<longleftrightarrow> s = CHealthy \<or> s = CDegraded \<or> s = COffline \<or> s = CAuthFailed"

definition time_in :: "(camera_state \<Rightarrow> bool) \<Rightarrow> segment list \<Rightarrow> int" where
  "time_in P segs = sum_list (map (\<lambda>(a, b, s, r). if P s then b - a else 0) segs)"

definition clip_segments :: "timestamp \<Rightarrow> timestamp \<Rightarrow> segment list \<Rightarrow> segment list" where
  "clip_segments x y segs =
     concat (map (\<lambda>(a, b, s, r).
       if a < y \<and> b > x \<and> max a x < min b y then [(max a x, min b y, s, r)] else []) segs)"

definition bucket_edge :: "timestamp \<Rightarrow> int \<Rightarrow> int \<Rightarrow> int \<Rightarrow> timestamp" where
  "bucket_edge ws len n i = ws + py_round (of_int len / of_int n * of_int i)"

definition availability_bucket_at :: "timestamp \<Rightarrow> timestamp \<Rightarrow> segment list \<Rightarrow> availability_bucket" where
  "availability_bucket_at x y segs =
     (let bs = clip_segments x y segs;
          (state, reason) = (if bs = [] then (CUnknown, ''no_observation'')
                             else (\<lambda>(a, b, s, r). (s, r)) (last bs))
      in \<lparr>bk_start = x, bk_end = y, bk_state = state, bk_reason = reason,
          bk_segments = map (\<lambda>(a, b, s, r). (a, b, s, r, round_to 3 (seconds (b - a)))) bs\<rparr>)"

definition availability_percent :: "segment list \<Rightarrow> rat option" where
  "availability_percent segs =
     (let observed = time_in is_observed segs; healthy = time_in (\<lambda>s. s = CHealthy) segs
      in if observed > 0 then Some (round_to 2 (of_int healthy * 100 / of_int observed)) else None)"

definition camera_availability ::
  "string \<Rightarrow> int \<Rightarrow> int \<Rightarrow> timestamp \<Rightarrow> db \<Rightarrow> repo_error + availability option" where
  "camera_availability c hours n now d =
     (if hours \<le> 0 \<or> n \<le> 0 then Inl (ValueError ''Availability window must be positive'')
      else if \<not> has_row (\<lambda>r. cam_uuid r = c) (cameras d) then Inr None
      else
        let len = hours * 3600000000; ws = now - len;
            segs = availability_segments c ws now d
        in Inr (Some
             \<lparr>av_window = int_str hours @ ''h'', av_start = ws, av_end = now,
              av_percent = availability_percent segs,
              av_observed = round_to 3 (seconds (time_in is_observed segs)),
              av_buckets = map (\<lambda>i. availability_bucket_at (bucket_edge ws len n i)
                                        (bucket_edge ws len n (i + 1)) segs) [0..n - 1]\<rparr>))"

subsection \<open>The latest row\<close>

lemma latest_by_spec:
  "xs \<noteq> [] \<Longrightarrow> \<exists>r. latest_by f xs = Some r \<and> r \<in> set xs \<and> (\<forall>y \<in> set xs. f y \<le> f r) \<and>
     last (filter (\<lambda>y. f y = f r) xs) = r"
proof (induction xs rule: rev_induct)
  case (snoc x xs)
  show ?case
  proof (cases "xs = []")
    case True
    then show ?thesis by (simp add: latest_by_def)
  next
    case False
    then obtain r where r: "latest_by f xs = Some r" "r \<in> set xs" "\<forall>y \<in> set xs. f y \<le> f r"
      "last (filter (\<lambda>y. f y = f r) xs) = r" using snoc.IH by blast
    have step: "latest_by f (xs @ [x]) = (if f r \<le> f x then Some x else Some r)"
      using r(1) by (simp add: latest_by_def)
    show ?thesis
    proof (cases "f r \<le> f x")
      case True
      with step r show ?thesis by (auto intro: order_trans)
    next
      case False
      with step r show ?thesis by auto
    qed
  qed
qed simp

lemma last_greatest: "sorted (map f s) \<Longrightarrow> r \<in> set s \<Longrightarrow> f r \<le> f (last s)"
  by (induction s rule: rev_induct) (auto simp: sorted_append)

lemma last_filter_last: "xs \<noteq> [] \<Longrightarrow> P (last xs) \<Longrightarrow> last (filter P xs) = last xs"
  by (induction xs rule: rev_induct) auto

lemma latest_by_sort: "latest_by f xs = (if xs = [] then None else Some (last (sort_key f xs)))"
proof (cases "xs = []")
  case True
  then show ?thesis by (simp add: latest_by_def)
next
  case False
  then obtain r where r: "latest_by f xs = Some r" "r \<in> set xs" "\<forall>y \<in> set xs. f y \<le> f r"
    "last (filter (\<lambda>y. f y = f r) xs) = r" using latest_by_spec by blast
  let ?s = "sort_key f xs"
  have ne: "?s \<noteq> []" using False by (metis set_empty set_sort)
  have "last ?s \<in> set xs" using ne last_in_set [of ?s] by simp
  moreover have "f r \<le> f (last ?s)" using r(2) by (intro last_greatest) simp_all
  ultimately have "f (last ?s) = f r" using r(3) by (simp add: antisym)
  then have "last (filter (\<lambda>y. f y = f r) ?s) = last ?s"
    using ne by (intro last_filter_last)
  then have "last ?s = r" using r(4) by (simp add: sort_key_stable)
  then show ?thesis using r(1) False by simp
qed

subsection \<open>Segments\<close>

primrec contiguous :: "timestamp \<Rightarrow> timestamp \<Rightarrow> segment list \<Rightarrow> bool" where
  "contiguous a b [] \<longleftrightarrow> a = b"
| "contiguous a b (x # xs) \<longleftrightarrow> fst x = a \<and> a < fst (snd x) \<and> contiguous (fst (snd x)) b xs"

lemma contiguous_le: "contiguous a b xs \<Longrightarrow> a \<le> b \<and> (\<forall>(p, q, r) \<in> set xs. a \<le> p \<and> p < q \<and> q \<le> b)"
  by (induction xs arbitrary: a) force+

definition pick :: "camera_state \<times> string \<Rightarrow> health_event_row list \<Rightarrow> timestamp \<Rightarrow> camera_state \<times> string" where
  "pick acc rows x =
     (let past = filter (\<lambda>e. hev_at e \<le> x) rows
      in if past = [] then acc else (hev_state (last past), hev_reason (last past)))"

lemma segment_loop_contiguous:
  "ws \<le> cursor \<Longrightarrow> cursor \<le> we \<Longrightarrow> sorted (map hev_at rows) \<Longrightarrow>
   \<forall>e \<in> set rows. cursor \<le> hev_at e \<and> hev_at e \<le> we \<Longrightarrow>
   contiguous cursor we (segment_loop ws we cursor st rs rows)"
proof (induction rows arbitrary: cursor st rs)
  case (Cons row rows)
  have at: "min we (max ws (hev_at row)) = hev_at row" using Cons.prems by auto
  have "contiguous (hev_at row) we (segment_loop ws we (hev_at row) (hev_state row) (hev_reason row) rows)"
    using Cons.prems by (intro Cons.IH) auto
  then show ?case using Cons.prems by (auto simp: at Let_def)
qed auto

lemma segment_loop_states:
  "ws \<le> cursor \<Longrightarrow> cursor \<le> we \<Longrightarrow> sorted (map hev_at rows) \<Longrightarrow>
   \<forall>e \<in> set rows. cursor \<le> hev_at e \<and> hev_at e \<le> we \<Longrightarrow>
   (a, b, s, r) \<in> set (segment_loop ws we cursor st rs rows) \<Longrightarrow> a \<le> x \<Longrightarrow> x < b \<Longrightarrow>
   pick (st, rs) rows x = (s, r)"
proof (induction rows arbitrary: cursor st rs)
  case Nil
  then show ?case by (auto simp: pick_def split: if_splits)
next
  case (Cons row rows)
  let ?rest = "segment_loop ws we (hev_at row) (hev_state row) (hev_reason row) rows"
  have at: "min we (max ws (hev_at row)) = hev_at row" using Cons.prems by auto
  have later: "\<forall>e \<in> set rows. hev_at row \<le> hev_at e \<and> hev_at e \<le> we" using Cons.prems by auto
  have cont: "contiguous (hev_at row) we ?rest"
    using Cons.prems later by (intro segment_loop_contiguous) auto
  show ?case
  proof (cases "(a, b, s, r) \<in> set ?rest")
    case True
    then have "hev_at row \<le> a" using contiguous_le [OF cont] by auto
    have "pick (hev_state row, hev_reason row) rows x = (s, r)"
      using Cons.prems later True by (intro Cons.IH) auto
    then show ?thesis using \<open>hev_at row \<le> a\<close> Cons.prems(6)
      by (auto simp: pick_def Let_def)
  next
    case False
    then have seg: "a = cursor" "b = hev_at row" "s = st" "r = rs"
      using Cons.prems(5) by (auto simp: at Let_def split: if_splits)
    have "filter (\<lambda>e. hev_at e \<le> x) (row # rows) = []"
      using Cons.prems(7) later seg by (auto simp: filter_empty_conv)
    then show ?thesis using seg by (simp add: pick_def)
  qed
qed

definition state_at :: "string \<Rightarrow> db \<Rightarrow> timestamp \<Rightarrow> camera_state \<times> string" where
  "state_at c d x =
     (case latest_by hev_at (filter (\<lambda>e. hev_camera e = c \<and> hev_at e \<le> x) (health_events d)) of
        None \<Rightarrow> (CUnknown, ''no_observation'')
      | Some e \<Rightarrow> (hev_state e, hev_reason e))"

lemma sorted_split:
  "sorted (map f xs) \<Longrightarrow> a \<le> b \<Longrightarrow>
   filter (\<lambda>e. f e \<le> b) xs = filter (\<lambda>e. f e < a) xs @ filter (\<lambda>e. a \<le> f e \<and> f e \<le> b) xs"
  for f :: "'a \<Rightarrow> int"
proof (induction xs)
  case (Cons x xs)
  show ?case
  proof (cases "f x < a")
    case True
    with Cons show ?thesis by auto
  next
    case False
    then have "filter (\<lambda>e. f e < a) xs = []" using Cons.prems(1) by (auto simp: filter_empty_conv)
    with Cons False show ?thesis by auto
  qed
qed simp

lemma availability_loop:
  fixes d c we
  defines "of_camera \<equiv> filter (\<lambda>e. hev_camera e = c) (health_events d)"
  obtains acc rows where
    "availability_segments c ws we d = segment_loop ws we ws (fst acc) (snd acc) rows"
    "sorted (map hev_at rows)" "\<forall>e \<in> set rows. ws \<le> hev_at e \<and> hev_at e \<le> we"
    "\<And>x. ws \<le> x \<Longrightarrow> x < we \<Longrightarrow> pick acc rows x = state_at c d x"
proof -
  define S where "S = sort_key hev_at of_camera"
  define before where "before = filter (\<lambda>e. hev_at e < ws) S"
  define rows where "rows = filter (\<lambda>e. ws \<le> hev_at e \<and> hev_at e \<le> we) S"
  define acc where "acc = (if before = [] then (CUnknown, ''no_observation'')
    else (hev_state (last before), hev_reason (last before)))"
  have latest: "latest_by hev_at (filter P of_camera) =
      (if filter P S = [] then None else Some (last (filter P S)))" for P
    unfolding latest_by_sort S_def filter_sort
    by (metis set_empty set_sort)
  have "availability_segments c ws we d = segment_loop ws we ws (fst acc) (snd acc) rows"
    unfolding availability_segments_def Let_def of_camera_def [symmetric] latest
    by (simp add: acc_def before_def rows_def S_def filter_sort)
  moreover have "pick acc rows x = state_at c d x" if "ws \<le> x" "x < we" for x
  proof -
    have "filter (\<lambda>e. hev_at e \<le> x) rows = filter (\<lambda>e. ws \<le> hev_at e \<and> hev_at e \<le> x) S"
      unfolding rows_def filter_filter using that by (intro filter_cong) auto
    moreover have "filter (\<lambda>e. hev_at e \<le> x) S = before @ filter (\<lambda>e. ws \<le> hev_at e \<and> hev_at e \<le> x) S"
      unfolding before_def by (rule sorted_split) (simp_all add: S_def that)
    moreover have "state_at c d x = (case latest_by hev_at (filter (\<lambda>e. hev_at e \<le> x) of_camera) of
        None \<Rightarrow> (CUnknown, ''no_observation'') | Some e \<Rightarrow> (hev_state e, hev_reason e))"
      by (simp add: state_at_def of_camera_def conj_commute)
    ultimately show ?thesis unfolding latest by (simp add: pick_def acc_def Let_def)
  qed
  moreover have "sorted (map hev_at rows)" by (simp add: rows_def S_def sorted_filter)
  moreover have "\<forall>e \<in> set rows. ws \<le> hev_at e \<and> hev_at e \<le> we" by (simp add: rows_def)
  ultimately show ?thesis using that by blast
qed

lemma availability_timeline:
  assumes "ws \<le> we"
  shows "contiguous ws we (availability_segments c ws we d) \<and>
    (\<forall>(a, b, s, r) \<in> set (availability_segments c ws we d). \<forall>x. a \<le> x \<and> x < b \<longrightarrow> state_at c d x = (s, r))"
proof -
  obtain acc rows where seg: "availability_segments c ws we d = segment_loop ws we ws (fst acc) (snd acc) rows"
    and rows: "sorted (map hev_at rows)" "\<forall>e \<in> set rows. ws \<le> hev_at e \<and> hev_at e \<le> we"
    and pick: "\<And>x. ws \<le> x \<Longrightarrow> x < we \<Longrightarrow> pick acc rows x = state_at c d x"
    by (rule availability_loop [where c = c and d = d and ws = ws and we = we]) blast
  have cont: "contiguous ws we (availability_segments c ws we d)"
    unfolding seg using assms rows by (intro segment_loop_contiguous) auto
  have "state_at c d x = (s, r)"
    if s: "(a, b, s, r) \<in> set (availability_segments c ws we d)" and x: "a \<le> x" "x < b" for a b s r x
  proof -
    have "ws \<le> x" "x < we" using contiguous_le [OF cont] s x by auto
    moreover have "pick (fst acc, snd acc) rows x = (s, r)"
      by (rule segment_loop_states [OF _ assms rows, of ws a b]) (use s x seg in auto)
    ultimately show ?thesis using pick by simp
  qed
  with cont show ?thesis by blast
qed

text \<open>
  C35: The segments tile the window without gap or overlap, and at every instant the segment that
  holds it carries the state and reason of the camera's latest event up to that instant, or
  "unknown" when there is none.
\<close>

theorem availability_timeline_exact:
  assumes "ws \<le> we"
  shows "contiguous ws we (availability_segments c ws we d) \<and>
    (\<forall>(a, b, s, r) \<in> set (availability_segments c ws we d). \<forall>x. a \<le> x \<and> x < b \<longrightarrow> state_at c d x = (s, r))"
  using assms by (rule availability_timeline)

theorem availability_timeline_exact_witness:
  "contiguous 0 10 (availability_segments ''c1'' 0 10 (record_camera_health_transition ''c1'' 7 demo_broken))"
  using availability_timeline_exact [of 0 10, THEN conjunct1] by simp

subsection \<open>Percentages and buckets\<close>

lemma py_round_bounds:
  assumes "of_int a \<le> x" "x \<le> of_int b"
  shows "a \<le> py_round x" "py_round x \<le> b"
proof -
  have f: "a \<le> \<lfloor>x\<rfloor>" "\<lfloor>x\<rfloor> \<le> b" using assms by (simp_all add: le_floor_iff floor_le_iff)
  moreover have "x = of_int \<lfloor>x\<rfloor>" if "\<lfloor>x\<rfloor> = b" using that assms(2) by (metis of_int_floor_le antisym)
  ultimately show "a \<le> py_round x" "py_round x \<le> b"
    by (cases "\<lfloor>x\<rfloor> = b", auto simp: py_round_def Let_def)+
qed

lemma py_round_mono:
  assumes "x \<le> y"
  shows "py_round x \<le> py_round y"
proof (cases "\<lfloor>x\<rfloor> = \<lfloor>y\<rfloor>")
  case True
  then have "x - of_int \<lfloor>x\<rfloor> \<le> y - of_int \<lfloor>y\<rfloor>" using assms by simp
  then show ?thesis using True by (auto simp: py_round_def Let_def)
next
  case False
  then have "\<lfloor>x\<rfloor> + 1 \<le> \<lfloor>y\<rfloor>" using assms floor_mono [OF assms] by linarith
  moreover have "py_round x \<le> \<lfloor>x\<rfloor> + 1" "\<lfloor>y\<rfloor> \<le> py_round y" by (auto simp: py_round_def Let_def)
  ultimately show ?thesis by linarith
qed

lemma time_in_nonneg: "contiguous a b xs \<Longrightarrow> 0 \<le> time_in P xs"
proof (induction xs arbitrary: a)
  case (Cons x xs)
  then show ?case by (cases x) (fastforce simp: time_in_def)
qed (simp add: time_in_def)

lemma time_in_mono: "(\<And>s. P s \<Longrightarrow> Q s) \<Longrightarrow> contiguous a b xs \<Longrightarrow> time_in P xs \<le> time_in Q xs"
proof (induction xs arbitrary: a)
  case (Cons x xs)
  then show ?case by (cases x) (fastforce simp: time_in_def)
qed (simp add: time_in_def)

lemma percent_bounds:
  assumes "contiguous a b segs" "availability_percent segs = Some p"
  shows "0 \<le> p" "p \<le> 100"
proof -
  define o' where "o' = time_in is_observed segs"
  define h where "h = time_in (\<lambda>s. s = CHealthy) segs"
  have o: "0 < o'" "p = round_to 2 (of_int h * 100 / of_int o')"
    using assms(2) by (auto simp: availability_percent_def Let_def o'_def h_def split: if_splits)
  have h: "0 \<le> h" "h \<le> o'"
    unfolding h_def o'_def using assms(1) by (auto simp: is_observed_def intro: time_in_nonneg time_in_mono)
  let ?x = "(of_int h * 100 / of_int o') * 10 ^ 2 :: rat"
  have "of_int 0 \<le> ?x" "?x \<le> of_int 10000" using h o(1) by (simp_all add: field_simps)
  then have "0 \<le> py_round ?x" "py_round ?x \<le> 10000" using py_round_bounds by blast+
  then have "(0 :: rat) \<le> of_int (py_round ?x)" "of_int (py_round ?x) \<le> (10000 :: rat)" by simp_all
  then show "0 \<le> p" "p \<le> 100" unfolding o(2) round_to_def by simp_all
qed

lemma clip_nil: "contiguous a b xs \<Longrightarrow> y \<le> a \<Longrightarrow> clip_segments x y xs = []"
proof -
  assume "contiguous a b xs" "y \<le> a"
  then have "\<forall>(p, q, r) \<in> set xs. y \<le> p" using contiguous_le by fastforce
  then show ?thesis by (auto simp: clip_segments_def)
qed

lemma clip_contiguous:
  "contiguous a b xs \<Longrightarrow> x \<le> y \<Longrightarrow> y \<le> b \<Longrightarrow> a \<le> y \<Longrightarrow> contiguous (max a x) y (clip_segments x y xs)"
proof (induction xs arbitrary: a)
  case Nil
  then show ?case by (auto simp: clip_segments_def)
next
  case (Cons z xs)
  obtain q s r where z: "z = (a, q, s, r)" using Cons.prems(1) by (cases z) auto
  have q: "a < q" "contiguous q b xs" using Cons.prems(1) z by auto
  have step: "clip_segments x y (z # xs) =
      (if a < y \<and> q > x \<and> max a x < min q y then [(max a x, min q y, s, r)] else []) @ clip_segments x y xs"
    by (simp add: clip_segments_def z)
  show ?case
  proof (cases "q \<le> y")
    case True
    then have IH: "contiguous (max q x) y (clip_segments x y xs)" using Cons q by auto
    then show ?thesis unfolding step using True q by (auto simp: max_def min_def split: if_splits)
  next
    case False
    then have "clip_segments x y xs = []" using clip_nil q(2) by simp
    then show ?thesis unfolding step using False Cons.prems q by (auto simp: max_def min_def)
  qed
qed

lemma bucket_edge_ends: "0 < n \<Longrightarrow> bucket_edge ws len n 0 = ws \<and> bucket_edge ws len n n = ws + len"
proof -
  assume "0 < n"
  moreover have "py_round (of_int len) = len" "py_round 0 = 0"
    using py_round_of_int [of 0] by (simp, simp only: of_int_0)
  ultimately show ?thesis by (simp add: bucket_edge_def)
qed

lemma bucket_edge_mono:
  assumes "0 \<le> len" "0 < n" "i \<le> j"
  shows "bucket_edge ws len n i \<le> bucket_edge ws len n j"
  unfolding bucket_edge_def
  using assms by (intro add_left_mono py_round_mono mult_left_mono) auto

definition bucket_tiled :: "availability_bucket \<Rightarrow> bool" where
  "bucket_tiled b \<longleftrightarrow>
     contiguous (bk_start b) (bk_end b) (map (\<lambda>(p, q, s, r, secs). (p, q, s, r)) (bk_segments b))"

lemma bucket_tiledI:
  assumes "contiguous ws we segs" "ws \<le> x" "x \<le> y" "y \<le> we"
  shows "bucket_tiled (availability_bucket_at x y segs)"
proof -
  have "contiguous x y (clip_segments x y segs)"
    using clip_contiguous [OF assms(1), of x y] assms by (simp add: max_def split: if_splits)
  moreover have "map (\<lambda>(p, q, s, r, secs). (p, q, s, r)) (bk_segments (availability_bucket_at x y segs)) =
      clip_segments x y segs"
    by (simp add: availability_bucket_at_def Let_def case_prod_unfold comp_def)
  moreover have "bk_start (availability_bucket_at x y segs) = x" "bk_end (availability_bucket_at x y segs) = y"
    by (simp_all add: availability_bucket_at_def Let_def case_prod_unfold)
  ultimately show ?thesis by (simp add: bucket_tiled_def)
qed

lemma successively_upto: "successively (\<lambda>i j. j = i + 1) [a..b]"
proof (induction a b rule: upto.induct)
  case (1 i j)
  show ?case
  proof (cases "i \<le> j")
    case True
    then have "successively (\<lambda>i j. j = i + 1) [i + 1..j]" by (rule 1)
    with True show ?thesis
      by (cases "i + 1 \<le> j") (simp_all add: upto_rec1 successively_Cons)
  qed simp
qed

text \<open>
  The report of a known camera covers exactly the asked window: the percentage, present
  whenever some time was observed, lies between 0 and 100; the buckets number \<open>bucket_count\<close>,
  run from the start of the window to its end, each beginning where the one before ends, and each
  is tiled by its own segments.
\<close>

theorem availability_report_bounds:
  assumes "0 < hours" and "0 < n" and "c \<in> cam_uuid ` set (cameras d)"
  shows "\<exists>av. camera_availability c hours n now d = Inr (Some av) \<and>
    av_end av = now \<and> av_start av = now - hours * 3600000000 \<and>
    (case av_percent av of
       None \<Rightarrow> time_in is_observed (availability_segments c (av_start av) now d) = 0
     | Some p \<Rightarrow> 0 \<le> p \<and> p \<le> 100) \<and>
    length (av_buckets av) = nat n \<and> list_all bucket_tiled (av_buckets av) \<and>
    bk_start (hd (av_buckets av)) = av_start av \<and> bk_end (last (av_buckets av)) = now \<and>
    successively (\<lambda>b b'. bk_end b = bk_start b') (av_buckets av)"
proof -
  define len where "len = hours * 3600000000"
  define ws where "ws = now - len"
  define segs where "segs = availability_segments c ws now d"
  define edge where "edge = bucket_edge ws len n"
  define bs where "bs = map (\<lambda>i. availability_bucket_at (edge i) (edge (i + 1)) segs) [0..n - 1]"
  have len: "0 \<le> len" "ws \<le> now" using assms(1) by (simp_all add: len_def ws_def)
  have cont: "contiguous ws now segs"
    unfolding segs_def using availability_timeline len(2) by blast
  have ends: "edge 0 = ws" "edge n = now" using bucket_edge_ends assms(2) by (auto simp: edge_def ws_def)
  have mono: "edge i \<le> edge j" if "i \<le> j" for i j
    unfolding edge_def using len(1) assms(2) that by (rule bucket_edge_mono)
  have "bucket_tiled (availability_bucket_at (edge i) (edge (i + 1)) segs)" if "0 \<le> i" "i \<le> n - 1" for i
    using cont mono [of 0 i] mono [of i "i + 1"] mono [of "i + 1" n] that ends by (intro bucket_tiledI) auto
  then have tiled: "list_all bucket_tiled bs" by (simp add: bs_def list_all_iff)
  have bk: "bk_start (availability_bucket_at x y segs) = x" "bk_end (availability_bucket_at x y segs) = y" for x y
    by (simp_all add: availability_bucket_at_def Let_def case_prod_unfold)
  have hd: "bk_start (hd bs) = ws" using assms(2) ends by (simp add: bs_def bk hd_map upto_rec1)
  have last: "bk_end (last bs) = now" using assms(2) ends by (simp add: bs_def bk last_map upto_rec2)
  have succ: "successively (\<lambda>b b'. bk_end b = bk_start b') bs"
    unfolding bs_def successively_map bk by (rule successively_mono [OF successively_upto]) simp
  have pct: "case availability_percent segs of None \<Rightarrow> time_in is_observed segs = 0 | Some p \<Rightarrow> 0 \<le> p \<and> p \<le> 100"
    using percent_bounds [OF cont] time_in_nonneg [OF cont, of is_observed]
    by (auto simp: availability_percent_def Let_def split: option.splits if_splits)
  define av where "av = \<lparr>av_window = int_str hours @ ''h'', av_start = ws, av_end = now,
    av_percent = availability_percent segs,
    av_observed = round_to 3 (seconds (time_in is_observed segs)), av_buckets = bs\<rparr>"
  have report: "camera_availability c hours n now d = Inr (Some av)"
    using assms by (simp add: camera_availability_def has_row_key Let_def av_def bs_def edge_def
        segs_def ws_def len_def)
  have sel: "av_end av = now" "av_start av = ws" "av_percent av = availability_percent segs"
    "av_buckets av = bs" by (simp_all add: av_def)
  have "length bs = nat n" by (simp add: bs_def)
  then show ?thesis
    using report tiled hd last succ pct unfolding segs_def ws_def len_def
    by (intro exI [of _ av]) (simp only: sel segs_def ws_def len_def simp_thms)
qed

theorem availability_report_bounds_witness:
  "\<exists>av. camera_availability ''c1'' 24 48 100 demo_db = Inr (Some av) \<and> length (av_buckets av) = 48"
proof -
  have "''c1'' \<in> cam_uuid ` set (cameras demo_db)" by (simp add: demo_simps)
  from availability_report_bounds [OF _ _ this, of 24 48 100] show ?thesis by fastforce
qed

end
