(* ===== verification/Config.thy ===== *)
theory Config
  imports PyValue
begin

text \<open>
  camadmiral/config.py: the settings read from the YAML document, and secret files. The document is
  what \<open>yaml.safe_load\<close> returns, a \<open>pyval\<close>: mappings have string keys and there are no fractional
  numbers. A \<open>Path\<close> is its root and its parts. The file system is a map from paths to what
  reading them gives.
\<close>

subsection \<open>Paths\<close>

record path =
  path_root :: string
  path_parts :: "string list"

text \<open>POSIX keeps exactly two leading slashes and joins any other number into one.\<close>

definition path_of :: "string \<Rightarrow> path" where
  "path_of s =
     \<lparr>path_root = (if startswith s ''//'' \<and> \<not> startswith s ''///'' then ''//''
                   else if startswith s ''/'' then ''/'' else []),
      path_parts = filter (\<lambda>p. p \<noteq> [] \<and> p \<noteq> ''.'') (split_char CHR ''/'' s)\<rparr>"

definition is_absolute :: "path \<Rightarrow> bool" where
  "is_absolute p \<longleftrightarrow> path_root p \<noteq> []"

definition path_parent :: "path \<Rightarrow> path" where
  "path_parent p = p\<lparr>path_parts := butlast (path_parts p)\<rparr>"

definition path_join :: "path \<Rightarrow> string list \<Rightarrow> path" where
  "path_join p names = p\<lparr>path_parts := path_parts p @ names\<rparr>"

subsection \<open>Settings\<close>

datatype config_error = ConfigurationError string

record server_settings =
  srv_listen :: string
  srv_port :: int

record secret_settings =
  scr_master_key_file :: path
  scr_api_token_file :: path
  scr_admin_password_file :: path
  scr_explicit :: bool

record camadmiral_settings =
  cfg_version :: int
  cfg_server :: server_settings
  cfg_database :: path
  cfg_secrets :: secret_settings

definition default_server :: server_settings where
  "default_server = \<lparr>srv_listen = ''0.0.0.0'', srv_port = 18080\<rparr>"

definition default_database :: path where
  "default_database = path_of ''/var/lib/camadmiral/camadmiral.db''"

definition default_secrets :: secret_settings where
  "default_secrets =
     \<lparr>scr_master_key_file = path_of ''/run/secrets/camadmiral_master_key'',
      scr_api_token_file = path_of ''/run/secrets/camadmiral_api_token'',
      scr_admin_password_file = path_of ''/run/secrets/camadmiral_admin_password'',
      scr_explicit = False\<rparr>"

definition default_settings :: camadmiral_settings where
  "default_settings =
     \<lparr>cfg_version = 1, cfg_server = default_server, cfg_database = default_database,
      cfg_secrets = default_secrets\<rparr>"

definition inventory_path :: "camadmiral_settings \<Rightarrow> path" where
  "inventory_path s = path_join (path_parent (cfg_database s)) [''inventory.json'']"

subsection \<open>Parsing\<close>

definition bind_err :: "'e + 'a \<Rightarrow> ('a \<Rightarrow> 'e + 'b) \<Rightarrow> 'e + 'b" where
  "bind_err r f = (case r of Inl e \<Rightarrow> Inl e | Inr x \<Rightarrow> f x)"

lemma bind_err_Inr [simp]: "bind_err r f = Inr y \<longleftrightarrow> (\<exists>x. r = Inr x \<and> f x = Inr y)"
  by (cases r) (auto simp: bind_err_def)

definition mapping_of :: "pyval \<Rightarrow> string \<Rightarrow> config_error + pydict" where
  "mapping_of value context =
     (case value of
        PNone \<Rightarrow> Inr []
      | PDict d \<Rightarrow> Inr d
      | _ \<Rightarrow> Inl (ConfigurationError (context @ '' must be a mapping'')))"

definition only_keys :: "pydict \<Rightarrow> string list \<Rightarrow> string \<Rightarrow> config_error + unit" where
  "only_keys mapping allowed context =
     (let unknown = sort (filter (\<lambda>k. k \<notin> set allowed) (map fst mapping)) in
      case unknown of
        [] \<Rightarrow> Inr ()
      | k # _ \<Rightarrow> Inl (ConfigurationError (''Unknown '' @ context @ '' setting: '' @ k)))"

definition absolute_path :: "pyval \<Rightarrow> path \<Rightarrow> string \<Rightarrow> config_error + path" where
  "absolute_path value dflt context =
     (case value of
        PNone \<Rightarrow> Inr dflt
      | PStr s \<Rightarrow>
          if py_strip s = [] then Inl (ConfigurationError (context @ '' must be a non-empty path''))
          else if \<not> is_absolute (path_of s)
            then Inl (ConfigurationError (context @ '' must be an absolute path''))
          else Inr (path_of s)
      | _ \<Rightarrow> Inl (ConfigurationError (context @ '' must be a non-empty path'')))"

definition parse_server :: "pydict \<Rightarrow> config_error + server_settings" where
  "parse_server doc =
     bind_err (mapping_of (dget doc ''server'') ''server'') (\<lambda>section.
     bind_err (only_keys section [''listen'', ''port''] ''server'') (\<lambda>_.
       case dget_or section ''listen'' (PStr ''0.0.0.0'') of
         PStr listen \<Rightarrow>
           if py_strip listen = [] \<or> length listen > 255
           then Inl (ConfigurationError ''server.listen is invalid'')
           else
             (case dget_or section ''port'' (PInt 18080) of
                PInt port \<Rightarrow>
                  if 1 \<le> port \<and> port \<le> 65535
                  then Inr \<lparr>srv_listen = py_strip listen, srv_port = port\<rparr>
                  else Inl (ConfigurationError ''server.port must be between 1 and 65535'')
              | _ \<Rightarrow> Inl (ConfigurationError ''server.port must be between 1 and 65535''))
       | _ \<Rightarrow> Inl (ConfigurationError ''server.listen is invalid'')))"

definition parse_storage :: "pydict \<Rightarrow> config_error + path" where
  "parse_storage doc =
     bind_err (mapping_of (dget doc ''storage'') ''storage'') (\<lambda>section.
     bind_err (only_keys section [''database''] ''storage'') (\<lambda>_.
       absolute_path (dget section ''database'') default_database ''storage.database''))"

definition parse_secrets :: "pydict \<Rightarrow> config_error + secret_settings" where
  "parse_secrets doc =
     bind_err (mapping_of (dget doc ''secrets'') ''secrets'') (\<lambda>section.
     bind_err (only_keys section
       [''master_key_file'', ''api_token_file'', ''admin_password_file''] ''secrets'') (\<lambda>_.
     bind_err (absolute_path (dget section ''master_key_file'') (scr_master_key_file default_secrets)
       ''secrets.master_key_file'') (\<lambda>master.
     bind_err (absolute_path (dget section ''api_token_file'') (scr_api_token_file default_secrets)
       ''secrets.api_token_file'') (\<lambda>token.
     bind_err (absolute_path (dget section ''admin_password_file'')
       (scr_admin_password_file default_secrets) ''secrets.admin_password_file'') (\<lambda>password.
       Inr \<lparr>scr_master_key_file = master, scr_api_token_file = token,
            scr_admin_password_file = password,
            scr_explicit = dhas ''master_key_file'' section\<rparr>)))))"

text \<open>\<open>doc.get("version") != 1\<close>: \<open>True\<close> equals 1 in Python.\<close>

definition version_ok :: "pyval \<Rightarrow> bool" where
  "version_ok v \<longleftrightarrow> v = PInt 1 \<or> v = PBool True"

definition parse_settings :: "pyval \<Rightarrow> config_error + camadmiral_settings" where
  "parse_settings payload =
     (if payload = PNone then Inr default_settings
      else
        bind_err (mapping_of payload ''configuration'') (\<lambda>doc.
          if doc = [] then Inr default_settings
          else
            bind_err (only_keys doc [''version'', ''server'', ''storage'', ''secrets''] ''top-level'') (\<lambda>_.
              if \<not> version_ok (dget doc ''version'')
              then Inl (ConfigurationError ''Configuration version must be 1'')
              else
                bind_err (parse_server doc) (\<lambda>server.
                bind_err (parse_storage doc) (\<lambda>database.
                bind_err (parse_secrets doc) (\<lambda>secrets.
                  Inr \<lparr>cfg_version = 1, cfg_server = server, cfg_database = database,
                       cfg_secrets = secrets\<rparr>))))))"

subsection \<open>Secret files\<close>

datatype content = Missing | Unreadable | Bytes string

type_synonym files = "path \<Rightarrow> content"

datatype secret_error = SecretConfigurationError string

definition byte_space :: "char \<Rightarrow> bool" where
  "byte_space c = (let n = of_char c :: nat in 9 \<le> n \<and> n \<le> 13 \<or> n = 32)"

definition bytes_strip :: "string \<Rightarrow> string" where
  "bytes_strip s = rev (dropWhile byte_space (rev (dropWhile byte_space s)))"

definition read_secret_file :: "files \<Rightarrow> path \<Rightarrow> bool \<Rightarrow> secret_error + string option" where
  "read_secret_file fs p required =
     (case fs p of
        Missing \<Rightarrow>
          if \<not> required then Inr None
          else Inl (SecretConfigurationError ''Configured secret file does not exist'')
      | Unreadable \<Rightarrow> Inl (SecretConfigurationError ''Cannot read configured secret file'')
      | Bytes b \<Rightarrow>
          (let v = bytes_strip b
           in if v = [] then Inl (SecretConfigurationError ''Configured secret file is empty'')
              else Inr (Some v)))"

subsection \<open>What parsing accepts\<close>

definition settings_ok :: "camadmiral_settings \<Rightarrow> bool" where
  "settings_ok s \<longleftrightarrow>
     cfg_version s = 1 \<and> 1 \<le> srv_port (cfg_server s) \<and> srv_port (cfg_server s) \<le> 65535 \<and>
     srv_listen (cfg_server s) \<noteq> [] \<and> length (srv_listen (cfg_server s)) \<le> 255 \<and>
     py_strip (srv_listen (cfg_server s)) = srv_listen (cfg_server s) \<and>
     is_absolute (cfg_database s) \<and> is_absolute (inventory_path s) \<and>
     is_absolute (scr_master_key_file (cfg_secrets s)) \<and>
     is_absolute (scr_api_token_file (cfg_secrets s)) \<and>
     is_absolute (scr_admin_password_file (cfg_secrets s))"

lemma default_paths:
  "is_absolute default_database" "is_absolute (scr_master_key_file default_secrets)"
  "is_absolute (scr_api_token_file default_secrets)" "is_absolute (scr_admin_password_file default_secrets)"
  by (simp_all add: default_database_def default_secrets_def is_absolute_def path_of_def startswith_def)

lemma only_keys_ok: "only_keys m allowed context = Inr u \<longleftrightarrow> fst ` set m \<subseteq> set allowed"
proof -
  have "sort (filter (\<lambda>k. k \<notin> set allowed) (map fst m)) = [] \<longleftrightarrow> fst ` set m \<subseteq> set allowed"
    by (metis (no_types, lifting) filter_empty_conv list.set_map set_empty set_sort subset_code(1))
  then show ?thesis by (cases "sort (filter (\<lambda>k. k \<notin> set allowed) (map fst m))") (simp_all add: only_keys_def)
qed

lemma absolute_path_ok: "absolute_path v p context = Inr q \<Longrightarrow> is_absolute p \<Longrightarrow> is_absolute q"
  by (auto simp: absolute_path_def split: pyval.splits if_splits)

lemma length_strip: "length (py_strip s) \<le> length s"
proof -
  have "length (py_strip s) \<le> length (dropWhile py_space s)"
    using length_dropWhile_le [of py_space "rev (dropWhile py_space s)"]
    by (simp add: py_strip_def py_rstrip_def py_lstrip_def)
  then show ?thesis using length_dropWhile_le [of py_space s] by linarith
qed

lemma parse_server_ok:
  assumes "parse_server doc = Inr s"
  shows "1 \<le> srv_port s \<and> srv_port s \<le> 65535 \<and> srv_listen s \<noteq> [] \<and> length (srv_listen s) \<le> 255 \<and>
    py_strip (srv_listen s) = srv_listen s"
proof -
  from assms obtain x where x: "mapping_of (dget doc ''server'') ''server'' = Inr x"
    by (auto simp: parse_server_def)
  let ?listen = "dget_or x ''listen'' (PStr ''0.0.0.0'')"
  let ?port = "dget_or x ''port'' (PInt 18080)"
  obtain l where l: "?listen = PStr l"
    using assms x by (cases ?listen) (auto simp: parse_server_def)
  then obtain p where p: "?port = PInt p"
    using assms x by (cases ?port) (auto simp: parse_server_def split: if_splits)
  show ?thesis
    using assms x l p le_trans [OF length_strip, of l]
    by (auto simp: parse_server_def split: if_splits)
qed

lemma is_absolute_join [simp]: "is_absolute (path_join (path_parent p) names) = is_absolute p"
  by (simp add: is_absolute_def path_join_def path_parent_def)

lemma default_settings_ok: "settings_ok default_settings"
  using default_paths
  by (simp add: settings_ok_def default_settings_def default_server_def inventory_path_def
      py_strip_def py_rstrip_def py_lstrip_def py_space_def)

lemma parse_secrets_ok:
  "parse_secrets doc = Inr s \<Longrightarrow>
   is_absolute (scr_master_key_file s) \<and> is_absolute (scr_api_token_file s) \<and>
   is_absolute (scr_admin_password_file s) \<and>
   scr_explicit s = dhas ''master_key_file'' (dsub doc ''secrets'')"
  by (auto simp: parse_secrets_def mapping_of_def dsub_def dhas_def split: pyval.splits
      intro: absolute_path_ok default_paths)

lemma parse_storage_ok: "parse_storage doc = Inr p \<Longrightarrow> is_absolute p"
  by (auto simp: parse_storage_def intro: absolute_path_ok default_paths)

text \<open>
  C40: Whatever document is parsed, accepted settings are usable: the port is in range, the listen
  address is stripped, not empty and at most 255 characters, and every path is absolute. A
  document that is not empty is accepted only if it is a mapping with known keys and version 1, and the
  master key file counts as explicit exactly when the document names it.
\<close>

theorem accepted_settings_usable:
  assumes "parse_settings payload = Inr s"
  shows "settings_ok s \<and>
    (payload = PNone \<or> payload = PDict [] \<or>
     (\<exists>doc. payload = PDict doc \<and>
        fst ` set doc \<subseteq> {''version'', ''server'', ''storage'', ''secrets''} \<and>
        version_ok (dget doc ''version'') \<and>
        (scr_explicit (cfg_secrets s) \<longleftrightarrow> dhas ''master_key_file'' (dsub doc ''secrets''))))"
proof (cases payload)
  case (PDict doc)
  show ?thesis
  proof (cases "doc = []")
    case True
    then have "s = default_settings" using assms PDict by (simp add: parse_settings_def mapping_of_def)
    then show ?thesis using default_settings_ok True PDict by simp
  next
    case False
    then obtain server database secrets where p: "parse_server doc = Inr server"
      "parse_storage doc = Inr database" "parse_secrets doc = Inr secrets"
      and s: "s = \<lparr>cfg_version = 1, cfg_server = server, cfg_database = database, cfg_secrets = secrets\<rparr>"
      and keys: "fst ` set doc \<subseteq> {''version'', ''server'', ''storage'', ''secrets''}"
      "version_ok (dget doc ''version'')"
      using assms PDict by (auto simp: parse_settings_def mapping_of_def only_keys_ok split: if_splits)
    have "settings_ok s"
      using parse_server_ok [OF p(1)] parse_storage_ok [OF p(2)] parse_secrets_ok [OF p(3)]
      by (simp add: settings_ok_def s inventory_path_def)
    then show ?thesis using parse_secrets_ok [OF p(3)] keys PDict s by simp
  qed
next
  case PNone
  then show ?thesis using assms default_settings_ok by (simp add: parse_settings_def)
qed (use assms in \<open>simp_all add: parse_settings_def mapping_of_def\<close>)

definition demo_config :: pyval where
  "demo_config = PDict [(''version'', PInt 1), (''server'', PDict [(''port'', PInt 8443)]),
     (''storage'', PDict [(''database'', PStr ''/data/cam.db'')])]"

theorem accepted_settings_usable_witness:
  "\<exists>s. parse_settings demo_config = Inr s \<and> srv_port (cfg_server s) = 8443 \<and> settings_ok s"
proof -
  have "\<exists>s. parse_settings demo_config = Inr s \<and> srv_port (cfg_server s) = 8443"
    by (simp add: demo_config_def parse_settings_def mapping_of_def only_keys_def parse_server_def dget_def
        dget_or_def version_ok_def parse_storage_def absolute_path_def parse_secrets_def is_absolute_def
        path_of_def startswith_def py_strip_def py_rstrip_def py_lstrip_def py_space_def bind_err_def)
  then show ?thesis using accepted_settings_usable [THEN conjunct1] by blast
qed

end
