(* ===== verification/Base64.thy ===== *)
theory Base64
  imports PyValue
begin

text \<open>
  Base 64 as Python's \<open>base64\<close> does it, on byte strings (a \<open>char\<close> is a byte):
  \<open>b64encode\<close>, and \<open>binascii.a2b_base64\<close>, lenient (bytes outside the alphabet are skipped)
  and strict (\<open>validate=True\<close>). Used by camadmiral/auth.py for the Authorization header and by
  camadmiral/crypto.py for the key file, which uses the URL-safe alphabet.
\<close>

abbreviation byte_of :: "char \<Rightarrow> nat" where
  "byte_of c \<equiv> of_char c"

definition b64_char :: "nat \<Rightarrow> char" where
  "b64_char n =
     (if n < 26 then char_of (65 + n) else if n < 52 then char_of (71 + n)
      else if n < 62 then char_of (n - 4) else if n = 62 then CHR ''+'' else CHR ''/'')"

definition b64_val :: "char \<Rightarrow> nat option" where
  "b64_val c =
     (let n = byte_of c in
      if 65 \<le> n \<and> n \<le> 90 then Some (n - 65) else if 97 \<le> n \<and> n \<le> 122 then Some (n - 71)
      else if 48 \<le> n \<and> n \<le> 57 then Some (n + 4) else if c = CHR ''+'' then Some 62
      else if c = CHR ''/'' then Some 63 else None)"

fun b64_encode :: "string \<Rightarrow> string" where
  "b64_encode [] = []"
| "b64_encode [a] =
     [b64_char (byte_of a div 4), b64_char (byte_of a mod 4 * 16), CHR ''='', CHR ''='']"
| "b64_encode [a, b] =
     [b64_char (byte_of a div 4), b64_char (byte_of a mod 4 * 16 + byte_of b div 16),
      b64_char (byte_of b mod 16 * 4), CHR ''='']"
| "b64_encode (a # b # c # r) =
     b64_char (byte_of a div 4) # b64_char (byte_of a mod 4 * 16 + byte_of b div 16) #
     b64_char (byte_of b mod 16 * 4 + byte_of c div 64) # b64_char (byte_of c mod 64) # b64_encode r"

text \<open>
  The loop of \<open>a2b_base64\<close>: position in the quad, the bits left over, the pads seen since the last
  data character, and whether any padding was seen.
\<close>

fun b64_loop :: "bool \<Rightarrow> nat \<Rightarrow> nat \<Rightarrow> nat \<Rightarrow> bool \<Rightarrow> string \<Rightarrow> string option" where
  "b64_loop strict quad left pads started [] = (if quad \<noteq> 0 then None else Some [])"
| "b64_loop strict quad left pads started (c # cs) =
     (if c = CHR ''='' then
        if strict \<and> quad = 0 then None
        else if 2 \<le> quad then
          if 4 \<le> quad + Suc pads then (if strict \<and> cs \<noteq> [] then None else Some [])
          else b64_loop strict quad left (Suc pads) True cs
        else b64_loop strict quad left pads True cs
      else
        case b64_val c of
          None \<Rightarrow> if strict then None else b64_loop strict quad left pads started cs
        | Some v \<Rightarrow>
            if strict \<and> started then None
            else if quad = 0 then b64_loop strict 1 v 0 started cs
            else if quad = 1 then
              map_option ((#) (char_of (left * 4 + v div 16))) (b64_loop strict 2 (v mod 16) 0 started cs)
            else if quad = 2 then
              map_option ((#) (char_of (left * 16 + v div 4))) (b64_loop strict 3 (v mod 4) 0 started cs)
            else
              map_option ((#) (char_of (left * 64 + v))) (b64_loop strict 0 0 0 started cs))"

definition b64_decode :: "bool \<Rightarrow> string \<Rightarrow> string option" where
  "b64_decode validate s = b64_loop validate 0 0 0 False s"

definition to_urlsafe :: "char \<Rightarrow> char" where
  "to_urlsafe c = (if c = CHR ''+'' then CHR ''-'' else if c = CHR ''/'' then CHR ''_'' else c)"

definition of_urlsafe :: "char \<Rightarrow> char" where
  "of_urlsafe c = (if c = CHR ''-'' then CHR ''+'' else if c = CHR ''_'' then CHR ''/'' else c)"

definition urlsafe_b64encode :: "string \<Rightarrow> string" where
  "urlsafe_b64encode s = map to_urlsafe (b64_encode s)"

definition urlsafe_b64decode :: "string \<Rightarrow> string option" where
  "urlsafe_b64decode s = b64_decode False (map of_urlsafe s)"

subsection \<open>Round trip\<close>

lemma b64_val_char [simp]:
  assumes "n < 64"
  shows "b64_val (b64_char n) = Some n"
proof -
  consider "n < 26" | "26 \<le> n" "n < 52" | "52 \<le> n" "n < 62" | "n = 62" | "n = 63"
    using assms by linarith
  then show ?thesis by cases (auto simp: b64_val_def b64_char_def Let_def)
qed

lemma b64_val_others:
  "b64_val CHR ''='' = None" "b64_val CHR ''-'' = None" "b64_val CHR ''_'' = None"
  by (simp_all add: b64_val_def)

lemma b64_val_space: "py_space c \<Longrightarrow> b64_val c = None"
  by (auto simp: py_space_def b64_val_def Let_def)

lemma b64_char_pad [simp]: "n < 64 \<Longrightarrow> b64_char n \<noteq> CHR ''=''"
  and b64_char_safe [simp]: "n < 64 \<Longrightarrow> b64_char n \<noteq> CHR ''-'' \<and> b64_char n \<noteq> CHR ''_''"
  and b64_char_space [simp]: "n < 64 \<Longrightarrow> \<not> py_space (b64_char n)"
  using b64_val_char [of n] b64_val_others b64_val_space by (metis option.discI)+

lemma byte_lt [simp]: "byte_of c < 256"
  by (metis of_char_mod_256 mod_less_divisor zero_less_numeral)

lemma char_of_byte: "n = byte_of c \<Longrightarrow> char_of n = c"
  by simp

lemma div_small: "x < 256 \<Longrightarrow> x div 4 < 64" "x < 256 \<Longrightarrow> x div 16 < 16" "x < 256 \<Longrightarrow> x div 64 < 4"
  for x :: nat
  by (simp_all add: div_less_iff_less_mult)

lemma mul_small: "(x :: nat) mod 4 * 16 \<le> 48" "(x :: nat) mod 16 * 4 \<le> 60"
  using mod_less_divisor [of 4 x] mod_less_divisor [of 16 x] by linarith+

lemma byte_parts:
  "byte_of c div 4 < 64" "byte_of c mod 4 * 16 + byte_of b div 16 < 64"
  "byte_of c mod 16 * 4 + byte_of b div 64 < 64" "byte_of c mod 4 * 16 < 64" "byte_of c mod 16 * 4 < 64"
  using div_small [OF byte_lt [of c]] div_small [OF byte_lt [of b]]
    mul_small [of "byte_of c"] by linarith+

lemma join_split:
  assumes "b < m"
  shows "(a * m + b) div m = a" "(a * m + b) mod m = (b :: nat)"
  using assms by simp_all

lemma sextets:
  "y < 256 \<Longrightarrow> (x :: nat) div 4 * 4 + (x mod 4 * 16 + y div 16) div 16 = x"
  "y < 256 \<Longrightarrow> (x mod 4 * 16 + y div 16) mod 16 = y div 16"
  "z < 256 \<Longrightarrow> (y :: nat) div 16 * 16 + (y mod 16 * 4 + z div 64) div 4 = y"
  "z < 256 \<Longrightarrow> (y mod 16 * 4 + z div 64) mod 4 = z div 64"
  by (simp_all only: join_split [OF div_small(2)] join_split [OF div_small(3)] div_mult_mod_eq)

lemma step_first: "v < 64 \<Longrightarrow>
    b64_loop strict 0 left pads False (b64_char v # cs) = b64_loop strict 1 v 0 False cs"
  and step_second: "v < 64 \<Longrightarrow> b64_loop strict 1 left pads False (b64_char v # cs) =
    map_option ((#) (char_of (left * 4 + v div 16))) (b64_loop strict 2 (v mod 16) 0 False cs)"
  and step_third: "v < 64 \<Longrightarrow> b64_loop strict 2 left pads False (b64_char v # cs) =
    map_option ((#) (char_of (left * 16 + v div 4))) (b64_loop strict 3 (v mod 4) 0 False cs)"
  and step_fourth: "v < 64 \<Longrightarrow> b64_loop strict 3 left pads False (b64_char v # cs) =
    map_option ((#) (char_of (left * 64 + v))) (b64_loop strict 0 0 0 False cs)"
  by simp_all

lemma b64_loop_encode: "b64_loop strict 0 0 0 False (b64_encode bs) = Some bs"
proof (induction bs rule: b64_encode.induct)
  case 1
  then show ?case by simp
next
  case (2 a)
  have v: "byte_of a div 4 * 4 + byte_of a mod 4 * 16 div 16 = byte_of a"
    by (simp only: nonzero_mult_div_cancel_right div_mult_mod_eq)
  show ?case
    unfolding b64_encode.simps step_first [OF byte_parts(1)] step_second [OF byte_parts(4)] v
    by simp
next
  case (3 a b)
  have v: "byte_of b div 16 * 16 + byte_of b mod 16 * 4 div 4 = byte_of b"
    by (simp only: nonzero_mult_div_cancel_right div_mult_mod_eq)
  show ?case
    unfolding b64_encode.simps step_first [OF byte_parts(1)] step_second [OF byte_parts(2)]
      step_third [OF byte_parts(5)] sextets(1) [OF byte_lt] sextets(2) [OF byte_lt] v
    by simp
next
  case (4 a b c r)
  have v: "byte_of c div 64 * 64 + byte_of c mod 64 = byte_of c"
    by (rule div_mult_mod_eq)
  have last: "byte_of c mod 64 < 64" by simp
  show ?case
    unfolding b64_encode.simps step_first [OF byte_parts(1)] step_second [OF byte_parts(2)]
      step_third [OF byte_parts(3)] step_fourth [OF last]
      sextets(1,2) [OF byte_lt] sextets(3,4) [OF byte_lt] v
    using 4 by simp
qed

lemma b64_decode_encode [simp]: "b64_decode validate (b64_encode s) = Some s"
  by (simp add: b64_decode_def b64_loop_encode)

definition in_alphabet :: "char \<Rightarrow> bool" where
  "in_alphabet x \<longleftrightarrow> x = CHR ''='' \<or> (\<exists>n < 64. x = b64_char n)"

lemma in_alphabetI: "n < 64 \<Longrightarrow> in_alphabet (b64_char n)" and in_alphabet_pad: "in_alphabet CHR ''=''"
  by (auto simp: in_alphabet_def)

lemma b64_encode_set: "list_all in_alphabet (b64_encode s)"
proof (induction s rule: b64_encode.induct)
  case (4 a b c r)
  have "byte_of c mod 64 < 64" by simp
  with 4 byte_parts show ?case by (simp only: b64_encode.simps list.pred_inject in_alphabetI simp_thms)
qed (simp_all only: b64_encode.simps list.pred_inject in_alphabetI in_alphabet_pad byte_parts simp_thms)

lemma urlsafe_round_trip: "urlsafe_b64decode (urlsafe_b64encode s) = Some s"
proof -
  have char: "of_urlsafe (to_urlsafe (b64_char n)) = b64_char n" if "n < 64" for n
    using that by (simp add: of_urlsafe_def to_urlsafe_def)
  have "of_urlsafe (to_urlsafe x) = x" if "x \<in> set (b64_encode s)" for x
  proof -
    have "x = CHR ''='' \<or> (\<exists>n < 64. x = b64_char n)"
      using b64_encode_set [of s] that unfolding list_all_iff in_alphabet_def by blast
    then show ?thesis using char by (auto simp: of_urlsafe_def to_urlsafe_def)
  qed
  then have "map of_urlsafe (map to_urlsafe (b64_encode s)) = b64_encode s"
    by (simp add: comp_def map_idI)
  then show ?thesis by (simp add: urlsafe_b64decode_def urlsafe_b64encode_def del: map_map)
qed

end
