(* ===== verification/Crypto.thy ===== *)
theory Crypto
  imports Config Base64
begin

text \<open>
  camadmiral/crypto.py: the master key and the sealing of stored passwords. AES-GCM is not code of
  the repository: it is the parameter \<open>aead\<close>, and \<open>aead_ok\<close> is its documented contract: opening
  what was sealed under the same key, nonce and associated data gives the plaintext, nothing else
  opens, and the ciphertext is 16 bytes longer than the plaintext. \<open>os.urandom\<close> is an argument.
\<close>

record aead =
  seal :: "string \<Rightarrow> string \<Rightarrow> string \<Rightarrow> string \<Rightarrow> string"
  unseal :: "string \<Rightarrow> string \<Rightarrow> string \<Rightarrow> string \<Rightarrow> string option"

definition aead_ok :: "aead \<Rightarrow> bool" where
  "aead_ok a \<longleftrightarrow>
     (\<forall>key nonce aad plaintext. length (seal a key nonce plaintext aad) = length plaintext + 16) \<and>
     (\<forall>key nonce aad plaintext ciphertext.
        unseal a key nonce ciphertext aad = Some plaintext \<longleftrightarrow> ciphertext = seal a key nonce plaintext aad)"

subsection \<open>Sealing passwords\<close>

text \<open>UTF-8 of the code points below 256; decoding anything else is outside the model and an error here.\<close>

fun utf8_encode :: "string \<Rightarrow> string" where
  "utf8_encode [] = []"
| "utf8_encode (c # r) =
     (if byte_of c < 128 then c # utf8_encode r
      else char_of (192 + byte_of c div 64) # char_of (128 + byte_of c mod 64) # utf8_encode r)"

fun utf8_decode :: "string \<Rightarrow> string option" where
  "utf8_decode [] = Some []"
| "utf8_decode [c] = (if byte_of c < 128 then Some [c] else None)"
| "utf8_decode (c # d # r) =
     (if byte_of c < 128 then map_option ((#) c) (utf8_decode (d # r))
      else if (byte_of c = 194 \<or> byte_of c = 195) \<and> 128 \<le> byte_of d \<and> byte_of d \<le> 191
        then map_option ((#) (char_of ((byte_of c - 192) * 64 + (byte_of d - 128)))) (utf8_decode r)
      else None)"

datatype crypto_error = UnsupportedFormat | InvalidTag | UndecodableText

definition encrypt_password :: "aead \<Rightarrow> string \<Rightarrow> string \<Rightarrow> string \<Rightarrow> string \<Rightarrow> string" where
  "encrypt_password a nonce password credential_uuid key =
     CHR 0x01 # nonce @ seal a key nonce (utf8_encode password) (utf8_encode credential_uuid)"

definition decrypt_password :: "aead \<Rightarrow> string \<Rightarrow> string \<Rightarrow> string \<Rightarrow> crypto_error + string" where
  "decrypt_password a payload credential_uuid key =
     (if length payload < 29 \<or> hd payload \<noteq> CHR 0x01 then Inl UnsupportedFormat
      else
        case unseal a key (take 12 (drop 1 payload)) (drop 13 payload) (utf8_encode credential_uuid) of
          None \<Rightarrow> Inl InvalidTag
        | Some plaintext \<Rightarrow>
            (case utf8_decode plaintext of None \<Rightarrow> Inl UndecodableText | Some s \<Rightarrow> Inr s))"

lemma utf8_two_bytes:
  assumes "128 \<le> byte_of c"
  shows "byte_of (char_of (192 + byte_of c div 64) :: char) = 192 + byte_of c div 64"
    "byte_of (char_of (128 + byte_of c mod 64) :: char) = 128 + byte_of c mod 64"
    "192 + byte_of c div 64 = 194 \<or> 192 + byte_of c div 64 = 195"
proof -
  have "2 * 64 div 64 \<le> byte_of c div 64" using div_le_mono [OF assms, of 64] by simp
  moreover have "byte_of c div 64 < 4" using div_small(3) [OF byte_lt [of c]] .
  ultimately show "192 + byte_of c div 64 = 194 \<or> 192 + byte_of c div 64 = 195" by linarith
  show "byte_of (char_of (192 + byte_of c div 64) :: char) = 192 + byte_of c div 64"
    using \<open>byte_of c div 64 < 4\<close> by simp
  have "byte_of c mod 64 < 64" by simp
  then show "byte_of (char_of (128 + byte_of c mod 64) :: char) = 128 + byte_of c mod 64"
    by (simp del: mod_less_divisor)
qed

lemma utf8_decode_ascii: "byte_of c < 128 \<Longrightarrow> utf8_decode (c # r) = map_option ((#) c) (utf8_decode r)"
  by (cases r) auto

lemma utf8_round_trip: "utf8_decode (utf8_encode s) = Some s"
proof (induction s)
  case (Cons c s)
  show ?case
  proof (cases "byte_of c < 128")
    case True
    with Cons show ?thesis by (simp add: utf8_decode_ascii)
  next
    case False
    then have "128 \<le> byte_of c" by simp
    note two = utf8_two_bytes [OF this]
    have "byte_of c mod 64 < 64" by simp
    moreover have "(192 + byte_of c div 64 - 192) * 64 + (128 + byte_of c mod 64 - 128) = byte_of c" by simp
    ultimately show ?thesis using False Cons two
      by (simp only: utf8_encode.simps utf8_decode.simps if_False) auto
  qed
qed simp

lemma utf8_encode_decode: "utf8_decode b = Some s \<Longrightarrow> utf8_encode s = b"
proof (induction b arbitrary: s rule: utf8_decode.induct)
  case (3 c d r)
  show ?case
  proof (cases "byte_of c < 128")
    case True
    with 3 show ?thesis by auto
  next
    case False
    then have cd: "byte_of c = 194 \<or> byte_of c = 195" "128 \<le> byte_of d" "byte_of d \<le> 191"
      and "map_option ((#) (char_of ((byte_of c - 192) * 64 + (byte_of d - 128)))) (utf8_decode r) = Some s"
      using 3(3) by (auto split: if_splits)
    then obtain t where t: "utf8_decode r = Some t"
      "s = char_of ((byte_of c - 192) * 64 + (byte_of d - 128)) # t" by auto
    let ?n = "(byte_of c - 192) * 64 + (byte_of d - 128)"
    have "byte_of d - 128 < 64" using cd by linarith
    note parts = join_split [OF this, of "byte_of c - 192"]
    have n: "?n < 256" "128 \<le> ?n" using cd by auto
    then have "char_of (192 + ?n div 64) = c" "char_of (128 + ?n mod 64) = d"
      unfolding parts using cd by auto
    moreover have "utf8_encode t = r" using 3(2) [OF False _ t(1)] cd by auto
    ultimately show ?thesis using n t(2) by simp
  qed
qed (auto split: if_splits)

text \<open>
  C37: A payload decrypts to a password under a credential's UUID and a key exactly when it is what
  encrypting that password under the same UUID and key gives for some 12-byte nonce: what was stored
  is read back, and no payload that was not sealed that way yields a password.
\<close>

theorem decrypt_iff_encrypted:
  assumes "aead_ok a"
  shows "decrypt_password a payload u key = Inr password \<longleftrightarrow>
    (\<exists>nonce. length nonce = 12 \<and> payload = encrypt_password a nonce password u key)"
proof
  assume "decrypt_password a payload u key = Inr password"
  then obtain plain where len: "29 \<le> length payload" "hd payload = CHR 0x01"
    and open_it: "unseal a key (take 12 (drop 1 payload)) (drop 13 payload) (utf8_encode u) = Some plain"
    and dec: "utf8_decode plain = Some password"
    by (auto simp: decrypt_password_def split: if_splits option.splits)
  have "drop 13 payload = seal a key (take 12 (drop 1 payload)) (utf8_encode password) (utf8_encode u)"
    using assms open_it utf8_encode_decode [OF dec] by (auto simp: aead_ok_def)
  moreover have "payload = CHR 0x01 # take 12 (drop 1 payload) @ drop 13 payload"
    using len by (cases payload) auto
  ultimately show "\<exists>nonce. length nonce = 12 \<and> payload = encrypt_password a nonce password u key"
    using len(1) by (intro exI [of _ "take 12 (drop 1 payload)"]) (simp add: encrypt_password_def)
next
  assume "\<exists>nonce. length nonce = 12 \<and> payload = encrypt_password a nonce password u key"
  then obtain nonce where n: "length nonce = 12" "payload = encrypt_password a nonce password u key" by blast
  then have "13 + (length (utf8_encode password) + 16) = length payload"
    using assms by (simp add: encrypt_password_def aead_ok_def)
  moreover have "unseal a key nonce (seal a key nonce (utf8_encode password) (utf8_encode u)) (utf8_encode u) =
      Some (utf8_encode password)"
    using assms by (simp add: aead_ok_def)
  ultimately show "decrypt_password a payload u key = Inr password"
    using n utf8_round_trip [of password]
    by (simp add: decrypt_password_def encrypt_password_def)
qed

text \<open>A cipher for the witnesses that keeps the contract: a constant tag of 16 characters.\<close>

definition demo_seal :: "string \<Rightarrow> string \<Rightarrow> string \<Rightarrow> string \<Rightarrow> string" where
  "demo_seal key nonce plaintext aad = plaintext @ replicate 16 CHR ''#''"

definition demo_aead :: aead where
  "demo_aead = \<lparr>seal = demo_seal,
     unseal = (\<lambda>key nonce ciphertext aad.
       if 16 \<le> length ciphertext \<and> drop (length ciphertext - 16) ciphertext = replicate 16 CHR ''#''
       then Some (take (length ciphertext - 16) ciphertext) else None)\<rparr>"

lemma demo_aead_ok: "aead_ok demo_aead"
proof -
  have "c = p @ replicate 16 CHR ''#''"
    if "16 \<le> length c" "drop (length c - 16) c = replicate 16 CHR ''#''" "take (length c - 16) c = p" for c p
    using that append_take_drop_id [of "length c - 16" c] by simp
  then show ?thesis by (auto simp: aead_ok_def demo_aead_def demo_seal_def)
qed

theorem decrypt_iff_encrypted_witness:
  "decrypt_password demo_aead (encrypt_password demo_aead ''nonce-nonce-'' ''pw'' ''u1'' ''k'') ''u1'' ''k'' = Inr ''pw''"
  unfolding decrypt_iff_encrypted [OF demo_aead_ok] by (intro exI [of _ "''nonce-nonce-''"]) simp

subsection \<open>The master key\<close>

text \<open>\<open>bytes.fromhex\<close>: white space may stand between the pairs of digits.\<close>

definition hex_val :: "char \<Rightarrow> nat option" where
  "hex_val c =
     (let n = byte_of c in
      if 48 \<le> n \<and> n \<le> 57 then Some (n - 48) else if 97 \<le> n \<and> n \<le> 102 then Some (n - 87)
      else if 65 \<le> n \<and> n \<le> 70 then Some (n - 55) else None)"

fun bytes_fromhex :: "string \<Rightarrow> string option" where
  "bytes_fromhex [] = Some []"
| "bytes_fromhex [c] = (if byte_space c then Some [] else None)"
| "bytes_fromhex (c # d # r) =
     (if byte_space c then bytes_fromhex (d # r)
      else
        case (hex_val c, hex_val d) of
          (Some h, Some l) \<Rightarrow> map_option ((#) (char_of (16 * h + l))) (bytes_fromhex r)
        | _ \<Rightarrow> None)"

fun first_of_length :: "nat \<Rightarrow> string option list \<Rightarrow> string option" where
  "first_of_length n [] = None"
| "first_of_length n (x # xs) =
     (case x of Some b \<Rightarrow> if length b = n then Some b else first_of_length n xs
      | None \<Rightarrow> first_of_length n xs)"

definition decoded_key :: "string \<Rightarrow> secret_error + string" where
  "decoded_key value =
     (if length value = 32 then Inr value
      else if \<not> list_all (\<lambda>c. byte_of c < 128) value
        then Inl (SecretConfigurationError ''CamAdmiral master key has an invalid format'')
      else
        let candidates = [value] @
              (if length value mod 4 \<noteq> 0 then [value @ replicate (4 - length value mod 4) CHR ''='']
               else [])
        in case first_of_length 32 (map urlsafe_b64decode candidates @ [bytes_fromhex value]) of
             Some key \<Rightarrow> Inr key
           | None \<Rightarrow> Inl (SecretConfigurationError
               ''CamAdmiral master key must contain exactly 32 random bytes''))"

definition generated_key_path :: "path \<Rightarrow> path" where
  "generated_key_path database = path_join (path_parent database) [''secrets'', ''master-key'']"

definition key_file :: "string \<Rightarrow> string" where
  "key_file key = urlsafe_b64encode key @ [CHR 0x0A]"

text \<open>
  \<open>O_EXCL\<close> refuses to create a file that exists; the key in that file is then used.
  \<open>writable\<close> says whether the directory can be made and the file written.
\<close>

definition generate_master_key ::
  "path \<Rightarrow> string \<Rightarrow> (path \<Rightarrow> bool) \<Rightarrow> files \<Rightarrow> (secret_error + string) \<times> files" where
  "generate_master_key p key writable fs =
     (if fs p \<noteq> Missing then
        (case read_secret_file fs p True of
           Inr (Some value) \<Rightarrow> (decoded_key value, fs)
         | Inr None \<Rightarrow> (Inl (SecretConfigurationError ''Configured secret file is empty''), fs)
         | Inl e \<Rightarrow> (Inl e, fs))
      else if \<not> writable p
        then (Inl (SecretConfigurationError ''Cannot create persistent CamAdmiral master key''), fs)
      else (Inr key, fs(p := Bytes (key_file key))))"

definition load_master_key ::
  "camadmiral_settings \<Rightarrow> string \<Rightarrow> (path \<Rightarrow> bool) \<Rightarrow> files \<Rightarrow> (secret_error + string) \<times> files" where
  "load_master_key cfg random writable fs =
     (case read_secret_file fs (scr_master_key_file (cfg_secrets cfg)) (scr_explicit (cfg_secrets cfg)) of
        Inl e \<Rightarrow> (Inl e, fs)
      | Inr (Some mounted) \<Rightarrow> (decoded_key mounted, fs)
      | Inr None \<Rightarrow>
          (let generated = generated_key_path (cfg_database cfg) in
           case read_secret_file fs generated False of
             Inl e \<Rightarrow> (Inl e, fs)
           | Inr (Some value) \<Rightarrow> (decoded_key value, fs)
           | Inr None \<Rightarrow>
               if fs (cfg_database cfg) \<noteq> Missing
               then (Inl (SecretConfigurationError
                 ''CamAdmiral master key is missing for the existing database''), fs)
               else generate_master_key generated random writable fs))"

lemma byte_space_newline: "byte_space CHR 0x0A"
  by (simp add: byte_space_def)

lemma urlsafe_safe:
  assumes "x \<in> set (urlsafe_b64encode s)"
  shows "\<not> byte_space x \<and> byte_of x < 128"
proof -
  obtain y where y: "y \<in> set (b64_encode s)" "x = to_urlsafe y"
    using assms by (auto simp: urlsafe_b64encode_def)
  have "in_alphabet y" using b64_encode_set [of s] y(1) by (simp add: list_all_iff)
  then show ?thesis
  proof (unfold in_alphabet_def, elim disjE exE conjE)
    assume "y = CHR ''=''"
    then show ?thesis using y(2) by (simp add: to_urlsafe_def byte_space_def)
  next
    fix n :: nat assume n: "n < 64" "y = b64_char n"
    then have "\<not> py_space y" by simp
    then have "\<not> byte_space y" by (auto simp: py_space_def byte_space_def Let_def)
    then show ?thesis using n y(2) by (auto simp: to_urlsafe_def byte_space_def b64_char_def)
  qed
qed

lemma b64_encode_length: "length (b64_encode s) = 4 * ((length s + 2) div 3)"
proof (induction s rule: b64_encode.induct)
  case (4 a b c r)
  have "(length (a # b # c # r) + 2) div 3 = (length r + 2) div 3 + 1" by simp
  with 4 show ?case by simp
qed simp_all

lemma strip_key_file: "length key = 32 \<Longrightarrow> bytes_strip (key_file key) = urlsafe_b64encode key"
proof -
  assume "length key = 32"
  let ?e = "urlsafe_b64encode key"
  have nospace: "dropWhile byte_space s = s" if "set s \<subseteq> set ?e" for s
    using that urlsafe_safe by (cases s) auto
  have "length ?e = 44"
    using \<open>length key = 32\<close> by (simp add: urlsafe_b64encode_def b64_encode_length)
  then have "?e \<noteq> []" by auto
  have "dropWhile byte_space (key_file key) = key_file key"
  proof -
    obtain a l where e: "?e = a # l" using \<open>?e \<noteq> []\<close> by (cases ?e) auto
    then have "\<not> byte_space a" using urlsafe_safe [of a key] by simp
    with e show ?thesis by (simp add: key_file_def)
  qed
  then show ?thesis
    using nospace [of "rev ?e"] byte_space_newline by (simp add: bytes_strip_def key_file_def)
qed

lemma decoded_key_file: "length key = 32 \<Longrightarrow> decoded_key (urlsafe_b64encode key) = Inr key"
proof -
  assume len: "length key = 32"
  have "length (urlsafe_b64encode key) = 44"
    using len by (simp add: urlsafe_b64encode_def b64_encode_length)
  moreover have "list_all (\<lambda>c. byte_of c < 128) (urlsafe_b64encode key)"
    using urlsafe_safe by (auto simp: list_all_iff)
  ultimately show ?thesis using len by (simp add: decoded_key_def Let_def urlsafe_round_trip)
qed

lemma read_generated:
  "length key = 32 \<Longrightarrow> fs p = Bytes (key_file key) \<Longrightarrow>
   read_secret_file fs p required = Inr (Some (urlsafe_b64encode key))"
proof -
  assume a: "length key = 32" "fs p = Bytes (key_file key)"
  have "length (urlsafe_b64encode key) = 44"
    using a(1) by (simp add: urlsafe_b64encode_def b64_encode_length)
  then have "urlsafe_b64encode key \<noteq> []" by auto
  then show ?thesis using a by (simp add: read_secret_file_def strip_key_file)
qed

lemma read_missing: "read_secret_file fs p False = Inr None \<longleftrightarrow> fs p = Missing"
  by (auto simp: read_secret_file_def Let_def split: content.splits if_splits)

lemma load_cases:
  assumes "load_master_key cfg random writable fs = (Inr key, fs')"
  obtains (existing) "fs' = fs"
      "\<And>fs'' random' writable'.
         fs'' (scr_master_key_file (cfg_secrets cfg)) = fs (scr_master_key_file (cfg_secrets cfg)) \<Longrightarrow>
         fs'' (generated_key_path (cfg_database cfg)) = fs (generated_key_path (cfg_database cfg)) \<Longrightarrow>
         load_master_key cfg random' writable' fs'' = (Inr key, fs'')"
  | (generated) "key = random" "fs' = fs(generated_key_path (cfg_database cfg) := Bytes (key_file random))"
      "fs (generated_key_path (cfg_database cfg)) = Missing" "fs (cfg_database cfg) = Missing"
      "read_secret_file fs (scr_master_key_file (cfg_secrets cfg)) (scr_explicit (cfg_secrets cfg)) = Inr None"
proof -
  let ?m = "scr_master_key_file (cfg_secrets cfg)"
  let ?x = "scr_explicit (cfg_secrets cfg)"
  let ?g = "generated_key_path (cfg_database cfg)"
  have cong: "fs'' p = fs p \<Longrightarrow> read_secret_file fs'' p r = read_secret_file fs p r" for fs'' p r
    by (simp add: read_secret_file_def)
  show ?thesis
  proof (cases "read_secret_file fs ?m ?x = Inr None \<and> read_secret_file fs ?g False = Inr None")
    case True
    then show ?thesis using assms read_missing [of fs ?g]
      by (intro generated) (auto simp: load_master_key_def generate_master_key_def Let_def split: if_splits)
  next
    case False
    have "fs' = fs" using assms False
      by (auto simp: load_master_key_def Let_def split: sum.splits option.splits)
    moreover have "load_master_key cfg random' writable' fs'' = (Inr key, fs'')"
      if "fs'' ?m = fs ?m" "fs'' ?g = fs ?g" for fs'' random' writable'
      using assms False cong [of fs'' ?m, OF that(1)] cong [of fs'' ?g, OF that(2)]
      by (auto simp: load_master_key_def Let_def split: sum.splits option.splits)
    ultimately show ?thesis by (rule existing)
  qed
qed

text \<open>
  The master key is stable: whatever key one start of the program loads or generates, the next
  start finds the same key and writes nothing, also once the database exists; and no file that
  existed is changed.
\<close>

theorem master_key_stable:
  assumes "load_master_key cfg random writable fs = (Inr key, fs')" and "length random = 32"
    and "cfg_database cfg \<noteq> generated_key_path (cfg_database cfg)"
    and "cfg_database cfg \<noteq> scr_master_key_file (cfg_secrets cfg)"
  shows "(let fs'' = fs'(cfg_database cfg := Bytes db) in
      load_master_key cfg random' writable' fs'' = (Inr key, fs'')) \<and>
    (\<forall>p. fs p \<noteq> Missing \<longrightarrow> fs' p = fs p)"
  using assms(1)
proof (cases rule: load_cases)
  case existing
  then show ?thesis using assms(3,4) by simp
next
  case generated
  let ?g = "generated_key_path (cfg_database cfg)"
  let ?m = "scr_master_key_file (cfg_secrets cfg)"
  let ?f = "fs'(cfg_database cfg := Bytes db)"
  have stored: "?f ?g = Bytes (key_file key)" using assms(3) generated(1,2) by simp
  have len: "length key = 32" using generated(1) assms(2) by simp
  have read: "read_secret_file ?f ?g r = Inr (Some (urlsafe_b64encode key))" for r
    using len stored by (rule read_generated)
  have "load_master_key cfg random' writable' ?f = (Inr key, ?f)"
  proof (cases "?m = ?g")
    case True
    then show ?thesis using read decoded_key_file [OF len] by (simp add: load_master_key_def)
  next
    case False
    then have "?f ?m = fs ?m" using assms(4) generated(2) by auto
    then have "read_secret_file ?f ?m (scr_explicit (cfg_secrets cfg)) = Inr None"
      using generated(5) by (simp add: read_secret_file_def)
    then show ?thesis using read decoded_key_file [OF len] by (simp add: load_master_key_def)
  qed
  then show ?thesis using generated(2,3) by (auto simp: Let_def)
qed

definition demo_key :: string where
  "demo_key = replicate 32 CHR ''k''"

theorem master_key_stable_witness:
  "\<exists>fs'. load_master_key default_settings demo_key (\<lambda>_. True) (\<lambda>_. Missing) = (Inr demo_key, fs') \<and>
     (let fs'' = fs'(default_database := Bytes ''db'') in
      load_master_key default_settings ''other'' (\<lambda>_. False) fs'' = (Inr demo_key, fs''))"
proof -
  let ?fs = "(\<lambda>_. Missing)(generated_key_path default_database := Bytes (key_file demo_key))"
  have load: "load_master_key default_settings demo_key (\<lambda>_. True) (\<lambda>_. Missing) = (Inr demo_key, ?fs)"
    by (simp add: load_master_key_def default_settings_def default_secrets_def read_secret_file_def
        generate_master_key_def)
  have "default_database \<noteq> generated_key_path default_database"
    "default_database \<noteq> scr_master_key_file default_secrets"
    by (simp_all add: default_database_def generated_key_path_def path_of_def path_join_def path_parent_def
        default_secrets_def startswith_def)
  then have "let fs'' = ?fs(default_database := Bytes ''db'') in
      load_master_key default_settings ''other'' (\<lambda>_. False) fs'' = (Inr demo_key, fs'')"
    using master_key_stable [OF load, of "''db''" "''other''" "\<lambda>_. False", THEN conjunct1]
    by (simp add: default_settings_def demo_key_def)
  with load show ?thesis by blast
qed

text \<open>
  A file may hold the raw 32 bytes, but it is stripped first: there is a valid key that is refused when
  it is read from a file, because its last byte is white space.
\<close>

lemma raw_key_with_space_refused:
  "\<exists>key. length key = 32 \<and> decoded_key key = Inr key \<and>
     (\<forall>fs p. fs p = Bytes key \<longrightarrow>
        (\<exists>value. read_secret_file fs p True = Inr (Some value) \<and> length value = 31 \<and>
           decoded_key value = Inl (SecretConfigurationError ''CamAdmiral master key has an invalid format'')))"
proof (rule exI [of _ "replicate 31 (CHR 0xFF) @ [CHR 0x0A]"], intro conjI allI impI)
  let ?key = "replicate 31 (CHR 0xFF) @ [CHR 0x0A]"
  show "length ?key = 32" "decoded_key ?key = Inr ?key" by (simp_all add: decoded_key_def)
  fix fs :: files and p assume "fs p = Bytes ?key"
  moreover have "bytes_strip ?key = replicate 31 (CHR 0xFF)"
    by (simp add: bytes_strip_def byte_space_def eval_nat_numeral)
  ultimately have "read_secret_file fs p True = Inr (Some (replicate 31 (CHR 0xFF)))"
    by (simp add: read_secret_file_def)
  moreover have "decoded_key (replicate 31 (CHR 0xFF)) =
      Inl (SecretConfigurationError ''CamAdmiral master key has an invalid format'')"
    by (simp add: decoded_key_def list_all_iff)
  ultimately show "\<exists>value. read_secret_file fs p True = Inr (Some value) \<and> length value = 31 \<and>
      decoded_key value = Inl (SecretConfigurationError ''CamAdmiral master key has an invalid format'')"
    by simp
qed

end
