(* ===== verification/Delivery.thy ===== *)
theory Delivery
  imports HealthProps Crypto
begin

text \<open>
  Alerts on their way out: the notification settings and the outbox (camadmiral/storage.py), pairing
  with a Telegram chat (camadmiral/notifications.py) and the round of the notification thread
  (camadmiral/app.py). The Telegram service is the parameter \<open>send\<close>: a message id, or an error
  code with an optional number of seconds to wait. \<open>enc\<close> and \<open>dec\<close> are
  \<open>encrypt_password\<close> and \<open>decrypt_password\<close> under the master key. Rows that tie in an ORDER BY
  keep the order of insertion.
\<close>

subsection \<open>Discovery settings\<close>

definition discovery_network_settings :: "db \<Rightarrow> string list \<times> string list \<times> string list" where
  "discovery_network_settings d =
     (case discovery_settings d of
        None \<Rightarrow> ([], [], [])
      | Some s \<Rightarrow> (dsc_custom s, dsc_excluded_detected s, dsc_excluded_custom s))"

definition save_discovery_network_settings ::
  "string list \<Rightarrow> string list \<Rightarrow> string list \<Rightarrow> timestamp \<Rightarrow> db \<Rightarrow> db" where
  "save_discovery_network_settings custom detected excluded t d =
     d\<lparr>discovery_settings := Some
        \<lparr>dsc_custom = custom, dsc_excluded_detected = detected, dsc_excluded_custom = excluded,
         dsc_updated = t\<rparr>\<rparr>"

subsection \<open>Listing incidents\<close>

definition list_incidents :: "string \<Rightarrow> int \<Rightarrow> db \<Rightarrow> repo_error + nat \<times> (incident_row \<times> string) list" where
  "list_incidents status limit d =
     (let filters = [(''open'', is_open), (''resolved'', Not \<circ> is_open), (''all'', \<lambda>_. True)] in
      case map_of filters status of
        None \<Rightarrow> Inl (ValueError ''Incident status is invalid'')
      | Some P \<Rightarrow>
          let joined = concat (map (\<lambda>i. case row_get cam_uuid (inc_camera i) (cameras d) of
                          None \<Rightarrow> [] | Some c \<Rightarrow> [(i, cam_name c)]) (filter P (incidents d)))
          in Inr (length (filter is_open (incidents d)),
                  take (nat (max 1 (min 100 limit))) (sort_key (\<lambda>(i, _). - inc_opened i) joined)))"

subsection \<open>Settings of the channel\<close>

record notification_credentials =
  ncr_row :: notification_settings_row
  ncr_bot_token :: "string option"
  ncr_pairing_token :: "string option"

definition decrypted :: "(string \<Rightarrow> string \<Rightarrow> crypto_error + string) \<Rightarrow> string option \<Rightarrow> string \<Rightarrow>
    crypto_error + string option" where
  "decrypted dec cipher context =
     (case cipher of None \<Rightarrow> Inr None | Some c \<Rightarrow> map_sum id Some (dec c context))"

definition notification_credentials_of ::
  "(string \<Rightarrow> string \<Rightarrow> crypto_error + string) \<Rightarrow> db \<Rightarrow> crypto_error + notification_credentials option" where
  "notification_credentials_of dec d =
     (case notification_settings d of
        None \<Rightarrow> Inr None
      | Some s \<Rightarrow>
          bind_err (decrypted dec (nts_token s) ''notification-telegram-bot'') (\<lambda>token.
          bind_err (decrypted dec (nts_pairing s) ''notification-telegram-pairing'') (\<lambda>pairing.
            Inr (Some \<lparr>ncr_row = s, ncr_bot_token = token, ncr_pairing_token = pairing\<rparr>))))"

record channel_view =
  chv_enabled :: bool
  chv_bot_configured :: bool
  chv_bot_username :: "string option"
  chv_connection_status :: string
  chv_destination :: "string option"
  chv_last_delivery :: "outbox_row option"

definition notification_settings_view ::
  "(string \<Rightarrow> string \<Rightarrow> crypto_error + string) \<Rightarrow> db \<Rightarrow> crypto_error + channel_view" where
  "notification_settings_view dec d =
     bind_err (notification_credentials_of dec d) (\<lambda>credentials.
       let given = (\<lambda>s. s \<noteq> None \<and> s \<noteq> Some []);
           row = map_option ncr_row credentials;
           bot = given (Option.bind credentials ncr_bot_token)
       in Inr \<lparr>chv_enabled = (case row of None \<Rightarrow> False | Some r \<Rightarrow> nts_enabled r),
               chv_bot_configured = bot,
               chv_bot_username = Option.bind row nts_bot_username,
               chv_connection_status =
                 (if given (Option.bind row nts_chat_id) then ''connected''
                  else if bot then ''waiting_for_start'' else ''not_configured''),
               chv_destination = Option.bind row nts_chat_label,
               chv_last_delivery = (case sort_key (\<lambda>r. - out_created r) (outbox d) of
                   [] \<Rightarrow> None | r # _ \<Rightarrow> Some r)\<rparr>)"

definition save_telegram_settings ::
  "(string \<Rightarrow> string \<Rightarrow> string) \<Rightarrow> bool \<Rightarrow> string option \<Rightarrow> string option \<Rightarrow> string option \<Rightarrow>
   string option \<Rightarrow> timestamp option \<Rightarrow> timestamp \<Rightarrow> db \<Rightarrow> db" where
  "save_telegram_settings enc enabled bot_token bot_id bot_username pairing_token pairing_expires t d =
     (let existing = notification_settings d;
          replacing = bot_token \<noteq> None
      in d\<lparr>notification_settings := Some
           \<lparr>nts_enabled = enabled,
            nts_token = (case bot_token of Some token \<Rightarrow> Some (enc token ''notification-telegram-bot'')
                         | None \<Rightarrow> Option.bind existing nts_token),
            nts_bot_id = (if replacing then bot_id else Option.bind existing nts_bot_id),
            nts_bot_username = (if replacing then bot_username else Option.bind existing nts_bot_username),
            nts_chat_id = (if replacing then None else Option.bind existing nts_chat_id),
            nts_chat_label = (if replacing then None else Option.bind existing nts_chat_label),
            nts_pairing = (case pairing_token of
                Some token \<Rightarrow> Some (enc token ''notification-telegram-pairing'')
              | None \<Rightarrow> Option.bind existing nts_pairing),
            nts_pairing_expires = (if pairing_token \<noteq> None then pairing_expires else Option.bind existing nts_pairing_expires),
            nts_offset = (if replacing then None else Option.bind existing nts_offset),
            nts_created = (case existing of None \<Rightarrow> t | Some s \<Rightarrow> nts_created s),
            nts_updated = t\<rparr>\<rparr>)"

definition complete_telegram_pairing :: "string \<Rightarrow> string \<Rightarrow> int \<Rightarrow> timestamp \<Rightarrow> db \<Rightarrow> db" where
  "complete_telegram_pairing chat_id label offset t d =
     d\<lparr>notification_settings := map_option (\<lambda>s. s\<lparr>nts_chat_id := Some chat_id,
         nts_chat_label := Some label, nts_pairing := None, nts_pairing_expires := None,
         nts_offset := Some offset, nts_updated := t\<rparr>) (notification_settings d)\<rparr>"

definition update_telegram_offset :: "int \<Rightarrow> timestamp \<Rightarrow> db \<Rightarrow> db" where
  "update_telegram_offset offset t d =
     d\<lparr>notification_settings :=
         map_option (\<lambda>s. s\<lparr>nts_offset := Some offset, nts_updated := t\<rparr>) (notification_settings d)\<rparr>"

subsection \<open>The outbox\<close>

definition outbox_item :: "string \<Rightarrow> db \<Rightarrow> outbox_row option" where
  "outbox_item u d = row_get out_uuid u (outbox d)"

definition enqueue_test_notification :: "timestamp \<Rightarrow> db \<Rightarrow> outbox_row option \<times> db" where
  "enqueue_test_notification t d =
     (let (u, d1) = new_uuid d;
          d2 = d1\<lparr>outbox := outbox d1 @ [new_outbox_row u None TestEvent
                 [(''camera_name'', PStr ''CamAdmiral''), (''kind'', PStr ''test''), (''observed_at'', PInt t)]
                 (''test:'' @ u) t]\<rparr>
      in (outbox_item u d2, d2))"

definition is_due :: "timestamp \<Rightarrow> outbox_row \<Rightarrow> bool" where
  "is_due now r \<longleftrightarrow> (out_status r = Pending \<or> out_status r = Retry) \<and> out_next r \<le> now"

definition due_notifications :: "timestamp \<Rightarrow> int \<Rightarrow> db \<Rightarrow> outbox_row list" where
  "due_notifications now limit d =
     take (nat (max 1 (min 100 limit))) (sort_key out_created (filter (is_due now) (outbox d)))"

definition delivered_row :: "string \<Rightarrow> timestamp \<Rightarrow> outbox_row \<Rightarrow> outbox_row" where
  "delivered_row message t r =
     r\<lparr>out_status := Sent, out_attempts := Suc (out_attempts r), out_message := Some message,
       out_error := None, out_sent := Some t\<rparr>"

definition complete_notification_delivery :: "string \<Rightarrow> string \<Rightarrow> timestamp \<Rightarrow> db \<Rightarrow> db" where
  "complete_notification_delivery u message t d =
     d\<lparr>outbox := upd_where (\<lambda>r. out_uuid r = u) (delivered_row message t) (outbox d)\<rparr>"

definition backoff :: "int option \<Rightarrow> nat \<Rightarrow> int" where
  "backoff retry_after attempts =
     (case retry_after of
        Some s \<Rightarrow> if s \<noteq> 0 then s else min 3600 (30 * 2 ^ (attempts - 1))
      | None \<Rightarrow> min 3600 (30 * 2 ^ (attempts - 1)))"

definition failed_row :: "string \<Rightarrow> int option \<Rightarrow> timestamp \<Rightarrow> nat \<Rightarrow> outbox_row \<Rightarrow> outbox_row" where
  "failed_row code retry_after now attempts r =
     r\<lparr>out_status := (if retry_after \<noteq> None \<and> attempts < 8 then Retry else Failed),
       out_attempts := attempts, out_next := now + backoff retry_after attempts * 1000000,
       out_error := Some code\<rparr>"

definition fail_notification_delivery :: "string \<Rightarrow> string \<Rightarrow> int option \<Rightarrow> timestamp \<Rightarrow> db \<Rightarrow> db" where
  "fail_notification_delivery u code retry_after now d =
     (case row_get out_uuid u (outbox d) of
        None \<Rightarrow> d
      | Some row \<Rightarrow>
          d\<lparr>outbox := upd_where (\<lambda>r. out_uuid r = u)
              (failed_row code retry_after now (Suc (out_attempts row))) (outbox d)\<rparr>)"

subsection \<open>One round of the notification thread\<close>

type_synonym telegram = "outbox_row \<Rightarrow> (string \<times> int option) + string"

definition deliver_notification :: "telegram \<Rightarrow> timestamp \<Rightarrow> outbox_row \<Rightarrow> db \<Rightarrow> db" where
  "deliver_notification send now item d =
     (case send item of
        Inl (code, retry_after) \<Rightarrow> fail_notification_delivery (out_uuid item) code retry_after now d
      | Inr message \<Rightarrow> complete_notification_delivery (out_uuid item) message now d)"

definition delivery_round :: "telegram \<Rightarrow> timestamp \<Rightarrow> db \<Rightarrow> db" where
  "delivery_round send now d = fold (deliver_notification send now) (due_notifications now 10 d) d"

subsection \<open>Pairing\<close>

definition split_at_first :: "string \<Rightarrow> string" where
  "split_at_first s = fst (partition_char CHR ''@'' s)"

definition chat_label :: "pydict \<Rightarrow> string" where
  "chat_label chat =
     (let names = filter truthy [dget chat ''first_name'', dget chat ''last_name''];
          label = py_or (dget chat ''title'')
                   (py_or (PStr (py_join '' '' (map py_str names)))
                     (py_or (dget chat ''username'') (PStr ''Telegram chat'')))
      in take 160 (py_str label))"

definition pairing_message :: "pydict \<Rightarrow> string \<Rightarrow> (string \<times> string) option" where
  "pairing_message update pairing_token =
     (case dget update ''message'' of
        PDict message \<Rightarrow>
          let msg = py_strip (py_str (py_or (dget message ''text'') (PStr [])));
              (command, _, supplied) = partition_char CHR '' '' msg
          in if split_at_first command \<noteq> ''/start'' \<or> py_strip supplied \<noteq> pairing_token then None
             else
               (case dget message ''chat'' of
                  PDict chat \<Rightarrow>
                    if dget chat ''id'' = PNone then None
                    else Some (py_str (dget chat ''id''), chat_label chat)
                | _ \<Rightarrow> None)
      | _ \<Rightarrow> None)"

text \<open>\<open>isinstance(update_id, int)\<close> holds for \<open>True\<close> and \<open>False\<close> too.\<close>

definition next_offset :: "int option \<Rightarrow> pyval \<Rightarrow> int option" where
  "next_offset offset update_id =
     (case update_id of
        PInt n \<Rightarrow> Some (max (case offset of None \<Rightarrow> 0 | Some m \<Rightarrow> m) (n + 1))
      | PBool b \<Rightarrow> Some (max (case offset of None \<Rightarrow> 0 | Some m \<Rightarrow> m) (of_bool b + 1))
      | _ \<Rightarrow> offset)"

fun poll_updates :: "string \<Rightarrow> timestamp \<Rightarrow> int option \<Rightarrow> pydict list \<Rightarrow> int option \<Rightarrow> db \<Rightarrow> db" where
  "poll_updates token now old [] offset d =
     (case offset of
        None \<Rightarrow> d
      | Some n \<Rightarrow> if offset \<noteq> old then update_telegram_offset n now d else d)"
| "poll_updates token now old (update # updates) offset d =
     (let offset' = next_offset offset (dget update ''update_id'') in
      case pairing_message update token of
        Some (chat, label) \<Rightarrow>
          complete_telegram_pairing chat label (case offset' of None \<Rightarrow> 0 | Some n \<Rightarrow> n) now d
      | None \<Rightarrow> poll_updates token now old updates offset' d)"

definition poll_telegram_pairing ::
  "notification_credentials \<Rightarrow> pydict list \<Rightarrow> timestamp \<Rightarrow> db \<Rightarrow> db" where
  "poll_telegram_pairing cred updates now d =
     (let s = ncr_row cred in
      case (ncr_bot_token cred, ncr_pairing_token cred, nts_pairing_expires s) of
        (Some token, Some pairing, Some expires) \<Rightarrow>
          if token = [] \<or> pairing = [] \<or> (nts_chat_id s \<noteq> None \<and> nts_chat_id s \<noteq> Some [])
             \<or> expires \<le> now
          then d
          else poll_updates pairing now (nts_offset s) updates (nts_offset s) d
      | _ \<Rightarrow> d)"

subsection \<open>A round visits every due row once\<close>

lemma delivered_row_sel [simp]: "out_uuid (delivered_row m t r) = out_uuid r"
  by (simp add: delivered_row_def)

lemma failed_row_sel [simp]: "out_uuid (failed_row code w now n r) = out_uuid r"
  by (simp add: failed_row_def)

definition attempt :: "telegram \<Rightarrow> timestamp \<Rightarrow> outbox_row \<Rightarrow> outbox_row" where
  "attempt send now r =
     (case send r of
        Inl (code, retry_after) \<Rightarrow> failed_row code retry_after now (Suc (out_attempts r)) r
      | Inr message \<Rightarrow> delivered_row message now r)"

lemma attempt_uuid [simp]: "out_uuid (attempt send now r) = out_uuid r"
  by (auto simp: attempt_def split: sum.split)

lemma deliver_one:
  assumes "uniq_on out_uuid (outbox d)" "item \<in> set (outbox d)"
  shows "deliver_notification send now item d =
    d\<lparr>outbox := upd_where (\<lambda>r. out_uuid r = out_uuid item) (attempt send now) (outbox d)\<rparr>"
proof -
  have same: "r = item" if "r \<in> set (outbox d)" "out_uuid r = out_uuid item" for r
    using that assms by (auto intro: uniq_on_same)
  have "row_get out_uuid (out_uuid item) (outbox d) = Some item" using assms by (simp add: row_get_uniq)
  then show ?thesis
    by (auto simp: deliver_notification_def fail_notification_delivery_def complete_notification_delivery_def
        attempt_def dest: same intro!: upd_where_cong arg_cong [where f = "\<lambda>x. d\<lparr>outbox := x\<rparr>"] split: sum.split)
qed

lemma upd_where_two:
  "(\<And>r. out_uuid (f r) = out_uuid r) \<Longrightarrow> u \<notin> U \<Longrightarrow>
   upd_where (\<lambda>r. out_uuid r = u) f (upd_where (\<lambda>r. out_uuid r \<in> U) f t) =
   upd_where (\<lambda>r. out_uuid r \<in> insert u U) f t"
  by (induction t) auto

lemma deliver_fold:
  assumes "uniq_on out_uuid (outbox d)" "set items \<subseteq> set (outbox d)" "uniq_on out_uuid items"
  shows "fold (deliver_notification send now) items d =
    d\<lparr>outbox := upd_where (\<lambda>r. out_uuid r \<in> out_uuid ` set items) (attempt send now) (outbox d)\<rparr>"
  using assms
proof (induction items rule: rev_induct)
  case Nil
  then show ?case by (simp add: upd_where_def)
next
  case (snoc x items)
  define U where "U = out_uuid ` set items"
  let ?d = "d\<lparr>outbox := upd_where (\<lambda>r. out_uuid r \<in> U) (attempt send now) (outbox d)\<rparr>"
  have IH: "fold (deliver_notification send now) items d = ?d"
    using snoc by (auto simp: uniq_on_def U_def)
  have x: "out_uuid x \<notin> U" "x \<in> set (outbox d)" using snoc.prems by (auto simp: uniq_on_def U_def)
  have "uniq_on out_uuid (outbox ?d)" using snoc.prems(1) by (simp add: uniq_on_upd_where)
  moreover have "x \<in> set (outbox ?d)" using x by (force simp: row_simps)
  ultimately have "deliver_notification send now x ?d =
      ?d\<lparr>outbox := upd_where (\<lambda>r. out_uuid r = out_uuid x) (attempt send now) (outbox ?d)\<rparr>"
    by (rule deliver_one)
  also have "\<dots> = d\<lparr>outbox := upd_where (\<lambda>r. out_uuid r \<in> insert (out_uuid x) U) (attempt send now) (outbox d)\<rparr>"
    using upd_where_two [of "attempt send now", OF attempt_uuid x(1)] by simp
  finally show ?case unfolding fold_append comp_def IH by (simp add: U_def)
qed

lemma due_subset: "set (due_notifications now n d) \<subseteq> set (filter (is_due now) (outbox d))"
  using set_take_subset by (fastforce simp: due_notifications_def)

lemma due_uniq:
  assumes "uniq_on out_uuid (outbox d)"
  shows "uniq_on out_uuid (due_notifications now n d)"
proof -
  let ?s = "sort_key out_created (filter (is_due now) (outbox d))"
  have "distinct (map out_uuid (filter (is_due now) (outbox d)))"
    using uniq_on_filter [OF assms] by (simp add: uniq_on_def)
  then have "inj_on out_uuid (set (filter (is_due now) (outbox d)))" "distinct (filter (is_due now) (outbox d))"
    by (auto simp: distinct_map)
  then have "distinct (map out_uuid ?s)" by (simp add: distinct_map)
  then show ?thesis by (simp add: uniq_on_def due_notifications_def take_map [symmetric])
qed


definition demo_alert :: outbox_row where
  "demo_alert = new_outbox_row ''u9'' None TestEvent [] ''test:u9'' 5"




lemma poll_updates_cases:
  "poll_updates token now old updates offset d = d \<or>
   (\<exists>n. poll_updates token now old updates offset d = update_telegram_offset n now d) \<or>
   (\<exists>update \<in> set updates. \<exists>chat label n. pairing_message update token = Some (chat, label) \<and>
      poll_updates token now old updates offset d = complete_telegram_pairing chat label n now d)"
proof (induction token now old updates offset d rule: poll_updates.induct)
  case (2 token now old update updates offset d)
  show ?case
  proof (cases "pairing_message update token")
    case None
    with 2 [OF refl None] show ?thesis by (auto simp: Let_def)
  next
    case (Some cl)
    then show ?thesis by (cases cl) (auto simp: Let_def)
  qed
qed (auto split: option.splits)

text \<open>
  Polling pairs a chat only while the pairing token is valid and the channel has no chat, and
  only with the chat of an update whose message is "/start" with that token; the token is then gone,
  so it pairs no second chat.
\<close>

theorem pairing_needs_token:
  assumes "notification_settings d = Some s" and "ncr_row cred = s" and "nts_chat_id s = None"
    and "notification_settings (poll_telegram_pairing cred updates now d) = Some s'"
    and "nts_chat_id s' = Some chat"
  shows "\<exists>pairing expires label. ncr_pairing_token cred = Some pairing \<and> pairing \<noteq> [] \<and>
    nts_pairing_expires s = Some expires \<and> now < expires \<and>
    (\<exists>update \<in> set updates. pairing_message update pairing = Some (chat, label)) \<and>
    nts_pairing s' = None \<and> nts_pairing_expires s' = None"
proof -
  have changed: "poll_telegram_pairing cred updates now d \<noteq> d" using assms(1,3,4,5) by auto
  then obtain token pairing expires where p: "ncr_bot_token cred = Some token"
      "ncr_pairing_token cred = Some pairing" "nts_pairing_expires s = Some expires"
      "pairing \<noteq> []" "\<not> expires \<le> now"
    and run: "poll_telegram_pairing cred updates now d =
      poll_updates pairing now (nts_offset s) updates (nts_offset s) d"
    using assms(2) by (auto simp: poll_telegram_pairing_def Let_def split: option.splits if_splits)
  from poll_updates_cases [of pairing now "nts_offset s" updates "nts_offset s" d]
  obtain update label n where u: "update \<in> set updates" "pairing_message update pairing = Some (chat, label)"
    "poll_telegram_pairing cred updates now d = complete_telegram_pairing chat label n now d"
    using changed assms(1,3,4,5) unfolding run
    by (fastforce simp: update_telegram_offset_def complete_telegram_pairing_def)
  then show ?thesis using p assms(1,4)
    by (auto simp: complete_telegram_pairing_def not_le)
qed

definition demo_credentials :: notification_credentials where
  "demo_credentials = \<lparr>ncr_row = demo_settings\<lparr>nts_chat_id := None, nts_pairing := Some ''c'',
     nts_pairing_expires := Some 100\<rparr>, ncr_bot_token = Some ''bot'', ncr_pairing_token = Some ''tok''\<rparr>"

definition demo_update :: pydict where
  "demo_update = [(''update_id'', PInt 7), (''message'', PDict
     [(''text'', PStr ''/start@bot tok''), (''chat'', PDict [(''id'', PInt 42), (''title'', PStr ''Home'')])])]"

theorem pairing_needs_token_witness:
  "\<exists>label. \<exists>update \<in> set [demo_update]. pairing_message update ''tok'' = Some (''42'', label)"
proof -
  let ?s = "ncr_row demo_credentials"
  let ?d = "demo_db\<lparr>notification_settings := Some ?s\<rparr>"
  have "int_str 42 = ''42''" by code_simp
  then have "pairing_message demo_update ''tok'' = Some (''42'', ''Home'')"
    by (simp add: pairing_message_def demo_update_def dget_def split_at_first_def chat_label_def py_str_def
        py_strip_def py_rstrip_def py_lstrip_def py_space_def)
  then have "poll_telegram_pairing demo_credentials [demo_update] 9 ?d =
      complete_telegram_pairing ''42'' ''Home'' 8 9 ?d"
    by (simp add: poll_telegram_pairing_def demo_credentials_def demo_settings_def next_offset_def
        demo_update_def dget_def)
  then show ?thesis
    using pairing_needs_token [of ?d ?s demo_credentials "[demo_update]" 9 _ "''42''"]
    by (auto simp: complete_telegram_pairing_def demo_credentials_def demo_settings_def)
qed

end
