(* ===== verification/Auth.thy ===== *)
theory Auth
  imports Base64
begin

text \<open>
  camadmiral/auth.py: HTTP Basic authentication of the administrator with a lockout per client. A
  request is one step on the state (the failures and the lock of every client); threads that
  overlap inside \<open>authenticate\<close> are not modelled. \<open>header\<close> is the header as a Latin-1 string, a
  password is a byte string, and the decoded credentials are compared as the bytes they came from:
  \<open>username.encode()\<close> gives back what \<open>decode\<close> read. A header that is not ASCII makes
  \<open>b64decode\<close> raise a plain \<open>ValueError\<close>, which the code does not catch.
\<close>

definition max_failures :: nat where "max_failures = 5"
definition failure_window :: rat where "failure_window = 5 * 60"
definition lockout_seconds :: rat where "lockout_seconds = 5 * 60"

record auth_decision =
  dec_allowed :: bool
  dec_status :: nat
  dec_retry_after :: "int option"

record auth_state =
  failures_of :: "string \<Rightarrow> rat list"
  locked_until :: "string \<Rightarrow> rat option"

definition auth_start :: auth_state where
  "auth_start = \<lparr>failures_of = (\<lambda>_. []), locked_until = (\<lambda>_. None)\<rparr>"

definition deny :: "nat \<Rightarrow> int option \<Rightarrow> auth_decision" where
  "deny status retry = \<lparr>dec_allowed = False, dec_status = status, dec_retry_after = retry\<rparr>"

definition allow :: auth_decision where
  "allow = \<lparr>dec_allowed = True, dec_status = 200, dec_retry_after = None\<rparr>"

subsection \<open>The header\<close>

definition cont :: "char \<Rightarrow> bool" where
  "cont c \<longleftrightarrow> 128 \<le> byte_of c \<and> byte_of c \<le> 191"

fun utf8_valid :: "string \<Rightarrow> bool" where
  "utf8_valid [] \<longleftrightarrow> True"
| "utf8_valid (a # r) \<longleftrightarrow>
     (let n = byte_of a in
      if n < 128 then utf8_valid r
      else if 194 \<le> n \<and> n \<le> 223 then
        (case r of b # r1 \<Rightarrow> cont b \<and> utf8_valid r1 | _ \<Rightarrow> False)
      else if 224 \<le> n \<and> n \<le> 239 then
        (case r of b # c # r2 \<Rightarrow>
           cont b \<and> cont c \<and> (n = 224 \<longrightarrow> 160 \<le> byte_of b) \<and> (n = 237 \<longrightarrow> byte_of b \<le> 159) \<and> utf8_valid r2
         | _ \<Rightarrow> False)
      else if 240 \<le> n \<and> n \<le> 244 then
        (case r of b # c # d # r3 \<Rightarrow>
           cont b \<and> cont c \<and> cont d \<and> (n = 240 \<longrightarrow> 144 \<le> byte_of b) \<and> (n = 244 \<longrightarrow> byte_of b \<le> 143)
             \<and> utf8_valid r3
         | _ \<Rightarrow> False)
      else False)"

datatype auth_error = NonAsciiHeader

definition is_ascii :: "string \<Rightarrow> bool" where
  "is_ascii s \<longleftrightarrow> list_all (\<lambda>c. byte_of c < 128) s"

definition credentials_of :: "string option \<Rightarrow> auth_error + (string \<times> string) option" where
  "credentials_of header =
     (case header of
        None \<Rightarrow> Inr None
      | Some h \<Rightarrow>
          if h = [] \<or> \<not> startswith h ''Basic '' then Inr None
          else
            let token = py_strip (drop 6 h) in
            if \<not> is_ascii token then Inl NonAsciiHeader
            else
              case b64_decode True token of
                None \<Rightarrow> Inr None
              | Some decoded \<Rightarrow>
                  if \<not> utf8_valid decoded then Inr None
                  else
                    case partition_char CHR '':'' decoded of
                      (username, True, password) \<Rightarrow> Inr (Some (username, password))
                    | _ \<Rightarrow> Inr None)"

subsection \<open>One request\<close>

definition record_failure :: "string \<Rightarrow> rat \<Rightarrow> auth_state \<Rightarrow> auth_decision \<times> auth_state" where
  "record_failure client now st =
     (let failures = dropWhile (\<lambda>t. t \<le> now - failure_window) (failures_of st client) @ [now]
      in if max_failures \<le> length failures
         then (deny 429 (Some (py_round lockout_seconds)),
               st\<lparr>locked_until := (locked_until st)(client := Some (now + lockout_seconds)),
                  failures_of := (failures_of st)(client := [])\<rparr>)
         else (deny 401 None, st\<lparr>failures_of := (failures_of st)(client := failures)\<rparr>))"

definition lock_end :: "auth_state \<Rightarrow> string \<Rightarrow> rat" where
  "lock_end st client = (case locked_until st client of None \<Rightarrow> 0 | Some t \<Rightarrow> t)"

definition authenticate ::
  "string option \<Rightarrow> string \<Rightarrow> string option \<Rightarrow> rat \<Rightarrow> auth_state \<Rightarrow> (auth_error + auth_decision) \<times> auth_state" where
  "authenticate password client header now st =
     (case password of
        None \<Rightarrow> (Inr allow, st)
      | Some pw \<Rightarrow>
          let until = lock_end st client in
          if until > now then (Inr (deny 429 (Some (max 1 (py_round (until - now))))), st)
          else
            let st1 = st\<lparr>locked_until := (locked_until st)(client := None)\<rparr> in
            case credentials_of header of
              Inl e \<Rightarrow> (Inl e, st1)
            | Inr None \<Rightarrow> apfst Inr (record_failure client now st1)
            | Inr (Some (username, candidate)) \<Rightarrow>
                if username = ''admin'' \<and> candidate = pw
                then (Inr allow,
                      st1\<lparr>failures_of := (failures_of st1)(client := []),
                          locked_until := (locked_until st1)(client := None)\<rparr>)
                else apfst Inr (record_failure client now st1))"

subsection \<open>Who gets in\<close>

lemma record_failure_denies [simp]: "\<not> dec_allowed (fst (record_failure c now st))"
  by (simp add: record_failure_def Let_def deny_def)

text \<open>
  C33: Once a password is set, a request is allowed exactly when its client is not locked out and its
  header holds the user "admin" with that password.
\<close>

theorem allowed_iff_password:
  "(\<exists>dec. fst (authenticate (Some pw) client header now st) = Inr dec \<and> dec_allowed dec) \<longleftrightarrow>
   lock_end st client \<le> now \<and> credentials_of header = Inr (Some (''admin'', pw))"
  by (auto simp: authenticate_def Let_def deny_def allow_def split: sum.splits option.splits)

lemma basic_header:
  assumes "utf8_valid pw"
  shows "credentials_of (Some (''Basic '' @ b64_encode (''admin:'' @ pw))) = Inr (Some (''admin'', pw))"
proof -
  let ?t = "b64_encode (''admin:'' @ pw)"
  have ab: "\<not> py_space x \<and> byte_of x < 128" if "in_alphabet x" for x
    using that unfolding in_alphabet_def
  proof
    assume "x = CHR ''=''"
    then show ?thesis by (simp add: py_space_def)
  next
    assume "\<exists>n<64. x = b64_char n"
    then obtain n where n: "n < 64" "x = b64_char n" by blast
    then have "\<not> py_space x" by simp
    moreover have "byte_of x < 128" using n by (auto simp: b64_char_def)
    ultimately show ?thesis by blast
  qed
  have all: "list_all in_alphabet ?t" by (rule b64_encode_set)
  then have ascii: "is_ascii ?t" using ab by (auto simp: is_ascii_def list_all_iff)
  have strip: "py_strip s = s" if "list_all in_alphabet s" for s
  proof -
    have "dropWhile py_space x = x" if "list_all in_alphabet x" for x
      using that ab by (cases x) auto
    then show ?thesis using that by (simp add: py_strip_def py_rstrip_def py_lstrip_def list_all_iff)
  qed
  have "partition_char CHR '':'' (''admin:'' @ pw) = (''admin'', True, pw)"
    using partition_char_at [of "CHR '':''" "''admin''" pw] by simp
  moreover have "utf8_valid (''admin:'' @ pw)" using assms by simp
  moreover have "b64_decode True ?t = Some (''admin:'' @ pw)" by (rule b64_decode_encode)
  moreover have "drop 6 (''Basic '' @ ?t) = ?t" "startswith (''Basic '' @ ?t) ''Basic ''"
    by (simp_all add: startswith_def)
  ultimately show ?thesis
    unfolding credentials_of_def option.case Let_def strip [OF all] using ascii strip [OF all] by simp
qed

theorem allowed_iff_password_encoded:
  assumes "utf8_valid pw" and "lock_end st client \<le> now"
  shows "fst (authenticate (Some pw) client (Some (''Basic '' @ b64_encode (''admin:'' @ pw))) now st) = Inr allow"
  using assms(2) unfolding authenticate_def Let_def option.case basic_header [OF assms(1)]
  by (simp add: not_less [symmetric])

subsection \<open>The lockout bounds guessing\<close>

text \<open>
  \<open>examined\<close> lists the times at which the requests of one client got as far as having their
  credentials examined and refused, in a run of requests of any clients.
\<close>

fun examined :: "string \<Rightarrow> string \<Rightarrow> (string \<times> rat \<times> string option) list \<Rightarrow> auth_state \<Rightarrow> rat list" where
  "examined pw c [] st = []"
| "examined pw c ((client, now, header) # rest) st =
     (let (result, st') = authenticate (Some pw) client header now st in
      (if client = c \<and> lock_end st c \<le> now \<and> (\<exists>dec. result = Inr dec \<and> \<not> dec_allowed dec) then [now] else [])
      @ examined pw c rest st')"

text \<open>
  The bookkeeping for client \<open>c\<close> after its failures \<open>H\<close> (oldest first): at every time the client
  is not locked, the failures of the last window are those in the deque, and there are fewer than
  five.
\<close>

definition book :: "string \<Rightarrow> rat list \<Rightarrow> rat \<Rightarrow> auth_state \<Rightarrow> bool" where
  "book c H t0 st \<longleftrightarrow>
     sorted H \<and> (\<forall>h \<in> set H. h \<le> t0) \<and> sorted (failures_of st c) \<and> length (failures_of st c) < max_failures \<and>
     (\<forall>now \<ge> t0. lock_end st c \<le> now \<longrightarrow>
        filter (\<lambda>h. h > now - failure_window) H = filter (\<lambda>h. h > now - failure_window) (failures_of st c))"

definition six_span :: "rat list \<Rightarrow> bool" where
  "six_span H \<longleftrightarrow> (\<forall>i. i + 5 < length H \<longrightarrow> failure_window \<le> H ! (i + 5) - H ! i)"

lemma dropWhile_sorted:
  "sorted xs \<Longrightarrow> dropWhile (\<lambda>t. t \<le> b) xs = filter (\<lambda>t. t > b) xs" for b :: rat
proof (induction xs)
  case (Cons x xs)
  show ?case
  proof (cases "x \<le> b")
    case True
    with Cons show ?thesis by auto
  next
    case False
    then have "\<forall>y \<in> set xs. b < y" using Cons.prems by auto
    with False show ?thesis by (simp add: filter_id_conv)
  qed
qed simp

lemma six_span_snoc:
  assumes "six_span H" "sorted H" "\<forall>h \<in> set H. h \<le> now"
    and "length (filter (\<lambda>h. h > now - failure_window) H) < max_failures"
  shows "six_span (H @ [now])"
  unfolding six_span_def
proof (intro allI impI)
  fix i assume i: "i + 5 < length (H @ [now])"
  show "failure_window \<le> (H @ [now]) ! (i + 5) - (H @ [now]) ! i"
  proof (cases "i + 5 < length H")
    case True
    then show ?thesis using assms(1) by (simp add: six_span_def nth_append)
  next
    case False
    with i have len: "length H = i + 5" by simp
    have "H ! i \<le> now - failure_window"
    proof (rule ccontr)
      assume "\<not> ?thesis"
      then have "\<forall>h \<in> set (drop i H). h > now - failure_window"
        using assms(2) len by (auto simp: in_set_conv_nth sorted_iff_nth_mono not_le elim!: order_less_le_trans)
      then have "length (filter (\<lambda>h. h > now - failure_window) (drop i H)) = 5"
        using len by (simp add: filter_id_conv [THEN iffD2])
      then have "5 \<le> length (filter (\<lambda>h. h > now - failure_window) (take i H @ drop i H))"
        by (simp only: filter_append length_append)
      with assms(4) show False by (simp add: max_failures_def)
    qed
    then show ?thesis using len by (simp add: nth_append)
  qed
qed

lemma record_failure_book:
  assumes "book c H t0 st" "t0 \<le> now" "lock_end st c \<le> now" "locked_until st c = None"
  shows "book c (H @ [now]) now (snd (record_failure c now st))"
    and "length (filter (\<lambda>h. h > now - failure_window) H) < max_failures"
proof -
  let ?recent = "\<lambda>t h. h > t - failure_window"
  let ?F = "failures_of st c"
  let ?st = "snd (record_failure c now st)"
  have b: "sorted H" "\<forall>h \<in> set H. h \<le> now" "sorted ?F" "length ?F < max_failures"
    "filter (?recent now) H = filter (?recent now) ?F"
    using assms(1-3) by (auto simp: book_def intro: order_trans)
  show few: "length (filter (?recent now) H) < max_failures"
    unfolding b(5) using length_filter_le [of "?recent now" ?F] b(4) by linarith
  have old: "filter (?recent t) H = filter (?recent t) (filter (?recent now) ?F)" if "now \<le> t" for t
    using that unfolding b(5) [symmetric] filter_filter by (intro filter_cong) auto
  define fs where "fs = filter (?recent now) ?F @ [now]"
  have fs: "dropWhile (\<lambda>t. t \<le> now - failure_window) ?F @ [now] = fs"
    unfolding fs_def dropWhile_sorted [OF b(3)] ..
  have sorted: "sorted fs" "sorted (H @ [now])"
    using b by (auto simp: fs_def sorted_append b(5) [symmetric] sorted_filter [of id, simplified])
  show "book c (H @ [now]) now ?st"
  proof (cases "max_failures \<le> length fs")
    case True
    have "filter (?recent t) (H @ [now]) = []" if "now + lockout_seconds \<le> t" for t
      using b(2) that by (force simp: filter_empty_conv lockout_seconds_def failure_window_def)
    then show ?thesis using True b sorted
      by (auto simp: record_failure_def fs Let_def book_def lock_end_def max_failures_def)
  next
    case False
    have "lock_end ?st c = 0" using False assms(4) by (simp add: record_failure_def fs Let_def lock_end_def)
    moreover have "failures_of ?st c = fs" using False by (simp add: record_failure_def fs Let_def)
    moreover have "filter (?recent t) (H @ [now]) = filter (?recent t) fs" if "now \<le> t" for t
      using old [OF that] by (simp add: fs_def)
    ultimately show ?thesis using False b sorted by (auto simp: book_def)
  qed
qed

lemma book_cong:
  "book c H t0 st \<Longrightarrow> t0 \<le> t1 \<Longrightarrow> failures_of st' c = failures_of st c \<Longrightarrow>
   (\<And>t. t1 \<le> t \<Longrightarrow> lock_end st' c \<le> t \<Longrightarrow> lock_end st c \<le> t) \<Longrightarrow> book c H t1 st'"
  unfolding book_def by (auto intro: order_trans)

lemma authenticate_other:
  "client \<noteq> c \<Longrightarrow> failures_of (snd (authenticate pw client header now st)) c = failures_of st c \<and>
   locked_until (snd (authenticate pw client header now st)) c = locked_until st c"
  by (auto simp: authenticate_def record_failure_def Let_def split: option.splits sum.splits)

definition unlock :: "string \<Rightarrow> auth_state \<Rightarrow> auth_state" where
  "unlock c st = st\<lparr>locked_until := (locked_until st)(c := None)\<rparr>"

lemma authenticate_refused:
  assumes "credentials_of header \<noteq> Inr (Some (''admin'', pw))"
  obtains (locked) dec where "lock_end st c > now" "authenticate (Some pw) c header now st = (Inr dec, st)"
  | (malformed) e where "lock_end st c \<le> now" "authenticate (Some pw) c header now st = (Inl e, unlock c st)"
  | (refused) "lock_end st c \<le> now"
      "authenticate (Some pw) c header now st = apfst Inr (record_failure c now (unlock c st))"
proof (cases "lock_end st c > now")
  case True
  then show ?thesis by (intro locked) (auto simp: authenticate_def Let_def)
next
  case False
  show ?thesis
  proof (cases "credentials_of header")
    case (Inl e)
    with False show ?thesis by (intro malformed) (auto simp: authenticate_def Let_def unlock_def)
  next
    case (Inr u)
    with False assms show ?thesis
      by (intro refused) (auto simp: authenticate_def Let_def unlock_def split: option.split)
  qed
qed

lemma six_span_run:
  assumes "book c H t0 st" "0 \<le> t0" "six_span H" "sorted (t0 # map (fst \<circ> snd) reqs)"
    and "\<forall>(client, now, header) \<in> set reqs. client = c \<longrightarrow> credentials_of header \<noteq> Inr (Some (''admin'', pw))"
  shows "six_span (H @ examined pw c reqs st)"
  using assms
proof (induction reqs arbitrary: H t0 st)
  case Nil
  then show ?case by simp
next
  case (Cons req reqs)
  obtain client now header where req: "req = (client, now, header)" by (cases req) auto
  have t: "t0 \<le> now" "0 \<le> now" "sorted (now # map (fst \<circ> snd) reqs)" using Cons.prems(2,4) req by (auto simp: comp_def)
  have rest: "\<forall>(client, now, header) \<in> set reqs. client = c \<longrightarrow> credentials_of header \<noteq> Inr (Some (''admin'', pw))"
    using Cons.prems(5) by simp
  show ?case
  proof (cases "client = c")
    case False
    let ?st = "snd (authenticate (Some pw) client header now st)"
    have "book c H now ?st"
      using Cons.prems(1) t(1)
      by (rule book_cong) (simp_all add: authenticate_other [OF False] lock_end_def)
    from Cons.IH [OF this t(2) Cons.prems(3) t(3) rest] show ?thesis
      using False by (simp add: req case_prod_unfold)
  next
    case True
    then have wrong: "credentials_of header \<noteq> Inr (Some (''admin'', pw))" using Cons.prems(5) req by simp
    show ?thesis
      using wrong
    proof (cases rule: authenticate_refused [where now = now and st = st and c = c, consumes 1, case_names locked malformed refused])
      case (locked dec)
      have "book c H now st" using Cons.prems(1) t(1) by (rule book_cong) simp_all
      from Cons.IH [OF this t(2) Cons.prems(3) t(3) rest] show ?thesis
        using locked True by (simp add: req)
    next
      case (malformed e)
      have "book c H now (unlock c st)"
        using Cons.prems(1) t(1) by (rule book_cong) (use malformed(1) in \<open>auto simp: unlock_def\<close>)
      from Cons.IH [OF this t(2) Cons.prems(3) t(3) rest] show ?thesis
        using malformed True by (simp add: req)
    next
      case refused
      have bk: "book c H now (unlock c st)"
        using Cons.prems(1) t(1) by (rule book_cong) (use refused(1) in \<open>auto simp: unlock_def\<close>)
      have un: "lock_end (unlock c st) c \<le> now" "locked_until (unlock c st) c = None"
        using t(2) by (simp_all add: unlock_def lock_end_def)
      note step = record_failure_book [OF bk order_refl un]
      have "sorted H" "\<forall>h \<in> set H. h \<le> now" using bk by (simp_all add: book_def)
      from six_span_snoc [OF Cons.prems(3) this step(2)]
      have "six_span ((H @ [now]) @ examined pw c reqs (snd (record_failure c now (unlock c st))))"
        using step(1) t(2,3) rest by (intro Cons.IH)
      then show ?thesis using refused True by (simp add: req case_prod_unfold)
    qed
  qed
qed

text \<open>
  C32: Guessing is slow: in any run of requests of any clients in time order, as long as none of one
  client's requests carries the password, any six of its requests whose credentials were examined
  and refused span at least five minutes.
\<close>

theorem six_guesses_take_five_minutes:
  assumes "sorted (0 # map (fst \<circ> snd) reqs)"
    and "\<forall>(client, now, header) \<in> set reqs. client = c \<longrightarrow> credentials_of header \<noteq> Inr (Some (''admin'', pw))"
    and "i + 5 < length (examined pw c reqs auth_start)"
  shows "300 \<le> examined pw c reqs auth_start ! (i + 5) - examined pw c reqs auth_start ! i"
proof -
  have "book c [] 0 auth_start" "six_span []"
    by (simp_all add: book_def auth_start_def max_failures_def six_span_def)
  from six_span_run [OF this(1) order_refl this(2) assms(1,2)] show ?thesis
    using assms(3) by (simp add: six_span_def failure_window_def)
qed

definition demo_guesses :: "(string \<times> rat \<times> string option) list" where
  "demo_guesses = map (\<lambda>t. (''10.0.0.9'', t, None)) [1, 2, 3, 4, 5, 6, 200, 305, 306]"

lemma demo_guesses_examined: "examined ''pw'' ''10.0.0.9'' demo_guesses auth_start = [1, 2, 3, 4, 5, 305, 306]"
  by (simp add: demo_guesses_def authenticate_def record_failure_def lock_end_def auth_start_def Let_def
      credentials_of_def failure_window_def lockout_seconds_def max_failures_def deny_def)

theorem six_guesses_take_five_minutes_witness:
  "300 \<le> examined ''pw'' ''10.0.0.9'' demo_guesses auth_start ! 5
     - examined ''pw'' ''10.0.0.9'' demo_guesses auth_start ! 0"
proof -
  have "sorted (0 # map (fst \<circ> snd) demo_guesses)" by (simp add: demo_guesses_def)
  moreover have "\<forall>(client, now, header) \<in> set demo_guesses.
      client = ''10.0.0.9'' \<longrightarrow> credentials_of header \<noteq> Inr (Some (''admin'', ''pw''))"
    by (simp add: demo_guesses_def credentials_of_def)
  ultimately show ?thesis
    using six_guesses_take_five_minutes [of demo_guesses "''10.0.0.9''" "''pw''" 0]
    by (simp add: demo_guesses_examined)
qed

end
