(* ===== verification/Roles.thy ===== *)
theory Roles
  imports PyValue
begin

text \<open>
  camadmiral/roles.py: which of a camera's media profiles is recorded and which one feeds
  detection. A profile document is a record: an absent or null number is \<open>None\<close>, which the code
  reads as 0. \<open>max\<close> and \<open>min\<close> return the first of equals. Ratios are rationals.
\<close>

record media_profile =
  mp_token :: "string option"
  mp_uri :: "string option"
  mp_encoding :: "string option"
  mp_width :: "int option"
  mp_height :: "int option"
  mp_bitrate :: "int option"
  mp_fps :: "rat option"

definition or_zero :: "'a::zero option \<Rightarrow> 'a" where
  "or_zero v = (case v of None \<Rightarrow> 0 | Some x \<Rightarrow> x)"

definition present :: "string option \<Rightarrow> bool" where
  "present s \<longleftrightarrow> s \<noteq> None \<and> s \<noteq> Some []"

definition pixels :: "media_profile \<Rightarrow> int" where
  "pixels p = or_zero (mp_width p) * or_zero (mp_height p)"

definition quality :: "media_profile \<Rightarrow> int \<times> int \<times> rat" where
  "quality p = (pixels p, or_zero (mp_bitrate p), or_zero (mp_fps p))"

definition aspect_ratio :: "media_profile \<Rightarrow> rat" where
  "aspect_ratio p =
     (let height = or_zero (mp_height p)
      in if height \<noteq> 0 then of_int (or_zero (mp_width p)) / of_int height else 0)"

fun py_max :: "('a \<Rightarrow> 'b::linorder) \<Rightarrow> 'a \<Rightarrow> 'a list \<Rightarrow> 'a" where
  "py_max f best [] = best"
| "py_max f best (x # xs) = py_max f (if f x > f best then x else best) xs"

fun py_min :: "('a \<Rightarrow> 'b::linorder) \<Rightarrow> 'a \<Rightarrow> 'a list \<Rightarrow> 'a" where
  "py_min f best [] = best"
| "py_min f best (x # xs) = py_min f (if f x < f best then x else best) xs"

definition usable_profile :: "media_profile \<Rightarrow> bool" where
  "usable_profile p \<longleftrightarrow> present (mp_uri p) \<and> present (mp_token p)"

definition py_upper_ascii :: "string \<Rightarrow> string" where
  "py_upper_ascii s = map (\<lambda>c. let n = of_char c :: nat in
     if 97 \<le> n \<and> n \<le> 122 then char_of (n - 32) else c) s"

definition detectable :: "media_profile \<Rightarrow> media_profile \<Rightarrow> bool" where
  "detectable recording p \<longleftrightarrow>
     py_upper_ascii (case mp_encoding p of None \<Rightarrow> [] | Some e \<Rightarrow> e) \<in> {''H264'', ''H.264'', ''AVC''} \<and>
     pixels p \<ge> 320 * 180 \<and>
     (aspect_ratio recording = 0 \<or> aspect_ratio p = 0 \<or>
      \<bar>aspect_ratio p - aspect_ratio recording\<bar> / aspect_ratio recording \<le> 1 / 10)"

record stream_roles =
  rol_record :: string
  rol_detect :: string

definition select_stream_roles :: "media_profile list \<Rightarrow> stream_roles option" where
  "select_stream_roles profiles =
     (case filter usable_profile profiles of
        [] \<Rightarrow> None
      | p # ps \<Rightarrow>
          let recording = py_max quality p ps;
              detection = (case filter (detectable recording) (p # ps) of
                             c # cs \<Rightarrow> py_min quality c cs
                           | [] \<Rightarrow> py_min quality p ps)
          in Some \<lparr>rol_record = the (mp_token recording), rol_detect = the (mp_token detection)\<rparr>)"

lemma py_max_spec: "py_max f b xs \<in> set (b # xs) \<and> (\<forall>x \<in> set (b # xs). f x \<le> f (py_max f b xs))"
proof (induction xs arbitrary: b)
  case (Cons x xs)
  from Cons.IH [of "if f x > f b then x else b"] show ?case by (auto split: if_splits intro: order_trans)
qed simp

lemma py_min_spec: "py_min f b xs \<in> set (b # xs) \<and> (\<forall>x \<in> set (b # xs). f (py_min f b xs) \<le> f x)"
proof (induction xs arbitrary: b)
  case (Cons x xs)
  from Cons.IH [of "if f x < f b then x else b"] show ?case by (auto split: if_splits intro: order_trans)
qed simp

text \<open>
  Roles are assigned exactly when some profile has a URI and a token. The recorded one then is a
  usable profile that none surpasses in quality; the detection one is, among the usable H.264 profiles
  of at least 320x180 pixels and nearly the same aspect ratio, one of least quality, and among all
  usable profiles if there is no such profile.
\<close>

theorem roles_are_extremal:
  "case select_stream_roles profiles of
     None \<Rightarrow> filter usable_profile profiles = []
   | Some roles \<Rightarrow>
       \<exists>rec det. usable_profile rec \<and> rec \<in> set profiles \<and> mp_token rec = Some (rol_record roles) \<and>
         usable_profile det \<and> det \<in> set profiles \<and> mp_token det = Some (rol_detect roles) \<and>
         list_all (\<lambda>p. quality p \<le> quality rec) (filter usable_profile profiles) \<and>
         (let pool = filter (detectable rec) (filter usable_profile profiles) in
          (pool \<noteq> [] \<longrightarrow> detectable rec det) \<and>
          list_all (\<lambda>p. quality det \<le> quality p) (if pool = [] then filter usable_profile profiles else pool))"
proof (cases "filter usable_profile profiles")
  case Nil
  then show ?thesis by (simp add: select_stream_roles_def)
next
  case (Cons p ps)
  define rec where "rec = py_max quality p ps"
  define det where "det = (case filter (detectable rec) (p # ps) of c # cs \<Rightarrow> py_min quality c cs
     | [] \<Rightarrow> py_min quality p ps)"
  have sub: "set (p # ps) = {x \<in> set profiles. usable_profile x}" using Cons by (metis set_filter)
  have rec: "rec \<in> set (p # ps)" "list_all (\<lambda>x. quality x \<le> quality rec) (p # ps)"
    using py_max_spec [of quality p ps] by (auto simp: rec_def list_all_iff)
  have det: "det \<in> set (p # ps) \<and> (filter (detectable rec) (p # ps) \<noteq> [] \<longrightarrow> detectable rec det) \<and>
      list_all (\<lambda>x. quality det \<le> quality x)
        (if filter (detectable rec) (p # ps) = [] then p # ps else filter (detectable rec) (p # ps))"
  proof (cases "filter (detectable rec) (p # ps)")
    case Nil
    then have "det = py_min quality p ps" by (simp only: det_def list.case)
    then show ?thesis using py_min_spec [of quality p ps] Nil by (auto simp: list_all_iff)
  next
    case (Cons c cs)
    then have "det = py_min quality c cs" by (simp only: det_def list.case)
    then have best: "det \<in> set (c # cs)" "\<forall>x \<in> set (c # cs). quality det \<le> quality x"
      using py_min_spec [of quality c cs] by blast+
    have "set (c # cs) = {x \<in> set (p # ps). detectable rec x}" using Cons by (metis set_filter)
    with best(1) have "det \<in> set (p # ps)" "detectable rec det" by blast+
    then show ?thesis unfolding Cons list_all_iff if_not_P [OF list.distinct(2)] using best(2) by blast
  qed
  have tokens: "mp_token x = Some (the (mp_token x))" if "usable_profile x" for x
    using that by (auto simp: usable_profile_def present_def)
  have "select_stream_roles profiles = Some \<lparr>rol_record = the (mp_token rec), rol_detect = the (mp_token det)\<rparr>"
    unfolding select_stream_roles_def Cons Let_def rec_def det_def by simp
  then show ?thesis
    unfolding Cons using rec det sub tokens by (simp only: option.case stream_roles.simps Let_def) blast
qed

definition demo_profile :: media_profile where
  "demo_profile =
     \<lparr>mp_token = Some ''t'', mp_uri = Some ''rtsp:'', mp_encoding = Some ''h264'', mp_width = Some 640,
      mp_height = Some 480, mp_bitrate = None, mp_fps = None\<rparr>"

lemma demo_selects: "select_stream_roles [demo_profile] = Some \<lparr>rol_record = ''t'', rol_detect = ''t''\<rparr>"
  by code_simp

theorem roles_are_extremal_witness:
  "\<exists>det. det \<in> set [demo_profile] \<and> mp_token det = Some ''t'' \<and> detectable demo_profile det"
proof -
  have "detectable demo_profile demo_profile" "usable_profile demo_profile" by code_simp+
  then show ?thesis using roles_are_extremal [of "[demo_profile]"] by (auto simp: demo_selects Let_def)
qed

end
