(* ===== verification/IdentityStore.thy ===== *)
theory IdentityStore
  imports HealthProps Inventory
begin

text \<open>
  What is known of the device behind a camera (camadmiral/storage.py): the periods of one observed
  identity each, the link from a camera to a verified device, and the blocked devices. The
  comparison of identities and the choice of a linked candidate are camadmiral/camera_identity.py.
  A candidate is an inventory document.
\<close>

subsection \<open>Identities\<close>

definition some_text :: "string \<Rightarrow> string option" where
  "some_text s = (if s = [] then None else Some s)"

definition candidate_stable_identity :: "device \<Rightarrow> string option \<times> string option" where
  "candidate_stable_identity c =
     (some_text (ident_of (dsub c ''onvif'') ''endpoint_reference''), some_text (ident_of c ''mac''))"

definition candidate_identity :: "device \<Rightarrow> string option \<times> string option \<times> string option" where
  "candidate_identity c =
     (case candidate_stable_identity c of
        (onvif, mac) \<Rightarrow> (some_text (py_strip (text_of c ''ip'')), mac, onvif))"

definition physical_identity :: "device \<Rightarrow> string \<times> string" where
  "physical_identity c = (ident_of (dsub c ''onvif'') ''endpoint_reference'', ident_of c ''mac'')"

definition same_identity :: "device \<Rightarrow> device \<Rightarrow> bool" where
  "same_identity expected observed =
     (let (endpoint, mac) = physical_identity expected;
          (new_endpoint, new_mac) = physical_identity observed
      in if endpoint \<noteq> [] \<and> new_endpoint \<noteq> [] then endpoint = new_endpoint
         else mac \<noteq> [] \<and> new_mac \<noteq> [] \<and> mac = new_mac)"

subsection \<open>Periods of identity\<close>

definition period_identity :: "period_row \<Rightarrow> string option \<times> string option \<times> string option" where
  "period_identity p = (per_ip p, per_mac p, per_onvif p)"

definition period_open :: "period_row \<Rightarrow> bool" where
  "period_open p \<longleftrightarrow> per_ended p = None"

definition conflicting :: "string option \<Rightarrow> string option \<Rightarrow> bool" where
  "conflicting observed previous \<longleftrightarrow> observed \<noteq> None \<and> previous \<noteq> None \<and> observed \<noteq> previous"

definition enrich :: "string option \<Rightarrow> string option \<Rightarrow> string option" where
  "enrich observed previous = (case previous of None \<Rightarrow> observed | Some v \<Rightarrow> Some v)"

definition current_period :: "string \<Rightarrow> db \<Rightarrow> period_row option" where
  "current_period c d = find (\<lambda>p. per_camera p = c \<and> period_open p) (identity_periods d)"

definition start_period :: "string \<Rightarrow> string option \<times> string option \<times> string option \<Rightarrow> timestamp \<Rightarrow> db \<Rightarrow> db" where
  "start_period c identity t d =
     (case identity of (ip, mac, onvif) \<Rightarrow>
        let (u, d') = new_uuid d
        in d'\<lparr>identity_periods := identity_periods d' @
               [\<lparr>per_uuid = u, per_camera = c, per_ip = ip, per_mac = mac, per_onvif = onvif,
                 per_started = t, per_ended = None\<rparr>]\<rparr>)"

definition observe_identity :: "string \<Rightarrow> device \<Rightarrow> timestamp \<Rightarrow> db \<Rightarrow> bool \<times> db" where
  "observe_identity c candidate t d =
     (case candidate_identity candidate of (ip, mac, onvif) \<Rightarrow>
        if ip = None \<and> mac = None \<and> onvif = None then (False, d)
        else
          case current_period c d of
            Some p \<Rightarrow>
              if \<not> (conflicting ip (per_ip p) \<or> conflicting mac (per_mac p) \<or> conflicting onvif (per_onvif p))
              then
                let ip' = enrich ip (per_ip p); mac' = enrich mac (per_mac p); onvif' = enrich onvif (per_onvif p)
                in if (ip', mac', onvif') = period_identity p then (False, d)
                   else (True, d\<lparr>identity_periods := upd_where (\<lambda>r. per_uuid r = per_uuid p)
                          (\<lambda>r. r\<lparr>per_ip := ip', per_mac := mac', per_onvif := onvif'\<rparr>) (identity_periods d)\<rparr>)
              else
                (True, start_period c (ip, mac, onvif) t
                  (d\<lparr>identity_periods := upd_where (\<lambda>r. per_uuid r = per_uuid p)
                       (\<lambda>r. r\<lparr>per_ended := Some t\<rparr>) (identity_periods d)\<rparr>))
          | None \<Rightarrow> (True, start_period c (ip, mac, onvif) t d))"

definition observe_camera_identity :: "string \<Rightarrow> device \<Rightarrow> timestamp \<Rightarrow> db \<Rightarrow> bool \<times> db" where
  "observe_camera_identity c candidate t d =
     (if \<not> has_row (\<lambda>r. cam_uuid r = c) (cameras d) then (False, d)
      else observe_identity c candidate t d)"

fun observe_all ::
  "string list \<Rightarrow> (string \<times> device) list \<Rightarrow> timestamp \<Rightarrow> string list \<Rightarrow> nat \<Rightarrow> db \<Rightarrow> nat \<times> db" where
  "observe_all advance [] t initialized changes d = (changes, d)"
| "observe_all advance ((c, candidate) # rest) t initialized changes d =
     (if \<not> has_row (\<lambda>r. cam_uuid r = c) (cameras d) \<or> (c \<in> set initialized \<and> c \<notin> set advance)
      then observe_all advance rest t initialized changes d
      else
        case observe_identity c candidate t d of
          (True, d') \<Rightarrow> observe_all advance rest t (c # initialized) (Suc changes) d'
        | (False, d') \<Rightarrow> observe_all advance rest t initialized changes d')"

definition observe_inventory_identities ::
  "(string \<times> device) list \<Rightarrow> string list \<Rightarrow> timestamp \<Rightarrow> db \<Rightarrow> nat \<times> db" where
  "observe_inventory_identities observations advance t d =
     observe_all advance observations t
       (map per_camera (filter period_open (identity_periods d))) 0 d"

definition camera_identity_history :: "string \<Rightarrow> db \<Rightarrow> period_row list option" where
  "camera_identity_history c d =
     (if \<not> has_row (\<lambda>r. cam_uuid r = c) (cameras d) then None
      else Some (rev (sort_key (\<lambda>p. (per_started p, per_uuid p))
                   (filter (\<lambda>p. per_camera p = c) (identity_periods d)))))"

subsection \<open>Links to a verified device\<close>

definition camera_identity_link :: "string \<Rightarrow> db \<Rightarrow> device option" where
  "camera_identity_link c d = map_option lnk_payload (row_get lnk_camera c (identity_links d))"

definition known_identity :: "period_row \<Rightarrow> device" where
  "known_identity p =
     (let v = (\<lambda>x. case x of None \<Rightarrow> PNone | Some s \<Rightarrow> PStr s)
      in [(''onvif'', PDict [(''endpoint_reference'', v (per_onvif p))]), (''mac'', v (per_mac p))])"

definition keep_stable_identity :: "device \<Rightarrow> device \<Rightarrow> device" where
  "keep_stable_identity old candidate =
     (let (endpoint, mac) = candidate_stable_identity candidate;
          (old_endpoint, old_mac) = candidate_stable_identity old;
          v1 = (case (old_endpoint, endpoint) of
                  (Some e, None) \<Rightarrow>
                    dset ''onvif'' (PDict (dset ''endpoint_reference'' (PStr e) (dsub candidate ''onvif''))) candidate
                | _ \<Rightarrow> candidate)
      in case (old_mac, mac) of (Some m, None) \<Rightarrow> dset ''mac'' (PStr m) v1 | _ \<Rightarrow> v1)"

definition bind_camera_identity :: "string \<Rightarrow> device \<Rightarrow> timestamp \<Rightarrow> db \<Rightarrow> repo_error + db" where
  "bind_camera_identity c candidate t d =
     (let (endpoint, mac) = candidate_stable_identity candidate in
      if \<not> truthy (dget candidate ''candidate_uuid'') \<or> (endpoint = None \<and> mac = None)
         \<or> truthy (dget candidate ''identity_conflict'')
      then Inl (ValueError ''A unique verified device identity is required'')
      else if \<not> has_row (\<lambda>r. cam_uuid r = c) (cameras d) then Inl (ValueError ''Camera not found'')
      else if (case current_period c d of
                 None \<Rightarrow> False
               | Some p \<Rightarrow> (per_onvif p \<noteq> None \<or> per_mac p \<noteq> None)
                          \<and> \<not> same_identity (known_identity p) candidate)
        then Inl (ValueError ''The detected device differs from the observed camera identity'')
      else
        case camera_identity_link c d of
          Some old \<Rightarrow>
            if \<not> same_identity old candidate
            then Inl (ValueError ''The detected device differs from the saved camera identity'')
            else
              let value = keep_stable_identity old candidate
              in Inr (snd (observe_identity c value t
                   (d\<lparr>identity_links := row_put lnk_camera (\<lambda>r. r\<lparr>lnk_payload := value\<rparr>)
                        \<lparr>lnk_camera = c, lnk_payload = value\<rparr> (identity_links d)\<rparr>)))
        | None \<Rightarrow>
            Inr (snd (observe_identity c candidate t
                   (d\<lparr>identity_links := row_put lnk_camera (\<lambda>r. r\<lparr>lnk_payload := candidate\<rparr>)
                        \<lparr>lnk_camera = c, lnk_payload = candidate\<rparr> (identity_links d)\<rparr>))))"

text \<open>\<open>candidates\<close> is the dict of the inventory by candidate UUID.\<close>

definition linked_candidate :: "string \<Rightarrow> string \<Rightarrow> (string \<times> device) list \<Rightarrow> db \<Rightarrow> device option" where
  "linked_candidate c candidate_uuid candidates d =
     (case camera_identity_link c d of
        Some (kv # kvs) \<Rightarrow>
          let saved = kv # kvs;
              matches = filter (same_identity saved) (map snd candidates) in
          if length matches > 1 \<or> list_ex (\<lambda>x. truthy (dget x ''identity_conflict'')) matches then None
          else
            (case matches of
               [] \<Rightarrow> Some saved
             | current # _ \<Rightarrow>
                 if py_str (py_or (dget current ''last_service_seen'')
                      (py_or (dget current ''last_seen'') (PStr []))) \<ge> text_of saved ''last_seen''
                 then Some current else Some saved)
      | _ \<Rightarrow> map_of candidates candidate_uuid)"

subsection \<open>Blocked devices\<close>

definition block_matches :: "device \<Rightarrow> blocked_row \<Rightarrow> bool" where
  "block_matches candidate r =
     (let (onvif, mac) = candidate_stable_identity candidate
      in (onvif \<noteq> None \<and> blk_onvif r = onvif) \<or> (mac \<noteq> None \<and> blk_mac r = mac))"

definition blocked_device_for_candidate :: "device \<Rightarrow> db \<Rightarrow> blocked_row option" where
  "blocked_device_for_candidate candidate d =
     (case filter (block_matches candidate) (blocked_devices d) of
        [r] \<Rightarrow> Some r
      | _ \<Rightarrow> None)"

definition new_block :: "string \<Rightarrow> device \<Rightarrow> timestamp \<Rightarrow> blocked_row" where
  "new_block u candidate t =
     (let (onvif, mac) = candidate_stable_identity candidate
      in \<lparr>blk_uuid = u, blk_candidate = some_text (text_of candidate ''candidate_uuid''),
          blk_onvif = onvif, blk_mac = mac,
          blk_name = py_str (py_or (dget candidate ''display_name'')
                       (py_or (dget candidate ''ip'') (PStr ''Blocked device''))),
          blk_last_ip = some_text (text_of candidate ''ip''), blk_at = t, blk_updated = t\<rparr>)"

definition merge_block :: "blocked_row \<Rightarrow> blocked_row \<Rightarrow> blocked_row" where
  "merge_block new r =
     r\<lparr>blk_candidate := blk_candidate new, blk_onvif := coalesce (blk_onvif new) (blk_onvif r),
       blk_mac := coalesce (blk_mac new) (blk_mac r), blk_name := blk_name new,
       blk_last_ip := blk_last_ip new, blk_updated := blk_updated new\<rparr>"

definition block_candidate :: "device \<Rightarrow> timestamp \<Rightarrow> db \<Rightarrow> repo_error + blocked_row option \<times> db" where
  "block_candidate candidate t d =
     (if truthy (dget candidate ''identity_conflict'')
      then Inl (ValueError ''Camera has a conflicting stable identity'')
      else if candidate_stable_identity candidate = (None, None)
        then Inl (ValueError ''Camera has no stable ONVIF identity or MAC address'')
      else
        case filter (block_matches candidate) (blocked_devices d) of
          [] \<Rightarrow>
            (let (u, d1) = new_uuid d;
                 d2 = d1\<lparr>blocked_devices := blocked_devices d1 @ [new_block u candidate t]\<rparr>
             in Inr (blocked_device_for_candidate candidate d2, d2))
        | [r] \<Rightarrow>
            (let d2 = d\<lparr>blocked_devices := upd_where (\<lambda>x. blk_uuid x = blk_uuid r)
                          (merge_block (new_block (blk_uuid r) candidate t)) (blocked_devices d)\<rparr>
             in Inr (blocked_device_for_candidate candidate d2, d2))
        | _ \<Rightarrow> Inl (ValueError ''ONVIF identity and MAC match different blocked devices''))"

definition unblock_device :: "string \<Rightarrow> db \<Rightarrow> bool \<times> db" where
  "unblock_device u d =
     (length (filter (\<lambda>r. blk_uuid r = u) (blocked_devices d)) = 1,
      d\<lparr>blocked_devices := del_where (\<lambda>r. blk_uuid r = u) (blocked_devices d)\<rparr>)"

subsection \<open>Periods: at most one is open\<close>

definition periods_ok :: "db \<Rightarrow> bool" where
  "periods_ok d \<longleftrightarrow>
     inj (uuid_at d) \<and> uniq_on per_uuid (identity_periods d) \<and>
     uniq_on per_camera (filter period_open (identity_periods d)) \<and>
     per_uuid ` set (identity_periods d) \<subseteq> drawn d \<and>
     refs per_camera (identity_periods d) cam_uuid (cameras d) \<and>
     list_all (\<lambda>p. period_identity p \<noteq> (None, None, None)) (identity_periods d)"

definition open_periods :: "string \<Rightarrow> db \<Rightarrow> period_row list" where
  "open_periods c d = filter (\<lambda>p. per_camera p = c \<and> period_open p) (identity_periods d)"

lemma open_periods_one: "periods_ok d \<Longrightarrow> length (open_periods c d) \<le> 1"
  unfolding open_periods_def by (rule at_most_one) (simp add: periods_ok_def)

lemma current_open: "current_period c d = Some p \<Longrightarrow> p \<in> set (identity_periods d) \<and> per_camera p = c \<and> period_open p"
  by (auto simp: current_period_def find_Some_iff)

lemma current_none: "current_period c d = None \<Longrightarrow> open_periods c d = []"
  by (auto simp: current_period_def find_None_iff open_periods_def filter_empty_conv)

lemma start_period_eq:
  "identity_periods (start_period c (ip, mac, onvif) t d) = identity_periods d @
     [\<lparr>per_uuid = fst (new_uuid d), per_camera = c, per_ip = ip, per_mac = mac, per_onvif = onvif,
       per_started = t, per_ended = None\<rparr>]"
  "cameras (start_period c (ip, mac, onvif) t d) = cameras d"
  "uuid_at (start_period c (ip, mac, onvif) t d) = uuid_at d"
  "drawn (start_period c (ip, mac, onvif) t d) = insert (fst (new_uuid d)) (drawn d)"
  by (simp_all add: start_period_def new_uuid_def Let_def drawn_def lessThan_Suc)

lemma start_period_ok:
  assumes "periods_ok d" "open_periods c d = []" "c \<in> cam_uuid ` set (cameras d)"
    and "identity \<noteq> (None, None, None)"
  shows "periods_ok (start_period c identity t d)"
proof -
  obtain ip mac onvif where i: "identity = (ip, mac, onvif)" by (cases identity) auto
  have "fst (new_uuid d) \<notin> drawn d"
    using assms(1) new_uuid_fresh [of d] by (simp add: periods_ok_def new_uuid_def)
  then have "fst (new_uuid d) \<notin> per_uuid ` set (identity_periods d)" using assms(1) by (auto simp: periods_ok_def)
  moreover have "c \<notin> per_camera ` set (filter period_open (identity_periods d))"
    using assms(2) by (auto simp: open_periods_def filter_empty_conv)
  ultimately show ?thesis using assms(1,3,4) unfolding i periods_ok_def start_period_eq
    by (auto simp: period_identity_def period_open_def intro!: uniq_on_snoc refs_snoc)
qed

lemma periods_upd_ok:
  assumes "periods_ok d"
    and "\<And>r. P r \<Longrightarrow> per_uuid (f r) = per_uuid r \<and> per_camera (f r) = per_camera r \<and> (period_open (f r) \<longrightarrow> period_open r)"
    and "\<And>r. r \<in> set (identity_periods d) \<Longrightarrow> P r \<Longrightarrow> period_identity (f r) \<noteq> (None, None, None)"
  shows "periods_ok (d\<lparr>identity_periods := upd_where P f (identity_periods d)\<rparr>)"
proof -
  have "drawn (d\<lparr>identity_periods := x\<rparr>) = drawn d" for x by (simp add: drawn_def)
  then show ?thesis using assms
    by (auto simp: periods_ok_def image_upd_where list_all_iff set_upd_where
        intro!: uniq_on_upd_where uniq_filter_upd refs_upd_where)
qed

lemma closed_other:
  assumes "periods_ok d" "current_period c d = Some p"
  shows "open_periods c' (d\<lparr>identity_periods := upd_where (\<lambda>r. per_uuid r = per_uuid p)
      (\<lambda>r. r\<lparr>per_ended := Some t\<rparr>) (identity_periods d)\<rparr>) = (if c' = c then [] else open_periods c' d)"
proof -
  have p: "p \<in> set (identity_periods d)" "per_camera p = c" "period_open p"
    using current_open [OF assms(2)] by auto
  have eq: "open_periods c' (d\<lparr>identity_periods := upd_where (\<lambda>r. per_uuid r = per_uuid p)
      (\<lambda>r. r\<lparr>per_ended := Some t\<rparr>) (identity_periods d)\<rparr>) =
      filter (\<lambda>r. (per_camera r = c' \<and> period_open r) \<and> \<not> per_uuid r = per_uuid p) (identity_periods d)"
    unfolding open_periods_def by (simp add: filter_upd_false period_open_def)
  have same: "r = p" if "r \<in> set (identity_periods d)" "per_uuid r = per_uuid p" for r
    using that p(1) assms(1) by (auto simp: periods_ok_def dest: uniq_on_same)
  have only: "r = p" if "r \<in> set (identity_periods d)" "per_camera r = c" "period_open r" for r
    using that p assms(1) uniq_on_same [of per_camera "filter period_open (identity_periods d)" r p]
    by (auto simp: periods_ok_def)
  show ?thesis
  proof (cases "c' = c")
    case True
    then show ?thesis unfolding eq using only by (auto simp: filter_empty_conv)
  next
    case False
    have "filter (\<lambda>r. (per_camera r = c' \<and> period_open r) \<and> \<not> per_uuid r = per_uuid p) (identity_periods d) =
        open_periods c' d"
      unfolding open_periods_def using same p(2) False by (auto intro!: filter_cong)
    then show ?thesis unfolding eq using False by simp
  qed
qed

definition agrees :: "string option \<Rightarrow> string option \<Rightarrow> bool" where
  "agrees observed known \<longleftrightarrow> observed = None \<or> known = observed"

definition period_after ::
  "period_row option \<Rightarrow> string option \<times> string option \<times> string option \<Rightarrow> timestamp \<Rightarrow> period_row \<Rightarrow> bool" where
  "period_after before identity t p' \<longleftrightarrow>
     (case identity of (ip, mac, onvif) \<Rightarrow>
        case before of
          None \<Rightarrow> period_identity p' = identity \<and> per_started p' = t
        | Some p \<Rightarrow>
            if conflicting ip (per_ip p) \<or> conflicting mac (per_mac p) \<or> conflicting onvif (per_onvif p)
            then period_identity p' = identity \<and> per_started p' = t
            else per_uuid p' = per_uuid p \<and> per_started p' = per_started p \<and>
                 period_identity p' = (enrich ip (per_ip p), enrich mac (per_mac p), enrich onvif (per_onvif p)))"

lemma enrich_agrees: "\<not> conflicting x y \<Longrightarrow> agrees x (enrich x y)"
  by (auto simp: conflicting_def agrees_def enrich_def split: option.splits)

lemma period_after_agrees:
  "period_after before (ip, mac, onvif) t p' \<Longrightarrow>
   agrees ip (per_ip p') \<and> agrees mac (per_mac p') \<and> agrees onvif (per_onvif p')"
  by (auto simp: period_after_def period_identity_def agrees_def split: option.splits if_splits
      dest: enrich_agrees)

lemma open_periods_start:
  "open_periods c' (start_period c (ip, mac, onvif) t d) = open_periods c' d @
     (if c' = c then [\<lparr>per_uuid = fst (new_uuid d), per_camera = c, per_ip = ip, per_mac = mac,
        per_onvif = onvif, per_started = t, per_ended = None\<rparr>] else [])"
  unfolding open_periods_def start_period_eq by (simp add: period_open_def)

lemma open_periods_current:
  assumes "periods_ok d" "current_period c d = Some p"
  shows "open_periods c d = [p]"
proof -
  have "p \<in> set (open_periods c d)" using current_open [OF assms(2)] by (simp add: open_periods_def)
  then show ?thesis using open_periods_one [OF assms(1), of c] by (cases "open_periods c d") auto
qed

lemma touched_open:
  assumes "periods_ok d" "current_period c d = Some p" "per_camera p = c"
    and f: "\<And>r. per_camera (f r) = per_camera r \<and> per_ended (f r) = per_ended r"
  shows "open_periods c' (d\<lparr>identity_periods := upd_where (\<lambda>r. per_uuid r = per_uuid p) f (identity_periods d)\<rparr>) =
    (if c' = c then [f p] else open_periods c' d)"
proof -
  have p: "p \<in> set (identity_periods d)" "per_camera p = c" "period_open p"
    using current_open [OF assms(2)] by auto
  have one: "open_periods c d = [p]" using assms(1,2) by (rule open_periods_current)
  have upd: "open_periods c' (d\<lparr>identity_periods := upd_where P f (identity_periods d)\<rparr>) =
      upd_where P f (open_periods c' d)" for P
    unfolding open_periods_def by (induction "identity_periods d" arbitrary: d)
      (auto simp: upd_where_def period_open_def f filter_map comp_def intro!: arg_cong [where f = "map _"] filter_cong)
  have same: "r = p" if "r \<in> set (identity_periods d)" "per_uuid r = per_uuid p" for r
    using that p(1) assms(1) by (auto simp: periods_ok_def dest: uniq_on_same)
  show ?thesis
  proof (cases "c' = c")
    case True
    then show ?thesis unfolding upd by (simp add: one)
  next
    case False
    then have "\<not> per_uuid r = per_uuid p" if "r \<in> set (open_periods c' d)" for r
      using that same p(2) by (auto simp: open_periods_def)
    with False show ?thesis unfolding upd by (simp add: upd_where_id)
  qed
qed

lemma observe_outcome:
  assumes ok: "periods_ok d" and known: "c \<in> cam_uuid ` set (cameras d)"
    and ident: "candidate_identity candidate = (ip, mac, onvif)" "(ip, mac, onvif) \<noteq> (None, None, None)"
  shows "\<exists>p'. open_periods c (snd (observe_identity c candidate t d)) = [p'] \<and>
      period_after (current_period c d) (ip, mac, onvif) t p' \<and>
      periods_ok (snd (observe_identity c candidate t d)) \<and>
      (\<forall>c'. c' \<noteq> c \<longrightarrow> open_periods c' (snd (observe_identity c candidate t d)) = open_periods c' d)"
proof (cases "current_period c d")
  case None
  then have eq: "observe_identity c candidate t d = (True, start_period c (ip, mac, onvif) t d)"
    using ident by (auto simp: observe_identity_def)
  show ?thesis unfolding eq
    using None start_period_ok [OF ok current_none [OF None] known ident(2)] current_none [OF None]
    by (auto simp: open_periods_start period_after_def period_identity_def)
next
  case (Some p)
  note cur = current_open [OF Some]
  let ?conflict = "conflicting ip (per_ip p) \<or> conflicting mac (per_mac p) \<or> conflicting onvif (per_onvif p)"
  show ?thesis
  proof (cases ?conflict)
    case True
    let ?d = "d\<lparr>identity_periods := upd_where (\<lambda>r. per_uuid r = per_uuid p) (\<lambda>r. r\<lparr>per_ended := Some t\<rparr>)
      (identity_periods d)\<rparr>"
    have eq: "observe_identity c candidate t d = (True, start_period c (ip, mac, onvif) t ?d)"
      using True Some ident by (auto simp: observe_identity_def)
    have okd: "periods_ok ?d"
      using ok by (intro periods_upd_ok) (auto simp: period_open_def period_identity_def periods_ok_def list_all_iff)
    have closed: "open_periods c ?d = []" using closed_other [OF ok Some, of c t] by simp
    have "periods_ok (start_period c (ip, mac, onvif) t ?d)"
      by (rule start_period_ok [OF okd closed _ ident(2)]) (use known in simp)
    then show ?thesis unfolding eq using closed True Some closed_other [OF ok Some, of _ t]
      by (simp add: open_periods_start period_after_def period_identity_def)
  next
    case False
    define f :: "period_row \<Rightarrow> period_row" where "f = (\<lambda>r. r\<lparr>per_ip := enrich ip (per_ip p), per_mac := enrich mac (per_mac p),
        per_onvif := enrich onvif (per_onvif p)\<rparr>)"
    let ?d = "d\<lparr>identity_periods := upd_where (\<lambda>r. per_uuid r = per_uuid p) f (identity_periods d)\<rparr>"
    have obs: "snd (observe_identity c candidate t d) = ?d \<or>
        snd (observe_identity c candidate t d) = d \<and>
        (enrich ip (per_ip p), enrich mac (per_mac p), enrich onvif (per_onvif p)) = period_identity p"
    proof (cases "(enrich ip (per_ip p), enrich mac (per_mac p), enrich onvif (per_onvif p)) = period_identity p")
      case True
      then have "observe_identity c candidate t d = (False, d)"
        using False Some ident unfolding observe_identity_def Let_def ident(1) by simp
      with True show ?thesis by simp
    next
      case changed: False
      then have "observe_identity c candidate t d = (True, ?d)"
        using False Some ident unfolding observe_identity_def Let_def ident(1) f_def by simp
      then show ?thesis by simp
    qed
    have after: "period_after (current_period c d) (ip, mac, onvif) t (f p)"
      using False Some by (simp add: period_after_def f_def period_identity_def)
    have fid: "period_identity (f r) \<noteq> (None, None, None)" for r
      using ident(2) by (auto simp: f_def period_identity_def enrich_def split: option.splits)
    have "periods_ok ?d"
      using ok by (rule periods_upd_ok) (use fid in \<open>auto simp: f_def period_open_def\<close>)
    moreover have opn: "open_periods c' ?d = (if c' = c then [f p] else open_periods c' d)" for c'
      using cur by (intro touched_open [OF ok Some]) (auto simp: f_def)
    moreover have "open_periods c d = [p]" and "p = f p"
      if "(enrich ip (per_ip p), enrich mac (per_mac p), enrich onvif (per_onvif p)) = period_identity p"
    proof -
      show "p = f p" using that by (simp add: f_def period_identity_def)
      show "open_periods c d = [p]"
        using ok Some by (rule open_periods_current)
    qed
    ultimately show ?thesis using obs after ok by (elim disjE conjE) (simp, metis)
  qed
qed

text \<open>
  An observation of a known camera leaves it exactly one open period, whose known values agree
  with the observation. Missing values are filled in and none is forgotten as long as nothing
  contradicts; two different known values close the period and start a new one at that moment. Other
  cameras' periods and the constraints of the table are kept.
\<close>

theorem identity_period_outcome:
  assumes "periods_ok d" and "c \<in> cam_uuid ` set (cameras d)"
    and "candidate_identity candidate = (ip, mac, onvif)" and "(ip, mac, onvif) \<noteq> (None, None, None)"
  shows "\<exists>p'. open_periods c (snd (observe_camera_identity c candidate t d)) = [p'] \<and>
    period_after (current_period c d) (ip, mac, onvif) t p' \<and>
    agrees ip (per_ip p') \<and> agrees mac (per_mac p') \<and> agrees onvif (per_onvif p') \<and>
    periods_ok (snd (observe_camera_identity c candidate t d)) \<and>
    (\<forall>c'. c' \<noteq> c \<longrightarrow> open_periods c' (snd (observe_camera_identity c candidate t d)) = open_periods c' d)"
  using observe_outcome [OF assms, of t] period_after_agrees [of _ ip mac onvif t] assms(2)
  by (simp add: observe_camera_identity_def has_row_key) metis

definition demo_candidate :: device where
  "demo_candidate = [(''candidate_uuid'', PStr ''k1''), (''ip'', PStr ''10.0.0.2''), (''mac'', PStr ''aa'')]"

lemma demo_candidate_identity: "candidate_identity demo_candidate = (Some ''10.0.0.2'', Some ''aa'', None)"
  by code_simp

theorem identity_period_outcome_witness:
  "\<exists>p'. open_periods ''c1'' (snd (observe_camera_identity ''c1'' demo_candidate 5 demo_db)) = [p'] \<and>
     agrees (Some ''aa'') (per_mac p')"
proof -
  have "periods_ok demo_db" "''c1'' \<in> cam_uuid ` set (cameras demo_db)"
    using demo_supply_ok by (simp_all add: demo_simps periods_ok_def uuid_supply_ok_def)
  from identity_period_outcome [OF this demo_candidate_identity, of 5] show ?thesis by auto
qed

subsection \<open>A link stays on its device\<close>

lemma space_lower: "py_space (lower_char c) = py_space c"
proof -
  have n: "(of_char c :: nat) < 256" by simp
  have "of_char (lower_char c) = lower_code (of_char c)"
    using lower_code_bound [OF n] by (simp add: lower_char_def)
  then show ?thesis by (auto simp: py_space_def Let_def lower_code_def)
qed

lemma strip_lower: "py_strip (py_lower s) = py_lower (py_strip s)"
  by (simp add: py_strip_def py_rstrip_def py_lstrip_def py_lower_def dropWhile_map rev_map space_lower comp_def)

lemma ident_fixed: "py_lower (py_strip (ident_of c k)) = ident_of c k"
  by (simp add: ident_of_def strip_lower)

lemma observe_links [simp]: "identity_links (snd (observe_identity c x t d)) = identity_links d"
  by (auto simp: observe_identity_def start_period_def new_uuid_def Let_def split: option.splits prod.splits)

lemma ident_of_set [simp]: "ident_of (dset k (PStr s) x) k = py_lower (py_strip s)"
  by (cases "s = []") (simp_all add: ident_of_def text_of_def py_or_def)

lemma ident_of_set_other [simp]: "j \<noteq> k \<Longrightarrow> ident_of (dset k v x) j = ident_of x j"
  by (simp add: ident_of_def text_of_def)

lemma dsub_dset [simp]:
  "dsub (dset k (PDict e) x) k = e" "j \<noteq> k \<Longrightarrow> dsub (dset k v x) j = dsub x j"
  by (simp_all add: dsub_def)

lemma stable_identity_physical:
  "candidate_stable_identity c = (some_text (fst (physical_identity c)), some_text (snd (physical_identity c)))"
  by (simp add: candidate_stable_identity_def physical_identity_def)

lemma keep_stable_physical:
  "physical_identity (keep_stable_identity old candidate) =
   (if fst (physical_identity candidate) = [] then fst (physical_identity old) else fst (physical_identity candidate),
    if snd (physical_identity candidate) = [] then snd (physical_identity old) else snd (physical_identity candidate))"
  by (auto simp: keep_stable_identity_def candidate_stable_identity_def physical_identity_def some_text_def
      Let_def ident_fixed split: if_splits)

text \<open>
  Binding a camera that is linked already succeeds only for the same device, and the saved link
  never turns to another one: an ONVIF identity once known stays, and so does a known MAC
  address as long as both sides have no ONVIF identity to compare. What the new document lacks is taken
  from the old link.
\<close>

theorem bind_keeps_device:
  assumes "bind_camera_identity c candidate t d = Inr d'" and "camera_identity_link c d = Some old"
  shows "\<exists>v. camera_identity_link c d' = Some v \<and> same_identity old candidate \<and> same_identity old v \<and>
    (fst (physical_identity old) \<noteq> [] \<longrightarrow> fst (physical_identity v) = fst (physical_identity old)) \<and>
    (snd (physical_identity old) \<noteq> [] \<and>
       (fst (physical_identity old) = [] \<or> fst (physical_identity candidate) = []) \<longrightarrow>
     snd (physical_identity v) = snd (physical_identity old))"
proof -
  let ?v = "keep_stable_identity old candidate"
  let ?put = "row_put lnk_camera (\<lambda>r. r\<lparr>lnk_payload := ?v\<rparr>) \<lparr>lnk_camera = c, lnk_payload = ?v\<rparr> (identity_links d)"
  have same: "same_identity old candidate"
    and d': "d' = snd (observe_identity c ?v t (d\<lparr>identity_links := ?put\<rparr>))"
    using assms by (auto simp: bind_camera_identity_def Let_def split: prod.splits if_splits)
  have key: "keeps_key lnk_camera (\<lambda>r. r\<lparr>lnk_payload := ?v\<rparr>)" by (simp add: keeps_key_def)
  obtain z where "row_get lnk_camera c (identity_links d) = Some z"
    using assms(2) by (auto simp: camera_identity_link_def)
  then have "row_get lnk_camera c ?put = Some (z\<lparr>lnk_payload := ?v\<rparr>)"
    using row_get_put [OF key, of c "\<lparr>lnk_camera = c, lnk_payload = ?v\<rparr>" "identity_links d"] by simp
  then have link: "camera_identity_link c d' = Some ?v"
    by (simp add: camera_identity_link_def d')
  have "same_identity old ?v"
    using same by (auto simp: same_identity_def keep_stable_physical case_prod_unfold Let_def split: if_splits)
  with link same show ?thesis
    by (auto simp: same_identity_def keep_stable_physical case_prod_unfold Let_def split: if_splits)
qed

theorem bind_keeps_device_witness:
  "\<exists>d' v. bind_camera_identity ''c1'' demo_candidate 5
       (demo_db\<lparr>identity_links := [\<lparr>lnk_camera = ''c1'', lnk_payload = demo_candidate\<rparr>]\<rparr>) = Inr d' \<and>
     camera_identity_link ''c1'' d' = Some v \<and> same_identity demo_candidate v"
proof -
  let ?d = "demo_db\<lparr>identity_links := [\<lparr>lnk_camera = ''c1'', lnk_payload = demo_candidate\<rparr>]\<rparr>"
  have same: "same_identity demo_candidate demo_candidate" by code_simp
  have stable: "candidate_stable_identity demo_candidate = (None, Some ''aa'')" by code_simp
  have "truthy (dget demo_candidate ''candidate_uuid'')" "\<not> truthy (dget demo_candidate ''identity_conflict'')"
    by (simp_all add: demo_candidate_def dget_def)
  moreover have "has_row (\<lambda>r. cam_uuid r = ''c1'') (cameras ?d)" "current_period ''c1'' ?d = None"
    by (simp_all add: demo_simps has_row_def current_period_def)
  moreover have link: "camera_identity_link ''c1'' ?d = Some demo_candidate"
    by (simp add: camera_identity_link_def row_get_def)
  ultimately have "bind_camera_identity ''c1'' demo_candidate 5 ?d \<noteq> Inl e" for e
    unfolding bind_camera_identity_def stable Let_def prod.case using same by simp
  then obtain d' where d': "bind_camera_identity ''c1'' demo_candidate 5 ?d = Inr d'"
    by (cases "bind_camera_identity ''c1'' demo_candidate 5 ?d") auto
  from bind_keeps_device [OF this link] d' show ?thesis by blast
qed

subsection \<open>Blocking\<close>

definition blocks_ok :: "db \<Rightarrow> bool" where
  "blocks_ok d \<longleftrightarrow>
     inj (uuid_at d) \<and> uniq_on blk_uuid (blocked_devices d) \<and> blk_uuid ` set (blocked_devices d) \<subseteq> drawn d \<and>
     uniq_on blk_onvif (filter (\<lambda>r. blk_onvif r \<noteq> None) (blocked_devices d)) \<and>
     uniq_on blk_mac (filter (\<lambda>r. blk_mac r \<noteq> None) (blocked_devices d))"

lemma uniq_filter_merge:
  assumes "uniq_on h (filter (\<lambda>r. h r \<noteq> None) t)" and "uniq_on k t" and "r \<in> set t"
    and "\<And>x. x \<in> set t \<Longrightarrow> x \<noteq> r \<Longrightarrow> h r' \<noteq> None \<Longrightarrow> h x \<noteq> h r'" and "k r = u"
  shows "uniq_on h (filter (\<lambda>r. h r \<noteq> None) (upd_where (\<lambda>x. k x = u) (\<lambda>_. r') t))"
  using assms
proof (induction t)
  case (Cons x t)
  show ?case
  proof (cases "k x = u")
    case True
    then have "x = r" using Cons.prems(2,3,5) by (auto simp: uniq_on_def) (metis image_eqI)
    then have notin: "r \<notin> set t" "\<forall>y \<in> set t. k y \<noteq> u"
      using Cons.prems(2) True \<open>x = r\<close> by (auto simp: uniq_on_def) (metis image_eqI)
    then have "upd_where (\<lambda>x. k x = u) (\<lambda>_. r') t = t" by (intro upd_where_id) auto
    moreover have "h r' \<notin> h ` set (filter (\<lambda>r. h r \<noteq> None) t)" if "h r' \<noteq> None"
      using Cons.prems(4) notin(1) that by fastforce
    ultimately show ?thesis using True Cons.prems(1) by (auto simp: uniq_on_def split: if_splits)
  next
    case False
    then have "x \<noteq> r" using Cons.prems(5) by auto
    then have "uniq_on h (filter (\<lambda>r. h r \<noteq> None) (upd_where (\<lambda>x. k x = u) (\<lambda>_. r') t))"
      using Cons by (auto simp: uniq_on_def split: if_splits)
    moreover have "h x \<notin> h ` set (filter (\<lambda>r. h r \<noteq> None) (upd_where (\<lambda>x. k x = u) (\<lambda>_. r') t))"
      if "h x \<noteq> None"
      using that Cons.prems(1) Cons.prems(4) [of x] \<open>x \<noteq> r\<close>
      by (auto simp: uniq_on_def set_upd_where split: if_splits)
    ultimately show ?thesis using False by (auto simp: uniq_on_def)
  qed
qed simp

lemma stable_unique:
  assumes "filter (block_matches candidate) t = ms" "candidate_stable_identity candidate = (onvif, mac)" "x \<in> set t"
  shows "onvif \<noteq> None \<and> blk_onvif x = onvif \<or> mac \<noteq> None \<and> blk_mac x = mac \<Longrightarrow> x \<in> set ms"
  using assms by (auto simp: block_matches_def)

lemma blocks_add:
  assumes "blocks_ok d" "filter (block_matches candidate) (blocked_devices d) = []"
  shows "blocks_ok ((snd (new_uuid d))\<lparr>blocked_devices := blocked_devices d @ [new_block (fst (new_uuid d)) candidate t]\<rparr>)"
proof -
  obtain onvif mac where s: "candidate_stable_identity candidate = (onvif, mac)"
    by (cases "candidate_stable_identity candidate")
  have r: "blk_uuid (new_block u candidate t) = u" "blk_onvif (new_block u candidate t) = onvif"
    "blk_mac (new_block u candidate t) = mac" for u by (simp_all add: new_block_def s)
  have none: "\<not> (onvif \<noteq> None \<and> blk_onvif x = onvif)" "\<not> (mac \<noteq> None \<and> blk_mac x = mac)"
    if "x \<in> set (blocked_devices d)" for x
    using stable_unique [OF assms(2) s that] by auto
  have fresh: "fst (new_uuid d) \<notin> drawn d"
    using assms(1) new_uuid_fresh [of d] by (simp add: blocks_ok_def new_uuid_def)
  have dr: "drawn ((snd (new_uuid d))\<lparr>blocked_devices := b\<rparr>) = insert (fst (new_uuid d)) (drawn d)" for b
    by (simp add: new_uuid_def drawn_def lessThan_Suc)
  have blk: "blocked_devices (snd (new_uuid d)) = blocked_devices d" by (simp add: new_uuid_def)
  have "fst (new_uuid d) \<notin> blk_uuid ` set (blocked_devices d)" using fresh assms(1) by (auto simp: blocks_ok_def)
  moreover have "onvif \<noteq> None \<Longrightarrow> onvif \<notin> blk_onvif ` set (filter (\<lambda>r. blk_onvif r \<noteq> None) (blocked_devices d))"
    using none(1) by fastforce
  moreover have "mac \<noteq> None \<Longrightarrow> mac \<notin> blk_mac ` set (filter (\<lambda>r. blk_mac r \<noteq> None) (blocked_devices d))"
    using none(2) by fastforce
  ultimately show ?thesis using assms(1) unfolding blocks_ok_def dr
    by (auto simp: r intro!: uniq_on_snoc)
qed

lemma merge_block_matches:
  "candidate_stable_identity candidate \<noteq> (None, None) \<Longrightarrow>
   block_matches candidate (merge_block (new_block u candidate t) r)"
  by (cases "candidate_stable_identity candidate")
    (auto simp: block_matches_def merge_block_def new_block_def coalesce_def split: option.splits)

lemma filter_singleD: "filter P t = [r] \<Longrightarrow> r \<in> set t \<and> P r"
  by (auto simp: filter_eq_Cons_iff)

lemma filter_upd_single:
  assumes "filter P t = [r]" "uniq_on k t" "P r'" "k r' = k r"
  shows "filter P (upd_where (\<lambda>x. k x = k r) (\<lambda>_. r') t) = [r']"
  using assms
proof (induction t)
  case (Cons x t)
  show ?case
  proof (cases "P x")
    case True
    then have x: "x = r" "filter P t = []" using Cons.prems(1) by auto
    then have "\<forall>y \<in> set t. k y \<noteq> k r" using Cons.prems(2) by (auto simp: uniq_on_def) (metis image_eqI)
    then have "upd_where (\<lambda>x. k x = k r) (\<lambda>_. r') t = t" by (intro upd_where_id) auto
    then show ?thesis using x Cons.prems(3) by simp
  next
    case False
    then have rest: "filter P t = [r]" using Cons.prems(1) by simp
    then have "r \<in> set t" using filter_singleD [OF rest] by blast
    then have "k x \<noteq> k r" using Cons.prems(2) by (auto simp: uniq_on_def)
    with False rest Cons show ?thesis by (simp add: uniq_on_def)
  qed
qed simp

lemma upd_where_const:
  assumes "uniq_on k t" "r \<in> set t"
  shows "upd_where (\<lambda>x. k x = k r) f t = upd_where (\<lambda>x. k x = k r) (\<lambda>_. f r) t"
  by (rule upd_where_cong) (use assms in \<open>auto dest: uniq_on_same [of k]\<close>)

lemma blocks_merge:
  assumes ok: "blocks_ok d" and one: "filter (block_matches candidate) (blocked_devices d) = [r]"
  shows "blocks_ok (d\<lparr>blocked_devices := upd_where (\<lambda>x. blk_uuid x = blk_uuid r)
      (\<lambda>_. merge_block (new_block (blk_uuid r) candidate t) r) (blocked_devices d)\<rparr>)"
proof -
  let ?r = "merge_block (new_block (blk_uuid r) candidate t) r"
  obtain onvif mac where s: "candidate_stable_identity candidate = (onvif, mac)"
    by (cases "candidate_stable_identity candidate")
  have r: "r \<in> set (blocked_devices d)" using filter_singleD [OF one] by blast
  have sel: "blk_uuid ?r = blk_uuid r" "blk_onvif ?r = coalesce onvif (blk_onvif r)"
    "blk_mac ?r = coalesce mac (blk_mac r)" by (simp_all add: merge_block_def new_block_def s)
  have u: "uniq_on blk_uuid (blocked_devices d)"
    "uniq_on blk_onvif (filter (\<lambda>r. blk_onvif r \<noteq> None) (blocked_devices d))"
    "uniq_on blk_mac (filter (\<lambda>r. blk_mac r \<noteq> None) (blocked_devices d))" using ok by (auto simp: blocks_ok_def)
  have "blk_onvif x \<noteq> blk_onvif ?r" if "x \<in> set (blocked_devices d)" "x \<noteq> r" "blk_onvif ?r \<noteq> None" for x
    using that stable_unique [OF one s that(1)] uniq_on_same [OF u(2), of x r] r
    by (auto simp: sel coalesce_def split: option.splits)
  moreover have "blk_mac x \<noteq> blk_mac ?r" if "x \<in> set (blocked_devices d)" "x \<noteq> r" "blk_mac ?r \<noteq> None" for x
    using that stable_unique [OF one s that(1)] uniq_on_same [OF u(3), of x r] r
    by (auto simp: sel coalesce_def split: option.splits)
  moreover have "blk_uuid ` set (upd_where (\<lambda>x. blk_uuid x = blk_uuid r) (\<lambda>_. ?r) (blocked_devices d))
      = blk_uuid ` set (blocked_devices d)"
    using sel(1) by (intro image_upd_where) simp
  moreover have "drawn (d\<lparr>blocked_devices := b\<rparr>) = drawn d" for b by (simp add: drawn_def)
  moreover have "uniq_on blk_uuid (upd_where (\<lambda>x. blk_uuid x = blk_uuid r) (\<lambda>_. ?r) (blocked_devices d))"
    using u(1) sel(1) by (intro uniq_on_upd_where) simp_all
  ultimately show ?thesis
    using ok uniq_filter_merge [OF u(2,1) r, of ?r "blk_uuid r"] uniq_filter_merge [OF u(3,1) r, of ?r "blk_uuid r"]
    by (simp add: blocks_ok_def)
qed

text \<open>
  Blocking a device fails only for a conflicting or missing identity or two matching entries;
  otherwise exactly one entry then matches the device, it is the one returned, and no two entries
  share an ONVIF identity or a MAC address.
\<close>

theorem block_then_found:
  assumes "blocks_ok d"
  shows "case block_candidate candidate t d of
      Inl _ \<Rightarrow> truthy (dget candidate ''identity_conflict'') \<or> candidate_stable_identity candidate = (None, None)
        \<or> 2 \<le> length (filter (block_matches candidate) (blocked_devices d))
    | Inr (found, d') \<Rightarrow> \<exists>b. found = Some b \<and> filter (block_matches candidate) (blocked_devices d') = [b] \<and>
        blk_updated b = t \<and> blocks_ok d'"
proof (cases "truthy (dget candidate ''identity_conflict'') \<or> candidate_stable_identity candidate = (None, None)")
  case True
  then show ?thesis by (auto simp: block_candidate_def)
next
  case False
  then have guards: "\<not> truthy (dget candidate ''identity_conflict'')"
    "candidate_stable_identity candidate \<noteq> (None, None)" by auto
  show ?thesis
  proof (cases "filter (block_matches candidate) (blocked_devices d)")
    case Nil
    let ?b = "new_block (fst (new_uuid d)) candidate t"
    have "block_matches candidate ?b" using guards(2)
      by (cases "candidate_stable_identity candidate") (auto simp: block_matches_def new_block_def)
    moreover have "blocked_devices (snd (new_uuid d)) = blocked_devices d" by (simp add: new_uuid_def)
    moreover have "blk_updated ?b = t" by (simp add: new_block_def case_prod_unfold Let_def)
    ultimately show ?thesis using guards Nil blocks_add [OF assms Nil, of t]
      by (simp add: block_candidate_def case_prod_unfold Let_def blocked_device_for_candidate_def)
  next
    case (Cons r rs)
    show ?thesis
    proof (cases rs)
      case Nil
      then have one: "filter (block_matches candidate) (blocked_devices d) = [r]" using Cons by simp
      let ?r = "merge_block (new_block (blk_uuid r) candidate t) r"
      have u: "uniq_on blk_uuid (blocked_devices d)" using assms by (simp add: blocks_ok_def)
      have r: "r \<in> set (blocked_devices d)" using filter_singleD [OF one] by blast
      note upd = upd_where_const [OF u r, of "merge_block (new_block (blk_uuid r) candidate t)"]
      have "blk_uuid ?r = blk_uuid r" "blk_updated ?r = t"
        by (simp_all add: merge_block_def new_block_def case_prod_unfold Let_def)
      moreover from filter_upd_single [OF one u merge_block_matches [OF guards(2)] this(1)]
      have "filter (block_matches candidate) (upd_where (\<lambda>x. blk_uuid x = blk_uuid r) (\<lambda>_. ?r) (blocked_devices d)) = [?r]" .
      ultimately show ?thesis using guards one blocks_merge [OF assms one, of t] upd
        by (simp add: block_candidate_def Let_def blocked_device_for_candidate_def)
    next
      case (Cons s ss)
      with \<open>filter (block_matches candidate) (blocked_devices d) = r # rs\<close> guards
      show ?thesis by (simp add: block_candidate_def)
    qed
  qed
qed

theorem block_then_found_witness:
  "\<exists>b d'. block_candidate demo_candidate 5 demo_db = Inr (Some b, d') \<and> blk_mac b = Some ''aa''"
proof -
  have ok: "blocks_ok demo_db" using demo_supply_ok by (simp add: demo_simps blocks_ok_def uuid_supply_ok_def)
  have stable: "candidate_stable_identity demo_candidate = (None, Some ''aa'')" by code_simp
  have "\<not> truthy (dget demo_candidate ''identity_conflict'')" "blocked_devices demo_db = []"
    by (simp_all add: demo_candidate_def dget_def demo_simps)
  then obtain found d' where b: "block_candidate demo_candidate 5 demo_db = Inr (found, d')"
    using stable by (simp add: block_candidate_def case_prod_unfold Let_def)
  then obtain x where "found = Some x" "filter (block_matches demo_candidate) (blocked_devices d') = [x]"
    using block_then_found [OF ok, of demo_candidate 5] by auto
  moreover have "block_matches demo_candidate x" using calculation(2) by (metis filter_eq_ConsD)
  ultimately show ?thesis using b stable by (auto simp: block_matches_def)
qed

end
