(* ===== verification/Url.thy ===== *)
theory Url
  imports Net
begin

text \<open>
  \<open>urllib.parse.urlsplit\<close>, the attributes of its result and \<open>urlunsplit\<close>, as the program uses
  them, and the helpers of camadmiral/storage.py that take an RTSP source apart and put it together.
  \<open>None\<close> is a \<open>ValueError\<close>. \<open>_checknetloc\<close> never raises for code points below 256.
\<close>

record url =
  url_scheme :: string
  url_netloc :: string
  url_path :: string
  url_query :: string
  url_fragment :: string

subsection \<open>IPv6 literals\<close>

definition is_hex :: "char \<Rightarrow> bool" where
  "is_hex c = (let n = of_char c :: nat in
     48 \<le> n \<and> n \<le> 57 \<or> 65 \<le> n \<and> n \<le> 70 \<or> 97 \<le> n \<and> n \<le> 102)"

definition hextet_ok :: "string \<Rightarrow> bool" where
  "hextet_ok h \<longleftrightarrow> h \<noteq> [] \<and> length h \<le> 4 \<and> list_all is_hex h"

text \<open>\<open>IPv6Address._ip_int_from_string\<close>: at most one inner empty part stands for the zeros.\<close>

definition ipv6_parts_ok :: "string list \<Rightarrow> bool" where
  "ipv6_parts_ok parts \<longleftrightarrow>
     3 \<le> length parts \<and> length parts \<le> 9 \<and>
     (let inner = filter (\<lambda>i. parts ! i = []) [1..<length parts - 1] in
      case inner of
        [] \<Rightarrow> length parts = 8 \<and> list_all hextet_ok parts
      | [i] \<Rightarrow>
          let hi = (if hd parts = [] then i - 1 else i);
              lo = (if last parts = [] then length parts - i - 2 else length parts - i - 1)
          in (hd parts = [] \<longrightarrow> hi = 0) \<and> (last parts = [] \<longrightarrow> lo = 0) \<and> hi + lo < 8 \<and>
             list_all hextet_ok (take hi parts) \<and> list_all hextet_ok (drop (length parts - lo) parts)
      | _ \<Rightarrow> False)"

definition ipv6_ok :: "string \<Rightarrow> bool" where
  "ipv6_ok s \<longleftrightarrow>
     (case partition_char CHR ''%'' s of (addr, scoped, scope) \<Rightarrow>
        (scoped \<longrightarrow> scope \<noteq> [] \<and> CHR ''%'' \<notin> set scope) \<and> CHR ''/'' \<notin> set s \<and>
        (let parts = split_char CHR '':'' addr in
         if CHR ''.'' \<in> set (last parts)
         then parse_ipv4 (last parts) \<noteq> None \<and> 3 \<le> length parts \<and> ipv6_parts_ok (butlast parts @ [''0'', ''0''])
         else ipv6_parts_ok parts))"

definition ipvfuture_ok :: "string \<Rightarrow> bool" where
  "ipvfuture_ok s \<longleftrightarrow>
     (case partition_char CHR ''.'' (drop 1 s) of (v, dot, rest) \<Rightarrow>
        dot \<and> v \<noteq> [] \<and> list_all is_hex v \<and> rest \<noteq> [] \<and> CHR 0x0A \<notin> set rest)"

definition bracketed_host_ok :: "string \<Rightarrow> bool" where
  "bracketed_host_ok h \<longleftrightarrow> (if startswith h ''v'' then ipvfuture_ok h else ipv6_ok h)"

subsection \<open>Splitting\<close>

definition hostinfo_of :: "string \<Rightarrow> string" where
  "hostinfo_of netloc = snd (snd (rpartition_char CHR ''@'' netloc))"

definition bracketed_netloc_ok :: "string \<Rightarrow> bool" where
  "bracketed_netloc_ok netloc \<longleftrightarrow>
     (case partition_char CHR ''['' (hostinfo_of netloc) of
        (before, True, bracketed) \<Rightarrow>
          before = [] \<and>
          (case partition_char CHR '']'' bracketed of (h, _, rest) \<Rightarrow>
             (rest = [] \<or> startswith rest '':'') \<and> bracketed_host_ok h)
      | (_, False, _) \<Rightarrow> bracketed_host_ok (fst (partition_char CHR '':'' (hostinfo_of netloc))))"

definition netloc_ok :: "string \<Rightarrow> bool" where
  "netloc_ok netloc \<longleftrightarrow>
     (CHR ''['' \<in> set netloc \<longleftrightarrow> CHR '']'' \<in> set netloc) \<and>
     (CHR ''['' \<in> set netloc \<longrightarrow> bracketed_netloc_ok netloc)"

definition scheme_char :: "char \<Rightarrow> bool" where
  "scheme_char c \<longleftrightarrow> is_alpha_ascii c \<or> is_digit c \<or> c \<in> {CHR ''+'', CHR ''-'', CHR ''.''}"

definition split_scheme :: "string \<Rightarrow> string \<times> string" where
  "split_scheme s =
     (case partition_char CHR '':'' s of
        (a, True, rest) \<Rightarrow>
          if a \<noteq> [] \<and> is_alpha_ascii (hd a) \<and> list_all scheme_char a then (py_lower a, rest) else ([], s)
      | _ \<Rightarrow> ([], s))"

definition netloc_end :: "char \<Rightarrow> bool" where
  "netloc_end c \<longleftrightarrow> c = CHR ''/'' \<or> c = CHR ''?'' \<or> c = CHR ''#''"

definition clean_url :: "string \<Rightarrow> string" where
  "clean_url s =
     filter (\<lambda>c. c \<noteq> CHR 0x09 \<and> c \<noteq> CHR 0x0D \<and> c \<noteq> CHR 0x0A)
       (dropWhile (\<lambda>c. (of_char c :: nat) \<le> 32) s)"

definition urlsplit :: "string \<Rightarrow> url option" where
  "urlsplit s =
     (let (scheme, s1) = split_scheme (clean_url s);
          (netloc, s2) = (if startswith s1 ''//''
             then (takeWhile (Not \<circ> netloc_end) (drop 2 s1), dropWhile (Not \<circ> netloc_end) (drop 2 s1))
             else ([], s1));
          (s3, _, fragment) = partition_char CHR ''#'' s2;
          (path, _, query) = partition_char CHR ''?'' s3
      in if \<not> netloc_ok netloc then None
         else Some \<lparr>url_scheme = scheme, url_netloc = netloc, url_path = path, url_query = query,
                    url_fragment = fragment\<rparr>)"

definition url_userinfo :: "url \<Rightarrow> (string \<times> string option) option" where
  "url_userinfo u =
     (case rpartition_char CHR ''@'' (url_netloc u) of
        (info, True, _) \<Rightarrow>
          (case partition_char CHR '':'' info of
             (name, True, password) \<Rightarrow> Some (name, Some password)
           | (name, False, _) \<Rightarrow> Some (name, None))
      | _ \<Rightarrow> None)"

definition host_and_port :: "url \<Rightarrow> string \<times> string" where
  "host_and_port u =
     (case partition_char CHR ''['' (hostinfo_of (url_netloc u)) of
        (_, True, bracketed) \<Rightarrow>
          (case partition_char CHR '']'' bracketed of (h, _, rest) \<Rightarrow>
             (h, snd (snd (partition_char CHR '':'' rest))))
      | (_, False, _) \<Rightarrow>
          (case partition_char CHR '':'' (hostinfo_of (url_netloc u)) of (h, _, port) \<Rightarrow> (h, port)))"

definition url_hostname :: "url \<Rightarrow> string option" where
  "url_hostname u =
     (let h = fst (host_and_port u) in
      if h = [] then None
      else
        case partition_char CHR ''%'' h of
          (name, percent, zone) \<Rightarrow> Some (py_lower name @ (if percent then CHR ''%'' # zone else [])))"

text \<open>\<open>Some None\<close>: no port; \<open>None\<close>: the attribute raises.\<close>

definition url_port :: "url \<Rightarrow> nat option option" where
  "url_port u =
     (let port = snd (host_and_port u) in
      if port = [] then Some None
      else if list_all is_digit port \<and> digits_val port \<le> 65535 then Some (Some (digits_val port))
      else None)"

definition urlunsplit :: "string \<Rightarrow> string \<Rightarrow> string \<Rightarrow> string \<Rightarrow> string" where
  "urlunsplit scheme netloc path query =
     (let p = (if netloc \<noteq> [] then ''//'' @ netloc @ (if path \<noteq> [] \<and> hd path \<noteq> CHR ''/'' then CHR ''/'' # path else path)
               else if startswith path ''//'' then ''//'' @ path else path);
          s = (if scheme \<noteq> [] then scheme @ '':'' @ p else p)
      in if query \<noteq> [] then s @ ''?'' @ query else s)"

subsection \<open>Camera sources\<close>

record source_parts =
  sp_scheme :: "string option"
  sp_host :: "string option"
  sp_port :: "nat option"
  sp_path :: "string option"
  sp_query :: "string option"

definition no_source :: source_parts where
  "no_source = \<lparr>sp_scheme = None, sp_host = None, sp_port = None, sp_path = None, sp_query = None\<rparr>"

definition source_parts_of :: "string option \<Rightarrow> source_parts option" where
  "source_parts_of uri =
     (case uri of
        None \<Rightarrow> Some no_source
      | Some s \<Rightarrow>
          if s = [] then Some no_source
          else
            case urlsplit s of
              None \<Rightarrow> None
            | Some u \<Rightarrow>
                (case url_port u of
                   None \<Rightarrow> None
                 | Some port \<Rightarrow>
                     Some \<lparr>sp_scheme = Some (url_scheme u), sp_host = url_hostname u, sp_port = port,
                           sp_path = Some (url_path u), sp_query = Some (url_query u)\<rparr>))"

definition text_or_empty :: "string option \<Rightarrow> string" where
  "text_or_empty s = (case s of None \<Rightarrow> [] | Some x \<Rightarrow> x)"

definition source_uri :: "source_parts \<Rightarrow> string option \<Rightarrow> string" where
  "source_uri p uri =
     (case (sp_scheme p, sp_host p) of
        (Some scheme, Some h) \<Rightarrow>
          if scheme \<noteq> [] \<and> h \<noteq> [] then
            let host = (if CHR '':'' \<in> set h then ''['' @ h @ '']'' else h);
                netloc = (case sp_port p of
                            Some port \<Rightarrow> if port \<noteq> 0 then host @ '':'' @ nat_digits port else host
                          | None \<Rightarrow> host)
            in urlunsplit scheme netloc (text_or_empty (sp_path p)) (text_or_empty (sp_query p))
          else (case uri of None \<Rightarrow> ''None'' | Some s \<Rightarrow> s)
      | _ \<Rightarrow> (case uri of None \<Rightarrow> ''None'' | Some s \<Rightarrow> s))"

type_synonym source_key = "string \<times> string \<times> nat \<times> string \<times> string"

definition strip_dots :: "string \<Rightarrow> string" where
  "strip_dots s = rev (dropWhile (\<lambda>c. c = CHR ''.'') (rev s))"

definition rtsp_source_key :: "string \<Rightarrow> source_key option" where
  "rtsp_source_key uri =
     (case urlsplit uri of
        None \<Rightarrow> None
      | Some u \<Rightarrow>
          case url_hostname u of
            None \<Rightarrow> None
          | Some h \<Rightarrow>
              if py_lower (url_scheme u) \<noteq> ''rtsp'' then None
              else
                case url_port u of
                  None \<Rightarrow> None
                | Some port \<Rightarrow>
                    Some (''rtsp'', strip_dots (py_lower h),
                      (case port of None \<Rightarrow> 554 | Some n \<Rightarrow> if n = 0 then 554 else n),
                      (if url_path u = [] then ''/'' else url_path u), url_query u))"

subsection \<open>What splitting returns, and putting it together again\<close>

definition url_char :: "char \<Rightarrow> bool" where
  "url_char c \<longleftrightarrow> c \<noteq> CHR 0x09 \<and> c \<noteq> CHR 0x0D \<and> c \<noteq> CHR 0x0A"

definition url_ok :: "url \<Rightarrow> bool" where
  "url_ok u \<longleftrightarrow>
     list_all url_char (url_scheme u @ url_netloc u @ url_path u @ url_query u) \<and>
     list_all (Not \<circ> netloc_end) (url_netloc u) \<and> CHR ''?'' \<notin> set (url_path u) \<and>
     CHR ''#'' \<notin> set (url_path u) \<and> CHR ''#'' \<notin> set (url_query u) \<and>
     (url_netloc u \<noteq> [] \<longrightarrow> url_path u = [] \<or> hd (url_path u) = CHR ''/'') \<and>
     (url_scheme u \<noteq> [] \<longrightarrow> is_alpha_ascii (hd (url_scheme u)) \<and> list_all scheme_char (url_scheme u)
        \<and> py_lower (url_scheme u) = url_scheme u)"

lemma partition_char_set:
  "partition_char c s = (a, f, b) \<Longrightarrow> set a \<subseteq> set s \<and> set b \<subseteq> set s \<and> c \<notin> set a \<and>
   (f \<longrightarrow> s = a @ c # b) \<and> (\<not> f \<longrightarrow> a = s \<and> b = [])"
  by (induction s arbitrary: a f b) (auto split: if_splits prod.splits)

lemma lower_scheme_char:
  assumes "scheme_char c"
  shows "scheme_char (lower_char c) \<and> (is_alpha_ascii c \<longrightarrow> is_alpha_ascii (lower_char c)) \<and> url_char (lower_char c)"
proof -
  have n: "of_char (lower_char c) = lower_code (of_char c)"
    using lower_code_bound [of "of_char c"] by (simp add: lower_char_def)
  consider "is_alpha_ascii c" | "is_digit c" | "c \<in> {CHR ''+'', CHR ''-'', CHR ''.''}"
    using assms by (auto simp: scheme_char_def)
  then show ?thesis
  proof cases
    case 1
    then have "is_alpha_ascii (lower_char c)"
      unfolding is_alpha_ascii_def Let_def n by (auto simp: lower_code_def)
    moreover from this have "url_char (lower_char c)" by (auto simp: is_alpha_ascii_def url_char_def)
    ultimately show ?thesis by (simp add: scheme_char_def)
  next
    case 2
    then have "lower_char c = c" by (auto simp: is_digit_def Let_def lower_char_def lower_code_def)
    with 2 show ?thesis by (auto simp: scheme_char_def is_digit_def url_char_def Let_def)
  next
    case 3
    then have "lower_char c = c" by (auto simp: lower_char_def lower_code_def)
    with 3 show ?thesis by (auto simp: scheme_char_def url_char_def is_alpha_ascii_def)
  qed
qed

lemma split_scheme_ok:
  assumes "split_scheme s = (a, r)"
  shows "set r \<subseteq> set s \<and> (a \<noteq> [] \<longrightarrow> is_alpha_ascii (hd a) \<and> list_all scheme_char a \<and> list_all url_char a \<and> py_lower a = a)"
proof (cases "a = []")
  case True
  then show ?thesis using assms partition_char_set [of "CHR '':''" s]
    by (auto simp: split_scheme_def split: prod.splits bool.splits if_splits)
next
  case False
  then obtain x where x: "partition_char CHR '':'' s = (x, True, r)" "x \<noteq> []" "is_alpha_ascii (hd x)"
    "list_all scheme_char x" "a = py_lower x"
    using assms by (auto simp: split_scheme_def split: prod.splits bool.splits if_splits)
  have "list_all scheme_char a \<and> list_all url_char a"
    using x(4,5) lower_scheme_char by (auto simp: list_all_iff py_lower_def)
  moreover have "is_alpha_ascii (hd a)"
    using x lower_scheme_char [of "hd x"] by (cases x) (auto simp: py_lower_def scheme_char_def)
  ultimately show ?thesis using x(5) partition_char_set [OF x(1)] by auto
qed

lemma clean_url_chars: "list_all url_char (clean_url s)"
  by (auto simp: clean_url_def list_all_iff url_char_def)

lemma urlsplit_ok:
  assumes "urlsplit s = Some u"
  shows "url_ok u \<and> netloc_ok (url_netloc u)"
proof -
  obtain scheme s1 where s1: "split_scheme (clean_url s) = (scheme, s1)" by (cases "split_scheme (clean_url s)")
  define netloc where "netloc = (if startswith s1 ''//'' then takeWhile (Not \<circ> netloc_end) (drop 2 s1) else [])"
  define s2 where "s2 = (if startswith s1 ''//'' then dropWhile (Not \<circ> netloc_end) (drop 2 s1) else s1)"
  obtain s3 f3 fragment where s3: "partition_char CHR ''#'' s2 = (s3, f3, fragment)" by (cases "partition_char CHR ''#'' s2")
  obtain path f4 query where s4: "partition_char CHR ''?'' s3 = (path, f4, query)" by (cases "partition_char CHR ''?'' s3")
  have u: "netloc_ok netloc" "u = \<lparr>url_scheme = scheme, url_netloc = netloc, url_path = path,
      url_query = query, url_fragment = fragment\<rparr>"
    using assms s1 s3 s4 by (auto simp: urlsplit_def Let_def netloc_def s2_def split: if_splits)
  note sch = split_scheme_ok [OF s1]
  note p3 = partition_char_set [OF s3]
  note p4 = partition_char_set [OF s4]
  have chars: "url_char c" if "c \<in> set s1" for c
    using that sch clean_url_chars [of s] by (auto simp: list_all_iff)
  have "set netloc \<subseteq> set s1" "set s2 \<subseteq> set s1"
    by (auto simp: netloc_def s2_def dest: set_takeWhileD set_dropWhileD in_set_dropD)
  moreover have "set path \<subseteq> set s2" "set query \<subseteq> set s2" using p3 p4 by auto
  ultimately have c: "list_all url_char (netloc @ path @ query)" using chars by (auto simp: list_all_iff)
  have nl: "list_all (Not \<circ> netloc_end) netloc" by (auto simp: netloc_def list_all_iff dest: set_takeWhileD)
  have "path = [] \<or> hd path = CHR ''/''" if "netloc \<noteq> []"
  proof (cases s2)
    case Nil
    then show ?thesis using \<open>set path \<subseteq> set s2\<close> by simp
  next
    case (Cons x xs)
    then have "netloc_end x" using that
      by (auto simp: s2_def netloc_def dropWhile_eq_Cons_conv split: if_splits)
    then show ?thesis using s3 s4 Cons
      by (auto simp: netloc_end_def split: if_splits prod.splits)
  qed
  then show ?thesis using u sch c nl p3 p4 by (auto simp: url_ok_def)
qed

lemma clean_id:
  "list_all url_char s \<Longrightarrow> s = [] \<or> \<not> (of_char (hd s) :: nat) \<le> 32 \<Longrightarrow> clean_url s = s"
proof -
  assume a: "list_all url_char s" and h: "s = [] \<or> \<not> (of_char (hd s) :: nat) \<le> 32"
  from h have "dropWhile (\<lambda>c. (of_char c :: nat) \<le> 32) s = s" by (cases s) auto
  with a show ?thesis by (simp add: clean_url_def filter_id_conv list_all_iff url_char_def)
qed

lemma urlsplit_urlunsplit:
  assumes ok: "url_ok u" and "netloc_ok (url_netloc u)" and "url_scheme u \<noteq> []" "url_netloc u \<noteq> []"
  shows "urlsplit (urlunsplit (url_scheme u) (url_netloc u) (url_path u) (url_query u)) = Some (u\<lparr>url_fragment := []\<rparr>)"
proof -
  let ?s = "url_scheme u" and ?n = "url_netloc u" and ?p = "url_path u" and ?q = "url_query u"
  let ?tail = "?p @ (if ?q \<noteq> [] then ''?'' @ ?q else [])"
  have built: "urlunsplit ?s ?n ?p ?q = ?s @ CHR '':'' # ''//'' @ ?n @ ?tail"
    using assms by (cases ?p) (auto simp: urlunsplit_def Let_def url_ok_def)
  have sch: "is_alpha_ascii (hd ?s)" "list_all scheme_char ?s" "py_lower ?s = ?s"
    using ok assms(3) by (auto simp: url_ok_def)
  have "list_all url_char (?s @ CHR '':'' # ''//'' @ ?n @ ?tail)"
    using ok by (auto simp: url_ok_def url_char_def)
  moreover have "\<not> (of_char (hd ?s) :: nat) \<le> 32" using sch(1) by (auto simp: is_alpha_ascii_def Let_def)
  then have "\<not> (of_char (hd (?s @ CHR '':'' # ''//'' @ ?n @ ?tail)) :: nat) \<le> 32" using assms(3) by simp
  ultimately have clean: "clean_url (?s @ CHR '':'' # ''//'' @ ?n @ ?tail) = ?s @ CHR '':'' # ''//'' @ ?n @ ?tail"
    by (intro clean_id) blast+
  have "CHR '':'' \<notin> set ?s"
  proof
    assume "CHR '':'' \<in> set ?s"
    then have "scheme_char CHR '':''" using sch(2) by (simp add: list_all_iff)
    then show False by (simp add: scheme_char_def is_alpha_ascii_def is_digit_def)
  qed
  then have split: "split_scheme (?s @ CHR '':'' # ''//'' @ ?n @ ?tail) = (?s, ''//'' @ ?n @ ?tail)"
    using sch assms(3) by (simp add: split_scheme_def partition_char_at)
  have nl: "\<forall>c \<in> set ?n. \<not> netloc_end c" using ok by (auto simp: url_ok_def list_all_iff)
  have tail: "?tail = [] \<or> netloc_end (hd ?tail)"
    using ok assms(4) by (cases ?p) (auto simp: url_ok_def netloc_end_def)
  have tw: "takeWhile (Not \<circ> netloc_end) (?n @ ?tail) = ?n"
    using nl tail by (cases ?tail) (auto simp: takeWhile_append)
  have dw: "dropWhile (Not \<circ> netloc_end) (?n @ ?tail) = ?tail"
    using nl tail by (cases ?tail) (auto simp: dropWhile_append)
  have frag: "partition_char CHR ''#'' ?tail = (?tail, False, [])"
    using ok by (intro partition_char_absent) (auto simp: url_ok_def)
  have query: "partition_char CHR ''?'' ?tail = (?p, ?q \<noteq> [], ?q)"
    using ok by (auto simp: url_ok_def partition_char_absent partition_char_at)
  show ?thesis
    unfolding built urlsplit_def clean split Let_def prod.case
    using assms(2) by (simp add: startswith_def tw dw frag query)
qed

subsection \<open>A stored source keeps its address\<close>

definition plain_host :: "string \<Rightarrow> bool" where
  "plain_host h \<longleftrightarrow> CHR '':'' \<notin> set h \<and> CHR ''['' \<notin> set h \<and> CHR '']'' \<notin> set h"

definition special :: "char \<Rightarrow> bool" where
  "special c \<longleftrightarrow> netloc_end c \<or> \<not> url_char c \<or> c \<in> {CHR ''@'', CHR '':'', CHR ''['', CHR '']'', CHR ''%''}"

lemma lower_special: "special (lower_char c) \<Longrightarrow> lower_char c = c"
proof -
  assume s: "special (lower_char c)"
  have n: "of_char (lower_char c) = lower_code (of_char c)"
    using lower_code_bound [of "of_char c"] by (simp add: lower_char_def)
  have "\<not> 97 \<le> (of_char (lower_char c) :: nat)"
    using s by (auto simp: special_def netloc_end_def url_char_def)
  then have "lower_code (of_char c) = of_char c" unfolding n by (auto simp: lower_code_def split: if_splits)
  then show ?thesis by (simp add: lower_char_def)
qed

lemma lower_keeps_out:
  "special x \<Longrightarrow> x \<notin> set s \<Longrightarrow> x \<notin> set (py_lower s)"
  using lower_special by (force simp: py_lower_def)

lemma rpartition_char_set:
  "rpartition_char c s = (a, f, b) \<Longrightarrow> set b \<subseteq> set s \<and> c \<notin> set b"
  using partition_char_set [of c "rev s"] by (fastforce simp: rpartition_char_def split: prod.splits bool.splits)

lemma hostinfo_set: "set (hostinfo_of n) \<subseteq> set n \<and> CHR ''@'' \<notin> set (hostinfo_of n)"
  using rpartition_char_set [of "CHR ''@''" n] by (cases "rpartition_char CHR ''@'' n") (auto simp: hostinfo_of_def)

lemma host_set: "set (fst (host_and_port u)) \<subseteq> set (hostinfo_of (url_netloc u))"
  by (auto simp: host_and_port_def split: prod.splits bool.splits dest: partition_char_set) (blast dest: partition_char_set)+

lemma hostname_out:
  assumes "url_hostname u = Some h" "special x" "x \<noteq> CHR ''%''" "x \<notin> set (hostinfo_of (url_netloc u))"
  shows "x \<notin> set h"
proof -
  obtain name percent zone where p: "partition_char CHR ''%'' (fst (host_and_port u)) = (name, percent, zone)"
    by (cases "partition_char CHR ''%'' (fst (host_and_port u))")
  then have h: "h = py_lower name @ (if percent then CHR ''%'' # zone else [])"
    using assms(1) by (auto simp: url_hostname_def Let_def split: if_splits)
  have "x \<notin> set name" "x \<notin> set zone" using partition_char_set [OF p] host_set [of u] assms(4) by blast+
  then show ?thesis using h lower_keeps_out [OF assms(2)] assms(3) by (auto split: if_splits)
qed

lemma hostname_fixed:
  assumes "url_hostname u = Some h" "fst (host_and_port v) = h"
  shows "url_hostname v = Some h"
proof -
  obtain name percent zone where p: "partition_char CHR ''%'' (fst (host_and_port u)) = (name, percent, zone)"
    by (cases "partition_char CHR ''%'' (fst (host_and_port u))")
  then have h: "h = py_lower name @ (if percent then CHR ''%'' # zone else [])" and ne: "fst (host_and_port u) \<noteq> []"
    using assms(1) by (auto simp: url_hostname_def Let_def split: if_splits)
  have "CHR ''%'' \<notin> set name" using partition_char_set [OF p] by blast
  then have "CHR ''%'' \<notin> set (py_lower name)" by (intro lower_keeps_out) (simp_all add: special_def)
  then have "partition_char CHR ''%'' h = (py_lower name, percent, zone)"
    using partition_char_set [OF p] by (auto simp: h partition_char_absent partition_char_at)
  moreover have "h \<noteq> []" using h ne partition_char_set [OF p] by auto
  ultimately show ?thesis using assms(2) h by (simp add: url_hostname_def Let_def)
qed

definition netloc_with :: "string \<Rightarrow> nat option \<Rightarrow> string" where
  "netloc_with h port =
     (case port of Some p \<Rightarrow> if p \<noteq> 0 then h @ '':'' @ nat_digits p else h | None \<Rightarrow> h)"

lemma digits_plain: "c \<in> set (nat_digits n) \<Longrightarrow> is_digit c \<and> \<not> special c"
  using nat_digits_all [of n]
  by (auto simp: list_all_iff is_digit_def special_def netloc_end_def url_char_def Let_def)

lemma netloc_with_parts:
  assumes "plain_host h" "CHR ''@'' \<notin> set h" "url_netloc v = netloc_with h port"
  shows "host_and_port v = (h, case port of Some p \<Rightarrow> if p \<noteq> 0 then nat_digits p else [] | None \<Rightarrow> [])"
    and "netloc_ok (netloc_with h port)"
proof -
  have out: "x \<notin> set (netloc_with h port)" if "special x" "x \<noteq> CHR '':''" "x \<notin> set h" for x
    using that digits_plain by (auto simp: netloc_with_def split: option.splits if_splits)
  have "CHR ''@'' \<notin> set (netloc_with h port)" using assms(2) by (intro out) (simp_all add: special_def)
  then have hi: "hostinfo_of (url_netloc v) = netloc_with h port"
    by (simp add: hostinfo_of_def rpartition_char_def partition_char_absent assms(3))
  have br: "CHR ''['' \<notin> set (netloc_with h port)" "CHR '']'' \<notin> set (netloc_with h port)"
    using assms(1) out [of "CHR ''[''"] out [of "CHR '']''"] by (simp_all add: special_def plain_host_def)
  show "netloc_ok (netloc_with h port)" using br by (simp add: netloc_ok_def)
  show "host_and_port v = (h, case port of Some p \<Rightarrow> if p \<noteq> 0 then nat_digits p else [] | None \<Rightarrow> [])"
    unfolding host_and_port_def hi using assms(1) br(1)
    by (auto simp: partition_char_absent partition_char_at netloc_with_def plain_host_def split: option.splits)
qed

lemma url_port_le: "url_port u = Some (Some p) \<Longrightarrow> p \<le> 65535"
  by (auto simp: url_port_def Let_def split: if_splits)

lemma source_uri_split:
  assumes split: "urlsplit uri = Some u" and port: "url_port u = Some port" and host: "url_hostname u = Some h"
    and "url_scheme u \<noteq> []" and plain: "plain_host h"
  shows "\<exists>v. urlsplit (urlunsplit (url_scheme u) (netloc_with h port) (url_path u) (url_query u)) = Some v \<and>
    url_scheme v = url_scheme u \<and> url_path v = url_path u \<and> url_query v = url_query u \<and>
    url_hostname v = Some h \<and> url_port v = Some (if port = Some 0 then None else port)"
proof -
  let ?n = "netloc_with h port"
  let ?v = "u\<lparr>url_netloc := ?n, url_fragment := []\<rparr>"
  have ok: "url_ok u" using urlsplit_ok [OF split] by simp
  have hi: "x \<notin> set (hostinfo_of (url_netloc u))" if "x = CHR ''@'' \<or> netloc_end x \<or> \<not> url_char x" for x
    using that hostinfo_set [of "url_netloc u"] ok by (auto simp: url_ok_def list_all_iff)
  have outh: "x \<notin> set h" if "x = CHR ''@'' \<or> netloc_end x \<or> \<not> url_char x" for x
    using hostname_out [OF host _ _ hi [OF that]] that
    by (auto simp: special_def netloc_end_def url_char_def)
  have "\<not> netloc_end CHR '':''" "url_char CHR '':''" by (simp_all add: netloc_end_def url_char_def)
  then have n: "list_all (Not \<circ> netloc_end) ?n" "list_all url_char ?n"
    using outh digits_plain by (auto simp: list_all_iff netloc_with_def special_def split: option.splits if_splits)
  have hne: "fst (host_and_port u) \<noteq> []" "h \<noteq> []"
    using host by (auto simp: url_hostname_def Let_def split: if_splits prod.splits dest!: partition_char_set)
  have "url_netloc u \<noteq> []" using hne(1) host_set [of u] hostinfo_set [of "url_netloc u"]
    by (cases "fst (host_and_port u)") auto
  have "?n \<noteq> []" using hne(2) by (auto simp: netloc_with_def split: option.splits)
  then have "url_ok ?v" using ok n \<open>url_netloc u \<noteq> []\<close> by (auto simp: url_ok_def)
  moreover have at: "CHR ''@'' \<notin> set h" using outh by blast
  note parts = netloc_with_parts [OF plain at, of ?v port]
  ultimately have "urlsplit (urlunsplit (url_scheme u) ?n (url_path u) (url_query u)) = Some ?v"
    using urlsplit_urlunsplit [of ?v] parts(2) assms(4) \<open>?n \<noteq> []\<close> by simp
  moreover have "url_hostname ?v = Some h" using parts(1) by (intro hostname_fixed [OF host]) simp
  moreover have "url_port ?v = Some (if port = Some 0 then None else port)"
    using parts(1) port url_port_le [of u] nat_digits_all
    by (auto simp: url_port_def Let_def digits_val_nat_digits split: option.split)
  ultimately show ?thesis by (intro exI [of _ ?v]) simp
qed

text \<open>
  The parts a source URI is stored in rebuild a URI with the same scheme, host, port, path and
  query, so with the same key: what was dropped is the user information, the fragment and a port 0.
\<close>

theorem stored_source_rebuilds:
  assumes "source_parts_of (Some uri) = Some p" and "sp_scheme p = Some scheme" and "scheme \<noteq> []"
    and "sp_host p = Some h" and "plain_host h"
  shows "source_parts_of (Some (source_uri p (Some uri))) =
      Some (p\<lparr>sp_port := (if sp_port p = Some 0 then None else sp_port p)\<rparr>) \<and>
    rtsp_source_key (source_uri p (Some uri)) = rtsp_source_key uri"
proof -
  obtain u port where u: "urlsplit uri = Some u" "url_port u = Some port" and
    p: "p = \<lparr>sp_scheme = Some (url_scheme u), sp_host = url_hostname u, sp_port = port,
             sp_path = Some (url_path u), sp_query = Some (url_query u)\<rparr>"
    using assms(1-3) by (auto simp: source_parts_of_def no_source_def split: if_splits option.splits)
  have host: "url_hostname u = Some h" and sch: "url_scheme u \<noteq> []" using assms(2-4) p by auto
  obtain v where v: "urlsplit (urlunsplit (url_scheme u) (netloc_with h port) (url_path u) (url_query u)) = Some v"
    "url_scheme v = url_scheme u" "url_path v = url_path u" "url_query v = url_query u"
    "url_hostname v = Some h" "url_port v = Some (if port = Some 0 then None else port)"
    using source_uri_split [OF u host sch assms(5)] by blast
  have "h \<noteq> []" using host by (auto simp: url_hostname_def Let_def split: if_splits prod.splits dest!: partition_char_set)
  then have uri: "source_uri p (Some uri) = urlunsplit (url_scheme u) (netloc_with h port) (url_path u) (url_query u)"
    using p host sch assms(5)
    by (simp add: source_uri_def Let_def netloc_with_def text_or_empty_def plain_host_def)
  then have "source_uri p (Some uri) \<noteq> []" using sch by (auto simp: urlunsplit_def Let_def)
  then have "source_parts_of (Some (source_uri p (Some uri))) =
      Some (p\<lparr>sp_port := (if sp_port p = Some 0 then None else sp_port p)\<rparr>)"
    unfolding source_parts_of_def option.case if_not_P uri using v host p by simp
  moreover have "rtsp_source_key (source_uri p (Some uri)) = rtsp_source_key uri"
    unfolding uri rtsp_source_key_def using v u host by (auto split: option.splits)
  ultimately show ?thesis by blast
qed

definition demo_uri :: string where
  "demo_uri = ''rtsp://u:pw@Cam/a?b''"

definition demo_parts :: source_parts where
  "demo_parts = \<lparr>sp_scheme = Some ''rtsp'', sp_host = Some ''cam'', sp_port = None,
     sp_path = Some ''/a'', sp_query = Some ''b''\<rparr>"

lemma demo_source: "source_parts_of (Some demo_uri) = Some demo_parts"
  by code_simp

theorem stored_source_rebuilds_witness:
  "rtsp_source_key (source_uri demo_parts (Some demo_uri)) = rtsp_source_key demo_uri"
  using stored_source_rebuilds [OF demo_source, of "''rtsp''" "''cam''"]
  by (simp add: demo_parts_def plain_host_def)

end
