(* ===== verification/Adoption.thy ===== *)
theory Adoption
  imports IdentityStore Delivery Url Roles
begin

text \<open>
  Adopted cameras (camadmiral/storage.py): adopting a candidate with its profiles, the streams and
  the roles that use them, credentials, and the views the rest of the program reads. \<open>enc\<close> and
  \<open>dec\<close> are \<open>encrypt_password\<close> and \<open>decrypt_password\<close> under the master key. An
  operation that raises leaves the database as it was: the transaction is rolled back.
\<close>

record profile_input =
  pin_token :: string
  pin_name :: "string option"
  pin_width :: "int option"
  pin_height :: "int option"
  pin_encoding :: "string option"
  pin_fps :: "rat option"
  pin_bitrate :: "int option"
  pin_uri :: "string option"
  pin_kind :: "string option"
  pin_cat_revision :: "string option"
  pin_cat_rule :: "string option"
  pin_cat_url :: "string option"

definition or_text :: "string option \<Rightarrow> string \<Rightarrow> string" where
  "or_text s dflt = (case s of None \<Rightarrow> dflt | Some x \<Rightarrow> if x = [] then dflt else x)"

subsection \<open>Rows\<close>

definition parts_of_profile :: "profile_row \<Rightarrow> source_parts" where
  "parts_of_profile p =
     \<lparr>sp_scheme = prf_scheme p, sp_host = prf_host p, sp_port = prf_port p, sp_path = prf_path p,
      sp_query = prf_query p\<rparr>"

definition profile_uri :: "profile_row \<Rightarrow> string" where
  "profile_uri p = source_uri (parts_of_profile p) (prf_uri p)"

definition set_source :: "string option \<Rightarrow> source_parts \<Rightarrow> timestamp \<Rightarrow> profile_row \<Rightarrow> profile_row" where
  "set_source uri s t r =
     r\<lparr>prf_uri := uri, prf_scheme := sp_scheme s, prf_host := sp_host s, prf_port := sp_port s,
       prf_path := sp_path s, prf_query := sp_query s, prf_updated := t\<rparr>"

definition set_profile :: "profile_input \<Rightarrow> source_parts \<Rightarrow> timestamp \<Rightarrow> profile_row \<Rightarrow> profile_row" where
  "set_profile p s t r = set_source (pin_uri p) s t
     (r\<lparr>prf_name := or_text (pin_name p) (pin_token p), prf_width := or_zero (pin_width p),
        prf_height := or_zero (pin_height p), prf_encoding := pin_encoding p,
        prf_fps := or_zero (pin_fps p), prf_bitrate := or_zero (pin_bitrate p),
        prf_kind := or_text (pin_kind p) ''onvif'', prf_cat_revision := pin_cat_revision p,
        prf_cat_rule := pin_cat_rule p, prf_cat_url := pin_cat_url p\<rparr>)"

definition blank_profile :: "string \<Rightarrow> string \<Rightarrow> string \<Rightarrow> profile_row" where
  "blank_profile u c token =
     \<lparr>prf_uuid = u, prf_camera = c, prf_token = token, prf_name = [], prf_width = 0, prf_height = 0,
      prf_encoding = None, prf_fps = 0, prf_bitrate = 0, prf_uri = None, prf_updated = 0,
      prf_kind = ''onvif'', prf_scheme = None, prf_host = None, prf_port = None, prf_path = None,
      prf_query = None, prf_cat_revision = None, prf_cat_rule = None, prf_cat_url = None\<rparr>"

definition new_stream :: "string \<Rightarrow> string \<Rightarrow> string \<Rightarrow> timestamp \<Rightarrow> bool \<Rightarrow> stream_row" where
  "new_stream u c p t e =
     \<lparr>str_uuid = u, str_camera = c, str_profile = p, str_key = ''stream_'' @ u, str_created = t,
      str_probe_status = ''pending'', str_probed_at = None, str_latency = None, str_vcodec = None,
      str_acodec = None, str_pwidth = None, str_pheight = None, str_pfps = None, str_health = Unknown,
      str_failures = 0, str_last_ready = None, str_last_failure = None, str_enabled = e\<rparr>"

definition reset_stream :: "stream_row \<Rightarrow> stream_row" where
  "reset_stream s =
     s\<lparr>str_probe_status := ''pending'', str_probed_at := None, str_health := Unknown, str_failures := 0,
       str_last_failure := None\<rparr>"

definition new_camera :: "string \<Rightarrow> string \<Rightarrow> string \<Rightarrow> string \<Rightarrow> timestamp \<Rightarrow> camera_origin \<Rightarrow> camera_row" where
  "new_camera c candidate name credential t origin =
     \<lparr>cam_uuid = c, cam_candidate = candidate, cam_name = name, cam_credential = credential,
      cam_adopted = t, cam_updated = t, cam_enabled = True, cam_address_mode = Lan,
      cam_origin = origin, cam_silenced = False, cam_custom = False\<rparr>"

abbreviation profile_key :: "profile_row \<Rightarrow> string \<times> string" where
  "profile_key p \<equiv> (prf_camera p, prf_token p)"

interpretation profiles_t: row_table profile_key "row_get profile_key" "row_put profile_key"
    "\<lambda>k. del_where (\<lambda>x. profile_key x = k)" "keeps_key profile_key"
  by (rule row_table_list)

interpretation candidates_t: row_table cam_candidate "row_get cam_candidate" "row_put cam_candidate"
    "\<lambda>k. del_where (\<lambda>x. cam_candidate x = k)" "keeps_key cam_candidate"
  by (rule row_table_list)

subsection \<open>Reading an adoption\<close>

record adoption =
  ad_camera :: camera_row
  ad_roles :: "(role \<times> string) list"
  ad_role_tokens :: "(role \<times> string) list"
  ad_streams :: "(profile_row \<times> stream_row) list"

definition stream_profile :: "db \<Rightarrow> stream_row \<Rightarrow> profile_row option" where
  "stream_profile d s = row_get prf_uuid (str_profile s) (profiles d)"

definition joined_streams :: "db \<Rightarrow> string \<Rightarrow> (profile_row \<times> stream_row) list" where
  "joined_streams d c =
     concat (map (\<lambda>s. case stream_profile d s of None \<Rightarrow> [] | Some p \<Rightarrow> [(p, s)])
       (filter (\<lambda>s. str_camera s = c) (streams d)))"

definition bound_tokens :: "db \<Rightarrow> string \<Rightarrow> (role \<times> string) list" where
  "bound_tokens d c =
     concat (map (\<lambda>b. case Option.bind (row_get str_uuid (bnd_stream b) (streams d)) (stream_profile d) of
                        None \<Rightarrow> [] | Some p \<Rightarrow> [(bnd_role b, prf_token p)])
       (filter (\<lambda>b. bnd_camera b = c) (bindings d)))"

definition adoption_for_candidate :: "string \<Rightarrow> db \<Rightarrow> adoption option" where
  "adoption_for_candidate candidate d =
     (case row_get cam_candidate candidate (cameras d) of
        None \<Rightarrow> None
      | Some camera \<Rightarrow>
          Some \<lparr>ad_camera = camera,
            ad_roles = map (\<lambda>b. (bnd_role b, bnd_stream b))
                         (filter (\<lambda>b. bnd_camera b = cam_uuid camera) (bindings d)),
            ad_role_tokens = bound_tokens d (cam_uuid camera),
            ad_streams = sort_key (\<lambda>(p, s). prf_token p) (joined_streams d (cam_uuid camera))\<rparr>)"

definition adoption_map :: "db \<Rightarrow> (string \<times> adoption) list" where
  "adoption_map d =
     concat (map (\<lambda>c. case adoption_for_candidate (cam_candidate c) d of
         None \<Rightarrow> [] | Some a \<Rightarrow> [(cam_candidate c, a)]) (cameras d))"

subsection \<open>Adopting\<close>

definition assigned_source :: "source_key list \<Rightarrow> db \<Rightarrow> (string \<times> string) option" where
  "assigned_source reject d =
     (let rows = concat (map (\<lambda>p. case row_get cam_uuid (prf_camera p) (cameras d) of
                   None \<Rightarrow> [] | Some c \<Rightarrow> [(p, c)])
                 (filter (\<lambda>p. prf_uri p \<noteq> None \<or> (prf_scheme p \<noteq> None \<and> prf_host p \<noteq> None)) (profiles d)))
      in map_option (\<lambda>(p, c). (cam_uuid c, cam_name c))
           (find (\<lambda>(p, c). case rtsp_source_key (profile_uri p) of None \<Rightarrow> False | Some k \<Rightarrow> k \<in> set reject) rows))"

definition save_credential :: "string \<Rightarrow> string \<Rightarrow> string \<Rightarrow> timestamp \<Rightarrow> db \<Rightarrow> db" where
  "save_credential u username cipher t d =
     d\<lparr>credentials := row_put crd_uuid
        (\<lambda>r. r\<lparr>crd_username := username, crd_cipher := cipher, crd_updated := t\<rparr>)
        \<lparr>crd_uuid = u, crd_username = username, crd_cipher = cipher, crd_created = t, crd_updated = t\<rparr>
        (credentials d)\<rparr>"

definition save_camera :: "camera_row \<Rightarrow> db \<Rightarrow> db" where
  "save_camera c d =
     d\<lparr>cameras := row_put cam_candidate
        (\<lambda>r. r\<lparr>cam_name := cam_name c, cam_credential := cam_credential c, cam_updated := cam_updated c,
               cam_origin := cam_origin c\<rparr>) c (cameras d)\<rparr>"

text \<open>
  Profiles the camera no longer reports go, with their streams and these streams' retries, unless
  their stream was disabled by the operator. A Frigate binding that still uses such a stream has no ON
  DELETE action, so the statement fails.
\<close>

definition drop_profiles :: "string \<Rightarrow> string list \<Rightarrow> db \<Rightarrow> repo_error + db" where
  "drop_profiles c tokens d =
     (if tokens = [] then Inr d
      else
        let stale = (\<lambda>p. prf_camera p = c \<and> prf_token p \<notin> set tokens
                      \<and> \<not> has_row (\<lambda>s. str_profile s = prf_uuid p \<and> \<not> str_enabled s) (streams d));
            gone_profiles = map prf_uuid (filter stale (profiles d));
            gone = map str_uuid (filter (\<lambda>s. str_profile s \<in> set gone_profiles) (streams d))
        in if has_row (\<lambda>b. fbd_record b \<in> set gone \<or> fbd_detect b \<in> set gone) (frigate_bindings d)
              \<or> has_row (\<lambda>b. bnd_stream b \<in> set gone) (bindings d)
           then Inl (IntegrityError ''FOREIGN KEY constraint failed'')
           else Inr (d\<lparr>profiles := del_where stale (profiles d),
                       streams := del_where (\<lambda>s. str_profile s \<in> set gone_profiles) (streams d),
                       auth_retries := del_where (\<lambda>r. rty_stream r \<in> set gone) (auth_retries d)\<rparr>))"

definition adopt_profile ::
  "string \<Rightarrow> bool \<Rightarrow> timestamp \<Rightarrow> profile_input \<Rightarrow> db \<Rightarrow> repo_error + string \<times> db" where
  "adopt_profile c custom t p d =
     (case source_parts_of (pin_uri p) of
        None \<Rightarrow> Inl (ValueError ''source'')
      | Some s \<Rightarrow>
          let (pu, d1) = (case row_get profile_key (c, pin_token p) (profiles d) of
                            Some r \<Rightarrow> (prf_uuid r, d) | None \<Rightarrow> new_uuid d);
              d2 = d1\<lparr>profiles := row_put profile_key (set_profile p s t)
                         (set_profile p s t (blank_profile pu c (pin_token p))) (profiles d1)\<rparr>
          in case row_get str_profile pu (streams d2) of
               Some x \<Rightarrow>
                 Inr (str_uuid x, d2\<lparr>streams := upd_where (\<lambda>r. str_uuid r = str_uuid x) reset_stream (streams d2)\<rparr>)
             | None \<Rightarrow>
                 (let (su, d3) = new_uuid d2
                  in Inr (su, d3\<lparr>streams := streams d3 @ [new_stream su c pu t (\<not> custom)]\<rparr>)))"

fun adopt_profiles ::
  "string \<Rightarrow> bool \<Rightarrow> timestamp \<Rightarrow> profile_input list \<Rightarrow> (string \<times> string) list \<Rightarrow> db \<Rightarrow>
   repo_error + (string \<times> string) list \<times> db" where
  "adopt_profiles c custom t [] by_token d = Inr (by_token, d)"
| "adopt_profiles c custom t (p # ps) by_token d =
     (case adopt_profile c custom t p d of
        Inl e \<Rightarrow> Inl e
      | Inr (su, d') \<Rightarrow> adopt_profiles c custom t ps (AList.update (pin_token p) su by_token) d')"

definition bind_role :: "string \<Rightarrow> timestamp \<Rightarrow> role \<times> string \<Rightarrow> db \<Rightarrow> db" where
  "bind_role c t rs d =
     (case rs of (r, stream) \<Rightarrow>
        d\<lparr>bindings := row_put binding_key (\<lambda>b. b\<lparr>bnd_stream := stream, bnd_updated := t\<rparr>)
           \<lparr>bnd_camera = c, bnd_role = r, bnd_stream = stream, bnd_updated = t\<rparr> (bindings d)\<rparr>)"

definition bind_tokens :: "string \<Rightarrow> timestamp \<Rightarrow> (string \<times> string) list \<Rightarrow> (role \<times> string) list \<Rightarrow> db \<Rightarrow> db" where
  "bind_tokens c t by_token roles d =
     fold (\<lambda>(r, token) x. case map_of by_token token of None \<Rightarrow> x | Some su \<Rightarrow> bind_role c t (r, su) x) roles d"

definition adopt_streams ::
  "string \<Rightarrow> profile_input list \<Rightarrow> (role \<times> string) list \<Rightarrow> timestamp \<Rightarrow> db \<Rightarrow> repo_error + db" where
  "adopt_streams c inputs roles t d =
     (let tokens = map pin_token inputs;
          custom = (case row_get cam_uuid c (cameras d) of None \<Rightarrow> False | Some r \<Rightarrow> cam_custom r);
          roles' = (if custom then bound_tokens d c else roles)
      in if custom \<and> \<not> snd ` set roles' \<subseteq> set tokens
         then Inl (ValueError ''Selected stream profiles are missing; existing settings were preserved'')
         else
           bind_err (drop_profiles c tokens (d\<lparr>bindings := del_where (\<lambda>b. bnd_camera b = c) (bindings d)\<rparr>)) (\<lambda>d1.
           bind_err (adopt_profiles c custom t inputs [] d1) (\<lambda>(by_token, d2).
             Inr (record_camera_health_transition c t (bind_tokens c t by_token roles' d2)))))"

definition adopt ::
  "(string \<Rightarrow> string \<Rightarrow> string) \<Rightarrow> device \<Rightarrow> string \<Rightarrow> string \<Rightarrow> profile_input list \<Rightarrow> (role \<times> string) list \<Rightarrow>
   camera_origin \<Rightarrow> source_key list \<Rightarrow> timestamp \<Rightarrow> db \<Rightarrow> repo_error + adoption option \<times> db" where
  "adopt enc candidate username password inputs roles origin reject t d =
     (if \<not> dhas ''candidate_uuid'' candidate then Inl (KeyError ''candidate_uuid'')
      else
        let candidate_uuid = py_str (dget candidate ''candidate_uuid'') in
        case assigned_source reject d of
          Some (owner, name) \<Rightarrow> Inl (SourceAlreadyAssignedError owner name)
        | None \<Rightarrow>
            let (camera_uuid, credential_uuid, d1) =
                  (case row_get cam_candidate candidate_uuid (cameras d) of
                     Some r \<Rightarrow> (cam_uuid r, cam_credential r, d)
                   | None \<Rightarrow>
                       (let (c, x) = new_uuid d; (u, y) = new_uuid x in (c, u, y)));
                name = py_str (py_or (dget candidate ''display_name'')
                         (py_or (dget candidate ''ip'') (PStr ''Camera'')));
                d2 = save_camera (new_camera camera_uuid candidate_uuid name credential_uuid t origin)
                       (save_credential credential_uuid username (enc password credential_uuid) t d1);
                d3 = (if origin = Discovery then snd (observe_identity camera_uuid candidate t d2) else d2)
            in bind_err (adopt_streams camera_uuid inputs roles t d3) (\<lambda>d4.
                 Inr (adoption_for_candidate candidate_uuid d4, d4)))"

end
