(* ===== verification/Streams.thy ===== *)
theory Streams
  imports Adoption
begin

text \<open>
  What is done with an adopted camera (camadmiral/storage.py): stream settings, credentials, the
  sources the media layer reads, the views for consumers, media configuration revisions, moved
  sources and removal. Several calls of \<open>_now()\<close> in one operation return one value here.
\<close>

subsection \<open>Removal and simple settings\<close>

definition unadopt_camera :: "string \<Rightarrow> db \<Rightarrow> bool \<times> db" where
  "unadopt_camera c d =
     (case row_get cam_uuid c (cameras d) of
        None \<Rightarrow> (False, d)
      | Some camera \<Rightarrow>
          (True, (delete_camera_cascade c d)\<lparr>credentials :=
             del_where (\<lambda>r. crd_uuid r = cam_credential camera) (credentials d)\<rparr>))"

definition camera_by_uuid :: "string \<Rightarrow> db \<Rightarrow> camera_row option" where
  "camera_by_uuid c d = row_get cam_uuid c (cameras d)"

definition update_camera_name :: "string \<Rightarrow> string \<Rightarrow> timestamp \<Rightarrow> db \<Rightarrow> bool \<times> db" where
  "update_camera_name c name t d =
     (has_row (\<lambda>r. cam_uuid r = c) (cameras d),
      d\<lparr>cameras := upd_where (\<lambda>r. cam_uuid r = c) (\<lambda>r. r\<lparr>cam_name := name, cam_updated := t\<rparr>) (cameras d)\<rparr>)"

definition set_camera_stream_address_mode :: "string \<Rightarrow> string \<Rightarrow> timestamp \<Rightarrow> db \<Rightarrow> repo_error + bool \<times> db" where
  "set_camera_stream_address_mode c mode t d =
     (case map_of [(''lan'', Lan), (''localhost'', Localhost)] mode of
        None \<Rightarrow> Inl (ValueError ''Camera stream address mode is invalid'')
      | Some m \<Rightarrow>
          Inr (has_row (\<lambda>r. cam_uuid r = c) (cameras d),
            d\<lparr>cameras := upd_where (\<lambda>r. cam_uuid r = c)
                (\<lambda>r. r\<lparr>cam_address_mode := m, cam_updated := t\<rparr>) (cameras d)\<rparr>))"

subsection \<open>Stream settings\<close>

definition set_stream_settings ::
  "string \<Rightarrow> string list \<Rightarrow> (role \<times> string) list \<Rightarrow> timestamp \<Rightarrow> db \<Rightarrow> repo_error + db" where
  "set_stream_settings c enabled roles t d =
     (let ids = map str_uuid (filter (\<lambda>s. str_camera s = c) (streams d)) in
      if ids = [] then Inl (ValueError ''Adopted camera not found'')
      else if \<not> distinct enabled \<or> \<not> set enabled \<subseteq> set ids
        then Inl (ValueError ''Invalid enabled stream selection'')
      else if fst ` set roles \<noteq> {Record, Detect} \<or> \<not> snd ` set roles \<subseteq> set enabled
        then Inl (ValueError ''Record and Detect must each use an enabled stream'')
      else
        let d1 = d\<lparr>streams := upd_where (\<lambda>s. str_uuid s \<in> set ids)
                     (\<lambda>s. s\<lparr>str_enabled := (str_uuid s \<in> set enabled)\<rparr>) (streams d)\<rparr>;
            d2 = fold (bind_role c t) roles d1;
            d3 = d2\<lparr>cameras := upd_where (\<lambda>r. cam_uuid r = c) (\<lambda>r. r\<lparr>cam_custom := True\<rparr>) (cameras d2)\<rparr>
        in Inr (record_camera_health_transition c t d3))"

subsection \<open>Credentials\<close>

definition replace_camera_credentials ::
  "(string \<Rightarrow> string \<Rightarrow> string) \<Rightarrow> string \<Rightarrow> string \<Rightarrow> string \<Rightarrow> timestamp \<Rightarrow> db \<Rightarrow> bool \<times> db" where
  "replace_camera_credentials enc c username password t d =
     (case row_get cam_uuid c (cameras d) of
        None \<Rightarrow> (False, d)
      | Some camera \<Rightarrow>
          let u = cam_credential camera;
              d1 = d\<lparr>credentials := upd_where (\<lambda>r. crd_uuid r = u)
                       (\<lambda>r. r\<lparr>crd_username := username, crd_cipher := enc password u, crd_updated := t\<rparr>)
                       (credentials d),
                     cameras := upd_where (\<lambda>r. cam_uuid r = c) (\<lambda>r. r\<lparr>cam_updated := t\<rparr>) (cameras d),
                     streams := upd_where (\<lambda>s. str_camera s = c) reset_stream (streams d)\<rparr>
          in (True, record_camera_health_transition c t d1))"

definition credentials_for_candidate ::
  "(string \<Rightarrow> string \<Rightarrow> crypto_error + string) \<Rightarrow> string \<Rightarrow> db \<Rightarrow> crypto_error + (string \<times> string) option" where
  "credentials_for_candidate dec candidate d =
     (case Option.bind (row_get cam_candidate candidate (cameras d))
             (\<lambda>a. row_get crd_uuid (cam_credential a) (credentials d)) of
        None \<Rightarrow> Inr None
      | Some r \<Rightarrow> map_sum id (\<lambda>p. Some (crd_username r, p)) (dec (crd_cipher r) (crd_uuid r)))"

definition rtsp_access_password ::
  "(string \<Rightarrow> string \<Rightarrow> string) \<Rightarrow> (string \<Rightarrow> string \<Rightarrow> crypto_error + string) \<Rightarrow> string \<Rightarrow> timestamp \<Rightarrow> db \<Rightarrow>
   crypto_error + string \<times> db" where
  "rtsp_access_password enc dec fresh t d =
     (let name = ''rtsp-access'' in
      case row_get sec_name name (service_secrets d) of
        Some r \<Rightarrow> map_sum id (\<lambda>p. (p, d)) (dec (sec_cipher r) name)
      | None \<Rightarrow>
          Inr (fresh, d\<lparr>service_secrets := service_secrets d @
            [\<lparr>sec_name = name, sec_cipher = enc fresh name, sec_created = t, sec_updated = t\<rparr>]\<rparr>))"

subsection \<open>Views\<close>

definition lower_ascii :: "string \<Rightarrow> string" where
  "lower_ascii s = map (\<lambda>c. let n = of_char c :: nat in if 65 \<le> n \<and> n \<le> 90 then char_of (n + 32) else c) s"

record consumer_stream =
  cst_stream :: stream_row
  cst_profile :: profile_row
  cst_roles :: "role list"

definition consumer_inventory :: "db \<Rightarrow> (camera_row \<times> consumer_stream list) list" where
  "consumer_inventory d =
     map (\<lambda>c. (c, map (\<lambda>(p, s). \<lparr>cst_stream = s, cst_profile = p,
              cst_roles = sort (map bnd_role
                 (filter (\<lambda>b. bnd_camera b = cam_uuid c \<and> bnd_stream b = str_uuid s) (bindings d)))\<rparr>)
            (sort_key (\<lambda>(p, s). str_uuid s) (filter (\<lambda>(p, s). str_enabled s) (joined_streams d (cam_uuid c))))))
       (sort_key (\<lambda>c. (lower_ascii (cam_name c), cam_uuid c)) (cameras d))"

definition health_rank :: "health \<Rightarrow> nat" where
  "health_rank h = (case h of Healthy \<Rightarrow> 0 | Degraded \<Rightarrow> 1 | _ \<Rightarrow> 2)"

definition role_rank :: "db \<Rightarrow> string \<Rightarrow> stream_row \<Rightarrow> nat" where
  "role_rank d c s =
     (let bound = (\<lambda>r. has_row (\<lambda>b. bnd_camera b = c \<and> bnd_stream b = str_uuid s \<and> bnd_role b = r) (bindings d))
      in if bound Detect then 0 else if bound Record then 1 else 2)"

definition preview_stream_for_camera :: "string \<Rightarrow> db \<Rightarrow> stream_row option" where
  "preview_stream_for_camera c d =
     (case row_get cam_uuid c (cameras d) of
        None \<Rightarrow> None
      | Some camera \<Rightarrow>
          if \<not> cam_enabled camera then None
          else
            case filter (\<lambda>s. str_camera s = c \<and> str_enabled s) (streams d) of
              [] \<Rightarrow> None
            | s # ss \<Rightarrow> Some (py_min (\<lambda>s. (health_rank (str_health s), role_rank d c s, str_key s)) s ss))"

subsection \<open>Sources for the media layer\<close>

record managed_source =
  mgs_stream :: string
  mgs_key :: string
  mgs_camera :: string
  mgs_uri :: string
  mgs_username :: string
  mgs_password :: string
  mgs_credential :: string

record source_filter =
  flt_auth_failed :: bool
  flt_disabled :: bool
  flt_camera :: "string option"
  flt_bound_only :: bool
  flt_role :: "role option"

definition every_source :: source_filter where
  "every_source = \<lparr>flt_auth_failed = True, flt_disabled = False, flt_camera = None,
     flt_bound_only = False, flt_role = None\<rparr>"

definition source_wanted :: "source_filter \<Rightarrow> db \<Rightarrow> stream_row \<Rightarrow> profile_row \<Rightarrow> camera_row \<Rightarrow> bool" where
  "source_wanted f d s p a \<longleftrightarrow>
     prf_uri p \<noteq> None \<and>
     (flt_auth_failed f \<or> str_health s \<noteq> AuthFailed) \<and>
     (flt_disabled f \<or> (cam_enabled a \<and> str_enabled s)) \<and>
     (flt_bound_only f \<or> flt_role f \<noteq> None \<longrightarrow>
        has_row (\<lambda>b. bnd_stream b = str_uuid s \<and> (case flt_role f of None \<Rightarrow> True | Some r \<Rightarrow> bnd_role b = r))
          (bindings d)) \<and>
     (case flt_camera f of None \<Rightarrow> True | Some c \<Rightarrow> str_camera s = c)"

definition joined_sources ::
  "source_filter \<Rightarrow> db \<Rightarrow> (stream_row \<times> profile_row \<times> credential_row) list" where
  "joined_sources f d =
     sort_key (\<lambda>(s, p, c). (str_camera s, str_key s))
       (concat (map (\<lambda>s.
          case (stream_profile d s, row_get cam_uuid (str_camera s) (cameras d)) of
            (Some p, Some a) \<Rightarrow>
              (case row_get crd_uuid (cam_credential a) (credentials d) of
                 Some c \<Rightarrow> if source_wanted f d s p a then [(s, p, c)] else []
               | None \<Rightarrow> [])
          | _ \<Rightarrow> []) (streams d)))"

fun decrypt_sources ::
  "(string \<Rightarrow> string \<Rightarrow> crypto_error + string) \<Rightarrow> (stream_row \<times> profile_row \<times> credential_row) list \<Rightarrow>
   crypto_error + managed_source list" where
  "decrypt_sources dec [] = Inr []"
| "decrypt_sources dec ((s, p, c) # rest) =
     bind_err (dec (crd_cipher c) (crd_uuid c)) (\<lambda>password.
     bind_err (decrypt_sources dec rest) (\<lambda>others.
       Inr (\<lparr>mgs_stream = str_uuid s, mgs_key = str_key s, mgs_camera = str_camera s,
             mgs_uri = profile_uri p, mgs_username = crd_username c, mgs_password = password,
             mgs_credential = crd_uuid c\<rparr> # others)))"

definition managed_stream_sources ::
  "(string \<Rightarrow> string \<Rightarrow> crypto_error + string) \<Rightarrow> source_filter \<Rightarrow> db \<Rightarrow> crypto_error + managed_source list" where
  "managed_stream_sources dec f d = decrypt_sources dec (joined_sources f d)"

definition managed_stream_runtime_sources :: "db \<Rightarrow> (string \<times> string \<times> string) list" where
  "managed_stream_runtime_sources d =
     map (\<lambda>s. (str_uuid s, str_key s, str_camera s))
       (sort_key (\<lambda>s. (str_camera s, str_key s))
         (filter (\<lambda>s. (case (stream_profile d s, row_get cam_uuid (str_camera s) (cameras d)) of
              (Some p, Some a) \<Rightarrow> prf_uri p \<noteq> None \<and> cam_enabled a \<and> str_enabled s
                \<and> str_health s \<noteq> AuthFailed \<and> role_bound d s
            | _ \<Rightarrow> False)) (streams d)))"

subsection \<open>Media configuration revisions\<close>

text \<open>\<open>digest\<close> is the SHA-256 of the canonical JSON of the typed sources.\<close>

definition typed_source :: "managed_source \<Rightarrow> source_ref option" where
  "typed_source s =
     (case urlsplit (mgs_uri s) of
        None \<Rightarrow> None
      | Some u \<Rightarrow>
          (case url_port u of
             None \<Rightarrow> None
           | Some port \<Rightarrow>
               Some \<lparr>src_stream_uuid = mgs_stream s, src_stream_key = mgs_key s, src_credential = mgs_credential s,
                     src_scheme = url_scheme u, src_host = url_hostname u, src_port = port,
                     src_path = url_path u, src_query = url_query u\<rparr>))"

definition record_desired_media_revision ::
  "(source_ref list \<Rightarrow> string) \<Rightarrow> managed_source list \<Rightarrow> timestamp \<Rightarrow> db \<Rightarrow>
   repo_error + (nat \<times> revision_status) \<times> db" where
  "record_desired_media_revision digest srcs t d =
     (case those (map typed_source (sort_key mgs_key srcs)) of
        None \<Rightarrow> Inl (ValueError ''source'')
      | Some config \<Rightarrow>
          let h = digest config;
              latest = (if revisions d = [] then None else Some (last (revisions d)));
              n = Suc (case latest of None \<Rightarrow> 0 | Some r \<Rightarrow> rev_id r);
              insert_new = Inr ((n, Desired), d\<lparr>revisions := revisions d @
                [\<lparr>rev_id = n, rev_hash = h, rev_config = config, rev_status = Desired, rev_error = None,
                  rev_created = t, rev_completed = None\<rparr>]\<rparr>)
          in case latest of
               Some r \<Rightarrow> if rev_hash r = h \<and> rev_status r \<noteq> RevFailed
                         then Inr ((rev_id r, rev_status r), d) else insert_new
             | None \<Rightarrow> insert_new)"

definition complete_media_revision ::
  "nat \<Rightarrow> string \<Rightarrow> string option \<Rightarrow> timestamp \<Rightarrow> db \<Rightarrow> repo_error + db" where
  "complete_media_revision n status code t d =
     (case map_of [(''applied'', Applied), (''failed'', RevFailed)] status of
        None \<Rightarrow> Inl (ValueError ''Media revision completion status is invalid'')
      | Some s \<Rightarrow>
          Inr (d\<lparr>revisions := upd_where (\<lambda>r. rev_id r = n \<and> rev_status r = Desired)
            (\<lambda>r. r\<lparr>rev_status := s, rev_error := code, rev_completed := Some t\<rparr>) (revisions d)\<rparr>))"

definition last_known_good_media_revision :: "db \<Rightarrow> revision_row option" where
  "last_known_good_media_revision d =
     (case filter (\<lambda>r. rev_status r = Applied) (revisions d) of [] \<Rightarrow> None | rs \<Rightarrow> Some (last rs))"

subsection \<open>Moved sources\<close>

fun update_sources :: "string \<Rightarrow> timestamp \<Rightarrow> (string \<times> string) list \<Rightarrow> db \<Rightarrow> repo_error + db" where
  "update_sources c t [] d = Inr d"
| "update_sources c t ((token, uri) # rest) d =
     (case source_parts_of (Some uri) of
        None \<Rightarrow> Inl (ValueError ''source'')
      | Some s \<Rightarrow>
          update_sources c t rest
            (d\<lparr>profiles := upd_where (\<lambda>p. prf_camera p = c \<and> prf_token p = token) (set_source (Some uri) s t)
                 (profiles d)\<rparr>))"

definition update_profile_sources :: "string \<Rightarrow> (string \<times> string) list \<Rightarrow> timestamp \<Rightarrow> db \<Rightarrow> repo_error + db" where
  "update_profile_sources c srcs t d =
     (if srcs = [] then Inr d
      else if \<not> fst ` set srcs \<subseteq> prf_token ` set (filter (\<lambda>p. prf_camera p = c) (profiles d))
        then Inl (ValueError ''Cannot update an unknown camera profile'')
      else
        bind_err (update_sources c t srcs d) (\<lambda>d1.
          let moved = map prf_uuid (filter (\<lambda>p. prf_camera p = c \<and> prf_token p \<in> fst ` set srcs) (profiles d1));
              d2 = d1\<lparr>streams := upd_where (\<lambda>s. str_camera s = c \<and> str_profile s \<in> set moved) reset_stream
                       (streams d1)\<rparr>
          in Inr (record_camera_health_transition c t d2)))"

definition record_address_change ::
  "string \<Rightarrow> string \<Rightarrow> string \<Rightarrow> string \<Rightarrow> timestamp \<Rightarrow> db \<Rightarrow> repo_error + db" where
  "record_address_change c previous current evidence t d =
     (if \<not> has_row (\<lambda>r. cam_uuid r = c) (cameras d) then Inl (IntegrityError ''FOREIGN KEY constraint failed'')
      else
        let (u, d') = new_uuid d
        in Inr (d'\<lparr>address_events := address_events d' @
             [\<lparr>aev_uuid = u, aev_camera = c, aev_previous = previous, aev_current = current,
               aev_evidence = evidence, aev_at = t\<rparr>]\<rparr>))"

end
