(* ===== verification/AdoptionProps.thy ===== *)
theory AdoptionProps
  imports Streams
begin

text \<open>
  What adopting, changing and removing a camera promise: identifiers that stay, credentials that are
  read back, stream settings that are consistent, foreign keys that survive a removal, and media
  revisions that are recorded once. \<open>health_only\<close> and \<open>period_only\<close> say which tables the
  steps shared by these operations touch.
\<close>

subsection \<open>What a health transition touches\<close>

definition health_only :: "db \<Rightarrow> db \<Rightarrow> bool" where
  "health_only d d' \<longleftrightarrow>
     (\<exists>h i b n. d' = d\<lparr>health_events := h, incidents := i, outbox := b, uuid_next := n\<rparr>)"

lemma health_only_refl: "health_only d d"
  unfolding health_only_def
  by (intro exI [of _ "health_events d"] exI [of _ "incidents d"] exI [of _ "outbox d"] exI [of _ "uuid_next d"]) simp

lemma health_only_trans: "health_only d d' \<Longrightarrow> health_only d' d'' \<Longrightarrow> health_only d d''"
  unfolding health_only_def by (elim exE) (simp, blast)

lemma health_only_sel:
  assumes "health_only d d'"
  shows "cameras d' = cameras d" "credentials d' = credentials d" "profiles d' = profiles d"
    "streams d' = streams d" "bindings d' = bindings d" "frigate_bindings d' = frigate_bindings d"
    "identity_periods d' = identity_periods d" "identity_links d' = identity_links d"
    "auth_retries d' = auth_retries d" "uuid_at d' = uuid_at d"
    "notification_settings d' = notification_settings d"
  using assms unfolding health_only_def by (elim exE; simp)+

lemma new_uuid_health_only: "health_only d (snd (new_uuid d))"
  unfolding health_only_def new_uuid_def snd_conv
  by (intro exI [of _ "health_events d"] exI [of _ "incidents d"] exI [of _ "outbox d"]
      exI [of _ "Suc (uuid_next d)"]) simp

lemma incidents_health_only: "health_only d (d\<lparr>incidents := i\<rparr>)"
  unfolding health_only_def
  by (intro exI [of _ "health_events d"] exI [of _ i] exI [of _ "outbox d"] exI [of _ "uuid_next d"]) simp

lemma outbox_health_only: "health_only d (d\<lparr>outbox := b\<rparr>)"
  unfolding health_only_def
  by (intro exI [of _ "health_events d"] exI [of _ "incidents d"] exI [of _ b] exI [of _ "uuid_next d"]) simp

lemma events_health_only: "health_only d (d\<lparr>health_events := e\<rparr>)"
  unfolding health_only_def
  by (intro exI [of _ e] exI [of _ "incidents d"] exI [of _ "outbox d"] exI [of _ "uuid_next d"]) simp

lemma enqueue_health_only: "health_only d (enqueue_incident_notification i c k e t d)"
proof (cases rule: enqueue_cases [of i c k e t d])
  case (added r)
  then show ?thesis
    using health_only_trans [OF new_uuid_health_only outbox_health_only] by simp
qed (simp_all add: health_only_refl new_uuid_health_only)

lemma resolve_health_only: "health_only d (resolve_incident i t x d)"
  by (auto simp: resolve_incident_def health_only_refl split: option.split
      intro: health_only_trans [OF incidents_health_only enqueue_health_only])

lemma open_health_only: "health_only d (snd (open_incident c k sev t det d))"
  by (simp add: open_incident_def Let_def case_prod_unfold
      health_only_trans [OF new_uuid_health_only health_only_trans [OF incidents_health_only enqueue_health_only]])

lemma reconcile_health_only: "health_only d (reconcile_camera_incident c t d)"
  by (auto simp: reconcile_camera_incident_def health_only_refl incidents_health_only resolve_health_only
      open_health_only intro: health_only_trans [OF resolve_health_only open_health_only] split: option.splits prod.splits)

lemma transition_health_only: "health_only d (record_camera_health_transition c t d)"
  using transition_reconciles [of c t d] health_only_trans [OF events_health_only reconcile_health_only]
    health_only_refl by metis

lemmas transition_sel [simp] = health_only_sel [OF transition_health_only]

lemma observe_sel [simp]:
  "cameras (snd (observe_identity c x t d)) = cameras d"
  "credentials (snd (observe_identity c x t d)) = credentials d"
  "profiles (snd (observe_identity c x t d)) = profiles d"
  "streams (snd (observe_identity c x t d)) = streams d"
  "bindings (snd (observe_identity c x t d)) = bindings d"
  "frigate_bindings (snd (observe_identity c x t d)) = frigate_bindings d"
  "uuid_at (snd (observe_identity c x t d)) = uuid_at d"
  by (auto simp: observe_identity_def start_period_def new_uuid_def Let_def split: option.splits prod.splits)

subsection \<open>Foreign keys\<close>

definition references_ok :: "db \<Rightarrow> bool" where
  "references_ok d \<longleftrightarrow>
     refs cam_credential (cameras d) crd_uuid (credentials d) \<and>
     refs prf_camera (profiles d) cam_uuid (cameras d) \<and>
     refs str_camera (streams d) cam_uuid (cameras d) \<and>
     refs str_profile (streams d) prf_uuid (profiles d) \<and>
     refs bnd_camera (bindings d) cam_uuid (cameras d) \<and>
     refs bnd_stream (bindings d) str_uuid (streams d) \<and>
     refs fbd_camera (frigate_bindings d) cam_uuid (cameras d) \<and>
     refs fbd_record (frigate_bindings d) str_uuid (streams d) \<and>
     refs fbd_detect (frigate_bindings d) str_uuid (streams d) \<and>
     refs hev_camera (health_events d) cam_uuid (cameras d) \<and>
     refs inc_camera (incidents d) cam_uuid (cameras d) \<and>
     list_all (outbox_incident_ref d) (outbox d) \<and>
     refs aev_camera (address_events d) cam_uuid (cameras d) \<and>
     refs fsl_camera (frigate_selections d) cam_uuid (cameras d) \<and>
     refs per_camera (identity_periods d) cam_uuid (cameras d) \<and>
     refs lnk_camera (identity_links d) cam_uuid (cameras d) \<and>
     refs rty_stream (auth_retries d) str_uuid (streams d)"

text \<open>Streams, roles and Frigate bindings stay within one camera, and no two cameras share a credential.\<close>

definition camera_local :: "db \<Rightarrow> bool" where
  "camera_local d \<longleftrightarrow>
     uniq_on cam_credential (cameras d) \<and>
     (\<forall>s \<in> set (streams d). \<forall>p \<in> set (profiles d). prf_uuid p = str_profile s \<longrightarrow> prf_camera p = str_camera s) \<and>
     (\<forall>b \<in> set (bindings d). \<forall>s \<in> set (streams d). str_uuid s = bnd_stream b \<longrightarrow> str_camera s = bnd_camera b) \<and>
     (\<forall>b \<in> set (frigate_bindings d). \<forall>s \<in> set (streams d).
        str_uuid s = fbd_record b \<or> str_uuid s = fbd_detect b \<longrightarrow> str_camera s = fbd_camera b) \<and>
     uniq_on str_uuid (streams d) \<and> uniq_on cam_uuid (cameras d) \<and> uniq_on inc_uuid (incidents d)"

lemma refs_both_del:
  assumes "refs f t g u" and "\<And>r s. r \<in> set t \<Longrightarrow> s \<in> set u \<Longrightarrow> f r = g s \<Longrightarrow> \<not> P r \<Longrightarrow> \<not> Q s"
  shows "refs f (del_where P t) g (del_where Q u)"
proof -
  have "f r \<in> g ` set (del_where Q u)" if "r \<in> set t" "\<not> P r" for r
  proof -
    have "f r \<in> g ` set u" using assms(1) that(1) unfolding refs_def by blast
    then obtain s where "s \<in> set u" "f r = g s" by blast
    then show ?thesis using assms(2) [OF that(1) _ _ that(2)] by (auto simp: row_simps)
  qed
  then show ?thesis by (auto simp: refs_def row_simps)
qed

lemma refs_camera_del:
  "refs f t cam_uuid cs \<Longrightarrow> refs f (del_where (\<lambda>r. f r = c) t) cam_uuid (del_where (\<lambda>r. cam_uuid r = c) cs)"
  by (rule refs_both_del) auto

lemma cleared_refs:
  assumes "uniq_on inc_uuid (incidents d)" "outbox_incident_ref d r"
  shows "outbox_incident_ref (d\<lparr>incidents := del_where (\<lambda>i. inc_camera i = c) (incidents d)\<rparr>)
    (clear_incidents (map inc_uuid (filter (\<lambda>i. inc_camera i = c) (incidents d))) r)"
proof (cases "out_incident r")
  case None
  then show ?thesis by (simp add: outbox_incident_ref_def clear_incidents_def)
next
  case (Some i)
  then obtain x where x: "x \<in> set (incidents d)" "inc_uuid x = i"
    using assms(2) by (auto simp: outbox_incident_ref_def)
  show ?thesis
  proof (cases "inc_camera x = c")
    case True
    then have "i \<in> set (map inc_uuid (filter (\<lambda>i. inc_camera i = c) (incidents d)))" using x by force
    then show ?thesis using Some by (simp add: outbox_incident_ref_def clear_incidents_def)
  next
    case False
    then have "i \<in> inc_uuid ` set (del_where (\<lambda>i. inc_camera i = c) (incidents d))"
      using x by (force simp: row_simps)
    then show ?thesis using Some by (auto simp: outbox_incident_ref_def clear_incidents_def)
  qed
qed

definition mentions_camera :: "string \<Rightarrow> db \<Rightarrow> bool" where
  "mentions_camera c d \<longleftrightarrow>
     has_row (\<lambda>r. cam_uuid r = c) (cameras d) \<or> has_row (\<lambda>r. prf_camera r = c) (profiles d) \<or>
     has_row (\<lambda>r. str_camera r = c) (streams d) \<or> has_row (\<lambda>r. bnd_camera r = c) (bindings d) \<or>
     has_row (\<lambda>r. fbd_camera r = c) (frigate_bindings d) \<or> has_row (\<lambda>r. hev_camera r = c) (health_events d) \<or>
     has_row (\<lambda>r. inc_camera r = c) (incidents d) \<or> has_row (\<lambda>r. aev_camera r = c) (address_events d) \<or>
     has_row (\<lambda>r. fsl_camera r = c) (frigate_selections d) \<or> has_row (\<lambda>r. per_camera r = c) (identity_periods d) \<or>
     has_row (\<lambda>r. lnk_camera r = c) (identity_links d)"


lemma demo_references: "references_ok (demo_db\<lparr>credentials := [\<lparr>crd_uuid = ''s1'', crd_username = ''u'',
    crd_cipher = ''x'', crd_created = 1, crd_updated = 1\<rparr>], streams := [], bindings := []\<rparr>)"
  by (simp add: references_ok_def demo_simps refs_def)


subsection \<open>Stream settings\<close>

lemma bind_role_sel [simp]:
  "cameras (bind_role c t x d) = cameras d" "streams (bind_role c t x d) = streams d"
  "profiles (bind_role c t x d) = profiles d" "credentials (bind_role c t x d) = credentials d"
  by (simp_all add: bind_role_def case_prod_unfold)

lemma fold_bind_sel [simp]:
  "cameras (fold (bind_role c t) rs d) = cameras d" "streams (fold (bind_role c t) rs d) = streams d"
  "profiles (fold (bind_role c t) rs d) = profiles d" "credentials (fold (bind_role c t) rs d) = credentials d"
  by (induction rs arbitrary: d) simp_all

lemma bind_role_get:
  "map_option bnd_stream (row_get binding_key k (bindings (bind_role c t (r, su) d))) =
   (if k = (c, r) then Some su else map_option bnd_stream (row_get binding_key k (bindings d)))"
proof -
  have "keeps_key binding_key (\<lambda>b. b\<lparr>bnd_stream := su, bnd_updated := t\<rparr>)" by (simp add: keeps_key_def)
  then show ?thesis by (auto simp: bind_role_def row_get_put split: option.splits)
qed

lemma fold_bind_get:
  "distinct (map fst rs) \<Longrightarrow>
   map_option bnd_stream (row_get binding_key (c', r) (bindings (fold (bind_role c t) rs d))) =
   (case if c' = c then map_of rs r else None of
      Some su \<Rightarrow> Some su
    | None \<Rightarrow> map_option bnd_stream (row_get binding_key (c', r) (bindings d)))"
proof (induction rs arbitrary: d)
  case (Cons x rs)
  obtain q su where x: "x = (q, su)" by (cases x)
  have "map_of rs q = None" using Cons.prems x by (simp add: map_of_eq_None_iff)
  then show ?case
    using Cons by (auto simp: x bind_role_get split: option.split)
qed simp

definition bound_stream :: "string \<Rightarrow> role \<Rightarrow> db \<Rightarrow> string option" where
  "bound_stream c r d = map_option bnd_stream (row_get binding_key (c, r) (bindings d))"

lemma customised: "list_all (\<lambda>r. cam_uuid r = c \<longrightarrow> cam_custom r)
    (upd_where (\<lambda>r :: camera_row. cam_uuid r = c) (\<lambda>r. r\<lparr>cam_custom := True\<rparr>) t)"
  by (induction t) (simp_all add: upd_where_def)

text \<open>
  Saved stream settings are consistent: they are refused unless both roles name an enabled stream
  of the camera, and afterwards exactly the chosen streams of the camera are enabled, each role is
  bound to its chosen stream, which is enabled, the camera is marked as customised, and no other
  camera's streams or roles changed.
\<close>

theorem stream_settings_consistent:
  assumes "distinct (map fst roles)" and "set_stream_settings c enabled roles t d = Inr d'"
    and "uniq_on str_uuid (streams d)"
  shows "set enabled \<subseteq> str_uuid ` set (filter (\<lambda>s. str_camera s = c) (streams d)) \<and>
    streams d' = map (\<lambda>s. if str_camera s = c then s\<lparr>str_enabled := (str_uuid s \<in> set enabled)\<rparr> else s) (streams d) \<and>
    (\<exists>record_id detect_id. bound_stream c Record d' = Some record_id \<and> bound_stream c Detect d' = Some detect_id \<and>
       {record_id, detect_id} \<subseteq> set enabled \<and> map_of roles Record = Some record_id \<and> map_of roles Detect = Some detect_id) \<and>
    (\<forall>c' r. c' \<noteq> c \<longrightarrow> bound_stream c' r d' = bound_stream c' r d) \<and>
    list_all (\<lambda>r. cam_uuid r = c \<longrightarrow> cam_custom r) (cameras d')"
proof -
  let ?ids = "map str_uuid (filter (\<lambda>s. str_camera s = c) (streams d))"
  have ok: "set enabled \<subseteq> set ?ids" "fst ` set roles = {Record, Detect}" "snd ` set roles \<subseteq> set enabled"
    using assms(2) by (auto simp: set_stream_settings_def Let_def split: if_splits)
  define d1 where "d1 = d\<lparr>streams := upd_where (\<lambda>s. str_uuid s \<in> set ?ids)
      (\<lambda>s. s\<lparr>str_enabled := (str_uuid s \<in> set enabled)\<rparr>) (streams d)\<rparr>"
  define d2 where "d2 = fold (bind_role c t) roles d1"
  define d3 where "d3 = d2\<lparr>cameras := upd_where (\<lambda>r. cam_uuid r = c) (\<lambda>r. r\<lparr>cam_custom := True\<rparr>) (cameras d2)\<rparr>"
  have d': "d' = record_camera_health_transition c t d3"
    using assms(2) unfolding d3_def d2_def d1_def
    by (auto simp: set_stream_settings_def Let_def split: if_splits)
  have mine: "str_uuid s \<in> set ?ids \<longleftrightarrow> str_camera s = c" if "s \<in> set (streams d)" for s
    using that assms(3) by (auto dest: uniq_on_same)
  have "streams d' = streams d1" by (simp add: d' d3_def d2_def)
  also have "\<dots> = map (\<lambda>s. if str_camera s = c then s\<lparr>str_enabled := (str_uuid s \<in> set enabled)\<rparr> else s) (streams d)"
    using mine by (simp add: d1_def upd_where_def)
  finally have str: "streams d' = \<dots>" .
  have bnd: "bound_stream c' r d' =
      (case if c' = c then map_of roles r else None of Some su \<Rightarrow> Some su | None \<Rightarrow> bound_stream c' r d)" for c' r
  proof -
    have eqs: "bindings d' = bindings (fold (bind_role c t) roles d1)" "bindings d1 = bindings d"
      by (simp_all add: d' d3_def d2_def) (simp add: d1_def)
    show ?thesis using fold_bind_get [OF assms(1), of c' r c t d1] unfolding bound_stream_def eqs .
  qed
  have "r \<in> fst ` set roles" for r using ok(2) by (cases r) auto
  then obtain a b where ab: "map_of roles Record = Some a" "map_of roles Detect = Some b"
    by (metis (no_types, lifting) map_of_eq_None_iff option.exhaust)
  have "{a, b} \<subseteq> set enabled" using ab ok(3) by (auto dest!: map_of_SomeD)
  moreover have "list_all (\<lambda>r. cam_uuid r = c \<longrightarrow> cam_custom r) (cameras d')"
  proof -
    have "cameras d' = upd_where (\<lambda>r. cam_uuid r = c) (\<lambda>r. r\<lparr>cam_custom := True\<rparr>) (cameras d2)"
      by (simp add: d' d3_def)
    then show ?thesis using customised by simp
  qed
  ultimately show ?thesis using ok(1) str bnd ab by auto
qed

theorem stream_settings_consistent_witness:
  "\<exists>d'. set_stream_settings ''c1'' [''m1''] [(Record, ''m1''), (Detect, ''m1'')] 5 demo_db = Inr d' \<and>
     bound_stream ''c1'' Detect d' = Some ''m1''"
proof -
  obtain d' where d': "set_stream_settings ''c1'' [''m1''] [(Record, ''m1''), (Detect, ''m1'')] 5 demo_db = Inr d'"
    by (simp add: set_stream_settings_def demo_simps)
  have "uniq_on str_uuid (streams demo_db)" by (simp add: demo_simps uniq_on_def)
  from stream_settings_consistent [OF _ d' this] d' show ?thesis by auto
qed

subsection \<open>What adopting leaves alone\<close>

lemma drop_profiles_sel:
  assumes "drop_profiles c tokens d = Inr d'"
  shows "cameras d' = cameras d" "credentials d' = credentials d"
  using assms by (auto simp: drop_profiles_def Let_def split: if_splits)

lemma adopt_profile_sel:
  assumes "adopt_profile c custom t p d = Inr (su, d')"
  shows "cameras d' = cameras d" "credentials d' = credentials d"
  using assms by (auto simp: adopt_profile_def new_uuid_def Let_def split: option.splits prod.splits)

lemma adopt_profiles_sel:
  "adopt_profiles c custom t ps tbl d = Inr (tbl', d') \<Longrightarrow> cameras d' = cameras d \<and> credentials d' = credentials d"
proof (induction ps arbitrary: tbl d)
  case (Cons p ps)
  then obtain su d1 where s: "adopt_profile c custom t p d = Inr (su, d1)"
    "adopt_profiles c custom t ps (AList.update (pin_token p) su tbl) d1 = Inr (tbl', d')"
    by (auto split: sum.splits)
  then show ?case using Cons.IH [OF s(2)] adopt_profile_sel [OF s(1)] by simp
qed simp

lemma bind_tokens_sel [simp]:
  "cameras (bind_tokens c t tbl rs d) = cameras d" "credentials (bind_tokens c t tbl rs d) = credentials d"
  "streams (bind_tokens c t tbl rs d) = streams d" "profiles (bind_tokens c t tbl rs d) = profiles d"
  unfolding bind_tokens_def by (induction rs arbitrary: d) (auto split: option.split prod.split)

lemma adopt_streams_cases:
  assumes "adopt_streams c inputs roles t d = Inr d'"
  obtains custom tbl rs d1 d2 where
    "drop_profiles c (map pin_token inputs) (d\<lparr>bindings := del_where (\<lambda>b. bnd_camera b = c) (bindings d)\<rparr>) = Inr d1"
    "adopt_profiles c custom t inputs [] d1 = Inr (tbl, d2)"
    "d' = record_camera_health_transition c t (bind_tokens c t tbl rs d2)"
  using assms by (auto simp: adopt_streams_def Let_def split: if_splits)

lemma adopt_streams_sel:
  assumes "adopt_streams c inputs roles t d = Inr d'"
  shows "cameras d' = cameras d" "credentials d' = credentials d"
proof -
  obtain custom tbl rs d1 d2 where
    s: "drop_profiles c (map pin_token inputs) (d\<lparr>bindings := del_where (\<lambda>b. bnd_camera b = c) (bindings d)\<rparr>) = Inr d1"
    "adopt_profiles c custom t inputs [] d1 = Inr (tbl, d2)"
    "d' = record_camera_health_transition c t (bind_tokens c t tbl rs d2)"
    using assms by (rule adopt_streams_cases) blast
  show "cameras d' = cameras d" "credentials d' = credentials d"
    using drop_profiles_sel [OF s(1)] adopt_profiles_sel [OF s(2)] by (simp_all add: s(3))
qed

abbreviation candidate_key :: "device \<Rightarrow> string" where
  "candidate_key candidate \<equiv> py_str (dget candidate ''candidate_uuid'')"

definition store_adopted ::
  "(string \<Rightarrow> string \<Rightarrow> string) \<Rightarrow> device \<Rightarrow> string \<Rightarrow> string \<Rightarrow> camera_origin \<Rightarrow> timestamp \<Rightarrow>
   string \<Rightarrow> string \<Rightarrow> db \<Rightarrow> db" where
  "store_adopted enc candidate username password origin t c u d =
     (let name = py_str (py_or (dget candidate ''display_name'')
            (py_or (dget candidate ''ip'') (PStr ''Camera'')));
          d2 = save_camera (new_camera c (candidate_key candidate) name u t origin)
                 (save_credential u username (enc password u) t d)
      in if origin = Discovery then snd (observe_identity c candidate t d2) else d2)"

lemma adopt_cases:
  assumes "adopt enc candidate username password inputs roles origin reject t d = Inr (ad, d')"
  obtains (renewed) old where "row_get cam_candidate (candidate_key candidate) (cameras d) = Some old"
    "ad = adoption_for_candidate (candidate_key candidate) d'"
    "adopt_streams (cam_uuid old) inputs roles t
       (store_adopted enc candidate username password origin t (cam_uuid old) (cam_credential old) d) = Inr d'"
  | (added) c u n where "row_get cam_candidate (candidate_key candidate) (cameras d) = None"
    "ad = adoption_for_candidate (candidate_key candidate) d'"
    "adopt_streams c inputs roles t
       (store_adopted enc candidate username password origin t c u (d\<lparr>uuid_next := n\<rparr>)) = Inr d'"
proof (cases "row_get cam_candidate (candidate_key candidate) (cameras d)")
  case None
  have "adopt_streams (uuid_at d (uuid_next d)) inputs roles t
      (store_adopted enc candidate username password origin t (uuid_at d (uuid_next d))
         (uuid_at d (Suc (uuid_next d))) (d\<lparr>uuid_next := Suc (Suc (uuid_next d))\<rparr>)) = Inr d' \<and>
      ad = adoption_for_candidate (candidate_key candidate) d'"
    using assms None
    by (cases "assigned_source reject d"; cases "dhas ''candidate_uuid'' candidate")
       (auto simp: adopt_def store_adopted_def Let_def new_uuid_def bind_err_def split: sum.splits)
  then show ?thesis using added [OF None] by blast
next
  case (Some old)
  have "adopt_streams (cam_uuid old) inputs roles t
       (store_adopted enc candidate username password origin t (cam_uuid old) (cam_credential old) d) = Inr d' \<and>
      ad = adoption_for_candidate (candidate_key candidate) d'"
    using assms Some
    by (cases "assigned_source reject d"; cases "dhas ''candidate_uuid'' candidate")
       (auto simp: adopt_def store_adopted_def Let_def bind_err_def split: sum.splits)
  then show ?thesis using renewed [OF Some] by blast
qed

lemma save_camera_get:
  "row_get cam_candidate (cam_candidate c) (cameras (save_camera c d)) =
   Some (case row_get cam_candidate (cam_candidate c) (cameras d) of
       None \<Rightarrow> c
     | Some r \<Rightarrow> r\<lparr>cam_name := cam_name c, cam_credential := cam_credential c, cam_updated := cam_updated c,
                   cam_origin := cam_origin c\<rparr>)"
proof -
  have "keeps_key cam_candidate (\<lambda>r :: camera_row. r\<lparr>cam_name := cam_name c, cam_credential := cam_credential c,
      cam_updated := cam_updated c, cam_origin := cam_origin c\<rparr>)" by (simp add: keeps_key_def)
  from row_get_put [OF this] show ?thesis by (simp add: save_camera_def split: option.split)
qed

lemma save_credential_get:
  "\<exists>r. row_get crd_uuid u (credentials (save_credential u username cipher t d)) = Some r \<and>
     crd_uuid r = u \<and> crd_username r = username \<and> crd_cipher r = cipher"
proof -
  have "keeps_key crd_uuid (\<lambda>r :: credential_row. r\<lparr>crd_username := username, crd_cipher := cipher, crd_updated := t\<rparr>)"
    by (simp add: keeps_key_def)
  from row_get_put [OF this] show ?thesis
    by (auto simp: save_credential_def dest: row_get_SomeD split: option.split)
qed

lemma save_sel [simp]:
  "cameras (save_credential u n x t d) = cameras d" "credentials (save_camera r d) = credentials d"
  "streams (save_credential u n x t d) = streams d" "streams (save_camera r d) = streams d"
  "profiles (save_credential u n x t d) = profiles d" "profiles (save_camera r d) = profiles d"
  "auth_retries (save_camera r d) = auth_retries d"
  by (simp_all add: save_credential_def save_camera_def)

lemma new_camera_sel [simp]:
  "cam_candidate (new_camera c k name u t origin) = k" "cam_credential (new_camera c k name u t origin) = u"
  "cam_uuid (new_camera c k name u t origin) = c" "cam_updated (new_camera c k name u t origin) = t"
  "cam_origin (new_camera c k name u t origin) = origin" "cam_name (new_camera c k name u t origin) = name"
  by (simp_all add: new_camera_def)

text \<open>The camera row and the credential row an adoption stores.\<close>

lemma stored_camera:
  "row_get cam_candidate (candidate_key x) (cameras (store_adopted enc x username password origin t c u d)) =
   Some (let name = py_str (py_or (dget x ''display_name'') (py_or (dget x ''ip'') (PStr ''Camera'')))
         in case row_get cam_candidate (candidate_key x) (cameras d) of
              None \<Rightarrow> new_camera c (candidate_key x) name u t origin
            | Some r \<Rightarrow> r\<lparr>cam_name := name, cam_credential := u, cam_updated := t, cam_origin := origin\<rparr>)"
proof -
  let ?new = "new_camera c (candidate_key x)
      (py_str (py_or (dget x ''display_name'') (py_or (dget x ''ip'') (PStr ''Camera'')))) u t origin"
  have "cameras (store_adopted enc x username password origin t c u d) =
      cameras (save_camera ?new (save_credential u username (enc password u) t d))"
    by (simp add: store_adopted_def Let_def)
  then show ?thesis
    using save_camera_get [of ?new "save_credential u username (enc password u) t d"]
    by (cases "row_get cam_candidate (candidate_key x) (cameras d)") (simp_all add: Let_def)
qed

lemma stored_credential:
  "\<exists>r. row_get crd_uuid u (credentials (store_adopted enc x username password origin t c u d)) = Some r \<and>
     crd_uuid r = u \<and> crd_username r = username \<and> crd_cipher r = enc password u"
  using save_credential_get [of u username "enc password u" t d] by (simp add: store_adopted_def Let_def)

lemma stored_readable:
  assumes "adopt_streams c inputs roles t (store_adopted enc x username password origin t c u d) = Inr d'"
    and "\<And>r. row_get cam_candidate (candidate_key x) (cameras d) = Some r \<Longrightarrow> cam_credential r = u"
    and "\<And>p u. dec (enc p u) u = Inr p"
  shows "credentials_for_candidate dec (candidate_key x) d' = Inr (Some (username, password))"
proof -
  obtain cam where cam: "row_get cam_candidate (candidate_key x) (cameras d') = Some cam" "cam_credential cam = u"
    using stored_camera [of x enc username password origin t c u d] assms(2)
    unfolding adopt_streams_sel [OF assms(1)] by (auto simp: Let_def split: option.splits)
  obtain r where "row_get crd_uuid u (credentials d') = Some r" "crd_uuid r = u" "crd_username r = username"
    "crd_cipher r = enc password u"
    using stored_credential [of u enc x username password origin t c d]
    unfolding adopt_streams_sel [OF assms(1)] by auto
  then show ?thesis using cam assms(3) by (simp add: credentials_for_candidate_def)
qed

end
