(* ===== verification/Readoption.thy ===== *)
theory Readoption
  imports AdoptionProps
begin

text \<open>
  Adopting a camera again. Downstream systems address a stream by its key, so a camera that is adopted
  a second time keeps its identifiers: \<open>stream_of\<close> is the stream a profile token leads to, and
  \<open>same_stream\<close> what every step of the adoption leaves of it. Cameras whose stream settings were
  customised also keep the role bindings.
\<close>

subsection \<open>The stream behind a profile token\<close>

definition stream_of :: "string \<Rightarrow> string \<Rightarrow> db \<Rightarrow> stream_row option" where
  "stream_of c token d =
     Option.bind (row_get profile_key (c, token) (profiles d)) (\<lambda>p. row_get str_profile (prf_uuid p) (streams d))"

definition same_stream :: "stream_row \<Rightarrow> stream_row \<Rightarrow> bool" where
  "same_stream s s' \<longleftrightarrow>
     str_uuid s' = str_uuid s \<and> str_key s' = str_key s \<and> str_camera s' = str_camera s \<and>
     str_profile s' = str_profile s \<and> str_created s' = str_created s \<and> str_enabled s' = str_enabled s"

lemma same_stream_refl [simp]: "same_stream s s"
  by (simp add: same_stream_def)

lemma same_stream_trans: "same_stream s s' \<Longrightarrow> same_stream s' s'' \<Longrightarrow> same_stream s s''"
  by (simp add: same_stream_def)

lemma same_stream_reset [simp]: "same_stream s (reset_stream s)"
  by (simp add: same_stream_def reset_stream_def)

lemma stream_of_cong: "profiles d' = profiles d \<Longrightarrow> streams d' = streams d \<Longrightarrow> stream_of c token d' = stream_of c token d"
  by (simp add: stream_of_def)

lemma stream_of_SomeE:
  assumes "stream_of c token d = Some s"
  obtains p where "row_get profile_key (c, token) (profiles d) = Some p" "row_get str_profile (prf_uuid p) (streams d) = Some s"
  using assms by (auto simp: stream_of_def split: Option.bind_splits)

lemma row_get_keep:
  "row_get key k t = Some r \<Longrightarrow> \<not> P r \<Longrightarrow> row_get key k (del_where P t) = Some r"
  unfolding row_get_def by (induction t) (auto split: if_splits)

lemma row_get_reset:
  "row_get str_profile k (upd_where P reset_stream t) =
   map_option (\<lambda>s. if P s then reset_stream s else s) (row_get str_profile k t)"
  unfolding row_get_def by (induction t) (auto simp: reset_stream_def)

lemma reset_keeps:
  "row_get str_profile k t = Some s \<Longrightarrow> \<exists>s'. row_get str_profile k (upd_where P reset_stream t) = Some s' \<and> same_stream s s'"
  by (simp add: row_get_reset)

lemma row_get_snoc:
  "row_get key k (t @ [r]) = (case row_get key k t of Some x \<Rightarrow> Some x | None \<Rightarrow> if key r = k then Some r else None)"
  by (simp add: row_get_def find_append split: option.split)

lemma set_profile_sel [simp]:
  "prf_uuid (set_profile p s t r) = prf_uuid r" "profile_key (set_profile p s t r) = profile_key r"
  by (simp_all add: set_profile_def set_source_def)

lemma set_profile_key: "keeps_key profile_key (set_profile p s t)"
  by (simp add: keeps_key_def)

subsection \<open>One profile of the adoption\<close>

lemma adopt_profile_outcome:
  assumes "adopt_profile c custom t p d = Inr (su, d')"
  shows "\<exists>s. stream_of c (pin_token p) d' = Some s \<and> str_uuid s = su"
    and "stream_of c token d = Some s \<Longrightarrow> \<exists>s'. stream_of c token d' = Some s' \<and> same_stream s s'"
proof -
  obtain sp where sp: "source_parts_of (pin_uri p) = Some sp"
    using assms by (auto simp: adopt_profile_def split: option.splits)
  obtain pu d1 where pu: "(case row_get profile_key (c, pin_token p) (profiles d) of
      Some r \<Rightarrow> (prf_uuid r, d) | None \<Rightarrow> new_uuid d) = (pu, d1)" by (meson surj_pair)
  have d1: "profiles d1 = profiles d" "streams d1 = streams d"
    using pu by (auto simp: new_uuid_def split: option.splits)
  define ps where "ps = row_put profile_key (set_profile p sp t)
      (set_profile p sp t (blank_profile pu c (pin_token p))) (profiles d)"
  have blank: "profile_key (blank_profile pu c (pin_token p)) = (c, pin_token p)" "prf_uuid (blank_profile pu c (pin_token p)) = pu"
    by (simp_all add: blank_profile_def)
  have ps: "map_option prf_uuid (row_get profile_key (c, tk) ps) =
      (if tk = pin_token p then Some pu else map_option prf_uuid (row_get profile_key (c, tk) (profiles d)))" for tk
    using pu unfolding ps_def row_get_put [OF set_profile_key] by (auto simp: blank new_uuid_def split: option.splits)
  have old: "pu = prf_uuid r" if "row_get profile_key (c, pin_token p) (profiles d) = Some r" for r
    using pu that by simp
  have via: "stream_of c tk x = Option.bind (map_option prf_uuid (row_get profile_key (c, tk) (profiles x)))
      (\<lambda>u. row_get str_profile u (streams x))" for tk x
    by (simp add: stream_of_def split: option.split Option.bind_split)
  have at: "stream_of c tk d' = Option.bind (if tk = pin_token p then Some pu
      else map_option prf_uuid (row_get profile_key (c, tk) (profiles d))) (\<lambda>u. row_get str_profile u (streams d'))"
    if "profiles d' = ps" for tk
    unfolding via that ps ..
  have "(\<exists>s. stream_of c (pin_token p) d' = Some s \<and> str_uuid s = su) \<and>
      (stream_of c token d = Some s \<longrightarrow> (\<exists>s'. stream_of c token d' = Some s' \<and> same_stream s s'))"
  proof (cases "row_get str_profile pu (streams d)")
    case (Some x)
    have d': "su = str_uuid x" "profiles d' = ps"
      "streams d' = upd_where (\<lambda>r. str_uuid r = str_uuid x) reset_stream (streams d)"
      using assms Some by (auto simp: adopt_profile_def sp pu d1 ps_def Let_def)
    have "\<exists>s. stream_of c (pin_token p) d' = Some s \<and> str_uuid s = su"
      using Some by (simp add: at [OF d'(2)] d'(1,3) row_get_reset reset_stream_def)
    moreover have "stream_of c token d = Some s \<Longrightarrow> \<exists>s'. stream_of c token d' = Some s' \<and> same_stream s s'"
      by (erule stream_of_SomeE) (use old in \<open>auto simp: at [OF d'(2)] d'(3) intro: reset_keeps\<close>)
    ultimately show ?thesis by blast
  next
    case None
    obtain y d3 where y: "new_uuid (d1\<lparr>profiles := ps\<rparr>) = (y, d3)" by (meson surj_pair)
    have d3: "profiles d3 = ps" "streams d3 = streams d" using y by (auto simp: new_uuid_def d1)
    have d': "su = y" "profiles d' = ps" "streams d' = streams d @ [new_stream y c pu t (\<not> custom)]"
      using assms None y by (auto simp: adopt_profile_def sp pu d1 ps_def [symmetric] d3 Let_def)
    have "\<exists>s. stream_of c (pin_token p) d' = Some s \<and> str_uuid s = su"
      using None by (simp add: at [OF d'(2)] d'(1,3) row_get_snoc new_stream_def)
    moreover have "stream_of c token d = Some s \<Longrightarrow> \<exists>s'. stream_of c token d' = Some s' \<and> same_stream s s'"
      by (erule stream_of_SomeE) (use old in \<open>auto simp: at [OF d'(2)] d'(3) row_get_snoc\<close>)
    ultimately show ?thesis by blast
  qed
  then show "\<exists>s. stream_of c (pin_token p) d' = Some s \<and> str_uuid s = su"
    and "stream_of c token d = Some s \<Longrightarrow> \<exists>s'. stream_of c token d' = Some s' \<and> same_stream s s'" by blast+
qed

lemma adopt_profiles_outcome:
  assumes "adopt_profiles c custom t ps tbl d = Inr (tbl', d')"
    and "\<And>tk su. map_of tbl tk = Some su \<Longrightarrow> \<exists>s. stream_of c tk d = Some s \<and> str_uuid s = su"
  shows "(\<forall>tk su. map_of tbl' tk = Some su \<longrightarrow> (\<exists>s. stream_of c tk d' = Some s \<and> str_uuid s = su)) \<and>
    pin_token ` set ps \<union> fst ` set tbl \<subseteq> fst ` set tbl' \<and>
    (\<forall>tk s. stream_of c tk d = Some s \<longrightarrow> (\<exists>s'. stream_of c tk d' = Some s' \<and> same_stream s s'))"
  using assms
proof (induction ps arbitrary: tbl d)
  case Nil
  then show ?case by auto
next
  case (Cons p ps)
  obtain su d1 where s: "adopt_profile c custom t p d = Inr (su, d1)"
    "adopt_profiles c custom t ps (AList.update (pin_token p) su tbl) d1 = Inr (tbl', d')"
    using Cons.prems(1) by (auto split: sum.splits)
  note out = adopt_profile_outcome [OF s(1)]
  have "\<exists>x. stream_of c tk d1 = Some x \<and> str_uuid x = v"
    if "map_of (AList.update (pin_token p) su tbl) tk = Some v" for tk v
  proof (cases "tk = pin_token p")
    case True
    then show ?thesis using that out(1) by (simp add: update_conv')
  next
    case False
    then have "map_of tbl tk = Some v" using that by (simp add: update_conv')
    then obtain x where "stream_of c tk d = Some x" "str_uuid x = v" using Cons.prems(2) by blast
    then show ?thesis using out(2) by (fastforce simp: same_stream_def)
  qed
  from Cons.IH [OF s(2) this] show ?case
    using out(2) same_stream_trans by (auto simp: dom_update) (metis (no_types))+
qed

lemma adopt_profiles_table:
  assumes "adopt_profiles c custom t ps [] d = Inr (tbl, d')"
  shows "p \<in> set ps \<Longrightarrow> \<exists>s. map_of tbl (pin_token p) = Some (str_uuid s) \<and> stream_of c (pin_token p) d' = Some s"
    and "stream_of c token d = Some s \<Longrightarrow> \<exists>s'. stream_of c token d' = Some s' \<and> same_stream s s'"
proof -
  have out: "(\<forall>tk su. map_of tbl tk = Some su \<longrightarrow> (\<exists>s. stream_of c tk d' = Some s \<and> str_uuid s = su)) \<and>
      pin_token ` set ps \<union> fst ` set ([] :: (string \<times> string) list) \<subseteq> fst ` set tbl \<and>
      (\<forall>tk s. stream_of c tk d = Some s \<longrightarrow> (\<exists>s'. stream_of c tk d' = Some s' \<and> same_stream s s'))"
    by (rule adopt_profiles_outcome [OF assms]) simp
  show "\<exists>s. map_of tbl (pin_token p) = Some (str_uuid s) \<and> stream_of c (pin_token p) d' = Some s" if "p \<in> set ps"
  proof -
    have "pin_token p \<in> dom (map_of tbl)" using out that by (auto simp: dom_map_of_conv_image_fst)
    then obtain su where "map_of tbl (pin_token p) = Some su" by auto
    then show ?thesis using out by blast
  qed
  show "\<exists>s'. stream_of c token d' = Some s' \<and> same_stream s s'" if "stream_of c token d = Some s"
    using out that by blast
qed

subsection \<open>The whole adoption\<close>

lemma drop_profiles_keeps:
  assumes "drop_profiles c tokens d = Inr d'" "stream_of c token d = Some s"
    and "tokens = [] \<or> token \<in> set tokens" "uniq_on prf_uuid (profiles d)"
  shows "stream_of c token d' = Some s"
proof (cases "tokens = []")
  case True
  then show ?thesis using assms(1,2) by (simp add: drop_profiles_def)
next
  case False
  obtain p where p: "row_get profile_key (c, token) (profiles d) = Some p"
    "row_get str_profile (prf_uuid p) (streams d) = Some s"
    using assms(2) by (rule stream_of_SomeE)
  define stale where "stale = (\<lambda>p :: profile_row. prf_camera p = c \<and> prf_token p \<notin> set tokens
      \<and> \<not> has_row (\<lambda>s. str_profile s = prf_uuid p \<and> \<not> str_enabled s) (streams d))"
  define gone where "gone = map prf_uuid (filter stale (profiles d))"
  have d': "profiles d' = del_where stale (profiles d)"
    "streams d' = del_where (\<lambda>s. str_profile s \<in> set gone) (streams d)"
    using assms(1) False unfolding gone_def stale_def by (auto simp: drop_profiles_def Let_def split: if_splits)
  have "\<not> stale p" using row_get_SomeD [OF p(1)] assms(3) False by (auto simp: stale_def)
  moreover have "prf_uuid p \<notin> set gone"
    using \<open>\<not> stale p\<close> row_get_SomeD [OF p(1)] assms(4) by (auto simp: gone_def dest: uniq_on_same)
  ultimately show ?thesis
    using p row_get_SomeD [OF p(2)] row_get_keep [OF p(1), of stale]
      row_get_keep [OF p(2), of "\<lambda>s. str_profile s \<in> set gone"]
    by (simp add: stream_of_def d')
qed

lemma store_adopted_sel [simp]:
  "profiles (store_adopted enc x n p origin t c u d) = profiles d"
  "streams (store_adopted enc x n p origin t c u d) = streams d"
  "bindings (store_adopted enc x n p origin t c u d) = bindings d"
  by (simp_all add: store_adopted_def Let_def save_credential_def save_camera_def)

lemma adopt_streams_keeps:
  assumes "adopt_streams c inputs roles t d = Inr d'" "stream_of c token d = Some s"
    and "token \<in> pin_token ` set inputs" "uniq_on prf_uuid (profiles d)"
  shows "\<exists>s'. stream_of c token d' = Some s' \<and> same_stream s s'"
  using assms(1)
proof (rule adopt_streams_cases)
  fix custom tbl rs d1 d2
  assume a: "drop_profiles c (map pin_token inputs) (d\<lparr>bindings := del_where (\<lambda>b. bnd_camera b = c) (bindings d)\<rparr>) = Inr d1"
    "adopt_profiles c custom t inputs [] d1 = Inr (tbl, d2)"
    "d' = record_camera_health_transition c t (bind_tokens c t tbl rs d2)"
  have "stream_of c token d1 = Some s"
    by (rule drop_profiles_keeps [OF a(1)])
      (use assms(2,3,4) in \<open>simp_all add: stream_of_cong [of "d\<lparr>bindings := _\<rparr>" d]\<close>)
  then obtain s' where "stream_of c token d2 = Some s'" "same_stream s s'"
    using adopt_profiles_table(2) [OF a(2)] by blast
  then show ?thesis using stream_of_cong [of d' d2 c token] by (auto simp: a(3))
qed

text \<open>
  C38: After an adoption the stored credentials of the candidate are the user name and the password
  that were given, whether the camera is new or adopted again, and the adoption that is returned
  exists and is the candidate's.
\<close>

theorem adopted_credentials_readable:
  assumes "adopt enc candidate username password inputs roles origin reject t d = Inr (ad, d')"
    and "\<And>p u. dec (enc p u) u = Inr p"
  shows "credentials_for_candidate dec (candidate_key candidate) d' = Inr (Some (username, password)) \<and>
    (\<exists>a. ad = Some a \<and> cam_candidate (ad_camera a) = candidate_key candidate)"
  using assms(1)
proof (cases rule: adopt_cases)
  case (renewed old)
  have "\<And>r. row_get cam_candidate (candidate_key candidate) (cameras d) = Some r \<Longrightarrow> cam_credential r = cam_credential old"
    using renewed(1) by simp
  from stored_readable [OF renewed(3) this assms(2)]
  show ?thesis using renewed(2) stored_camera [of candidate enc username password origin t "cam_uuid old" "cam_credential old" d]
    unfolding adopt_streams_sel(1) [OF renewed(3), symmetric]
    by (auto simp: adoption_for_candidate_def dest: row_get_SomeD)
next
  case (added c u n)
  have "\<And>r. row_get cam_candidate (candidate_key candidate) (cameras (d\<lparr>uuid_next := n\<rparr>)) = Some r \<Longrightarrow> cam_credential r = u"
    using added(1) by simp
  from stored_readable [OF added(3) this assms(2)]
  show ?thesis using added(2) stored_camera [of candidate enc username password origin t c u "d\<lparr>uuid_next := n\<rparr>"]
    unfolding adopt_streams_sel(1) [OF added(3), symmetric]
    by (auto simp: adoption_for_candidate_def dest: row_get_SomeD)
qed

text \<open>
  C20: Adopting a known candidate again keeps the camera's identifier, credential, adoption date,
  enabled and silenced switches, address mode and customisation mark, and every profile that is still
  reported keeps its stream with the same identifier, key, creation date and enabled switch.
\<close>

theorem readoption_keeps_identity:
  assumes "adopt enc candidate username password inputs roles origin reject t d = Inr (ad, d')"
    and "row_get cam_candidate (candidate_key candidate) (cameras d) = Some old"
    and "uniq_on prf_uuid (profiles d)"
  shows "(\<exists>cam. row_get cam_candidate (candidate_key candidate) (cameras d') = Some cam \<and>
      cam = old\<lparr>cam_name := cam_name cam, cam_updated := t, cam_origin := origin\<rparr>) \<and>
    (\<forall>token \<in> pin_token ` set inputs. \<forall>s. stream_of (cam_uuid old) token d = Some s \<longrightarrow>
       (\<exists>s'. stream_of (cam_uuid old) token d' = Some s' \<and> same_stream s s'))"
  using assms(1)
proof (cases rule: adopt_cases)
  case (renewed r)
  define d1 where "d1 = store_adopted enc candidate username password origin t (cam_uuid old) (cam_credential old) d"
  have run: "adopt_streams (cam_uuid old) inputs roles t d1 = Inr d'"
    using renewed assms(2) by (simp add: d1_def)
  have same: "stream_of (cam_uuid old) token d1 = stream_of (cam_uuid old) token d" for token
    by (rule stream_of_cong) (simp_all add: d1_def)
  have "\<exists>s'. stream_of (cam_uuid old) token d' = Some s' \<and> same_stream s s'"
    if "token \<in> pin_token ` set inputs" "stream_of (cam_uuid old) token d = Some s" for token s
    by (rule adopt_streams_keeps [OF run _ that(1)]) (use that assms(3) same in \<open>simp_all add: d1_def\<close>)
  moreover have "row_get cam_candidate (candidate_key candidate) (cameras d') = Some
      (old\<lparr>cam_name := py_str (py_or (dget candidate ''display_name'') (py_or (dget candidate ''ip'') (PStr ''Camera''))),
           cam_credential := cam_credential old, cam_updated := t, cam_origin := origin\<rparr>)"
    using stored_camera [of candidate enc username password origin t "cam_uuid old" "cam_credential old" d] assms(2)
    unfolding adopt_streams_sel(1) [OF run] d1_def by simp
  ultimately show ?thesis by simp
next
  case added
  then show ?thesis using assms(2) by simp
qed

subsection \<open>Customised cameras\<close>

definition token_of :: "db \<Rightarrow> binding_row \<Rightarrow> string option" where
  "token_of d b = map_option prf_token (Option.bind (row_get str_uuid (bnd_stream b) (streams d)) (stream_profile d))"

lemma stream_profile_bindings [simp]: "stream_profile (d\<lparr>bindings := bs\<rparr>) = stream_profile d"
  by (rule ext) (simp add: stream_profile_def)

lemma bound_tokens_Cons:
  "bound_tokens (d\<lparr>bindings := b # bs\<rparr>) c =
   (if bnd_camera b = c then case token_of d b of None \<Rightarrow> [] | Some tk \<Rightarrow> [(bnd_role b, tk)] else [])
     @ bound_tokens (d\<lparr>bindings := bs\<rparr>) c"
  by (simp add: bound_tokens_def token_of_def split: option.split)

lemma bound_tokens_roles:
  "fst ` set (bound_tokens d c) \<subseteq> {r. (c, r) \<in> binding_key ` set (bindings d)}"
  by (auto simp: bound_tokens_def split: option.splits)

lemma bound_tokens_map_of:
  assumes "\<And>b. b \<in> set (bindings d) \<Longrightarrow> bnd_camera b = c \<Longrightarrow> token_of d b \<noteq> None"
  shows "map_of (bound_tokens d c) r = Option.bind (row_get binding_key (c, r) (bindings d)) (token_of d)"
proof -
  have "map_of (bound_tokens (d\<lparr>bindings := bs\<rparr>) c) r = Option.bind (row_get binding_key (c, r) bs) (token_of d)"
    if "\<And>b. b \<in> set bs \<Longrightarrow> bnd_camera b = c \<Longrightarrow> token_of d b \<noteq> None" for bs
    using that
  proof (induction bs)
    case Nil
    then show ?case by (simp add: row_get_def bound_tokens_def)
  next
    case (Cons b bs)
    have "map_of (bound_tokens (d\<lparr>bindings := bs\<rparr>) c) r = Option.bind (row_get binding_key (c, r) bs) (token_of d)"
      by (rule Cons.IH) (use Cons.prems in auto)
    moreover have "bnd_camera b = c \<Longrightarrow> \<exists>tk. token_of d b = Some tk" using Cons.prems [of b] by auto
    ultimately show ?case by (auto simp: bound_tokens_Cons row_get_def)
  qed
  from this [of "bindings d"] assms show ?thesis by simp
qed

lemma bound_tokens_distinct:
  assumes "uniq_on binding_key (bindings d)"
  shows "distinct (map fst (bound_tokens d c))"
proof -
  have "distinct (map binding_key bs) \<Longrightarrow> distinct (map fst (bound_tokens (d\<lparr>bindings := bs\<rparr>) c))" for bs
  proof (induction bs)
    case Nil
    then show ?case by (simp add: bound_tokens_def)
  next
    case (Cons b bs)
    have "(bnd_camera b, bnd_role b) \<notin> binding_key ` set bs" using Cons.prems by simp
    then have new: "bnd_camera b = c \<Longrightarrow> bnd_role b \<notin> fst ` set (bound_tokens (d\<lparr>bindings := bs\<rparr>) c)"
      using subsetD [OF bound_tokens_roles [of "d\<lparr>bindings := bs\<rparr>" c], of "bnd_role b"] by auto
    have IH: "distinct (map fst (bound_tokens (d\<lparr>bindings := bs\<rparr>) c))" using Cons by simp
    show ?case
    proof (cases "bnd_camera b = c")
      case True
      then show ?thesis using IH new by (cases "token_of d b") (simp_all add: bound_tokens_Cons)
    qed (simp add: bound_tokens_Cons IH)
  qed
  from this [of "bindings d"] assms show ?thesis by (simp add: uniq_on_def)
qed

lemma bind_tokens_resolved:
  assumes "\<And>r token. (r, token) \<in> set rs \<Longrightarrow> map_of tbl token \<noteq> None"
  shows "bind_tokens c t tbl rs d = fold (bind_role c t) (map (\<lambda>(r, token). (r, the (map_of tbl token))) rs) d"
  unfolding bind_tokens_def using assms
proof (induction rs arbitrary: d)
  case (Cons x rs)
  obtain r token where x: "x = (r, token)" by (cases x)
  then obtain su where "map_of tbl token = Some su" using Cons.prems [of r token] by auto
  moreover have "fold (\<lambda>(r, token) x. case map_of tbl token of None \<Rightarrow> x | Some su \<Rightarrow> bind_role c t (r, su) x) rs d' =
      fold (bind_role c t) (map (\<lambda>(r, token). (r, the (map_of tbl token))) rs) d'" for d'
    by (rule Cons.IH) (use Cons.prems in auto)
  ultimately show ?case by (simp add: x)
qed simp

text \<open>What the tables guarantee: primary and foreign keys, and streams and roles within one camera.\<close>

definition stream_tables_ok :: "db \<Rightarrow> bool" where
  "stream_tables_ok d \<longleftrightarrow>
     refs bnd_stream (bindings d) str_uuid (streams d) \<and> refs str_profile (streams d) prf_uuid (profiles d) \<and>
     (\<forall>s \<in> set (streams d). \<forall>p \<in> set (profiles d). prf_uuid p = str_profile s \<longrightarrow> prf_camera p = str_camera s) \<and>
     (\<forall>b \<in> set (bindings d). \<forall>s \<in> set (streams d). str_uuid s = bnd_stream b \<longrightarrow> str_camera s = bnd_camera b) \<and>
     uniq_on str_uuid (streams d) \<and> uniq_on str_profile (streams d) \<and> uniq_on prf_uuid (profiles d) \<and>
     uniq_on profile_key (profiles d) \<and> uniq_on binding_key (bindings d)"

lemma stream_tables_cong:
  "streams d' = streams d \<Longrightarrow> profiles d' = profiles d \<Longrightarrow> bindings d' = bindings d \<Longrightarrow>
   stream_tables_ok d \<Longrightarrow> stream_tables_ok d'"
  by (simp add: stream_tables_ok_def)

lemma refs_target: "refs f t g u \<Longrightarrow> r \<in> set t \<Longrightarrow> \<exists>s \<in> set u. g s = f r"
  by (force simp: refs_def)

lemma binding_chain:
  assumes "stream_tables_ok d" "b \<in> set (bindings d)"
  obtains s and p :: profile_row where "s \<in> set (streams d)" "str_uuid s = bnd_stream b"
    "token_of d b = Some (prf_token p)" "stream_of (bnd_camera b) (prf_token p) d = Some s"
proof -
  have keys: "uniq_on str_uuid (streams d)" "uniq_on prf_uuid (profiles d)" "uniq_on profile_key (profiles d)"
    "uniq_on str_profile (streams d)"
    and ref: "refs bnd_stream (bindings d) str_uuid (streams d)" "refs str_profile (streams d) prf_uuid (profiles d)"
    using assms(1) by (simp_all add: stream_tables_ok_def)
  obtain s where s: "s \<in> set (streams d)" "str_uuid s = bnd_stream b"
    using refs_target [OF ref(1) assms(2)] by blast
  obtain p where p: "p \<in> set (profiles d)" "prf_uuid p = str_profile s"
    using refs_target [OF ref(2) s(1)] by blast
  have "prf_camera p = str_camera s" "str_camera s = bnd_camera b"
    using assms s p unfolding stream_tables_ok_def by blast+
  then have "row_get str_uuid (bnd_stream b) (streams d) = Some s" "row_get prf_uuid (str_profile s) (profiles d) = Some p"
    "row_get profile_key (bnd_camera b, prf_token p) (profiles d) = Some p"
    "row_get str_profile (prf_uuid p) (streams d) = Some s"
    using s p by (simp_all add: row_get_uniq keys)
  then show ?thesis
    using that [OF s, of p] by (simp add: token_of_def stream_profile_def stream_of_def)
qed

lemma custom_tokens_kept:
  assumes "adopt_streams c inputs roles t d = Inr d'"
    and "row_get cam_uuid c (cameras d) = Some cam" "cam_custom cam"
  obtains tbl d1 d2 where
    "drop_profiles c (map pin_token inputs) (d\<lparr>bindings := del_where (\<lambda>b. bnd_camera b = c) (bindings d)\<rparr>) = Inr d1"
    "adopt_profiles c True t inputs [] d1 = Inr (tbl, d2)"
    "d' = record_camera_health_transition c t (bind_tokens c t tbl (bound_tokens d c) d2)"
    "snd ` set (bound_tokens d c) \<subseteq> pin_token ` set inputs"
  using assms by (auto simp: adopt_streams_def Let_def bind_err_def split: if_splits sum.splits)

lemma adopt_bindings_sel:
  "drop_profiles c tokens d = Inr d' \<Longrightarrow> bindings d' = bindings d"
  "adopt_profiles c custom t ps tbl d = Inr (tbl', d') \<Longrightarrow> bindings d' = bindings d"
proof -
  have one: "bindings d' = bindings d" if "adopt_profile c custom t p d = Inr (su, d')" for p su and d d' :: db
    using that by (auto simp: adopt_profile_def new_uuid_def Let_def split: option.splits prod.splits)
  show "drop_profiles c tokens d = Inr d' \<Longrightarrow> bindings d' = bindings d"
    by (auto simp: drop_profiles_def Let_def split: if_splits)
  show "adopt_profiles c custom t ps tbl d = Inr (tbl', d') \<Longrightarrow> bindings d' = bindings d"
    by (induction ps arbitrary: tbl d) (auto dest: one split: sum.splits)
qed

lemma custom_bindings_kept:
  assumes "adopt_streams c inputs roles t d = Inr d'"
    and "row_get cam_uuid c (cameras d) = Some cam" "cam_custom cam" and ok: "stream_tables_ok d"
  shows "bound_stream c r d' = bound_stream c r d"
  using assms(1-3)
proof (rule custom_tokens_kept)
  fix tbl d1 d2
  let ?d0 = "d\<lparr>bindings := del_where (\<lambda>b. bnd_camera b = c) (bindings d)\<rparr>"
  assume a: "drop_profiles c (map pin_token inputs) ?d0 = Inr d1" "adopt_profiles c True t inputs [] d1 = Inr (tbl, d2)"
    "d' = record_camera_health_transition c t (bind_tokens c t tbl (bound_tokens d c) d2)"
    and sub: "snd ` set (bound_tokens d c) \<subseteq> pin_token ` set inputs"
  let ?rs = "bound_tokens d c"
  have tokens: "token_of d b \<noteq> None" if "b \<in> set (bindings d)" for b
    by (rule binding_chain [OF ok that]) simp
  have dom: "map_of tbl token \<noteq> None" if "(q, token) \<in> set ?rs" for q token
    using sub that adopt_profiles_table(1) [OF a(2)] by force
  have none: "row_get binding_key (c, r) (bindings d2) = None"
    by (auto simp: adopt_bindings_sel(1) [OF a(1)] adopt_bindings_sel(2) [OF a(2)] row_get_None_iff row_simps)
  have uniq: "uniq_on binding_key (bindings d)" using ok by (simp add: stream_tables_ok_def)
  have "distinct (map fst (map (\<lambda>(r, token). (r, the (map_of tbl token))) ?rs))"
    using bound_tokens_distinct [OF uniq, of c] by (simp add: comp_def case_prod_unfold)
  from fold_bind_get [OF this, of c r c t d2]
  have bound: "bound_stream c r d' = map_option (\<lambda>token. the (map_of tbl token)) (map_of ?rs r)"
    by (simp add: bound_stream_def a(3) bind_tokens_resolved [OF dom] none map_of_map split: option.split)
  show ?thesis
  proof (cases "row_get binding_key (c, r) (bindings d)")
    case None
    then show ?thesis by (simp add: bound bound_tokens_map_of tokens) (simp add: bound_stream_def)
  next
    case (Some b)
    then have b: "b \<in> set (bindings d)" "bnd_camera b = c" by (auto dest: row_get_SomeD)
    obtain s and p :: profile_row where s: "str_uuid s = bnd_stream b" "token_of d b = Some (prf_token p)"
      "stream_of c (prf_token p) d = Some s"
      by (rule binding_chain [OF ok b(1)]) (use b(2) in blast)
    have rs: "map_of ?rs r = Some (prf_token p)" using Some s(2) by (simp add: bound_tokens_map_of tokens)
    then have "prf_token p \<in> pin_token ` set inputs" using sub by (force dest: map_of_SomeD)
    then obtain i where i: "i \<in> set inputs" "pin_token i = prf_token p" by auto
    have "stream_of c (prf_token p) ?d0 = Some s" using s(3) stream_of_cong [of ?d0 d] by simp
    moreover have "prf_token p \<in> set (map pin_token inputs)" "uniq_on prf_uuid (profiles ?d0)"
      using i imageI [OF i(1), of pin_token] ok by (simp_all add: stream_tables_ok_def)
    ultimately have "stream_of c (prf_token p) d1 = Some s" using drop_profiles_keeps [OF a(1)] by blast
    then obtain s' where s': "stream_of c (prf_token p) d2 = Some s'" "same_stream s s'"
      using adopt_profiles_table(2) [OF a(2)] by blast
    have "map_of tbl (prf_token p) = Some (str_uuid s')"
      using adopt_profiles_table(1) [OF a(2) i(1)] s'(1) i(2) by simp
    then have "bound_stream c r d' = Some (str_uuid s')" by (simp add: bound rs)
    moreover have "bound_stream c r d = Some (bnd_stream b)" using Some by (simp add: bound_stream_def)
    ultimately show ?thesis using s'(2) s(1) by (simp add: same_stream_def)
  qed
qed

text \<open>
  C21: A camera whose stream settings were customised keeps them when it is adopted again: whatever
  roles the new adoption proposes, each role stays bound to the stream it was bound to.
\<close>

theorem customised_roles_survive:
  assumes "adopt enc candidate username password inputs roles origin reject t d = Inr (ad, d')"
    and "row_get cam_candidate (candidate_key candidate) (cameras d) = Some old" "cam_custom old"
    and "stream_tables_ok d" "uniq_on cam_uuid (cameras d)"
  shows "bound_stream (cam_uuid old) r d' = bound_stream (cam_uuid old) r d"
  using assms(1)
proof (cases rule: adopt_cases)
  case (renewed x)
  define d1 where "d1 = store_adopted enc candidate username password origin t (cam_uuid old) (cam_credential old) d"
  have run: "adopt_streams (cam_uuid old) inputs roles t d1 = Inr d'"
    using renewed assms(2) by (simp add: d1_def)
  obtain cam where cam: "row_get cam_candidate (candidate_key candidate) (cameras d1) = Some cam"
    "cam_uuid cam = cam_uuid old" "cam_custom cam"
    using stored_camera [of candidate enc username password origin t "cam_uuid old" "cam_credential old" d] assms(2,3)
    by (simp add: d1_def)
  have "map cam_uuid (cameras d1) = map cam_uuid (cameras d)"
    using imageI [of old "set (cameras d)" cam_candidate] row_get_SomeD [OF assms(2)]
    by (auto simp: d1_def store_adopted_def Let_def save_camera_def row_put_def has_row_key map_upd_where)
  then have "row_get cam_uuid (cam_uuid old) (cameras d1) = Some cam"
    using assms(5) cam row_get_SomeD [OF cam(1)] by (auto simp: uniq_on_def intro!: row_get_uniq)
  moreover have "stream_tables_ok d1" by (rule stream_tables_cong [OF _ _ _ assms(4)]) (simp_all add: d1_def)
  ultimately have "bound_stream (cam_uuid old) r d' = bound_stream (cam_uuid old) r d1"
    using custom_bindings_kept [OF run] cam(3) by blast
  then show ?thesis by (simp add: bound_stream_def d1_def)
next
  case added
  then show ?thesis using assms(2) by simp
qed

subsection \<open>When an adoption succeeds\<close>

lemma adopt_profiles_succeed:
  "(\<And>p. p \<in> set ps \<Longrightarrow> source_parts_of (pin_uri p) \<noteq> None) \<Longrightarrow>
   \<exists>x. adopt_profiles c custom t ps tbl d = Inr x"
proof (induction ps arbitrary: tbl d)
  case (Cons p ps)
  obtain sp where "source_parts_of (pin_uri p) = Some sp" using Cons.prems [of p] by auto
  then have "\<exists>x. adopt_profile c custom t p d = Inr x"
    by (simp add: adopt_profile_def Let_def case_prod_unfold split: option.split)
  then obtain su d' where "adopt_profile c custom t p d = Inr (su, d')" by auto
  then show ?case using Cons by simp
qed simp

lemma drop_nothing:
  assumes "\<And>p. p \<in> set (profiles d) \<Longrightarrow> prf_camera p = c \<Longrightarrow> prf_token p \<in> set tokens"
  shows "\<exists>d'. drop_profiles c tokens d = Inr d'"
proof -
  have "filter (\<lambda>p :: profile_row. prf_camera p = c \<and> prf_token p \<notin> set tokens \<and>
      \<not> has_row (\<lambda>s. str_profile s = prf_uuid p \<and> \<not> str_enabled s) (streams d)) (profiles d) = []"
    using assms by (auto simp: filter_empty_conv)
  then show ?thesis unfolding drop_profiles_def Let_def by (simp only:) (simp add: has_row_def list_ex_iff)
qed

lemma assigned_none: "assigned_source [] d = None"
proof -
  have "find (\<lambda>(p, c). case rtsp_source_key (profile_uri p) of None \<Rightarrow> False | Some k \<Rightarrow> k \<in> set []) rows = None"
    for rows :: "(profile_row \<times> camera_row) list"
    by (auto simp: find_None_iff split: option.splits)
  then show ?thesis unfolding assigned_source_def Let_def by simp
qed

lemma adopt_succeeds:
  assumes "dhas ''candidate_uuid'' candidate" "assigned_source reject d = None"
    and "row_get cam_candidate (candidate_key candidate) (cameras d) = Some old"
    and "\<And>p. p \<in> set inputs \<Longrightarrow> source_parts_of (pin_uri p) \<noteq> None"
    and "\<And>p. p \<in> set (profiles d) \<Longrightarrow> prf_camera p = cam_uuid old \<Longrightarrow> prf_token p \<in> pin_token ` set inputs"
    and "snd ` set (bound_tokens d (cam_uuid old)) \<subseteq> pin_token ` set inputs"
  shows "\<exists>ad d'. adopt enc candidate username password inputs roles origin reject t d = Inr (ad, d')"
proof -
  let ?c = "cam_uuid old"
  let ?d1 = "store_adopted enc candidate username password origin t ?c (cam_credential old) d"
  let ?d2 = "?d1\<lparr>bindings := del_where (\<lambda>b. bnd_camera b = ?c) (bindings ?d1)\<rparr>"
  obtain d3 where d3: "drop_profiles ?c (map pin_token inputs) ?d2 = Inr d3"
    using drop_nothing [of ?d2 ?c "map pin_token inputs"] assms(5) by auto
  have "stream_profile ?d1 = stream_profile d" by (rule ext) (simp add: stream_profile_def)
  then have "snd ` set (bound_tokens ?d1 ?c) \<subseteq> set (map pin_token inputs)"
    using assms(6) by (simp add: bound_tokens_def)
  then have "\<exists>d'. adopt_streams ?c inputs roles t ?d1 = Inr d'"
    using d3 adopt_profiles_succeed [OF assms(4)]
    by (auto simp: adopt_streams_def Let_def bind_err_def split: sum.split) (metis Inr_not_Inl)+
  then show ?thesis
    using assms(1-3) by (auto simp: adopt_def store_adopted_def Let_def bind_err_def)
qed

subsection \<open>An adoption to run\<close>

definition demo_input :: profile_input where
  "demo_input =
     \<lparr>pin_token = ''tok'', pin_name = None, pin_width = None, pin_height = None, pin_encoding = None,
      pin_fps = None, pin_bitrate = None, pin_uri = None, pin_kind = None, pin_cat_revision = None,
      pin_cat_rule = None, pin_cat_url = None\<rparr>"

definition demo_adopted :: db where
  "demo_adopted = demo_db\<lparr>cameras := [demo_camera\<lparr>cam_custom := True\<rparr>],
     profiles := [blank_profile ''p1'' ''c1'' ''tok'']\<rparr>"

lemmas demo_adopted_simps = demo_adopted_def demo_simps blank_profile_def

lemma demo_key: "candidate_key demo_candidate = ''k1''"
  by code_simp

lemma demo_has: "dhas ''candidate_uuid'' demo_candidate"
  by code_simp

lemma demo_readoption:
  obtains ad d' where "adopt enc demo_candidate ''u'' ''p'' [demo_input] [(Detect, ''tok'')] Discovery [] 7 demo_adopted = Inr (ad, d')"
proof -
  have "\<exists>ad d'. adopt enc demo_candidate ''u'' ''p'' [demo_input] [(Detect, ''tok'')] Discovery [] 7 demo_adopted = Inr (ad, d')"
    by (rule adopt_succeeds [where old = "demo_camera\<lparr>cam_custom := True\<rparr>"])
      (auto simp: demo_key demo_has assigned_none demo_adopted_simps row_get_def demo_input_def bound_tokens_def
         stream_profile_def source_parts_of_def)
  then show ?thesis using that by blast
qed

lemma demo_adopted_camera:
  "row_get cam_candidate (candidate_key demo_candidate) (cameras demo_adopted) = Some (demo_camera\<lparr>cam_custom := True\<rparr>)"
  by (simp add: demo_key demo_adopted_simps row_get_def)

theorem adopted_credentials_readable_witness:
  "\<exists>ad d'. adopt (\<lambda>p u. p) demo_candidate ''u'' ''p'' [demo_input] [(Detect, ''tok'')] Discovery [] 7 demo_adopted = Inr (ad, d') \<and>
     credentials_for_candidate (\<lambda>c u. Inr c) ''k1'' d' = Inr (Some (''u'', ''p''))"
proof (rule demo_readoption [where enc = "\<lambda>p u. p"])
  fix ad d'
  assume a: "adopt (\<lambda>p u. p) demo_candidate ''u'' ''p'' [demo_input] [(Detect, ''tok'')] Discovery [] 7 demo_adopted = Inr (ad, d')"
  from adopted_credentials_readable [OF a, of "\<lambda>c u. Inr c"] a show ?thesis by (auto simp: demo_key)
qed

theorem readoption_keeps_identity_witness:
  "\<exists>ad d' s. adopt (\<lambda>p u. p) demo_candidate ''u'' ''p'' [demo_input] [(Detect, ''tok'')] Discovery [] 7 demo_adopted = Inr (ad, d') \<and>
     stream_of ''c1'' ''tok'' d' = Some s \<and> str_key s = ''door''"
proof (rule demo_readoption [where enc = "\<lambda>p u. p"])
  fix ad d'
  assume a: "adopt (\<lambda>p u. p) demo_candidate ''u'' ''p'' [demo_input] [(Detect, ''tok'')] Discovery [] 7 demo_adopted = Inr (ad, d')"
  have "uniq_on prf_uuid (profiles demo_adopted)" by (simp add: demo_adopted_simps uniq_on_def)
  from readoption_keeps_identity [OF a demo_adopted_camera this]
  have "\<exists>s'. stream_of ''c1'' ''tok'' d' = Some s' \<and> same_stream demo_stream s'"
    by (simp add: demo_input_def stream_of_def demo_adopted_simps row_get_def)
  then show ?thesis using a by (auto simp: same_stream_def demo_stream_def)
qed

theorem customised_roles_survive_witness:
  "\<exists>ad d'. adopt (\<lambda>p u. p) demo_candidate ''u'' ''p'' [demo_input] [(Detect, ''tok'')] Discovery [] 7 demo_adopted = Inr (ad, d') \<and>
     bound_stream ''c1'' Record d' = Some ''m1''"
proof (rule demo_readoption [where enc = "\<lambda>p u. p"])
  fix ad d'
  assume a: "adopt (\<lambda>p u. p) demo_candidate ''u'' ''p'' [demo_input] [(Detect, ''tok'')] Discovery [] 7 demo_adopted = Inr (ad, d')"
  have "stream_tables_ok demo_adopted" "uniq_on cam_uuid (cameras demo_adopted)"
    by (simp_all add: demo_adopted_simps uniq_on_def stream_tables_ok_def refs_def)
  from customised_roles_survive [OF a demo_adopted_camera _ this, of Record]
  have "bound_stream ''c1'' Record d' = Some ''m1''"
    by (simp add: bound_stream_def demo_adopted_simps row_get_def)
  then show ?thesis using a by blast
qed

end
