(* ===== verification/FrigateStore.thy ===== *)
theory FrigateStore
  imports Streams
begin

text \<open>
  What the database knows of Frigate (camadmiral/storage.py): targets, the cameras selected for each
  target, the bindings that say which Frigate camera stands for a camera and what was last applied to
  it, and the settings saved of cameras that were retired. Times of one operation are one value.
\<close>

subsection \<open>Targets\<close>

definition selected_count :: "string \<Rightarrow> db \<Rightarrow> nat" where
  "selected_count target d = length (filter (\<lambda>s. fsl_target s = target) (frigate_selections d))"

definition frigate_targets_view :: "db \<Rightarrow> (frigate_target_row \<times> nat) list" where
  "frigate_targets_view d =
     map (\<lambda>t. (t, selected_count (ftg_id t) d))
       (sort_key (\<lambda>t. (lower_ascii (ftg_name t), ftg_id t)) (frigate_targets d))"

definition frigate_target :: "string \<Rightarrow> db \<Rightarrow> (frigate_target_row \<times> nat) option" where
  "frigate_target target d =
     map_option (\<lambda>t. (t, selected_count target d)) (row_get ftg_id target (frigate_targets d))"

definition renew_target :: "string \<Rightarrow> string \<Rightarrow> timestamp \<Rightarrow> frigate_target_row \<Rightarrow> frigate_target_row" where
  "renew_target name url t r =
     (let moved = (ftg_url r \<noteq> url) in
      r\<lparr>ftg_name := name, ftg_url := url,
        ftg_status := (if moved then ConnPending else ftg_status r),
        ftg_error := (if moved then None else ftg_error r),
        ftg_checked := (if moved then None else ftg_checked r),
        ftg_restart := (if moved then False else ftg_restart r),
        ftg_updated := t\<rparr>)"

definition save_frigate_target :: "string \<Rightarrow> string \<Rightarrow> string \<Rightarrow> timestamp \<Rightarrow> db \<Rightarrow> repo_error + db" where
  "save_frigate_target target name url t d =
     (if has_row (\<lambda>r. ftg_url r = url \<and> ftg_id r \<noteq> target) (frigate_targets d)
      then Inl (IntegrityError ''UNIQUE constraint failed: frigate_targets.api_url'')
      else Inr (d\<lparr>frigate_targets := row_put ftg_id (renew_target name url t)
             \<lparr>ftg_id = target, ftg_name = name, ftg_url = url, ftg_status = ConnPending, ftg_error = None,
              ftg_checked = None, ftg_restart = False, ftg_mode = Some Lan, ftg_created = t, ftg_updated = t\<rparr>
             (frigate_targets d)\<rparr>))"

definition mode_of :: "string \<Rightarrow> address_mode option" where
  "mode_of s = map_of [(''lan'', Lan), (''localhost'', Localhost)] s"

definition set_frigate_target_address_mode :: "string \<Rightarrow> string \<Rightarrow> timestamp \<Rightarrow> db \<Rightarrow> repo_error + bool \<times> db" where
  "set_frigate_target_address_mode target mode t d =
     (case mode_of mode of
        None \<Rightarrow> Inl (ValueError ''Frigate address mode is invalid'')
      | Some m \<Rightarrow>
          (case row_get ftg_id target (frigate_targets d) of
             None \<Rightarrow> Inr (False, d)
           | Some current \<Rightarrow>
               Inr (ftg_mode current \<noteq> Some m,
                 d\<lparr>frigate_targets := upd_where (\<lambda>r. ftg_id r = target)
                      (\<lambda>r. r\<lparr>ftg_mode := Some m, ftg_updated := t\<rparr>) (frigate_targets d),
                   frigate_selections := upd_where (\<lambda>r. fsl_target r = target)
                      (\<lambda>r. r\<lparr>fsl_mode := m\<rparr>) (frigate_selections d)\<rparr>)))"

text \<open>Bindings name their target without a foreign key, so they stay when it is removed.\<close>

definition remove_frigate_target :: "string \<Rightarrow> db \<Rightarrow> bool \<times> db" where
  "remove_frigate_target target d =
     (has_row (\<lambda>r. ftg_id r = target) (frigate_targets d),
      d\<lparr>frigate_targets := del_where (\<lambda>r. ftg_id r = target) (frigate_targets d),
        frigate_selections := del_where (\<lambda>r. fsl_target r = target) (frigate_selections d),
        retired_cameras := del_where (\<lambda>r. ret_target r = target) (retired_cameras d)\<rparr>)"

definition record_frigate_target_check ::
  "string \<Rightarrow> string \<Rightarrow> string option \<Rightarrow> bool option \<Rightarrow> timestamp \<Rightarrow> db \<Rightarrow> repo_error + db" where
  "record_frigate_target_check target status code restart t d =
     (case map_of [(''connected'', Connected), (''error'', ConnError)] status of
        None \<Rightarrow> Inl (ValueError ''Frigate target status is invalid'')
      | Some s \<Rightarrow>
          Inr (d\<lparr>frigate_targets := upd_where (\<lambda>r. ftg_id r = target)
            (\<lambda>r. r\<lparr>ftg_status := s, ftg_error := code,
                   ftg_restart := (case restart of None \<Rightarrow> ftg_restart r | Some b \<Rightarrow> b),
                   ftg_checked := Some t, ftg_updated := t\<rparr>) (frigate_targets d)\<rparr>))"

subsection \<open>Selected cameras\<close>

definition select_frigate_camera ::
  "string \<Rightarrow> string \<Rightarrow> string \<Rightarrow> timestamp \<Rightarrow> db \<Rightarrow> repo_error + bool \<times> db" where
  "select_frigate_camera target c mode t d =
     (case mode_of mode of
        None \<Rightarrow> Inl (ValueError ''Frigate address mode is invalid'')
      | Some asked \<Rightarrow>
          let m = (case Option.bind (row_get ftg_id target (frigate_targets d)) ftg_mode of
                     Some x \<Rightarrow> x | None \<Rightarrow> asked);
              current = row_get selection_key (target, c) (frigate_selections d)
          in if \<not> has_row (\<lambda>r. ftg_id r = target) (frigate_targets d) \<or> \<not> has_row (\<lambda>r. cam_uuid r = c) (cameras d)
             then Inl (IntegrityError ''FOREIGN KEY constraint failed'')
             else Inr (case current of None \<Rightarrow> True | Some r \<Rightarrow> fsl_mode r \<noteq> m,
                    d\<lparr>frigate_selections := row_put selection_key (\<lambda>r. r\<lparr>fsl_mode := m\<rparr>)
                       \<lparr>fsl_target = target, fsl_camera = c, fsl_selected = t, fsl_mode = m,
                        fsl_width = None, fsl_height = None, fsl_error = None\<rparr> (frigate_selections d)\<rparr>))"

definition deselect_frigate_camera :: "string \<Rightarrow> string \<Rightarrow> db \<Rightarrow> bool \<times> db" where
  "deselect_frigate_camera target c d =
     (has_row (\<lambda>r. selection_key r = (target, c)) (frigate_selections d),
      d\<lparr>frigate_selections := del_where (\<lambda>r. selection_key r = (target, c)) (frigate_selections d)\<rparr>)"

definition frigate_camera_selections :: "string \<Rightarrow> db \<Rightarrow> frigate_selection_row list" where
  "frigate_camera_selections target d =
     sort_key (\<lambda>r. (fsl_selected r, fsl_camera r))
       (filter (\<lambda>r. fsl_target r = target) (frigate_selections d))"

definition selected_frigate_camera_uuids :: "string \<Rightarrow> db \<Rightarrow> string list" where
  "selected_frigate_camera_uuids target d = map fsl_camera (frigate_camera_selections target d)"

definition frigate_camera_address_mode :: "string \<Rightarrow> string \<Rightarrow> db \<Rightarrow> address_mode option" where
  "frigate_camera_address_mode target c d =
     map_option fsl_mode (row_get selection_key (target, c) (frigate_selections d))"

definition detect_size_ok :: "pyval \<Rightarrow> bool" where
  "detect_size_ok v \<longleftrightarrow> (case v of PInt n \<Rightarrow> 16 \<le> n \<and> n \<le> 8192 \<and> n mod 2 = 0 | _ \<Rightarrow> False)"

definition int_of :: "pyval \<Rightarrow> int option" where
  "int_of v = (case v of PInt n \<Rightarrow> Some n | _ \<Rightarrow> None)"

definition set_frigate_detection_resolution ::
  "string \<Rightarrow> string \<Rightarrow> pyval \<Rightarrow> pyval \<Rightarrow> db \<Rightarrow> repo_error + db" where
  "set_frigate_detection_resolution target c width height d =
     (if (width = PNone) \<noteq> (height = PNone)
         \<or> (width \<noteq> PNone \<and> \<not> (detect_size_ok width \<and> detect_size_ok height))
      then Inl (ValueError ''Detection dimensions must both be even integers from 16 to 8192'')
      else Inr (d\<lparr>frigate_selections := upd_where (\<lambda>r. selection_key r = (target, c))
             (\<lambda>r. r\<lparr>fsl_width := int_of width, fsl_height := int_of height\<rparr>) (frigate_selections d)\<rparr>))"

definition set_frigate_selection_error :: "string \<Rightarrow> string \<Rightarrow> string option \<Rightarrow> db \<Rightarrow> db" where
  "set_frigate_selection_error target c code d =
     d\<lparr>frigate_selections := upd_where (\<lambda>r. selection_key r = (target, c))
         (\<lambda>r. r\<lparr>fsl_error := code\<rparr>) (frigate_selections d)\<rparr>"

subsection \<open>Bindings\<close>

definition frigate_binding :: "string \<Rightarrow> string \<Rightarrow> db \<Rightarrow> frigate_binding_row option" where
  "frigate_binding target c d = row_get fbinding_key (target, c) (frigate_bindings d)"

definition attempt_binding ::
  "string \<Rightarrow> string \<Rightarrow> string \<Rightarrow> string \<Rightarrow> timestamp \<Rightarrow> frigate_binding_row \<Rightarrow> frigate_binding_row" where
  "attempt_binding key rec det h t r =
     r\<lparr>fbd_key := key, fbd_record := rec, fbd_detect := det, fbd_desired := h, fbd_status := BindPending,
       fbd_error := None, fbd_attempt := t, fbd_updated := t\<rparr>"

definition record_frigate_attempt ::
  "string \<Rightarrow> string \<Rightarrow> string \<Rightarrow> string \<Rightarrow> string \<Rightarrow> string \<Rightarrow> timestamp \<Rightarrow> db \<Rightarrow> repo_error + db" where
  "record_frigate_attempt target c key rec det h t d =
     (if has_row (\<lambda>b. fbd_target b = target \<and> fbd_key b = key \<and> fbd_camera b \<noteq> c) (frigate_bindings d)
      then Inl (IntegrityError ''UNIQUE constraint failed: frigate_bindings.target_id, frigate_bindings.frigate_camera_key'')
      else if \<not> has_row (\<lambda>r. cam_uuid r = c) (cameras d) \<or> \<not> has_row (\<lambda>s. str_uuid s = rec) (streams d)
          \<or> \<not> has_row (\<lambda>s. str_uuid s = det) (streams d)
      then Inl (IntegrityError ''FOREIGN KEY constraint failed'')
      else Inr (d\<lparr>frigate_bindings := row_put fbinding_key (attempt_binding key rec det h t)
             \<lparr>fbd_target = target, fbd_camera = c, fbd_key = key, fbd_record = rec, fbd_detect = det,
              fbd_desired = h, fbd_applied = None, fbd_status = BindPending, fbd_error = None,
              fbd_attempt = t, fbd_updated = t, fbd_enabled_applied = True\<rparr> (frigate_bindings d)\<rparr>))"

definition complete_frigate_attempt ::
  "string \<Rightarrow> string \<Rightarrow> string \<Rightarrow> string option \<Rightarrow> string option \<Rightarrow> timestamp \<Rightarrow> db \<Rightarrow> repo_error + db" where
  "complete_frigate_attempt target c status applied code t d =
     (case map_of [(''applied'', BindApplied), (''error'', BindError)] status of
        None \<Rightarrow> Inl (ValueError ''Frigate integration status is invalid'')
      | Some s \<Rightarrow>
          Inr (d\<lparr>frigate_bindings := upd_where (\<lambda>b. fbinding_key b = (target, c))
            (\<lambda>b. b\<lparr>fbd_status := s, fbd_applied := (if s = BindApplied then applied else fbd_applied b),
                   fbd_error := code, fbd_updated := t\<rparr>) (frigate_bindings d)\<rparr>))"

definition mark_frigate_binding_pending :: "string \<Rightarrow> string \<Rightarrow> timestamp \<Rightarrow> db \<Rightarrow> db" where
  "mark_frigate_binding_pending target c t d =
     d\<lparr>frigate_bindings := upd_where (\<lambda>b. fbinding_key b = (target, c))
         (\<lambda>b. b\<lparr>fbd_status := BindPending, fbd_error := None, fbd_attempt := t, fbd_updated := t\<rparr>)
         (frigate_bindings d)\<rparr>"

definition frigate_bindings_view :: "string \<Rightarrow> db \<Rightarrow> (frigate_binding_row \<times> string) list" where
  "frigate_bindings_view target d =
     sort_key (\<lambda>(b, name). (lower_ascii name, fbd_camera b))
       (concat (map (\<lambda>b. case row_get cam_uuid (fbd_camera b) (cameras d) of
            None \<Rightarrow> [] | Some c \<Rightarrow> [(b, cam_name c)])
          (filter (\<lambda>b. fbd_target b = target) (frigate_bindings d))))"

definition remove_frigate_binding :: "string \<Rightarrow> string \<Rightarrow> db \<Rightarrow> bool \<times> db" where
  "remove_frigate_binding target c d =
     (has_row (\<lambda>b. fbinding_key b = (target, c)) (frigate_bindings d),
      d\<lparr>frigate_bindings := del_where (\<lambda>b. fbinding_key b = (target, c)) (frigate_bindings d)\<rparr>)"

definition set_frigate_camera_enabled_applied :: "string \<Rightarrow> string \<Rightarrow> bool \<Rightarrow> timestamp \<Rightarrow> db \<Rightarrow> db" where
  "set_frigate_camera_enabled_applied target c enabled t d =
     d\<lparr>frigate_bindings := upd_where (\<lambda>b. fbinding_key b = (target, c))
         (\<lambda>b. b\<lparr>fbd_enabled_applied := enabled, fbd_updated := t\<rparr>) (frigate_bindings d)\<rparr>"

subsection \<open>Retired cameras\<close>

abbreviation retired_key :: "retired_row \<Rightarrow> string \<times> string" where
  "retired_key r \<equiv> (ret_target r, ret_key r)"

definition remember_retired_frigate_camera :: "string \<Rightarrow> string \<Rightarrow> pydict \<Rightarrow> db \<Rightarrow> db" where
  "remember_retired_frigate_camera target key restore d =
     d\<lparr>retired_cameras := row_ins retired_key
         \<lparr>ret_target = target, ret_key = key, ret_restore = restore\<rparr> (retired_cameras d)\<rparr>"

definition retired_frigate_cameras :: "string \<Rightarrow> db \<Rightarrow> (string \<times> pydict) list" where
  "retired_frigate_cameras target d =
     map (\<lambda>r. (ret_key r, ret_restore r)) (filter (\<lambda>r. ret_target r = target) (retired_cameras d))"

definition forget_retired_frigate_camera :: "string \<Rightarrow> string \<Rightarrow> db \<Rightarrow> db" where
  "forget_retired_frigate_camera target key d =
     d\<lparr>retired_cameras := del_where (\<lambda>r. retired_key r = (target, key)) (retired_cameras d)\<rparr>"

end
