(* ===== verification/Programs.thy ===== *)
theory Programs
  imports PyValue
begin

text \<open>
  Programs that change a state and may raise an error: the result is the error or a value, with the
  state that was reached, so an error keeps what was done before it. \<open>keeps I m\<close>: the program keeps
  the invariant, however it ends; \<open>gives I m Q\<close>: a value it returns satisfies \<open>Q\<close>.
\<close>

type_synonym ('s, 'e, 'a) prog = "'s \<Rightarrow> ('e + 'a) \<times> 's"

named_theorems keeps_intros \<open>programs that keep an invariant\<close>

definition ret :: "'a \<Rightarrow> ('s, 'e, 'a) prog" where
  "ret x s = (Inr x, s)"

definition throw :: "'e \<Rightarrow> ('s, 'e, 'a) prog" where
  "throw e s = (Inl e, s)"

definition bind_io :: "('s, 'e, 'a) prog \<Rightarrow> ('a \<Rightarrow> ('s, 'e, 'b) prog) \<Rightarrow> ('s, 'e, 'b) prog" where
  "bind_io m f s = (case m s of (Inl e, s') \<Rightarrow> (Inl e, s') | (Inr x, s') \<Rightarrow> f x s')"

definition lift_err :: "'e + 'a \<Rightarrow> ('s, 'e, 'a) prog" where
  "lift_err r s = (r, s)"

definition catch_all :: "('s, 'e, 'a) prog \<Rightarrow> ('e \<Rightarrow> ('s, 'e, 'a) prog) \<Rightarrow> ('s, 'e, 'a) prog" where
  "catch_all m h s = (case m s of (Inl e, s') \<Rightarrow> h e s' | other \<Rightarrow> other)"

primrec each :: "('a \<Rightarrow> ('s, 'e, unit) prog) \<Rightarrow> 'a list \<Rightarrow> ('s, 'e, unit) prog" where
  "each f [] = ret ()"
| "each f (x # xs) = bind_io (f x) (\<lambda>_. each f xs)"

subsection \<open>Results\<close>

lemma bind_io_Inr:
  "bind_io m f s = (Inr y, s') \<longleftrightarrow> (\<exists>x s1. m s = (Inr x, s1) \<and> f x s1 = (Inr y, s'))"
  by (auto simp: bind_io_def split: prod.splits sum.splits)

lemma bind_lift: "bind_io (lift_err (Inr x)) f = f x" "bind_io (lift_err (Inl e)) f = throw e"
  by (simp_all add: bind_io_def lift_err_def throw_def fun_eq_iff)

lemma bind_ret: "bind_io (ret x) f = f x"
  by (simp add: bind_io_def ret_def fun_eq_iff)

lemma ret_Inr: "ret x s = (Inr y, s') \<longleftrightarrow> y = x \<and> s' = s"
  by (auto simp: ret_def)

lemma throw_Inr: "throw e s = (Inr y, s') \<longleftrightarrow> False"
  by (simp add: throw_def)

lemma lift_err_Inr: "lift_err r s = (Inr y, s') \<longleftrightarrow> r = Inr y \<and> s' = s"
  by (auto simp: lift_err_def)

subsection \<open>Invariants\<close>

definition keeps :: "('s \<Rightarrow> bool) \<Rightarrow> ('s, 'e, 'a) prog \<Rightarrow> bool" where
  "keeps I m \<longleftrightarrow> (\<forall>s. I s \<longrightarrow> I (snd (m s)))"

lemma keepsI: "(\<And>s. I s \<Longrightarrow> I (snd (m s))) \<Longrightarrow> keeps I m"
  by (simp add: keeps_def)

lemma keepsD: "keeps I m \<Longrightarrow> I s \<Longrightarrow> I (snd (m s))"
  by (simp add: keeps_def)

lemma keeps_ret [keeps_intros]: "keeps I (ret x)"
  by (simp add: keeps_def ret_def)

lemma keeps_throw [keeps_intros]: "keeps I (throw e)"
  by (simp add: keeps_def throw_def)

lemma keeps_lift_err [keeps_intros]: "keeps I (lift_err r)"
  by (simp add: keeps_def lift_err_def)

lemma keeps_bind_value:
  assumes "keeps I m" and "\<And>s x s'. I s \<Longrightarrow> m s = (Inr x, s') \<Longrightarrow> keeps I (f x)"
  shows "keeps I (bind_io m f)"
proof (rule keepsI)
  fix s assume s: "I s"
  obtain r s' where m: "m s = (r, s')" by (cases "m s")
  have s': "I s'" using keepsD [OF assms(1) s] m by simp
  show "I (snd (bind_io m f s))"
  proof (cases r)
    case (Inl e) with m s' show ?thesis by (simp add: bind_io_def)
  next
    case (Inr x) with m s' assms(2) [OF s] show ?thesis by (auto simp: bind_io_def dest: keepsD)
  qed
qed

lemma keeps_bind [keeps_intros]:
  "keeps I m \<Longrightarrow> (\<And>x. keeps I (f x)) \<Longrightarrow> keeps I (bind_io m f)"
  by (rule keeps_bind_value)

lemma keeps_bind_lift:
  "(\<And>x. r = Inr x \<Longrightarrow> keeps I (g x)) \<Longrightarrow> keeps I (bind_io (lift_err r) g)"
  by (rule keeps_bind_value) (auto simp: lift_err_def keeps_def)

lemma keeps_if [keeps_intros]:
  "(b \<Longrightarrow> keeps I m) \<Longrightarrow> (\<not> b \<Longrightarrow> keeps I n) \<Longrightarrow> keeps I (if b then m else n)"
  by simp

lemma keeps_case_list [keeps_intros]:
  "(xs = [] \<Longrightarrow> keeps I m) \<Longrightarrow> (\<And>y ys. keeps I (f y ys)) \<Longrightarrow> keeps I (case xs of [] \<Rightarrow> m | y # ys \<Rightarrow> f y ys)"
  by (cases xs) simp_all

lemma keeps_case_option [keeps_intros]:
  "(x = None \<Longrightarrow> keeps I m) \<Longrightarrow> (\<And>y. x = Some y \<Longrightarrow> keeps I (f y)) \<Longrightarrow> keeps I (case x of None \<Rightarrow> m | Some y \<Rightarrow> f y)"
  by (cases x) simp_all

lemma keeps_case_prod [keeps_intros]: "(\<And>a b. keeps I (f a b)) \<Longrightarrow> keeps I (case p of (a, b) \<Rightarrow> f a b)"
  by (cases p) simp

lemma keeps_case_dict [keeps_intros]:
  "(\<And>d. keeps I (f d)) \<Longrightarrow> keeps I m \<Longrightarrow> keeps I (case v of PDict d \<Rightarrow> f d | _ \<Rightarrow> m)"
  by (cases v) simp_all

lemma keeps_each [keeps_intros]:
  "(\<And>x. x \<in> set xs \<Longrightarrow> keeps I (f x)) \<Longrightarrow> keeps I (each f xs)"
  by (induction xs) (auto intro: keeps_intros)

text \<open>What is known of the value of a program that was started under the invariant.\<close>

definition gives :: "('s \<Rightarrow> bool) \<Rightarrow> ('s, 'e, 'a) prog \<Rightarrow> ('a \<Rightarrow> bool) \<Rightarrow> bool" where
  "gives I m Q \<longleftrightarrow> (\<forall>s x s'. I s \<longrightarrow> m s = (Inr x, s') \<longrightarrow> Q x)"

lemma gives_ret: "Q x \<Longrightarrow> gives I (ret x) Q"
  by (simp add: gives_def ret_def)

lemma gives_lift_err: "(\<And>x. r = Inr x \<Longrightarrow> Q x) \<Longrightarrow> gives I (lift_err r) Q"
  by (simp add: gives_def lift_err_def)

lemma gives_bind:
  assumes "keeps I m" "gives I m P" "\<And>x. P x \<Longrightarrow> gives I (f x) Q"
  shows "gives I (bind_io m f) Q"
  using assms unfolding gives_def keeps_def bind_io_def
  by (auto split: prod.splits sum.splits) (metis snd_conv)

lemma gives_bind_any:
  "keeps I m \<Longrightarrow> (\<And>x. gives I (f x) Q) \<Longrightarrow> gives I (bind_io m f) Q"
  by (rule gives_bind [where P = "\<lambda>_. True"]) (simp_all add: gives_def)

lemma keeps_bind_gives:
  "keeps I m \<Longrightarrow> gives I m P \<Longrightarrow> (\<And>x. P x \<Longrightarrow> keeps I (f x)) \<Longrightarrow> keeps I (bind_io m f)"
  by (rule keeps_bind_value) (auto simp: gives_def)

lemma keeps_catch_all [keeps_intros]:
  assumes "keeps I m" and "\<And>e. keeps I (h e)"
  shows "keeps I (catch_all m h)"
proof (rule keepsI)
  fix s assume s: "I s"
  have m: "I (snd (m s))" by (rule keepsD [OF assms(1) s])
  obtain r s' where r: "m s = (r, s')" by (cases "m s")
  show "I (snd (catch_all m h s))"
    using m r keepsD [OF assms(2), of s'] by (auto simp: catch_all_def split: sum.split)
qed

subsection \<open>Total correctness\<close>

text \<open>Started in a state with \<open>P\<close>, the program returns a value and reaches a state with \<open>Q\<close>.\<close>

definition achieves :: "('s \<Rightarrow> bool) \<Rightarrow> ('s, 'e, 'a) prog \<Rightarrow> ('a \<Rightarrow> 's \<Rightarrow> bool) \<Rightarrow> bool" where
  "achieves P m Q \<longleftrightarrow> (\<forall>s. P s \<longrightarrow> (\<exists>x s'. m s = (Inr x, s') \<and> Q x s'))"

lemma achievesD: "achieves P m Q \<Longrightarrow> P s \<Longrightarrow> \<exists>x s'. m s = (Inr x, s') \<and> Q x s'"
  by (simp add: achieves_def)

lemma achieves_bind: "achieves P m R \<Longrightarrow> (\<And>x. achieves (R x) (f x) Q) \<Longrightarrow> achieves P (bind_io m f) Q"
  unfolding achieves_def bind_io_def by fastforce

lemma achieves_ret: "(\<And>s. P s \<Longrightarrow> Q x s) \<Longrightarrow> achieves P (ret x) Q"
  by (simp add: achieves_def ret_def)

lemma achieves_lift: "r = Inr x \<Longrightarrow> (\<And>s. P s \<Longrightarrow> Q x s) \<Longrightarrow> achieves P (lift_err r) Q"
  by (simp add: achieves_def lift_err_def)

lemma achieves_catch: "achieves P m Q \<Longrightarrow> achieves P (catch_all m h) Q"
  unfolding achieves_def catch_all_def by fastforce

lemma achieves_conseq:
  "achieves P m Q \<Longrightarrow> (\<And>s. P' s \<Longrightarrow> P s) \<Longrightarrow> (\<And>x s. Q x s \<Longrightarrow> Q' x s) \<Longrightarrow> achieves P' m Q'"
  unfolding achieves_def by blast

lemma achieves_pre: "(\<And>s. P s \<Longrightarrow> b) \<Longrightarrow> (b \<Longrightarrow> achieves P m Q) \<Longrightarrow> achieves P m Q"
  unfolding achieves_def by blast

end
