(* ===== verification/PyNumbers.thy ===== *)
theory PyNumbers
  imports PyValue
begin

text \<open>
  Numbers in documents and text: \<open>int(v or 0)\<close> and \<open>float(s)\<close>, exact and without the infinities.
  \<open>None\<close> where Python raises.
\<close>

definition num_of :: "pyval \<Rightarrow> int option" where
  "num_of v = (case v of PInt i \<Rightarrow> Some i | PBool b \<Rightarrow> Some (of_bool b) | _ \<Rightarrow> None)"

text \<open>\<open>int(v or 0)\<close>; \<open>None\<close> where it raises.\<close>

definition digits_ok :: "string \<Rightarrow> bool" where
  "digits_ok s \<longleftrightarrow> list_all (\<lambda>g. g \<noteq> [] \<and> list_all is_digit g) (split_char CHR ''_'' s)"

definition parse_int :: "string \<Rightarrow> int option" where
  "parse_int s =
     (let t = py_strip s;
          (neg, body) = (if startswith t ''-'' then (True, tl t)
                         else if startswith t ''+'' then (False, tl t) else (False, t))
      in if digits_ok body
         then (let n = int (digits_val (filter (\<lambda>c. c \<noteq> CHR ''_'') body)) in Some (if neg then - n else n))
         else None)"

definition py_int_or_zero :: "pyval \<Rightarrow> int option" where
  "py_int_or_zero v =
     (if \<not> truthy v then Some 0
      else case v of PStr s \<Rightarrow> parse_int s | _ \<Rightarrow> num_of v)"

definition decimal_digits :: "string \<Rightarrow> string option" where
  "decimal_digits s =
     (if s = [] then Some [] else if digits_ok s then Some (filter (\<lambda>c. c \<noteq> CHR ''_'') s) else None)"

definition parse_mantissa :: "string \<Rightarrow> rat option" where
  "parse_mantissa s =
     (case partition_char CHR ''.'' s of (a, _, b) \<Rightarrow>
        (case (decimal_digits a, decimal_digits b) of
           (Some x, Some y) \<Rightarrow>
             if x = [] \<and> y = [] then None
             else Some (of_nat (digits_val (x @ y)) / 10 ^ length y)
         | _ \<Rightarrow> None))"

definition split_exponent :: "string \<Rightarrow> string \<times> bool \<times> string" where
  "split_exponent s =
     (let low = map (\<lambda>c. if c = CHR ''E'' then CHR ''e'' else c) s in partition_char CHR ''e'' low)"

definition parse_float :: "string \<Rightarrow> rat option" where
  "parse_float s =
     (let t = py_strip s;
          (neg, body) = (if startswith t ''-'' then (True, tl t)
                         else if startswith t ''+'' then (False, tl t) else (False, t))
      in case split_exponent body of (m, has_exp, e) \<Rightarrow>
        (case (parse_mantissa m, if has_exp then parse_int e else Some 0) of
           (Some x, Some k) \<Rightarrow>
             (let v = (if 0 \<le> k then x * 10 ^ nat k else x / 10 ^ nat (- k)) in Some (if neg then - v else v))
         | _ \<Rightarrow> None))"

end
