(* ===== verification/FrigateClient.thy ===== *)
theory FrigateClient
  imports FrigateStore Programs PyNumbers
begin

text \<open>
  The client of one Frigate instance (camadmiral/frigate.py, \<open>FrigateClient\<close>). Frigate is not code
  of the repository: what it answers is the parameter \<open>serve\<close>, a function of every request sent
  before and the new one, so nothing is assumed of it. An answer is the error code that
  \<open>_request\<close> derives from a failed exchange, or the JSON document. Its programs (theory \<open>Programs\<close>) run on
  the database and the log of requests. The upstream details an
  error carries for display are left out. \<open>PyError\<close> is any exception the code does not expect:
  a document with a list where it indexes a dict, or a violated constraint of the database.
\<close>

datatype frigate_error =
    FrigateApiError (err_code: string) (err_stage: "string option") (err_resource: "string option")
  | PyError string

datatype request =
    GetOpenapi | GetConfig | GetRawPaths | GetRawConfig | GetStreams | GetStats
  | SetConfig pydict "string option" bool
  | SaveRaw string
  | PutStream string string
  | DeleteStream string
  | PostRestart

record io_state =
  io_db :: db
  io_log :: "request list"

type_synonym 'a io = "(io_state, frigate_error, 'a) prog"

type_synonym server = "request list \<Rightarrow> request \<Rightarrow> string + pyval"

subsection \<open>Programs\<close>

definition catch_api :: "'a io \<Rightarrow> (frigate_error \<Rightarrow> 'a io) \<Rightarrow> 'a io" where
  "catch_api m h s =
     (case m s of
        (Inl (FrigateApiError c st r), s') \<Rightarrow> h (FrigateApiError c st r) s'
      | other \<Rightarrow> other)"

definition read_db :: "(db \<Rightarrow> 'a) \<Rightarrow> 'a io" where
  "read_db f s = (Inr (f (io_db s)), s)"

definition write_db :: "(db \<Rightarrow> db) \<Rightarrow> unit io" where
  "write_db f s = (Inr (), s\<lparr>io_db := f (io_db s)\<rparr>)"

definition try_db :: "(db \<Rightarrow> repo_error + db) \<Rightarrow> unit io" where
  "try_db f s = (case f (io_db s) of Inl _ \<Rightarrow> (Inl (PyError ''database''), s)
                 | Inr d \<Rightarrow> (Inr (), s\<lparr>io_db := d\<rparr>))"

definition api_error :: "string \<Rightarrow> frigate_error" where
  "api_error code = FrigateApiError code None None"

definition ask :: "server \<Rightarrow> request \<Rightarrow> pyval io" where
  "ask serve q s =
     (case serve (io_log s) q of
        Inl code \<Rightarrow> (Inl (api_error code), s\<lparr>io_log := io_log s @ [q]\<rparr>)
      | Inr v \<Rightarrow> (Inr v, s\<lparr>io_log := io_log s @ [q]\<rparr>))"

definition or_else :: "string option \<Rightarrow> string option \<Rightarrow> string option" where
  "or_else a b = (case a of None \<Rightarrow> b | Some x \<Rightarrow> if x = [] then b else Some x)"

definition with_context :: "string \<Rightarrow> string option \<Rightarrow> frigate_error \<Rightarrow> frigate_error" where
  "with_context stage resource e =
     (case e of
        FrigateApiError c st r \<Rightarrow> FrigateApiError c (or_else st (Some stage)) (or_else r resource)
      | other \<Rightarrow> other)"

definition in_context :: "string \<Rightarrow> string option \<Rightarrow> 'a io \<Rightarrow> 'a io" where
  "in_context stage resource m = catch_api m (\<lambda>e. throw (with_context stage resource e))"

subsection \<open>Documents\<close>

text \<open>\<open>x.get(k, {})\<close> on a value that must be a dict, and \<open>k in x\<close>.\<close>

definition attr_get :: "pyval \<Rightarrow> string \<Rightarrow> pyval \<Rightarrow> frigate_error + pyval" where
  "attr_get v k dflt =
     (case v of PDict d \<Rightarrow> Inr (dget_or d k dflt) | _ \<Rightarrow> Inl (PyError ''AttributeError''))"

definition py_in :: "string \<Rightarrow> pyval \<Rightarrow> frigate_error + bool" where
  "py_in k v =
     (case v of
        PDict d \<Rightarrow> Inr (dhas k d)
      | PList l \<Rightarrow> Inr (PStr k \<in> set l)
      | PStr s \<Rightarrow> Inr (contains s k)
      | _ \<Rightarrow> Inl (PyError ''TypeError''))"

text \<open>\<open>==\<close>: dicts do not compare the order of their keys, and \<open>True\<close> equals 1.\<close>

function (sequential) py_eq :: "pyval \<Rightarrow> pyval \<Rightarrow> bool" where
  "py_eq (PList a) (PList b) = (length a = length b \<and> list_all (\<lambda>(x, y). py_eq x y) (zip a b))"
| "py_eq (PDict a) (PDict b) =
     (length a = length b \<and>
      list_all (\<lambda>(k, v). case map_of b k of None \<Rightarrow> False | Some w \<Rightarrow> py_eq v w) a)"
| "py_eq a b =
     (case (num_of a, num_of b) of
        (Some i, Some j) \<Rightarrow> i = j
      | (None, None) \<Rightarrow> a = b
      | _ \<Rightarrow> False)"
  by pat_completeness auto

termination
proof (relation "measure (\<lambda>(a, b). size a)")
  show "wf (measure (\<lambda>(a :: pyval, b :: pyval). size a))" by simp
  show "((xa, y), (PList a, PList b)) \<in> measure (\<lambda>(a, b). size a)" if "x \<in> set (zip a b)" "(xa, y) = x"
    for a b :: "pyval list" and x xa y
  proof -
    have "xa \<in> set a" using that by (metis set_zip_leftD)
    then have "size xa < Suc (size_list size a)" by (simp add: less_Suc_eq_le size_list_estimation')
    then show ?thesis by simp
  qed
  show "((y, x2), (PDict a, PDict b)) \<in> measure (\<lambda>(a, b). size a)"
    if "x \<in> set a" "(xa, y) = x" for a b :: "(string \<times> pyval) list" and x xa y x2
  proof -
    have "size_prod (\<lambda>_. 0) size x \<le> size_list (size_prod (\<lambda>_. 0) size) a"
      using that(1) by (simp add: size_list_estimation')
    then show ?thesis using that(2) by auto
  qed
qed

subsection \<open>Calls\<close>

definition required_capabilities :: "(string \<times> string) list" where
  "required_capabilities =
     [(''/config'', ''get''), (''/config/raw'', ''get''), (''/config/raw_paths'', ''get''),
      (''/config/set'', ''put''), (''/go2rtc/streams'', ''get''),
      (''/go2rtc/streams/{stream_name}'', ''put''), (''/restart'', ''post''), (''/stats'', ''get'')]"

definition capable :: "pyval \<Rightarrow> bool" where
  "capable document =
     (case document of
        PDict doc \<Rightarrow>
          (case dget doc ''paths'' of
             PDict paths \<Rightarrow>
               list_all (\<lambda>(path, verb). case dget paths path of PDict ops \<Rightarrow> dhas verb ops | _ \<Rightarrow> False)
                 required_capabilities
           | _ \<Rightarrow> False)
      | _ \<Rightarrow> False)"

definition capabilities :: "server \<Rightarrow> unit io" where
  "capabilities serve =
     bind_io (ask serve GetOpenapi)
       (\<lambda>doc. if capable doc then ret () else throw (api_error ''capability_unavailable''))"

definition ask_dict :: "server \<Rightarrow> request \<Rightarrow> pydict io" where
  "ask_dict serve q =
     bind_io (ask serve q) (\<lambda>v. case v of PDict d \<Rightarrow> ret d | _ \<Rightarrow> throw (api_error ''invalid_response''))"

definition get_config :: "server \<Rightarrow> pydict io" where
  "get_config serve = ask_dict serve GetConfig"

definition get_raw_paths :: "server \<Rightarrow> pydict io" where
  "get_raw_paths serve = ask_dict serve GetRawPaths"

definition raw_config_text :: "server \<Rightarrow> string io" where
  "raw_config_text serve =
     bind_io (ask serve GetRawConfig) (\<lambda>v. case v of PStr s \<Rightarrow> ret s | _ \<Rightarrow> throw (api_error ''invalid_response''))"

text \<open>\<open>yaml\<close> is \<open>yaml.safe_load\<close>, \<open>None\<close> where it raises.\<close>

definition get_raw_config :: "(string \<Rightarrow> pyval option) \<Rightarrow> server \<Rightarrow> pydict io" where
  "get_raw_config yaml serve =
     bind_io (raw_config_text serve)
       (\<lambda>s. case yaml s of Some (PDict d) \<Rightarrow> ret d | _ \<Rightarrow> throw (api_error ''invalid_response''))"

definition get_runtime_streams :: "server \<Rightarrow> pydict io" where
  "get_runtime_streams serve = ask_dict serve GetStreams"

definition get_stats :: "server \<Rightarrow> pydict io" where
  "get_stats serve =
     bind_io (ask_dict serve GetStats)
       (\<lambda>d. case dget d ''cameras'' of PDict c \<Rightarrow> ret c | _ \<Rightarrow> throw (api_error ''invalid_response''))"

definition succeeded :: "pyval \<Rightarrow> bool" where
  "succeeded v = (case v of PDict d \<Rightarrow> dget d ''success'' = PBool True | _ \<Rightarrow> False)"

definition save_raw_config :: "server \<Rightarrow> string \<Rightarrow> unit io" where
  "save_raw_config serve raw =
     bind_io (ask serve (SaveRaw raw))
       (\<lambda>v. if succeeded v then ret () else throw (api_error ''configuration_rejected''))"

definition set_config :: "server \<Rightarrow> pydict \<Rightarrow> string option \<Rightarrow> bool \<Rightarrow> unit io" where
  "set_config serve data topic restart =
     bind_io (ask serve (SetConfig data topic (restart \<or> topic \<noteq> None)))
       (\<lambda>v. if succeeded v then ret () else throw (api_error ''configuration_rejected''))"

definition refused :: "pyval \<Rightarrow> bool" where
  "refused v = (case v of PDict d \<Rightarrow> dget d ''success'' = PBool False | _ \<Rightarrow> False)"

definition set_runtime_stream :: "server \<Rightarrow> string \<Rightarrow> string \<Rightarrow> unit io" where
  "set_runtime_stream serve name source =
     bind_io (ask serve (PutStream name source))
       (\<lambda>v. if refused v then throw (api_error ''runtime_stream_rejected'') else ret ())"

definition delete_runtime_stream :: "server \<Rightarrow> string \<Rightarrow> unit io" where
  "delete_runtime_stream serve name =
     bind_io (ask serve (DeleteStream name))
       (\<lambda>v. if refused v then throw (api_error ''runtime_stream_rejected'') else ret ())"

definition restart_frigate :: "server \<Rightarrow> unit io" where
  "restart_frigate serve =
     bind_io (ask serve PostRestart)
       (\<lambda>v. if succeeded v then ret () else throw (api_error ''restart_rejected''))"

end
