(* ===== verification/RtspUri.thy ===== *)
theory RtspUri
  imports Crypto Url
begin

text \<open>
  \<open>urllib.parse.quote\<close> with no safe characters, and \<open>authenticated_rtsp_uri\<close> (camadmiral/media.py)
  which puts credentials into the address of a stream. \<open>None\<close> is a \<open>ValueError\<close>.
\<close>

definition alnum :: "char \<Rightarrow> bool" where
  "alnum c \<longleftrightarrow> is_alpha_ascii c \<or> is_digit c"

definition quote_char :: "char \<Rightarrow> string" where
  "quote_char c =
     (if alnum c \<or> c \<in> set ''_.-~'' then [c]
      else let n = of_char c :: nat; up = (\<lambda>k. if k < 10 then char_of (48 + k) else char_of (55 + k))
           in [CHR ''%'', up (n div 16), up (n mod 16)])"

definition url_quote :: "string \<Rightarrow> string" where
  "url_quote s = concat (map quote_char (utf8_encode s))"

definition bracketed :: "string \<Rightarrow> string" where
  "bracketed h = (if CHR '':'' \<in> set h then ''['' @ h @ '']'' else h)"

definition with_port :: "string \<Rightarrow> nat option \<Rightarrow> string" where
  "with_port host port =
     (case port of Some p \<Rightarrow> if p \<noteq> 0 then host @ '':'' @ nat_digits p else host | None \<Rightarrow> host)"

definition userinfo :: "string \<Rightarrow> string \<Rightarrow> string" where
  "userinfo username password =
     (if username = [] then []
      else url_quote username @ (if password = [] then [] else '':'' @ url_quote password) @ ''@'')"

definition authenticated_rtsp_uri :: "string \<Rightarrow> string \<Rightarrow> string \<Rightarrow> string option" where
  "authenticated_rtsp_uri uri username password =
     (case urlsplit uri of
        None \<Rightarrow> None
      | Some u \<Rightarrow>
          (case url_hostname u of
             None \<Rightarrow> None
           | Some h \<Rightarrow>
               if url_scheme u \<notin> {''rtsp'', ''rtsps''} then None
               else
                 (case url_port u of
                    None \<Rightarrow> None
                  | Some port \<Rightarrow>
                      Some (urlunsplit (url_scheme u) (userinfo username password @ with_port (bracketed h) port)
                        (url_path u) (url_query u)))))"

end
