(* ===== verification/FrigateDesired.thy ===== *)
theory FrigateDesired
  imports FrigateClient RtspUri
begin

text \<open>
  What Frigate should hold for a camera, and how it is compared with what Frigate holds
  (camadmiral/frigate.py). \<open>digest\<close> is the SHA-256 of the canonical JSON of a document, \<open>ipv6\<close> the
  canonical text of an IPv6 address or \<open>None\<close> where \<open>ipaddress\<close> does not parse one. The
  development covers targets without imported cameras, so no camera is left out as imported.
\<close>

subsection \<open>Selected cameras\<close>

record frigate_camera =
  frc_camera :: camera_row
  frc_streams :: "consumer_stream list"
  frc_mode :: address_mode
  frc_width :: "int option"
  frc_height :: "int option"

definition selected_camera_inventory :: "string \<Rightarrow> db \<Rightarrow> frigate_camera list" where
  "selected_camera_inventory target d =
     (let target_mode = Option.bind (row_get ftg_id target (frigate_targets d)) ftg_mode;
          selections = frigate_camera_selections target d
      in concat (map (\<lambda>(c, ss). case row_get fsl_camera (cam_uuid c) selections of
             None \<Rightarrow> []
           | Some r \<Rightarrow> [\<lparr>frc_camera = c, frc_streams = ss,
               frc_mode = (case target_mode of Some m \<Rightarrow> m | None \<Rightarrow> fsl_mode r),
               frc_width = fsl_width r, frc_height = fsl_height r\<rparr>])
         (consumer_inventory d)))"

definition key_prefix :: string where
  "key_prefix = ''camadmiral_''"

definition key_char :: "char \<Rightarrow> char" where
  "key_char c = (if is_alpha_ascii c \<or> is_digit c \<or> c = CHR ''_'' then c else CHR ''_'')"

definition frigate_camera_key :: "string \<Rightarrow> string" where
  "frigate_camera_key u = key_prefix @ map key_char u"

definition record_alias :: "string \<Rightarrow> string" where
  "record_alias key = key @ ''_record''"

definition detect_alias :: "string \<Rightarrow> string" where
  "detect_alias key = key @ ''_detect''"

definition desired_resource_keys :: "string \<Rightarrow> db \<Rightarrow> string list \<times> string list" where
  "desired_resource_keys target d =
     (let keys = map (\<lambda>c. frigate_camera_key (cam_uuid (frc_camera c))) (selected_camera_inventory target d)
      in (keys, concat (map (\<lambda>k. [record_alias k, detect_alias k]) keys)))"

subsection \<open>The desired configuration\<close>

definition stream_for_role :: "frigate_camera \<Rightarrow> role \<Rightarrow> consumer_stream option" where
  "stream_for_role c r = find (\<lambda>s. r \<in> set (cst_roles s)) (frc_streams c)"

definition video_dimensions :: "consumer_stream \<Rightarrow> frigate_error + int \<times> int" where
  "video_dimensions s =
     (let pick = (\<lambda>probed stated. case probed of Some n \<Rightarrow> if n \<noteq> 0 then n else stated | None \<Rightarrow> stated);
          width = pick (str_pwidth (cst_stream s)) (prf_width (cst_profile s));
          height = pick (str_pheight (cst_stream s)) (prf_height (cst_profile s))
      in if width \<le> 0 \<or> height \<le> 0 then Inl (api_error ''detect_metadata_unavailable'') else Inr (width, height))"

definition dns_label :: "string \<Rightarrow> bool" where
  "dns_label l \<longleftrightarrow> l \<noteq> [] \<and> length l \<le> 63 \<and> alnum (hd l) \<and> alnum (last l)
     \<and> list_all (\<lambda>c. alnum c \<or> c = CHR ''-'') l"

definition source_host :: "(string \<Rightarrow> string option) \<Rightarrow> string \<Rightarrow> frigate_error + string" where
  "source_host ipv6 host =
     (case parse_ipv4 host of
        Some n \<Rightarrow> Inr (ipv4_str n)
      | None \<Rightarrow>
          (case ipv6 host of
             Some a \<Rightarrow> Inr (''['' @ a @ '']'')
           | None \<Rightarrow>
               if length host > 253 \<or> \<not> list_all dns_label (split_char CHR ''.'' (strip_dots host))
               then Inl (api_error ''media_host_unavailable'')
               else Inr (strip_dots host)))"

definition relay_source :: "string \<Rightarrow> string \<Rightarrow> consumer_stream \<Rightarrow> string" where
  "relay_source password host s =
     ''rtsp://camadmiral:'' @ url_quote password @ ''@'' @ host @ '':18554/'' @ str_key (cst_stream s)"

definition ffmpeg_input :: "string \<Rightarrow> string list \<Rightarrow> pyval" where
  "ffmpeg_input alias roles =
     PDict [(''path'', PStr (''rtsp://127.0.0.1:8554/'' @ alias)),
            (''input_args'', PStr ''preset-rtsp-restream''), (''roles'', PList (map PStr roles))]"

record desired =
  dsr_uuid :: string
  dsr_key :: string
  dsr_name :: string
  dsr_record :: string
  dsr_detect :: string
  dsr_inputs :: "(string \<times> string list) list"
  dsr_width :: int
  dsr_height :: int
  dsr_streams :: "(string \<times> string) list"
  dsr_hash :: string

definition live_streams :: "desired \<Rightarrow> pyval" where
  "live_streams x = PDict [(''Record'', PStr (record_alias (dsr_key x))), (''Detect'', PStr (detect_alias (dsr_key x)))]"

definition detect_size :: "desired \<Rightarrow> pydict" where
  "detect_size x = [(''width'', PInt (dsr_width x)), (''height'', PInt (dsr_height x))]"

definition camera_config :: "desired \<Rightarrow> pydict" where
  "camera_config x =
     [(''enabled'', PBool True), (''friendly_name'', PStr (dsr_name x)),
      (''ffmpeg'', PDict [(''inputs'', PList (map (\<lambda>(a, rs). ffmpeg_input a rs) (dsr_inputs x)))]),
      (''detect'', PDict (detect_size x)),
      (''live'', PDict [(''streams'', live_streams x)])]"

definition secret_free :: "string \<Rightarrow> desired \<Rightarrow> pyval" where
  "secret_free host x =
     PDict [(''camera_uuid'', PStr (dsr_uuid x)), (''key'', PStr (dsr_key x)), (''name'', PStr (dsr_name x)),
            (''record_stream_uuid'', PStr (dsr_record x)), (''detect_stream_uuid'', PStr (dsr_detect x)),
            (''media_host'', PStr host), (''camera_config'', PDict (camera_config x)),
            (''stream_keys'', PList (map PStr (sort (map fst (dsr_streams x)))))]"

definition desired_camera ::
  "(pyval \<Rightarrow> string) \<Rightarrow> (string \<Rightarrow> string option) \<Rightarrow> frigate_camera \<Rightarrow> string \<Rightarrow> string \<Rightarrow>
   frigate_error + desired option" where
  "desired_camera digest ipv6 c password media_host =
     (case (stream_for_role c Record, stream_for_role c Detect) of
        (Some rec, Some det) \<Rightarrow>
          bind_err (case (frc_width c, frc_height c) of
              (Some w, Some h) \<Rightarrow> Inr (w, h)
            | (Some w, None) \<Rightarrow> Inl (PyError ''TypeError'')
            | _ \<Rightarrow> video_dimensions det) (\<lambda>(width, height).
          bind_err (source_host ipv6 media_host) (\<lambda>host.
            let key = frigate_camera_key (cam_uuid (frc_camera c));
                ra = record_alias key; da = detect_alias key;
                x = \<lparr>dsr_uuid = cam_uuid (frc_camera c), dsr_key = key, dsr_name = cam_name (frc_camera c),
                     dsr_record = str_uuid (cst_stream rec), dsr_detect = str_uuid (cst_stream det),
                     dsr_inputs = (if str_uuid (cst_stream rec) = str_uuid (cst_stream det)
                                   then [(ra, [''record'', ''detect''])]
                                   else [(ra, [''record'']), (da, [''detect''])]),
                     dsr_width = width, dsr_height = height,
                     dsr_streams = [(ra, relay_source password host rec), (da, relay_source password host det)],
                     dsr_hash = []\<rparr>
            in Inr (Some (x\<lparr>dsr_hash := digest (secret_free media_host x)\<rparr>))))
      | _ \<Rightarrow> Inr None)"

subsection \<open>Comparing\<close>

definition sub_or_empty :: "pydict \<Rightarrow> string \<Rightarrow> string \<Rightarrow> pyval" where
  "sub_or_empty doc k key =
     (case dget_or doc k (PDict []) of PDict m \<Rightarrow> dget_or m key (PDict []) | _ \<Rightarrow> PDict [])"

definition expected_inputs :: "desired \<Rightarrow> pyval" where
  "expected_inputs x =
     PList (map (\<lambda>(a, rs). PDict [(''path'', PStr (''rtsp://127.0.0.1:8554/'' @ a)),
                                  (''roles'', PList (map PStr rs))]) (dsr_inputs x))"

definition has_fps :: "pydict \<Rightarrow> string \<Rightarrow> bool" where
  "has_fps raw_config key =
     (case sub_or_empty raw_config ''cameras'' key of
        PDict saved \<Rightarrow> (case dget saved ''detect'' of PDict d \<Rightarrow> dhas ''fps'' d | _ \<Rightarrow> False)
      | _ \<Rightarrow> False)"

definition owned_camera_mismatch ::
  "pyval \<Rightarrow> desired \<Rightarrow> pydict \<Rightarrow> pydict \<Rightarrow> frigate_error + string option" where
  "owned_camera_mismatch actual x raw_paths raw_config =
     (case actual of
        PDict a \<Rightarrow>
          if \<not> py_eq (dget a ''friendly_name'') (PStr (dsr_name x)) then Inr (Some ''camera_name_mismatch'')
          else if \<not> (case dget a ''detect'' of
                  PDict det \<Rightarrow> list_all (\<lambda>(k, v). map_option PInt (py_int_or_zero (dget det k)) = Some v) (detect_size x)
                | _ \<Rightarrow> False) then Inr (Some ''detect_settings_mismatch'')
          else if \<not> (case dget a ''live'' of
                  PDict live \<Rightarrow> py_eq (dget live ''streams'') (live_streams x) | _ \<Rightarrow> False)
            then Inr (Some ''live_streams_mismatch'')
          else
            bind_err (case sub_or_empty raw_paths ''cameras'' (dsr_key x) of
                PDict cam \<Rightarrow> bind_err (attr_get (PDict cam) ''ffmpeg'' (PDict [])) (\<lambda>f. attr_get f ''inputs'' PNone)
              | _ \<Rightarrow> Inr PNone) (\<lambda>inputs.
              if \<not> py_eq inputs (expected_inputs x) then Inr (Some ''ffmpeg_inputs_mismatch'')
              else if has_fps raw_config (dsr_key x) then Inr (Some ''detect_settings_mismatch'')
              else Inr None)
      | _ \<Rightarrow> Inr (Some ''camera_configuration_missing''))"

definition actual_mismatch ::
  "desired \<Rightarrow> pydict \<Rightarrow> pydict \<Rightarrow> pydict \<Rightarrow> pydict \<Rightarrow> frigate_error + string option" where
  "actual_mismatch x config raw_paths raw_config runtime =
     (let camera = (case dget_or config ''cameras'' (PDict []) of PDict m \<Rightarrow> dget m (dsr_key x) | _ \<Rightarrow> PNone) in
      bind_err (owned_camera_mismatch camera x raw_paths raw_config) (\<lambda>m.
        case m of
          Some e \<Rightarrow> Inr (Some e)
        | None \<Rightarrow>
            let configured = (case dget_or raw_paths ''go2rtc'' (PDict []) of
                                PDict g \<Rightarrow> dget_or g ''streams'' (PDict []) | _ \<Rightarrow> PDict [])
            in if \<not> (case configured of
                    PDict s \<Rightarrow> list_all (\<lambda>(name, src). py_eq (dget s name) (PList [PStr src])) (dsr_streams x)
                  | _ \<Rightarrow> False) then Inr (Some ''saved_stream_mismatch'')
               else if \<not> list_all (\<lambda>(name, _). dhas name runtime) (dsr_streams x)
                 then Inr (Some ''runtime_stream_missing'')
               else Inr None))"

definition second_camera_restart :: "pydict \<Rightarrow> bool \<Rightarrow> bool" where
  "second_camera_restart config camera_exists =
     (let version = py_str (py_or (dget config ''version'') (PStr [])); rest = drop 4 version in
      startswith version ''0.17'' \<and> (rest = [] \<or> rest = [CHR 0x0A] \<or> hd rest = CHR ''.'' \<or> hd rest = CHR ''-'') \<and>
      (case dget config ''cameras'' of PDict m \<Rightarrow> length m = 1 | _ \<Rightarrow> False) \<and> \<not> camera_exists)"

definition is_retired_camera :: "pyval \<Rightarrow> frigate_error + bool" where
  "is_retired_camera v =
     (case v of
        PDict cam \<Rightarrow>
          if dget cam ''enabled'' \<noteq> PBool False then Inr False
          else
            bind_err (bind_err (attr_get v ''record'' (PDict [])) (\<lambda>r. attr_get r ''enabled'' PNone)) (\<lambda>rec.
              if rec \<noteq> PBool False then Inr False
              else
                bind_err (bind_err (attr_get v ''ui'' (PDict [])) (\<lambda>u. attr_get u ''dashboard'' PNone)) (\<lambda>dash.
                  Inr (dash = PBool False)))
      | _ \<Rightarrow> Inr False)"

end
