(* ===== verification/FrigateSync.thy ===== *)
theory FrigateSync
  imports FrigateDesired
begin

text \<open>
  Bringing Frigate in line with the selected cameras (camadmiral/frigate.py): reconciling, retiring
  what is no longer wanted, removing one camera. A waiting loop polls until its deadline:
  \<open>env_polls\<close> says how many polls end before it, given the requests sent so far. A call that is
  made while an error is handled, or after it, sees the same log as in the code.
\<close>

record frigate_env =
  env_target :: string
  env_serve :: server
  env_yaml :: "string \<Rightarrow> pyval option"
  env_digest :: "pyval \<Rightarrow> string"
  env_ipv6 :: "string \<Rightarrow> string option"
  env_host :: "address_mode \<Rightarrow> frigate_error + string"
  env_polls :: "request list \<Rightarrow> nat"
  env_enc :: "string \<Rightarrow> string \<Rightarrow> string"
  env_dec :: "string \<Rightarrow> string \<Rightarrow> crypto_error + string"
  env_fresh :: string
  env_now :: timestamp

record snapshot =
  snp_config :: pydict
  snp_paths :: pydict
  snp_raw :: pydict
  snp_runtime :: pydict
  snp_stats :: pydict

definition read_state :: "frigate_env \<Rightarrow> snapshot io" where
  "read_state env =
     bind_io (get_config (env_serve env)) (\<lambda>config.
     bind_io (get_raw_paths (env_serve env)) (\<lambda>paths.
     bind_io (get_raw_config (env_yaml env) (env_serve env)) (\<lambda>raw.
     bind_io (get_runtime_streams (env_serve env)) (\<lambda>runtime.
     bind_io (get_stats (env_serve env)) (\<lambda>stats.
       ret \<lparr>snp_config = config, snp_paths = paths, snp_raw = raw, snp_runtime = runtime, snp_stats = stats\<rparr>)))))"

definition snapshot_mismatch :: "desired \<Rightarrow> snapshot \<Rightarrow> frigate_error + string option" where
  "snapshot_mismatch x s = actual_mismatch x (snp_config s) (snp_paths s) (snp_raw s) (snp_runtime s)"

definition state_mismatch :: "desired \<Rightarrow> snapshot \<Rightarrow> frigate_error + string option" where
  "state_mismatch x s =
     bind_err (snapshot_mismatch x s) (\<lambda>m.
       Inr (if m = None \<and> \<not> dhas (dsr_key x) (snp_stats s) then Some ''camera_start_pending'' else m))"

fun wait_for_camera_state :: "frigate_env \<Rightarrow> desired \<Rightarrow> nat \<Rightarrow> snapshot io" where
  "wait_for_camera_state env x 0 =
     bind_io (read_state env) (\<lambda>s.
     bind_io (lift_err (state_mismatch x s)) (\<lambda>m.
       case m of None \<Rightarrow> ret s | Some e \<Rightarrow> throw (api_error e)))"
| "wait_for_camera_state env x (Suc n) =
     bind_io (catch_api (bind_io (read_state env) (\<lambda>s. ret (Some s))) (\<lambda>_. ret None)) (\<lambda>r.
       case r of
         None \<Rightarrow> wait_for_camera_state env x n
       | Some s \<Rightarrow>
           bind_io (lift_err (state_mismatch x s)) (\<lambda>m.
             case m of None \<Rightarrow> ret s | Some _ \<Rightarrow> wait_for_camera_state env x n))"

definition polled :: "frigate_env \<Rightarrow> (nat \<Rightarrow> 'a io) \<Rightarrow> 'a io" where
  "polled env loop s = loop (env_polls env (io_log s)) s"

subsection \<open>One camera\<close>

text \<open>What an attempt ended with is written to the binding; an API error does not stop the round.\<close>

definition settle ::
  "frigate_env \<Rightarrow> string \<Rightarrow> string \<Rightarrow> snapshot io \<Rightarrow> unit io \<Rightarrow> snapshot \<Rightarrow> (bool \<times> snapshot) io" where
  "settle env c applied m after old =
     bind_io (catch_api (bind_io m (\<lambda>s. ret (Inr s))) (\<lambda>e. ret (Inl (err_code e)))) (\<lambda>r.
       case r of
         Inl code \<Rightarrow>
           bind_io (try_db (complete_frigate_attempt (env_target env) c ''error'' None (Some code) (env_now env)))
             (\<lambda>_. ret (False, old))
       | Inr s \<Rightarrow>
           bind_io (try_db (complete_frigate_attempt (env_target env) c ''applied'' (Some applied) None (env_now env)))
             (\<lambda>_. bind_io after (\<lambda>_. ret (True, s))))"

definition camera_topic :: "string \<Rightarrow> string \<Rightarrow> string option" where
  "camera_topic key what = Some (''config/cameras/'' @ key @ ''/'' @ what)"

definition disable_camera :: "frigate_env \<Rightarrow> string \<Rightarrow> snapshot \<Rightarrow> snapshot io" where
  "disable_camera env key snap =
     bind_io (set_config (env_serve env) [(''cameras'', PDict [(key, PDict [(''enabled'', PBool False)])])]
       (camera_topic key ''enabled'') False) (\<lambda>_.
     bind_io (get_config (env_serve env)) (\<lambda>config.
     bind_io (lift_err (bind_err (attr_get (PDict config) ''cameras'' (PDict [])) (\<lambda>m. attr_get m key PNone))) (\<lambda>cam.
       case cam of
         PDict d \<Rightarrow> if dget d ''enabled'' = PBool False then ret (snap\<lparr>snp_config := config\<rparr>)
                     else throw (api_error ''camera_enabled_mismatch'')
       | _ \<Rightarrow> throw (api_error ''camera_enabled_mismatch''))))"

definition sync_disabled ::
  "frigate_env \<Rightarrow> string \<Rightarrow> frigate_binding_row option \<Rightarrow> snapshot \<Rightarrow> (bool \<times> snapshot) io" where
  "sync_disabled env c binding snap =
     (case binding of
        None \<Rightarrow> ret (True, snap)
      | Some b \<Rightarrow>
          bind_io (lift_err (bind_err (attr_get (PDict (snp_config snap)) ''cameras'' (PDict []))
                     (\<lambda>m. attr_get m (fbd_key b) PNone))) (\<lambda>cam.
            case cam of
              PDict d \<Rightarrow>
                if dget d ''enabled'' = PBool False then ret (True, snap)
                else
                  bind_io (write_db (set_frigate_camera_enabled_applied (env_target env) c False (env_now env))) (\<lambda>_.
                  bind_io (try_db (record_frigate_attempt (env_target env) c (fbd_key b) (fbd_record b)
                             (fbd_detect b) (fbd_desired b) (env_now env))) (\<lambda>_.
                    settle env c (or_text (fbd_applied b) (fbd_desired b))
                      (disable_camera env (fbd_key b) snap) (ret ()) snap))
            | _ \<Rightarrow> ret (True, snap)))"

definition resource_exists :: "string list \<Rightarrow> pyval \<Rightarrow> pyval \<Rightarrow> frigate_error + bool" where
  "resource_exists aliases configured runtime =
     foldr (\<lambda>a rest. bind_err (py_in a configured) (\<lambda>x. if x then Inr True
             else bind_err (py_in a runtime) (\<lambda>y. if y then Inr True else rest))) aliases (Inr False)"

definition camera_update :: "desired \<Rightarrow> pydict \<Rightarrow> bool \<Rightarrow> pydict option \<Rightarrow> frigate_error + pydict" where
  "camera_update x raw camera_exists restore =
     bind_err
       (if \<not> camera_exists then Inr (camera_config x)
        else
          bind_err (attr_get (PDict raw) ''cameras'' (PDict [])) (\<lambda>m.
          bind_err (attr_get m (dsr_key x) (PDict [])) (\<lambda>saved.
            let base = dpop ''enabled'' (camera_config x);
                fps = (case saved of PDict d \<Rightarrow> (case dget d ''detect'' of PDict e \<Rightarrow> dhas ''fps'' e | _ \<Rightarrow> False)
                       | _ \<Rightarrow> False)
            in Inr (if fps then dset ''detect'' (PDict (dset ''fps'' (PStr []) (detect_size x))) base else base))))
       (\<lambda>u. Inr (case restore of None \<Rightarrow> u | Some r \<Rightarrow> dset ''enabled'' (PBool True) (dmerge u r)))"

definition apply_camera ::
  "frigate_env \<Rightarrow> bool \<Rightarrow> desired \<Rightarrow> frigate_binding_row option \<Rightarrow> pydict option \<Rightarrow> bool \<Rightarrow> snapshot \<Rightarrow> snapshot io" where
  "apply_camera env allow_restart x binding restore camera_exists snap =
     (let key = dsr_key x; serve = env_serve env;
          enable_again = (camera_exists \<and> (case binding of None \<Rightarrow> False | Some b \<Rightarrow> \<not> fbd_enabled_applied b))
      in
      bind_io (lift_err (camera_update x (snp_raw snap) camera_exists restore)) (\<lambda>update.
      bind_io (set_config serve [(''cameras'', PDict [(key, PDict update)])]
        (if camera_exists then None else camera_topic key ''add'') False) (\<lambda>_.
      bind_io (if enable_again
               then set_config serve [(''cameras'', PDict [(key, PDict [(''enabled'', PBool True)])])]
                      (camera_topic key ''enabled'') False
               else ret ()) (\<lambda>_.
      bind_io (set_config serve
        [(''go2rtc'', PDict [(''streams'', PDict (map (\<lambda>(a, src). (a, PList [PStr src])) (dsr_streams x)))])]
        None False) (\<lambda>_.
      bind_io (each (\<lambda>(a, src). set_runtime_stream serve a src) (dsr_streams x)) (\<lambda>_.
      bind_io (if (second_camera_restart (snp_config snap) camera_exists \<or> restore \<noteq> None) \<and> allow_restart
               then restart_frigate serve else ret ()) (\<lambda>_.
        polled env (wait_for_camera_state env x))))))))"

definition selection_error :: "frigate_env \<Rightarrow> string \<Rightarrow> string option \<Rightarrow> unit io" where
  "selection_error env c code = write_db (set_frigate_selection_error (env_target env) c code)"

definition begin_attempt :: "frigate_env \<Rightarrow> string \<Rightarrow> desired \<Rightarrow> unit io" where
  "begin_attempt env c x =
     try_db (record_frigate_attempt (env_target env) c (dsr_key x) (dsr_record x) (dsr_detect x) (dsr_hash x)
       (env_now env))"

definition up_to_date :: "frigate_binding_row option \<Rightarrow> pydict option \<Rightarrow> desired \<Rightarrow> bool" where
  "up_to_date binding restore x =
     (case binding of None \<Rightarrow> False
      | Some b \<Rightarrow> restore = None \<and> fbd_enabled_applied b \<and> fbd_applied b = Some (dsr_hash x))"

text \<open>\<open>sync_owned\<close> is the rest of the loop body once nothing else owns the camera's names.\<close>

definition sync_owned ::
  "frigate_env \<Rightarrow> bool \<Rightarrow> string \<Rightarrow> desired \<Rightarrow> frigate_binding_row option \<Rightarrow> pydict option \<Rightarrow> bool \<Rightarrow> snapshot \<Rightarrow>
   (bool \<times> snapshot) io" where
  "sync_owned env allow_restart c x binding restore camera_exists snap =
     bind_io (lift_err (snapshot_mismatch x snap)) (\<lambda>mismatch.
     if up_to_date binding restore x \<and> mismatch = None \<and> dhas (dsr_key x) (snp_stats snap)
     then bind_io (if map_option fbd_status binding \<noteq> Some BindApplied
            then try_db (complete_frigate_attempt (env_target env) c ''applied'' (Some (dsr_hash x)) None (env_now env))
            else ret ()) (\<lambda>_. ret (True, snap))
     else
       bind_io (begin_attempt env c x) (\<lambda>_.
         if camera_exists \<and> mismatch = None \<and> \<not> dhas (dsr_key x) (snp_stats snap) \<and> restore = None
         then settle env c (dsr_hash x) (polled env (wait_for_camera_state env x)) (ret ()) snap
         else settle env c (dsr_hash x)
           (apply_camera env allow_restart x binding restore camera_exists snap)
           (bind_io (write_db (set_frigate_camera_enabled_applied (env_target env) c True (env_now env))) (\<lambda>_.
              if restore \<noteq> None then write_db (forget_retired_frigate_camera (env_target env) (dsr_key x))
              else ret ())) snap))"

definition sync_desired ::
  "frigate_env \<Rightarrow> bool \<Rightarrow> string \<Rightarrow> desired \<Rightarrow> frigate_binding_row option \<Rightarrow> snapshot \<Rightarrow> (bool \<times> snapshot) io" where
  "sync_desired env allow_restart c x binding snap =
     bind_io (lift_err (py_in (dsr_key x) (dget_or (snp_config snap) ''cameras'' (PDict [])))) (\<lambda>camera_exists.
     bind_io (lift_err (bind_err (attr_get (PDict (snp_paths snap)) ''go2rtc'' (PDict []))
                (\<lambda>g. attr_get g ''streams'' (PDict [])))) (\<lambda>configured.
     bind_io (lift_err (resource_exists (map fst (dsr_streams x)) configured (PDict (snp_runtime snap)))) (\<lambda>aliases_exist.
     bind_io (read_db (\<lambda>d. map_of (retired_frigate_cameras (env_target env) d) (dsr_key x))) (\<lambda>restore.
       if binding = None \<and> restore = None \<and> (camera_exists \<or> aliases_exist)
       then bind_io (selection_error env c
              (Some (if camera_exists then ''camera_resource_conflict'' else ''stream_resource_conflict'')))
              (\<lambda>_. ret (False, snap))
       else if restore \<noteq> None \<and> \<not> allow_restart then ret (False, snap)
       else sync_owned env allow_restart c x binding restore camera_exists snap))))"

definition sync_camera ::
  "frigate_env \<Rightarrow> bool \<Rightarrow> string \<Rightarrow> frigate_camera \<Rightarrow> snapshot \<Rightarrow> (bool \<times> snapshot) io" where
  "sync_camera env allow_restart password cam snap =
     (let c = cam_uuid (frc_camera cam) in
      bind_io (selection_error env c None) (\<lambda>_.
      bind_io (read_db (frigate_binding (env_target env) c)) (\<lambda>binding.
        if \<not> cam_enabled (frc_camera cam) then sync_disabled env c binding snap
        else
          bind_io (lift_err (env_host env (frc_mode cam))) (\<lambda>host.
            case desired_camera (env_digest env) (env_ipv6 env) cam password host of
              Inl (FrigateApiError code _ _) \<Rightarrow> bind_io (selection_error env c (Some code)) (\<lambda>_. ret (False, snap))
            | Inl e \<Rightarrow> throw e
            | Inr None \<Rightarrow> bind_io (selection_error env c (Some ''stream_roles_missing'')) (\<lambda>_. ret (False, snap))
            | Inr (Some x) \<Rightarrow> sync_desired env allow_restart c x binding snap))))"

fun sync_cameras ::
  "frigate_env \<Rightarrow> bool \<Rightarrow> string \<Rightarrow> frigate_camera list \<Rightarrow> snapshot \<Rightarrow> nat \<times> nat \<Rightarrow> (nat \<times> nat) io" where
  "sync_cameras env allow_restart password [] snap counts = ret counts"
| "sync_cameras env allow_restart password (cam # cams) snap (applied, pending) =
     bind_io (sync_camera env allow_restart password cam snap) (\<lambda>(ok, snap').
       sync_cameras env allow_restart password cams snap'
         (if ok then (Suc applied, pending) else (applied, Suc pending)))"

definition access_password :: "frigate_env \<Rightarrow> string io" where
  "access_password env s =
     (case rtsp_access_password (env_enc env) (env_dec env) (env_fresh env) (env_now env) (io_db s) of
        Inl _ \<Rightarrow> (Inl (PyError ''InvalidTag''), s)
      | Inr (p, d) \<Rightarrow> (Inr p, s\<lparr>io_db := d\<rparr>))"

definition reconcile_frigate :: "frigate_env \<Rightarrow> bool \<Rightarrow> string option \<Rightarrow> (nat \<times> nat) io" where
  "reconcile_frigate env allow_restart only =
     bind_io (read_db (\<lambda>d. filter (\<lambda>c. case only of None \<Rightarrow> True | Some u \<Rightarrow> cam_uuid (frc_camera c) = u)
                             (selected_camera_inventory (env_target env) d))) (\<lambda>cams.
       if cams = [] then ret (0, 0)
       else
         bind_io (capabilities (env_serve env)) (\<lambda>_.
         bind_io (read_state env) (\<lambda>snap.
         bind_io (access_password env) (\<lambda>password.
           sync_cameras env allow_restart password cams snap (0, 0)))))"

end
