(* ===== verification/FrigateRetire.thy ===== *)
theory FrigateRetire
  imports FrigateSync
begin

text \<open>
  Taking cameras out of Frigate (camadmiral/frigate.py): what is stale, retiring a camera instead of
  deleting it, the full synchronisation and the removal of one camera. Targets have no imported
  cameras here.
\<close>

record full_sync_state =
  fss_camera_count :: nat
  fss_desired :: "string list"
  fss_stale_cameras :: "string list"
  fss_stale_config :: "string list"
  fss_stale_runtime :: "string list"
  fss_stale_streams :: "string list"

definition unwanted :: "string list \<Rightarrow> string \<Rightarrow> bool" where
  "unwanted wanted name \<longleftrightarrow> startswith name key_prefix \<and> name \<notin> set wanted"

fun filter_err :: "('a \<Rightarrow> frigate_error + bool) \<Rightarrow> 'a list \<Rightarrow> frigate_error + 'a list" where
  "filter_err P [] = Inr []"
| "filter_err P (x # xs) =
     bind_err (P x) (\<lambda>b. bind_err (filter_err P xs) (\<lambda>ys. Inr (if b then x # ys else ys)))"

definition stale_camera :: "string list \<Rightarrow> (string \<times> pydict) list \<Rightarrow> string \<times> pyval \<Rightarrow> frigate_error + bool" where
  "stale_camera wanted retired kv =
     (if \<not> unwanted wanted (fst kv) then Inr False
      else if map_of retired (fst kv) = None then Inr True
      else bind_err (is_retired_camera (snd kv)) (\<lambda>b. Inr (\<not> b)))"

definition full_sync_state_of :: "string list \<times> string list \<Rightarrow> (string \<times> pydict) list \<Rightarrow> pydict \<Rightarrow> pydict \<Rightarrow>
    frigate_error + full_sync_state" where
  "full_sync_state_of wanted retired saved runtime =
     bind_err (bind_err (attr_get (PDict saved) ''go2rtc'' (PDict [])) (\<lambda>g. attr_get g ''streams'' (PDict []))) (\<lambda>streams_doc.
       case (dget_or saved ''cameras'' (PDict []), streams_doc) of
         (PDict cams, PDict configured) \<Rightarrow>
           bind_err (filter_err (stale_camera (fst wanted) retired) cams) (\<lambda>stale.
             let in_config = filter (unwanted (snd wanted)) (map fst configured);
                 in_runtime = filter (unwanted (snd wanted)) (map fst runtime)
             in Inr \<lparr>fss_camera_count = length cams, fss_desired = fst wanted,
                     fss_stale_cameras = sort (map fst stale),
                     fss_stale_config = sort in_config, fss_stale_runtime = sort in_runtime,
                     fss_stale_streams = sort (remdups (in_config @ in_runtime))\<rparr>)
       | _ \<Rightarrow> Inl (api_error ''invalid_response''))"

definition full_sync_state :: "frigate_env \<Rightarrow> full_sync_state io" where
  "full_sync_state env =
     bind_io (get_raw_config (env_yaml env) (env_serve env)) (\<lambda>saved.
     bind_io (get_runtime_streams (env_serve env)) (\<lambda>runtime.
     bind_io (read_db (desired_resource_keys (env_target env))) (\<lambda>wanted.
     bind_io (read_db (retired_frigate_cameras (env_target env))) (\<lambda>retired.
       lift_err (full_sync_state_of wanted retired saved runtime)))))"

definition full_sync_preview :: "frigate_env \<Rightarrow> (nat \<times> string list \<times> string list) io" where
  "full_sync_preview env =
     bind_io (capabilities (env_serve env)) (\<lambda>_.
     bind_io (full_sync_state env) (\<lambda>st.
       ret (length (remdups (fss_desired st)), fss_stale_cameras st, fss_stale_streams st)))"

subsection \<open>Retiring a camera\<close>

definition saved_camera :: "pydict \<Rightarrow> string \<Rightarrow> pyval \<Rightarrow> frigate_error + pyval" where
  "saved_camera raw key dflt =
     bind_err (attr_get (PDict raw) ''cameras'' (PDict [])) (\<lambda>m. attr_get m key dflt)"

definition restore_of :: "pyval \<Rightarrow> frigate_error + pydict" where
  "restore_of saved =
     bind_err (bind_err (attr_get saved ''record'' (PDict [])) (\<lambda>r. attr_get r ''enabled'' (PStr []))) (\<lambda>rec.
     bind_err (bind_err (attr_get saved ''ui'' (PDict [])) (\<lambda>u. attr_get u ''dashboard'' (PStr []))) (\<lambda>dash.
       Inr [(''record'', PDict [(''enabled'', rec)]), (''ui'', PDict [(''dashboard'', dash)])]))"

definition retire_camera :: "frigate_env \<Rightarrow> string \<Rightarrow> unit io" where
  "retire_camera env key =
     (let serve = env_serve env in
      bind_io (get_raw_config (env_yaml env) serve) (\<lambda>raw.
      bind_io (lift_err (bind_err (saved_camera raw key (PDict [])) restore_of)) (\<lambda>restore.
      bind_io (write_db (remember_retired_frigate_camera (env_target env) key restore)) (\<lambda>_.
      bind_io (set_config serve
        [(''cameras'', PDict [(key, PDict [(''record'', PDict [(''enabled'', PBool False)])])])]
        (camera_topic key ''record'') False) (\<lambda>_.
      bind_io (set_config serve
        [(''cameras'', PDict [(key, PDict [(''enabled'', PBool False), (''ui'', PDict [(''dashboard'', PBool False)])])])]
        (camera_topic key ''enabled'') False) (\<lambda>_.
      bind_io (get_raw_config (env_yaml env) serve) (\<lambda>after.
      bind_io (lift_err (bind_err (saved_camera after key PNone) is_retired_camera)) (\<lambda>ok.
        if ok then ret ()
        else throw (FrigateApiError ''verification_failed'' (Some ''disable_camera'') (Some key))))))))))"

subsection \<open>Waiting\<close>

fun wait_for_runtime_cleanup :: "frigate_env \<Rightarrow> string list \<Rightarrow> nat \<Rightarrow> string list io" where
  "wait_for_runtime_cleanup env names 0 =
     bind_io (get_runtime_streams (env_serve env)) (\<lambda>r. ret (filter (\<lambda>n. dhas n r) names))"
| "wait_for_runtime_cleanup env names (Suc n) =
     bind_io (get_runtime_streams (env_serve env)) (\<lambda>r.
       if filter (\<lambda>n. dhas n r) names = [] then ret [] else wait_for_runtime_cleanup env names n)"

text \<open>\<open>wanted\<close> tells cleanup (workers that must be gone) from start (workers that must be there).\<close>

fun wait_for_workers :: "frigate_env \<Rightarrow> bool \<Rightarrow> string list \<Rightarrow> nat \<Rightarrow> string list io" where
  "wait_for_workers env wanted keys 0 =
     bind_io (get_stats (env_serve env)) (\<lambda>st. ret (filter (\<lambda>k. dhas k st \<noteq> wanted) keys))"
| "wait_for_workers env wanted keys (Suc n) =
     bind_io (catch_api (bind_io (get_stats (env_serve env)) (\<lambda>st. ret (Some (filter (\<lambda>k. dhas k st \<noteq> wanted) keys))))
                (\<lambda>_. ret None)) (\<lambda>r.
       case r of Some [] \<Rightarrow> ret [] | _ \<Rightarrow> wait_for_workers env wanted keys n)"

definition wait_for_camera_worker_cleanup :: "frigate_env \<Rightarrow> string list \<Rightarrow> string list io" where
  "wait_for_camera_worker_cleanup env keys = polled env (wait_for_workers env False keys)"

definition wait_for_camera_workers :: "frigate_env \<Rightarrow> string list \<Rightarrow> string list io" where
  "wait_for_camera_workers env keys = polled env (wait_for_workers env True keys)"

subsection \<open>Deleting running streams\<close>

fun delete_streams :: "frigate_env \<Rightarrow> string list \<Rightarrow> (string \<times> frigate_error) list \<Rightarrow> (string \<times> frigate_error) list io" where
  "delete_streams env [] errors = ret errors"
| "delete_streams env (k # ks) errors =
     bind_io (catch_api (bind_io (delete_runtime_stream (env_serve env) k) (\<lambda>_. ret errors))
       (\<lambda>e. ret (errors @ [(k, e)]))) (\<lambda>errors'. delete_streams env ks errors')"

definition blame :: "(string \<times> frigate_error) list \<Rightarrow> string \<Rightarrow> frigate_error" where
  "blame errors k =
     (case map_of errors k of
        Some e \<Rightarrow> with_context ''remove_runtime_stream'' (Some k) e
      | None \<Rightarrow> FrigateApiError ''verification_failed'' (Some ''verify_runtime_cleanup'') (Some k))"

definition clear_runtime :: "frigate_env \<Rightarrow> string list \<Rightarrow> string list \<Rightarrow> (frigate_error \<Rightarrow> (string \<times> frigate_error) list \<Rightarrow> frigate_error) \<Rightarrow> unit io" where
  "clear_runtime env running names on_error =
     bind_io (delete_streams env running []) (\<lambda>errors.
     bind_io (catch_api (polled env (wait_for_runtime_cleanup env names)) (\<lambda>e. throw (on_error e errors))) (\<lambda>remaining.
       case remaining of [] \<Rightarrow> ret () | k # _ \<Rightarrow> throw (blame errors k)))"

definition remove_config_streams :: "frigate_env \<Rightarrow> string list \<Rightarrow> bool \<Rightarrow> unit io" where
  "remove_config_streams env names restart =
     set_config (env_serve env) [(''go2rtc'', PDict [(''streams'', PDict (map (\<lambda>n. (n, PStr [])) names))])] None restart"

subsection \<open>Full synchronisation\<close>

definition stale_workers :: "string list \<Rightarrow> pyval \<Rightarrow> pydict \<Rightarrow> frigate_error + string list" where
  "stale_workers wanted live stats =
     filter_err (\<lambda>k. if \<not> unwanted wanted k then Inr False
        else bind_err (bind_err (attr_get live k PNone) is_retired_camera) (\<lambda>b. Inr (\<not> b))) (map fst stats)"

definition frigate_restart_required :: "frigate_env \<Rightarrow> bool io" where
  "frigate_restart_required env =
     bind_io (capabilities (env_serve env)) (\<lambda>_.
     bind_io (get_config (env_serve env)) (\<lambda>live_config.
     bind_io (full_sync_state env) (\<lambda>st.
       case dget_or live_config ''cameras'' (PDict []) of
         PDict live \<Rightarrow>
           bind_io (lift_err (stale_workers (fss_desired st) (PDict live) live)) (\<lambda>stale_live.
           bind_io (get_stats (env_serve env)) (\<lambda>stats.
           bind_io (lift_err (stale_workers (fss_desired st) (PDict live) stats)) (\<lambda>workers.
             ret (stale_live \<noteq> [] \<or> workers \<noteq> [] \<or> fss_stale_runtime st \<noteq> []))))
       | _ \<Rightarrow> throw (api_error ''invalid_response''))))"

definition verify_streams_gone :: "frigate_env \<Rightarrow> string list \<Rightarrow> pydict \<Rightarrow> unit io" where
  "verify_streams_gone env names saved =
     bind_io (lift_err (bind_err (attr_get (PDict saved) ''go2rtc'' (PDict [])) (\<lambda>g. attr_get g ''streams'' (PDict [])))) (\<lambda>streams_doc.
       case streams_doc of
         PDict configured \<Rightarrow>
           (case filter (\<lambda>k. dhas k configured) names of
              [] \<Rightarrow> ret ()
            | k # _ \<Rightarrow> throw (FrigateApiError ''verification_failed'' (Some ''verify_stream_configuration'') (Some k)))
       | _ \<Rightarrow> throw (FrigateApiError ''invalid_response'' (Some ''verify_stream_configuration'') None))"

definition full_sync_frigate :: "frigate_env \<Rightarrow> (nat \<times> nat \<times> bool \<times> nat \<times> nat) io" where
  "full_sync_frigate env =
     bind_io (in_context ''inspect_configuration'' None
       (bind_io (capabilities (env_serve env)) (\<lambda>_.
        bind_io (full_sync_state env) (\<lambda>st.
        bind_io (get_stats (env_serve env)) (\<lambda>stats. ret (st, stats)))))) (\<lambda>(st, stats).
     bind_io (get_config (env_serve env)) (\<lambda>live_config.
     bind_io (lift_err (stale_workers (fss_desired st) (dget_or live_config ''cameras'' (PDict [])) stats)) (\<lambda>workers.
     let restart = (fss_stale_cameras st \<noteq> [] \<or> workers \<noteq> []) in
     bind_io (each (\<lambda>k. in_context ''remove_camera'' (Some k) (retire_camera env k)) (fss_stale_cameras st)) (\<lambda>_.
     bind_io (if fss_stale_config st = [] then ret ()
        else
          bind_io (in_context ''remove_stream_configuration'' None
            (bind_io (remove_config_streams env (fss_stale_config st) restart)
               (\<lambda>_. get_raw_config (env_yaml env) (env_serve env))))
            (verify_streams_gone env (fss_stale_config st))) (\<lambda>_.
     bind_io (if restart then ret ()
        else
          bind_io (in_context ''inspect_runtime_streams'' None (get_runtime_streams (env_serve env))) (\<lambda>runtime.
            clear_runtime env (filter (\<lambda>k. dhas k runtime) (fss_stale_streams st)) (fss_stale_streams st)
              (\<lambda>e errors. case errors of
                 (k, first) # _ \<Rightarrow> with_context ''remove_runtime_stream'' (Some k) first
               | [] \<Rightarrow> with_context ''verify_runtime_cleanup'' None e))) (\<lambda>_.
     bind_io (in_context ''verify_cleanup'' None (full_sync_state env)) (\<lambda>verified.
     case fss_stale_cameras verified @ fss_stale_config verified @ (if restart then [] else fss_stale_runtime verified) of
       k # _ \<Rightarrow> throw (FrigateApiError ''verification_failed'' (Some ''verify_cleanup'') (Some k))
     | [] \<Rightarrow>
         bind_io (in_context ''reconcile_current_cameras'' None (reconcile_frigate env (\<not> restart) None)) (\<lambda>(applied, pending).
           ret (length (fss_stale_cameras st), length (fss_stale_streams st), restart, applied, pending)))))))))"

subsection \<open>Removing one camera\<close>

definition remove_frigate_camera :: "frigate_env \<Rightarrow> string \<Rightarrow> (nat \<times> nat \<times> bool) io" where
  "remove_frigate_camera env c =
     bind_io (read_db (frigate_binding (env_target env) c)) (\<lambda>binding.
     case binding of
       None \<Rightarrow>
         bind_io (write_db (\<lambda>d. snd (deselect_frigate_camera (env_target env) c d))) (\<lambda>_. ret (0, 0, False))
     | Some b \<Rightarrow>
         let key = fbd_key b; names = [record_alias key, detect_alias key]; serve = env_serve env in
         if \<not> startswith key key_prefix then throw (api_error ''ownership_verification_failed'')
         else
           bind_io (in_context ''inspect_configuration'' None
             (bind_io (capabilities serve) (\<lambda>_.
              bind_io (get_raw_config (env_yaml env) serve) (\<lambda>saved.
              bind_io (get_runtime_streams serve) (\<lambda>runtime.
              bind_io (get_stats serve) (\<lambda>stats. ret (saved, runtime, stats))))))) (\<lambda>(saved, runtime, stats).
           bind_io (lift_err (bind_err (attr_get (PDict saved) ''go2rtc'' (PDict [])) (\<lambda>g. attr_get g ''streams'' (PDict [])))) (\<lambda>streams_doc.
           case (dget_or saved ''cameras'' (PDict []), streams_doc) of
             (PDict cams, PDict configured) \<Rightarrow>
               let camera_exists = dhas key cams;
                   in_config = filter (\<lambda>n. dhas n configured) names;
                   in_runtime = filter (\<lambda>n. dhas n runtime) names;
                   restart = (camera_exists \<or> dhas key stats)
               in
               bind_io (if camera_exists then in_context ''disable_camera'' (Some key) (retire_camera env key) else ret ()) (\<lambda>_.
               bind_io (if in_config = [] then ret ()
                        else in_context ''remove_stream_configuration'' None (remove_config_streams env in_config restart)) (\<lambda>_.
               bind_io (if restart then ret ()
                        else clear_runtime env in_runtime in_runtime
                               (\<lambda>e _. with_context ''verify_runtime_cleanup'' None e)) (\<lambda>_.
               bind_io (in_context ''verify_cleanup'' None
                 (bind_io (get_raw_config (env_yaml env) serve) (\<lambda>v.
                  bind_io (get_runtime_streams serve) (\<lambda>r. ret (v, r))))) (\<lambda>(verified, verified_runtime).
               bind_io (if camera_exists then lift_err (bind_err (saved_camera verified key PNone) is_retired_camera) else ret True) (\<lambda>ok.
               if \<not> ok then throw (FrigateApiError ''verification_failed'' (Some ''verify_cleanup'') (Some key))
               else
                 bind_io (lift_err (bind_err (attr_get (PDict verified) ''go2rtc'' (PDict [])) (\<lambda>g. attr_get g ''streams'' (PDict [])))) (\<lambda>vs.
                 bind_io (lift_err (filter_err (\<lambda>n. py_in n vs) names)) (\<lambda>left.
                 case left @ (if restart then [] else filter (\<lambda>n. dhas n verified_runtime) names) of
                   n # _ \<Rightarrow> throw (FrigateApiError ''verification_failed'' (Some ''verify_cleanup'') (Some n))
                 | [] \<Rightarrow>
                     bind_io (write_db (\<lambda>d. snd (remove_frigate_binding (env_target env) c
                                             (snd (deselect_frigate_camera (env_target env) c d))))) (\<lambda>_.
                       ret (of_bool camera_exists, length (remdups (in_config @ in_runtime)), restart)))))))))
           | _ \<Rightarrow> throw (FrigateApiError ''invalid_response'' (Some ''inspect_configuration'') None))))"

end
