(* ===== verification/FrigateLogic.thy ===== *)
theory FrigateLogic
  imports FrigateRetire
begin

text \<open>
  Reasoning about the programs that talk to Frigate. \<open>keeps I m\<close>: the program keeps the invariant,
  however it ends. The locale \<open>frigate_requests\<close> names what a synchronisation may send,
  \<open>frigate_contract\<close> also what it may do to the database; \<open>retiring\<close> and \<open>removing\<close> extend it by what the full synchronisation
  and the removal of a camera do. Their lemmas hold for every reading of these permissions.
\<close>

subsection \<open>Programs of the Frigate client\<close>

lemma keeps_read_db [keeps_intros]: "keeps I (read_db f)"
  by (simp add: keeps_def read_db_def)

lemma keeps_bind_read:
  "(\<And>s. I s \<Longrightarrow> keeps I (g (f (io_db s)))) \<Longrightarrow> keeps I (bind_io (read_db f) g)"
  by (rule keeps_bind_value) (auto simp: read_db_def keeps_def)

lemma keeps_catch [keeps_intros]:
  assumes "keeps I m" and "\<And>e. keeps I (h e)"
  shows "keeps I (catch_api m h)"
proof (rule keepsI)
  fix s assume s: "I s"
  have m: "I (snd (m s))" by (rule keepsD [OF assms(1) s])
  obtain r s' where r: "m s = (r, s')" by (cases "m s")
  show "I (snd (catch_api m h s))"
    using m r keepsD [OF assms(2), of s'] by (auto simp: catch_api_def split: sum.split frigate_error.split)
qed

lemma keeps_in_context [keeps_intros]: "keeps I m \<Longrightarrow> keeps I (in_context stage res m)"
  by (simp add: in_context_def keeps_catch keeps_throw)

lemma keeps_polled [keeps_intros]: "(\<And>n. keeps I (loop n)) \<Longrightarrow> keeps I (polled env loop)"
  by (simp add: keeps_def polled_def)

lemma keeps_write_db:
  "(\<And>s. I s \<Longrightarrow> I (s\<lparr>io_db := f (io_db s)\<rparr>)) \<Longrightarrow> keeps I (write_db f)"
  by (simp add: keeps_def write_db_def)

lemma keeps_try_db:
  "(\<And>s d. I s \<Longrightarrow> f (io_db s) = Inr d \<Longrightarrow> I (s\<lparr>io_db := d\<rparr>)) \<Longrightarrow> keeps I (try_db f)"
  by (auto simp: keeps_def try_db_def split: sum.split)

lemma keeps_ask:
  "(\<And>s. I s \<Longrightarrow> I (s\<lparr>io_log := io_log s @ [q]\<rparr>)) \<Longrightarrow> keeps I (ask serve q)"
  by (auto simp: keeps_def ask_def split: sum.split)

lemma gives_bind_read:
  "(\<And>s. I s \<Longrightarrow> gives I (g (f (io_db s))) Q) \<Longrightarrow> gives I (bind_io (read_db f) g) Q"
  by (auto simp: gives_def bind_io_def read_db_def)

lemma gives_in_context: "gives I m Q \<Longrightarrow> gives I (in_context stage res m) Q"
  unfolding gives_def in_context_def catch_api_def throw_def
  by (auto split: prod.splits sum.splits frigate_error.splits)

subsection \<open>What a synchronisation may do\<close>

definition read_request :: "request \<Rightarrow> bool" where
  "read_request q \<longleftrightarrow> q \<in> {GetOpenapi, GetConfig, GetRawPaths, GetRawConfig, GetStreams, GetStats}"

lemma read_request_simps [simp]:
  "read_request GetOpenapi" "read_request GetConfig" "read_request GetRawPaths"
  "read_request GetRawConfig" "read_request GetStreams" "read_request GetStats"
  "\<not> read_request (SetConfig d t r)" "\<not> read_request (SaveRaw raw)" "\<not> read_request (PutStream n src)"
  "\<not> read_request (DeleteStream n)" "\<not> read_request PostRestart"
  by (simp_all add: read_request_def)

definition sent :: "(request \<Rightarrow> bool) \<Rightarrow> request list \<Rightarrow> (db \<Rightarrow> bool) \<Rightarrow> io_state \<Rightarrow> bool" where
  "sent ok before D s \<longleftrightarrow>
     take (length before) (io_log s) = before \<and> list_all ok (drop (length before) (io_log s)) \<and> D (io_db s)"

lemma sent_start: "D (io_db s) \<Longrightarrow> sent ok (io_log s) D s"
  by (simp add: sent_def)

lemma sent_snoc:
  assumes "ok q" "sent ok before D s"
  shows "sent ok before D (s\<lparr>io_log := io_log s @ [q]\<rparr>)"
proof -
  have "length before \<le> length (io_log s)"
    using assms(2) by (metis (no_types, lifting) length_take min.absorb_iff2 min.cobounded2 sent_def)
  with assms show ?thesis by (simp add: sent_def)
qed

lemma sent_db: "sent ok before D s \<Longrightarrow> D d \<Longrightarrow> sent ok before D (s\<lparr>io_db := d\<rparr>)"
  by (simp add: sent_def)

lemma sentD: "sent ok before D s \<Longrightarrow> D (io_db s)"
  by (simp add: sent_def)

definition retires :: "pydict \<Rightarrow> bool" where
  "retires e \<longleftrightarrow> (dhas ''ui'' e \<or> dhas ''record'' e) \<and> dget e ''enabled'' \<noteq> PBool True"

definition topic_for :: "string \<Rightarrow> string option \<Rightarrow> bool" where
  "topic_for k t \<longleftrightarrow> (case t of None \<Rightarrow> True | Some x \<Rightarrow> startswith x (''config/cameras/'' @ k @ ''/''))"

lemma topic_for_simps [simp]: "topic_for k None" "topic_for k (camera_topic k what)"
  by (simp_all add: topic_for_def camera_topic_def startswith_def)

lemma camera_update_not_retiring:
  assumes "camera_update x raw ex restore = Inr u"
  shows "\<not> retires u"
proof (cases restore)
  case None
  have "\<not> retires (camera_config x)" by (simp add: retires_def camera_config_def dget_def)
  moreover have "\<not> retires (dpop ''enabled'' (camera_config x))"
    "\<not> retires (dset ''detect'' v (dpop ''enabled'' (camera_config x)))" for v
    by (simp_all add: retires_def camera_config_def dhas_def)
  ultimately show ?thesis
    using assms None by (auto simp: camera_update_def bind_err_def Let_def split: if_splits sum.splits)
next
  case (Some r)
  with assms show ?thesis by (auto simp: camera_update_def bind_err_def retires_def split: sum.splits)
qed

lemma desired_names:
  assumes "desired_camera digest ipv6 c password host = Inr (Some x)"
  shows "dsr_key x = frigate_camera_key (cam_uuid (frc_camera c))"
    and "map fst (dsr_streams x) = [record_alias (dsr_key x), detect_alias (dsr_key x)]"
  using assms
  by (auto simp: desired_camera_def bind_err_def Let_def split: option.splits sum.splits prod.splits)

locale frigate_requests =
  fixes tgt :: string
    and ok :: "request \<Rightarrow> bool"
    and D :: "db \<Rightarrow> bool"
    and mine :: "string \<Rightarrow> bool"
    and restarts :: bool
  assumes read_ok: "read_request q \<Longrightarrow> ok q"
    and camera_ok: "mine k \<Longrightarrow> topic_for k t \<Longrightarrow> \<not> retires e \<Longrightarrow> ok (SetConfig [(''cameras'', PDict [(k, PDict e)])] t r)"
    and streams_ok: "list_all (\<lambda>(a, src). mine a) ss \<Longrightarrow>
      ok (SetConfig [(''go2rtc'', PDict [(''streams'', PDict (map (\<lambda>(a, src). (a, PList [PStr src])) ss))])] None False)"
    and put_ok: "mine a \<Longrightarrow> ok (PutStream a src)"
    and restart_ok: "restarts \<Longrightarrow> ok PostRestart"
    and key_mine: "mine (frigate_camera_key u)"
    and alias_mine: "mine k \<Longrightarrow> mine (record_alias k) \<and> mine (detect_alias k)"
begin

lemma keeps_ok_ask: "ok q \<Longrightarrow> keeps (sent ok l D) (ask serve q)"
  by (rule keeps_ask) (rule sent_snoc)

lemma keeps_read_ask [keeps_intros]: "read_request q \<Longrightarrow> keeps (sent ok l D) (ask serve q)"
  by (rule keeps_ok_ask) (rule read_ok)

lemma keeps_ask_dict [keeps_intros]: "read_request q \<Longrightarrow> keeps (sent ok l D) (ask_dict serve q)"
  unfolding ask_dict_def by (intro keeps_intros; (rule keeps_intros)?) (auto intro: keeps_intros split: pyval.split)

lemma keeps_reads [keeps_intros]:
  "keeps (sent ok l D) (capabilities serve)" "keeps (sent ok l D) (get_config serve)"
  "keeps (sent ok l D) (get_raw_paths serve)" "keeps (sent ok l D) (raw_config_text serve)"
  "keeps (sent ok l D) (get_raw_config yaml serve)"
  "keeps (sent ok l D) (get_runtime_streams serve)" "keeps (sent ok l D) (get_stats serve)"
proof -
  show raw: "keeps (sent ok l D) (raw_config_text serve)"
    unfolding raw_config_text_def by (rule keeps_bind) (auto intro: keeps_intros split: pyval.split)
  show "keeps (sent ok l D) (get_raw_config yaml serve)"
    unfolding get_raw_config_def
    by (rule keeps_bind [OF raw]) (auto intro: keeps_intros split: pyval.split option.split)
  show "keeps (sent ok l D) (get_stats serve)"
    unfolding get_stats_def by (rule keeps_bind) (auto intro: keeps_intros split: pyval.split)
qed (auto simp: capabilities_def get_config_def get_raw_paths_def get_runtime_streams_def intro!: keeps_intros)

lemma keeps_read_state [keeps_intros]: "keeps (sent ok l D) (read_state env)"
  unfolding read_state_def by (intro keeps_intros)

lemma keeps_wait_for_camera_state [keeps_intros]: "keeps (sent ok l D) (wait_for_camera_state env x n)"
  by (induction n) (auto intro!: keeps_intros split: option.split)

lemma keeps_set_config:
  "ok (SetConfig d t (r \<or> t \<noteq> None)) \<Longrightarrow> keeps (sent ok l D) (set_config serve d t r)"
  unfolding set_config_def by (rule keeps_bind [OF keeps_ok_ask]) (auto intro: keeps_intros)

lemma keeps_set_runtime_stream [keeps_intros]:
  "mine a \<Longrightarrow> keeps (sent ok l D) (set_runtime_stream serve a src)"
  unfolding set_runtime_stream_def by (rule keeps_bind [OF keeps_ok_ask]) (auto intro: keeps_intros put_ok)

lemma keeps_restart: "restarts \<Longrightarrow> keeps (sent ok l D) (restart_frigate serve)"
  unfolding restart_frigate_def by (rule keeps_bind [OF keeps_ok_ask]) (auto intro: keeps_intros restart_ok)

lemma keeps_disable_camera:
  "mine k \<Longrightarrow> keeps (sent ok l D) (disable_camera env k snap)"
  unfolding disable_camera_def
  by (auto intro!: keeps_intros keeps_set_config camera_ok simp: retires_def dhas_def split: pyval.split)

lemma keeps_apply_camera:
  assumes "mine (dsr_key x)" "list_all mine (map fst (dsr_streams x))" "allow \<Longrightarrow> restarts"
  shows "keeps (sent ok l D) (apply_camera env allow x binding restore ex snap)"
proof -
  let ?K = "\<lambda>m. keeps (sent ok l D) (m :: unit io)"
  have streams: "list_all (\<lambda>(a, src). mine a) (dsr_streams x)"
    using assms(2) by (auto simp: list_all_iff)
  have put: "?K (each (\<lambda>(a, src). set_runtime_stream (env_serve env) a src) (dsr_streams x))"
    using streams by (auto simp: list_all_iff intro!: keeps_intros)
  have update: "?K (set_config (env_serve env) [(''cameras'', PDict [(dsr_key x, PDict u)])]
      (if ex then None else camera_topic (dsr_key x) ''add'') False)"
    if "camera_update x (snp_raw snap) ex restore = Inr u" for u
    using assms(1) that by (intro keeps_set_config camera_ok camera_update_not_retiring) simp_all
  have "\<not> retires [(''enabled'', PBool True)]" by (simp add: retires_def dhas_def)
  then have enable: "?K (set_config (env_serve env) [(''cameras'', PDict [(dsr_key x, PDict [(''enabled'', PBool True)])])]
      (camera_topic (dsr_key x) ''enabled'') False)"
    using assms(1) by (intro keeps_set_config camera_ok) auto
  have saved: "?K (set_config (env_serve env)
      [(''go2rtc'', PDict [(''streams'', PDict (map (\<lambda>(a, src). (a, PList [PStr src])) (dsr_streams x)))])] None False)"
    using streams by (intro keeps_set_config) (simp add: streams_ok)
  have restart: "?K (restart_frigate (env_serve env))" if "b \<and> allow" for b
    using assms(3) that by (simp add: keeps_restart)
  show ?thesis
    unfolding apply_camera_def Let_def
    by (rule keeps_bind_lift, (rule update enable saved put restart keeps_intros | assumption)+)
qed

end

locale frigate_contract = frigate_requests +
  assumes secrets_D: "D d \<Longrightarrow> D (d\<lparr>service_secrets := x\<rparr>)"
    and error_D: "D d \<Longrightarrow> D (set_frigate_selection_error tgt c code d)"
    and forget_D: "D d \<Longrightarrow> D (forget_retired_frigate_camera tgt k d)"
    and binding_mine: "D d \<Longrightarrow> frigate_binding tgt c d = Some b \<Longrightarrow> mine (fbd_key b)"
    and attempt_D: "D d \<Longrightarrow> mine k \<Longrightarrow> record_frigate_attempt tgt c k rec det h now d = Inr d' \<Longrightarrow> D d'"
    and complete_D: "D d \<Longrightarrow> complete_frigate_attempt tgt c st applied code now d = Inr d' \<Longrightarrow> D d'"
    and enabled_D: "D d \<Longrightarrow> D (set_frigate_camera_enabled_applied tgt c enabled now d)"
begin

lemma keeps_write: "(\<And>d. D d \<Longrightarrow> D (f d)) \<Longrightarrow> keeps (sent ok l D) (write_db f)"
  by (rule keeps_write_db) (simp add: sent_def)

lemma keeps_try: "(\<And>d d'. D d \<Longrightarrow> f d = Inr d' \<Longrightarrow> D d') \<Longrightarrow> keeps (sent ok l D) (try_db f)"
  by (rule keeps_try_db) (auto simp: sent_def)

lemma keeps_writes [keeps_intros]:
  "keeps (sent ok l D) (try_db (complete_frigate_attempt tgt c st applied code now))"
  "keeps (sent ok l D) (write_db (set_frigate_selection_error tgt c code))"
  "keeps (sent ok l D) (write_db (set_frigate_camera_enabled_applied tgt c enabled now))"
  "keeps (sent ok l D) (write_db (forget_retired_frigate_camera tgt k))"
  by (rule keeps_try, erule (1) complete_D, (rule keeps_write, erule error_D enabled_D forget_D)+)

lemma keeps_attempt [keeps_intros]:
  "mine k \<Longrightarrow> keeps (sent ok l D) (try_db (record_frigate_attempt tgt c k rec det h now))"
  by (rule keeps_try) (erule (2) attempt_D)

lemma keeps_settle:
  assumes "env_target env = tgt" "keeps (sent ok l D) m" "keeps (sent ok l D) after"
  shows "keeps (sent ok l D) (settle env c applied m after old)"
  unfolding settle_def assms(1)
  using assms(2,3) by (auto intro!: keeps_intros split: sum.split)

lemma keeps_sync_disabled:
  assumes "env_target env = tgt" "\<And>b. binding = Some b \<Longrightarrow> mine (fbd_key b)"
  shows "keeps (sent ok l D) (sync_disabled env c binding snap)"
proof -
  have "keeps (sent ok l D) (settle env c h (disable_camera env (fbd_key b) snap) (ret ()) snap)"
    if "binding = Some b" for b h
    using assms that by (intro keeps_settle keeps_disable_camera keeps_ret)
  then show ?thesis
    unfolding sync_disabled_def assms(1) using assms(2)
    by (auto intro!: keeps_intros split: option.split pyval.split)
qed

lemma keeps_sync_desired:
  assumes "env_target env = tgt" "mine (dsr_key x)" "list_all mine (map fst (dsr_streams x))" "allow \<Longrightarrow> restarts"
  shows "keeps (sent ok l D) (sync_desired env allow c x binding snap)"
proof -
  note parts = keeps_settle [OF assms(1)] keeps_apply_camera [OF assms(2,3,4)]
  show ?thesis
    unfolding sync_desired_def sync_owned_def assms(1) selection_error_def begin_attempt_def
    using assms(2) by (auto intro!: keeps_intros parts)
qed

lemma keeps_sync_camera:
  assumes "env_target env = tgt" "allow \<Longrightarrow> restarts"
  shows "keeps (sent ok l D) (sync_camera env allow password cam snap)"
proof -
  have x: "keeps (sent ok l D) (sync_desired env allow c x binding snap)"
    if "desired_camera (env_digest env) (env_ipv6 env) cam password host = Inr (Some x)" for c x binding host
    using desired_names [OF that] key_mine alias_mine [OF key_mine] assms by (intro keeps_sync_desired) auto
  have off: "keeps (sent ok l D) (sync_disabled env c (frigate_binding tgt c (io_db s)) snap)"
    if "sent ok l D s" for c s
    using that assms(1) by (intro keeps_sync_disabled) (auto dest: sentD binding_mine)
  show ?thesis
    unfolding sync_camera_def Let_def selection_error_def assms(1)
    by (rule keeps_bind, rule keeps_intros, rule keeps_bind_read)
      (auto intro!: keeps_intros off x split: sum.split frigate_error.split option.split)
qed

lemma keeps_sync_cameras:
  assumes "env_target env = tgt" "allow \<Longrightarrow> restarts"
  shows "keeps (sent ok l D) (sync_cameras env allow password cams snap counts)"
  by (induction cams arbitrary: snap counts)
    (auto intro!: keeps_intros keeps_sync_camera simp: assms split: prod.split)

lemma keeps_access_password [keeps_intros]: "keeps (sent ok l D) (access_password env)"
proof (rule keepsI)
  fix s assume s: "sent ok l D s"
  have "D d" if "rtsp_access_password enc dec fresh t (io_db s) = Inr (p, d)" for enc dec fresh t p d
    using that sentD [OF s] secrets_D
    by (auto simp: rtsp_access_password_def Let_def map_sum_def split: option.splits sum.splits)
  with s show "sent ok l D (snd (access_password env s))"
    by (auto simp: access_password_def intro!: sent_db split: sum.split)
qed

lemma keeps_reconcile:
  assumes "env_target env = tgt" "allow \<Longrightarrow> restarts"
  shows "keeps (sent ok l D) (reconcile_frigate env allow only)"
  unfolding reconcile_frigate_def
  by (auto intro!: keeps_intros keeps_sync_cameras [OF assms(1)] assms(2))

end

end
