(* ===== verification/FrigateOwned.thy ===== *)
theory FrigateOwned
  imports FrigateLogic
begin

text \<open>
  What the full synchronisation and the removal of a camera send and store, as extensions of the
  contract of a synchronisation, and two readings of the contracts: the requests name resources of
  CamAdmiral only, and what the database wants is never taken out of Frigate.
\<close>

subsection \<open>What is stale\<close>

lemma filter_err_Inr:
  "filter_err P xs = Inr ys \<Longrightarrow> ys = filter (\<lambda>x. P x = Inr True) xs"
  by (induction xs arbitrary: ys) (auto simp: bind_err_def split: sum.splits)

lemma stale_camera_unwanted: "stale_camera w r kv = Inr True \<Longrightarrow> unwanted w (fst kv)"
  by (auto simp: stale_camera_def split: if_splits)

lemma full_sync_state_names:
  assumes "full_sync_state_of wanted retired saved runtime = Inr st"
  shows "list_all (unwanted (fst wanted)) (fss_stale_cameras st)"
    and "list_all (unwanted (snd wanted)) (fss_stale_config st)"
    and "list_all (unwanted (snd wanted)) (fss_stale_streams st)"
    and "fss_desired st = fst wanted"
  using assms
  by (auto simp: full_sync_state_of_def bind_err_def Let_def list_all_iff
      split: sum.splits pyval.splits dest!: filter_err_Inr dest: stale_camera_unwanted)

subsection \<open>Retiring\<close>

locale retiring = frigate_contract +
  fixes cam_gone stream_gone :: "string \<Rightarrow> bool"
  assumes retire_ok: "cam_gone k \<Longrightarrow> topic_for k t \<Longrightarrow> ok (SetConfig [(''cameras'', PDict [(k, PDict e)])] t r)"
    and removal_ok: "list_all stream_gone ns \<Longrightarrow>
      ok (SetConfig [(''go2rtc'', PDict [(''streams'', PDict (map (\<lambda>n. (n, PStr [])) ns))])] None r)"
    and delete_ok: "stream_gone n \<Longrightarrow> ok (DeleteStream n)"
    and remember_D: "D d \<Longrightarrow> D (remember_retired_frigate_camera tgt k restore d)"
    and unwanted_cam: "D d \<Longrightarrow> unwanted (fst (desired_resource_keys tgt d)) k \<Longrightarrow> cam_gone k"
    and unwanted_stream: "D d \<Longrightarrow> unwanted (snd (desired_resource_keys tgt d)) n \<Longrightarrow> stream_gone n"
begin

lemma keeps_full_sync_state [keeps_intros]: "keeps (sent ok l D) (full_sync_state env)"
  unfolding full_sync_state_def by (intro keeps_intros)

lemma keeps_checks:
  "keeps (sent ok l D) (full_sync_preview env)" "keeps (sent ok l D) (frigate_restart_required env)"
  unfolding full_sync_preview_def frigate_restart_required_def by (intro keeps_intros)+

lemma keeps_cleanup [keeps_intros]: "keeps (sent ok l D) (wait_for_runtime_cleanup env names n)"
  by (induction n) (auto intro!: keeps_intros)

lemma keeps_retire:
  assumes "env_target env = tgt" "cam_gone k"
  shows "keeps (sent ok l D) (retire_camera env k)"
proof -
  have "keeps (sent ok l D) (write_db (remember_retired_frigate_camera tgt k restore))" for restore
    by (rule keeps_write) (rule remember_D)
  moreover have "keeps (sent ok l D) (set_config serve [(''cameras'', PDict [(k, PDict e)])] (camera_topic k what) False)"
    for serve e what
    using assms(2) by (intro keeps_set_config retire_ok) simp_all
  ultimately show ?thesis
    unfolding retire_camera_def Let_def assms(1)
    by - (assumption | rule keeps_intros)+
qed

lemma keeps_delete_streams:
  "list_all stream_gone ns \<Longrightarrow> keeps (sent ok l D) (delete_streams env ns errors)"
  by (induction ns arbitrary: errors)
    (auto intro!: keeps_intros keeps_ok_ask delete_ok simp: delete_runtime_stream_def)

lemma keeps_clear_runtime:
  "list_all stream_gone ns \<Longrightarrow> keeps (sent ok l D) (clear_runtime env ns names h)"
  unfolding clear_runtime_def
  by (auto intro!: keeps_intros keeps_delete_streams split: list.split)

lemma keeps_remove_config_streams:
  "list_all stream_gone ns \<Longrightarrow> keeps (sent ok l D) (remove_config_streams env ns r)"
  unfolding remove_config_streams_def by (intro keeps_set_config removal_ok)

definition stale_gone :: "full_sync_state \<Rightarrow> bool" where
  "stale_gone st \<longleftrightarrow> list_all cam_gone (fss_stale_cameras st) \<and> list_all stream_gone (fss_stale_config st)
     \<and> list_all stream_gone (fss_stale_streams st)"

lemma gives_full_sync_state:
  assumes "env_target env = tgt"
  shows "gives (sent ok l D) (full_sync_state env) stale_gone"
proof -
  have "stale_gone st"
    if "sent ok l D s" "full_sync_state_of (desired_resource_keys tgt (io_db s)) retired saved runtime = Inr st"
    for s retired saved runtime st
    using full_sync_state_names [OF that(2)] sentD [OF that(1)] unwanted_cam unwanted_stream
    by (auto simp: stale_gone_def list_all_iff)
  then show ?thesis
    unfolding full_sync_state_def assms
    by (intro gives_bind_any gives_bind_read gives_lift_err keeps_intros)
qed

lemma keeps_full_sync:
  assumes env: "env_target env = tgt" and "restarts"
  shows "keeps (sent ok l D) (full_sync_frigate env)"
proof -
  let ?start = "bind_io (capabilities (env_serve env)) (\<lambda>_. bind_io (full_sync_state env) (\<lambda>st.
    bind_io (get_stats (env_serve env)) (\<lambda>stats. ret (st, stats))))"
  have start: "gives (sent ok l D) (in_context ''inspect_configuration'' None ?start) (\<lambda>(st, stats). stale_gone st)"
    by (intro gives_in_context gives_bind_any gives_bind [OF _ gives_full_sync_state [OF env]] gives_ret keeps_intros)
      auto
  show ?thesis
    unfolding full_sync_frigate_def Let_def
    by (rule keeps_bind_gives [OF _ start])
      (auto simp: stale_gone_def list_all_iff verify_streams_gone_def assms
        intro!: keeps_intros keeps_retire [OF env] keeps_remove_config_streams keeps_clear_runtime keeps_reconcile
        split: list.split pyval.split)
qed

end

subsection \<open>Removing one camera\<close>

locale removing = retiring +
  assumes bound_gone: "D d \<Longrightarrow> frigate_binding tgt c d = Some b \<Longrightarrow> startswith (fbd_key b) key_prefix \<Longrightarrow>
      cam_gone (fbd_key b) \<and> stream_gone (record_alias (fbd_key b)) \<and> stream_gone (detect_alias (fbd_key b))"
    and deselect_D: "D d \<Longrightarrow> D (snd (deselect_frigate_camera tgt c d))"
    and unbind_D: "D d \<Longrightarrow> D (snd (remove_frigate_binding tgt c d))"
begin

lemma keeps_unbind [keeps_intros]:
  "keeps (sent ok l D) (write_db (\<lambda>d. snd (deselect_frigate_camera tgt c d)))"
  "keeps (sent ok l D) (write_db (\<lambda>d. snd (remove_frigate_binding tgt c (snd (deselect_frigate_camera tgt c d)))))"
  by (auto intro!: keeps_write deselect_D unbind_D)

lemma keeps_remove:
  assumes env: "env_target env = tgt"
  shows "keeps (sent ok l D) (remove_frigate_camera env c)"
proof -
  have gone: "cam_gone (fbd_key b) \<and> stream_gone (record_alias (fbd_key b)) \<and> stream_gone (detect_alias (fbd_key b))"
    if "sent ok l D s" "frigate_binding tgt c (io_db s) = Some b" "startswith (fbd_key b) key_prefix" for s b
    using that bound_gone sentD by blast
  note steps = keeps_retire [OF env] keeps_remove_config_streams keeps_clear_runtime keeps_intros
  show ?thesis
    unfolding remove_frigate_camera_def Let_def env
    by (rule keeps_bind_read, intro steps) (auto simp: list_all_iff dest!: gone)
qed

end

subsection \<open>First reading: only resources of CamAdmiral\<close>

definition owned :: "string \<Rightarrow> bool" where
  "owned name \<longleftrightarrow> startswith name key_prefix"

definition owned_map :: "pyval \<Rightarrow> bool" where
  "owned_map v = (case v of PDict m \<Rightarrow> list_all owned (map fst m) | _ \<Rightarrow> False)"

definition owned_update :: "pydict \<Rightarrow> bool" where
  "owned_update d \<longleftrightarrow> list_all (\<lambda>(k, v). k = ''cameras'' \<and> owned_map v \<or>
     k = ''go2rtc'' \<and> (case v of PDict g \<Rightarrow> list_all (\<lambda>(k, v). k = ''streams'' \<and> owned_map v) g | _ \<Rightarrow> False)) d"

definition owned_request :: "bool \<Rightarrow> request \<Rightarrow> bool" where
  "owned_request restarts q =
     (case q of
        SetConfig d t _ \<Rightarrow> owned_update d \<and> (case t of None \<Rightarrow> True | Some x \<Rightarrow> startswith x (''config/cameras/'' @ key_prefix))
      | SaveRaw _ \<Rightarrow> False
      | PutStream n _ \<Rightarrow> owned n
      | DeleteStream n \<Rightarrow> owned n
      | PostRestart \<Rightarrow> restarts
      | _ \<Rightarrow> True)"

definition bindings_owned :: "string \<Rightarrow> db \<Rightarrow> bool" where
  "bindings_owned tgt d \<longleftrightarrow> list_all (\<lambda>b. fbd_target b = tgt \<longrightarrow> owned (fbd_key b)) (frigate_bindings d)"

lemma owned_iff: "startswith k key_prefix \<longleftrightarrow> owned k"
  by (simp add: owned_def)

lemma owned_keys: "owned (frigate_camera_key u)" "owned k \<Longrightarrow> owned (record_alias k) \<and> owned (detect_alias k)"
  by (auto simp: owned_def frigate_camera_key_def startswith_def record_alias_def detect_alias_def)

lemma owned_topic:
  assumes "owned k" "topic_for k (Some x)"
  shows "startswith x (''config/cameras/'' @ key_prefix)"
proof -
  obtain r where "k = key_prefix @ r" using assms(1) by (auto simp: owned_def startswith_def prefix_def)
  with assms(2) show ?thesis by (auto simp: topic_for_def startswith_def prefix_def)
qed

lemma owned_request_camera:
  "owned k \<Longrightarrow> topic_for k t \<Longrightarrow> owned_request r (SetConfig [(''cameras'', PDict [(k, e)])] t b)"
  using owned_topic by (auto simp: owned_request_def owned_update_def owned_map_def split: option.split)

lemma bindings_owned_upd:
  assumes "bindings_owned tgt d"
    "\<And>b. fbd_target (f b) = fbd_target b" "\<And>b. fbd_target b = tgt \<Longrightarrow> owned (fbd_key b) \<Longrightarrow> owned (fbd_key (f b))"
  shows "bindings_owned tgt (d\<lparr>frigate_bindings := upd_where P f (frigate_bindings d)\<rparr>)"
  using assms by (auto simp: bindings_owned_def list_all_iff row_simps)

lemma bindings_owned_put:
  assumes "bindings_owned tgt d" "frigate_bindings d' = row_put fbinding_key f r (frigate_bindings d)"
    "owned (fbd_key r)" "\<And>b. fbd_target (f b) = fbd_target b" "\<And>b. owned (fbd_key (f b))"
  shows "bindings_owned tgt d'"
  using assms by (auto simp: bindings_owned_def list_all_iff row_put_def row_simps)

lemma bindings_owned_attempt:
  assumes "bindings_owned tgt d" "owned k" "record_frigate_attempt tgt c k rec det h now d = Inr d'"
  shows "bindings_owned tgt d'"
proof -
  obtain r where "frigate_bindings d' = row_put fbinding_key (attempt_binding k rec det h now) r (frigate_bindings d)"
    and "fbd_key r = k"
    using assms(3) by (auto simp: record_frigate_attempt_def split: if_splits)
  then show ?thesis
    using assms(1,2) by (intro bindings_owned_put [OF assms(1), of d' "attempt_binding k rec det h now" r])
      (auto simp: attempt_binding_def)
qed

interpretation ow: removing tgt "owned_request r" "bindings_owned tgt" owned r owned owned for tgt r
proof
  show "owned_request r q" if "read_request q" for q
    using that by (auto simp: read_request_def owned_request_def)
  show "owned_request r (SetConfig [(''cameras'', PDict [(k, PDict e)])] t b)"
    if "owned k" "topic_for k t" "\<not> retires e" for k t e b
    using that(1,2) by (rule owned_request_camera)
  show "owned_request r (SetConfig [(''cameras'', PDict [(k, PDict e)])] t b)" if "owned k" "topic_for k t" for k t e b
    using that by (rule owned_request_camera)
  show "bindings_owned tgt d'"
    if "bindings_owned tgt d" "owned k" "record_frigate_attempt tgt c k rec det h now d = Inr d'"
    for d k c rec det h now d'
    using that by (rule bindings_owned_attempt)
  show "bindings_owned tgt d'" if "bindings_owned tgt d" "complete_frigate_attempt tgt c st a code now d = Inr d'"
    for d c st a code now d'
    using that by (auto simp: complete_frigate_attempt_def split: option.splits intro!: bindings_owned_upd)
  show "bindings_owned tgt (set_frigate_camera_enabled_applied tgt c e now d)" if "bindings_owned tgt d" for d c e now
    unfolding set_frigate_camera_enabled_applied_def by (rule bindings_owned_upd [OF that]) auto
  show "owned (fbd_key b)" if "bindings_owned tgt d" "frigate_binding tgt c d = Some b" for d c b
    using that by (auto simp: bindings_owned_def frigate_binding_def list_all_iff dest: row_get_SomeD)
qed (auto simp: owned_request_def owned_update_def owned_map_def list_all_iff owned_keys bindings_owned_def unwanted_def
    owned_iff set_frigate_selection_error_def forget_retired_frigate_camera_def remember_retired_frigate_camera_def
    deselect_frigate_camera_def remove_frigate_binding_def row_simps)

subsection \<open>Second reading: what is wanted stays\<close>

lemma selected_uuids:
  "map (\<lambda>c. cam_uuid (frc_camera c)) (selected_camera_inventory tgt d) =
   filter (\<lambda>u. (tgt, u) \<in> selection_key ` set (frigate_selections d)) (map (\<lambda>(c, ss). cam_uuid c) (consumer_inventory d))"
proof -
  let ?sel = "frigate_camera_selections tgt d"
  have "u \<in> fsl_camera ` set ?sel \<longleftrightarrow> (tgt, u) \<in> selection_key ` set (frigate_selections d)" for u
    by (auto simp: frigate_camera_selections_def image_iff)
  then have none: "row_get fsl_camera u ?sel = None \<longleftrightarrow> (tgt, u) \<notin> selection_key ` set (frigate_selections d)" for u
    by (simp add: row_get_None_iff)
  have some: "row_get fsl_camera u ?sel = Some r \<Longrightarrow> (tgt, u) \<in> selection_key ` set (frigate_selections d)" for u r
    using none [of u] by (metis option.distinct(1))
  have "map (\<lambda>c. cam_uuid (frc_camera c)) (concat (map (\<lambda>(c, ss). case row_get fsl_camera (cam_uuid c) ?sel of
      None \<Rightarrow> [] | Some r \<Rightarrow> [\<lparr>frc_camera = c, frc_streams = ss, frc_mode = m r, frc_width = fsl_width r,
        frc_height = fsl_height r\<rparr>]) l)) =
    filter (\<lambda>u. (tgt, u) \<in> selection_key ` set (frigate_selections d)) (map (\<lambda>(c, ss). cam_uuid c) l)" for l m
    by (induction l) (simp_all add: none some split: option.split prod.split)
  then show ?thesis by (simp add: selected_camera_inventory_def Let_def)
qed

lemma desired_resource_keys_cong:
  assumes "selection_key ` set (frigate_selections d') = selection_key ` set (frigate_selections d)"
    and "consumer_inventory d' = consumer_inventory d"
  shows "desired_resource_keys tgt d' = desired_resource_keys tgt d"
proof -
  have "map (\<lambda>c. cam_uuid (frc_camera c)) (selected_camera_inventory tgt d') =
      map (\<lambda>c. cam_uuid (frc_camera c)) (selected_camera_inventory tgt d)"
    unfolding selected_uuids assms ..
  then have "map frigate_camera_key (map (\<lambda>c. cam_uuid (frc_camera c)) (selected_camera_inventory tgt d')) =
      map frigate_camera_key (map (\<lambda>c. cam_uuid (frc_camera c)) (selected_camera_inventory tgt d))"
    by simp
  then show ?thesis by (simp add: desired_resource_keys_def Let_def comp_def)
qed

lemma consumer_inventory_cong:
  assumes "cameras d' = cameras d" "bindings d' = bindings d" "streams d' = streams d" "profiles d' = profiles d"
  shows "consumer_inventory d' = consumer_inventory d"
proof -
  have "stream_profile d' = stream_profile d" using assms(4) by (simp add: stream_profile_def fun_eq_iff)
  then have "joined_streams d' = joined_streams d" using assms(3) by (simp add: joined_streams_def fun_eq_iff)
  then show ?thesis using assms(1,2) by (simp add: consumer_inventory_def)
qed

definition spares :: "string list \<times> string list \<Rightarrow> request \<Rightarrow> bool" where
  "spares wanted q =
     (case q of
        SetConfig d _ _ \<Rightarrow>
          list_all (\<lambda>(k, e). case e of PDict x \<Rightarrow> \<not> (retires x \<and> k \<in> set (fst wanted)) | _ \<Rightarrow> False) (dsub d ''cameras'') \<and>
          list_all (\<lambda>(n, v). \<not> (v = PStr [] \<and> n \<in> set (snd wanted))) (dsub (dsub d ''go2rtc'') ''streams'')
      | SaveRaw _ \<Rightarrow> False
      | DeleteStream n \<Rightarrow> n \<notin> set (snd wanted)
      | _ \<Rightarrow> True)"

lemma desired_keys_kept:
  "desired_resource_keys tgt (d\<lparr>service_secrets := x\<rparr>) = desired_resource_keys tgt d"
  "desired_resource_keys tgt (d\<lparr>frigate_bindings := y\<rparr>) = desired_resource_keys tgt d"
  "desired_resource_keys tgt (d\<lparr>retired_cameras := z\<rparr>) = desired_resource_keys tgt d"
  "desired_resource_keys tgt (set_frigate_selection_error t c code d) = desired_resource_keys tgt d"
proof -
  have "selection_key ` set (upd_where P (\<lambda>r. r\<lparr>fsl_error := code\<rparr>) sels) = selection_key ` set sels" for P sels
    by (metis (no_types, lifting) frigate_selection_row.ext_inject frigate_selection_row.surjective
        frigate_selection_row.update_convs(7) map_upd_where set_map)
  then show "desired_resource_keys tgt (set_frigate_selection_error t c code d) = desired_resource_keys tgt d"
    by (intro desired_resource_keys_cong consumer_inventory_cong) (simp_all add: set_frigate_selection_error_def)
qed (rule desired_resource_keys_cong, simp, rule consumer_inventory_cong; simp)+

interpretation sp: retiring tgt "spares W" "\<lambda>d. desired_resource_keys tgt d = W" "\<lambda>_. True" True
    "unwanted (fst W)" "unwanted (snd W)" for tgt W
proof
  show "spares W q" if "read_request q" for q
    using that by (auto simp: read_request_def spares_def)
qed (auto simp: spares_def unwanted_def dsub_def dget_def list_all_iff desired_keys_kept
    forget_retired_frigate_camera_def remember_retired_frigate_camera_def record_frigate_attempt_def
    complete_frigate_attempt_def set_frigate_camera_enabled_applied_def split: if_splits option.splits)

end
