(* ===== verification/FrigateDemo.thy ===== *)
theory FrigateDemo
  imports FrigateSync HealthProps
begin

text \<open>
  An instance of the Frigate integration that the witnesses evaluate: the database with one selected
  camera, and a Frigate that adopts every update at once.
\<close>

subsection \<open>The instance\<close>

definition demo_frigate_db :: db where
  "demo_frigate_db = demo_db\<lparr>
     profiles := [blank_profile ''p1'' ''c1'' ''tok''],
     bindings := [\<lparr>bnd_camera = ''c1'', bnd_role = Record, bnd_stream = ''m1'', bnd_updated = 1\<rparr>,
                  \<lparr>bnd_camera = ''c1'', bnd_role = Detect, bnd_stream = ''m1'', bnd_updated = 1\<rparr>],
     frigate_targets := [\<lparr>ftg_id = ''main'', ftg_name = ''Main'', ftg_url = ''http://frigate:5000'',
       ftg_status = Connected, ftg_error = None, ftg_checked = Some 1, ftg_restart = False, ftg_mode = Some Lan,
       ftg_created = 1, ftg_updated = 1\<rparr>],
     frigate_selections := [\<lparr>fsl_target = ''main'', fsl_camera = ''c1'', fsl_selected = 1, fsl_mode = Lan,
       fsl_width = Some 640, fsl_height = Some 480, fsl_error = None\<rparr>],
     service_secrets := [\<lparr>sec_name = ''rtsp-access'', sec_cipher = ''pw'', sec_created = 1, sec_updated = 1\<rparr>]\<rparr>"

definition demo_desired :: desired where
  "demo_desired =
     \<lparr>dsr_uuid = ''c1'', dsr_key = ''camadmiral_c1'', dsr_name = ''Door'', dsr_record = ''m1'', dsr_detect = ''m1'',
      dsr_inputs = [(''camadmiral_c1_record'', [''record'', ''detect''])], dsr_width = 640, dsr_height = 480,
      dsr_streams = [(''camadmiral_c1_record'', ''rtsp://camadmiral:pw@nvr:18554/door''),
                     (''camadmiral_c1_detect'', ''rtsp://camadmiral:pw@nvr:18554/door'')],
      dsr_hash = ''digest''\<rparr>"

definition demo_openapi :: pyval where
  "demo_openapi = PDict [(''paths'', PDict (map (\<lambda>(p, v). (p, PDict [(v, PNone)])) required_capabilities))]"

definition demo_saved :: "bool \<Rightarrow> pydict" where
  "demo_saved there = [(''cameras'', PDict (if there then [(''camadmiral_c1'', PDict (camera_config demo_desired))] else [])),
     (''go2rtc'', PDict [(''streams'', PDict (if there then map (\<lambda>(a, s). (a, PList [PStr s])) (dsr_streams demo_desired) else []))])]"

definition demo_paths :: "bool \<Rightarrow> pydict" where
  "demo_paths there = [(''cameras'', PDict (if there then [(''camadmiral_c1'',
       PDict [(''ffmpeg'', PDict [(''inputs'', expected_inputs demo_desired)])])] else [])),
     (''go2rtc'', PDict [(''streams'', PDict (if there then map (\<lambda>(a, s). (a, PList [PStr s])) (dsr_streams demo_desired) else []))])]"

definition updated :: "request list \<Rightarrow> bool" where
  "updated reqs \<longleftrightarrow> list_ex (\<lambda>q. case q of SetConfig _ _ _ \<Rightarrow> True | _ \<Rightarrow> False) reqs"

definition demo_serve :: "bool \<Rightarrow> server" where
  "demo_serve from_start reqs q =
     (let there = (from_start \<or> updated reqs) in
      case q of
        GetOpenapi \<Rightarrow> Inr demo_openapi
      | GetConfig \<Rightarrow> Inr (PDict (demo_saved there))
      | GetRawPaths \<Rightarrow> Inr (PDict (demo_paths there))
      | GetRawConfig \<Rightarrow> Inr (PStr (if there then ''1'' else ''0''))
      | GetStreams \<Rightarrow> Inr (PDict (if there then map (\<lambda>(a, s). (a, PNone)) (dsr_streams demo_desired) else []))
      | GetStats \<Rightarrow> Inr (PDict [(''cameras'', PDict (if there then [(''camadmiral_c1'', PNone)] else []))])
      | _ \<Rightarrow> Inr (PDict [(''success'', PBool True)]))"

definition demo_env :: "bool \<Rightarrow> frigate_env" where
  "demo_env from_start =
     \<lparr>env_target = ''main'', env_serve = demo_serve from_start,
      env_yaml = (\<lambda>s. Some (PDict (demo_saved (s = ''1'')))), env_digest = (\<lambda>_. ''digest''), env_ipv6 = (\<lambda>_. None),
      env_host = (\<lambda>_. Inr ''nvr''), env_polls = (\<lambda>_. 3), env_enc = (\<lambda>p n. p), env_dec = (\<lambda>c n. Inr c),
      env_fresh = ''fresh'', env_now = 9\<rparr>"

definition demo_snap :: "bool \<Rightarrow> snapshot" where
  "demo_snap there =
     \<lparr>snp_config = demo_saved there, snp_paths = demo_paths there, snp_raw = demo_saved there,
      snp_runtime = (if there then map (\<lambda>(a, s). (a, PNone)) (dsr_streams demo_desired) else []),
      snp_stats = (if there then [(''camadmiral_c1'', PNone)] else [])\<rparr>"

definition demo_frigate_camera :: frigate_camera where
  "demo_frigate_camera =
     \<lparr>frc_camera = demo_camera,
      frc_streams = [\<lparr>cst_stream = demo_stream, cst_profile = blank_profile ''p1'' ''c1'' ''tok'', cst_roles = [Detect, Record]\<rparr>],
      frc_mode = Lan, frc_width = Some 640, frc_height = Some 480\<rparr>"

definition demo_start :: io_state where
  "demo_start = \<lparr>io_db = demo_frigate_db, io_log = []\<rparr>"

subsection \<open>Its runs\<close>

lemma demo_env_fields:
  "env_target (demo_env b) = ''main''" "env_serve (demo_env b) = demo_serve b"
  "env_digest (demo_env b) = (\<lambda>_. ''digest'')" "env_ipv6 (demo_env b) = (\<lambda>_. None)"
  "env_host (demo_env b) = (\<lambda>_. Inr ''nvr'')" "env_now (demo_env b) = 9" "env_polls (demo_env b) = (\<lambda>_. 3)"
  by (simp_all add: demo_env_def)

lemma demo_want: "desired_camera (\<lambda>_. ''digest'') (\<lambda>_. None) demo_frigate_camera ''pw'' ''nvr'' = Inr (Some demo_desired)"
  by code_simp

lemma demo_mismatch:
  "snapshot_mismatch demo_desired (demo_snap there) = Inr (if there then None else Some ''camera_configuration_missing'')"
proof (cases there)
  case True
  have "snapshot_mismatch demo_desired (demo_snap True) = Inr None" by code_simp
  with True show ?thesis by simp
next
  case False
  have "snapshot_mismatch demo_desired (demo_snap False) = Inr (Some ''camera_configuration_missing'')" by code_simp
  with False show ?thesis by simp
qed

lemma demo_running: "dhas (dsr_key demo_desired) (snp_stats (demo_snap there)) \<longleftrightarrow> there"
  by (simp add: demo_snap_def demo_desired_def dhas_def)

lemma updated_simps [simp]:
  "updated [] \<longleftrightarrow> False" "updated (l @ m) \<longleftrightarrow> updated l \<or> updated m"
  "updated (q # l) \<longleftrightarrow> (case q of SetConfig _ _ _ \<Rightarrow> True | _ \<Rightarrow> False) \<or> updated l"
  by (auto simp: updated_def)

lemma demo_capabilities:
  "capabilities (demo_serve b) s = (Inr (), s\<lparr>io_log := io_log s @ [GetOpenapi]\<rparr>)"
proof -
  have "capable demo_openapi" by code_simp
  then show ?thesis by (simp add: capabilities_def bind_io_def ask_def demo_serve_def ret_def)
qed

abbreviation reads :: "request list" where
  "reads \<equiv> [GetConfig, GetRawPaths, GetRawConfig, GetStreams, GetStats]"

lemma demo_read_state:
  "read_state (demo_env b) s = (Inr (demo_snap (b \<or> updated (io_log s))), s\<lparr>io_log := io_log s @ reads\<rparr>)"
  by (simp add: read_state_def bind_io_def ask_dict_def get_config_def get_raw_paths_def get_raw_config_def
      raw_config_text_def get_runtime_streams_def get_stats_def ask_def demo_serve_def ret_def demo_env_def
      demo_snap_def dget_def)

lemma demo_wait:
  assumes "b \<or> updated (io_log s)"
  shows "polled (demo_env b) (wait_for_camera_state (demo_env b) demo_desired) s =
    (Inr (demo_snap True), s\<lparr>io_log := io_log s @ reads\<rparr>)"
proof -
  have "state_mismatch demo_desired (demo_snap True) = Inr None"
    by (simp add: state_mismatch_def demo_mismatch demo_running bind_err_def)
  moreover have "env_polls (demo_env b) (io_log s) = 3" by (simp add: demo_env_def)
  ultimately show ?thesis
    using assms
    by (simp add: numeral_3_eq_3 polled_def bind_io_def catch_api_def demo_read_state ret_def lift_err_def)
qed

definition demo_writes :: "request list" where
  "demo_writes =
     [SetConfig [(''cameras'', PDict [(''camadmiral_c1'', PDict (camera_config demo_desired))])]
        (Some ''config/cameras/camadmiral_c1/add'') True,
      SetConfig [(''go2rtc'', PDict [(''streams'', PDict (map (\<lambda>(a, s). (a, PList [PStr s])) (dsr_streams demo_desired)))])]
        None False,
      PutStream ''camadmiral_c1_record'' ''rtsp://camadmiral:pw@nvr:18554/door'',
      PutStream ''camadmiral_c1_detect'' ''rtsp://camadmiral:pw@nvr:18554/door'']"

lemma demo_apply:
  "apply_camera (demo_env b) allow demo_desired None None False (demo_snap False) s =
   (Inr (demo_snap True), s\<lparr>io_log := io_log s @ demo_writes @ reads\<rparr>)"
proof -
  have set: "set_config (demo_serve b) d t r s = (Inr (), s\<lparr>io_log := io_log s @ [SetConfig d t (r \<or> t \<noteq> None)]\<rparr>)"
    for d t r s
    by (simp add: set_config_def bind_io_def ask_def demo_serve_def ret_def succeeded_def dget_def)
  have put: "set_runtime_stream (demo_serve b) n src s = (Inr (), s\<lparr>io_log := io_log s @ [PutStream n src]\<rparr>)" for n src s
    by (simp add: set_runtime_stream_def bind_io_def ask_def demo_serve_def ret_def refused_def dget_def)
  have "\<not> second_camera_restart (demo_saved False) False"
    by code_simp
  then have "\<not> second_camera_restart (snp_config (demo_snap False)) False"
    by (simp add: demo_snap_def)
  moreover have "camera_update demo_desired raw False None = Inr (camera_config demo_desired)" for raw
    by (simp add: camera_update_def bind_err_def)
  moreover have "dsr_key demo_desired = ''camadmiral_c1''" by (simp add: demo_desired_def)
  moreover have "dsr_streams demo_desired = [(''camadmiral_c1_record'', ''rtsp://camadmiral:pw@nvr:18554/door''),
      (''camadmiral_c1_detect'', ''rtsp://camadmiral:pw@nvr:18554/door'')]" by (simp add: demo_desired_def)
  ultimately show ?thesis
    by (simp add: apply_camera_def Let_def bind_io_def lift_err_def set put ret_def demo_wait demo_env_fields camera_topic_def
        demo_writes_def)
qed

definition demo_binding :: frigate_binding_row where
  "demo_binding =
     \<lparr>fbd_target = ''main'', fbd_camera = ''c1'', fbd_key = ''camadmiral_c1'', fbd_record = ''m1'',
      fbd_detect = ''m1'', fbd_desired = ''digest'', fbd_applied = Some ''digest'', fbd_status = BindApplied,
      fbd_error = None, fbd_attempt = 9, fbd_updated = 9, fbd_enabled_applied = True\<rparr>"

definition demo_bound :: db where
  "demo_bound = demo_frigate_db\<lparr>frigate_bindings := [demo_binding]\<rparr>"

lemmas demo_frigate_simps = demo_frigate_db_def demo_simps demo_desired_def demo_env_def demo_binding_def
  demo_bound_def demo_frigate_camera_def

lemma demo_sync_owned:
  "sync_owned (demo_env b) allow ''c1'' demo_desired None None False (demo_snap False) \<lparr>io_db = demo_frigate_db, io_log = l\<rparr> =
   (Inr (True, demo_snap True), \<lparr>io_db = demo_bound, io_log = l @ demo_writes @ reads\<rparr>)"
proof -
  let ?t = "demo_binding\<lparr>fbd_applied := None, fbd_status := BindPending\<rparr>"
  have "record_frigate_attempt ''main'' ''c1'' ''camadmiral_c1'' ''m1'' ''m1'' ''digest'' 9 demo_frigate_db =
      Inr (demo_frigate_db\<lparr>frigate_bindings := [?t]\<rparr>)"
    by (simp add: record_frigate_attempt_def demo_frigate_simps has_row_def row_put_def)
  then have "begin_attempt (demo_env b) ''c1'' demo_desired \<lparr>io_db = demo_frigate_db, io_log = l\<rparr> =
      (Inr (), \<lparr>io_db = demo_frigate_db\<lparr>frigate_bindings := [?t]\<rparr>, io_log = l\<rparr>)"
    by (simp add: begin_attempt_def try_db_def demo_env_def demo_desired_def)
  moreover have "complete_frigate_attempt ''main'' ''c1'' ''applied'' (Some ''digest'') None 9
      (demo_frigate_db\<lparr>frigate_bindings := [?t]\<rparr>) = Inr demo_bound"
    by (simp add: complete_frigate_attempt_def demo_frigate_simps)
  moreover have "set_frigate_camera_enabled_applied ''main'' ''c1'' True 9 demo_bound = demo_bound"
    by (simp add: set_frigate_camera_enabled_applied_def demo_frigate_simps)
  moreover have "dsr_hash demo_desired = ''digest''" by (simp add: demo_desired_def)
  ultimately show ?thesis
    by (simp add: sync_owned_def demo_mismatch up_to_date_def settle_def bind_io_def catch_api_def demo_apply
        try_db_def write_db_def ret_def lift_err_def demo_env_fields)
qed

lemma demo_nothing:
  "py_in (dsr_key demo_desired) (dget_or (snp_config (demo_snap False)) ''cameras'' (PDict [])) = Inr False"
    "bind_err (attr_get (PDict (snp_paths (demo_snap False))) ''go2rtc'' (PDict []))
       (\<lambda>g. attr_get g ''streams'' (PDict [])) = Inr (PDict [])"
    "resource_exists (map fst (dsr_streams demo_desired)) (PDict []) (PDict (snp_runtime (demo_snap False))) = Inr False"
  by (simp_all add: demo_snap_def demo_saved_def demo_paths_def demo_desired_def dget_or_def resource_exists_def
        py_in_def attr_get_def bind_err_def dhas_def)

lemma demo_sync_camera:
  "sync_camera (demo_env b) allow ''pw'' demo_frigate_camera (demo_snap False) \<lparr>io_db = demo_frigate_db, io_log = l\<rparr> =
   (Inr (True, demo_snap True), \<lparr>io_db = demo_bound, io_log = l @ demo_writes @ reads\<rparr>)"
proof -
  have "set_frigate_selection_error ''main'' ''c1'' None demo_frigate_db = demo_frigate_db"
    by (simp add: set_frigate_selection_error_def demo_frigate_simps)
  moreover have "frigate_binding ''main'' ''c1'' demo_frigate_db = None" "retired_frigate_cameras ''main'' demo_frigate_db = []"
    by (simp_all add: frigate_binding_def row_get_def retired_frigate_cameras_def demo_frigate_simps)
  moreover have "sync_desired (demo_env b) allow ''c1'' demo_desired None (demo_snap False)
      \<lparr>io_db = demo_frigate_db, io_log = l\<rparr> = (Inr (True, demo_snap True), \<lparr>io_db = demo_bound, io_log = l @ demo_writes @ reads\<rparr>)"
    using calculation(3)
    unfolding sync_desired_def demo_nothing
    by (simp add: demo_sync_owned bind_io_def lift_err_def read_db_def demo_nothing demo_env_fields)
  moreover have "cam_uuid (frc_camera demo_frigate_camera) = ''c1''" "cam_enabled (frc_camera demo_frigate_camera)"
    by (simp_all add: demo_frigate_camera_def demo_camera_def)
  ultimately show ?thesis
    by (simp add: sync_camera_def selection_error_def bind_io_def write_db_def read_db_def lift_err_def demo_want Let_def
        demo_env_fields)
qed

lemma demo_reconcile:
  "reconcile_frigate (demo_env False) allow None \<lparr>io_db = demo_frigate_db, io_log = []\<rparr> =
   (Inr (1, 0), \<lparr>io_db = demo_bound, io_log = GetOpenapi # reads @ demo_writes @ reads\<rparr>)"
proof -
  have "selected_camera_inventory ''main'' demo_frigate_db = [demo_frigate_camera]" by code_simp
  moreover have "access_password (demo_env False) \<lparr>io_db = demo_frigate_db, io_log = l\<rparr> =
      (Inr ''pw'', \<lparr>io_db = demo_frigate_db, io_log = l\<rparr>)" for l
    by (simp add: access_password_def rtsp_access_password_def demo_frigate_simps row_get_def)
  ultimately show ?thesis
    by (simp add: reconcile_frigate_def bind_io_def read_db_def demo_capabilities demo_read_state demo_sync_camera ret_def
        demo_env_fields)
qed

end
