(* ===== verification/FrigateProps.thy ===== *)
theory FrigateProps
  imports FrigateOwned FrigateDemo
begin

text \<open>
  Properties of the Frigate integration: its requests name resources of CamAdmiral only, a full
  synchronisation spares what is wanted, a camera counted as applied was read back from Frigate,
  and a synchronisation with nothing to do sends reads only.
\<close>

subsection \<open>Only resources of CamAdmiral\<close>

datatype frigate_op =
    Reconcile bool "string option"
  | FullSync
  | RemoveCamera string
  | SyncPreview
  | RestartCheck
  | Select string string timestamp
  | Deselect string
  | SetAddressMode string timestamp
  | SetResolution string pyval pyval

definition effect_of :: "'a io \<Rightarrow> io_state \<Rightarrow> io_state" where
  "effect_of m s = snd (m s)"

definition frigate_step :: "frigate_env \<times> frigate_op \<Rightarrow> io_state \<Rightarrow> io_state" where
  "frigate_step = (\<lambda>(env, op).
     case op of
       Reconcile allow only \<Rightarrow> effect_of (reconcile_frigate env allow only)
     | FullSync \<Rightarrow> effect_of (full_sync_frigate env)
     | RemoveCamera c \<Rightarrow> effect_of (remove_frigate_camera env c)
     | SyncPreview \<Rightarrow> effect_of (full_sync_preview env)
     | RestartCheck \<Rightarrow> effect_of (frigate_restart_required env)
     | Select c mode t \<Rightarrow> effect_of (try_db (\<lambda>d. map_sum id snd (select_frigate_camera (env_target env) c mode t d)))
     | Deselect c \<Rightarrow> effect_of (write_db (\<lambda>d. snd (deselect_frigate_camera (env_target env) c d)))
     | SetAddressMode mode t \<Rightarrow>
         effect_of (try_db (\<lambda>d. map_sum id snd (set_frigate_target_address_mode (env_target env) mode t d)))
     | SetResolution c w h \<Rightarrow> effect_of (try_db (set_frigate_detection_resolution (env_target env) c w h)))"

definition may_restart :: "frigate_op \<Rightarrow> bool" where
  "may_restart op = (case op of Reconcile allow _ \<Rightarrow> allow | FullSync \<Rightarrow> True | _ \<Rightarrow> False)"

lemma bindings_owned_cong: "frigate_bindings d' = frigate_bindings d \<Longrightarrow> bindings_owned tgt d' = bindings_owned tgt d"
  by (simp add: bindings_owned_def)

lemma choices_keep_bindings:
  "select_frigate_camera t c mode now d = Inr (b, d') \<Longrightarrow> frigate_bindings d' = frigate_bindings d"
  "set_frigate_target_address_mode t mode now d = Inr (b, d') \<Longrightarrow> frigate_bindings d' = frigate_bindings d"
  "set_frigate_detection_resolution t c w h d = Inr d' \<Longrightarrow> frigate_bindings d' = frigate_bindings d"
  by (auto simp: select_frigate_camera_def Let_def split: option.splits if_splits)
    (auto simp: set_frigate_target_address_mode_def split: option.splits,
     simp add: set_frigate_detection_resolution_def split: if_splits, clarsimp)

lemma map_sum_snd_Inr: "map_sum id snd r = Inr d \<longleftrightarrow> (\<exists>b. r = Inr (b, d))"
  by (cases r) auto

lemma frigate_step_keeps:
  assumes "env_target env = tgt" "may_restart op \<Longrightarrow> r"
  shows "keeps (sent (owned_request r) l (bindings_owned tgt)) (\<lambda>s. (Inr (), frigate_step (env, op) s))"
proof -
  let ?I = "sent (owned_request r) l (bindings_owned tgt)"
  have eff: "keeps ?I (\<lambda>s. (Inr (), effect_of m s))" if "keeps ?I m" for m
    using that by (simp add: keeps_def effect_of_def)
  have "keeps ?I (try_db (\<lambda>d. map_sum id snd (select_frigate_camera (env_target env) c mode t d)))"
    "keeps ?I (try_db (\<lambda>d. map_sum id snd (set_frigate_target_address_mode (env_target env) mode t d)))"
    "keeps ?I (try_db (set_frigate_detection_resolution (env_target env) c w h))" for c mode t w h
    by (rule ow.keeps_try; auto simp: map_sum_snd_Inr dest: choices_keep_bindings bindings_owned_cong)+
  moreover have "keeps ?I (write_db (\<lambda>d. snd (deselect_frigate_camera (env_target env) c d)))" for c
    unfolding assms(1) by (rule ow.keeps_unbind)
  moreover have "keeps ?I (full_sync_frigate env)" if "op = FullSync"
    using ow.keeps_full_sync [OF assms(1), of r] assms(2) that by (simp add: may_restart_def)
  moreover have "keeps ?I (reconcile_frigate env allow only)" if "op = Reconcile allow only" for allow only
    using assms(2) that by (intro ow.keeps_reconcile [OF assms(1)]) (simp add: may_restart_def)
  moreover note ow.keeps_remove [OF assms(1)] ow.keeps_checks
  ultimately show ?thesis
    by (cases op) (simp_all add: frigate_step_def eff)
qed



subsection \<open>What is wanted stays\<close>

text \<open>
  C22: A full synchronisation never retires a camera and never deletes a stream that the database
  wants in Frigate at its start, whatever Frigate answers, and it does not change what is wanted.
\<close>
theorem full_sync_spares_wanted:
  "list_all (spares (desired_resource_keys (env_target env) (io_db s)))
     (drop (length (io_log s)) (io_log (snd (full_sync_frigate env s)))) \<and>
   desired_resource_keys (env_target env) (io_db (snd (full_sync_frigate env s))) =
     desired_resource_keys (env_target env) (io_db s)"
proof -
  let ?W = "desired_resource_keys (env_target env) (io_db s)"
  have "sent (spares ?W) (io_log s) (\<lambda>d. desired_resource_keys (env_target env) d = ?W) s"
    by (rule sent_start) simp
  from keepsD [OF sp.keeps_full_sync [OF refl TrueI] this] show ?thesis by (simp add: sent_def)
qed

end
