(* ===== verification/FrigateOutcome.thy ===== *)
theory FrigateOutcome
  imports FrigateProps
begin

text \<open>
  What a synchronisation leaves behind: a camera counted as applied was compared with a state read
  from Frigate, its binding says so, and a camera that is up to date costs reads only.
\<close>

subsection \<open>Results of programs\<close>

lemma read_db_Inr: "read_db f s = (Inr y, s') \<longleftrightarrow> y = f (io_db s) \<and> s' = s"
  by (auto simp: read_db_def)

lemma write_db_Inr: "write_db f s = (Inr y, s') \<longleftrightarrow> s' = s\<lparr>io_db := f (io_db s)\<rparr>"
  by (auto simp: write_db_def)

lemma try_db_Inr: "try_db f s = (Inr y, s') \<longleftrightarrow> (\<exists>d. f (io_db s) = Inr d \<and> s' = s\<lparr>io_db := d\<rparr>)"
  by (auto simp: try_db_def split: sum.splits)

lemma catch_value_Inr:
  "catch_api (bind_io m (\<lambda>x. ret (Inr x))) (\<lambda>e. ret (Inl (h e))) s = (Inr (Inr y), s') \<longleftrightarrow> m s = (Inr y, s')"
  by (auto simp: catch_api_def bind_io_def ret_def split: prod.splits sum.splits frigate_error.splits)

lemma catch_option_Inr:
  "catch_api (bind_io m (\<lambda>x. ret (Some x))) (\<lambda>_. ret None) s = (Inr (Some y), s') \<longleftrightarrow> m s = (Inr y, s')"
  by (auto simp: catch_api_def bind_io_def ret_def split: prod.splits sum.splits frigate_error.splits)

lemma dict_case_Inr:
  "(case v of PDict d \<Rightarrow> f d | _ \<Rightarrow> throw e) s = (Inr y, s') \<longleftrightarrow> (\<exists>d. v = PDict d \<and> f d s = (Inr y, s'))"
  by (cases v) (simp_all add: throw_def)

lemma text_case_Inr:
  "(case v of PStr t \<Rightarrow> f t | _ \<Rightarrow> throw e) s = (Inr y, s') \<longleftrightarrow> (\<exists>t. v = PStr t \<and> f t s = (Inr y, s'))"
  by (cases v) (simp_all add: throw_def)

lemmas io_Inr = bind_io_Inr ret_Inr throw_Inr lift_err_Inr read_db_Inr write_db_Inr try_db_Inr

subsection \<open>The binding\<close>

lemma binding_upd:
  assumes "\<And>b. fbinding_key (f b) = fbinding_key b"
  shows "frigate_binding t c (d\<lparr>frigate_bindings := upd_where (\<lambda>b. fbinding_key b = (t, c)) f (frigate_bindings d)\<rparr>) =
    map_option f (frigate_binding t c d)"
proof -
  have "row_get fbinding_key (t, c) (upd_where (\<lambda>b. fbinding_key b = (t, c)) f bs) =
      map_option f (row_get fbinding_key (t, c) bs)" for bs
    using find_upd_where [of fbinding_key f "(t, c)" "(t, c)" bs] assms by (simp add: row_get_def)
  then show ?thesis by (simp add: frigate_binding_def)
qed

lemma binding_after_attempt:
  assumes "record_frigate_attempt t c k rec det h now d = Inr d'"
  shows "\<exists>b. frigate_binding t c d' = Some b"
proof -
  have "keeps_key fbinding_key (attempt_binding k rec det h now)"
    by (simp add: keeps_key_def attempt_binding_def)
  then show ?thesis
    using assms
    by (auto simp: record_frigate_attempt_def frigate_binding_def row_get_put split: if_splits option.split)
qed

lemma binding_after_success:
  assumes "complete_frigate_attempt t c ''applied'' (Some h) None now d = Inr d'" and "frigate_binding t c d = Some b"
  shows "\<exists>b'. frigate_binding t c d' = Some b' \<and> fbd_status b' = BindApplied \<and> fbd_applied b' = Some h"
proof -
  let ?f = "\<lambda>b. b\<lparr>fbd_status := BindApplied, fbd_applied := Some h, fbd_error := None, fbd_updated := now\<rparr>"
  have "d' = d\<lparr>frigate_bindings := upd_where (\<lambda>b. fbinding_key b = (t, c)) ?f (frigate_bindings d)\<rparr>"
    using assms(1) by (simp add: complete_frigate_attempt_def)
  then show ?thesis using binding_upd [of ?f t c d] assms(2) by simp
qed

lemma binding_after_enabled:
  "frigate_binding t c (set_frigate_camera_enabled_applied t c e now d) =
   map_option (\<lambda>b. b\<lparr>fbd_enabled_applied := e, fbd_updated := now\<rparr>) (frigate_binding t c d)"
  unfolding set_frigate_camera_enabled_applied_def by (rule binding_upd) simp

lemma binding_untouched [simp]:
  "frigate_binding t c (set_frigate_selection_error t' c' code d) = frigate_binding t c d"
  "frigate_binding t c (forget_retired_frigate_camera t' k d) = frigate_binding t c d"
  by (simp_all add: frigate_binding_def set_frigate_selection_error_def forget_retired_frigate_camera_def)

subsection \<open>Programs that only talk\<close>

text \<open>A third reading of the requests: everything may be sent, the database stays as it is.\<close>

interpretation talk: frigate_requests tgt "\<lambda>_. True" "\<lambda>d. d = d0" "\<lambda>_. True" True for tgt d0
  by unfold_locales auto

lemma sent_any: "sent (\<lambda>_. True) (io_log s) (\<lambda>d. d = io_db s) s"
  by (rule sent_start) simp

lemma talk_db:
  assumes "keeps (sent (\<lambda>_. True) (io_log s) (\<lambda>d. d = io_db s)) m" "m s = (r, s')"
  shows "io_db s' = io_db s"
  using sentD [OF keepsD [OF assms(1) sent_any]] assms(2) by simp

lemma apply_camera_db: "apply_camera env allow x b restore ex snap s = (r, s') \<Longrightarrow> io_db s' = io_db s"
  by (erule talk_db [rotated]) (rule talk.keeps_apply_camera; simp add: list_all_iff)

lemma wait_for_camera_state_db: "polled env (wait_for_camera_state env x) s = (r, s') \<Longrightarrow> io_db s' = io_db s"
  by (erule talk_db [rotated]) (intro keeps_polled talk.keeps_wait_for_camera_state)

subsection \<open>A camera counted as applied\<close>

definition holds_in :: "desired \<Rightarrow> snapshot \<Rightarrow> bool" where
  "holds_in x s \<longleftrightarrow> snapshot_mismatch x s = Inr None \<and> dhas (dsr_key x) (snp_stats s)"

definition read_back :: "frigate_env \<Rightarrow> snapshot \<Rightarrow> bool" where
  "read_back env snap \<longleftrightarrow> (\<exists>s s'. read_state env s = (Inr snap, s'))"

lemma read_backI: "read_state env s = (Inr snap, s') \<Longrightarrow> read_back env snap"
  by (auto simp: read_back_def)

lemma state_mismatch_None: "state_mismatch x s = Inr None \<longleftrightarrow> holds_in x s"
  by (auto simp: state_mismatch_def holds_in_def bind_err_def split: sum.splits)

lemma wait_for_camera_state_holds:
  "wait_for_camera_state env x n s = (Inr snap, s') \<Longrightarrow> holds_in x snap \<and> read_back env snap"
  by (induction n arbitrary: s) (auto simp: io_Inr catch_option_Inr state_mismatch_None split: option.splits intro: read_backI)

lemma polled_wait_holds:
  "polled env (wait_for_camera_state env x) s = (Inr snap, s') \<Longrightarrow>
   holds_in x snap \<and> read_back env snap"
  by (simp add: polled_def wait_for_camera_state_holds)

lemma apply_camera_holds:
  "apply_camera env allow x b restore ex snap0 s = (Inr snap, s') \<Longrightarrow>
   holds_in x snap \<and> read_back env snap"
  by (auto simp: apply_camera_def Let_def bind_io_Inr dest: polled_wait_holds)

lemma settle_True:
  assumes "settle env c h m after old s = (Inr (True, snap), s')"
  obtains s1 d where "m s = (Inr snap, s1)"
    and "complete_frigate_attempt (env_target env) c ''applied'' (Some h) None (env_now env) (io_db s1) = Inr d"
    and "after (s1\<lparr>io_db := d\<rparr>) = (Inr (), s')"
proof -
  obtain r s0 where r: "catch_api (bind_io m (\<lambda>s. ret (Inr s))) (\<lambda>e. ret (Inl (err_code e))) s = (Inr r, s0)"
    and rest: "(case r of
         Inl code \<Rightarrow>
           bind_io (try_db (complete_frigate_attempt (env_target env) c ''error'' None (Some code) (env_now env)))
             (\<lambda>_. ret (False, old))
       | Inr s \<Rightarrow>
           bind_io (try_db (complete_frigate_attempt (env_target env) c ''applied'' (Some h) None (env_now env)))
             (\<lambda>_. bind_io after (\<lambda>_. ret (True, s)))) s0 = (Inr (True, snap), s')"
    using assms unfolding settle_def bind_io_Inr by blast
  show thesis
  proof (cases r)
    case (Inl code) with rest show thesis by (simp add: io_Inr)
  next
    case (Inr x) with r rest show thesis by (auto simp: io_Inr catch_value_Inr intro: that)
  qed
qed

definition applied_in :: "frigate_env \<Rightarrow> string \<Rightarrow> desired \<Rightarrow> db \<Rightarrow> bool" where
  "applied_in env c x d \<longleftrightarrow> (case frigate_binding (env_target env) c d of
     None \<Rightarrow> False | Some b \<Rightarrow> fbd_status b = BindApplied \<and> fbd_applied b = Some (dsr_hash x))"

lemma settled_attempt:
  assumes "settle env c (dsr_hash x) m after old s1 = (Inr (True, snap), s')"
    and "record_frigate_attempt (env_target env) c k rec det h now d = Inr (io_db s1)"
    and "\<And>r s s'. m s = (r, s') \<Longrightarrow> io_db s' = io_db s"
    and "\<And>s s'. after s = (Inr (), s') \<Longrightarrow> applied_in env c x (io_db s) \<Longrightarrow> applied_in env c x (io_db s')"
  shows "applied_in env c x (io_db s')"
proof -
  obtain s2 d where m: "m s1 = (Inr snap, s2)"
    and d: "complete_frigate_attempt (env_target env) c ''applied'' (Some (dsr_hash x)) None (env_now env) (io_db s2) = Inr d"
    and a: "after (s2\<lparr>io_db := d\<rparr>) = (Inr (), s')"
    using assms(1) by (rule settle_True)
  obtain b where "frigate_binding (env_target env) c (io_db s2) = Some b"
    using binding_after_attempt [OF assms(2)] assms(3) [OF m] by auto
  from binding_after_success [OF d this] have "applied_in env c x d" by (auto simp: applied_in_def)
  with assms(4) [OF a] show ?thesis by simp
qed

lemma applied_in_after:
  assumes "bind_io (write_db (set_frigate_camera_enabled_applied (env_target env) c True now)) (\<lambda>_.
      if b then write_db (forget_retired_frigate_camera (env_target env) k) else ret ()) s = (Inr (), s')"
    and "applied_in env c x (io_db s)"
  shows "applied_in env c x (io_db s')"
  using assms by (auto simp: io_Inr applied_in_def binding_after_enabled split: if_splits option.splits)

lemma sync_desired_True:
  assumes "sync_desired env allow c x binding snap0 s = (Inr (True, snap), s')"
  obtains restore ex where "sync_owned env allow c x binding restore ex snap0 s = (Inr (True, snap), s')"
  using assms unfolding sync_desired_def
  by (auto simp: io_Inr selection_error_def split: if_splits)

lemma sync_owned_True:
  assumes "sync_owned env allow c x binding restore ex snap0 s = (Inr (True, snap), s')"
  obtains
    (current) "up_to_date binding restore x" "holds_in x snap0" "snap = snap0"
      "if map_option fbd_status binding \<noteq> Some BindApplied
       then \<exists>d. complete_frigate_attempt (env_target env) c ''applied'' (Some (dsr_hash x)) None (env_now env) (io_db s) = Inr d
            \<and> s' = s\<lparr>io_db := d\<rparr>
       else s' = s"
  | (waited) s1 where "begin_attempt env c x s = (Inr (), s1)"
      "settle env c (dsr_hash x) (polled env (wait_for_camera_state env x)) (ret ()) snap0 s1 = (Inr (True, snap), s')"
  | (written) s1 where "begin_attempt env c x s = (Inr (), s1)"
      "settle env c (dsr_hash x) (apply_camera env allow x binding restore ex snap0)
         (bind_io (write_db (set_frigate_camera_enabled_applied (env_target env) c True (env_now env))) (\<lambda>_.
            if restore \<noteq> None then write_db (forget_retired_frigate_camera (env_target env) (dsr_key x)) else ret ()))
         snap0 s1 = (Inr (True, snap), s')"
proof -
  obtain mismatch where mismatch: "snapshot_mismatch x snap0 = Inr mismatch"
    using assms by (auto simp: sync_owned_def bind_io_Inr lift_err_Inr)
  show thesis
  proof (cases "up_to_date binding restore x \<and> mismatch = None \<and> dhas (dsr_key x) (snp_stats snap0)")
    case True
    with assms mismatch have "snap = snap0" and "if map_option fbd_status binding \<noteq> Some BindApplied
        then \<exists>d. complete_frigate_attempt (env_target env) c ''applied'' (Some (dsr_hash x)) None (env_now env) (io_db s) = Inr d
            \<and> s' = s\<lparr>io_db := d\<rparr> else s' = s"
      by (auto simp: sync_owned_def io_Inr split: if_splits)
    with True mismatch show thesis by (intro current) (auto simp: holds_in_def)
  next
    case False
    with assms mismatch show thesis
      unfolding sync_owned_def lift_err_def bind_io_Inr
      by (auto simp: bind_io_Inr split: if_splits intro: waited written)
  qed
qed

lemma sync_desired_applied:
  assumes "sync_desired env allow c x binding snap0 s = (Inr (True, snap), s')"
    and "binding = frigate_binding (env_target env) c (io_db s)"
  shows "holds_in x snap \<and> applied_in env c x (io_db s') \<and> (snap = snap0 \<or> read_back env snap)"
proof -
  from assms(1) obtain restore ex where "sync_owned env allow c x binding restore ex snap0 s = (Inr (True, snap), s')"
    by (rule sync_desired_True)
  then show ?thesis
  proof (cases rule: sync_owned_True)
    case current
    obtain b where b: "frigate_binding (env_target env) c (io_db s) = Some b" "fbd_applied b = Some (dsr_hash x)"
      using current(1) assms(2) by (auto simp: up_to_date_def split: option.splits)
    have "applied_in env c x (io_db s')"
    proof (cases "fbd_status b = BindApplied")
      case True
      with current(4) b assms(2) show ?thesis by (simp add: applied_in_def)
    next
      case False
      with current(4) b assms(2) obtain d where "io_db s' = d" and
        "complete_frigate_attempt (env_target env) c ''applied'' (Some (dsr_hash x)) None (env_now env) (io_db s) = Inr d"
        by auto
      from binding_after_success [OF this(2) b(1)] this(1) show ?thesis by (auto simp: applied_in_def)
    qed
    with current show ?thesis by simp
  next
    case (waited s1)
    then obtain d where "record_frigate_attempt (env_target env) c (dsr_key x) (dsr_record x) (dsr_detect x) (dsr_hash x)
        (env_now env) (io_db s) = Inr (io_db s1)" by (auto simp: begin_attempt_def try_db_Inr)
    from settled_attempt [OF waited(2) this wait_for_camera_state_db] have "applied_in env c x (io_db s')"
      by (simp add: ret_Inr)
    moreover have "holds_in x snap \<and> read_back env snap"
      using waited(2) by (rule settle_True) (rule polled_wait_holds)
    ultimately show ?thesis by simp
  next
    case (written s1)
    then have "record_frigate_attempt (env_target env) c (dsr_key x) (dsr_record x) (dsr_detect x) (dsr_hash x)
        (env_now env) (io_db s) = Inr (io_db s1)" by (auto simp: begin_attempt_def try_db_Inr)
    from settled_attempt [OF written(2) this apply_camera_db applied_in_after] have "applied_in env c x (io_db s')" .
    moreover have "holds_in x snap \<and> read_back env snap"
      using written(2) by (rule settle_True) (rule apply_camera_holds)
    ultimately show ?thesis by simp
  qed
qed



subsection \<open>Nothing to do\<close>

definition off_in :: "string \<Rightarrow> snapshot \<Rightarrow> bool" where
  "off_in key snap \<longleftrightarrow>
     (case dget_or (snp_config snap) ''cameras'' (PDict []) of
        PDict m \<Rightarrow> (case dget m key of PDict d \<Rightarrow> dget d ''enabled'' = PBool False | _ \<Rightarrow> True)
      | _ \<Rightarrow> False)"

definition idle_camera :: "frigate_env \<Rightarrow> db \<Rightarrow> string \<Rightarrow> snapshot \<Rightarrow> frigate_camera \<Rightarrow> bool" where
  "idle_camera env d password snap cam \<longleftrightarrow>
     (let binding = frigate_binding (env_target env) (cam_uuid (frc_camera cam)) d in
      if \<not> cam_enabled (frc_camera cam)
      then (case binding of None \<Rightarrow> True | Some b \<Rightarrow> off_in (fbd_key b) snap)
      else
        (case env_host env (frc_mode cam) of
           Inl _ \<Rightarrow> False
         | Inr host \<Rightarrow>
             (case desired_camera (env_digest env) (env_ipv6 env) cam password host of
                Inr (Some x) \<Rightarrow> holds_in x snap \<and> applied_in env (cam_uuid (frc_camera cam)) x d
                  \<and> up_to_date binding (map_of (retired_frigate_cameras (env_target env) d) (dsr_key x)) x
              | _ \<Rightarrow> False)))"

lemma idle_camera_error:
  "idle_camera env (set_frigate_selection_error t c code d) password snap cam = idle_camera env d password snap cam"
proof -
  have "retired_frigate_cameras u (set_frigate_selection_error t c code d) = retired_frigate_cameras u d" for u
    by (simp add: retired_frigate_cameras_def set_frigate_selection_error_def)
  moreover have "applied_in env u x (set_frigate_selection_error t c code d) = applied_in env u x d" for u x
    by (simp add: applied_in_def)
  ultimately show ?thesis by (simp only: idle_camera_def binding_untouched)
qed

lemma resource_exists_known:
  "list_all (\<lambda>a. dhas a runtime) aliases \<Longrightarrow> \<exists>b. resource_exists aliases (PDict configured) (PDict runtime) = Inr b"
  by (induction aliases) (auto simp: resource_exists_def py_in_def bind_err_def)

lemma holds_in_documents:
  assumes "holds_in x snap" and "dsr_streams x \<noteq> []"
  obtains b configured where "py_in (dsr_key x) (dget_or (snp_config snap) ''cameras'' (PDict [])) = Inr b"
    and "bind_err (attr_get (PDict (snp_paths snap)) ''go2rtc'' (PDict [])) (\<lambda>g. attr_get g ''streams'' (PDict []))
      = Inr (PDict configured)"
    and "list_all (\<lambda>a. dhas a (snp_runtime snap)) (map fst (dsr_streams x))"
proof -
  let ?cams = "dget_or (snp_config snap) ''cameras'' (PDict [])"
  have mm: "actual_mismatch x (snp_config snap) (snp_paths snap) (snp_raw snap) (snp_runtime snap) = Inr None"
    using assms by (simp add: holds_in_def snapshot_mismatch_def)
  have "owned_camera_mismatch PNone x p r = Inr (Some ''camera_configuration_missing'')" for p r
    by (simp add: owned_camera_mismatch_def)
  then have "\<exists>m. ?cams = PDict m"
    using mm by (cases ?cams) (simp_all add: actual_mismatch_def bind_err_def)
  then obtain b where "py_in (dsr_key x) ?cams = Inr b" by (auto simp: py_in_def)
  moreover let ?g = "dget_or (snp_paths snap) ''go2rtc'' (PDict [])"
  let ?same = "\<lambda>s. list_all (\<lambda>(name, src). py_eq (dget s name) (PList [PStr src])) (dsr_streams x)"
  have saved: "case (case ?g of PDict g \<Rightarrow> dget_or g ''streams'' (PDict []) | _ \<Rightarrow> PDict []) of PDict s \<Rightarrow> ?same s | _ \<Rightarrow> False"
    and runtime: "list_all (\<lambda>(name, _). dhas name (snp_runtime snap)) (dsr_streams x)"
    using mm unfolding actual_mismatch_def Let_def
    by (simp_all add: bind_err_def split: sum.splits option.splits if_splits)
  have "\<not> ?same []"
    using assms(2) by (cases "dsr_streams x") (auto simp: num_of_def)
  then obtain g configured where "?g = PDict g" "dget_or g ''streams'' (PDict []) = PDict configured"
    using saved by (auto split: pyval.splits)
  ultimately show thesis
    using runtime by (intro that) (auto simp: attr_get_def bind_err_def list_all_iff)
qed

lemma io_step:
  "bind_io (lift_err (Inr x)) f s = f x s" "bind_io (read_db g) f' s = f' (g (io_db s)) s"
  "bind_io (write_db h) k s = k () (s\<lparr>io_db := h (io_db s)\<rparr>)" "bind_io (ret y) k' s = k' y s"
  by (simp_all add: bind_io_def lift_err_def read_db_def write_db_def ret_def)

lemma sync_camera_idle:
  assumes "idle_camera env (io_db s) password snap cam"
  shows "sync_camera env allow password cam snap s =
    (Inr (True, snap), s\<lparr>io_db := set_frigate_selection_error (env_target env) (cam_uuid (frc_camera cam)) None (io_db s)\<rparr>)"
proof -
  let ?c = "cam_uuid (frc_camera cam)"
  let ?d = "set_frigate_selection_error (env_target env) ?c None (io_db s)"
  let ?b = "frigate_binding (env_target env) ?c (io_db s)"
  show ?thesis
  proof (cases "cam_enabled (frc_camera cam)")
    case False
    have "sync_disabled env ?c ?b snap s' = (Inr (True, snap), s')" for s'
    proof (cases ?b)
      case None
      then show ?thesis by (simp add: sync_disabled_def ret_def)
    next
      case (Some b)
      with assms False have off: "off_in (fbd_key b) snap" by (simp add: idle_camera_def)
      then obtain m where m: "dget_or (snp_config snap) ''cameras'' (PDict []) = PDict m"
        and k: "case dget m (fbd_key b) of PDict d \<Rightarrow> dget d ''enabled'' = PBool False | _ \<Rightarrow> True"
        by (auto simp: off_in_def split: pyval.splits)
      have e: "bind_err (attr_get (PDict (snp_config snap)) ''cameras'' (PDict [])) (\<lambda>m. attr_get m (fbd_key b) PNone) =
          Inr (dget m (fbd_key b))"
        using m by (simp add: attr_get_def bind_err_def dget_def dget_or_def split: option.splits)
      show ?thesis
        using Some k by (simp add: sync_disabled_def e io_step) (cases "dget m (fbd_key b)"; simp add: ret_def)
    qed
    with False show ?thesis by (simp add: sync_camera_def selection_error_def io_step Let_def)
  next
    case True
    then obtain host x where host: "env_host env (frc_mode cam) = Inr host"
      and x: "desired_camera (env_digest env) (env_ipv6 env) cam password host = Inr (Some x)"
      and idle: "holds_in x snap" "applied_in env ?c x (io_db s)"
        "up_to_date ?b (map_of (retired_frigate_cameras (env_target env) (io_db s)) (dsr_key x)) x"
      using assms by (auto simp: idle_camera_def Let_def split: sum.splits option.splits)
    have some: "dsr_streams x \<noteq> []" using desired_names(2) [OF x] by auto
    obtain ex configured where docs: "py_in (dsr_key x) (dget_or (snp_config snap) ''cameras'' (PDict [])) = Inr ex"
      "bind_err (attr_get (PDict (snp_paths snap)) ''go2rtc'' (PDict [])) (\<lambda>g. attr_get g ''streams'' (PDict []))
        = Inr (PDict configured)"
      "list_all (\<lambda>a. dhas a (snp_runtime snap)) (map fst (dsr_streams x))"
      using idle(1) some by (rule holds_in_documents)
    obtain al where al: "resource_exists (map fst (dsr_streams x)) (PDict configured) (PDict (snp_runtime snap)) = Inr al"
      using resource_exists_known [OF docs(3)] by blast
    have restore: "map_of (retired_frigate_cameras (env_target env) ?d) (dsr_key x) = None"
      using idle(3) by (auto simp: up_to_date_def retired_frigate_cameras_def set_frigate_selection_error_def
          split: option.splits)
    have bound: "map_option fbd_status ?b = Some BindApplied" "up_to_date ?b None x"
      using idle(2,3) by (auto simp: applied_in_def up_to_date_def split: option.splits)
    have "sync_owned env allow ?c x ?b None ex snap s' = (Inr (True, snap), s')" for s'
      using bound idle(1) by (simp add: sync_owned_def holds_in_def io_step) (simp add: ret_def)
    then have "sync_desired env allow ?c x ?b snap (s\<lparr>io_db := ?d\<rparr>) = (Inr (True, snap), s\<lparr>io_db := ?d\<rparr>)"
      unfolding sync_desired_def docs al io_step using restore bound(2)
      by (auto simp: up_to_date_def docs al io_step split: option.splits)
    then show ?thesis
      using True host x by (simp add: sync_camera_def selection_error_def io_step Let_def)
  qed
qed

definition clear_errors :: "string \<Rightarrow> frigate_camera list \<Rightarrow> db \<Rightarrow> db" where
  "clear_errors t cams d = foldl (\<lambda>d cam. set_frigate_selection_error t (cam_uuid (frc_camera cam)) None d) d cams"

lemma sync_cameras_idle:
  "list_all (idle_camera env (io_db s) password snap) cams \<Longrightarrow>
   sync_cameras env allow password cams snap (applied, pending) s =
   (Inr (applied + length cams, pending), s\<lparr>io_db := clear_errors (env_target env) cams (io_db s)\<rparr>)"
proof (induction cams arbitrary: s applied)
  case Nil
  then show ?case by (simp add: clear_errors_def ret_def)
next
  case (Cons cam cams)
  let ?s = "s\<lparr>io_db := set_frigate_selection_error (env_target env) (cam_uuid (frc_camera cam)) None (io_db s)\<rparr>"
  have "sync_camera env allow password cam snap s = (Inr (True, snap), ?s)"
    using Cons.prems by (intro sync_camera_idle) simp
  moreover have "list_all (idle_camera env (io_db ?s) password snap) cams"
    using Cons.prems by (simp add: idle_camera_error list_all_iff)
  ultimately show ?case
    using Cons.IH [of ?s "Suc applied"] by (simp add: bind_io_def clear_errors_def)
qed

lemma ask_log: "ask serve q s = (Inr v, s') \<Longrightarrow> s' = s\<lparr>io_log := io_log s @ [q]\<rparr>"
  by (auto simp: ask_def split: sum.splits)

lemma ask_dict_log: "ask_dict serve q s = (Inr v, s') \<Longrightarrow> s' = s\<lparr>io_log := io_log s @ [q]\<rparr>"
  by (auto simp: ask_dict_def io_Inr dict_case_Inr dest: ask_log)

lemma capabilities_log:
  "capabilities serve s = (Inr u, s') \<Longrightarrow> s' = s\<lparr>io_log := io_log s @ [GetOpenapi]\<rparr>"
  by (auto simp: capabilities_def io_Inr split: if_splits dest: ask_log)

lemma get_raw_config_log:
  "get_raw_config yaml serve s = (Inr v, s') \<Longrightarrow> s' = s\<lparr>io_log := io_log s @ [GetRawConfig]\<rparr>"
proof -
  assume "get_raw_config yaml serve s = (Inr v, s')"
  then obtain t where "raw_config_text serve s = (Inr t, s')"
    by (auto simp: get_raw_config_def bind_io_Inr dict_case_Inr ret_Inr throw_Inr split: option.splits)
  then show ?thesis by (auto simp: raw_config_text_def io_Inr text_case_Inr dest: ask_log)
qed

lemma get_stats_log: "get_stats serve s = (Inr v, s') \<Longrightarrow> s' = s\<lparr>io_log := io_log s @ [GetStats]\<rparr>"
  by (auto simp: get_stats_def io_Inr dict_case_Inr dest: ask_dict_log)

lemma read_state_log:
  assumes "read_state env s = (Inr snap, s')"
  shows "s' = s\<lparr>io_log := io_log s @ reads\<rparr>"
  using assms
  by (auto simp: read_state_def io_Inr get_config_def get_raw_paths_def get_runtime_streams_def
      dest!: ask_dict_log get_raw_config_log get_stats_log)

text \<open>
  C23: When every selected camera is up to date (its wanted configuration is the one recorded as
  applied, Frigate holds it and runs it, nothing of it is retired; a camera that is switched off is
  off in Frigate), a reconciliation counts all of them as applied, sends Frigate the six reads of
  a round and no update, and changes nothing in the database but the errors of the selections,
  which it clears.
\<close>
theorem quiet_when_current:
  assumes "cams = filter (\<lambda>c. case only of None \<Rightarrow> True | Some u \<Rightarrow> cam_uuid (frc_camera c) = u)
      (selected_camera_inventory (env_target env) (io_db s))" and "cams \<noteq> []"
    and "capabilities (env_serve env) s = (Inr (), s1)" and "read_state env s1 = (Inr snap, s2)"
    and "access_password env s2 = (Inr password, s2)"
    and "list_all (idle_camera env (io_db s) password snap) cams"
  shows "reconcile_frigate env allow only s =
    (Inr (length cams, 0), \<lparr>io_db = clear_errors (env_target env) cams (io_db s), io_log = io_log s @ GetOpenapi # reads\<rparr>)"
proof -
  have s2: "s2 = \<lparr>io_db = io_db s, io_log = io_log s @ GetOpenapi # reads\<rparr>"
    using capabilities_log [OF assms(3)] read_state_log [OF assms(4)] by simp
  then have "sync_cameras env allow password cams snap (0, 0) s2 =
      (Inr (length cams, 0), \<lparr>io_db = clear_errors (env_target env) cams (io_db s), io_log = io_log s @ GetOpenapi # reads\<rparr>)"
    using sync_cameras_idle [of env s2 password snap cams allow 0 0] assms(6) by simp
  then show ?thesis
    using assms(2-5) unfolding reconcile_frigate_def read_db_def bind_io_def assms(1) [symmetric] by simp
qed

theorem quiet_when_current_witness:
  "reconcile_frigate (demo_env True) False None \<lparr>io_db = demo_bound, io_log = []\<rparr> =
   (Inr (1, 0), \<lparr>io_db = clear_errors ''main'' [demo_frigate_camera] demo_bound, io_log = GetOpenapi # reads\<rparr>)"
proof -
  let ?s = "\<lambda>l. \<lparr>io_db = demo_bound, io_log = l\<rparr>"
  have inventory: "selected_camera_inventory ''main'' demo_bound = [demo_frigate_camera]" by code_simp
  have "access_password (demo_env True) (?s l) = (Inr ''pw'', ?s l)" for l
    by (simp add: access_password_def rtsp_access_password_def demo_frigate_simps row_get_def)
  moreover have "idle_camera (demo_env True) demo_bound ''pw'' (demo_snap True) demo_frigate_camera"
  proof -
    have "cam_enabled (frc_camera demo_frigate_camera)" "cam_uuid (frc_camera demo_frigate_camera) = ''c1''"
      by (simp_all add: demo_frigate_camera_def demo_camera_def)
    moreover have "frigate_binding ''main'' ''c1'' demo_bound = Some demo_binding" "retired_cameras demo_bound = []"
      by (simp_all add: frigate_binding_def row_get_def demo_frigate_simps)
    moreover have "holds_in demo_desired (demo_snap True)"
      by (simp add: holds_in_def demo_mismatch demo_running)
    ultimately show ?thesis
      by (simp add: idle_camera_def demo_env_fields demo_want applied_in_def up_to_date_def retired_frigate_cameras_def)
        (simp add: demo_binding_def demo_desired_def)
  qed
  ultimately show ?thesis
    using quiet_when_current [of "[demo_frigate_camera]" None "demo_env True" "?s []" "?s [GetOpenapi]"
        "demo_snap True" "?s (GetOpenapi # reads)" "''pw''" False]
    by (simp add: inventory demo_env_fields demo_capabilities demo_read_state)
qed

end
