(* ===== verification/Media.thy ===== *)
theory Media
  imports Programs Streams RtspUri PyNumbers
begin

text \<open>
  The media relay (camadmiral/media.py). The relay go2rtc and ffprobe are not code of the repository:
  \<open>relay\<close> answers a request as a function of the requests sent before, \<open>env_ffprobe\<close> is what a run of
  ffprobe on an address ends with. Programs run on the database and the log of requests. The results of
  concurrent probes are listed in the order of their sources.
\<close>

datatype py_exn =
    HttpError
  | Unreachable
  | RuntimeErr string
  | ValueErr string
  | DatabaseErr repo_error
  | CryptoErr crypto_error
  | OtherErr string

datatype relay_request =
    RelayApi
  | RelayStreams
  | RelayPut string string
  | RelayDelete string
  | RelayPreloads
  | RelayPreloadOn string
  | RelayPreloadOff string
  | RelayConfig "(string \<times> string) list"
  | RelayRestart

text \<open>An answer is the body as a JSON document (\<open>None\<close> where it is not JSON) or a failed exchange.\<close>

datatype relay_answer = Body "pyval option" | HttpStatus | NoConnection

datatype ffprobe_outcome = TimedOut | Exited int string "pyval option"

record media_state =
  med_db :: db
  med_log :: "relay_request list"

type_synonym 'a media = "(media_state, py_exn, 'a) prog"

record media_env =
  env_relay :: "relay_request list \<Rightarrow> relay_request \<Rightarrow> relay_answer"
  env_rtsp :: string
  env_ffprobe :: "string \<Rightarrow> ffprobe_outcome \<times> int"
  env_revision :: "source_ref list \<Rightarrow> string"
  env_cipher :: "string \<Rightarrow> string \<Rightarrow> string"
  env_plain :: "string \<Rightarrow> string \<Rightarrow> crypto_error + string"
  env_secret :: string
  env_time :: timestamp
  env_epoch :: rat

definition ask_relay :: "media_env \<Rightarrow> relay_request \<Rightarrow> pyval option media" where
  "ask_relay env q s =
     (let s' = s\<lparr>med_log := med_log s @ [q]\<rparr> in
      case env_relay env (med_log s) q of
        Body v \<Rightarrow> (Inr v, s')
      | HttpStatus \<Rightarrow> (Inl HttpError, s')
      | NoConnection \<Rightarrow> (Inl Unreachable, s'))"

definition read_media :: "(db \<Rightarrow> 'a) \<Rightarrow> 'a media" where
  "read_media f s = (Inr (f (med_db s)), s)"

definition update_media :: "(db \<Rightarrow> py_exn + 'a \<times> db) \<Rightarrow> 'a media" where
  "update_media f s =
     (case f (med_db s) of Inl e \<Rightarrow> (Inl e, s) | Inr (x, d) \<Rightarrow> (Inr x, s\<lparr>med_db := d\<rparr>))"

definition save_media :: "(db \<Rightarrow> repo_error + db) \<Rightarrow> unit media" where
  "save_media f = update_media (\<lambda>d. case f d of Inl e \<Rightarrow> Inl (DatabaseErr e) | Inr d' \<Rightarrow> Inr ((), d'))"

definition ignore_errors :: "unit media \<Rightarrow> unit media" where
  "ignore_errors m = catch_all m (\<lambda>_. ret ())"

subsection \<open>Streams of the relay\<close>

text \<open>Only a failed exchange is caught; \<open>ask_relay\<close> raises nothing else.\<close>

fun wait_for_go2rtc :: "media_env \<Rightarrow> nat \<Rightarrow> unit media" where
  "wait_for_go2rtc env 0 = ret ()"
| "wait_for_go2rtc env (Suc n) =
     catch_all (bind_io (ask_relay env RelayApi) (\<lambda>_. ret ()))
       (\<lambda>e. if n = 0 then throw e else wait_for_go2rtc env n)"

text \<open>Iterating over a JSON document.\<close>

definition py_iter :: "pyval \<Rightarrow> py_exn + pyval list" where
  "py_iter v =
     (case v of
        PDict d \<Rightarrow> Inr (map (\<lambda>(k, _). PStr k) d)
      | PList l \<Rightarrow> Inr l
      | PStr s \<Rightarrow> Inr (map (\<lambda>c. PStr [c]) s)
      | _ \<Rightarrow> Inl (OtherErr ''TypeError''))"

definition stream_prefix :: string where
  "stream_prefix = ''stream_''"

definition drop_unwanted :: "media_env \<Rightarrow> string list \<Rightarrow> pyval \<Rightarrow> unit media" where
  "drop_unwanted env wanted v =
     (case v of
        PStr name \<Rightarrow>
          if startswith name stream_prefix \<and> name \<notin> set wanted
          then bind_io (ask_relay env (RelayDelete name)) (\<lambda>_. ret ()) else ret ()
      | _ \<Rightarrow> throw (OtherErr ''AttributeError''))"

definition source_address :: "managed_source \<Rightarrow> py_exn + string" where
  "source_address s =
     (case authenticated_rtsp_uri (mgs_uri s) (mgs_username s) (mgs_password s) of
        None \<Rightarrow> Inl (ValueErr ''Unsupported media source URI'')
      | Some uri \<Rightarrow> Inr uri)"

definition reconcile_streams :: "media_env \<Rightarrow> managed_source list \<Rightarrow> unit media" where
  "reconcile_streams env srcs =
     bind_io (wait_for_go2rtc env 20) (\<lambda>_.
     bind_io (ask_relay env RelayStreams) (\<lambda>body.
     bind_io (lift_err (py_iter (case body of None \<Rightarrow> PDict [] | Some v \<Rightarrow> v))) (\<lambda>names.
     bind_io (each (drop_unwanted env (map mgs_key srcs)) names) (\<lambda>_.
       each (\<lambda>s. bind_io (lift_err (source_address s)) (\<lambda>uri.
         bind_io (ask_relay env (RelayPut (mgs_key s) uri)) (\<lambda>_. ret ()))) srcs))))"

definition dict_keys :: "string \<Rightarrow> pyval option \<Rightarrow> py_exn + string list" where
  "dict_keys err body = (case body of Some (PDict d) \<Rightarrow> Inr (map fst d) | _ \<Rightarrow> Inl (RuntimeErr err))"

definition runtime_stream_keys :: "media_env \<Rightarrow> string list media" where
  "runtime_stream_keys env =
     bind_io (ask_relay env RelayStreams) (\<lambda>body. lift_err (dict_keys ''go2rtc returned invalid stream state'' body))"

definition preload_stream_keys :: "media_env \<Rightarrow> string list media" where
  "preload_stream_keys env =
     bind_io (ask_relay env RelayPreloads) (\<lambda>body. lift_err (dict_keys ''go2rtc returned invalid preload state'' body))"

definition start_preload :: "media_env \<Rightarrow> string \<Rightarrow> bool media" where
  "start_preload env key =
     catch_all (bind_io (ask_relay env (RelayPreloadOn key)) (\<lambda>_. ret True)) (\<lambda>_. ret False)"

definition restart_preload :: "media_env \<Rightarrow> string \<Rightarrow> bool media" where
  "restart_preload env key =
     bind_io (ignore_errors (bind_io (ask_relay env (RelayPreloadOff key)) (\<lambda>_. ret ())))
       (\<lambda>_. start_preload env key)"

definition reconcile_preloads :: "media_env \<Rightarrow> string list \<Rightarrow> unit media" where
  "reconcile_preloads env wanted =
     bind_io (preload_stream_keys env) (\<lambda>current.
     bind_io (each (\<lambda>k. if startswith k stream_prefix
         then bind_io (ask_relay env (RelayPreloadOff k)) (\<lambda>_. ret ()) else ret ())
       (sort (remdups (filter (\<lambda>k. k \<notin> set wanted) current)))) (\<lambda>_.
     each (\<lambda>k. bind_io (start_preload env k) (\<lambda>_. ret ()))
       (sort (remdups (filter (\<lambda>k. k \<notin> set current) wanted)))))"

text \<open>\<open>persisted\<close> is a dict: a repeated key keeps its first place and its last address.\<close>

fun persisted_streams :: "managed_source list \<Rightarrow> (string \<times> string) list \<Rightarrow> py_exn + (string \<times> string) list" where
  "persisted_streams [] acc = Inr acc"
| "persisted_streams (s # srcs) acc =
     bind_err (source_address s) (\<lambda>uri. persisted_streams srcs (AList.update (mgs_key s) uri acc))"

definition replace_streams :: "media_env \<Rightarrow> managed_source list \<Rightarrow> unit media" where
  "replace_streams env srcs =
     bind_io (wait_for_go2rtc env 20) (\<lambda>_.
     bind_io (lift_err (persisted_streams srcs [])) (\<lambda>persisted.
       if persisted = [] then ret ()
       else
         bind_io (ask_relay env (RelayConfig persisted)) (\<lambda>_.
         bind_io (catch_all (bind_io (ask_relay env RelayRestart) (\<lambda>_. ret ()))
           (\<lambda>e. if e = HttpError then throw e else ret ())) (\<lambda>_.
           wait_for_go2rtc env 50))))"

subsection \<open>Probes\<close>

definition attr :: "pyval \<Rightarrow> string \<Rightarrow> py_exn + pyval" where
  "attr v k = (case v of PDict d \<Rightarrow> Inr (dget d k) | _ \<Rightarrow> Inl (OtherErr ''AttributeError''))"

text \<open>\<open>next((x for x in xs if x.get('codec_type') == kind), None)\<close>\<close>

fun first_codec :: "string \<Rightarrow> pyval list \<Rightarrow> py_exn + pyval option" where
  "first_codec kind [] = Inr None"
| "first_codec kind (x # xs) =
     bind_err (attr x ''codec_type'') (\<lambda>t. if t = PStr kind then Inr (Some x) else first_codec kind xs)"

definition fps_of :: "pyval \<Rightarrow> py_exn + rat" where
  "fps_of v =
     (if \<not> truthy v \<or> v \<in> {PStr ''0/0'', PStr ''N/A''} then Inr 0
      else
        case v of
          PStr s \<Rightarrow>
            (case partition_char CHR ''/'' s of (a, slash, b) \<Rightarrow>
               (case (parse_float a, parse_float b) of
                  (Some x, Some y) \<Rightarrow> Inr (if slash \<and> y \<noteq> 0 then x / y else 0)
                | _ \<Rightarrow> Inr 0))
        | PList _ \<Rightarrow> Inl (OtherErr ''TypeError'')
        | PDict _ \<Rightarrow> Inl (OtherErr ''TypeError'')
        | _ \<Rightarrow> Inl (OtherErr ''AttributeError''))"

text \<open>ffprobe reports the name of a codec as text.\<close>

definition codec_text :: "pyval option \<Rightarrow> string option" where
  "codec_text v =
     (case v of Some (PDict d) \<Rightarrow> (case dget d ''codec_name'' of PStr s \<Rightarrow> Some s | _ \<Rightarrow> None) | _ \<Rightarrow> None)"

definition int_field :: "pyval \<Rightarrow> string \<Rightarrow> py_exn + int" where
  "int_field v k =
     bind_err (attr v k) (\<lambda>x. case py_int_or_zero x of None \<Rightarrow> Inl (ValueErr ''int'') | Some n \<Rightarrow> Inr n)"

definition media_result :: "int \<Rightarrow> pyval \<Rightarrow> py_exn + probe_result" where
  "media_result latency document =
     bind_err (case document of
         PDict d \<Rightarrow> Inr (dget_or d ''streams'' (PList [])) | _ \<Rightarrow> Inl (OtherErr ''AttributeError'')) (\<lambda>v.
     bind_err (py_iter v) (\<lambda>xs.
     bind_err (first_codec ''video'' xs) (\<lambda>video.
     bind_err (first_codec ''audio'' xs) (\<lambda>audio.
       case video of
         None \<Rightarrow> Inr ((simple_result ''no_video'' latency)\<lparr>pr_acodec := codec_text audio\<rparr>)
       | Some x \<Rightarrow>
           bind_err (int_field x ''width'') (\<lambda>w.
           bind_err (int_field x ''height'') (\<lambda>h.
           bind_err (bind_err (attr x ''avg_frame_rate'') fps_of) (\<lambda>fps.
             Inr \<lparr>pr_status = ''ready'', pr_latency = latency, pr_vcodec = codec_text video,
                  pr_acodec = codec_text audio, pr_width = w, pr_height = h, pr_fps = fps\<rparr>)))))))"

definition probe_uri :: "media_env \<Rightarrow> string \<Rightarrow> py_exn + probe_result" where
  "probe_uri env uri =
     (case env_ffprobe env uri of
        (TimedOut, latency) \<Rightarrow> Inr (simple_result ''timeout'' latency)
      | (Exited code err out, latency) \<Rightarrow>
          if code \<noteq> 0 then
            (let e = py_lower err in
             Inr (simple_result (if contains e ''401 unauthorized'' \<or> contains e ''403 forbidden''
                                 then ''auth_failed'' else ''unavailable'') latency))
          else
            (case out of
               None \<Rightarrow> Inr (simple_result ''invalid_media'' latency)
             | Some document \<Rightarrow> media_result latency document))"

definition probe_source :: "media_env \<Rightarrow> string \<Rightarrow> string \<Rightarrow> string \<Rightarrow> py_exn + probe_result" where
  "probe_source env uri username password =
     (case authenticated_rtsp_uri uri username password of
        None \<Rightarrow> Inl (ValueErr ''Unsupported media source URI'') | Some u \<Rightarrow> probe_uri env u)"

definition probe_stream :: "media_env \<Rightarrow> string \<Rightarrow> string \<Rightarrow> string \<Rightarrow> py_exn + probe_result" where
  "probe_stream env key username password = probe_source env (env_rtsp env @ ''/'' @ key) username password"

definition or_error :: "py_exn + probe_result \<Rightarrow> probe_result" where
  "or_error r = (case r of Inl _ \<Rightarrow> simple_result ''error'' 0 | Inr x \<Rightarrow> x)"

definition probe_streams :: "media_env \<Rightarrow> managed_source list \<Rightarrow> string \<Rightarrow> string \<Rightarrow> (string \<times> probe_result) list" where
  "probe_streams env srcs username password =
     map (\<lambda>s. (mgs_stream s, or_error (probe_stream env (mgs_key s) username password))) srcs"

definition probe_source_entries :: "media_env \<Rightarrow> managed_source list \<Rightarrow> (string \<times> probe_result) list" where
  "probe_source_entries env srcs =
     map (\<lambda>s. (mgs_stream s, or_error (probe_source env (mgs_uri s) (mgs_username s) (mgs_password s)))) srcs"

subsection \<open>Operations on the database and the relay\<close>

definition media_sources :: "media_env \<Rightarrow> source_filter \<Rightarrow> managed_source list media" where
  "media_sources env f =
     update_media (\<lambda>d. case managed_stream_sources (env_plain env) f d of
       Inl e \<Rightarrow> Inl (CryptoErr e) | Inr srcs \<Rightarrow> Inr (srcs, d))"

definition relay_password :: "media_env \<Rightarrow> string media" where
  "relay_password env =
     update_media (\<lambda>d. case rtsp_access_password (env_cipher env) (env_plain env) (env_secret env) (env_time env) d of
       Inl e \<Rightarrow> Inl (CryptoErr e) | Inr r \<Rightarrow> Inr r)"

definition record_results :: "media_env \<Rightarrow> (string \<times> probe_result) list \<Rightarrow> unit media" where
  "record_results env results = update_media (\<lambda>d. Inr ((), record_probe_results results (env_time env) (env_epoch env) d))"

definition start_revision :: "media_env \<Rightarrow> managed_source list \<Rightarrow> (nat \<times> revision_status) media" where
  "start_revision env srcs =
     update_media (\<lambda>d. case record_desired_media_revision (env_revision env) srcs (env_time env) d of
       Inl e \<Rightarrow> Inl (DatabaseErr e) | Inr r \<Rightarrow> Inr r)"

definition finish_revision :: "media_env \<Rightarrow> nat \<times> revision_status \<Rightarrow> string \<Rightarrow> string option \<Rightarrow> unit media" where
  "finish_revision env revision status code =
     (if snd revision = Desired then save_media (complete_media_revision (fst revision) status code (env_time env)) else ret ())"

definition group_by_camera :: "managed_source list \<Rightarrow> managed_source list list" where
  "group_by_camera srcs =
     map (\<lambda>c. filter (\<lambda>s. mgs_camera s = c) srcs) (rev (remdups (rev (map mgs_camera srcs))))"

definition probe_upstreams :: "media_env \<Rightarrow> (string \<times> probe_result) list media" where
  "probe_upstreams env =
     bind_io (media_sources env (every_source\<lparr>flt_auth_failed := False\<rparr>)) (\<lambda>srcs.
       let groups = group_by_camera srcs;
           results = probe_source_entries env (map hd groups) @ probe_source_entries env (concat (map tl groups))
       in bind_io (record_results env results) (\<lambda>_. ret results))"

definition apply_desired :: "media_env \<Rightarrow> managed_source list \<Rightarrow> unit media" where
  "apply_desired env srcs =
     bind_io (reconcile_streams env srcs) (\<lambda>_.
     bind_io (reconcile_preloads env []) (\<lambda>_.
     bind_io (runtime_stream_keys env) (\<lambda>keys.
       if set (map mgs_key srcs) \<subseteq> set keys then ret ()
       else throw (RuntimeErr ''go2rtc did not retain the desired stream set''))))"

definition reconcile_and_probe :: "media_env \<Rightarrow> (string \<times> probe_result) list media" where
  "reconcile_and_probe env =
     bind_io (media_sources env every_source) (\<lambda>srcs.
     bind_io (start_revision env srcs) (\<lambda>revision.
     bind_io (catch_all (apply_desired env srcs)
       (\<lambda>e. bind_io (finish_revision env revision ''failed'' (Some ''runtime_apply_failed'')) (\<lambda>_. throw e))) (\<lambda>_.
     bind_io (finish_revision env revision ''applied'' None) (\<lambda>_.
     bind_io (relay_password env) (\<lambda>password.
       let results = probe_streams env srcs ''camadmiral'' password in
       bind_io (record_results env results) (\<lambda>_. ret results))))))"

definition reconcile_runtime_drift :: "media_env \<Rightarrow> bool media" where
  "reconcile_runtime_drift env =
     bind_io (media_sources env every_source) (\<lambda>srcs.
     bind_io (runtime_stream_keys env) (\<lambda>keys.
       if set (filter (\<lambda>k. startswith k stream_prefix) keys) = set (map mgs_key srcs) then ret False
       else bind_io (reconcile_and_probe env) (\<lambda>_. ret True)))"

end
