(* ===== verification/MediaDemo.thy ===== *)
theory MediaDemo
  imports Media HealthProps
begin

text \<open>
  An instance of the media layer that the witnesses evaluate: the database with one camera and one
  stream, a relay that holds what it is told to hold, and a camera that refuses its credentials.
\<close>

definition demo_source :: managed_source where
  "demo_source =
     \<lparr>mgs_stream = ''m1'', mgs_key = ''stream_a'', mgs_camera = ''c1'', mgs_uri = ''rtsp://cam/a'',
      mgs_username = ''u'', mgs_password = ''p'', mgs_credential = ''s1''\<rparr>"

definition demo_profile :: profile_row where
  "demo_profile = (blank_profile ''p1'' ''c1'' ''tok'')\<lparr>prf_uri := Some ''rtsp://cam/a''\<rparr>"

definition demo_media_db :: db where
  "demo_media_db = demo_db\<lparr>
     credentials := [\<lparr>crd_uuid = ''s1'', crd_username = ''u'', crd_cipher = ''p'', crd_created = 1, crd_updated = 1\<rparr>],
     profiles := [demo_profile],
     streams := [demo_stream\<lparr>str_key := ''stream_a''\<rparr>],
     bindings := [\<lparr>bnd_camera = ''c1'', bnd_role = Record, bnd_stream = ''m1'', bnd_updated = 1\<rparr>,
                  \<lparr>bnd_camera = ''c1'', bnd_role = Detect, bnd_stream = ''m1'', bnd_updated = 1\<rparr>],
     service_secrets := [\<lparr>sec_name = ''rtsp-access'', sec_cipher = ''pw'', sec_created = 1, sec_updated = 1\<rparr>]\<rparr>"

lemma demo_profile_uri: "profile_uri demo_profile = ''rtsp://cam/a''"
  by code_simp

lemma demo_joined:
  "flt_camera f = None \<Longrightarrow> joined_sources f demo_media_db =
     [(demo_stream\<lparr>str_key := ''stream_a''\<rparr>, demo_profile,
       \<lparr>crd_uuid = ''s1'', crd_username = ''u'', crd_cipher = ''p'', crd_created = 1, crd_updated = 1\<rparr>)]"
  by (cases "flt_role f"; cases "the (flt_role f)")
     (simp_all add: joined_sources_def demo_media_db_def demo_simps stream_profile_def row_get_def source_wanted_def
       has_row_def demo_profile_def blank_profile_def)

lemma demo_sources:
  "flt_camera f = None \<Longrightarrow> managed_stream_sources (\<lambda>c _. Inr c) f demo_media_db = Inr [demo_source]"
  by (simp add: managed_stream_sources_def demo_joined demo_profile_uri demo_source_def demo_stream_def bind_err_def)

lemma demo_address: "source_address demo_source = Inr ''rtsp://u:p@cam/a''"
  by code_simp

lemma demo_prefix: "startswith (mgs_key demo_source) stream_prefix"
  by code_simp

fun demo_keys :: "relay_request list \<Rightarrow> string list \<Rightarrow> string list" where
  "demo_keys [] ks = ks"
| "demo_keys (RelayPut k _ # l) ks = demo_keys l (k # ks)"
| "demo_keys (RelayDelete k # l) ks = demo_keys l (filter (\<lambda>j. j \<noteq> k) ks)"
| "demo_keys (_ # l) ks = demo_keys l ks"

definition demo_relay :: "relay_request list \<Rightarrow> relay_request \<Rightarrow> relay_answer" where
  "demo_relay l q =
     (case q of
        RelayStreams \<Rightarrow> Body (Some (PDict (map (\<lambda>k. (k, PNone)) (demo_keys l [''stream_old'']))))
      | RelayPreloads \<Rightarrow> Body (Some (PDict []))
      | _ \<Rightarrow> Body None)"

definition demo_media_env :: "(relay_request list \<Rightarrow> relay_request \<Rightarrow> relay_answer) \<Rightarrow> media_env" where
  "demo_media_env relay =
     \<lparr>env_relay = relay, env_rtsp = ''rtsp://relay:18554'',
      env_ffprobe = (\<lambda>uri. (Exited 1 ''401 Unauthorized'' None, 20)),
      env_revision = (\<lambda>_. ''digest''), env_cipher = (\<lambda>p _. p), env_plain = (\<lambda>c _. Inr c),
      env_secret = ''fresh'', env_time = 9, env_epoch = 9\<rparr>"

lemma demo_media_env_fields:
  "env_relay (demo_media_env relay) = relay" "env_plain (demo_media_env relay) = (\<lambda>c _. Inr c)"
  "env_revision (demo_media_env relay) = (\<lambda>_. ''digest'')" "env_time (demo_media_env relay) = 9"
  "env_epoch (demo_media_env relay) = 9"
  "env_ffprobe (demo_media_env relay) uri = (Exited 1 ''401 Unauthorized'' None, 20)"
  by (simp_all add: demo_media_env_def)

definition demo_media_start :: media_state where
  "demo_media_start = \<lparr>med_db = demo_media_db, med_log = []\<rparr>"

lemma demo_typed: "\<exists>x. typed_source demo_source = Some x"
proof -
  have "typed_source demo_source \<noteq> None" by code_simp
  then show ?thesis by blast
qed

lemma demo_revision:
  obtains d where "record_desired_media_revision (\<lambda>_. ''digest'') [demo_source] 9 demo_media_db = Inr ((1, Desired), d)"
  using demo_typed
  by (auto simp: record_desired_media_revision_def demo_media_db_def demo_simps)

end
