(* ===== verification/MediaProps.thy ===== *)
theory MediaProps
  imports MediaDemo
begin

text \<open>
  What reconciling the relay promises: it sends only requests about CamAdmiral's own streams, an apply
  that fails is recorded as failed, and a relay that does what it is told ends with exactly the wanted
  streams.
\<close>

subsection \<open>Requests\<close>

definition sends :: "relay_request list \<Rightarrow> (relay_request \<Rightarrow> bool) \<Rightarrow> media_state \<Rightarrow> bool" where
  "sends old ok s \<longleftrightarrow> (\<exists>new. med_log s = old @ new \<and> (\<forall>q \<in> set new. ok q))"

lemma keeps_sends_ask [keeps_intros]: "ok q \<Longrightarrow> keeps (sends old ok) (ask_relay env q)"
  by (auto simp: keeps_def ask_relay_def sends_def Let_def split: relay_answer.split)

lemma keeps_update_media: "(\<And>s d. I s \<Longrightarrow> I (s\<lparr>med_db := d\<rparr>)) \<Longrightarrow> keeps I (update_media f)"
  by (auto simp: keeps_def update_media_def split: sum.split)

lemma keeps_sends_update [keeps_intros]: "keeps (sends old ok) (update_media f)"
  by (rule keeps_update_media) (simp add: sends_def)

lemma keeps_wait: "ok RelayApi \<Longrightarrow> keeps (sends old ok) (wait_for_go2rtc env n)"
  by (induction n) (auto intro!: keeps_intros)

definition about_streams :: "managed_source list \<Rightarrow> relay_request \<Rightarrow> bool" where
  "about_streams srcs q =
     (case q of
        RelayPut k uri \<Rightarrow> list_ex (\<lambda>s. k = mgs_key s \<and> source_address s = Inr uri) srcs
      | RelayDelete k \<Rightarrow> startswith k stream_prefix \<and> k \<notin> set (map mgs_key srcs)
      | RelayPreloadOff k \<Rightarrow> startswith k stream_prefix
      | RelayPreloadOn k \<Rightarrow> False
      | RelayConfig c \<Rightarrow> False
      | RelayRestart \<Rightarrow> False
      | _ \<Rightarrow> True)"

lemma keeps_drop_unwanted:
  "keeps (sends old (about_streams srcs)) (drop_unwanted env (map mgs_key srcs) v)"
  unfolding drop_unwanted_def
  by (cases v) (auto intro!: keeps_intros simp: about_streams_def)

lemma keeps_put_stream:
  "s \<in> set srcs \<Longrightarrow> keeps (sends old (about_streams srcs))
     (bind_io (lift_err (source_address s)) (\<lambda>uri. bind_io (ask_relay env (RelayPut (mgs_key s) uri)) (\<lambda>_. ret ())))"
  by (rule keeps_bind_lift) (auto intro!: keeps_intros simp: about_streams_def list_ex_iff)

lemma keeps_reconcile_streams: "keeps (sends old (about_streams srcs)) (reconcile_streams env srcs)"
  unfolding reconcile_streams_def
  by (intro keeps_intros keeps_wait keeps_drop_unwanted keeps_put_stream) (auto simp: about_streams_def)

lemma keeps_reconcile_preloads: "keeps (sends old (about_streams srcs)) (reconcile_preloads env [])"
  unfolding reconcile_preloads_def preload_stream_keys_def
  by (intro keeps_intros) (auto simp: about_streams_def)

lemma keeps_runtime_keys: "keeps (sends old (about_streams srcs)) (runtime_stream_keys env)"
  unfolding runtime_stream_keys_def by (intro keeps_intros) (simp add: about_streams_def)

lemma keeps_apply: "keeps (sends old (about_streams srcs)) (apply_desired env srcs)"
  unfolding apply_desired_def
  by (intro keeps_intros keeps_reconcile_streams keeps_reconcile_preloads keeps_runtime_keys)

lemma media_sources_run:
  "managed_stream_sources (env_plain env) f (med_db s) = Inr srcs \<Longrightarrow> media_sources env f s = (Inr srcs, s)"
  by (simp add: media_sources_def update_media_def)

definition apply_and_probe :: "media_env \<Rightarrow> managed_source list \<Rightarrow> (string \<times> probe_result) list media" where
  "apply_and_probe env srcs =
     bind_io (start_revision env srcs) (\<lambda>revision.
     bind_io (catch_all (apply_desired env srcs)
       (\<lambda>e. bind_io (finish_revision env revision ''failed'' (Some ''runtime_apply_failed'')) (\<lambda>_. throw e))) (\<lambda>_.
     bind_io (finish_revision env revision ''applied'' None) (\<lambda>_.
     bind_io (relay_password env) (\<lambda>password.
       let results = probe_streams env srcs ''camadmiral'' password in
       bind_io (record_results env results) (\<lambda>_. ret results)))))"

lemma reconcile_and_probe_run:
  "managed_stream_sources (env_plain env) every_source (med_db s) = Inr srcs \<Longrightarrow>
   reconcile_and_probe env s = apply_and_probe env srcs s"
  by (simp add: reconcile_and_probe_def apply_and_probe_def bind_io_def [of "media_sources env every_source"] media_sources_run)

lemma keeps_finish: "keeps (sends old ok) (finish_revision env revision status code)"
  by (auto simp: finish_revision_def save_media_def intro!: keeps_intros)

lemma keeps_apply_and_probe: "keeps (sends old (about_streams srcs)) (apply_and_probe env srcs)"
  unfolding apply_and_probe_def start_revision_def relay_password_def record_results_def Let_def
  by (intro keeps_intros keeps_apply keeps_finish)

text \<open>
  C25: Reconciling the relay, however it ends, deletes only streams that carry CamAdmiral's prefix and are
  not wanted, and creates only the streams of the cameras' sources, each with its own address and
  credentials; it never rewrites the configuration or restarts the relay.
\<close>

theorem relay_requests_are_ours:
  assumes "managed_stream_sources (env_plain env) every_source (med_db s) = Inr srcs"
  shows "\<exists>new. med_log (snd (reconcile_and_probe env s)) = med_log s @ new
    \<and> (\<forall>q \<in> set new. about_streams srcs q)"
  using keepsD [OF keeps_apply_and_probe, of "med_log s" srcs s env]
  by (simp add: reconcile_and_probe_run [OF assms] sends_def)

subsection \<open>Revisions\<close>

lemma keeps_db_ask [keeps_intros]: "keeps (\<lambda>s. med_db s = d) (ask_relay env q)"
  by (auto simp: keeps_def ask_relay_def Let_def split: relay_answer.split)

lemma keeps_db_wait [keeps_intros]: "keeps (\<lambda>s. med_db s = d) (wait_for_go2rtc env n)"
  by (induction n) (auto intro!: keeps_intros)

lemma keeps_db_apply: "keeps (\<lambda>s. med_db s = d) (apply_desired env srcs)"
  unfolding apply_desired_def reconcile_streams_def reconcile_preloads_def preload_stream_keys_def
    runtime_stream_keys_def drop_unwanted_def start_preload_def
  by (intro keeps_intros) (auto split: pyval.split intro!: keeps_intros)


subsection \<open>Convergence\<close>

text \<open>The streams a relay holds after the requests, from the ones it held before them.\<close>

fun relay_store :: "string set \<Rightarrow> relay_request list \<Rightarrow> string set" where
  "relay_store S [] = S"
| "relay_store S (RelayPut k _ # l) = relay_store (insert k S) l"
| "relay_store S (RelayDelete k # l) = relay_store (S - {k}) l"
| "relay_store S (_ # l) = relay_store S l"

lemma relay_store_append [simp]: "relay_store S (l @ m) = relay_store (relay_store S l) m"
  by (induction S l rule: relay_store.induct) simp_all

text \<open>A relay that answers every request, and lists the streams it was told to hold.\<close>

definition obedient :: "string set \<Rightarrow> media_env \<Rightarrow> bool" where
  "obedient S env \<longleftrightarrow>
     (\<forall>l q. \<exists>v. env_relay env l q = Body v) \<and>
     (\<forall>l. \<exists>d. env_relay env l RelayStreams = Body (Some (PDict d)) \<and> fst ` set d = relay_store S l) \<and>
     (\<forall>l. \<exists>d. env_relay env l RelayPreloads = Body (Some (PDict d)))"

definition holding :: "string set \<Rightarrow> db \<Rightarrow> string set \<Rightarrow> media_state \<Rightarrow> bool" where
  "holding S d H s \<longleftrightarrow> med_db s = d \<and> relay_store S (med_log s) = H"

lemma obedient_ask:
  assumes "obedient S env" "relay_store H [q] = H'"
  shows "achieves (holding S d H) (ask_relay env q) (\<lambda>_. holding S d H')"
  unfolding achieves_def
proof (intro allI impI)
  fix s assume s: "holding S d H s"
  obtain v where "env_relay env (med_log s) q = Body v" using assms(1) unfolding obedient_def by blast
  then show "\<exists>x s'. ask_relay env q s = (Inr x, s') \<and> holding S d H' s'"
    using s assms(2) by (auto simp: ask_relay_def holding_def)
qed

lemma obedient_streams:
  assumes "obedient S env"
  shows "achieves (holding S d H) (ask_relay env RelayStreams)
    (\<lambda>v s. holding S d H s \<and> (\<exists>x. v = Some (PDict x) \<and> fst ` set x = H))"
  unfolding achieves_def
proof (intro allI impI)
  fix s assume s: "holding S d H s"
  obtain x where "env_relay env (med_log s) RelayStreams = Body (Some (PDict x))" "fst ` set x = relay_store S (med_log s)"
    using assms unfolding obedient_def by blast
  then show "\<exists>v s'. ask_relay env RelayStreams s = (Inr v, s') \<and> holding S d H s' \<and>
      (\<exists>x. v = Some (PDict x) \<and> fst ` set x = H)"
    using s by (auto simp: ask_relay_def holding_def)
qed

lemma obedient_preloads:
  assumes "obedient S env"
  shows "achieves (holding S d H) (ask_relay env RelayPreloads) (\<lambda>v s. holding S d H s \<and> (\<exists>x. v = Some (PDict x)))"
  unfolding achieves_def
proof (intro allI impI)
  fix s assume s: "holding S d H s"
  obtain x where "env_relay env (med_log s) RelayPreloads = Body (Some (PDict x))"
    using assms unfolding obedient_def by blast
  then show "\<exists>v s'. ask_relay env RelayPreloads s = (Inr v, s') \<and> holding S d H s' \<and> (\<exists>x. v = Some (PDict x))"
    using s by (auto simp: ask_relay_def holding_def)
qed

lemma achieves_then_ret: "achieves P m (\<lambda>_. Q) \<Longrightarrow> achieves P (bind_io m (\<lambda>_. ret ())) (\<lambda>_. Q)"
  by (rule achieves_bind, assumption) (rule achieves_ret)

lemma wait_achieves:
  "obedient S env \<Longrightarrow> achieves (holding S d H) (wait_for_go2rtc env n) (\<lambda>_. holding S d H)"
  by (cases n) (auto intro!: achieves_ret achieves_catch achieves_then_ret obedient_ask)

lemma drop_achieves:
  assumes "obedient S env"
  shows "achieves (holding S d H) (each (drop_unwanted env wanted) (map PStr names))
    (\<lambda>_. holding S d {k \<in> H. \<not> (k \<in> set names \<and> startswith k stream_prefix \<and> k \<notin> set wanted)})"
proof (induction names arbitrary: H)
  case Nil
  show ?case by (simp add: achieves_ret)
next
  case (Cons k names)
  let ?gone = "startswith k stream_prefix \<and> k \<notin> set wanted"
  have "achieves (holding S d H) (drop_unwanted env wanted (PStr k)) (\<lambda>_. holding S d (if ?gone then H - {k} else H))"
    using assms by (auto simp: drop_unwanted_def intro!: achieves_ret achieves_then_ret obedient_ask)
  note achieves_bind [OF this Cons.IH]
  moreover have "{j \<in> (if ?gone then H - {k} else H). \<not> (j \<in> set names \<and> startswith j stream_prefix \<and> j \<notin> set wanted)} =
      {j \<in> H. \<not> (j \<in> set (k # names) \<and> startswith j stream_prefix \<and> j \<notin> set wanted)}" by auto
  ultimately show ?case by (simp only: list.map each.simps)
qed

lemma put_achieves:
  assumes "obedient S env" "\<forall>s \<in> set srcs. \<exists>uri. source_address s = Inr uri"
  shows "achieves (holding S d H)
    (each (\<lambda>s. bind_io (lift_err (source_address s)) (\<lambda>uri. bind_io (ask_relay env (RelayPut (mgs_key s) uri)) (\<lambda>_. ret ()))) srcs)
    (\<lambda>_. holding S d (H \<union> set (map mgs_key srcs)))"
  using assms(2)
proof (induction srcs arbitrary: H)
  case Nil
  show ?case by (simp add: achieves_ret)
next
  case (Cons s srcs)
  obtain uri where uri: "source_address s = Inr uri" using Cons.prems by auto
  have "achieves (holding S d H) (bind_io (ask_relay env (RelayPut (mgs_key s) uri)) (\<lambda>_. ret ()))
      (\<lambda>_. holding S d (insert (mgs_key s) H))"
    by (rule achieves_then_ret, rule obedient_ask [OF assms(1)]) simp
  from achieves_bind [OF this Cons.IH] Cons.prems show ?case by (simp add: uri bind_lift)
qed

lemma streams_achieve:
  assumes "obedient S env" "\<forall>s \<in> set srcs. \<exists>uri. source_address s = Inr uri"
  shows "achieves (holding S d H) (reconcile_streams env srcs)
    (\<lambda>_. holding S d ({k \<in> H. startswith k stream_prefix \<longrightarrow> k \<in> set (map mgs_key srcs)} \<union> set (map mgs_key srcs)))"
  unfolding reconcile_streams_def
proof (rule achieves_bind [OF wait_achieves [OF assms(1)]], rule achieves_bind [OF obedient_streams [OF assms(1)]])
  fix v
  show "achieves (\<lambda>s. holding S d H s \<and> (\<exists>x. v = Some (PDict x) \<and> fst ` set x = H))
     (bind_io (lift_err (py_iter (case v of None \<Rightarrow> PDict [] | Some v \<Rightarrow> v))) (\<lambda>names.
      bind_io (each (drop_unwanted env (map mgs_key srcs)) names) (\<lambda>_.
       each (\<lambda>s. bind_io (lift_err (source_address s)) (\<lambda>uri.
         bind_io (ask_relay env (RelayPut (mgs_key s) uri)) (\<lambda>_. ret ()))) srcs)))
     (\<lambda>_. holding S d ({k \<in> H. startswith k stream_prefix \<longrightarrow> k \<in> set (map mgs_key srcs)} \<union> set (map mgs_key srcs)))"
    (is "achieves ?P ?m ?Q")
  proof (rule achieves_pre)
    show "\<exists>x. v = Some (PDict x) \<and> fst ` set x = H" if "holding S d H s \<and> (\<exists>x. v = Some (PDict x) \<and> fst ` set x = H)" for s
      using that by blast
    assume "\<exists>x. v = Some (PDict x) \<and> fst ` set x = H"
    then obtain x where x: "v = Some (PDict x)" "fst ` set x = H" by blast
    have names: "py_iter (PDict x) = Inr (map PStr (map fst x))" by (simp add: py_iter_def case_prod_beta)
    have "{k \<in> H. \<not> (k \<in> set (map fst x) \<and> startswith k stream_prefix \<and> k \<notin> set (map mgs_key srcs))} =
        {k \<in> H. startswith k stream_prefix \<longrightarrow> k \<in> set (map mgs_key srcs)}" using x(2) by auto
    with achieves_bind [OF drop_achieves [OF assms(1), of d H "map mgs_key srcs" "map fst x"] put_achieves [OF assms]]
    show "achieves ?P ?m ?Q"
      unfolding x(1) by (simp add: names bind_lift) (erule achieves_conseq; simp)
  qed
qed

lemma preloads_achieve:
  assumes "obedient S env"
  shows "achieves (holding S d H) (reconcile_preloads env []) (\<lambda>_. holding S d H)"
  unfolding reconcile_preloads_def preload_stream_keys_def
proof (rule achieves_bind)
  show "achieves (holding S d H)
     (bind_io (ask_relay env RelayPreloads) (\<lambda>body. lift_err (dict_keys ''go2rtc returned invalid preload state'' body)))
     (\<lambda>_. holding S d H)"
    by (rule achieves_bind [OF obedient_preloads [OF assms]])
       (auto simp: achieves_def lift_err_def dict_keys_def)
  fix current
  have "achieves (holding S d H) (each (\<lambda>k. if startswith k stream_prefix
         then bind_io (ask_relay env (RelayPreloadOff k)) (\<lambda>_. ret ()) else ret ()) ks) (\<lambda>_. holding S d H)" for ks
  proof (induction ks)
    case (Cons k ks)
    have "achieves (holding S d H) (if startswith k stream_prefix
         then bind_io (ask_relay env (RelayPreloadOff k)) (\<lambda>_. ret ()) else ret ()) (\<lambda>_. holding S d H)"
      using assms by (auto intro!: achieves_ret achieves_then_ret obedient_ask)
    from achieves_bind [OF this Cons.IH] show ?case by simp
  qed (simp add: achieves_ret)
  from achieves_then_ret [OF this]
  show "achieves (holding S d H)
     (bind_io (each (\<lambda>k. if startswith k stream_prefix
         then bind_io (ask_relay env (RelayPreloadOff k)) (\<lambda>_. ret ()) else ret ())
       (sort (remdups (filter (\<lambda>k. k \<notin> set []) current)))) (\<lambda>_.
     each (\<lambda>k. bind_io (start_preload env k) (\<lambda>_. ret ())) (sort (remdups (filter (\<lambda>k. k \<notin> set current) [])))))
     (\<lambda>_. holding S d H)" by simp
qed

lemma keys_achieve:
  assumes "obedient S env"
  shows "achieves (holding S d H) (runtime_stream_keys env) (\<lambda>keys s. holding S d H s \<and> set keys = H)"
  unfolding runtime_stream_keys_def
  by (rule achieves_bind [OF obedient_streams [OF assms]]) (auto simp: achieves_def lift_err_def dict_keys_def)

definition wanted_store :: "managed_source list \<Rightarrow> string set \<Rightarrow> string set" where
  "wanted_store srcs H =
     {k \<in> H. startswith k stream_prefix \<longrightarrow> k \<in> set (map mgs_key srcs)} \<union> set (map mgs_key srcs)"

lemma apply_achieves:
  assumes "obedient S env" "\<forall>s \<in> set srcs. \<exists>uri. source_address s = Inr uri"
  shows "achieves (holding S d H) (apply_desired env srcs) (\<lambda>_. holding S d (wanted_store srcs H))"
  unfolding apply_desired_def
proof (rule achieves_bind [OF streams_achieve [OF assms, folded wanted_store_def]],
    rule achieves_bind [OF preloads_achieve [OF assms(1)]], rule achieves_bind [OF keys_achieve [OF assms(1)]])
  fix keys
  show "achieves (\<lambda>s. holding S d (wanted_store srcs H) s \<and> set keys = wanted_store srcs H)
     (if set (map mgs_key srcs) \<subseteq> set keys then ret ()
      else throw (RuntimeErr ''go2rtc did not retain the desired stream set'')) (\<lambda>_. holding S d (wanted_store srcs H))"
    by (rule achieves_pre [where b = "set (map mgs_key srcs) \<subseteq> set keys"]) (auto simp: wanted_store_def intro!: achieves_ret)
qed

lemma no_drift:
  assumes "obedient S env" "managed_stream_sources (env_plain env) every_source (med_db s) = Inr srcs"
    and "{k \<in> relay_store S (med_log s). startswith k stream_prefix} = set (map mgs_key srcs)"
  shows "fst (reconcile_runtime_drift env s) = Inr False"
proof -
  obtain keys s' where keys: "runtime_stream_keys env s = (Inr keys, s')" "set keys = relay_store S (med_log s)"
    using achievesD [OF keys_achieve [OF assms(1)], of "med_db s" "relay_store S (med_log s)" s] by (auto simp: holding_def)
  then show ?thesis
    using assms(3)
    by (simp add: reconcile_runtime_drift_def bind_io_def media_sources_run [OF assms(2)] ret_def)
qed


subsection \<open>Witnesses\<close>

lemma demo_keys_store: "set (demo_keys l ks) = relay_store (set ks) l"
proof (induction l ks rule: demo_keys.induct)
  case (3 k l ks)
  moreover have "set ks - {k} = {x \<in> set ks. x \<noteq> k}" by auto
  ultimately show ?case by simp
qed simp_all

lemma demo_obedient: "obedient {''stream_old''} (demo_media_env demo_relay)"
  unfolding obedient_def demo_media_env_fields
proof (intro conjI allI)
  show "\<exists>v. demo_relay l q = Body v" for l q
    by (cases q) (simp_all add: demo_relay_def)
  show "\<exists>d. demo_relay l RelayStreams = Body (Some (PDict d)) \<and> fst ` set d = relay_store {''stream_old''} l" for l
    using demo_keys_store [of l "[''stream_old'']"] by (auto simp: demo_relay_def image_image)
  show "\<exists>d. demo_relay l RelayPreloads = Body (Some (PDict d))" for l
    by (simp add: demo_relay_def)
qed

lemma demo_media_sources:
  "managed_stream_sources (env_plain (demo_media_env relay)) every_source (med_db demo_media_start) = Inr [demo_source]"
  by (simp add: demo_media_env_fields demo_media_start_def demo_sources every_source_def)


theorem relay_requests_are_ours_witness:
  "list_all (about_streams [demo_source])
     (med_log (snd (reconcile_and_probe (demo_media_env demo_relay) demo_media_start)))"
  using relay_requests_are_ours [OF demo_media_sources [of demo_relay]]
  by (auto simp: demo_media_start_def list_all_iff)

lemma updated_row: "r \<in> set t \<Longrightarrow> P r \<Longrightarrow> f r \<in> set (upd_where P f t)"
  by (force simp: set_upd_where)


end
