(* ===== verification/RelayWatch.thy ===== *)
theory RelayWatch
  imports Media
begin

text \<open>
  Watching the relay's stream table (camadmiral/media.py): who consumes a stream, how many video
  packets its producer has delivered, and the monitor that reports cameras whose viewers receive nothing
  new. \<open>now\<close> is the monotonic clock in seconds.
\<close>

type_synonym video_sample = "string \<times> int"

definition snapshot_agent :: string where
  "snapshot_agent = ''CamAdmiral-Snapshot''"

text \<open>\<open>for x in v or []\<close>\<close>

definition items_of :: "pyval \<Rightarrow> py_exn + pyval list" where
  "items_of v = (if truthy v then py_iter v else Inr [])"

definition external_consumer :: "pyval \<Rightarrow> bool" where
  "external_consumer v = (case v of PDict d \<Rightarrow> dget d ''user_agent'' \<noteq> PStr snapshot_agent | _ \<Rightarrow> True)"

definition has_external_consumers :: "pyval \<Rightarrow> py_exn + bool" where
  "has_external_consumers stream =
     (case stream of
        PDict d \<Rightarrow> bind_err (items_of (dget d ''consumers'')) (\<lambda>l. Inr (list_ex external_consumer l))
      | _ \<Rightarrow> Inr False)"

fun video_packets :: "pyval list \<Rightarrow> bool \<Rightarrow> int \<Rightarrow> py_exn + bool \<times> int" where
  "video_packets [] found n = Inr (found, n)"
| "video_packets (r # rs) found n =
     (case r of
        PDict d \<Rightarrow>
          (case dget d ''codec'' of
             PDict k \<Rightarrow>
               if dget k ''codec_type'' = PStr ''video''
               then bind_err (int_field r ''packets'') (\<lambda>p. video_packets rs True (n + p))
               else video_packets rs found n
           | _ \<Rightarrow> video_packets rs found n)
      | _ \<Rightarrow> video_packets rs found n)"

fun first_video :: "pyval list \<Rightarrow> py_exn + video_sample option" where
  "first_video [] = Inr None"
| "first_video (p # ps) =
     (case p of
        PDict d \<Rightarrow>
          if dhas ''bytes_recv'' d then
            bind_err (items_of (dget d ''receivers'')) (\<lambda>rs.
            bind_err (video_packets rs False 0) (\<lambda>(found, n).
              if found then Inr (Some (py_str (py_or (dget d ''id'') (PStr ''producer'')), n))
              else first_video ps))
          else first_video ps
      | _ \<Rightarrow> first_video ps)"

definition active_video_sample :: "pyval \<Rightarrow> py_exn + video_sample option" where
  "active_video_sample stream =
     (case stream of
        PDict d \<Rightarrow> bind_err (items_of (dget d ''producers'')) first_video
      | _ \<Rightarrow> Inr None)"

subsection \<open>The activity monitor\<close>

record activity =
  act_samples :: "string \<Rightarrow> (string \<times> int \<times> rat) option"
  act_stalled :: "string set"

definition new_activity :: activity where
  "new_activity = \<lparr>act_samples = Map.empty, act_stalled = {}\<rparr>"

definition advanced :: "(string \<times> int \<times> rat) option \<Rightarrow> video_sample option \<Rightarrow> bool" where
  "advanced previous current =
     (case current of
        None \<Rightarrow> False
      | Some (producer, packets) \<Rightarrow>
          (case previous of
             None \<Rightarrow> True
           | Some (producer', packets', _) \<Rightarrow> packets' < packets \<or> (producer' \<noteq> producer \<and> 0 < packets)))"

definition next_sample :: "rat \<Rightarrow> (string \<times> int \<times> rat) option \<Rightarrow> video_sample option \<Rightarrow> string \<times> int \<times> rat" where
  "next_sample now previous current =
     (let since = (if advanced previous current then now
                   else case previous of Some (_, _, t) \<Rightarrow> t | None \<Rightarrow> now);
          (producer, packets) =
            (case current of Some x \<Rightarrow> x
             | None \<Rightarrow> (case previous of Some (i, n, _) \<Rightarrow> (i, n) | None \<Rightarrow> ([], 0)))
      in (producer, packets, since))"

fun poll_sources ::
  "rat \<Rightarrow> rat \<Rightarrow> pydict \<Rightarrow> (string \<times> string \<times> string) list \<Rightarrow> string set \<Rightarrow> string set \<Rightarrow>
   (activity, py_exn, string set \<times> string set) prog" where
  "poll_sources threshold now runtime [] active stalled = ret (active, stalled)"
| "poll_sources threshold now runtime ((u, key, c) # srcs) active stalled =
     bind_io (lift_err (has_external_consumers (dget runtime key))) (\<lambda>watched.
       if \<not> watched then poll_sources threshold now runtime srcs active stalled
       else
         bind_io (lift_err (active_video_sample (dget runtime key))) (\<lambda>current (a :: activity).
           let e = next_sample now (act_samples a u) current in
           poll_sources threshold now runtime srcs (insert u active)
             (if threshold \<le> now - snd (snd e) then insert c stalled else stalled)
             (a\<lparr>act_samples := (act_samples a)(u \<mapsto> e)\<rparr>)))"

definition poll_runtime ::
  "rat \<Rightarrow> rat \<Rightarrow> pydict \<Rightarrow> (string \<times> string \<times> string) list \<Rightarrow> (activity, py_exn, string set) prog" where
  "poll_runtime threshold now runtime srcs =
     bind_io (poll_sources (max 0 threshold) now runtime srcs {} {}) (\<lambda>(active, stalled) (a :: activity).
       (Inr stalled, \<lparr>act_samples = act_samples a |` active, act_stalled = stalled\<rparr>))"

text \<open>Programs on the database, the relay and the memory of a monitor.\<close>

type_synonym ('m, 'a) watching = "(media_state \<times> 'm, py_exn, 'a) prog"

definition on_media :: "'a media \<Rightarrow> ('m, 'a) watching" where
  "on_media m s = (case m (fst s) of (r, d) \<Rightarrow> (r, (d, snd s)))"

definition on_memory :: "('m, py_exn, 'a) prog \<Rightarrow> ('m, 'a) watching" where
  "on_memory m s = (case m (snd s) of (r, a) \<Rightarrow> (r, (fst s, a)))"

lemma keeps_on_memory:
  "(\<And>m. I m \<Longrightarrow> I (snd (f m))) \<Longrightarrow> keeps (\<lambda>s. I (snd s)) (on_memory f)"
  by (auto simp: keeps_def on_memory_def split: prod.split) (metis snd_conv)

lemma keeps_on_media: "keeps (\<lambda>s. I (snd s)) (on_media f)"
  by (auto simp: keeps_def on_media_def split: prod.split)

lemma on_media_Inr: "on_media m s = (Inr x, s') \<longleftrightarrow> (\<exists>d. m (fst s) = (Inr x, d) \<and> s' = (d, snd s))"
  by (auto simp: on_media_def split: prod.splits)

lemma on_memory_Inr: "on_memory m s = (Inr x, s') \<longleftrightarrow> (\<exists>a. m (snd s) = (Inr x, a) \<and> s' = (fst s, a))"
  by (auto simp: on_memory_def split: prod.splits)

lemma map_of_fold_update:
  "map_of (fold (\<lambda>x. AList.update (f x) (g x)) xs acc) k = Some v \<Longrightarrow>
   map_of acc k = Some v \<or> (\<exists>x \<in> set xs. f x = k \<and> g x = v)"
proof (induction xs arbitrary: acc)
  case (Cons x xs)
  from Cons.IH [of "AList.update (f x) (g x) acc"] Cons.prems show ?case
    by (auto simp: update_conv' split: if_splits)
qed simp

definition relay_streams :: "media_env \<Rightarrow> pydict media" where
  "relay_streams env =
     bind_io (ask_relay env RelayStreams) (\<lambda>body.
       case body of
         Some (PDict d) \<Rightarrow> ret d
       | _ \<Rightarrow> throw (RuntimeErr ''go2rtc returned invalid stream state''))"

definition poll :: "media_env \<Rightarrow> rat \<Rightarrow> rat \<Rightarrow> (activity, string set) watching" where
  "poll env threshold now =
     bind_io (on_media (read_media managed_stream_runtime_sources)) (\<lambda>srcs.
       if srcs = [] then on_memory (\<lambda>_. (Inr {}, new_activity))
       else
         bind_io (on_media (relay_streams env)) (\<lambda>runtime.
           on_memory (poll_runtime threshold now runtime srcs)))"

end
