(* ===== verification/RelayWatchProps.thy ===== *)
theory RelayWatchProps
  imports RelayWatch
begin

text \<open>
  What the activity monitor promises of a run of successful polls: it reports a camera exactly when a
  stream of it has had viewers without new video since a poll that lies the threshold back.
\<close>

definition watched :: "pydict \<Rightarrow> string \<Rightarrow> bool" where
  "watched runtime key \<longleftrightarrow> has_external_consumers (dget runtime key) = Inr True"

definition sample_at :: "pydict \<Rightarrow> string \<Rightarrow> video_sample option" where
  "sample_at runtime key = (case active_video_sample (dget runtime key) of Inr x \<Rightarrow> x | Inl _ \<Rightarrow> None)"

lemma poll_sources_Inr:
  assumes "poll_sources threshold now runtime srcs active stalled a = (Inr (active', stalled'), a')"
    and "distinct (map fst srcs)"
  shows "active' = active \<union> {u. \<exists>key c. (u, key, c) \<in> set srcs \<and> watched runtime key}" (is ?active)
    and "stalled' = stalled \<union> {c. \<exists>u key. (u, key, c) \<in> set srcs \<and> watched runtime key \<and>
           threshold \<le> now - snd (snd (next_sample now (act_samples a u) (sample_at runtime key)))}" (is ?stalled)
    and "(u, key, c) \<in> set srcs \<Longrightarrow> watched runtime key \<Longrightarrow>
           act_samples a' u = Some (next_sample now (act_samples a u) (sample_at runtime key))" (is "_ \<Longrightarrow> _ \<Longrightarrow> ?new")
    and "u \<notin> fst ` set srcs \<Longrightarrow> act_samples a' u = act_samples a u" (is "_ \<Longrightarrow> ?old")
proof -
  have "?active \<and> ?stalled
    \<and> (\<forall>(u, key, c) \<in> set srcs. watched runtime key \<longrightarrow>
         act_samples a' u = Some (next_sample now (act_samples a u) (sample_at runtime key)))
    \<and> (\<forall>u. u \<notin> fst ` set srcs \<longrightarrow> act_samples a' u = act_samples a u)"
    using assms
  proof (induction srcs arbitrary: active stalled a)
    case Nil
    then show ?case by (simp add: ret_def)
  next
    case (Cons src srcs)
    obtain v k d where src: "src = (v, k, d)" by (cases src)
    obtain w where w: "has_external_consumers (dget runtime k) = Inr w"
      using Cons.prems(1) by (auto simp: src bind_io_Inr lift_err_Inr)
    have fresh: "v \<notin> fst ` set srcs" and dist: "distinct (map fst srcs)"
      using Cons.prems(2) by (auto simp: src)
    show ?case
    proof (cases w)
      case False
      then have run: "poll_sources threshold now runtime srcs active stalled a = (Inr (active', stalled'), a')"
        using Cons.prems(1) by (simp add: src bind_lift w)
      have "\<not> watched runtime k" using w False by (simp add: watched_def)
      then show ?thesis using Cons.IH [OF run dist] fresh by (auto simp: src)
    next
      case True
      then have is_watched: "watched runtime k" using w by (simp add: watched_def)
      obtain cur where cur: "active_video_sample (dget runtime k) = Inr cur"
        using Cons.prems(1) True by (auto simp: src bind_lift w bind_io_Inr lift_err_Inr)
      then have at: "sample_at runtime k = cur" by (simp add: sample_at_def)
      let ?e = "next_sample now (act_samples a v) cur"
      let ?a = "a\<lparr>act_samples := (act_samples a)(v \<mapsto> ?e)\<rparr>"
      let ?S = "if threshold \<le> now - snd (snd ?e) then insert d stalled else stalled"
      have run: "poll_sources threshold now runtime srcs (insert v active) ?S ?a = (Inr (active', stalled'), a')"
        using Cons.prems(1) True by (simp add: src bind_lift w cur Let_def)
      have same: "act_samples ?a x = act_samples a x" if "x \<in> fst ` set srcs" for x
        using that fresh by auto
      have ne: "u \<noteq> v" if "(u, key, c) \<in> set srcs" for u key c
        using that fresh by force
      have S: "{c. \<exists>u key. (u, key, c) \<in> set srcs \<and> watched runtime key \<and>
           threshold \<le> now - snd (snd (next_sample now (act_samples ?a u) (sample_at runtime key)))} =
        {c. \<exists>u key. (u, key, c) \<in> set srcs \<and> watched runtime key \<and>
           threshold \<le> now - snd (snd (next_sample now (act_samples a u) (sample_at runtime key)))}"
        by (rule Collect_cong, intro ex_cong1 conj_cong refl) (simp add: ne)
      note IH = Cons.IH [OF run dist]
      have 1: "active' = active \<union> {u. \<exists>key c. (u, key, c) \<in> set (src # srcs) \<and> watched runtime key}"
        using IH is_watched by (auto simp: src)
      have 2: "stalled' = ?S \<union> {c. \<exists>u key. (u, key, c) \<in> set srcs \<and> watched runtime key \<and>
           threshold \<le> now - snd (snd (next_sample now (act_samples a u) (sample_at runtime key)))}"
        using IH unfolding S by simp
      have 3: "\<forall>(u, key, c) \<in> set srcs. watched runtime key \<longrightarrow>
         act_samples a' u = Some (next_sample now (act_samples a u) (sample_at runtime key))"
      proof (clarify)
        fix u key c assume in_srcs: "(u, key, c) \<in> set srcs" and "watched runtime key"
        then have "act_samples a' u = Some (next_sample now (act_samples ?a u) (sample_at runtime key))"
          using IH by blast
        then show "act_samples a' u = Some (next_sample now (act_samples a u) (sample_at runtime key))"
          using same [of u] in_srcs by force
      qed
      have 4: "act_samples a' v = Some ?e" using IH fresh by simp
      have 5: "\<forall>u. u \<notin> fst ` set (src # srcs) \<longrightarrow> act_samples a' u = act_samples a u"
        using IH by (auto simp: src)
      show ?thesis using 1 2 3 4 5 is_watched at by (auto simp: src)
    qed
  qed
  then show ?active ?stalled
    and "(u, key, c) \<in> set srcs \<Longrightarrow> watched runtime key \<Longrightarrow> ?new"
    and "u \<notin> fst ` set srcs \<Longrightarrow> ?old" by blast+
qed

subsection \<open>Runs\<close>

record round =
  rd_now :: rat
  rd_runtime :: pydict
  rd_sources :: "(string \<times> string \<times> string) list"

definition watch_round :: "rat \<Rightarrow> round \<Rightarrow> (activity, py_exn, unit) prog" where
  "watch_round threshold r =
     bind_io (poll_runtime threshold (rd_now r) (rd_runtime r) (rd_sources r)) (\<lambda>_. ret ())"

definition stream_view :: "string \<Rightarrow> round \<Rightarrow> video_sample option option" where
  "stream_view u r =
     (case find (\<lambda>(v, _). v = u) (rd_sources r) of
        Some (_, key, _) \<Rightarrow> if watched (rd_runtime r) key then Some (sample_at (rd_runtime r) key) else None
      | None \<Rightarrow> None)"

definition seen :: "string \<Rightarrow> round \<Rightarrow> (string \<times> int \<times> rat) option \<Rightarrow> (string \<times> int \<times> rat) option" where
  "seen u r previous =
     (case stream_view u r of None \<Rightarrow> None | Some current \<Rightarrow> Some (next_sample (rd_now r) previous current))"

lemma stream_view_of:
  assumes "distinct (map fst (rd_sources r))" "(u, key, c) \<in> set (rd_sources r)"
  shows "stream_view u r = (if watched (rd_runtime r) key then Some (sample_at (rd_runtime r) key) else None)"
proof -
  have "find (\<lambda>(v, _). v = u) xs = Some (u, key, c)" if "distinct (map fst xs)" "(u, key, c) \<in> set xs" for xs
    using that by (induction xs) force+
  with assms show ?thesis by (simp add: stream_view_def)
qed

lemma seen_of:
  assumes "distinct (map fst (rd_sources r))" "(u, key, c) \<in> set (rd_sources r)"
  shows "seen u r p = (if watched (rd_runtime r) key
     then Some (next_sample (rd_now r) p (sample_at (rd_runtime r) key)) else None)"
  by (simp add: seen_def stream_view_of [OF assms])

lemma stream_view_absent: "u \<notin> fst ` set (rd_sources r) \<Longrightarrow> stream_view u r = None"
  by (auto simp: stream_view_def find_None_iff split: option.split)
     (metis (mono_tags, lifting) find_Some_iff case_prod_beta fst_conv imageI nth_mem)

lemma watch_round_Inr:
  assumes "watch_round threshold r a = (Inr (), a')" and distinct: "distinct (map fst (rd_sources r))"
  shows "act_samples a' u = seen u r (act_samples a u)" (is ?samples)
    and "act_stalled a' = {c. \<exists>u key. (u, key, c) \<in> set (rd_sources r) \<and>
           (\<exists>e. act_samples a' u = Some e \<and> max 0 threshold \<le> rd_now r - snd (snd e))}" (is ?stalled)
proof -
  obtain active stalled a1 where
    run: "poll_sources (max 0 threshold) (rd_now r) (rd_runtime r) (rd_sources r) {} {} a = (Inr (active, stalled), a1)"
    and a': "a' = \<lparr>act_samples = act_samples a1 |` active, act_stalled = stalled\<rparr>"
    using assms(1) by (auto simp: watch_round_def poll_runtime_def bind_io_Inr ret_def)
  note out = poll_sources_Inr [OF run distinct]
  have samples: "act_samples a' u = seen u r (act_samples a u)" for u
  proof (cases "u \<in> fst ` set (rd_sources r)")
    case True
    then obtain key c where src: "(u, key, c) \<in> set (rd_sources r)" by auto
    have only: "u \<in> active \<longleftrightarrow> watched (rd_runtime r) key"
      using out(1) src distinct by (auto dest: eq_key_imp_eq_value)
    show ?thesis
    proof (cases "watched (rd_runtime r) key")
      case w: True
      then show ?thesis
        using only out(3) [OF src w] by (simp add: a' seen_of [OF distinct src])
    next
      case False
      then show ?thesis using only by (simp add: a' seen_of [OF distinct src])
    qed
  next
    case False
    then have "u \<notin> active" using out(1) by force
    then show ?thesis using False by (simp add: a' seen_def stream_view_absent)
  qed
  show ?samples by (rule samples)
  have "stalled = {c. \<exists>u key. (u, key, c) \<in> set (rd_sources r) \<and>
      (\<exists>e. seen u r (act_samples a u) = Some e \<and> max 0 threshold \<le> rd_now r - snd (snd e))}"
    unfolding out(2) Un_empty_left
    by (rule Collect_cong, intro ex_cong1 conj_cong refl) (simp add: seen_of [OF distinct] del: split_paired_Ex)
  then show ?stalled unfolding samples by (simp add: a' del: split_paired_Ex)
qed

definition watch_rounds :: "rat \<Rightarrow> round list \<Rightarrow> (activity, py_exn, unit) prog" where
  "watch_rounds threshold = each (watch_round threshold)"

text \<open>\<open>silent u p rs\<close>: in every round the stream has viewers and the monitor sees nothing new of it.\<close>

fun silent :: "string \<Rightarrow> (string \<times> int \<times> rat) option \<Rightarrow> round list \<Rightarrow> bool" where
  "silent u p [] = True"
| "silent u p (r # rs) =
     (case stream_view u r of
        None \<Rightarrow> False
      | Some current \<Rightarrow> \<not> advanced p current \<and> silent u (seen u r p) rs)"

lemma silent_append: "silent u p (rs @ rs') \<longleftrightarrow> silent u p rs \<and> silent u (fold (seen u) rs p) rs'"
  by (induction rs arbitrary: p) (auto split: option.splits)

lemma seen_Some:
  "seen u r p = Some e \<longleftrightarrow> (\<exists>current. stream_view u r = Some current \<and> e = next_sample (rd_now r) p current)"
  by (auto simp: seen_def split: option.split)

lemma next_sample_now: "advanced p current \<or> p = None \<Longrightarrow> \<exists>j m. next_sample now p current = (j, m, now)"
  by (cases current) (auto simp: next_sample_def Let_def split: prod.split)

lemma next_sample_kept:
  "\<not> advanced (Some (i, n, t)) current \<Longrightarrow> \<exists>j m. next_sample now (Some (i, n, t)) current = (j, m, t)"
  by (cases current) (auto simp: next_sample_def Let_def split: prod.split)

lemma next_sample_current: "\<exists>t. next_sample now p (Some x) = (fst x, snd x, t)"
  by (cases x) (simp add: next_sample_def Let_def)

lemma silent_keeps_time:
  "silent u (Some (i, n, t)) rs \<Longrightarrow> \<exists>j m. fold (seen u) rs (Some (i, n, t)) = Some (j, m, t)"
proof (induction rs arbitrary: i n)
  case (Cons r rs)
  then obtain current where v: "stream_view u r = Some current" "\<not> advanced (Some (i, n, t)) current"
    by (auto split: option.splits)
  obtain j m where "seen u r (Some (i, n, t)) = Some (j, m, t)"
    using v next_sample_kept [OF v(2), of "rd_now r"] by (auto simp: seen_Some)
  then show ?case using Cons v by auto
qed simp

lemma last_progress:
  "fold (seen u) rs None = Some (i, n, t) \<Longrightarrow>
   \<exists>old r new. rs = old @ r # new \<and> t = rd_now r \<and> stream_view u r \<noteq> None
     \<and> silent u (fold (seen u) (old @ [r]) None) new"
proof (induction rs arbitrary: i n t rule: rev_induct)
  case (snoc x xs)
  let ?p = "fold (seen u) xs None"
  obtain current where v: "stream_view u x = Some current"
    and e: "next_sample (rd_now x) ?p current = (i, n, t)"
    using snoc.prems by (auto simp: seen_Some)
  show ?case
  proof (cases "?p = None \<or> advanced ?p current")
    case True
    then have "t = rd_now x" using e next_sample_now [of ?p current "rd_now x"] by auto
    then show ?thesis using v by (intro exI [of _ xs] exI [of _ x] exI [of _ "[]"]) simp
  next
    case False
    then obtain j m t' where p: "?p = Some (j, m, t')" by (cases ?p) auto
    then have "t' = t" using e False next_sample_kept [of j m t' current "rd_now x"] by auto
    then obtain old r new where s: "xs = old @ r # new" "t = rd_now r" "stream_view u r \<noteq> None"
      "silent u (fold (seen u) (old @ [r]) None) new" using snoc.IH [OF p] by blast
    have "silent u (fold (seen u) (old @ [r]) None) (new @ [x])"
      using s(4) False v unfolding silent_append by (simp add: s(1))
    then show ?thesis using s by (intro exI [of _ old] exI [of _ r] exI [of _ "new @ [x]"]) simp
  qed
qed simp

lemma each_last:
  "each f xs s = (Inr (), s') \<Longrightarrow> xs \<noteq> [] \<Longrightarrow> \<exists>s0. f (last xs) s0 = (Inr (), s')"
proof (induction xs arbitrary: s)
  case (Cons x xs)
  then obtain s1 where "f x s = (Inr (), s1)" "each f xs s1 = (Inr (), s')" by (auto simp: bind_io_Inr)
  then show ?case using Cons.IH [of s1] by (cases xs) (auto simp: ret_Inr)
qed simp

lemma watch_rounds_seen:
  assumes "watch_rounds threshold rs a = (Inr (), a')" "\<forall>r \<in> set rs. distinct (map fst (rd_sources r))"
  shows "act_samples a' u = fold (seen u) rs (act_samples a u)"
  using assms unfolding watch_rounds_def
  by (induction rs arbitrary: a) (auto simp: ret_def bind_io_Inr watch_round_Inr(1))

lemma stalled_when_silent:
  assumes run: "watch_rounds threshold rs new_activity = (Inr (), a)"
    and rs: "rs \<noteq> []"
    and distinct: "\<forall>r \<in> set rs. distinct (map fst (rd_sources r))"
    and clock: "sorted (map rd_now rs)"
  shows "c \<in> act_stalled a \<longleftrightarrow>
    (\<exists>u key old r new. rs = old @ r # new \<and> (u, key, c) \<in> set (rd_sources (last rs))
       \<and> stream_view u r \<noteq> None \<and> silent u (fold (seen u) (old @ [r]) None) new
       \<and> max 0 threshold \<le> rd_now (last rs) - rd_now r)" (is "_ \<longleftrightarrow> ?since")
proof -
  have at: "act_samples a u = fold (seen u) rs None" for u
    using watch_rounds_seen [OF run distinct] by (simp add: new_activity_def)
  obtain a0 where last: "watch_round threshold (last rs) a0 = (Inr (), a)"
    using each_last [OF run [unfolded watch_rounds_def] rs] by blast
  have stalled: "act_stalled a = {c. \<exists>u key. (u, key, c) \<in> set (rd_sources (last rs)) \<and>
      (\<exists>e. fold (seen u) rs None = Some e \<and> max 0 threshold \<le> rd_now (last rs) - snd (snd e))}"
    using watch_round_Inr(2) [OF last] distinct rs at by simp
  show ?thesis
  proof
    assume "c \<in> act_stalled a"
    then obtain u key i n t where u: "(u, key, c) \<in> set (rd_sources (last rs))"
      "fold (seen u) rs None = Some (i, n, t)" "max 0 threshold \<le> rd_now (last rs) - t"
      unfolding stalled by auto
    from last_progress [OF u(2)] u(1,3) show ?since by blast
  next
    assume ?since
    then obtain u key old r new where s: "rs = old @ r # new" "(u, key, c) \<in> set (rd_sources (last rs))"
      "stream_view u r \<noteq> None" "silent u (fold (seen u) (old @ [r]) None) new"
      "max 0 threshold \<le> rd_now (last rs) - rd_now r" by blast
    then obtain i n t where e: "fold (seen u) (old @ [r]) None = Some (i, n, t)"
      by (cases "fold (seen u) (old @ [r]) None") (auto simp: seen_def)
    obtain old' r0 new' where split: "old @ [r] = old' @ r0 # new'" and t: "t = rd_now r0"
      using last_progress [OF e] by blast
    have "r0 \<in> set (old @ [r])" unfolding split by simp
    then have "t \<le> rd_now r" using clock t by (auto simp: s(1) sorted_append)
    moreover obtain j m where "fold (seen u) rs None = Some (j, m, t)"
      using silent_keeps_time [of u i n t new] s(4) e by (auto simp: s(1))
    ultimately show "c \<in> act_stalled a" unfolding stalled using s(2,5) by force
  qed
qed

text \<open>
  C24: After a run of successful polls with a monotonic clock, a camera is reported as stalled exactly
  when one of its streams had viewers in the last poll and has had viewers, but no new video, ever
  since a poll that lies at least the threshold back.
\<close>

theorem stalled_iff_silent:
  assumes run: "watch_rounds threshold rs new_activity = (Inr (), a)"
    and rs: "rs \<noteq> []"
    and distinct: "\<forall>r \<in> set rs. distinct (map fst (rd_sources r))"
    and clock: "sorted (map rd_now rs)"
  shows "c \<in> act_stalled a \<longleftrightarrow>
    (\<exists>u key old r new. rs = old @ r # new \<and> (u, key, c) \<in> set (rd_sources (last rs))
       \<and> stream_view u r \<noteq> None \<and> silent u (fold (seen u) (old @ [r]) None) new
       \<and> max 0 threshold \<le> rd_now (last rs) - rd_now r)" (is "_ \<longleftrightarrow> ?since")
  by (rule stalled_when_silent [OF assms])

text \<open>
  Viewers that stop receiving video are noticed: once a stream has had viewers and delivered
  nothing but the same packets for the threshold, its camera is reported, whatever happened before.
\<close>

theorem silent_viewer_is_reported:
  assumes "watch_rounds threshold (old @ r # new) new_activity = (Inr (), a)"
    and "\<forall>x \<in> set (old @ r # new). distinct (map fst (rd_sources x))"
    and "sorted (map rd_now (old @ r # new))"
    and "(u, key, c) \<in> set (rd_sources (last (r # new)))"
    and "stream_view u r = Some sample" "\<forall>x \<in> set new. stream_view u x \<in> {Some None, Some sample}"
    and "max 0 threshold \<le> rd_now (last (r # new)) - rd_now r"
  shows "c \<in> act_stalled a"
proof -
  have same: "silent u (Some (i, n, t)) new \<and> (\<forall>x. sample = Some x \<longrightarrow> x = (i, n))"
    if "\<forall>x. sample = Some x \<longrightarrow> x = (i, n)" for i n t
    using assms(6) that
  proof (induction new arbitrary: t)
    case (Cons x xs)
    then obtain current where v: "stream_view u x = Some current" "current \<in> {None, Some (i, n)}"
      by (cases sample) auto
    then have "\<not> advanced (Some (i, n, t)) current" by (auto simp: advanced_def)
    moreover from this have "seen u x (Some (i, n, t)) = Some (i, n, t)"
      using v by (auto simp: seen_def next_sample_def Let_def)
    ultimately show ?case using Cons v by simp
  qed simp
  obtain e where e: "fold (seen u) (old @ [r]) None = Some e" "e = next_sample (rd_now r) (fold (seen u) old None) sample"
    using assms(5) by (simp add: seen_def)
  obtain i n t where ent: "e = (i, n, t)" by (cases e)
  have "\<forall>x. sample = Some x \<longrightarrow> x = (i, n)"
  proof (intro allI impI)
    fix x assume x: "sample = Some x"
    obtain t' where "next_sample (rd_now r) (fold (seen u) old None) (Some x) = (fst x, snd x, t')"
      using next_sample_current by blast
    then show "x = (i, n)" using e(2) unfolding ent x by (cases x) simp
  qed
  then have "silent u (Some (i, n, t)) new" using same by blast
  then have "silent u (fold (seen u) (old @ [r]) None) new" unfolding e(1) ent .
  moreover have some_rounds: "old @ r # new \<noteq> []" by simp
  moreover have "(u, key, c) \<in> set (rd_sources (last (old @ r # new)))"
    "max 0 threshold \<le> rd_now (last (old @ r # new)) - rd_now r" "stream_view u r \<noteq> None"
    using assms(4,5,7) by simp_all
  ultimately show ?thesis
    unfolding stalled_when_silent [OF assms(1) some_rounds assms(2,3)]
    by (intro exI [of _ u] exI [of _ key] exI [of _ old] exI [of _ r] exI [of _ new] conjI) (rule refl | assumption)+
qed

subsection \<open>An instance\<close>

definition demo_runtime :: "int \<Rightarrow> pydict" where
  "demo_runtime packets =
     [(''stream_a'', PDict
        [(''consumers'', PList [PDict [(''user_agent'', PStr ''VLC'')]]),
         (''producers'', PList [PDict [(''id'', PStr ''p''), (''bytes_recv'', PInt 10),
            (''receivers'', PList [PDict [(''codec'', PDict [(''codec_type'', PStr ''video'')]),
               (''packets'', PInt packets)]])]])])]"

definition demo_round :: "rat \<Rightarrow> int \<Rightarrow> round" where
  "demo_round now packets =
     \<lparr>rd_now = now, rd_runtime = demo_runtime packets, rd_sources = [(''u'', ''stream_a'', ''c'')]\<rparr>"

lemma demo_view: "stream_view ''u'' (demo_round now packets) = Some (Some (''p'', packets))"
  by (simp add: stream_view_def demo_round_def demo_runtime_def watched_def sample_at_def
      has_external_consumers_def active_video_sample_def items_of_def py_iter_def dget_def dhas_def
      external_consumer_def snapshot_agent_def int_field_def attr_def py_int_or_zero_def py_str_def bind_err_def num_of_def py_or_def)

lemma demo_distinct: "distinct (map fst (rd_sources (demo_round now packets)))"
  by (simp add: demo_round_def)

lemma demo_poll:
  "watch_round threshold (demo_round now packets) a =
     (Inr (), \<lparr>act_samples = [''u'' \<mapsto> next_sample now (act_samples a ''u'') (Some (''p'', packets))],
               act_stalled = (if max 0 threshold \<le> now - snd (snd (next_sample now (act_samples a ''u'') (Some (''p'', packets))))
                              then {''c''} else {})\<rparr>)"
proof -
  have v: "has_external_consumers (dget (demo_runtime packets) ''stream_a'') = Inr True"
    "active_video_sample (dget (demo_runtime packets) ''stream_a'') = Inr (Some (''p'', packets))"
    using demo_view [of now packets]
    by (auto simp: stream_view_def demo_round_def watched_def sample_at_def split: if_splits sum.splits)
  show ?thesis
    by (simp add: watch_round_def poll_runtime_def demo_round_def v bind_lift bind_io_def ret_def Let_def)
qed

lemma demo_run:
  "watch_rounds 5 [demo_round 0 40, demo_round 3 40, demo_round 6 40] new_activity =
     (Inr (), \<lparr>act_samples = [''u'' \<mapsto> (''p'', 40, 0)], act_stalled = {''c''}\<rparr>)"
  by (simp add: watch_rounds_def demo_poll bind_io_def ret_def new_activity_def next_sample_def advanced_def)

theorem stalled_iff_silent_witness:
  "\<exists>u key old r new. [demo_round 0 40, demo_round 3 40, demo_round 6 40] = old @ r # new
     \<and> (u, key, ''c'') \<in> set (rd_sources (demo_round 6 40)) \<and> stream_view u r \<noteq> None
     \<and> silent u (fold (seen u) (old @ [r]) None) new \<and> 5 \<le> 6 - rd_now r"
  using stalled_iff_silent [OF demo_run, of "''c''"]
  by (simp add: demo_distinct) (simp add: demo_round_def)

theorem silent_viewer_is_reported_witness:
  "\<exists>a. watch_rounds 5 [demo_round 0 40, demo_round 3 40, demo_round 6 40] new_activity = (Inr (), a)
     \<and> ''c'' \<in> act_stalled a"
proof (intro exI conjI)
  show run: "watch_rounds 5 [demo_round 0 40, demo_round 3 40, demo_round 6 40] new_activity =
    (Inr (), \<lparr>act_samples = [''u'' \<mapsto> (''p'', 40, 0)], act_stalled = {''c''}\<rparr>)" by (rule demo_run)
  show "''c'' \<in> act_stalled \<lparr>act_samples = [''u'' \<mapsto> (''p'', 40, 0)], act_stalled = {''c''}\<rparr>"
    by (rule silent_viewer_is_reported [of 5 "[]" "demo_round 0 40" "[demo_round 3 40, demo_round 6 40]" _
          "''u''" "''stream_a''"]) (simp_all only: append_Nil run, simp_all add: demo_distinct demo_view, simp_all add: demo_round_def)
qed

end
