(* ===== verification/RelayHealth.thy ===== *)
theory RelayHealth
  imports RelayWatch
begin

text \<open>
  The health monitor of the relay (camadmiral/media.py): the cache of thumbnails, snapshots that
  sample every selected stream, retries of rejected credentials and the probe round that joins them.
  Snapshot and validation jobs run beside the monitor: a job is a number, and what it has ended with
  when the monitor looks (\<open>None\<close> while it runs) comes from the environment, with its latency in
  milliseconds and the wall clock at that moment.
\<close>

subsection \<open>The cache of thumbnails\<close>

record frame =
  frm_content :: string
  frm_at :: rat

definition cache_bytes :: "(string \<times> frame) list \<Rightarrow> nat" where
  "cache_bytes fs = sum_list (map (\<lambda>x. length (frm_content (snd x))) fs)"

text \<open>The first of the oldest frames.\<close>

fun oldest_frame :: "(string \<times> frame) list \<Rightarrow> string" where
  "oldest_frame [] = []"
| "oldest_frame (x # xs) = fst (py_min (\<lambda>x. frm_at (snd x)) x xs)"

lemma oldest_frame_min:
  assumes "fs \<noteq> []"
  shows "\<exists>x \<in> set fs. fst x = oldest_frame fs \<and> (\<forall>y \<in> set fs. frm_at (snd x) \<le> frm_at (snd y))"
proof (cases fs)
  case (Cons x xs)
  then show ?thesis using py_min_spec [of "\<lambda>x. frm_at (snd x)" x xs] by (intro bexI [of _ "py_min (\<lambda>x. frm_at (snd x)) x xs"]) simp_all
qed (use assms in simp)

lemma oldest_frame_in: "fs \<noteq> [] \<Longrightarrow> oldest_frame fs \<in> fst ` set fs"
  using oldest_frame_min by force

lemma length_delete_less:
  assumes "k \<in> fst ` set fs"
  shows "length (AList.delete k fs) < length fs"
proof -
  obtain x where "x \<in> set fs" "fst x = k" using assms by blast
  then show ?thesis unfolding AList.delete_eq by (intro length_filter_less) auto
qed

definition over_limit :: "nat \<Rightarrow> nat \<Rightarrow> (string \<times> frame) list \<Rightarrow> bool" where
  "over_limit items bytes fs \<longleftrightarrow> items < length fs \<or> bytes < cache_bytes fs"

lemma over_limit_nonempty: "over_limit items bytes fs \<Longrightarrow> fs \<noteq> []"
  by (auto simp: over_limit_def cache_bytes_def)

function evict :: "nat \<Rightarrow> nat \<Rightarrow> (string \<times> frame) list \<Rightarrow> (string \<times> frame) list" where
  "evict items bytes fs =
     (if over_limit items bytes fs then evict items bytes (AList.delete (oldest_frame fs) fs) else fs)"
  by pat_completeness auto
termination
  by (relation "measure (\<lambda>(_, _, fs). length fs)")
     (auto intro: length_delete_less oldest_frame_in dest: over_limit_nonempty)

declare evict.simps [simp del]

definition cache_frame :: "nat \<Rightarrow> nat \<Rightarrow> string \<Rightarrow> frame \<Rightarrow> (string \<times> frame) list \<Rightarrow> (string \<times> frame) list" where
  "cache_frame items bytes c f fs =
     (if bytes < length (frm_content f) then AList.delete c fs
      else evict items bytes (AList.update c f fs))"

subsection \<open>The state of the monitor\<close>

type_synonym job = "nat \<times> managed_source"

record monitor =
  mon_video :: "string \<Rightarrow> video_sample option"
  mon_failures :: "string \<Rightarrow> nat option"
  mon_attempts :: "string \<Rightarrow> rat option"
  mon_retries :: "string set"
  mon_pending :: "(string \<times> job) list"
  mon_frames :: "(string \<times> frame) list"
  mon_auth :: "(string \<times> job) list"
  mon_jobs :: nat

definition new_monitor :: monitor where
  "new_monitor = \<lparr>mon_video = Map.empty, mon_failures = Map.empty, mon_attempts = Map.empty, mon_retries = {},
     mon_pending = [], mon_frames = [], mon_auth = [], mon_jobs = 0\<rparr>"

datatype snapshot_end = Frame string | Busy | Failed

record monitor_env =
  hea_media :: media_env
  hea_mono :: rat
  hea_latency :: int
  hea_first :: "nat \<Rightarrow> (snapshot_end \<times> int \<times> rat) option"
  hea_second :: "nat \<Rightarrow> (snapshot_end \<times> int \<times> rat) option"
  hea_auth :: "nat \<Rightarrow> (bool \<times> int) option"
  hea_interval :: rat
  hea_batch :: nat
  hea_items :: nat
  hea_bytes :: nat
  hea_workers :: nat

definition capacity :: "monitor_env \<Rightarrow> nat" where
  "capacity h = max 1 (min (hea_workers h) 4)"

definition index_by :: "('a \<Rightarrow> string) \<Rightarrow> ('a \<Rightarrow> 'b) \<Rightarrow> 'a list \<Rightarrow> (string \<times> 'b) list" where
  "index_by key val xs = fold (\<lambda>x. AList.update (key x) (val x)) xs []"

subsection \<open>Retrying rejected credentials\<close>

fun finish_auth ::
  "monitor_env \<Rightarrow> (string \<times> job) list \<Rightarrow> (string \<times> managed_source) list \<Rightarrow> db \<Rightarrow> monitor \<Rightarrow>
   (string \<times> managed_source) list \<times> db \<times> monitor" where
  "finish_auth h [] srcs d m = (srcs, d, m)"
| "finish_auth h ((c, j, s) # jobs) srcs d m =
     (case hea_auth h j of
        None \<Rightarrow> finish_auth h jobs srcs d m
      | Some (valid, latency) \<Rightarrow>
          let m' = m\<lparr>mon_auth := AList.delete c (mon_auth m)\<rparr>; u = mgs_stream s in
          if map_of srcs u \<noteq> Some s \<or> \<not> valid then finish_auth h jobs srcs d m'
          else finish_auth h jobs (AList.delete u srcs)
                 (record_probe_results [(u, simple_result ''ready'' latency)]
                    (env_time (hea_media h)) (env_epoch (hea_media h)) d) m')"

fun start_auth ::
  "monitor_env \<Rightarrow> (string \<times> rat) list \<Rightarrow> (string \<times> managed_source) list \<Rightarrow> db \<Rightarrow> monitor \<Rightarrow> db \<times> monitor" where
  "start_auth h schedule [] d m = (d, m)"
| "start_auth h schedule ((u, s) # srcs) d m =
     (let now = env_epoch (hea_media h); c = mgs_camera s in
      if capacity h \<le> length (mon_auth m) then (d, m)
      else if c \<in> fst ` set (mon_auth m) \<or> now < the (map_of schedule u) then start_auth h schedule srcs d m
      else
        case claim_auth_retry u now d of
          (False, d') \<Rightarrow> start_auth h schedule srcs d' m
        | (True, d') \<Rightarrow>
            start_auth h schedule srcs d'
              (m\<lparr>mon_auth := mon_auth m @ [(c, mon_jobs m, s)], mon_jobs := Suc (mon_jobs m)\<rparr>))"

definition run_retries :: "monitor_env \<Rightarrow> (string \<times> rat) list \<Rightarrow> managed_source list \<Rightarrow> (monitor, unit) watching" where
  "run_retries h schedule srcs = (\<lambda>(ms, m).
     let wanted = index_by mgs_stream (\<lambda>s. s) (filter (\<lambda>s. map_of schedule (mgs_stream s) \<noteq> None) srcs);
         (left, d, m1) = finish_auth h (mon_auth m) wanted (med_db ms) m;
         (d', m2) = start_auth h schedule (sort_key (\<lambda>x. the (map_of schedule (fst x))) left) d m1
     in (Inr (), ms\<lparr>med_db := d'\<rparr>, m2))"

definition retry_authentication :: "monitor_env \<Rightarrow> (monitor, unit) watching" where
  "retry_authentication h =
     bind_io (on_media (update_media (\<lambda>d. Inr (auth_retry_schedule (env_epoch (hea_media h)) d)))) (\<lambda>schedule s.
       if schedule = [] \<and> mon_auth (snd s) = [] then (Inr (), s)
       else
         bind_io (on_media (media_sources (hea_media h) (every_source\<lparr>flt_bound_only := True\<rparr>)))
           (run_retries h schedule) s)"

subsection \<open>Periodic samples\<close>

text \<open>One look at the pending snapshots; the results so far are passed on.\<close>

fun collect_snapshots ::
  "monitor_env \<Rightarrow> (nat \<Rightarrow> (snapshot_end \<times> int \<times> rat) option) \<Rightarrow> (string \<times> managed_source) list \<Rightarrow>
   (string \<times> string) list \<Rightarrow> (string \<times> job) list \<Rightarrow> monitor \<Rightarrow> (string \<times> probe_result) list \<Rightarrow>
   monitor \<times> (string \<times> probe_result) list" where
  "collect_snapshots h look current preferred [] m results = (m, results)"
| "collect_snapshots h look current preferred ((u, j, s) # jobs) m results =
     (case look j of
        None \<Rightarrow> collect_snapshots h look current preferred jobs m results
      | Some (outcome, latency, wall) \<Rightarrow>
          let m1 = m\<lparr>mon_pending := AList.delete u (mon_pending m)\<rparr>; c = mgs_camera s in
          if map_of current u \<noteq> Some s then collect_snapshots h look current preferred jobs m1 results
          else
            case outcome of
              Frame content \<Rightarrow>
                collect_snapshots h look current preferred jobs
                  (m1\<lparr>mon_frames := (if (case map_of preferred c of Some v \<Rightarrow> v | None \<Rightarrow> u) = u
                         then cache_frame (max 1 (hea_items h)) (max 1 (hea_bytes h)) c \<lparr>frm_content = content, frm_at = wall\<rparr> (mon_frames m1)
                         else mon_frames m1),
                      mon_retries := mon_retries m1 - {u}\<rparr>)
                  (AList.update u (simple_result ''ready'' latency) results)
            | Busy \<Rightarrow>
                collect_snapshots h look current preferred jobs
                  (m1\<lparr>mon_retries := insert u (mon_retries m1)\<rparr>) results
            | Failed \<Rightarrow>
                collect_snapshots h look current preferred jobs
                  (m1\<lparr>mon_retries := insert u (mon_retries m1)\<rparr>)
                  (AList.update u (simple_result ''unavailable'' latency) results))"

definition due_sources ::
  "monitor_env \<Rightarrow> (string \<times> managed_source) list \<Rightarrow> (string \<times> probe_result) list \<Rightarrow> monitor \<Rightarrow> managed_source list" where
  "due_sources h current results m =
     take (min (max 1 (hea_batch h)) (capacity h - length (mon_pending m)))
       (sort_key (\<lambda>s. (mon_attempts m (mgs_stream s) \<noteq> None,
                       case mon_attempts m (mgs_stream s) of Some t \<Rightarrow> t | None \<Rightarrow> -1))
         (map snd (filter (\<lambda>(u, s). u \<notin> fst ` set (mon_pending m) \<and> u \<notin> fst ` set results \<and>
            (case mon_attempts m u of
               None \<Rightarrow> True
             | Some t \<Rightarrow> u \<in> mon_retries m \<or> max 0 (hea_interval h) \<le> hea_mono h - t)) current)))"

definition start_snapshot :: "monitor_env \<Rightarrow> managed_source \<Rightarrow> monitor \<Rightarrow> monitor" where
  "start_snapshot h s m =
     (let u = mgs_stream s in
      m\<lparr>mon_attempts := (mon_attempts m)(u \<mapsto> hea_mono h),
        mon_retries := mon_retries m - {u},
        mon_pending := AList.update u (mon_jobs m, s) (mon_pending m),
        mon_jobs := Suc (mon_jobs m)\<rparr>)"

definition sample_periodic_sources ::
  "monitor_env \<Rightarrow> managed_source list \<Rightarrow> managed_source list \<Rightarrow> monitor \<Rightarrow> (string \<times> probe_result) list \<times> monitor" where
  "sample_periodic_sources h srcs preferred_srcs m =
     (let current = index_by mgs_stream (\<lambda>s. s) srcs;
          preferred = index_by mgs_camera mgs_stream preferred_srcs;
          (m1, results) = collect_snapshots h (hea_first h) current preferred (mon_pending m) m [];
          m2 = fold (start_snapshot h) (due_sources h current results m1) m1;
          (m3, results') = collect_snapshots h (hea_second h) current preferred (mon_pending m2) m2 results
      in (results', m3))"

subsection \<open>A round\<close>

fun active_results ::
  "int \<Rightarrow> pydict \<Rightarrow> managed_source list \<Rightarrow> (string \<times> probe_result) list \<Rightarrow>
   (monitor, py_exn, (string \<times> probe_result) list) prog" where
  "active_results latency runtime [] results = ret results"
| "active_results latency runtime (s # srcs) results =
     bind_io (lift_err (has_external_consumers (dget runtime (mgs_key s)))) (\<lambda>watched (m :: monitor).
       let u = mgs_stream s in
       if \<not> watched then
         active_results latency runtime srcs results (m\<lparr>mon_video := (mon_video m)(u := None)\<rparr>)
       else
         bind_io (lift_err (active_video_sample (dget runtime (mgs_key s)))) (\<lambda>current (m :: monitor).
           case current of
             Some (producer, packets) \<Rightarrow>
               if packets \<le> 0 then
                 active_results latency runtime srcs (AList.update u (simple_result ''unavailable'' latency) results)
                   (m\<lparr>mon_video := (mon_video m)(u := None)\<rparr>)
               else
                 (let advancing = (case mon_video m u of
                        None \<Rightarrow> True
                      | Some (producer', packets') \<Rightarrow> producer' \<noteq> producer \<or> packets' < packets)
                  in active_results latency runtime srcs
                       (AList.update u (simple_result (if advancing then ''ready'' else ''unavailable'') latency) results)
                       (m\<lparr>mon_video := (mon_video m)(u \<mapsto> (producer, packets))\<rparr>))
           | None \<Rightarrow>
               active_results latency runtime srcs (AList.update u (simple_result ''unavailable'' latency) results)
                 (m\<lparr>mon_video := (mon_video m)(u := None)\<rparr>)) m)"

text \<open>A failed snapshot does not outweigh packets that reach a viewer.\<close>

fun join_results ::
  "(string \<times> probe_result) list \<Rightarrow> (string \<times> probe_result) list \<Rightarrow> (string \<times> probe_result) list \<Rightarrow> string set \<Rightarrow>
   (string \<times> probe_result) list \<times> string set" where
  "join_results active [] results retries = (results, retries)"
| "join_results active ((u, r) # periodic) results retries =
     (if (case map_of active u of None \<Rightarrow> True | Some a \<Rightarrow> pr_status a \<noteq> ''ready'') \<or> pr_status r = ''ready''
      then join_results active periodic (AList.update u r results) retries
      else join_results active periodic results (retries - {u}))"

text \<open>
  The second failure in a row asks for a diagnosis, one stream per camera and round. Every result is of
  one of the sources, so the lookup never fails.
\<close>

fun count_failures ::
  "(string \<times> managed_source) list \<Rightarrow> (string \<times> probe_result) list \<Rightarrow> (string \<Rightarrow> nat option) \<Rightarrow>
   (string \<times> managed_source) list \<Rightarrow> py_exn + (string \<Rightarrow> nat option) \<times> (string \<times> managed_source) list" where
  "count_failures by_stream [] failures diagnose = Inr (failures, diagnose)"
| "count_failures by_stream ((u, r) # results) failures diagnose =
     (case map_of by_stream u of
        None \<Rightarrow> Inl (OtherErr ''KeyError'')
      | Some s \<Rightarrow>
          if pr_status r = ''unavailable'' then
            (let n = (case failures u of Some k \<Rightarrow> k | None \<Rightarrow> 0) + 1; c = mgs_camera s in
             if n = 2 then
               (if c \<in> fst ` set diagnose then count_failures by_stream results (failures(u \<mapsto> 1)) diagnose
                else count_failures by_stream results (failures(u \<mapsto> n)) (diagnose @ [(c, s)]))
             else count_failures by_stream results (failures(u \<mapsto> n)) diagnose)
          else count_failures by_stream results (failures(u := None)) diagnose)"

definition auth_failures :: "media_env \<Rightarrow> (string \<times> managed_source) list \<Rightarrow> (string \<times> probe_result) list" where
  "auth_failures env diagnose =
     concat (map (\<lambda>(_, s).
       case probe_source env (mgs_uri s) (mgs_username s) (mgs_password s) of
         Inl _ \<Rightarrow> []
       | Inr r \<Rightarrow> if pr_status r = ''auth_failed'' then [(mgs_stream s, r)] else []) diagnose)"

definition forget_gone :: "string set \<Rightarrow> string set \<Rightarrow> monitor \<Rightarrow> monitor" where
  "forget_gone active active_cameras m =
     m\<lparr>mon_video := mon_video m |` active,
       mon_failures := mon_failures m |` active,
       mon_retries := mon_retries m - (dom (mon_attempts m) - active),
       mon_attempts := mon_attempts m |` active,
       mon_frames := filter (\<lambda>x. fst x \<in> active_cameras) (mon_frames m)\<rparr>"

definition judge :: "monitor_env \<Rightarrow> managed_source list \<Rightarrow> (string \<times> probe_result) list \<Rightarrow>
  (string \<times> probe_result) list \<Rightarrow> (monitor, py_exn, (string \<times> probe_result) list) prog" where
  "judge h srcs active periodic m =
     (let (results, retries) = join_results active periodic active (mon_retries m);
          m1 = m\<lparr>mon_retries := retries\<rparr>
      in case count_failures (index_by mgs_stream (\<lambda>s. s) srcs) results (mon_failures m) [] of
           Inl e \<Rightarrow> (Inl e, m1)
         | Inr (failures, diagnose) \<Rightarrow>
             (Inr (fold (\<lambda>(u, r). AList.update u r) (auth_failures (hea_media h) diagnose) results),
              forget_gone (set (map mgs_stream srcs)) (set (map mgs_camera srcs)) (m1\<lparr>mon_failures := failures\<rparr>)))"

definition judge_sources :: "monitor_env \<Rightarrow> managed_source list \<Rightarrow> managed_source list \<Rightarrow> (string \<times> probe_result) list \<Rightarrow>
  (monitor, (string \<times> probe_result) list) watching" where
  "judge_sources h srcs preferred active =
     bind_io (on_media (relay_password (hea_media h))) (\<lambda>_.
     bind_io (on_memory (\<lambda>m. case sample_periodic_sources h srcs preferred m of (r, m') \<Rightarrow> (Inr r, m'))) (\<lambda>periodic.
     bind_io (on_memory (judge h srcs active periodic)) (\<lambda>results.
     bind_io (on_media (record_results (hea_media h) results)) (\<lambda>_. ret results))))"

definition probe_sources :: "monitor_env \<Rightarrow> (monitor, (string \<times> probe_result) list) watching" where
  "probe_sources h =
     (let env = hea_media h in
      bind_io (on_media (media_sources env (every_source\<lparr>flt_auth_failed := False, flt_bound_only := True\<rparr>))) (\<lambda>srcs.
      bind_io (on_media (media_sources env (every_source\<lparr>flt_auth_failed := False, flt_role := Some Detect\<rparr>))) (\<lambda>preferred.
      bind_io (on_media (relay_streams env)) (\<lambda>runtime.
      bind_io (on_memory (active_results (hea_latency h) runtime srcs []))
        (judge_sources h srcs preferred)))))"

definition probe :: "monitor_env \<Rightarrow> (monitor, (string \<times> probe_result) list) watching" where
  "probe h = bind_io (retry_authentication h) (\<lambda>_. probe_sources h)"

end
