(* ===== verification/RelayHealthProps.thy ===== *)
theory RelayHealthProps
  imports RelayHealth MediaDemo
begin

text \<open>What the health monitor promises: its memory stays bounded, and it blames credentials on evidence only.\<close>

subsection \<open>The cache\<close>

lemma evict_bounded: "\<not> over_limit items bytes (evict items bytes fs)"
  by (induction items bytes fs rule: evict.induct) (subst evict.simps, auto)

lemma set_delete: "set (AList.delete k fs) = {x \<in> set fs. fst x \<noteq> k}"
  by (auto simp: AList.delete_eq)

lemma evict_subset: "set (evict items bytes fs) \<subseteq> set fs"
proof (induction items bytes fs rule: evict.induct)
  case (1 items bytes fs)
  then show ?case by (subst evict.simps) (auto simp: set_delete)
qed

lemma evict_distinct: "distinct (map fst fs) \<Longrightarrow> distinct (map fst (evict items bytes fs))"
proof (induction items bytes fs rule: evict.induct)
  case (1 items bytes fs)
  then show ?case by (subst evict.simps) (auto simp: distinct_delete)
qed

lemma evict_oldest:
  "distinct (map fst fs) \<Longrightarrow> x \<in> set fs \<Longrightarrow> x \<notin> set (evict items bytes fs) \<Longrightarrow> y \<in> set (evict items bytes fs)
   \<Longrightarrow> frm_at (snd x) \<le> frm_at (snd y)"
proof (induction items bytes fs rule: evict.induct)
  case (1 items bytes fs)
  show ?case
  proof (cases "over_limit items bytes fs")
    case True
    let ?o = "oldest_frame fs"
    have ev: "evict items bytes fs = evict items bytes (AList.delete ?o fs)"
      using True by (subst evict.simps) simp
    obtain z where z: "z \<in> set fs" "fst z = ?o" "\<forall>y \<in> set fs. frm_at (snd z) \<le> frm_at (snd y)"
      using oldest_frame_min [OF over_limit_nonempty [OF True]] by blast
    show ?thesis
    proof (cases "fst x = ?o")
      case True
      then have "x = z" using z 1(2,3) by (metis eq_key_imp_eq_value prod.collapse)
      then show ?thesis using z evict_subset 1(5) by blast
    next
      case False
      then show ?thesis
        using "1.IH" [OF True] 1(2,3,4,5) unfolding ev by (simp add: set_delete distinct_delete)
    qed
  next
    case False
    then show ?thesis using 1(3,4) by (subst (asm) evict.simps) simp
  qed
qed

lemma evict_newest:
  assumes "distinct (map fst fs)" "(c, f) \<in> set fs" "1 \<le> items" "length (frm_content f) \<le> bytes"
    and "\<forall>x \<in> set fs. x \<noteq> (c, f) \<longrightarrow> frm_at (snd x) < frm_at f"
  shows "(c, f) \<in> set (evict items bytes fs)"
  using assms
proof (induction items bytes fs rule: evict.induct)
  case (1 items bytes fs)
  show ?case
  proof (cases "over_limit items bytes fs")
    case True
    let ?o = "oldest_frame fs"
    obtain z where z: "z \<in> set fs" "fst z = ?o" "\<forall>y \<in> set fs. frm_at (snd z) \<le> frm_at (snd y)"
      using oldest_frame_min [OF over_limit_nonempty [OF True]] by blast
    have "?o \<noteq> c"
    proof
      assume "?o = c"
      then have zc: "z = (c, f)" using z 1(2,3) by (metis eq_key_imp_eq_value prod.collapse)
      have "x = (c, f)" if "x \<in> set fs" for x using z(3) 1(6) that unfolding zc by force
      then have "set fs = {(c, f)}" using 1(3) by blast
      then have "length fs = 1" using 1(2) distinct_card [of fs] by (simp add: distinct_map)
      then have "fs = [(c, f)]" using 1(3) by (auto simp: length_Suc_conv)
      then show False using True 1(4,5) by (simp add: over_limit_def cache_bytes_def)
    qed
    then have "(c, f) \<in> set (evict items bytes (AList.delete ?o fs))"
      using "1.IH" [OF True] 1(2-6) by (simp add: set_delete distinct_delete)
    then show ?thesis using True by (subst evict.simps) simp
  next
    case False
    then show ?thesis using 1(3) by (subst evict.simps) simp
  qed
qed

lemma cache_frame_ok:
  assumes "distinct (map fst fs)" "\<not> over_limit items bytes fs"
  shows "distinct (map fst (cache_frame items bytes c f fs)) \<and> \<not> over_limit items bytes (cache_frame items bytes c f fs)"
proof (cases "bytes < length (frm_content f)")
  case True
  have "over_limit items bytes (AList.delete c fs) \<Longrightarrow> over_limit items bytes fs"
    using sum_list_filter_le_nat [of "\<lambda>x. length (frm_content (snd x))" "\<lambda>(k, _). c \<noteq> k" fs]
    by (auto simp: over_limit_def cache_bytes_def AList.delete_eq intro: less_le_trans [OF _ length_filter_le])
  then show ?thesis using True assms by (auto simp: cache_frame_def distinct_delete)
next
  case False
  then show ?thesis
    using assms by (simp add: cache_frame_def evict_bounded evict_distinct distinct_update)
qed

text \<open>
  The cache of thumbnails stays within both of its limits and holds the frame just taken; what it
  drops for it is no newer than anything it keeps.
\<close>

theorem cache_keeps_newest:
  assumes "distinct (map fst fs)" "1 \<le> items" "length (frm_content f) \<le> bytes"
    and "\<forall>x \<in> set fs. frm_at (snd x) < frm_at f"
  shows "\<not> over_limit items bytes (cache_frame items bytes c f fs)
    \<and> map_of (cache_frame items bytes c f fs) c = Some f
    \<and> (\<forall>x \<in> set fs. fst x \<noteq> c \<longrightarrow> x \<notin> set (cache_frame items bytes c f fs) \<longrightarrow>
         (\<forall>y \<in> set (cache_frame items bytes c f fs). frm_at (snd x) \<le> frm_at (snd y)))"
proof -
  let ?fs = "AList.update c f fs"
  have d: "distinct (map fst ?fs)" by (rule distinct_update [OF assms(1)])
  have members: "x \<in> set ?fs \<longleftrightarrow> x = (c, f) \<or> x \<in> set fs \<and> fst x \<noteq> c" for x
    using map_of_eq_Some_iff [OF d, of "fst x" "snd x"] map_of_eq_Some_iff [OF assms(1), of "fst x" "snd x"]
    by (cases x) (auto simp: update_conv' split: if_splits)
  have "(c, f) \<in> set (evict items bytes ?fs)"
    using assms(2-4) by (intro evict_newest [OF d]) (auto simp: members)
  then have "map_of (evict items bytes ?fs) c = Some f" using evict_distinct [OF d] by simp
  then show ?thesis
    using assms(3) evict_oldest [OF d] by (auto simp: cache_frame_def evict_bounded members)
qed

theorem cache_keeps_newest_witness:
  "(let f = \<lparr>frm_content = ''ab'', frm_at = 9\<rparr>;
        fs = [(''a'', \<lparr>frm_content = ''xyz'', frm_at = 1\<rparr>), (''b'', \<lparr>frm_content = ''x'', frm_at = 2\<rparr>)]
    in \<not> over_limit 2 5 (cache_frame 2 5 ''c'' f fs) \<and> map_of (cache_frame 2 5 ''c'' f fs) ''c'' = Some f)"
  unfolding Let_def
  by (intro conjI; rule cache_keeps_newest [THEN conjunct1] cache_keeps_newest [THEN conjunct2, THEN conjunct1]) simp_all

subsection \<open>Bounds of the memory\<close>

definition monitor_ok :: "monitor_env \<Rightarrow> monitor \<Rightarrow> bool" where
  "monitor_ok h m \<longleftrightarrow>
     distinct (map fst (mon_pending m)) \<and> length (mon_pending m) \<le> capacity h \<and>
     distinct (map fst (mon_auth m)) \<and> length (mon_auth m) \<le> capacity h \<and>
     distinct (map fst (mon_frames m)) \<and> \<not> over_limit (max 1 (hea_items h)) (max 1 (hea_bytes h)) (mon_frames m)"

lemma monitor_ok_ignored [simp]:
  "monitor_ok h (m\<lparr>mon_video := a\<rparr>) = monitor_ok h m" "monitor_ok h (m\<lparr>mon_failures := b\<rparr>) = monitor_ok h m"
  "monitor_ok h (m\<lparr>mon_retries := x\<rparr>) = monitor_ok h m" "monitor_ok h (m\<lparr>mon_attempts := e\<rparr>) = monitor_ok h m"
  "monitor_ok h (m\<lparr>mon_jobs := g\<rparr>) = monitor_ok h m"
  by (simp_all add: monitor_ok_def)

lemma delete_pending_ok:
  "monitor_ok h m \<Longrightarrow> monitor_ok h (m\<lparr>mon_pending := AList.delete u (mon_pending m)\<rparr>)"
  "monitor_ok h m \<Longrightarrow> monitor_ok h (m\<lparr>mon_auth := AList.delete u (mon_auth m)\<rparr>)"
  by (auto simp: monitor_ok_def distinct_delete intro: le_trans [OF length_delete_le])

lemma frames_ok:
  "monitor_ok h m \<Longrightarrow>
   monitor_ok h (m\<lparr>mon_frames := cache_frame (max 1 (hea_items h)) (max 1 (hea_bytes h)) c f (mon_frames m)\<rparr>)"
  using cache_frame_ok by (auto simp: monitor_ok_def)

lemma finish_auth_ok: "monitor_ok h m \<Longrightarrow> finish_auth h jobs srcs d m = (srcs', d', m') \<Longrightarrow> monitor_ok h m'"
  by (induction h jobs srcs d m rule: finish_auth.induct)
     (auto simp: Let_def delete_pending_ok split: option.splits prod.splits if_splits)

lemma start_auth_ok: "monitor_ok h m \<Longrightarrow> start_auth h schedule srcs d m = (d', m') \<Longrightarrow> monitor_ok h m'"
proof (induction h schedule srcs d m rule: start_auth.induct)
  case (2 h schedule u s srcs d m)
  have "monitor_ok h (m\<lparr>mon_auth := mon_auth m @ [(mgs_camera s, mon_jobs m, s)], mon_jobs := Suc (mon_jobs m)\<rparr>)"
    if "mgs_camera s \<notin> fst ` set (mon_auth m)" "length (mon_auth m) < capacity h"
    using 2(4) that by (simp add: monitor_ok_def)
  with 2 show ?case by (auto simp: Let_def not_le split: if_splits prod.splits bool.splits)
qed simp

lemma collect_ok:
  "monitor_ok h m \<Longrightarrow> monitor_ok h (fst (collect_snapshots h look current preferred jobs m results))"
proof (induction h look current preferred jobs m results rule: collect_snapshots.induct)
  case (2 h look current preferred u j s jobs m results)
  note ok = delete_pending_ok(1) [OF 2(6), of u]
  from 2 ok frames_ok [OF ok] show ?case
    by (auto simp: Let_def split: option.split prod.split snapshot_end.split)
qed simp

lemma start_snapshots_ok:
  "monitor_ok h m \<Longrightarrow> length (mon_pending m) + length due \<le> capacity h \<Longrightarrow>
   monitor_ok h (fold (start_snapshot h) due m)"
proof (induction due arbitrary: m)
  case (Cons s due)
  have "length (AList.update k v al) \<le> Suc (length al)" for k :: string and v :: job and al
    by (induction al) auto
  then have len: "length (mon_pending (start_snapshot h s m)) \<le> Suc (length (mon_pending m))"
    by (simp add: start_snapshot_def Let_def)
  have "monitor_ok h (start_snapshot h s m)"
    using Cons.prems len by (auto simp: monitor_ok_def start_snapshot_def Let_def distinct_update)
  then show ?case using Cons.IH Cons.prems(2) len by simp
qed simp

lemma due_fits: "length (mon_pending m) \<le> capacity h \<Longrightarrow>
    length (mon_pending m) + length (due_sources h current results m) \<le> capacity h"
  by (auto simp: due_sources_def min_def)

lemma sample_ok:
  assumes "monitor_ok h m" "sample_periodic_sources h srcs preferred m = (results, m')"
  shows "monitor_ok h m'"
proof -
  have "length (mon_pending m) \<le> capacity h" if "monitor_ok h m" for m using that by (simp add: monitor_ok_def)
  with assms show ?thesis
    by (auto simp: sample_periodic_sources_def Let_def split: prod.splits)
       (metis collect_ok due_fits fst_conv start_snapshots_ok)
qed

lemma active_ok:
  "monitor_ok h m \<Longrightarrow> monitor_ok h (snd (active_results latency runtime srcs results m))"
proof (induction srcs arbitrary: m results)
  case (Cons s srcs)
  then show ?case
    by (auto simp: bind_io_def lift_err_def Let_def split: sum.split option.split)
qed (simp add: ret_def)

lemma over_limit_filter: "over_limit items bytes (filter P fs) \<Longrightarrow> over_limit items bytes fs"
  using sum_list_filter_le_nat [of "\<lambda>x. length (frm_content (snd x))" P fs]
  by (auto simp: over_limit_def cache_bytes_def intro: less_le_trans [OF _ length_filter_le])

lemma forget_ok: "monitor_ok h m \<Longrightarrow> monitor_ok h (forget_gone active cams m)"
  by (auto simp: monitor_ok_def forget_gone_def distinct_map_filter dest: over_limit_filter)

lemma judge_ok: "monitor_ok h m \<Longrightarrow> monitor_ok h (snd (judge h srcs active periodic m))"
  by (auto simp: judge_def Let_def forget_ok split: prod.split sum.split)

lemma run_retries_ok: "keeps (\<lambda>s. monitor_ok h (snd s)) (run_retries h schedule srcs)"
  by (auto simp: keeps_def run_retries_def Let_def split: prod.split) (metis finish_auth_ok start_auth_ok)

lemma keeps_unless: "keeps I m \<Longrightarrow> keeps I (\<lambda>s. if P s then (Inr x, s) else m s)"
  by (simp add: keeps_def)

lemma retry_authentication_ok: "keeps (\<lambda>s. monitor_ok h (snd s)) (retry_authentication h)"
  unfolding retry_authentication_def
  by (intro keeps_bind [OF keeps_on_media] keeps_unless run_retries_ok keeps_on_media)

text \<open>
  C26: The memory of the health monitor stays bounded in every round, however the round ends: no more
  snapshots and validations run at once than there are workers, one per stream and one per camera, and
  the cache of thumbnails is within its limits.
\<close>

theorem monitor_stays_bounded:
  "monitor_ok h new_monitor \<and> keeps (\<lambda>(_, m). monitor_ok h m) (probe h)"
proof (rule conjI)
  show "monitor_ok h new_monitor"
    by (simp add: monitor_ok_def new_monitor_def over_limit_def cache_bytes_def)
  have fold_case: "(\<lambda>(_ :: media_state, m). monitor_ok h m) = (\<lambda>s. monitor_ok h (snd s))" by auto
  have sampling: "monitor_ok h (snd (case sample_periodic_sources h srcs preferred m of (r, m') \<Rightarrow> (Inr r :: py_exn + _, m')))"
    if "monitor_ok h m" for m srcs preferred
    using sample_ok [OF that] by (auto split: prod.split)
  show "keeps (\<lambda>(_, m). monitor_ok h m) (probe h)"
    unfolding fold_case probe_def probe_sources_def judge_sources_def Let_def
    by (intro keeps_bind [OF retry_authentication_ok] keeps_bind [OF keeps_on_media] keeps_bind [OF keeps_on_memory]
        active_ok sampling judge_ok keeps_ret)
qed

subsection \<open>Evidence\<close>

text \<open>Up to the diagnosis, a result says that a stream is ready or unavailable.\<close>

definition plain_results :: "(string \<times> probe_result) list \<Rightarrow> bool" where
  "plain_results results \<longleftrightarrow> distinct (map fst results) \<and> (\<forall>(u, r) \<in> set results. pr_status r \<noteq> ''auth_failed'')"

lemma plain_update:
  assumes "plain_results results" "pr_status r \<noteq> ''auth_failed''"
  shows "plain_results (AList.update u r results)"
proof -
  have "set (AList.update u r results) \<subseteq> insert (u, r) (set results)" by (induction results) auto
  with assms show ?thesis by (auto simp: plain_results_def distinct_update)
qed

lemma simple_status [simp]: "pr_status (simple_result x n) = x"
  by (simp add: simple_result_def)

lemma collect_plain:
  "plain_results results \<Longrightarrow> plain_results (snd (collect_snapshots h look current preferred jobs m results))"
  by (induction h look current preferred jobs m results rule: collect_snapshots.induct)
     (auto simp: Let_def plain_update split: option.split prod.split snapshot_end.split)

lemma collect_failures [simp]:
  "mon_failures (fst (collect_snapshots h look current preferred jobs m results)) = mon_failures m"
  by (induction h look current preferred jobs m results rule: collect_snapshots.induct)
     (auto simp: Let_def split: option.split prod.split snapshot_end.split)

lemma start_snapshots_failures [simp]: "mon_failures (fold (start_snapshot h) due m) = mon_failures m"
  by (induction due arbitrary: m) (auto simp: start_snapshot_def Let_def)

lemma sample_plain:
  assumes "sample_periodic_sources h srcs preferred m = (results, m')"
  shows "plain_results results" "mon_failures m' = mon_failures m"
proof -
  have "plain_results []" by (simp add: plain_results_def)
  from collect_plain [OF this] have first: "plain_results (snd (collect_snapshots h look current preferred jobs m []))"
    for look current preferred jobs m .
  from assms show "plain_results results" "mon_failures m' = mon_failures m"
    by (auto simp: sample_periodic_sources_def Let_def split: prod.splits)
       (metis collect_plain first snd_conv, metis collect_failures start_snapshots_failures fst_conv)
qed

lemma active_plain:
  "active_results latency runtime srcs results m = (Inr out, m') \<Longrightarrow> plain_results results \<Longrightarrow>
   plain_results out \<and> mon_failures m' = mon_failures m"
proof (induction srcs arbitrary: m results)
  case (Cons s srcs)
  obtain watched where w: "has_external_consumers (dget runtime (mgs_key s)) = Inr watched"
    using Cons.prems(1) by (auto simp: bind_io_Inr lift_err_Inr)
  show ?case
  proof (cases watched)
    case False
    then show ?thesis using Cons.prems Cons.IH by (force simp: w bind_lift Let_def)
  next
    case True
    then obtain current where c: "active_video_sample (dget runtime (mgs_key s)) = Inr current"
      using Cons.prems(1) by (auto simp: w bind_lift Let_def bind_io_Inr lift_err_Inr)
    obtain x v where "active_results latency runtime srcs (AList.update (mgs_stream s) (simple_result x latency) results)
        (m\<lparr>mon_video := v\<rparr>) = (Inr out, m')" "x \<noteq> ''auth_failed''"
      using Cons.prems(1) True by (auto simp: w c bind_lift Let_def split: option.splits if_splits prod.splits)
    then show ?thesis using Cons.IH plain_update [OF Cons.prems(2)] by force
  qed
qed (simp add: ret_def)

lemma join_plain:
  "plain_results results \<Longrightarrow> \<forall>x \<in> set periodic. pr_status (snd x) \<noteq> ''auth_failed'' \<Longrightarrow>
   plain_results (fst (join_results active periodic results retries))"
  by (induction active periodic results retries rule: join_results.induct) (auto simp: plain_update)

lemma count_failures_step:
  assumes "count_failures by_stream ((u, r) # results) failures diagnose = Inr out"
  obtains x diagnose1 where "count_failures by_stream results (failures(u := x)) diagnose1 = Inr out"
    "\<And>c s. (c, s) \<in> set diagnose1 \<Longrightarrow> (c, s) \<in> set diagnose \<or> map_of by_stream u = Some s \<and> failures u = Some 1"
proof -
  obtain t where t: "map_of by_stream u = Some t" using assms by (auto split: option.splits)
  show ?thesis
  proof (cases "pr_status r = ''unavailable'' \<and> failures u = Some 1 \<and> mgs_camera t \<notin> fst ` set diagnose")
    case True
    then have "count_failures by_stream results (failures(u \<mapsto> Suc (Suc 0))) (diagnose @ [(mgs_camera t, t)]) = Inr out"
      using assms t by (simp add: Let_def)
    then show ?thesis using t True by (intro that) auto
  next
    case False
    then obtain x where "count_failures by_stream results (failures(u := x)) diagnose = Inr out"
      using assms t by (auto simp: Let_def split: if_splits option.splits)
    then show ?thesis using that by blast
  qed
qed

lemma count_failures_evidence:
  "count_failures by_stream results failures diagnose = Inr (failures', diagnose') \<Longrightarrow>
   distinct (map fst results) \<Longrightarrow> (c, s) \<in> set diagnose' \<Longrightarrow>
   (c, s) \<in> set diagnose \<or> (\<exists>u. map_of by_stream u = Some s \<and> u \<in> fst ` set results \<and> failures u = Some 1)"
proof (induction results arbitrary: failures diagnose)
  case (Cons x results)
  obtain u r where x: "x = (u, r)" by (cases x)
  from Cons.prems(1) obtain n diagnose1 where
    run: "count_failures by_stream results (failures(u := n)) diagnose1 = Inr (failures', diagnose')"
    and new: "\<And>c s. (c, s) \<in> set diagnose1 \<Longrightarrow> (c, s) \<in> set diagnose \<or> map_of by_stream u = Some s \<and> failures u = Some 1"
    using count_failures_step [OF Cons.prems(1) [unfolded x]] by metis
  have fresh: "u \<notin> fst ` set results" "distinct (map fst results)" using Cons.prems(2) by (auto simp: x)
  have "(c, s) \<in> set diagnose1 \<or> (\<exists>v. v \<noteq> u \<and> map_of by_stream v = Some s \<and> v \<in> fst ` set results \<and> failures v = Some 1)"
    using Cons.IH [OF run fresh(2) Cons.prems(3)] fresh(1) fun_upd_other [of _ u failures n] by metis
  then show ?case using new [of c s] by (auto simp: x)
qed simp

lemma index_by_Some: "map_of (index_by key (\<lambda>s. s) xs) k = Some s \<Longrightarrow> s \<in> set xs \<and> key s = k"
  using map_of_fold_update [of key "\<lambda>s. s" xs "[]" k s] by (auto simp: index_by_def)

text \<open>What a probe of a source that is answered with a refusal has seen.\<close>

definition refused :: "media_env \<Rightarrow> managed_source \<Rightarrow> bool" where
  "refused env s \<longleftrightarrow>
     (\<exists>uri code err out latency.
        authenticated_rtsp_uri (mgs_uri s) (mgs_username s) (mgs_password s) = Some uri
        \<and> env_ffprobe env uri = (Exited code err out, latency) \<and> code \<noteq> 0
        \<and> (contains (py_lower err) ''401 unauthorized'' \<or> contains (py_lower err) ''403 forbidden''))"

lemma media_result_status:
  "media_result latency document = Inr r \<Longrightarrow> pr_status r \<noteq> ''auth_failed''"
  unfolding media_result_def
  by (auto simp: bind_err_def simple_result_def split: sum.splits option.splits)

lemma probe_source_refused:
  assumes "probe_source env (mgs_uri s) (mgs_username s) (mgs_password s) = Inr r" "pr_status r = ''auth_failed''"
  shows "refused env s"
proof -
  obtain uri where uri: "authenticated_rtsp_uri (mgs_uri s) (mgs_username s) (mgs_password s) = Some uri"
    and r: "probe_uri env uri = Inr r"
    using assms(1) by (auto simp: probe_source_def split: option.splits)
  show ?thesis
  proof (cases "env_ffprobe env uri")
    case (Pair outcome latency)
    show ?thesis
    proof (cases outcome)
      case TimedOut
      then show ?thesis using r assms(2) Pair by (auto simp: probe_uri_def)
    next
      case (Exited code err out)
      have "code \<noteq> 0"
        using r assms(2) by (auto simp: probe_uri_def Pair Exited split: option.splits dest: media_result_status)
      moreover have "contains (py_lower err) ''401 unauthorized'' \<or> contains (py_lower err) ''403 forbidden''"
        using r assms(2) calculation by (auto simp: probe_uri_def Pair Exited Let_def split: if_splits)
      ultimately show ?thesis using uri Pair Exited unfolding refused_def by blast
    qed
  qed
qed

lemma judge_evidence:
  assumes "judge h srcs active periodic m = (Inr results, m')" "plain_results active" "plain_results periodic"
    and "map_of results u = Some r" "pr_status r = ''auth_failed''"
  shows "\<exists>s \<in> set srcs. mgs_stream s = u \<and> mon_failures m u = Some 1 \<and> refused (hea_media h) s"
proof -
  let ?out = "fst (join_results active periodic active (mon_retries m))"
  obtain failures diagnose where
    count: "count_failures (index_by mgs_stream (\<lambda>s. s) srcs) ?out (mon_failures m) [] = Inr (failures, diagnose)"
    and results: "results = fold (\<lambda>(u, r). AList.update u r) (auth_failures (hea_media h) diagnose) ?out"
    using assms(1) by (auto simp: judge_def Let_def split: prod.splits sum.splits)
  have out: "plain_results ?out"
    using assms(2,3) by (intro join_plain) (auto simp: plain_results_def)
  have "map_of ?out u = Some r \<or> (u, r) \<in> set (auth_failures (hea_media h) diagnose)"
    using map_of_fold_update [of fst snd "auth_failures (hea_media h) diagnose" ?out u r] assms(4)
    unfolding results case_prod_beta by force
  moreover have "map_of ?out u \<noteq> Some r"
    using out assms(5) by (auto simp: plain_results_def dest!: map_of_SomeD)
  ultimately obtain c s where s: "(c, s) \<in> set diagnose" "u = mgs_stream s"
    "probe_source (hea_media h) (mgs_uri s) (mgs_username s) (mgs_password s) = Inr r"
    using assms(5) by (auto simp: auth_failures_def split: sum.splits if_splits)
  have "distinct (map fst ?out)" using out by (simp add: plain_results_def)
  from count_failures_evidence [OF count this s(1)] obtain v where
    "map_of (index_by mgs_stream (\<lambda>s. s) srcs) v = Some s" "mon_failures m v = Some 1" by auto
  with index_by_Some [OF this(1)] show ?thesis
    using s(2) probe_source_refused [OF s(3) assms(5)] by auto
qed

lemma finish_auth_failures: "finish_auth h jobs srcs d m = (srcs', d', m') \<Longrightarrow> mon_failures m' = mon_failures m"
  by (induction h jobs srcs d m rule: finish_auth.induct)
     (auto simp: Let_def split: option.splits prod.splits if_splits)

lemma start_auth_failures: "start_auth h schedule srcs d m = (d', m') \<Longrightarrow> mon_failures m' = mon_failures m"
  by (induction h schedule srcs d m rule: start_auth.induct)
     (auto simp: Let_def split: if_splits prod.splits bool.splits)

lemma retry_failures: "keeps (\<lambda>s. mon_failures (snd s) = F) (retry_authentication h)"
proof -
  have "keeps (\<lambda>s. mon_failures (snd s) = F) (run_retries h schedule srcs)" for schedule srcs
    by (auto simp: keeps_def run_retries_def Let_def split: prod.split)
       (metis finish_auth_failures start_auth_failures)
  then show ?thesis
    unfolding retry_authentication_def
    by (intro keeps_bind [OF keeps_on_media [where I = "\<lambda>m. mon_failures m = F"]] keeps_unless
        keeps_on_media [where I = "\<lambda>m. mon_failures m = F"])
qed

abbreviation watched_sources :: source_filter where
  "watched_sources \<equiv> every_source\<lparr>flt_auth_failed := False, flt_bound_only := True\<rparr>"


text \<open>A viewer who receives nothing for the second time, and a camera that answers 401.\<close>

definition demo_idle_relay :: "relay_request list \<Rightarrow> relay_request \<Rightarrow> relay_answer" where
  "demo_idle_relay l q = Body (Some (PDict [(''stream_a'', PDict [(''consumers'', PList [PNone])])]))"

definition demo_monitor_env :: monitor_env where
  "demo_monitor_env =
     \<lparr>hea_media = demo_media_env demo_idle_relay, hea_mono = 100, hea_latency = 5, hea_first = (\<lambda>_. None),
      hea_second = (\<lambda>_. None), hea_auth = (\<lambda>_. None), hea_interval = 60, hea_batch = 8, hea_items = 64,
      hea_bytes = 1000, hea_workers = 4\<rparr>"

definition demo_monitor :: monitor where
  "demo_monitor = new_monitor\<lparr>mon_failures := [''m1'' \<mapsto> 1]\<rparr>"

lemma demo_schedule: "auth_retry_schedule 9 demo_media_db = ([], demo_media_db)"
  by (simp add: auth_retry_schedule_def demo_media_db_def demo_simps del_where_def Let_def)

lemma demo_refusal:
  "probe_source (demo_media_env relay) ''rtsp://cam/a'' ''u'' ''p'' = Inr (simple_result ''auth_failed'' 20)"
proof -
  have "authenticated_rtsp_uri ''rtsp://cam/a'' ''u'' ''p'' = Some ''rtsp://u:p@cam/a''" by code_simp
  moreover have "contains (py_lower ''401 Unauthorized'') ''401 unauthorized''" by code_simp
  ultimately show ?thesis
    by (simp add: probe_source_def probe_uri_def demo_media_env_fields)
qed

lemma demo_monitor_env_fields [simp]:
  "hea_media demo_monitor_env = demo_media_env demo_idle_relay" "hea_latency demo_monitor_env = 5"
  "hea_first demo_monitor_env = (\<lambda>_. None)" "hea_second demo_monitor_env = (\<lambda>_. None)"
  "hea_mono demo_monitor_env = 100" "hea_batch demo_monitor_env = 8" "hea_workers demo_monitor_env = 4"
  by (simp_all add: demo_monitor_env_def)

abbreviation demo_runtime_state :: pydict where
  "demo_runtime_state \<equiv> [(''stream_a'', PDict [(''consumers'', PList [PNone])])]"

abbreviation demo_asked :: media_state where
  "demo_asked \<equiv> demo_media_start\<lparr>med_log := [RelayStreams]\<rparr>"

lemma demo_retry: "retry_authentication demo_monitor_env (demo_media_start, demo_monitor) = (Inr (), demo_media_start, demo_monitor)"
  by (simp add: retry_authentication_def bind_io_def on_media_def update_media_def demo_media_env_fields
      demo_media_start_def demo_schedule demo_monitor_def new_monitor_def)

lemma demo_read: "flt_camera f = None \<Longrightarrow>
    media_sources (demo_media_env relay) f demo_media_start = (Inr [demo_source], demo_media_start)"
  by (simp add: media_sources_def update_media_def demo_media_env_fields demo_media_start_def demo_sources)

lemma demo_list: "relay_streams (demo_media_env demo_idle_relay) demo_media_start = (Inr demo_runtime_state, demo_asked)"
  by (simp add: relay_streams_def ask_relay_def bind_io_def demo_media_env_fields demo_idle_relay_def demo_media_start_def ret_def)

lemma demo_active:
  "active_results 5 demo_runtime_state [demo_source] [] demo_monitor = (Inr [(''m1'', simple_result ''unavailable'' 5)], demo_monitor)"
proof -
  have "has_external_consumers (dget demo_runtime_state ''stream_a'') = Inr True"
    "active_video_sample (dget demo_runtime_state ''stream_a'') = Inr None"
    by (simp_all add: has_external_consumers_def active_video_sample_def dget_def items_of_def py_iter_def external_consumer_def bind_err_def)
  then show ?thesis by (simp add: demo_source_def bind_lift ret_def demo_monitor_def new_monitor_def)
qed

lemma demo_password: "relay_password (demo_media_env relay) demo_asked = (Inr ''pw'', demo_asked)"
  by (simp add: relay_password_def update_media_def rtsp_access_password_def demo_media_start_def demo_media_env_fields
      demo_media_db_def row_get_def)

lemma demo_sample:
  "\<exists>m. sample_periodic_sources demo_monitor_env [demo_source] [demo_source] demo_monitor = ([], m) \<and> mon_failures m = [''m1'' \<mapsto> 1]"
  by (simp add: sample_periodic_sources_def index_by_def demo_source_def due_sources_def demo_monitor_def new_monitor_def
      capacity_def start_snapshot_def Let_def)

lemma demo_judge:
  assumes "mon_failures m = [''m1'' \<mapsto> 1]"
  shows "\<exists>m'. judge demo_monitor_env [demo_source] [(''m1'', simple_result ''unavailable'' 5)] [] m =
    (Inr [(''m1'', simple_result ''auth_failed'' 20)], m')"
  by (simp add: judge_def assms index_by_def demo_source_def auth_failures_def demo_refusal Let_def)

lemma demo_probe:
  "\<exists>s'. probe demo_monitor_env (demo_media_start, demo_monitor) = (Inr [(''m1'', simple_result ''auth_failed'' 20)], s')"
proof -
  obtain m where m: "sample_periodic_sources demo_monitor_env [demo_source] [demo_source] demo_monitor = ([], m)"
    "mon_failures m = [''m1'' \<mapsto> 1]" using demo_sample by blast
  obtain m' where m': "judge demo_monitor_env [demo_source] [(''m1'', simple_result ''unavailable'' 5)] [] m =
    (Inr [(''m1'', simple_result ''auth_failed'' 20)], m')" using demo_judge [OF m(2)] by blast
  show ?thesis
    by (simp add: probe_def bind_io_def demo_retry probe_sources_def on_media_def on_memory_def demo_read every_source_def
        demo_list demo_active judge_sources_def demo_password m m' record_results_def update_media_def ret_def Let_def
        del: active_results.simps)
qed


end
