(* ===== verification/Recovery.thy ===== *)
theory Recovery
  imports RelayWatch IdentityStore
begin

text \<open>
  Cameras that moved to another address (camadmiral/recovery.py). A camera whose device was seen at a
  new address is checked there with its credentials; the cameras that answer get their sources
  rewritten and the relay restarted, and everything is taken back when the relay does not serve them.

  The memory is the map of attempts by camera and address: when the last one was made and how many
  there were. \<open>rce_inspect\<close> is the ONVIF inspection of the device, \<open>rce_completed\<close> the order in which
  concurrent probes end, \<open>rce_inventory\<close> the inventory file (\<open>None\<close> where it is missing or not JSON).
  The sources to write are listed in the order of the streams.
\<close>

type_synonym attempts = "string \<times> string \<Rightarrow> (rat \<times> nat) option"

record recovery_env =
  rce_media :: media_env
  rce_mono :: rat
  rce_interval :: rat
  rce_inventory :: "pyval option"
  rce_inspect :: "device \<Rightarrow> (string \<times> string) option \<Rightarrow> string + pydict list"
  rce_completed :: "string list \<Rightarrow> string list"

record recovery_result =
  rcr_camera :: string
  rcr_status :: string
  rcr_previous :: string
  rcr_current :: string

record plan =
  pln_candidate :: string
  pln_camera :: string
  pln_device :: device
  pln_streams :: "(profile_row \<times> stream_row) list"
  pln_previous :: string
  pln_current :: string
  pln_evidence :: string
  pln_updates :: "(string \<times> string) list"
  pln_sources :: "(string \<times> string) list"
  pln_probes :: "(string \<times> probe_result) list"

datatype plan_outcome = Skip | Refused recovery_result | Planned plan

definition result_of :: "string \<Rightarrow> plan \<Rightarrow> recovery_result" where
  "result_of status p =
     \<lparr>rcr_camera = pln_camera p, rcr_status = status, rcr_previous = pln_previous p, rcr_current = pln_current p\<rparr>"

subsection \<open>Attempts\<close>

definition clear_attempts :: "string \<Rightarrow> attempts \<Rightarrow> attempts" where
  "clear_attempts c m = (\<lambda>k. if fst k = c then None else m k)"

definition fast_retry_interval :: rat where
  "fast_retry_interval = 10"

definition fast_retries :: nat where
  "fast_retries = 4"

definition retry_interval :: "rat \<Rightarrow> nat \<Rightarrow> rat" where
  "retry_interval slow n = (if n \<le> fast_retries then fast_retry_interval else slow)"

definition attempt_due :: "rat \<Rightarrow> rat \<Rightarrow> (rat \<times> nat) option \<Rightarrow> bool" where
  "attempt_due slow now entry =
     (case entry of None \<Rightarrow> True | Some (previous, n) \<Rightarrow> retry_interval slow n \<le> now - previous)"

definition note_attempt :: "rat \<Rightarrow> string \<times> string \<Rightarrow> attempts \<Rightarrow> attempts" where
  "note_attempt now k m = m(k \<mapsto> (now, Suc (case m k of None \<Rightarrow> 0 | Some (_, n) \<Rightarrow> n)))"

subsection \<open>Addresses and evidence\<close>

fun device_dicts :: "pyval list \<Rightarrow> py_exn + device list" where
  "device_dicts [] = Inr []"
| "device_dicts (v # vs) =
     (case v of PDict d \<Rightarrow> bind_err (device_dicts vs) (\<lambda>ds. Inr (d # ds)) | _ \<Rightarrow> Inl (OtherErr ''AttributeError''))"

definition read_inventory :: "pyval option \<Rightarrow> py_exn + (string \<times> device) list" where
  "read_inventory document =
     (case document of
        None \<Rightarrow> Inr []
      | Some (PDict payload) \<Rightarrow>
          bind_err (py_iter (dget_or payload ''devices'' (PList []))) (\<lambda>vs.
          bind_err (device_dicts vs) (\<lambda>ds.
            Inr (fold (\<lambda>d. AList.update (py_str (dget d ''candidate_uuid'')) d)
                   (filter (\<lambda>d. truthy (dget d ''candidate_uuid'')) ds) [])))
      | Some _ \<Rightarrow> Inl (OtherErr ''AttributeError''))"

definition source_host :: "string \<Rightarrow> string" where
  "source_host uri = (case urlsplit uri of None \<Rightarrow> [] | Some u \<Rightarrow> (case url_hostname u of None \<Rightarrow> [] | Some h \<Rightarrow> h))"

definition replace_host :: "string \<Rightarrow> string \<Rightarrow> py_exn + string" where
  "replace_host uri address =
     (case urlsplit uri of
        None \<Rightarrow> Inl (ValueErr ''urlsplit'')
      | Some u \<Rightarrow>
          (case url_port u of
             None \<Rightarrow> Inl (ValueErr ''port'')
           | Some port \<Rightarrow>
               Inr (urlunsplit (url_scheme u) (with_port (bracketed address) port) (url_path u) (url_query u))))"

definition evidence :: "device \<Rightarrow> string option" where
  "evidence device =
     (if truthy (dget (dsub device ''onvif'') ''endpoint_reference'') then Some ''onvif-endpoint''
      else if truthy (dget device ''mac'') then Some ''unique-mac'' else None)"

definition with_uri :: "(profile_row \<times> stream_row) list \<Rightarrow> (string \<times> string) list" where
  "with_uri strs = concat (map (\<lambda>(p, _). case prf_uri p of
      Some uri \<Rightarrow> if uri = [] then [] else [(prf_token p, uri)] | None \<Rightarrow> []) strs)"

definition previous_hosts :: "(profile_row \<times> stream_row) list \<Rightarrow> string list" where
  "previous_hosts strs =
     remdups (filter (\<lambda>h. h \<noteq> []) (map (\<lambda>(_, uri). source_host uri)
       (with_uri (filter (\<lambda>(_, s). str_enabled s) strs))))"

definition index_pairs :: "(string \<times> 'a) list \<Rightarrow> (string \<times> 'a) list" where
  "index_pairs xs = fold (\<lambda>(k, v). AList.update k v) xs []"

subsection \<open>Checking the new address\<close>

fun moved_uris :: "string \<Rightarrow> (string \<times> string) list \<Rightarrow> py_exn + (string \<times> string) list" where
  "moved_uris address [] = Inr []"
| "moved_uris address ((token, uri) # rest) =
     bind_err (replace_host uri address) (\<lambda>new.
     bind_err (moved_uris address rest) (\<lambda>others. Inr ((token, new) # others)))"

definition enabled_tokens :: "(profile_row \<times> stream_row) list \<Rightarrow> string list" where
  "enabled_tokens strs = map (\<lambda>(p, _). prf_token p) (filter (\<lambda>(_, s). str_enabled s) strs)"

definition discovered_uris :: "pydict list \<Rightarrow> (string \<times> string) list" where
  "discovered_uris prfs =
     fold (\<lambda>x. AList.update (py_str (dget x ''token'')) (py_str (dget x ''uri'')))
       (filter (\<lambda>x. truthy (dget x ''token'') \<and> truthy (dget x ''uri'')) prfs) []"

text \<open>The sources of the camera at the new address, or why there are none.\<close>

definition proposed_updates ::
  "recovery_env \<Rightarrow> device \<Rightarrow> (profile_row \<times> stream_row) list \<Rightarrow> string \<Rightarrow> string \<Rightarrow>
   py_exn + string + (string \<times> string) list" where
  "proposed_updates env device strs username password =
     (let kinds = set (map (\<lambda>(p, _). if prf_kind p = [] then ''onvif'' else prf_kind p) strs);
          address = text_of device ''ip'' in
      if kinds = {''onvif''} then
        (case rce_inspect env device (if username = [] then None else Some (username, password)) of
           Inl code \<Rightarrow> Inr (Inl code)
         | Inr prfs \<Rightarrow>
             let found = discovered_uris prfs;
                 updates = index_pairs (concat (map (\<lambda>(p, _). case map_of found (prf_token p) of
                                           None \<Rightarrow> [] | Some uri \<Rightarrow> [(prf_token p, uri)]) strs))
             in if enabled_tokens strs = [] \<or> \<not> set (enabled_tokens strs) \<subseteq> fst ` set found
                then Inr (Inl ''profiles_changed'')
                else if list_ex (\<lambda>(_, uri). source_host uri \<noteq> address) updates then Inr (Inl ''endpoint_mismatch'')
                else Inr (Inr updates))
      else if kinds \<subseteq> {''manual_rtsp'', ''catalog_rtsp''} then
        bind_err (moved_uris address (with_uri strs)) (\<lambda>updates. Inr (Inr (index_pairs updates)))
      else Inr (Inl ''mixed_sources''))"

text \<open>Probes as they end; the first that fails decides.\<close>

fun collect_probes ::
  "media_env \<Rightarrow> (string \<times> string) list \<Rightarrow> string \<Rightarrow> string \<Rightarrow> string list \<Rightarrow> (string \<times> probe_result) list \<Rightarrow>
   string + (string \<times> probe_result) list" where
  "collect_probes env updates username password [] acc = Inr acc"
| "collect_probes env updates username password (token # tokens) acc =
     (case probe_source env (the (map_of updates token)) username password of
        Inl _ \<Rightarrow> Inl ''error''
      | Inr r \<Rightarrow>
          if pr_status r \<noteq> ''ready'' then Inl (pr_status r)
          else collect_probes env updates username password tokens (AList.update token r acc))"

definition validated_updates ::
  "recovery_env \<Rightarrow> device \<Rightarrow> (profile_row \<times> stream_row) list \<Rightarrow> string \<Rightarrow> string \<Rightarrow>
   py_exn + string + (string \<times> string) list \<times> (string \<times> probe_result) list" where
  "validated_updates env device strs username password =
     bind_err (proposed_updates env device strs username password) (\<lambda>r.
       case r of
         Inl status \<Rightarrow> Inr (Inl status)
       | Inr updates \<Rightarrow>
           Inr (map_sum id (\<lambda>probes. (updates, probes))
             (collect_probes (rce_media env) updates username password
                (rce_completed env (filter (\<lambda>k. k \<in> set (enabled_tokens strs)) (map fst updates))) [])))"

subsection \<open>Planning\<close>

definition try_address ::
  "recovery_env \<Rightarrow> string \<Rightarrow> adoption \<Rightarrow> device \<Rightarrow> string \<Rightarrow> string \<Rightarrow> plan_outcome media" where
  "try_address env cu a device previous ev =
     (let menv = rce_media env; c = cam_uuid (ad_camera a); address = text_of device ''ip'' in
      bind_io (update_media (\<lambda>d. case credentials_for_candidate (env_plain menv) cu d of
          Inl e \<Rightarrow> Inl (CryptoErr e) | Inr r \<Rightarrow> Inr (r, d))) (\<lambda>credential.
        case credential of
          None \<Rightarrow> ret Skip
        | Some (username, password) \<Rightarrow>
            bind_io (lift_err (validated_updates env device (ad_streams a) username password)) (\<lambda>r.
              case r of
                Inl status \<Rightarrow>
                  ret (Refused \<lparr>rcr_camera = c, rcr_status = status, rcr_previous = previous, rcr_current = address\<rparr>)
              | Inr (updates, probes) \<Rightarrow>
                  ret (Planned \<lparr>pln_candidate = cu, pln_camera = c, pln_device = device, pln_streams = ad_streams a,
                    pln_previous = previous, pln_current = address, pln_evidence = ev, pln_updates = updates,
                    pln_sources = index_pairs (with_uri (ad_streams a)), pln_probes = probes\<rparr>))))"

definition plan_camera ::
  "recovery_env \<Rightarrow> (string \<times> device) list \<Rightarrow> db \<Rightarrow> string \<times> adoption \<Rightarrow> (media_state \<times> attempts, py_exn, plan_outcome) prog" where
  "plan_camera env inventory d = (\<lambda>(cu, a).
     let c = cam_uuid (ad_camera a) in
     if \<not> cam_enabled (ad_camera a) then ret Skip
     else
       case linked_candidate c cu inventory d of
         None \<Rightarrow> ret Skip
       | Some device \<Rightarrow>
           if device = [] \<or> dget device ''status'' \<noteq> PStr ''online'' \<or> truthy (dget device ''identity_conflict'')
           then ret Skip
           else
             case evidence device of
               None \<Rightarrow> ret Skip
             | Some ev \<Rightarrow>
                 let address = text_of device ''ip'' in
                 case previous_hosts (ad_streams a) of
                   [previous] \<Rightarrow>
                     if address = [] then ret Skip
                     else if previous = address
                       then (\<lambda>(s, m). (Inr Skip, s, clear_attempts c m))
                     else (\<lambda>(s, m).
                       if attempt_due (rce_interval env) (rce_mono env) (m (c, address))
                       then on_media (try_address env cu a device previous ev)
                              (s, note_attempt (rce_mono env) (c, address) m)
                       else (Inr Skip, s, m))
                 | _ \<Rightarrow> ret Skip)"

fun plan_cameras ::
  "recovery_env \<Rightarrow> (string \<times> device) list \<Rightarrow> db \<Rightarrow> (string \<times> adoption) list \<Rightarrow>
   (media_state \<times> attempts, py_exn, recovery_result list \<times> plan list) prog" where
  "plan_cameras env inventory d [] = ret ([], [])"
| "plan_cameras env inventory d (x # xs) =
     bind_io (plan_camera env inventory d x) (\<lambda>outcome.
     bind_io (plan_cameras env inventory d xs) (\<lambda>(results, plans).
       ret (case outcome of
              Skip \<Rightarrow> (results, plans)
            | Refused r \<Rightarrow> (r # results, plans)
            | Planned p \<Rightarrow> (results, p # plans))))"

subsection \<open>Moving the sources\<close>

text \<open>How far the move has come, for the handler that takes it back.\<close>

record progress =
  prg_updated :: "plan list"
  prg_incidents :: "(string \<times> string) list"
  prg_revision :: "(nat \<times> revision_status) option"
  prg_runtime :: bool

definition no_progress :: progress where
  "no_progress = \<lparr>prg_updated = [], prg_incidents = [], prg_revision = None, prg_runtime = False\<rparr>"

definition repository :: "(db \<Rightarrow> repo_error + 'a \<times> db) \<Rightarrow> 'a media" where
  "repository f = update_media (\<lambda>d. case f d of Inl e \<Rightarrow> Inl (DatabaseErr e) | Inr r \<Rightarrow> Inr r)"

definition note_progress :: "(progress \<Rightarrow> progress) \<Rightarrow> (media_state \<times> progress, py_exn, unit) prog" where
  "note_progress f = (\<lambda>(s, g). (Inr (), s, f g))"

definition move_sources :: "media_env \<Rightarrow> plan \<Rightarrow> (media_state \<times> progress, py_exn, unit) prog" where
  "move_sources env p =
     bind_io (on_media (repository (open_camera_address_incident (pln_camera p) (pln_previous p) (pln_current p)
        (pln_evidence p) (env_time env)))) (\<lambda>i.
     bind_io (note_progress (\<lambda>g. g\<lparr>prg_incidents := AList.update (pln_camera p) i (prg_incidents g)\<rparr>)) (\<lambda>_.
     bind_io (on_media (save_media (update_profile_sources (pln_camera p) (pln_updates p) (env_time env)))) (\<lambda>_.
       note_progress (\<lambda>g. g\<lparr>prg_updated := prg_updated g @ [p]\<rparr>))))"

definition of_cameras :: "plan list \<Rightarrow> managed_source list \<Rightarrow> managed_source list" where
  "of_cameras plans srcs = filter (\<lambda>s. mgs_camera s \<in> set (map pln_camera plans)) srcs"

definition relay_notice :: "media_env \<Rightarrow> string \<Rightarrow> nat \<Rightarrow> unit media" where
  "relay_notice env reason n =
     update_media (\<lambda>d. Inr ((), snd (enqueue_relay_restart_notification reason (int n) (env_time env) d)))"

definition empirical_results :: "plan list \<Rightarrow> (string \<times> probe_result) list" where
  "empirical_results plans =
     fold (\<lambda>p acc.
       let ids = index_pairs (map (\<lambda>(q, s). (prf_token q, str_uuid s)) (pln_streams p)) in
       fold (\<lambda>(token, r) acc. case map_of ids token of None \<Rightarrow> acc | Some u \<Rightarrow> AList.update u r acc) (pln_probes p) acc)
       plans []"

definition check_served ::
  "media_env \<Rightarrow> plan list \<Rightarrow> managed_source list \<Rightarrow> string \<Rightarrow> (media_state \<times> progress, py_exn, unit) prog" where
  "check_served env plans srcs password =
     (let served = probe_streams env srcs ''camadmiral'' password in
      if set (map fst served) \<noteq> set (map mgs_stream srcs) \<or> list_ex (\<lambda>(_, r). pr_status r \<noteq> ''ready'') served
      then throw (RuntimeErr ''restarted relay did not serve every recovered stream'')
      else on_media (record_results env (empirical_results plans)))"

definition serve_moved :: "media_env \<Rightarrow> plan list \<Rightarrow> (media_state \<times> progress, py_exn, unit) prog" where
  "serve_moved env plans =
     bind_io (on_media (media_sources env every_source)) (\<lambda>srcs.
     bind_io (on_media (start_revision env srcs)) (\<lambda>revision.
     bind_io (note_progress (\<lambda>g. g\<lparr>prg_revision := Some revision, prg_runtime := True\<rparr>)) (\<lambda>_.
     bind_io (on_media (replace_streams env (of_cameras plans srcs))) (\<lambda>_.
     bind_io (on_media (relay_notice env ''camera_address_recovery'' (length plans))) (\<lambda>_.
     bind_io (on_media (relay_password env)) (\<lambda>password.
       check_served env plans (of_cameras plans srcs) password))))))"

definition replace_relay :: "media_env \<Rightarrow> plan list \<Rightarrow> (media_state \<times> progress, py_exn, unit) prog" where
  "replace_relay env plans = bind_io (each (move_sources env) plans) (\<lambda>_. serve_moved env plans)"

definition finish_progress :: "media_env \<Rightarrow> progress \<Rightarrow> string \<Rightarrow> string option \<Rightarrow> unit media" where
  "finish_progress env g status code =
     (case prg_revision g of Some revision \<Rightarrow> finish_revision env revision status code | None \<Rightarrow> ret ())"

definition take_back :: "media_env \<Rightarrow> progress \<Rightarrow> unit media" where
  "take_back env g =
     bind_io (finish_progress env g ''failed'' (Some ''runtime_replacement_failed'')) (\<lambda>_.
     bind_io (each (\<lambda>p. save_media (update_profile_sources (pln_camera p) (pln_sources p) (env_time env))) (prg_updated g)) (\<lambda>_.
       if prg_runtime g then
         bind_io (media_sources env every_source) (\<lambda>srcs.
           ignore_errors
             (bind_io (replace_streams env (of_cameras (prg_updated g) srcs)) (\<lambda>_.
              relay_notice env ''camera_address_recovery_rollback'' (length (prg_updated g)))))
       else ret ()))"

definition settle_camera :: "media_env \<Rightarrow> string set \<Rightarrow> progress \<Rightarrow> plan \<Rightarrow> unit media" where
  "settle_camera env linked g p =
     (let c = pln_camera p; t = env_time env in
      bind_io (save_media (record_address_change c (pln_previous p) (pln_current p) (pln_evidence p) t)) (\<lambda>_.
      bind_io (update_media (\<lambda>d. Inr ((), snd (observe_camera_identity c (pln_device p) t d)))) (\<lambda>_.
      bind_io (if c \<in> linked then save_media (bind_camera_identity c (pln_device p) t) else ret ()) (\<lambda>_.
        update_media (\<lambda>d. Inr ((), resolve_camera_address_incident (the (map_of (prg_incidents g) c)) t d))))))"

fun settle_cameras ::
  "media_env \<Rightarrow> string set \<Rightarrow> progress \<Rightarrow> plan list \<Rightarrow> (media_state \<times> attempts, py_exn, recovery_result list) prog" where
  "settle_cameras env linked g [] = ret []"
| "settle_cameras env linked g (p # plans) =
     bind_io (on_media (settle_camera env linked g p)) (\<lambda>_.
     bind_io (\<lambda>(s, m). (Inr (), s, clear_attempts (pln_camera p) m)) (\<lambda>_.
     bind_io (settle_cameras env linked g plans) (\<lambda>results. ret (result_of ''recovered'' p # results))))"

definition move_cameras ::
  "media_env \<Rightarrow> string set \<Rightarrow> plan list \<Rightarrow> (media_state \<times> attempts, py_exn, recovery_result list) prog" where
  "move_cameras env linked plans = (\<lambda>(s, m).
     case replace_relay env plans (s, no_progress) of
       (Inl _, s1, g) \<Rightarrow>
         bind_io (on_media (take_back env g)) (\<lambda>_. ret (map (result_of ''runtime_failed'') plans)) (s1, m)
     | (Inr _, s1, g) \<Rightarrow>
         bind_io (on_media (finish_progress env g ''applied'' None)) (\<lambda>_. settle_cameras env linked g plans) (s1, m))"

definition move_planned ::
  "media_env \<Rightarrow> string set \<Rightarrow> recovery_result list \<times> plan list \<Rightarrow> (media_state \<times> attempts, py_exn, recovery_result list) prog" where
  "move_planned env linked = (\<lambda>(results, plans).
     if plans = [] then ret results
     else bind_io (move_cameras env linked plans) (\<lambda>moved. ret (results @ moved)))"

definition recover_inventory_addresses :: "recovery_env \<Rightarrow> (media_state \<times> attempts, py_exn, recovery_result list) prog" where
  "recover_inventory_addresses env =
     bind_io (lift_err (read_inventory (rce_inventory env))) (\<lambda>inventory (s, m).
       let d = med_db s;
           adoptions = adoption_map d;
           active = (\<lambda>x. cam_uuid (ad_camera (snd x))) ` set adoptions;
           linked = lnk_camera ` set (identity_links d)
       in bind_io (plan_cameras env inventory d adoptions) (move_planned (rce_media env) linked)
          (s, \<lambda>k. if fst k \<in> active then m k else None))"

subsection \<open>How far a move has come\<close>

lemma move_sources_progress:
  "move_sources env p (s, g) = (Inr (), s', g') \<Longrightarrow> prg_updated g' = prg_updated g @ [p]"
  by (auto simp: move_sources_def bind_io_Inr on_media_Inr note_progress_def)

lemma each_move_progress:
  "each (move_sources env) plans (s, g) = (Inr (), s', g') \<Longrightarrow> prg_updated g' = prg_updated g @ plans"
  by (induction plans arbitrary: s g) (auto simp: ret_Inr bind_io_Inr dest!: move_sources_progress)

end
