(* ===== verification/RecoveryDemo.thy ===== *)
theory RecoveryDemo
  imports Recovery MediaDemo AdoptionProps
begin

text \<open>
  A camera that moved: the instance of the media layer with the device at another address, an inspection
  that reports its one profile there, and an ffprobe that finds video wherever it looks.
\<close>

definition demo_video :: pyval where
  "demo_video = PDict [(''streams'', PList [PDict [(''codec_type'', PStr ''video''), (''codec_name'', PStr ''h264''),
     (''width'', PInt 640), (''height'', PInt 480), (''avg_frame_rate'', PStr ''15/1'')]])]"

definition demo_device :: device where
  "demo_device = [(''candidate_uuid'', PStr ''k1''), (''status'', PStr ''online''), (''ip'', PStr ''cam2''),
     (''mac'', PStr ''aa:bb'')]"

definition demo_inventory :: pyval where
  "demo_inventory = PDict [(''devices'', PList [PDict demo_device])]"

definition demo_answering :: "(relay_request list \<Rightarrow> relay_request \<Rightarrow> relay_answer) \<Rightarrow> media_env" where
  "demo_answering relay = (demo_media_env relay)\<lparr>env_rtsp := ''rtsp://relay'', env_ffprobe := (\<lambda>_. (Exited 0 [] (Some demo_video), 20))\<rparr>"

definition demo_recovery :: "(relay_request list \<Rightarrow> relay_request \<Rightarrow> relay_answer) \<Rightarrow> recovery_env" where
  "demo_recovery relay =
     \<lparr>rce_media = demo_answering relay, rce_mono = 100, rce_interval = 300, rce_inventory = Some demo_inventory,
      rce_inspect = (\<lambda>_ _. Inr [[(''token'', PStr ''tok''), (''uri'', PStr ''rtsp://cam2/a'')]]),
      rce_completed = (\<lambda>xs. xs)\<rparr>"

lemma demo_recovery_fields:
  "rce_media (demo_recovery r) = demo_answering r" "rce_mono (demo_recovery r) = 100" "rce_interval (demo_recovery r) = 300"
  "rce_inspect (demo_recovery r) device credential = Inr [[(''token'', PStr ''tok''), (''uri'', PStr ''rtsp://cam2/a'')]]"
  "rce_completed (demo_recovery r) xs = xs"
  by (simp_all add: demo_recovery_def)

lemma demo_answering_fields:
  "env_relay (demo_answering r) = r" "env_plain (demo_answering r) = (\<lambda>c _. Inr c)" "env_time (demo_answering r) = 9"
  "env_epoch (demo_answering r) = 9" "env_revision (demo_answering r) = (\<lambda>_. ''digest'')"
  "env_ffprobe (demo_answering r) uri = (Exited 0 [] (Some demo_video), 20)" "env_rtsp (demo_answering r) = ''rtsp://relay''"
  by (simp_all add: demo_answering_def demo_media_env_def)

lemma moved_inventory_read: "read_inventory (rce_inventory (demo_recovery r)) = Inr [(''k1'', demo_device)]"
  by (simp add: demo_recovery_def) code_simp

definition demo_joined_streams :: "(profile_row \<times> stream_row) list" where
  "demo_joined_streams = [(demo_profile, demo_stream\<lparr>str_key := ''stream_a''\<rparr>)]"

lemma demo_adoptions:
  obtains a where "adoption_map demo_media_db = [(''k1'', a)]" "ad_camera a = demo_camera" "ad_streams a = demo_joined_streams"
  by (rule that [of "the (adoption_for_candidate ''k1'' demo_media_db)"]) (simp_all add: adoption_map_def adoption_for_candidate_def demo_media_db_def demo_simps row_get_def
      joined_streams_def stream_profile_def demo_profile_def blank_profile_def demo_joined_streams_def)

lemma demo_seen:
  "previous_hosts demo_joined_streams = [''cam'']" "evidence demo_device = Some ''unique-mac''"
  "text_of demo_device ''ip'' = ''cam2''" "dget demo_device ''status'' = PStr ''online''"
  "truthy (dget demo_device ''identity_conflict'') = False" "demo_device \<noteq> []"
  "index_pairs (with_uri demo_joined_streams) = [(''tok'', ''rtsp://cam/a'')]"
  "discovered_uris [[(''token'', PStr ''tok''), (''uri'', PStr ''rtsp://cam2/a'')]] = [(''tok'', ''rtsp://cam2/a'')]"
  "source_host ''rtsp://cam2/a'' = ''cam2''"
  "enabled_tokens demo_joined_streams = [''tok'']"
  by code_simp+

definition demo_ready :: probe_result where
  "demo_ready =
     \<lparr>pr_status = ''ready'', pr_latency = 20, pr_vcodec = Some ''h264'', pr_acodec = None, pr_width = 640, pr_height = 480,
      pr_fps = 15\<rparr>"

lemma demo_media_result: "media_result 20 demo_video = Inr demo_ready"
  by code_simp

lemma moved_camera_probe: "authenticated_rtsp_uri uri u p \<noteq> None \<Longrightarrow> probe_source (demo_answering r) uri u p = Inr demo_ready"
  by (auto simp: probe_source_def probe_uri_def demo_answering_fields demo_media_result)

lemma demo_proposed:
  "proposed_updates (demo_recovery r) demo_device demo_joined_streams ''u'' ''p'' = Inr (Inr [(''tok'', ''rtsp://cam2/a'')])"
proof -
  have "index_pairs (concat (map (\<lambda>(p, _). case map_of [(''tok'', ''rtsp://cam2/a'')] (prf_token p) of
      None \<Rightarrow> [] | Some uri \<Rightarrow> [(prf_token p, uri)]) demo_joined_streams)) = [(''tok'', ''rtsp://cam2/a'')]"
    by code_simp
  moreover have "set (map (\<lambda>(p, _). if prf_kind p = [] then ''onvif'' else prf_kind p) demo_joined_streams) = {''onvif''}"
    by (simp add: demo_joined_streams_def demo_profile_def blank_profile_def)
  ultimately show ?thesis
    by (simp add: proposed_updates_def demo_recovery_fields demo_seen)
qed

lemma demo_validated:
  "validated_updates (demo_recovery r) demo_device demo_joined_streams ''u'' ''p'' =
     Inr (Inr ([(''tok'', ''rtsp://cam2/a'')], [(''tok'', demo_ready)]))"
proof -
  have "authenticated_rtsp_uri ''rtsp://cam2/a'' ''u'' ''p'' \<noteq> None" by code_simp
  then show ?thesis
    by (simp add: validated_updates_def demo_proposed bind_err_def demo_recovery_fields demo_seen moved_camera_probe demo_ready_def)
qed

subsection \<open>The database while the camera moves\<close>

text \<open>\<open>demo_at uri\<close>: the one camera with its one stream, whose profile has the address \<open>uri\<close>.\<close>

definition demo_at :: "string \<Rightarrow> db \<Rightarrow> bool" where
  "demo_at uri d \<longleftrightarrow>
     cameras d = [demo_camera] \<and> credentials d = credentials demo_media_db \<and>
     service_secrets d = service_secrets demo_media_db \<and>
     (\<exists>z. streams d = [z] \<and> str_uuid z = ''m1'' \<and> str_key z = ''stream_a'' \<and> str_camera z = ''c1''
        \<and> str_profile z = ''p1'' \<and> str_enabled z) \<and>
     (\<exists>p. profiles d = [p] \<and> prf_uuid p = ''p1'' \<and> prf_camera p = ''c1'' \<and> prf_token p = ''tok''
        \<and> prf_uri p \<noteq> None \<and> profile_uri p = uri)"

abbreviation at_state :: "string \<Rightarrow> media_state \<Rightarrow> bool" where
  "at_state uri s \<equiv> demo_at uri (med_db s)"

lemma demo_at_start: "at_state ''rtsp://cam/a'' demo_media_start"
  using demo_profile_uri
  by (simp add: demo_at_def demo_media_start_def demo_media_db_def demo_simps)
     (simp add: demo_profile_def blank_profile_def)

lemma demo_at_cong:
  assumes "demo_at uri d" "cameras d' = cameras d" "credentials d' = credentials d" "service_secrets d' = service_secrets d"
    "profiles d' = profiles d"
    "\<exists>f. streams d' = map f (streams d) \<and> (\<forall>z. str_uuid (f z) = str_uuid z \<and> str_key (f z) = str_key z
       \<and> str_camera (f z) = str_camera z \<and> str_profile (f z) = str_profile z \<and> str_enabled (f z) = str_enabled z)"
  shows "demo_at uri d'"
  using assms unfolding demo_at_def by fastforce

lemma demo_at_same:
  assumes "demo_at uri d" "cameras d' = cameras d" "credentials d' = credentials d" "service_secrets d' = service_secrets d"
    "profiles d' = profiles d" "streams d' = streams d"
  shows "demo_at uri d'"
  by (rule demo_at_cong [OF assms(1-5)]) (rule exI [of _ id], simp add: assms(6))

lemma health_secrets: "health_only d d' \<Longrightarrow> service_secrets d' = service_secrets d"
  by (auto simp: health_only_def)

lemma demo_at_health: "demo_at uri d \<Longrightarrow> health_only d d' \<Longrightarrow> demo_at uri d'"
  by (rule demo_at_same) (simp_all add: health_only_sel health_secrets)

definition demo_source_at :: "string \<Rightarrow> managed_source" where
  "demo_source_at uri = demo_source\<lparr>mgs_uri := uri\<rparr>"

lemma demo_at_sources:
  assumes "demo_at uri d"
  shows "managed_stream_sources (\<lambda>c _. Inr c) every_source d = Inr [demo_source_at uri]"
proof -
  from assms obtain z p where z: "streams d = [z]" "str_uuid z = ''m1''" "str_key z = ''stream_a''" "str_camera z = ''c1''"
      "str_profile z = ''p1''" "str_enabled z"
    and p: "profiles d = [p]" "prf_uuid p = ''p1''" "prf_uri p \<noteq> None" "profile_uri p = uri"
    and rest: "cameras d = [demo_camera]" "credentials d = credentials demo_media_db"
    by (auto simp: demo_at_def)
  have "joined_sources every_source d =
      [(z, p, \<lparr>crd_uuid = ''s1'', crd_username = ''u'', crd_cipher = ''p'', crd_created = 1, crd_updated = 1\<rparr>)]"
    using z p rest
    by (simp add: joined_sources_def stream_profile_def row_get_def demo_camera_def demo_media_db_def source_wanted_def every_source_def)
  then show ?thesis
    using z p by (simp add: managed_stream_sources_def bind_err_def demo_source_at_def demo_source_def)
qed

lemma demo_at_update:
  assumes "demo_at uri d" "source_parts_of (Some v) = Some sp" "source_uri sp (Some v) = w"
  obtains d' where "update_profile_sources ''c1'' [(''tok'', v)] 9 d = Inr d'" "demo_at w d'"
proof -
  from assms(1) obtain z p where z: "streams d = [z]" "str_uuid z = ''m1''" "str_key z = ''stream_a''" "str_camera z = ''c1''"
      "str_profile z = ''p1''" "str_enabled z"
    and p: "profiles d = [p]" "prf_uuid p = ''p1''" "prf_camera p = ''c1''" "prf_token p = ''tok''"
    and rest: "cameras d = [demo_camera]" "credentials d = credentials demo_media_db"
       "service_secrets d = service_secrets demo_media_db"
    by (auto simp: demo_at_def)
  let ?p = "set_source (Some v) sp 9 p"
  let ?d = "d\<lparr>profiles := [?p], streams := [reset_stream z]\<rparr>"
  have "update_profile_sources ''c1'' [(''tok'', v)] 9 d = Inr (record_camera_health_transition ''c1'' 9 ?d)"
    using z p assms(2) by (simp add: update_profile_sources_def bind_err_def upd_where_def Let_def set_source_def image_iff)
  moreover have "parts_of_profile ?p = sp" by (simp add: parts_of_profile_def set_source_def)
  then have "profile_uri ?p = w" by (simp add: profile_uri_def set_source_def assms(3))
  then have "demo_at w ?d"
    using z p rest unfolding demo_at_def by (simp add: reset_stream_def) (simp add: set_source_def)
  ultimately show ?thesis
    using that demo_at_health [OF _ transition_health_only] by blast
qed

definition demo_plan :: plan where
  "demo_plan =
     \<lparr>pln_candidate = ''k1'', pln_camera = ''c1'', pln_device = demo_device, pln_streams = demo_joined_streams,
      pln_previous = ''cam'', pln_current = ''cam2'', pln_evidence = ''unique-mac'',
      pln_updates = [(''tok'', ''rtsp://cam2/a'')], pln_sources = [(''tok'', ''rtsp://cam/a'')],
      pln_probes = [(''tok'', demo_ready)]\<rparr>"

lemma demo_recovery_runs:
  assumes "attempt_due 300 100 (m (''c1'', ''cam2''))"
  shows "recover_inventory_addresses (demo_recovery r) (demo_media_start, m) =
     bind_io (move_cameras (demo_answering r) {} [demo_plan]) ret
       (demo_media_start, note_attempt 100 (''c1'', ''cam2'') (\<lambda>k. if fst k = ''c1'' then m k else None))"
proof (rule demo_adoptions)
  let ?m = "\<lambda>k. if fst k = ''c1'' then m k else None"
  fix a assume a: "adoption_map demo_media_db = [(''k1'', a)]" "ad_camera a = demo_camera" "ad_streams a = demo_joined_streams"
  have c: "cam_uuid demo_camera = ''c1''" "cam_enabled demo_camera" by (simp_all add: demo_camera_def)
  have links: "identity_links demo_media_db = []" by (simp add: demo_media_db_def demo_simps)
  have cred: "credentials_for_candidate (\<lambda>c _. Inr c) ''k1'' demo_media_db = Inr (Some (''u'', ''p''))"
    by (simp add: credentials_for_candidate_def demo_media_db_def demo_simps row_get_def)
  have "linked_candidate ''c1'' ''k1'' [(''k1'', demo_device)] demo_media_db = Some demo_device"
    by (simp add: linked_candidate_def camera_identity_link_def links row_get_def)
  then have "plan_camera (demo_recovery r) [(''k1'', demo_device)] demo_media_db (''k1'', a) (demo_media_start, ?m) =
      (Inr (Planned demo_plan), demo_media_start, note_attempt 100 (''c1'', ''cam2'') ?m)"
    using assms
    by (simp add: plan_camera_def Let_def a c demo_seen on_media_def try_address_def bind_io_def update_media_def
        demo_recovery_fields demo_answering_fields cred demo_validated lift_err_def ret_def demo_plan_def demo_media_start_def)
  then have "plan_cameras (demo_recovery r) [(''k1'', demo_device)] demo_media_db [(''k1'', a)] (demo_media_start, ?m) =
      (Inr ([], [demo_plan]), demo_media_start, note_attempt 100 (''c1'', ''cam2'') ?m)"
    by (simp add: bind_io_def ret_def)
  then show ?thesis
    by (simp add: recover_inventory_addresses_def moved_inventory_read bind_lift a(1,2) c(1) Let_def demo_media_start_def links
        demo_recovery_fields bind_io_def [of "plan_cameras _ _ _ _"] move_planned_def)
qed

lemma achieves_on_media: "achieves P m Q \<Longrightarrow> achieves (\<lambda>s. P (fst s)) (on_media m) (\<lambda>x s. Q x (fst s))"
  by (fastforce simp: achieves_def on_media_def)

lemma achieves_save: "(\<And>d. P d \<Longrightarrow> \<exists>d'. f d = Inr d' \<and> Q d') \<Longrightarrow>
    achieves (\<lambda>s. P (med_db s)) (save_media f) (\<lambda>_ s. Q (med_db s))"
  by (fastforce simp: achieves_def save_media_def update_media_def)

lemma achieves_update: "(\<And>d. P d \<Longrightarrow> \<exists>x d'. f d = Inr (x, d') \<and> Q x d') \<Longrightarrow>
    achieves (\<lambda>s. P (med_db s)) (update_media f) (\<lambda>x s. Q x (med_db s))"
  by (fastforce simp: achieves_def update_media_def)

lemma demo_sources_run:
  "achieves (at_state uri) (media_sources (demo_answering r) every_source) (\<lambda>srcs s. srcs = [demo_source_at uri] \<and> at_state uri s)"
  unfolding media_sources_def
  by (rule achieves_update) (simp add: demo_answering_fields demo_at_sources)

lemma demo_incident_run: "achieves (at_state uri) (repository (open_camera_address_incident ''c1'' p q ev t)) (\<lambda>_. at_state uri)"
  unfolding repository_def
proof (rule achieves_update)
  fix d assume d: "demo_at uri d"
  then have "has_row (\<lambda>r. cam_uuid r = ''c1'') (cameras d)" by (simp add: demo_at_def demo_camera_def has_row_def)
  then show "\<exists>x d'. (case open_camera_address_incident ''c1'' p q ev t d of
      Inl e \<Rightarrow> Inl (DatabaseErr e) | Inr r \<Rightarrow> Inr r) = Inr (x, d') \<and> demo_at uri d'"
    using d demo_at_health [OF d incidents_health_only] demo_at_health [OF d open_health_only]
    by (auto simp: open_camera_address_incident_def Let_def split: option.split)
       (metis surjective_pairing)
qed

lemma demo_update_run:
  assumes "source_parts_of (Some v) = Some sp" "source_uri sp (Some v) = w"
  shows "achieves (at_state uri) (save_media (update_profile_sources ''c1'' [(''tok'', v)] 9)) (\<lambda>_. at_state w)"
  by (rule achieves_save) (metis demo_at_update [OF _ assms])

lemma demo_parts:
  "source_parts_of (Some ''rtsp://cam2/a'') \<noteq> None"
  "source_uri (the (source_parts_of (Some ''rtsp://cam2/a''))) (Some ''rtsp://cam2/a'') = ''rtsp://cam2/a''"
  "source_parts_of (Some ''rtsp://cam/a'') \<noteq> None"
  "source_uri (the (source_parts_of (Some ''rtsp://cam/a''))) (Some ''rtsp://cam/a'') = ''rtsp://cam/a''"
  by code_simp+

lemma demo_typed_at: "typed_source (demo_source_at ''rtsp://cam2/a'') \<noteq> None" "typed_source (demo_source_at ''rtsp://cam/a'') \<noteq> None"
  by code_simp+

lemma demo_addresses:
  "source_address (demo_source_at ''rtsp://cam2/a'') = Inr ''rtsp://u:p@cam2/a''"
  "source_address (demo_source_at ''rtsp://cam/a'') = Inr ''rtsp://u:p@cam/a''"
  by code_simp+

lemma demo_moved_run: "achieves (at_state uri) (save_media (update_profile_sources ''c1'' (pln_updates demo_plan) 9)) (\<lambda>_. at_state ''rtsp://cam2/a'')"
  using demo_update_run [of "''rtsp://cam2/a''"] demo_parts by (fastforce simp: demo_plan_def)

lemma demo_back_run: "achieves (at_state uri) (save_media (update_profile_sources ''c1'' (pln_sources demo_plan) 9)) (\<lambda>_. at_state ''rtsp://cam/a'')"
  using demo_update_run [of "''rtsp://cam/a''"] demo_parts by (fastforce simp: demo_plan_def)

lemma demo_revision_run:
  assumes "typed_source (demo_source_at uri) \<noteq> None"
  shows "achieves (at_state uri) (start_revision (demo_answering r) [demo_source_at uri]) (\<lambda>_. at_state uri)"
  unfolding start_revision_def
proof (rule achieves_update)
  fix d assume d: "demo_at uri d"
  then have "\<And>l. demo_at uri (d\<lparr>revisions := l\<rparr>)" by (rule demo_at_same) simp_all
  then show "\<exists>x d'. (case record_desired_media_revision (env_revision (demo_answering r)) [demo_source_at uri]
      (env_time (demo_answering r)) d of Inl e \<Rightarrow> Inl (DatabaseErr e) | Inr r \<Rightarrow> Inr r) = Inr (x, d') \<and> demo_at uri d'"
    using assms d by (auto simp: record_desired_media_revision_def Let_def demo_answering_fields)
qed

lemma demo_finish_run:
  assumes "status = ''applied'' \<or> status = ''failed''"
  shows "achieves (at_state uri) (finish_progress env g status code) (\<lambda>_. at_state uri)"
proof -
  have "achieves (at_state uri) (save_media (complete_media_revision n status code t)) (\<lambda>_. at_state uri)" for n t
  proof (rule achieves_save)
    fix d assume d: "demo_at uri d"
    then have "\<And>l. demo_at uri (d\<lparr>revisions := l\<rparr>)" by (rule demo_at_same) simp_all
    then show "\<exists>d'. complete_media_revision n status code t d = Inr d' \<and> demo_at uri d'"
      using assms by (auto simp: complete_media_revision_def)
  qed
  then show ?thesis
    by (auto simp: finish_progress_def finish_revision_def intro: achieves_ret split: option.split)
qed

lemma demo_password_run:
  "achieves (at_state uri) (relay_password (demo_answering r)) (\<lambda>p s. p = ''pw'' \<and> at_state uri s)"
  unfolding relay_password_def
  by (rule achieves_update) (simp add: rtsp_access_password_def demo_answering_fields demo_at_def demo_media_db_def row_get_def)

lemma demo_notice_run: "achieves (at_state uri) (relay_notice (demo_answering r) reason n) (\<lambda>_. at_state uri)"
  unfolding relay_notice_def
  by (rule achieves_update) (auto simp: enqueue_relay_restart_notification_def new_uuid_def Let_def intro: demo_at_same)

lemma apply_probe_kept [simp]:
  "str_enabled (apply_probe r t z) = str_enabled z" "str_key (apply_probe r t z) = str_key z"
  "str_profile (apply_probe r t z) = str_profile z"
  by (simp_all add: apply_probe_def Let_def)

lemma demo_at_probe: "demo_at uri d \<Longrightarrow> demo_at uri (record_probe_results results t epoch d)"
proof -
  have one: "demo_at uri (record_one t epoch x d)" if "demo_at uri d" for x d
  proof (cases "row_get str_uuid (fst x) (streams d)")
    case None
    then show ?thesis using that by (simp add: record_one_def case_prod_beta)
  next
    case (Some z)
    have "demo_at uri (d\<lparr>auth_retries := l, streams := upd_where (\<lambda>s. str_uuid s = fst x) (apply_probe (snd x) t) (streams d)\<rparr>)" for l
      by (rule demo_at_cong [OF that])
         (auto simp: upd_where_def split: if_splits intro!: exI [of _ "\<lambda>s. if str_uuid s = fst x then apply_probe (snd x) t s else s"])
    then show ?thesis using Some by (simp add: record_one_def case_prod_beta)
  qed
  have "demo_at uri (fold (record_one t epoch) results d)" if "demo_at uri d" for d
    using that one by (induction results arbitrary: d) auto
  moreover have "demo_at uri (fold (\<lambda>c. record_camera_health_transition c t) cs d)" if "demo_at uri d" for cs d
    using that demo_at_health [OF _ transition_health_only] by (induction cs arbitrary: d) auto
  moreover assume "demo_at uri d"
  ultimately show ?thesis by (simp add: record_probe_results_def)
qed

lemma demo_record_run: "achieves (at_state uri) (record_results env results) (\<lambda>_. at_state uri)"
  unfolding record_results_def by (rule achieves_update) (simp add: demo_at_probe)

lemma ask_kept: "med_db (snd (ask_relay env q s)) = med_db s"
  by (simp add: ask_relay_def Let_def split: relay_answer.split)

text \<open>A relay that does what it is asked to, and one that cannot be reached.\<close>

lemma demo_ask_run: "achieves (at_state uri) (ask_relay (demo_answering (\<lambda>_ _. Body None)) q) (\<lambda>_. at_state uri)"
  by (simp add: achieves_def ask_relay_def demo_answering_fields)

lemma demo_wait_run: "achieves (at_state uri) (wait_for_go2rtc (demo_answering (\<lambda>_ _. Body None)) n) (\<lambda>_. at_state uri)"
proof (cases n)
  case (Suc k)
  then show ?thesis
    by simp (intro achieves_catch achieves_bind [OF demo_ask_run] achieves_ret)
qed (simp add: achieves_ret)

lemma demo_replace_run:
  assumes "source_address src = Inr u"
  shows "achieves (at_state uri) (replace_streams (demo_answering (\<lambda>_ _. Body None)) [src]) (\<lambda>_. at_state uri)"
  unfolding replace_streams_def
  by (simp add: assms bind_err_def bind_lift)
     (intro achieves_bind [where R = "\<lambda>_. at_state uri"] achieves_catch achieves_ret demo_ask_run demo_wait_run)

lemma unreachable_replace:
  obtains s' where "replace_streams (demo_answering (\<lambda>_ _. NoConnection)) srcs s = (Inl Unreachable, s')" "med_db s' = med_db s"
proof -
  let ?env = "demo_answering (\<lambda>_ _. NoConnection)"
  have ask: "ask_relay ?env q s = (Inl Unreachable, s\<lparr>med_log := med_log s @ [q]\<rparr>)" for q s
    by (simp add: ask_relay_def demo_answering_fields)
  have "\<exists>s'. wait_for_go2rtc ?env (Suc n) s = (Inl Unreachable, s') \<and> med_db s' = med_db s" for n s
  proof (induction n arbitrary: s)
    case 0
    then show ?case by (simp add: catch_all_def bind_io_def ask throw_def)
  next
    case (Suc n)
    show ?case using Suc.IH [of "s\<lparr>med_log := med_log s @ [RelayApi]\<rparr>"]
      by (subst wait_for_go2rtc.simps) (simp add: catch_all_def bind_io_def ask del: wait_for_go2rtc.simps)
  qed
  from this [of 19 s] show ?thesis using that
    by (auto simp: replace_streams_def bind_io_def simp del: wait_for_go2rtc.simps)
qed

lemma demo_move_run:
  "achieves (\<lambda>s. at_state uri (fst s)) (each (move_sources (demo_answering r)) [demo_plan])
     (\<lambda>_ s. at_state ''rtsp://cam2/a'' (fst s))"
proof -
  let ?At = "\<lambda>u s. at_state u (fst s)"
  have noted: "achieves (?At u) (note_progress f) (\<lambda>_. ?At u)" for u f
    by (simp add: achieves_def note_progress_def)
  have incident: "achieves (?At uri) (on_media (repository (open_camera_address_incident ''c1'' p q ev t))) (\<lambda>_. ?At uri)" for p q ev t
    by (rule achieves_on_media [OF demo_incident_run])
  have moved: "achieves (?At uri) (on_media (save_media (update_profile_sources ''c1'' (pln_updates demo_plan) 9)))
      (\<lambda>_. ?At ''rtsp://cam2/a'')"
    by (rule achieves_on_media [OF demo_moved_run])
  have "pln_camera demo_plan = ''c1''" by (simp add: demo_plan_def)
  then show ?thesis
    by (simp add: move_sources_def demo_answering_fields)
       (rule achieves_bind [OF achieves_bind [OF incident achieves_bind [OF noted achieves_bind [OF moved noted]]] achieves_ret])
qed

lemma demo_source_fields:
  "mgs_stream (demo_source_at uri) = ''m1''" "mgs_camera (demo_source_at uri) = ''c1''" "mgs_key (demo_source_at uri) = ''stream_a''"
  by (simp_all add: demo_source_at_def demo_source_def)

lemma demo_of_cameras: "of_cameras [demo_plan] [demo_source_at uri] = [demo_source_at uri]"
  by (simp add: of_cameras_def demo_plan_def demo_source_fields)

lemma demo_stream_probe: "probe_streams (demo_answering r) [demo_source_at uri] ''camadmiral'' ''pw'' = [(''m1'', demo_ready)]"
proof -
  have "authenticated_rtsp_uri ''rtsp://relay/stream_a'' ''camadmiral'' ''pw'' \<noteq> None" by code_simp
  from moved_camera_probe [OF this, of r] show ?thesis
    by (simp add: probe_streams_def probe_stream_def demo_answering_fields demo_source_fields or_error_def)
qed

lemma demo_check_run:
  "achieves (\<lambda>s. p = ''pw'' \<and> at_state uri (fst s)) (check_served (demo_answering r) plans [demo_source_at v] p)
     (\<lambda>_ s. at_state uri (fst s))"
proof (rule achieves_pre)
  assume p: "p = ''pw''"
  have "check_served (demo_answering r) plans [demo_source_at v] p =
      on_media (record_results (demo_answering r) (empirical_results plans))"
    unfolding p by (simp add: check_served_def demo_stream_probe demo_source_fields demo_ready_def)
  then show "achieves (\<lambda>s. p = ''pw'' \<and> at_state uri (fst s)) (check_served (demo_answering r) plans [demo_source_at v] p)
     (\<lambda>_ s. at_state uri (fst s))"
    using achieves_on_media [OF demo_record_run] p by simp
qed simp

lemma demo_serve_run:
  "achieves (\<lambda>s. at_state ''rtsp://cam2/a'' (fst s)) (serve_moved (demo_answering (\<lambda>_ _. Body None)) [demo_plan])
     (\<lambda>_ s. at_state ''rtsp://cam2/a'' (fst s))" (is "achieves ?At _ _")
  unfolding serve_moved_def
proof (rule achieves_bind [OF achieves_on_media [OF demo_sources_run]])
  fix srcs
  let ?env = "demo_answering (\<lambda>_ _. Body None)" and ?srcs = "[demo_source_at ''rtsp://cam2/a'']"
  have noted: "achieves ?At (note_progress f) (\<lambda>_. ?At)" for f by (simp add: achieves_def note_progress_def)
  have revision: "achieves ?At (on_media (start_revision ?env ?srcs)) (\<lambda>_. ?At)"
    by (rule achieves_on_media [OF demo_revision_run [OF demo_typed_at(1)]])
  have replace: "achieves ?At (on_media (replace_streams ?env (of_cameras [demo_plan] ?srcs))) (\<lambda>_. ?At)"
    unfolding demo_of_cameras by (rule achieves_on_media [OF demo_replace_run [OF demo_addresses(1)]])
  have notice: "achieves ?At (on_media (relay_notice ?env reason n)) (\<lambda>_. ?At)" for reason n
    by (rule achieves_on_media [OF demo_notice_run])
  have password: "achieves ?At (on_media (relay_password ?env)) (\<lambda>p s. p = ''pw'' \<and> ?At s)"
    by (rule achieves_on_media [OF demo_password_run])
  have checked: "achieves (\<lambda>s. p = ''pw'' \<and> ?At s) (check_served ?env [demo_plan] (of_cameras [demo_plan] ?srcs) p) (\<lambda>_. ?At)" for p
    unfolding demo_of_cameras by (rule demo_check_run)
  note run = achieves_bind [OF revision achieves_bind [OF noted achieves_bind [OF replace achieves_bind [OF notice
     achieves_bind [OF password checked]]]]]
  show "achieves (\<lambda>s. srcs = ?srcs \<and> ?At s) (bind_io (on_media (start_revision ?env srcs)) (\<lambda>revision.
     bind_io (note_progress (\<lambda>g. g\<lparr>prg_revision := Some revision, prg_runtime := True\<rparr>)) (\<lambda>_.
     bind_io (on_media (replace_streams ?env (of_cameras [demo_plan] srcs))) (\<lambda>_.
     bind_io (on_media (relay_notice ?env ''camera_address_recovery'' (length [demo_plan]))) (\<lambda>_.
     bind_io (on_media (relay_password ?env)) (\<lambda>password.
       check_served ?env [demo_plan] (of_cameras [demo_plan] srcs) password)))))) (\<lambda>_. ?At)"
    by (rule achieves_pre [where b = "srcs = ?srcs"], simp, hypsubst) (rule achieves_conseq [OF run], simp_all)
qed

lemma demo_settle_run:
  "achieves (at_state uri) (settle_camera (demo_answering r) {} g demo_plan) (\<lambda>_. at_state uri)"
proof -
  have "achieves (at_state uri) (save_media (record_address_change ''c1'' p q ev t)) (\<lambda>_. at_state uri)" for p q ev t
  proof (rule achieves_save)
    fix d assume d: "demo_at uri d"
    then have "has_row (\<lambda>r. cam_uuid r = ''c1'') (cameras d)" by (simp add: demo_at_def demo_camera_def has_row_def)
    moreover have "demo_at uri (d\<lparr>uuid_next := n, address_events := l\<rparr>)" for n l by (rule demo_at_same [OF d]) simp_all
    ultimately show "\<exists>d'. record_address_change ''c1'' p q ev t d = Inr d' \<and> demo_at uri d'"
      by (simp add: record_address_change_def new_uuid_def)
  qed
  moreover have "achieves (at_state uri) (update_media (\<lambda>d. Inr ((), snd (observe_camera_identity ''c1'' x t d)))) (\<lambda>_. at_state uri)" for x t
  proof (rule achieves_update)
    fix d assume d: "demo_at uri d"
    have "service_secrets (snd (observe_identity ''c1'' x t d)) = service_secrets d"
      by (auto simp: observe_identity_def start_period_def new_uuid_def Let_def split: option.splits prod.splits)
    then have "demo_at uri (snd (observe_identity ''c1'' x t d))" by (intro demo_at_same [OF d]) simp_all
    then show "\<exists>y d'. Inr ((), snd (observe_camera_identity ''c1'' x t d)) = Inr (y, d') \<and> demo_at uri d'"
      using d by (simp add: observe_camera_identity_def)
  qed
  moreover have "achieves (at_state uri) (update_media (\<lambda>d. Inr ((), resolve_camera_address_incident i t d))) (\<lambda>_. at_state uri)" for i t
    by (rule achieves_update)
       (auto simp: resolve_camera_address_incident_def intro: demo_at_health [OF _ resolve_health_only] split: option.split)
  ultimately show ?thesis
    unfolding settle_camera_def Let_def
    by (simp add: demo_plan_def) (intro achieves_bind [where R = "\<lambda>_. at_state uri"] achieves_ret; simp)
qed

subsection \<open>The two passes\<close>

lemma demo_recovers:
  assumes "attempt_due 300 100 (m (''c1'', ''cam2''))"
  shows "\<exists>s' m'. recover_inventory_addresses (demo_recovery (\<lambda>_ _. Body None)) (demo_media_start, m) =
      (Inr [result_of ''recovered'' demo_plan], s', m')"
proof -
  let ?env = "demo_answering (\<lambda>_ _. Body None)" and ?At = "\<lambda>s. at_state ''rtsp://cam2/a'' (fst s)"
  have "achieves (\<lambda>s. at_state ''rtsp://cam/a'' (fst s)) (replace_relay ?env [demo_plan]) (\<lambda>_. ?At)"
    unfolding replace_relay_def by (rule achieves_bind [OF demo_move_run demo_serve_run])
  from achievesD [OF this, of "(demo_media_start, no_progress)"] demo_at_start
  obtain s1 g where s1: "replace_relay ?env [demo_plan] (demo_media_start, no_progress) = (Inr (), s1, g)" "at_state ''rtsp://cam2/a'' s1"
    by auto
  have run: "achieves ?At (bind_io (on_media (finish_progress ?env g ''applied'' None)) (\<lambda>_. settle_cameras ?env {} g [demo_plan]))
      (\<lambda>out s. out = [result_of ''recovered'' demo_plan])"
  proof (rule achieves_bind [OF achieves_on_media [OF demo_finish_run]])
    have cleared: "achieves ?At (\<lambda>(s, m). (Inr (), s, clear_attempts (pln_camera demo_plan) m)) (\<lambda>_. ?At)"
      by (simp add: achieves_def)
    show "achieves ?At (settle_cameras ?env {} g [demo_plan]) (\<lambda>out s. out = [result_of ''recovered'' demo_plan])"
      by simp (intro achieves_bind [OF achieves_on_media [OF demo_settle_run]] achieves_bind [OF cleared]
        achieves_bind [OF achieves_ret [where Q = "\<lambda>out _. out = []"]] achieves_ret; simp)
  qed simp
  let ?m = "note_attempt 100 (''c1'', ''cam2'') (\<lambda>k. if fst k = ''c1'' then m k else None)"
  have "\<exists>out t. bind_io (on_media (finish_progress ?env g ''applied'' None)) (\<lambda>_. settle_cameras ?env {} g [demo_plan]) (s1, ?m)
      = (Inr out, t) \<and> out = [result_of ''recovered'' demo_plan]"
    by (rule achievesD [OF run]) (simp add: s1(2))
  then obtain t where t: "bind_io (on_media (finish_progress ?env g ''applied'' None)) (\<lambda>_. settle_cameras ?env {} g [demo_plan]) (s1, ?m)
      = (Inr [result_of ''recovered'' demo_plan], t)"
    by blast
  obtain s' m' where "t = (s', m')" by (cases t)
  with t have "move_cameras ?env {} [demo_plan] (demo_media_start, ?m) = (Inr [result_of ''recovered'' demo_plan], s', m')"
    by (simp only: move_cameras_def s1(1) prod.case sum.case)
  then show ?thesis
    by (simp add: demo_recovery_runs [of m, OF assms] bind_io_def [of "move_cameras _ _ _"] ret_def)
qed

lemma demo_fails:
  assumes "attempt_due 300 100 (m (''c1'', ''cam2''))"
  shows "\<exists>s'. recover_inventory_addresses (demo_recovery (\<lambda>_ _. NoConnection)) (demo_media_start, m) =
      (Inr [result_of ''runtime_failed'' demo_plan], s',
       note_attempt 100 (''c1'', ''cam2'') (\<lambda>k. if fst k = ''c1'' then m k else None))"
proof -
  let ?env = "demo_answering (\<lambda>_ _. NoConnection)" and ?At = "\<lambda>s. at_state ''rtsp://cam2/a'' (fst s)"
  obtain s1 g1 where moved: "each (move_sources ?env) [demo_plan] (demo_media_start, no_progress) = (Inr (), s1, g1)"
    "at_state ''rtsp://cam2/a'' s1"
    using achievesD [OF demo_move_run [where r = "\<lambda>_ _. NoConnection"], of "''rtsp://cam/a''" "(demo_media_start, no_progress)"]
      demo_at_start
    by (auto simp del: each.simps)
  have g1: "prg_updated g1 = [demo_plan]" using each_move_progress [OF moved(1)] by (simp add: no_progress_def)
  obtain s2 where s2: "media_sources ?env every_source s1 = (Inr [demo_source_at ''rtsp://cam2/a''], s2)" "at_state ''rtsp://cam2/a'' s2"
    using achievesD [OF demo_sources_run [where uri = "''rtsp://cam2/a''"], of s1] moved(2) by auto
  obtain revision s3 where s3: "start_revision ?env [demo_source_at ''rtsp://cam2/a''] s2 = (Inr revision, s3)" "at_state ''rtsp://cam2/a'' s3"
    using achievesD [OF demo_revision_run [OF demo_typed_at(1), where r = "\<lambda>_ _. NoConnection"], of s2] s2(2) by auto
  obtain s4 where s4: "replace_streams ?env [demo_source_at ''rtsp://cam2/a''] s3 = (Inl Unreachable, s4)" "med_db s4 = med_db s3"
    by (rule unreachable_replace)
  let ?g = "g1\<lparr>prg_revision := Some revision, prg_runtime := True\<rparr>"
  have failed: "replace_relay ?env [demo_plan] (demo_media_start, no_progress) = (Inl Unreachable, s4, ?g)"
    unfolding replace_relay_def bind_io_def [of "each _ _"] moved(1)
    by (simp add: serve_moved_def bind_io_def on_media_def s2 s3 s4 note_progress_def demo_of_cameras)
  have "achieves (at_state ''rtsp://cam2/a'') (take_back ?env ?g) (\<lambda>_ _. True)"
  proof -
    have "achieves P (ignore_errors n) (\<lambda>_ _. True)" for P and n :: "unit media"
      by (auto simp: achieves_def ignore_errors_def catch_all_def ret_def split: sum.split prod.split)
    note ignored = this
    have "pln_camera demo_plan = ''c1''" by (simp add: demo_plan_def)
    then have restored: "achieves (at_state ''rtsp://cam2/a'')
        (each (\<lambda>p. save_media (update_profile_sources (pln_camera p) (pln_sources p) 9)) [demo_plan]) (\<lambda>_. at_state ''rtsp://cam/a'')"
      by simp (rule achieves_bind [OF demo_back_run achieves_ret], simp)
    have "prg_updated ?g = [demo_plan]" "prg_runtime ?g" by (simp_all add: g1)
    then show ?thesis
      unfolding take_back_def demo_answering_fields
      by (simp del: each.simps) (rule achieves_bind [OF demo_finish_run achieves_bind [OF restored achieves_bind [OF demo_sources_run ignored]]], simp)
  qed
  from achievesD [OF this, of s4] s3(2) s4(2) show ?thesis
    by (auto simp: demo_recovery_runs [of m, OF assms] bind_io_def move_cameras_def failed on_media_def ret_def)
qed

end
