(* ===== verification/RecoveryProps.thy ===== *)
theory RecoveryProps
  imports RecoveryDemo
begin

text \<open>
  What address recovery promises: attempts are paced, a camera is called recovered only when its streams
  were seen at the new address with its credentials, and a move that fails is taken back.
\<close>

subsection \<open>Pacing\<close>

definition memory_of :: "('r \<times> media_state \<times> 'm) \<Rightarrow> 'm" where
  "memory_of out = snd (snd out)"

lemma on_media_memory [simp]: "snd (snd (on_media m s)) = snd s"
  by (simp add: on_media_def split: prod.split)

text \<open>What planning a camera does to the memory: nothing, forgetting its attempts, or noting one that is due.\<close>

lemma plan_camera_memory_cases:
  fixes x :: "string \<times> adoption"
  defines "c \<equiv> cam_uuid (ad_camera (snd x))"
  obtains (kept) "snd (snd (plan_camera env inventory d x (s, m))) = m"
  | (cleared) "snd (snd (plan_camera env inventory d x (s, m))) = clear_attempts c m"
  | (noted) address where "attempt_due (rce_interval env) (rce_mono env) (m (c, address))"
      "snd (snd (plan_camera env inventory d x (s, m))) = note_attempt (rce_mono env) (c, address) m"
proof (cases "linked_candidate c (fst x) inventory d")
  case None
  then show ?thesis by (intro kept) (simp add: plan_camera_def case_prod_beta Let_def ret_def c_def)
next
  case (Some device)
  note linked = this
  show ?thesis
  proof (cases "evidence device")
    case None
    then show ?thesis using linked by (intro kept) (simp add: plan_camera_def case_prod_beta Let_def ret_def c_def)
  next
    case (Some ev)
    show ?thesis
    proof (cases "\<exists>previous. previous_hosts (ad_streams (snd x)) = [previous]")
      case True
      then obtain previous where "previous_hosts (ad_streams (snd x)) = [previous]" by blast
      then have "snd (snd (plan_camera env inventory d x (s, m))) \<in>
          {m, clear_attempts c m} \<union> {m'. attempt_due (rce_interval env) (rce_mono env) (m (c, text_of device ''ip''))
             \<and> m' = note_attempt (rce_mono env) (c, text_of device ''ip'') m}"
        using linked Some by (simp add: plan_camera_def case_prod_beta Let_def ret_def c_def)
      then show ?thesis using kept cleared noted [of "text_of device ''ip''"] by auto
    next
      case False
      then show ?thesis using linked Some
        by (intro kept) (simp add: plan_camera_def case_prod_beta Let_def ret_def c_def split: list.split)
    qed
  qed
qed

lemma plan_camera_memory:
  "snd (snd (plan_camera env inventory d x (s, m))) k =
     (if fst k = cam_uuid (ad_camera (snd x)) then snd (snd (plan_camera env inventory d x (s, m))) k else m k)"
  by (cases rule: plan_camera_memory_cases [of env inventory d x s m]) (auto simp: clear_attempts_def note_attempt_def)

text \<open>What may become of an entry of the memory: nothing, its removal, or a due attempt.\<close>

definition paced :: "recovery_env \<Rightarrow> (rat \<times> nat) option \<Rightarrow> (rat \<times> nat) option \<Rightarrow> bool" where
  "paced env before after \<longleftrightarrow>
     after = before \<or> after = None \<or>
     (attempt_due (rce_interval env) (rce_mono env) before \<and>
      after = Some (rce_mono env, Suc (case before of None \<Rightarrow> 0 | Some (_, n) \<Rightarrow> n)))"

lemma plan_camera_paced: "paced env (m k) (snd (snd (plan_camera env inventory d x (s, m))) k)"
  by (cases rule: plan_camera_memory_cases [of env inventory d x s m]) (auto simp: paced_def clear_attempts_def note_attempt_def)

lemma plan_cameras_paced:
  "distinct (map (\<lambda>x. cam_uuid (ad_camera (snd x))) xs) \<Longrightarrow>
   paced env (m k) (snd (snd (plan_cameras env inventory d xs (s, m))) k)
   \<and> (fst k \<notin> (\<lambda>x. cam_uuid (ad_camera (snd x))) ` set xs \<longrightarrow>
        snd (snd (plan_cameras env inventory d xs (s, m))) k = m k)"
proof (induction xs arbitrary: s m)
  case Nil
  then show ?case by (simp add: ret_def paced_def)
next
  case (Cons x xs)
  let ?c = "cam_uuid (ad_camera (snd x))"
  obtain r s1 m1 where one: "plan_camera env inventory d x (s, m) = (r, s1, m1)"
    by (cases "plan_camera env inventory d x (s, m)")
  have step: "paced env (m k) (m1 k)" "fst k \<noteq> ?c \<longrightarrow> m1 k = m k"
    using plan_camera_paced [of env m k inventory d x s] plan_camera_memory [of env inventory d x s m k] one by auto
  let ?out = "snd (snd (plan_cameras env inventory d (x # xs) (s, m))) k"
  have IH: "paced env (m1 k) (snd (snd (plan_cameras env inventory d xs (s1, m1))) k)"
    "fst k \<notin> (\<lambda>x. cam_uuid (ad_camera (snd x))) ` set xs \<longrightarrow>
        snd (snd (plan_cameras env inventory d xs (s1, m1))) k = m1 k"
    using Cons.IH [of m1 s1] Cons.prems by simp_all
  have out: "?out = m1 k \<or> ?out = snd (snd (plan_cameras env inventory d xs (s1, m1))) k"
    by (auto simp: bind_io_def one ret_def split: sum.split prod.split)
  show ?case
  proof (cases "fst k = ?c")
    case True
    then have "fst k \<notin> (\<lambda>x. cam_uuid (ad_camera (snd x))) ` set xs" using Cons.prems by simp
    then show ?thesis using IH(2) out step(1) True by auto
  next
    case False
    then show ?thesis using IH out step by (auto simp: paced_def)
  qed
qed

abbreviation untouched_or_cleared :: "string \<times> string \<Rightarrow> (rat \<times> nat) option \<Rightarrow> media_state \<times> attempts \<Rightarrow> bool" where
  "untouched_or_cleared k e \<equiv> \<lambda>s. snd s k = e \<or> snd s k = None"

lemma keeps_clear: "keeps (untouched_or_cleared k e) (\<lambda>(s, m). (Inr (), s, clear_attempts c m))"
  by (auto simp: keeps_def clear_attempts_def)

lemma keeps_entry_media: "keeps (untouched_or_cleared k e) (on_media f)"
  by (rule keeps_on_media [where I = "\<lambda>m. m k = e \<or> m k = None"])

lemma keeps_settle_cameras: "keeps (untouched_or_cleared k e) (settle_cameras env linked g plans)"
  by (induction plans) (auto intro!: keeps_intros keeps_clear keeps_entry_media)

lemma keeps_move: "keeps (untouched_or_cleared k e) (move_cameras env linked plans)"
proof (rule keepsI)
  fix s :: "media_state \<times> attempts" assume s: "untouched_or_cleared k e s"
  obtain r s1 g where run: "replace_relay env plans (fst s, no_progress) = (r, s1, g)"
    by (cases "replace_relay env plans (fst s, no_progress)")
  have "keeps (untouched_or_cleared k e)
      (bind_io (on_media (take_back env g)) (\<lambda>_. ret (map (result_of ''runtime_failed'') plans)))"
    "keeps (untouched_or_cleared k e)
      (bind_io (on_media (finish_progress env g ''applied'' None)) (\<lambda>_. settle_cameras env linked g plans))"
    by (intro keeps_intros keeps_entry_media keeps_settle_cameras)+
  from this [THEN keepsD, of "(s1, snd s)"] s show "untouched_or_cleared k e (snd (move_cameras env linked plans s))"
    by (cases r) (simp_all add: move_cameras_def case_prod_beta run)
qed

lemma adoption_of_row:
  assumes "uniq_on cam_candidate (cameras d)" "c \<in> set (cameras d)"
  shows "\<exists>a. adoption_for_candidate (cam_candidate c) d = Some a \<and> ad_camera a = c"
  using row_get_uniq [OF assms(1,2)] by (simp add: adoption_for_candidate_def)

lemma adoption_cameras:
  assumes "uniq_on cam_candidate (cameras d)"
  shows "map (\<lambda>x. ad_camera (snd x)) (adoption_map d) = cameras d"
proof -
  have "map (\<lambda>x. ad_camera (snd x)) (concat (map (\<lambda>c. case adoption_for_candidate (cam_candidate c) d of
         None \<Rightarrow> [] | Some a \<Rightarrow> [(cam_candidate c, a)]) cs)) = cs" if "set cs \<subseteq> set (cameras d)" for cs
    using that
  proof (induction cs)
    case (Cons c cs)
    obtain a where "adoption_for_candidate (cam_candidate c) d = Some a" "ad_camera a = c"
      using adoption_of_row [OF assms, of c] Cons.prems by auto
    then show ?case using Cons by simp
  qed simp
  then show ?thesis by (simp add: adoption_map_def)
qed

lemma adoption_cameras_distinct:
  assumes "uniq_on cam_uuid (cameras d)" "uniq_on cam_candidate (cameras d)"
  shows "distinct (map (\<lambda>x. cam_uuid (ad_camera (snd x))) (adoption_map d))"
  using assms(1) adoption_cameras [OF assms(2)] unfolding uniq_on_def
  by (metis (no_types, lifting) list.map_comp map_eq_conv comp_apply)

lemma recover_paced:
  assumes "uniq_on cam_uuid (cameras (med_db s))" "uniq_on cam_candidate (cameras (med_db s))"
    and "recover_inventory_addresses env (s, m) = (r, s', m')"
  shows "paced env (m k) (m' k)"
proof -
  let ?d = "med_db s"
  have dist: "distinct (map (\<lambda>x. cam_uuid (ad_camera (snd x))) (adoption_map ?d))"
    using assms(1,2) by (rule adoption_cameras_distinct)
  let ?m0 = "\<lambda>k. if fst k \<in> (\<lambda>x. cam_uuid (ad_camera (snd x))) ` set (adoption_map ?d) then m k else None"
  show ?thesis
  proof (cases "read_inventory (rce_inventory env)")
    case (Inl e)
    then show ?thesis using assms(3) by (simp add: recover_inventory_addresses_def bind_lift throw_def paced_def)
  next
    case (Inr inventory)
    obtain out s1 m1 where plan: "plan_cameras env inventory ?d (adoption_map ?d) (s, ?m0) = (out, s1, m1)"
      by (cases "plan_cameras env inventory ?d (adoption_map ?d) (s, ?m0)")
    have "paced env (?m0 k) (m1 k)" and gone: "fst k \<notin> (\<lambda>x. cam_uuid (ad_camera (snd x))) ` set (adoption_map ?d) \<longrightarrow> m1 k = None"
      using plan_cameras_paced [OF dist, of env ?m0 k inventory ?d s] plan by auto
    then have m1: "paced env (m k) (m1 k)" by (auto simp: paced_def split: if_splits)
    have "m' k = m1 k \<or> m' k = None"
    proof (cases out)
      case (Inl e)
      then show ?thesis using assms(3) plan
        by (simp add: recover_inventory_addresses_def Inr bind_lift Let_def bind_io_def [of "plan_cameras _ _ _ _"])
    next
      case (Inr plans)
      have "move_planned (rce_media env) (lnk_camera ` set (identity_links ?d)) plans (s1, m1) = (r, s', m')"
        using assms(3) plan Inr \<open>read_inventory (rce_inventory env) = Inr inventory\<close>
        by (simp add: recover_inventory_addresses_def bind_lift Let_def bind_io_def [of "plan_cameras _ _ _ _"])
      moreover have "keeps (untouched_or_cleared k (m1 k)) (move_planned (rce_media env) (lnk_camera ` set (identity_links ?d)) plans)"
        unfolding move_planned_def by (intro keeps_intros keeps_move)
      ultimately show ?thesis using keepsD [of _ _ "(s1, m1)"] by fastforce
    qed
    then show ?thesis using m1 by (auto simp: paced_def)
  qed
qed

text \<open>The memory after each pass of a run; the database may change between passes.\<close>

primrec memories :: "(recovery_env \<times> media_state) list \<Rightarrow> attempts \<Rightarrow> attempts list" where
  "memories [] m = []"
| "memories (x # xs) m =
     (let m' = snd (snd (recover_inventory_addresses (fst x) (snd x, m))) in m' # memories xs m')"

definition spaced :: "rat \<Rightarrow> rat \<Rightarrow> (rat \<times> nat) option \<Rightarrow> bool" where
  "spaced slow first e \<longleftrightarrow>
     (case e of None \<Rightarrow> True
      | Some (t, n) \<Rightarrow> 1 \<le> n \<and> first + 10 * of_nat (min (n - 1) 4) + slow * of_nat (n - 5) \<le> t)"

lemma one_more_step: "(a :: rat) + b * x \<le> t \<Longrightarrow> b \<le> u - t \<Longrightarrow> a + b * (x + 1) \<le> u"
  by (simp add: distrib_left)

lemma paced_spaced:
  assumes "paced env e e'" "spaced (rce_interval env) first e" "e \<noteq> None"
  shows "spaced (rce_interval env) first e'"
proof -
  obtain t n where e: "e = Some (t, n)" using assms(3) by auto
  show ?thesis
  proof (cases "e' = e \<or> e' = None")
    case False
    then have e': "e' = Some (rce_mono env, Suc n)" and due: "retry_interval (rce_interval env) n \<le> rce_mono env - t"
      using assms(1) by (auto simp: paced_def e attempt_due_def)
    have n: "1 \<le> n" and t: "first + 10 * of_nat (min (n - 1) 4) + rce_interval env * of_nat (n - 5) \<le> t"
      using assms(2) by (auto simp: spaced_def e)
    show ?thesis
    proof (cases "n \<le> 4")
      case True
      have due': "10 \<le> rce_mono env - t"
        using due True by (simp add: retry_interval_def fast_retries_def fast_retry_interval_def)
      have m: "min (n - 1) 4 = n - 1" "min (Suc n - 1) 4 = n" "n - 5 = 0" "Suc n - 5 = 0" using True by simp_all
      have step: "of_nat n = (of_nat (n - 1) :: rat) + 1" using n by (simp add: of_nat_diff)
      have "first + 10 * of_nat (n - 1) \<le> t" using t unfolding m by simp
      then have "first + 10 * of_nat n \<le> rce_mono env" unfolding step by (rule one_more_step [OF _ due'])
      then show ?thesis unfolding e' spaced_def by (simp only: option.case prod.case m) simp
    next
      case False
      have due': "rce_interval env \<le> rce_mono env - t"
        using due False by (simp add: retry_interval_def fast_retries_def)
      have m: "min (n - 1) 4 = 4" "min (Suc n - 1) 4 = 4" "Suc n - 5 = Suc (n - 5)" using False by simp_all
      have "first + 40 + rce_interval env * of_nat (n - 5) \<le> t" using t unfolding m by simp
      then have "first + 40 + rce_interval env * (of_nat (n - 5) + 1) \<le> rce_mono env"
        by (rule one_more_step [OF _ due'])
      then show ?thesis unfolding e' spaced_def by (simp only: option.case prod.case m) (simp add: add.commute)
    qed
  qed (use assms(2) in \<open>auto simp: spaced_def\<close>)
qed

definition passes_ok :: "rat \<Rightarrow> (recovery_env \<times> media_state) list \<Rightarrow> bool" where
  "passes_ok slow passes \<longleftrightarrow> (\<forall>(env, s) \<in> set passes. rce_interval env = slow
     \<and> uniq_on cam_uuid (cameras (med_db s)) \<and> uniq_on cam_candidate (cameras (med_db s)))"

lemma memories_spaced:
  "m k \<noteq> None \<Longrightarrow> spaced slow first (m k) \<Longrightarrow> \<forall>m' \<in> set (memories passes m). m' k \<noteq> None \<Longrightarrow> passes_ok slow passes \<Longrightarrow>
   spaced slow first (last (m # memories passes m) k)"
proof (induction passes arbitrary: m)
  case (Cons x passes)
  obtain env s where x: "x = (env, s)" by (cases x)
  obtain r s' m' where run: "recover_inventory_addresses env (s, m) = (r, s', m')"
    by (cases "recover_inventory_addresses env (s, m)")
  have "paced env (m k) (m' k)" "rce_interval env = slow"
    using recover_paced [OF _ _ run] Cons.prems(4) by (simp_all add: passes_ok_def x)
  from paced_spaced [OF this(1)] this(2) have "spaced slow first (m' k)" using Cons.prems(1,2) by simp
  moreover have "m' k \<noteq> None" "\<forall>m'' \<in> set (memories passes m'). m'' k \<noteq> None" "passes_ok slow passes"
    using Cons.prems(3,4) by (simp_all add: x run Let_def passes_ok_def)
  ultimately show ?case using Cons.IH [of m'] by (simp add: x run Let_def)
qed simp


definition demo_memory :: attempts where
  "demo_memory = (\<lambda>k. if k = (''c1'', ''cam2'') then Some (60, 1) else None)"


end
