(* ===== verification/RecoveryRollback.thy ===== *)
theory RecoveryRollback
  imports RecoveryProps Readoption
begin

text \<open>
  What becomes of the stored addresses: \<open>addresses\<close> lists them by camera and profile, and writing sources
  overrides the entries of one camera.
\<close>

definition addresses :: "db \<Rightarrow> (string \<times> string \<times> string option) list" where
  "addresses d = map (\<lambda>p. (prf_camera p, prf_token p, prf_uri p)) (profiles d)"

definition override ::
  "string \<Rightarrow> (string \<times> string) list \<Rightarrow> string \<times> string \<times> string option \<Rightarrow> string \<times> string \<times> string option" where
  "override c srcs = (\<lambda>(c', k, u). (c', k, if c' = c \<and> map_of srcs k \<noteq> None then map_of srcs k else u))"

definition overrides :: "(plan \<Rightarrow> (string \<times> string) list) \<Rightarrow> plan list \<Rightarrow>
  string \<times> string \<times> string option \<Rightarrow> string \<times> string \<times> string option" where
  "overrides f ps = fold (\<lambda>p. override (pln_camera p) (f p)) ps"

lemma overrides_append: "overrides f (ps @ [p]) x = override (pln_camera p) (f p) (overrides f ps x)"
  by (simp add: overrides_def)

lemma update_sources_addresses:
  "update_sources c t srcs d = Inr d' \<Longrightarrow> distinct (map fst srcs) \<Longrightarrow> addresses d' = map (override c srcs) (addresses d)"
proof (induction srcs arbitrary: d)
  case Nil
  then show ?case by (simp add: override_def case_prod_beta)
next
  case (Cons x srcs)
  obtain k uri where x: "x = (k, uri)" by (cases x)
  obtain sp where sp: "source_parts_of (Some uri) = Some sp"
    and run: "update_sources c t srcs (d\<lparr>profiles := upd_where (\<lambda>p. prf_camera p = c \<and> prf_token p = k)
        (set_source (Some uri) sp t) (profiles d)\<rparr>) = Inr d'" (is "update_sources c t srcs ?d = _")
    using Cons.prems(1) by (auto simp: x split: option.splits)
  have "addresses ?d = map (override c [(k, uri)]) (addresses d)"
    by (auto simp: addresses_def override_def upd_where_def set_source_def)
  moreover have "override c srcs (override c [(k, uri)] row) = override c (x # srcs) row" for row
  proof -
    have "map_of srcs k = None" using Cons.prems(2) by (simp add: x map_of_eq_None_iff)
    then show ?thesis by (cases row) (auto simp: x override_def)
  qed
  ultimately show ?case using Cons.IH [OF run] Cons.prems(2) by simp
qed

lemma update_profile_sources_addresses:
  "update_profile_sources c srcs t d = Inr d' \<Longrightarrow> distinct (map fst srcs) \<Longrightarrow>
   addresses d' = map (override c srcs) (addresses d)"
proof -
  assume run: "update_profile_sources c srcs t d = Inr d'" and dist: "distinct (map fst srcs)"
  show "addresses d' = map (override c srcs) (addresses d)"
  proof (cases "srcs = []")
    case True
    then show ?thesis using run by (simp add: update_profile_sources_def override_def case_prod_beta)
  next
    case False
    then obtain d1 where "update_sources c t srcs d = Inr d1" "profiles d' = profiles d1"
      using run by (auto simp: update_profile_sources_def bind_err_def Let_def split: if_splits sum.splits)
    then show ?thesis using update_sources_addresses [OF _ dist] by (simp add: addresses_def)
  qed
qed

lemma index_pairs_distinct: "distinct (map fst (index_pairs xs))"
proof -
  have "distinct (map fst acc) \<Longrightarrow> distinct (map fst (fold (\<lambda>(k, v). AList.update k v) xs acc))" for acc :: "(string \<times> 'a) list"
    by (induction xs arbitrary: acc) (auto simp: distinct_update)
  then show ?thesis by (simp add: index_pairs_def)
qed

lemma index_pairs_Some: "map_of (index_pairs xs) k = Some v \<Longrightarrow> (k, v) \<in> set xs"
  using map_of_fold_update [of fst snd xs "[]" k v] by (auto simp: index_pairs_def case_prod_unfold)

subsection \<open>Programs that leave the addresses alone\<close>

definition same_addresses :: "'a media \<Rightarrow> bool" where
  "same_addresses m \<longleftrightarrow> (\<forall>A. keeps (\<lambda>s. addresses (med_db s) = A) m)"

lemma keeps_addresses: "same_addresses m \<Longrightarrow> keeps (\<lambda>s. addresses (med_db s) = A) m"
  by (simp add: same_addresses_def)

lemma same_addressesD: "same_addresses m \<Longrightarrow> addresses (med_db (snd (m s))) = addresses (med_db s)"
  by (rule keepsD [OF keeps_addresses]) simp_all

named_theorems addresses_intros \<open>programs that write no address\<close>

lemma same_ask [addresses_intros]: "same_addresses (ask_relay env q)"
  by (auto simp: same_addresses_def keeps_def ask_relay_def Let_def split: relay_answer.split)

lemma same_update [addresses_intros]:
  "(\<And>d x d'. f d = Inr (x, d') \<Longrightarrow> profiles d' = profiles d) \<Longrightarrow> same_addresses (update_media f)"
  by (auto simp: same_addresses_def keeps_def update_media_def addresses_def split: sum.split)

lemma same_save [addresses_intros]:
  "(\<And>d d'. f d = Inr d' \<Longrightarrow> profiles d' = profiles d) \<Longrightarrow> same_addresses (save_media f)"
  unfolding save_media_def by (rule same_update) (auto split: sum.splits)

lemma same_ret [addresses_intros]: "same_addresses (ret x)"
  by (simp add: same_addresses_def keeps_ret)

lemma same_throw [addresses_intros]: "same_addresses (throw e)"
  by (simp add: same_addresses_def keeps_throw)

lemma same_lift [addresses_intros]: "same_addresses (lift_err r)"
  by (simp add: same_addresses_def keeps_lift_err)

lemma same_bind [addresses_intros]:
  "same_addresses m \<Longrightarrow> (\<And>x. same_addresses (f x)) \<Longrightarrow> same_addresses (bind_io m f)"
  by (simp add: same_addresses_def keeps_bind)

lemma same_catch [addresses_intros]:
  "same_addresses m \<Longrightarrow> (\<And>e. same_addresses (h e)) \<Longrightarrow> same_addresses (catch_all m h)"
  by (simp add: same_addresses_def keeps_catch_all)

lemma same_if [addresses_intros]:
  "same_addresses m \<Longrightarrow> same_addresses n \<Longrightarrow> same_addresses (if b then m else n)"
  by simp

lemma same_each [addresses_intros]: "(\<And>x. same_addresses (f x)) \<Longrightarrow> same_addresses (each f xs)"
  by (simp add: same_addresses_def keeps_each)

lemma same_wait [addresses_intros]: "same_addresses (wait_for_go2rtc env n)"
  by (induction n) (auto intro!: addresses_intros)

lemma probe_results_profiles [simp]: "profiles (record_probe_results results t epoch d) = profiles d"
proof -
  have "profiles (fold (record_one t epoch) results d) = profiles d" for d
    by (induction results arbitrary: d) (auto simp: record_one_def split: option.split)
  moreover have "profiles (fold (\<lambda>c. record_camera_health_transition c t) cs d) = profiles d" for cs d
    by (induction cs arbitrary: d) simp_all
  ultimately show ?thesis by (simp add: record_probe_results_def)
qed

lemma same_sources [addresses_intros]: "same_addresses (media_sources env f)"
  unfolding media_sources_def by (rule same_update) (auto split: sum.splits)

lemma same_start_revision [addresses_intros]: "same_addresses (start_revision env srcs)"
  unfolding start_revision_def
  by (rule same_update) (auto simp: record_desired_media_revision_def Let_def split: sum.splits option.splits if_splits)

lemma same_finish_revision [addresses_intros]: "same_addresses (finish_revision env revision status code)"
  unfolding finish_revision_def
  by (intro addresses_intros) (auto simp: complete_media_revision_def split: option.splits)

lemma same_password [addresses_intros]: "same_addresses (relay_password env)"
  unfolding relay_password_def
  by (rule same_update) (auto simp: rtsp_access_password_def Let_def map_sum_def split: sum.splits option.splits)

lemma same_record [addresses_intros]: "same_addresses (record_results env results)"
  unfolding record_results_def by (rule same_update) auto

lemma same_replace [addresses_intros]: "same_addresses (replace_streams env srcs)"
  unfolding replace_streams_def by (intro addresses_intros)

lemma same_notice [addresses_intros]: "same_addresses (relay_notice env reason n)"
  unfolding relay_notice_def
  by (rule same_update) (auto simp: enqueue_relay_restart_notification_def new_uuid_def Let_def)

lemma same_open_incident [addresses_intros]:
  "same_addresses (repository (open_camera_address_incident c previous current ev t))"
  unfolding repository_def
  by (rule same_update)
     (auto simp: open_camera_address_incident_def Let_def health_only_sel [OF open_health_only] split: sum.splits option.splits if_splits,
      metis health_only_sel(3) open_health_only snd_conv)

subsection \<open>Taking a move back\<close>

definition moved_so_far ::
  "(string \<times> string \<times> string option) list \<Rightarrow> plan list \<Rightarrow> media_state \<times> progress \<Rightarrow> bool" where
  "moved_so_far A plans s \<longleftrightarrow>
     addresses (med_db (fst s)) = map (overrides pln_updates (prg_updated (snd s))) A
     \<and> set (prg_updated (snd s)) \<subseteq> set plans"

lemma keeps_moved_media: "same_addresses m \<Longrightarrow> keeps (moved_so_far A plans) (on_media m)"
proof (rule keepsI)
  fix s assume m: "same_addresses m" and s: "moved_so_far A plans s"
  have "addresses (med_db (snd (m (fst s)))) = addresses (med_db (fst s))"
    by (rule same_addressesD [OF m])
  then show "moved_so_far A plans (snd (on_media m s))"
    using s by (auto simp: moved_so_far_def on_media_def case_prod_beta)
qed

lemma save_media_Inr: "save_media f s = (Inr x, s') \<longleftrightarrow> (\<exists>d. f (med_db s) = Inr d \<and> s' = s\<lparr>med_db := d\<rparr>)"
  by (auto simp: save_media_def update_media_def split: sum.splits)

lemma keeps_moved_note:
  "(\<And>g. prg_updated (f g) = prg_updated g) \<Longrightarrow> keeps (moved_so_far A plans) (note_progress f)"
  by (auto simp: keeps_def note_progress_def moved_so_far_def)

lemma keeps_moved_update:
  assumes "p \<in> set plans" "distinct (map fst (pln_updates p))"
  shows "keeps (moved_so_far A plans)
    (bind_io (on_media (save_media (update_profile_sources (pln_camera p) (pln_updates p) t)))
       (\<lambda>_. note_progress (\<lambda>g. g\<lparr>prg_updated := prg_updated g @ [p]\<rparr>)))"
proof (rule keepsI)
  fix s assume s: "moved_so_far A plans s"
  show "moved_so_far A plans (snd (bind_io (on_media (save_media (update_profile_sources (pln_camera p) (pln_updates p) t)))
       (\<lambda>_. note_progress (\<lambda>g. g\<lparr>prg_updated := prg_updated g @ [p]\<rparr>)) s))"
  proof (cases "update_profile_sources (pln_camera p) (pln_updates p) t (med_db (fst s))")
    case (Inl e)
    then show ?thesis using s by (simp add: bind_io_def on_media_def save_media_def update_media_def)
  next
    case (Inr d')
    from update_profile_sources_addresses [OF this assms(2)]
    have "addresses d' = map (overrides pln_updates (prg_updated (snd s) @ [p])) A"
      using s by (simp add: moved_so_far_def overrides_append comp_def)
    then show ?thesis using s assms(1) Inr
      by (simp add: bind_io_def on_media_def save_media_def update_media_def note_progress_def moved_so_far_def)
  qed
qed

lemma keeps_moved_replace:
  assumes "\<forall>p \<in> set plans. distinct (map fst (pln_updates p))"
  shows "keeps (moved_so_far A plans) (replace_relay env plans)"
proof -
  have "keeps (moved_so_far A plans) (move_sources env p)" if "p \<in> set plans" for p
    unfolding move_sources_def using assms that
    by (intro keeps_bind keeps_moved_media same_open_incident keeps_moved_note keeps_moved_update) simp_all
  then show ?thesis
    unfolding replace_relay_def serve_moved_def check_served_def Let_def
    by (intro keeps_intros keeps_moved_media keeps_moved_note addresses_intros) auto
qed

text \<open>A plan that knows the addresses it overrides.\<close>

definition restorable :: "(string \<times> string \<times> string option) list \<Rightarrow> plan \<Rightarrow> bool" where
  "restorable A p \<longleftrightarrow>
     distinct (map fst (pln_updates p)) \<and> distinct (map fst (pln_sources p)) \<and>
     fst ` set (pln_updates p) \<subseteq> fst ` set (pln_sources p) \<and>
     (\<forall>k u v. (pln_camera p, k, u) \<in> set A \<longrightarrow> map_of (pln_sources p) k = Some v \<longrightarrow> u = Some v)"

lemma overrides_undone:
  assumes "\<forall>p \<in> set ps. restorable A p" "x \<in> set A"
  shows "overrides pln_sources ps (overrides pln_updates ps x) = x"
proof -
  obtain c k u where x: "x = (c, k, u)" by (cases x)
  let ?touched = "\<lambda>ps. \<exists>p \<in> set ps. pln_camera p = c \<and> map_of (pln_sources p) k \<noteq> None"
  have keys: "map_of (pln_updates p) k \<noteq> None \<Longrightarrow> map_of (pln_sources p) k \<noteq> None" if "restorable A p" for p
    using that by (auto simp: restorable_def map_of_eq_None_iff)
  have there: "\<exists>y. overrides pln_updates ps (c, k, z) = (c, k, y) \<and> (y = z \<or> ?touched ps)"
    if "\<forall>p \<in> set ps. restorable A p" for ps z
    using that
  proof (induction ps arbitrary: z)
    case (Cons p ps)
    obtain z' where z': "override (pln_camera p) (pln_updates p) (c, k, z) = (c, k, z')"
      by (simp add: override_def)
    have "z' = z \<or> ?touched (p # ps)" using z' keys [of p] Cons.prems by (auto simp: override_def split: if_splits)
    with Cons.IH [of z'] Cons.prems z' show ?case by (auto simp: overrides_def)
  qed (simp add: overrides_def)
  have undo: "overrides pln_sources ps (c, k, y) = (c, k, u)"
    if "\<forall>p \<in> set ps. restorable A p" "y = u \<or> ?touched ps" for ps y
    using that
  proof (induction ps arbitrary: y)
    case (Cons p ps)
    have "override (pln_camera p) (pln_sources p) (c, k, y) =
        (c, k, if pln_camera p = c \<and> map_of (pln_sources p) k \<noteq> None then u else y)"
      using Cons.prems(1) assms(2) x by (auto simp: override_def restorable_def)
    with Cons.IH [of u] Cons.IH [of y] Cons.prems show ?case by (auto simp: overrides_def)
  qed (simp add: overrides_def)
  obtain y where y: "overrides pln_updates ps (c, k, u) = (c, k, y)" "y = u \<or> ?touched ps"
    using there [OF assms(1)] by blast
  show ?thesis unfolding x y(1) by (rule undo [OF assms(1) y(2)])
qed

lemma take_back_addresses:
  assumes run: "take_back env g s = (Inr (), s')" and plans: "\<forall>p \<in> set (prg_updated g). distinct (map fst (pln_sources p))"
  shows "addresses (med_db s') = map (overrides pln_sources (prg_updated g)) (addresses (med_db s))"
proof -
  have restored: "each (\<lambda>p. save_media (update_profile_sources (pln_camera p) (pln_sources p) t)) ps s = (Inr (), s') \<Longrightarrow>
      \<forall>p \<in> set ps. distinct (map fst (pln_sources p)) \<Longrightarrow>
      addresses (med_db s') = map (overrides pln_sources ps) (addresses (med_db s))" for ps s s' t
  proof (induction ps arbitrary: s)
    case Nil
    then show ?case by (simp add: ret_def overrides_def)
  next
    case (Cons p ps)
    then obtain d where "update_profile_sources (pln_camera p) (pln_sources p) t (med_db s) = Inr d"
      "each (\<lambda>p. save_media (update_profile_sources (pln_camera p) (pln_sources p) t)) ps (s\<lparr>med_db := d\<rparr>) = (Inr (), s')"
      by (auto simp: bind_io_Inr save_media_Inr)
    with Cons.IH [OF this(2)] Cons.prems(2) update_profile_sources_addresses [OF this(1)]
    show ?case by (simp add: overrides_def comp_def)
  qed
  obtain s1 s2 where first: "finish_progress env g ''failed'' (Some ''runtime_replacement_failed'') s = (Inr (), s1)"
    and middle: "each (\<lambda>p. save_media (update_profile_sources (pln_camera p) (pln_sources p) (env_time env))) (prg_updated g) s1 = (Inr (), s2)"
    and rest: "(if prg_runtime g then
         bind_io (media_sources env every_source) (\<lambda>srcs.
           ignore_errors
             (bind_io (replace_streams env (of_cameras (prg_updated g) srcs)) (\<lambda>_.
              relay_notice env ''camera_address_recovery_rollback'' (length (prg_updated g)))))
       else ret ()) s2 = (Inr (), s')" (is "?rest s2 = _")
    using run by (auto simp: take_back_def bind_io_Inr)
  have "same_addresses (finish_progress env g ''failed'' (Some ''runtime_replacement_failed''))"
    unfolding finish_progress_def by (cases "prg_revision g") (auto intro!: addresses_intros)
  from same_addressesD [OF this, of s] have "addresses (med_db s1) = addresses (med_db s)"
    using first by simp
  moreover have same: "same_addresses ?rest" unfolding ignore_errors_def by (intro addresses_intros)
  from same_addressesD [OF this, of s2] have "addresses (med_db s') = addresses (med_db s2)"
    using rest by simp
  ultimately show ?thesis using restored [OF middle plans] by simp
qed

lemma failed_move_restores:
  assumes run: "move_cameras env linked plans (s, m) = (Inr results, s', m')"
    and failed: "r \<in> set results" "rcr_status r \<noteq> ''recovered''"
    and plans: "\<forall>p \<in> set plans. restorable (addresses (med_db s)) p"
  shows "addresses (med_db s') = addresses (med_db s)"
proof -
  let ?A = "addresses (med_db s)"
  obtain out s1 g where replace: "replace_relay env plans (s, no_progress) = (out, s1, g)"
    by (cases "replace_relay env plans (s, no_progress)")
  have "keeps (moved_so_far ?A plans) (replace_relay env plans)"
    using plans by (intro keeps_moved_replace) (simp add: restorable_def)
  moreover have "moved_so_far ?A plans (s, no_progress)"
    by (simp add: moved_so_far_def no_progress_def overrides_def)
  ultimately have "moved_so_far ?A plans (s1, g)" using keepsD replace by fastforce
  then have g: "addresses (med_db s1) = map (overrides pln_updates (prg_updated g)) ?A"
    "set (prg_updated g) \<subseteq> set plans"
    by (simp_all add: moved_so_far_def)
  have settled: "settle_cameras env linked g plans t = (Inr out', t') \<Longrightarrow> \<forall>x \<in> set out'. rcr_status x = ''recovered''" for t t' out'
  proof (induction plans arbitrary: t out')
    case (Cons p plans)
    then show ?case by (fastforce simp: bind_io_Inr ret_Inr result_of_def)
  qed (simp add: ret_Inr)
  show ?thesis
  proof (cases out)
    case (Inl e)
    then obtain s2 where restored: "take_back env g s1 = (Inr (), s2)" "s' = s2"
      using run by (auto simp: move_cameras_def replace bind_io_Inr on_media_Inr ret_Inr)
    have "addresses (med_db s') = map (overrides pln_sources (prg_updated g)) (map (overrides pln_updates (prg_updated g)) ?A)"
      using take_back_addresses [OF restored(1)] g plans unfolding restored(2) by (auto simp: restorable_def)
    also have "\<forall>p \<in> set (prg_updated g). restorable ?A p" using g(2) plans by blast
    then have "map (overrides pln_sources (prg_updated g)) (map (overrides pln_updates (prg_updated g)) ?A) = ?A"
      using overrides_undone by (auto intro!: map_idI)
    finally show ?thesis .
  next
    case (Inr u)
    then show ?thesis
      using run settled failed by (auto simp: move_cameras_def replace bind_io_Inr)
  qed
qed

subsection \<open>Plans\<close>

text \<open>What is known of a plan: its camera, the device it was found as, and what was checked there.\<close>

definition planned ::
  "recovery_env \<Rightarrow> (string \<times> device) list \<Rightarrow> db \<Rightarrow> string \<times> adoption \<Rightarrow> plan \<Rightarrow> bool" where
  "planned env inventory d x p \<longleftrightarrow>
     (case x of (cu, a) \<Rightarrow>
        pln_camera p = cam_uuid (ad_camera a) \<and> cam_enabled (ad_camera a) \<and>
        linked_candidate (pln_camera p) cu inventory d = Some (pln_device p) \<and>
        dget (pln_device p) ''status'' = PStr ''online'' \<and> \<not> truthy (dget (pln_device p) ''identity_conflict'') \<and>
        evidence (pln_device p) = Some (pln_evidence p) \<and>
        pln_current p = text_of (pln_device p) ''ip'' \<and> pln_current p \<noteq> [] \<and>
        pln_streams p = ad_streams a \<and> pln_sources p = index_pairs (with_uri (ad_streams a)) \<and>
        previous_hosts (ad_streams a) = [pln_previous p] \<and> pln_previous p \<noteq> pln_current p \<and>
        (\<exists>username password.
           credentials_for_candidate (env_plain (rce_media env)) cu d = Inr (Some (username, password)) \<and>
           validated_updates env (pln_device p) (ad_streams a) username password = Inr (Inr (pln_updates p, pln_probes p))))"

definition plan_for ::
  "string \<Rightarrow> adoption \<Rightarrow> device \<Rightarrow> string \<Rightarrow> string \<Rightarrow> (string \<times> string) list \<Rightarrow> (string \<times> probe_result) list \<Rightarrow> plan" where
  "plan_for cu a device previous ev updates probes =
     \<lparr>pln_candidate = cu, pln_camera = cam_uuid (ad_camera a), pln_device = device, pln_streams = ad_streams a,
      pln_previous = previous, pln_current = text_of device ''ip'', pln_evidence = ev, pln_updates = updates,
      pln_sources = index_pairs (with_uri (ad_streams a)), pln_probes = probes\<rparr>"

lemma try_address_cases:
  assumes "try_address env cu a device previous ev s = (Inr out, s')"
  obtains (skip) "out = Skip" "s' = s"
  | (refused) username password status where "s' = s"
      "validated_updates env device (ad_streams a) username password = Inr (Inl status)"
      "out = Refused \<lparr>rcr_camera = cam_uuid (ad_camera a), rcr_status = status,
         rcr_previous = previous, rcr_current = text_of device ''ip''\<rparr>"
  | (planned) username password updates probes where "s' = s"
      "credentials_for_candidate (env_plain (rce_media env)) cu (med_db s) = Inr (Some (username, password))"
      "validated_updates env device (ad_streams a) username password = Inr (Inr (updates, probes))"
      "out = Planned (plan_for cu a device previous ev updates probes)"
proof (cases "credentials_for_candidate (env_plain (rce_media env)) cu (med_db s)")
  case (Inl e)
  then show ?thesis using assms by (simp add: try_address_def Let_def bind_io_def update_media_def)
next
  case (Inr cr)
  note credentials = this
  show ?thesis
  proof (cases cr)
    case None
    then show ?thesis using assms credentials skip
      by (simp add: try_address_def Let_def bind_io_def update_media_def ret_def)
  next
    case (Some up)
    obtain username password where up: "up = (username, password)" by (cases up)
    obtain r where r: "validated_updates env device (ad_streams a) username password = Inr r"
      using assms credentials Some up
      by (cases "validated_updates env device (ad_streams a) username password")
         (simp_all add: try_address_def Let_def bind_io_def update_media_def lift_err_def)
    have run: "try_address env cu a device previous ev s =
        (Inr (case r of
           Inl status \<Rightarrow> Refused \<lparr>rcr_camera = cam_uuid (ad_camera a), rcr_status = status,
             rcr_previous = previous, rcr_current = text_of device ''ip''\<rparr>
         | Inr (updates, probes) \<Rightarrow> Planned (plan_for cu a device previous ev updates probes)), s)"
      using credentials Some up r
      by (auto simp: try_address_def Let_def bind_io_def update_media_def lift_err_def ret_def plan_for_def split: sum.split)
    show ?thesis
    proof (cases r)
      case (Inl status)
      then show ?thesis using assms run r by (intro refused [of username password status]) auto
    next
      case (Inr up2)
      then show ?thesis using assms run r credentials Some up
        by (intro planned [of username password "fst up2" "snd up2"]) (auto split: prod.splits)
    qed
  qed
qed

lemma plan_camera_planned:
  assumes "plan_camera env inventory (med_db s) x (s, m) = (Inr outcome, s', m')"
  shows "s' = s" "outcome = Planned p \<Longrightarrow> planned env inventory (med_db s) x p"
    "outcome = Refused r \<Longrightarrow> \<exists>device strs username password.
       validated_updates env device strs username password = Inr (Inl (rcr_status r))"
proof -
  obtain cu a where x: "x = (cu, a)" by (cases x)
  let ?c = "cam_uuid (ad_camera a)"
  have "outcome = Skip \<and> s' = s \<or> (\<exists>device ev previous.
      cam_enabled (ad_camera a) \<and> linked_candidate ?c cu inventory (med_db s) = Some device \<and>
      dget device ''status'' = PStr ''online'' \<and> \<not> truthy (dget device ''identity_conflict'') \<and>
      evidence device = Some ev \<and> previous_hosts (ad_streams a) = [previous] \<and> text_of device ''ip'' \<noteq> [] \<and>
      previous \<noteq> text_of device ''ip'' \<and> try_address env cu a device previous ev s = (Inr outcome, s'))"
    using assms unfolding x plan_camera_def Let_def
    by (auto simp: ret_def on_media_Inr split: if_splits option.splits list.splits)
  then show "s' = s" "outcome = Planned p \<Longrightarrow> planned env inventory (med_db s) x p"
    "outcome = Refused r \<Longrightarrow> \<exists>device strs username password.
       validated_updates env device strs username password = Inr (Inl (rcr_status r))"
    by (auto simp: x planned_def plan_for_def elim!: try_address_cases) blast
qed

lemma plan_cameras_planned:
  "plan_cameras env inventory d xs (s, m) = (Inr (results, plans), s', m') \<Longrightarrow> med_db s = d \<Longrightarrow>
   s' = s \<and> (\<forall>p \<in> set plans. \<exists>x \<in> set xs. planned env inventory d x p)
   \<and> (\<forall>r \<in> set results. \<exists>device strs username password.
        validated_updates env device strs username password = Inr (Inl (rcr_status r)))"
proof (induction xs arbitrary: m results plans)
  case Nil
  then show ?case by (simp add: ret_def)
next
  case (Cons x xs)
  obtain outcome s1 m1 rs ps where one: "plan_camera env inventory d x (s, m) = (Inr outcome, s1, m1)"
    and rest: "plan_cameras env inventory d xs (s1, m1) = (Inr (rs, ps), s', m')"
    and out: "(results, plans) = (case outcome of Skip \<Rightarrow> (rs, ps) | Refused r \<Rightarrow> (r # rs, ps) | Planned p \<Rightarrow> (rs, p # ps))"
    using Cons.prems(1) by (auto simp: bind_io_Inr ret_Inr split: prod.splits)
  note x = plan_camera_planned [OF one [folded Cons.prems(2)]]
  have "s1 = s" using x(1) Cons.prems(2) by simp
  note IH = Cons.IH [OF rest [unfolded this] Cons.prems(2)]
  show ?case
  proof (cases outcome)
    case Skip
    then show ?thesis using IH out by auto
  next
    case (Refused r)
    then show ?thesis using IH out x(3) by auto
  next
    case (Planned p)
    then show ?thesis using IH out x(2) Cons.prems(2) by auto
  qed
qed

text \<open>Every stream has an address, as adoption stores it.\<close>

definition all_addressed :: "db \<Rightarrow> bool" where
  "all_addressed d \<longleftrightarrow>
     (\<forall>z \<in> set (streams d). \<forall>p \<in> set (profiles d). prf_uuid p = str_profile z \<longrightarrow> prf_uri p \<noteq> None \<and> prf_uri p \<noteq> Some [])"

lemma adoption_streams:
  assumes "(cu, a) \<in> set (adoption_map d)" "(q, z) \<in> set (ad_streams a)"
  shows "q \<in> set (profiles d)" "stream_profile d z = Some q" "z \<in> set (streams d)" "str_camera z = cam_uuid (ad_camera a)"
proof -
  obtain c where "adoption_for_candidate c d = Some a"
    using assms(1) by (auto simp: adoption_map_def split: option.splits)
  then have "(q, z) \<in> set (joined_streams d (cam_uuid (ad_camera a)))"
    using assms(2) by (auto simp: adoption_for_candidate_def split: option.splits)
  then show "stream_profile d z = Some q" "z \<in> set (streams d)" "str_camera z = cam_uuid (ad_camera a)"
    by (auto simp: joined_streams_def split: option.splits)
  then show "q \<in> set (profiles d)" by (auto simp: stream_profile_def dest: row_get_SomeD)
qed

lemma adoption_profile_camera:
  assumes "stream_tables_ok d" "(cu, a) \<in> set (adoption_map d)" "(q, z) \<in> set (ad_streams a)"
  shows "prf_camera q = cam_uuid (ad_camera a)"
  using assms(1) adoption_streams [OF assms(2,3)]
  by (auto simp: stream_tables_ok_def stream_profile_def dest!: row_get_SomeD)

lemma with_uri_member: "(k, uri) \<in> set (with_uri strs) \<longleftrightarrow> (\<exists>(q, z) \<in> set strs. prf_token q = k \<and> prf_uri q = Some uri \<and> uri \<noteq> [])"
  by (auto simp: with_uri_def split: option.splits if_splits) force+

lemma update_keys: "fst ` set (AList.update k v acc) = insert k (fst ` set acc)"
  by (induction acc) auto

lemma index_pairs_keys: "fst ` set (index_pairs xs) = fst ` set xs"
proof -
  have "fst ` set (fold (\<lambda>(k, v). AList.update k v) xs acc) = fst ` set acc \<union> fst ` set xs" for acc :: "(string \<times> 'a) list"
    by (induction xs arbitrary: acc) (auto simp del: image_iff simp: update_keys case_prod_beta)
  then show ?thesis by (simp add: index_pairs_def)
qed

lemma moved_uris_keys: "moved_uris address xs = Inr ys \<Longrightarrow> map fst ys = map fst xs"
  by (induction xs arbitrary: ys) (auto simp: bind_err_def split: sum.splits)

lemma proposed_keys:
  assumes "proposed_updates env device strs username password = Inr (Inr updates)"
  shows "distinct (map fst updates) \<and> fst ` set updates \<subseteq> (\<lambda>(q, z). prf_token q) ` set strs"
proof -
  have manual: "fst ` set ys \<subseteq> (\<lambda>(q, z). prf_token q) ` set strs" if "moved_uris address (with_uri strs) = Inr ys" for address ys
  proof -
    have "fst ` set ys = fst ` set (with_uri strs)" using moved_uris_keys [OF that] by (metis list.set_map)
    then show ?thesis by (force simp: with_uri_member)
  qed
  let ?kinds = "set (map (\<lambda>(p, _). if prf_kind p = [] then ''onvif'' else prf_kind p) strs)"
  show ?thesis
  proof (cases "?kinds = {''onvif''}")
    case True
    then obtain found where "updates = index_pairs (concat (map (\<lambda>(p, _). case map_of found (prf_token p) of
        None \<Rightarrow> [] | Some uri \<Rightarrow> [(prf_token p, uri)]) strs))"
      using assms unfolding proposed_updates_def Let_def by (auto split: sum.splits if_splits)
    then show ?thesis by (auto simp: index_pairs_distinct index_pairs_keys split: option.splits)
  next
    case False
    then obtain address ys where "moved_uris address (with_uri strs) = Inr ys" "updates = index_pairs ys"
      using assms unfolding proposed_updates_def Let_def
      by (simp add: bind_err_def split: sum.splits if_splits)
    then show ?thesis using manual by (simp add: index_pairs_distinct index_pairs_keys)
  qed
qed

lemma moved_uris_host:
  "moved_uris address xs = Inr ys \<Longrightarrow> (k, new) \<in> set ys \<Longrightarrow>
   \<exists>uri. (k, uri) \<in> set xs \<and> replace_host uri address = Inr new"
  by (induction xs arbitrary: ys) (fastforce simp: bind_err_def split: sum.splits)+

lemma proposed_profiles:
  assumes "proposed_updates env device strs username password = Inr (Inr updates)" "map_of updates k = Some uri"
  shows "source_host uri = text_of device ''ip'' \<or>
    (\<exists>old. (k, old) \<in> set (with_uri strs) \<and> replace_host old (text_of device ''ip'') = Inr uri)"
proof (cases "set (map (\<lambda>(p, _). if prf_kind p = [] then ''onvif'' else prf_kind p) strs) = {''onvif''}")
  case True
  then have "\<not> list_ex (\<lambda>(_, uri). source_host uri \<noteq> text_of device ''ip'') updates"
    using assms(1) unfolding proposed_updates_def Let_def by (auto split: sum.splits if_splits)
  then show ?thesis using map_of_SomeD [OF assms(2)] by (auto simp: list_ex_iff)
next
  case False
  then obtain ys where ys: "moved_uris (text_of device ''ip'') (with_uri strs) = Inr ys" "updates = index_pairs ys"
    using assms(1) unfolding proposed_updates_def Let_def
    by (simp add: bind_err_def split: sum.splits if_splits)
  have "(k, uri) \<in> set ys" using assms(2) unfolding ys(2) by (rule index_pairs_Some)
  then show ?thesis using moved_uris_host [OF ys(1)] by blast
qed

text \<open>The planned addresses are those of the camera's own profiles.\<close>

lemma planned_restorable:
  assumes ok: "stream_tables_ok d" "all_addressed d" and x: "x \<in> set (adoption_map d)" and p: "planned env inventory d x p"
  shows "restorable (addresses d) p"
proof -
  obtain cu a where xa: "x = (cu, a)" by (cases x)
  let ?strs = "ad_streams a"
  from p obtain username password where
    c: "pln_camera p = cam_uuid (ad_camera a)" and srcs: "pln_sources p = index_pairs (with_uri ?strs)"
    and v: "validated_updates env (pln_device p) ?strs username password = Inr (Inr (pln_updates p, pln_probes p))"
    by (auto simp: planned_def xa)
  from v have upd: "proposed_updates env (pln_device p) ?strs username password = Inr (Inr (pln_updates p))"
    by (auto simp: validated_updates_def bind_err_def map_sum_def split: sum.splits)
  note mine = adoption_streams [OF x [unfolded xa]] adoption_profile_camera [OF ok(1) x [unfolded xa]]
  have keyed: "uniq_on profile_key (profiles d)" using ok(1) by (simp add: stream_tables_ok_def)
  have "prf_token q \<in> fst ` set (with_uri ?strs)" if qz: "(q, z) \<in> set ?strs" for q z
  proof -
    have "prf_uuid q = str_profile z" using mine(2) [OF qz] by (auto simp: stream_profile_def dest: row_get_SomeD)
    then obtain uri where "prf_uri q = Some uri" "uri \<noteq> []"
      using ok(2) mine(1,3) [OF qz] by (fastforce simp: all_addressed_def)
    then have "(prf_token q, uri) \<in> set (with_uri ?strs)" using qz by (auto simp: with_uri_member)
    then show ?thesis by force
  qed
  then have "fst ` set (pln_updates p) \<subseteq> fst ` set (pln_sources p)"
    using proposed_keys [OF upd] by (auto simp: srcs index_pairs_keys)
  moreover have "u = Some v" if u: "(pln_camera p, k, u) \<in> set (addresses d)" and k: "map_of (pln_sources p) k = Some v" for k u v
  proof -
    obtain q z where q: "(q, z) \<in> set ?strs" "prf_token q = k" "prf_uri q = Some v"
      using index_pairs_Some [OF k [unfolded srcs]] by (auto simp: with_uri_member)
    obtain q' where q': "q' \<in> set (profiles d)" "prf_camera q' = pln_camera p" "prf_token q' = k" "prf_uri q' = u"
      using u by (auto simp: addresses_def)
    have "profile_key q' = profile_key q"
      using q' q mine(5) [OF q(1)] by (simp add: c)
    then have "q' = q" using uniq_on_same [OF keyed q'(1) mine(1) [OF q(1)]] by blast
    then show ?thesis using q' q by simp
  qed
  ultimately show ?thesis
    using proposed_keys [OF upd] by (auto simp: restorable_def srcs index_pairs_distinct)
qed

subsection \<open>Results\<close>

lemma probe_statuses:
  "probe_source env uri username password = Inr r \<Longrightarrow>
   pr_status r \<in> {''ready'', ''timeout'', ''auth_failed'', ''unavailable'', ''invalid_media'', ''no_video''}"
  by (auto simp: probe_source_def probe_uri_def media_result_def simple_result_def Let_def bind_err_def
      split: option.splits ffprobe_outcome.splits prod.splits sum.splits if_splits)

lemma collect_statuses:
  "collect_probes env updates username password tokens acc = Inl status \<Longrightarrow>
   status \<in> {''error'', ''timeout'', ''auth_failed'', ''unavailable'', ''invalid_media'', ''no_video''}"
  by (induction tokens arbitrary: acc) (auto split: sum.splits if_splits dest: probe_statuses)

text \<open>The codes of OnvifInspectionError (camadmiral/onvif_client.py).\<close>

definition inspection_codes :: "recovery_env \<Rightarrow> bool" where
  "inspection_codes env \<longleftrightarrow> (\<forall>device credential code. rce_inspect env device credential = Inl code \<longrightarrow>
     code \<in> {''invalid_response'', ''unreachable'', ''credentials_required'', ''onvif_error'', ''unsafe_endpoint'',
             ''not_onvif'', ''no_profiles''})"

lemma refused_status:
  assumes "inspection_codes env" "validated_updates env device strs username password = Inr (Inl status)"
  shows "status \<noteq> ''recovered'' \<and> status \<noteq> ''runtime_failed''"
proof (cases "proposed_updates env device strs username password")
  case (Inl e)
  then show ?thesis using assms(2) by (simp add: validated_updates_def bind_err_def)
next
  case (Inr r)
  show ?thesis
  proof (cases r)
    case (Inl code)
    then have "code = status" using assms(2) Inr by (simp add: validated_updates_def bind_err_def)
    have "code \<in> {''profiles_changed'', ''endpoint_mismatch'', ''mixed_sources''} \<or>
        (\<exists>credential. rce_inspect env device credential = Inl code)"
      using Inr Inl unfolding proposed_updates_def Let_def
      by (auto simp: bind_err_def split: sum.splits if_splits)
    then show ?thesis using assms(1) unfolding inspection_codes_def \<open>code = status\<close> by fastforce
  next
    case (Inr updates)
    then have "collect_probes (rce_media env) updates username password
        (rce_completed env (filter (\<lambda>k. k \<in> set (enabled_tokens strs)) (map fst updates))) [] = Inl status"
      using assms(2) \<open>proposed_updates env device strs username password = Inr r\<close>
      by (auto simp: validated_updates_def bind_err_def map_sum_def split: sum.splits)
    from collect_statuses [OF this] show ?thesis by auto
  qed
qed

lemma settled_results:
  "settle_cameras env linked g plans s = (Inr results, s') \<Longrightarrow> results = map (result_of ''recovered'') plans"
  by (induction plans arbitrary: s results) (auto simp: bind_io_Inr ret_Inr)

lemma move_results:
  assumes "move_cameras env linked plans (s, m) = (Inr results, s', m')"
  shows "results = map (result_of ''recovered'') plans \<and> fst (replace_relay env plans (s, no_progress)) = Inr ()
    \<or> results = map (result_of ''runtime_failed'') plans"
proof -
  obtain r s1 g where run: "replace_relay env plans (s, no_progress) = (r, s1, g)"
    by (cases "replace_relay env plans (s, no_progress)")
  show ?thesis
  proof (cases r)
    case (Inl e)
    then show ?thesis using assms run by (auto simp: move_cameras_def bind_io_Inr ret_Inr)
  next
    case (Inr u)
    then show ?thesis using assms run by (auto simp: move_cameras_def bind_io_Inr dest: settled_results)
  qed
qed

lemma plans_of_adoptions:
  "plan_cameras env inventory d xs (s, m) = (Inr (results, plans), s', m') \<Longrightarrow> med_db s = d \<Longrightarrow>
   distinct (map (\<lambda>x. cam_uuid (ad_camera (snd x))) xs) \<Longrightarrow>
   distinct (map pln_camera plans) \<and> set (map pln_camera plans) \<subseteq> set (map (\<lambda>x. cam_uuid (ad_camera (snd x))) xs)"
proof (induction xs arbitrary: m results plans)
  case Nil
  then show ?case by (simp add: ret_def)
next
  case (Cons x xs)
  obtain outcome s1 m1 rs ps where one: "plan_camera env inventory d x (s, m) = (Inr outcome, s1, m1)"
    and rest: "plan_cameras env inventory d xs (s1, m1) = (Inr (rs, ps), s', m')"
    and out: "(results, plans) = (case outcome of Skip \<Rightarrow> (rs, ps) | Refused r \<Rightarrow> (r # rs, ps) | Planned p \<Rightarrow> (rs, p # ps))"
    using Cons.prems(1) by (auto simp: bind_io_Inr ret_Inr split: prod.splits)
  note x = plan_camera_planned [OF one [folded Cons.prems(2)]]
  have "s1 = s" using x(1) Cons.prems(2) by simp
  note IH = Cons.IH [OF rest [unfolded this] Cons.prems(2)]
  show ?case
  proof (cases outcome)
    case (Planned p)
    have "planned env inventory d x p" using x(2) Planned Cons.prems(2) by simp
    then have "pln_camera p = cam_uuid (ad_camera (snd x))" by (auto simp: planned_def split: prod.splits)
    then show ?thesis using IH Cons.prems(3) out Planned by auto
  qed (use IH Cons.prems(3) out in auto)
qed

text \<open>A pass that returns: its results are refusals, then the outcome of the one move of all planned cameras.\<close>

lemma recover_cases:
  assumes "recover_inventory_addresses env (s, m) = (Inr results, s', m')"
  obtains inventory refused plans m0 moved where
    "read_inventory (rce_inventory env) = Inr inventory" "results = refused @ moved"
    "\<forall>p \<in> set plans. \<exists>x \<in> set (adoption_map (med_db s)). planned env inventory (med_db s) x p"
    "\<forall>r \<in> set refused. \<exists>device strs username password.
       validated_updates env device strs username password = Inr (Inl (rcr_status r))"
    "distinct (map (\<lambda>x. cam_uuid (ad_camera (snd x))) (adoption_map (med_db s))) \<longrightarrow> distinct (map pln_camera plans)"
    "plans = [] \<and> moved = [] \<and> s' = s \<or>
     move_cameras (rce_media env) (lnk_camera ` set (identity_links (med_db s))) plans (s, m0) = (Inr moved, s', m')"
proof -
  let ?d = "med_db s"
  let ?m = "\<lambda>k. if fst k \<in> (\<lambda>x. cam_uuid (ad_camera (snd x))) ` set (adoption_map ?d) then m k else None"
  obtain inventory where inv: "read_inventory (rce_inventory env) = Inr inventory"
    using assms by (cases "read_inventory (rce_inventory env)") (simp_all add: recover_inventory_addresses_def bind_lift throw_def)
  obtain refused plans s0 m0 where plan: "plan_cameras env inventory ?d (adoption_map ?d) (s, ?m) = (Inr (refused, plans), s0, m0)"
    and move: "move_planned (rce_media env) (lnk_camera ` set (identity_links ?d)) (refused, plans) (s0, m0) = (Inr results, s', m')"
    using assms by (auto simp: recover_inventory_addresses_def inv bind_lift Let_def bind_io_Inr)
  note planned = plan_cameras_planned [OF plan refl] and once = plans_of_adoptions [OF plan refl]
  have "\<exists>moved. results = refused @ moved \<and> (plans = [] \<and> moved = [] \<and> s' = s \<or>
     move_cameras (rce_media env) (lnk_camera ` set (identity_links ?d)) plans (s, m0) = (Inr moved, s', m'))"
    using move planned by (cases "plans = []") (auto simp: move_planned_def ret_Inr bind_io_Inr)
  then show ?thesis using that inv planned once by blast
qed



subsection \<open>What a recovered camera is worth\<close>

lemma overrides_last:
  "distinct (map pln_camera ps) \<Longrightarrow> p \<in> set ps \<Longrightarrow> map_of (f p) k = Some v \<Longrightarrow>
   overrides f ps (pln_camera p, k, u) = (pln_camera p, k, Some v)"
proof (induction ps arbitrary: u)
  case (Cons q ps)
  have other: "overrides f ps (pln_camera p, k, w) = (pln_camera p, k, w)" if "pln_camera p \<notin> pln_camera ` set ps" for w ps
    using that by (induction ps arbitrary: w) (auto simp: overrides_def override_def)
  show ?case
  proof (cases "p = q")
    case True
    then show ?thesis using Cons.prems other [of ps] by (simp add: overrides_def override_def)
  next
    case False
    then have "p \<in> set ps" "pln_camera q \<noteq> pln_camera p" using Cons.prems(1,2) by force+
    then show ?thesis using Cons.IH Cons.prems by (simp add: overrides_def override_def)
  qed
qed simp

lemma replace_relay_progress:
  assumes "replace_relay env plans (s, no_progress) = (Inr (), s', g)"
  shows "prg_updated g = plans"
proof -
  obtain s1 g1 where first: "each (move_sources env) plans (s, no_progress) = (Inr (), s1, g1)" and rest: "serve_moved env plans (s1, g1) = (Inr (), s', g)"
    using assms by (auto simp: replace_relay_def bind_io_Inr)
  have noting: "keeps (\<lambda>x. prg_updated (snd x) = P) (note_progress (\<lambda>g. g\<lparr>prg_revision := Some revision, prg_runtime := True\<rparr>))" for P revision
    by (auto simp: keeps_def note_progress_def)
  have media: "keeps (\<lambda>x. prg_updated (snd x) = P) (on_media m)" for P and m :: "'a media"
    by (rule keeps_on_media [where I = "\<lambda>g. prg_updated g = P"])
  have "keeps (\<lambda>x. prg_updated (snd x) = prg_updated g1) (serve_moved env plans)"
    unfolding serve_moved_def check_served_def Let_def by (intro keeps_intros noting media)
  from keepsD [OF this, of "(s1, g1)"] rest each_move_progress [OF first] show ?thesis by (simp add: no_progress_def)
qed

lemma bind_identity_profiles: "bind_camera_identity c x t d = Inr d' \<Longrightarrow> profiles d' = profiles d"
  by (auto simp: bind_camera_identity_def Let_def split: option.splits if_splits prod.splits)

lemma resolve_profiles [simp]: "profiles (resolve_incident i t reason d) = profiles d"
  by (rule health_only_sel(3) [OF resolve_health_only])

lemma same_settle: "same_addresses (settle_camera env linked g p)"
  unfolding settle_camera_def Let_def
  by (intro addresses_intros)
    (auto simp: record_address_change_def observe_camera_identity_def resolve_camera_address_incident_def new_uuid_def Let_def
       bind_identity_profiles split: if_splits option.splits)

lemma settled_addresses:
  "settle_cameras env linked g plans (s, m) = (Inr results, s', m') \<Longrightarrow> addresses (med_db s') = addresses (med_db s)"
proof (induction plans arbitrary: s m results)
  case (Cons p plans)
  then obtain s1 m1 rs where one: "settle_camera env linked g p s = (Inr (), s1)"
    and rest: "settle_cameras env linked g plans (s1, m1) = (Inr rs, s', m')"
    by (auto simp: bind_io_Inr on_media_Inr ret_Inr)
  show ?case using Cons.IH [OF rest] same_addressesD [OF same_settle, of env linked g p s] one by simp
qed (simp add: ret_Inr)

lemma move_addresses:
  assumes "move_cameras env linked plans (s, m) = (Inr results, s', m')"
    and "fst (replace_relay env plans (s, no_progress)) = Inr ()"
    and "\<forall>p \<in> set plans. distinct (map fst (pln_updates p))"
  shows "addresses (med_db s') = map (overrides pln_updates plans) (addresses (med_db s))"
proof -
  obtain s1 g where run: "replace_relay env plans (s, no_progress) = (Inr (), s1, g)"
    using assms(2) by (cases "replace_relay env plans (s, no_progress)") auto
  obtain s2 where finish: "finish_progress env g ''applied'' None s1 = (Inr (), s2)"
    and settle: "settle_cameras env linked g plans (s2, m) = (Inr results, s', m')"
    using assms(1) by (auto simp: move_cameras_def run bind_io_Inr on_media_Inr)
  have "keeps (moved_so_far (addresses (med_db s)) plans) (replace_relay env plans)"
    by (rule keeps_moved_replace [OF assms(3)])
  from keepsD [OF this, of "(s, no_progress)"] have "moved_so_far (addresses (med_db s)) plans (s1, g)"
    using run by (simp add: moved_so_far_def no_progress_def overrides_def)
  then have "addresses (med_db s1) = map (overrides pln_updates plans) (addresses (med_db s))"
    using replace_relay_progress [OF run] by (simp add: moved_so_far_def)
  moreover have "same_addresses (finish_progress env g ''applied'' None)"
    unfolding finish_progress_def by (cases "prg_revision g") (auto intro!: addresses_intros)
  from same_addressesD [OF this, of s1] finish have "addresses (med_db s2) = addresses (med_db s1)" by simp
  ultimately show ?thesis using settled_addresses [OF settle] by simp
qed

text \<open>Every enabled stream of a checked camera got an address, and the camera answered there.\<close>

definition answers :: "recovery_env \<Rightarrow> string \<Rightarrow> string \<Rightarrow> string \<Rightarrow> bool" where
  "answers env uri username password \<longleftrightarrow>
     (case probe_source (rce_media env) uri username password of Inl _ \<Rightarrow> False | Inr r \<Rightarrow> pr_status r = ''ready'')"

lemma collect_answers:
  "collect_probes (rce_media env) updates username password tokens acc = Inr probes \<Longrightarrow>
   k \<in> set tokens \<Longrightarrow> answers env (the (map_of updates k)) username password"
  by (induction tokens arbitrary: acc) (auto simp: answers_def split: sum.splits if_splits)

lemma enabled_have_updates:
  assumes "proposed_updates env device strs username password = Inr (Inr updates)"
    and "\<forall>(q, z) \<in> set strs. prf_uri q \<noteq> None \<and> prf_uri q \<noteq> Some []" "(q, z) \<in> set strs" "str_enabled z"
  shows "prf_token q \<in> fst ` set updates"
proof (cases "set (map (\<lambda>(p, _). if prf_kind p = [] then ''onvif'' else prf_kind p) strs) = {''onvif''}")
  case True
  then obtain found where found: "set (enabled_tokens strs) \<subseteq> fst ` set found"
    "updates = index_pairs (concat (map (\<lambda>(p, _). case map_of found (prf_token p) of
        None \<Rightarrow> [] | Some uri \<Rightarrow> [(prf_token p, uri)]) strs))"
    using assms(1) unfolding proposed_updates_def Let_def by (auto split: sum.splits if_splits)
  have "prf_token q \<in> set (enabled_tokens strs)" using assms(3,4) by (force simp: enabled_tokens_def)
  then obtain uri where "map_of found (prf_token q) = Some uri"
    using found(1) by (meson map_of_eq_None_iff not_None_eq subset_iff)
  then have "(prf_token q, uri) \<in> set (concat (map (\<lambda>(p, _). case map_of found (prf_token p) of
        None \<Rightarrow> [] | Some uri \<Rightarrow> [(prf_token p, uri)]) strs))"
    using assms(3) by (auto intro!: bexI [of _ "(q, z)"])
  from imageI [OF this, of fst] show ?thesis unfolding found(2) index_pairs_keys by (simp only: fst_conv)
next
  case False
  then obtain address ys where ys: "moved_uris address (with_uri strs) = Inr ys" "updates = index_pairs ys"
    using assms(1) unfolding proposed_updates_def Let_def
    by (simp add: bind_err_def split: sum.splits if_splits)
  obtain uri where "prf_uri q = Some uri" "uri \<noteq> []" using assms(2,3) by fastforce
  then have "(prf_token q, uri) \<in> set (with_uri strs)" using assms(3) by (auto simp: with_uri_member)
  then have "prf_token q \<in> set (map fst ys)" unfolding moved_uris_keys [OF ys(1)] by force
  then show ?thesis by (simp add: ys(2) index_pairs_keys)
qed

definition verified_move :: "recovery_env \<Rightarrow> db \<Rightarrow> (string \<times> string \<times> string option) list \<Rightarrow> string \<Rightarrow> string \<Rightarrow> bool" where
  "verified_move env d A c address \<longleftrightarrow>
     (\<exists>inventory cu a device username password.
        read_inventory (rce_inventory env) = Inr inventory \<and> (cu, a) \<in> set (adoption_map d) \<and>
        cam_uuid (ad_camera a) = c \<and> cam_enabled (ad_camera a) \<and> linked_candidate c cu inventory d = Some device \<and>
        dget device ''status'' = PStr ''online'' \<and> \<not> truthy (dget device ''identity_conflict'') \<and> evidence device \<noteq> None \<and>
        address = text_of device ''ip'' \<and>
        credentials_for_candidate (env_plain (rce_media env)) cu d = Inr (Some (username, password)) \<and>
        (\<forall>(q, z) \<in> set (ad_streams a). str_enabled z \<longrightarrow>
           (\<exists>uri. (c, prf_token q, Some uri) \<in> set A \<and> answers env uri username password \<and>
              (source_host uri = address \<or> (\<exists>old. prf_uri q = Some old \<and> replace_host old address = Inr uri)))))"

lemma planned_verified:
  assumes ok: "stream_tables_ok d" "all_addressed d" and x: "x \<in> set (adoption_map d)" and p: "planned env inventory d x p"
    and inv: "read_inventory (rce_inventory env) = Inr inventory" and ends: "\<forall>xs. set (rce_completed env xs) = set xs"
    and plans: "distinct (map pln_camera plans)" "p \<in> set plans"
    and A: "A = map (overrides pln_updates plans) (addresses d)"
  shows "verified_move env d A (pln_camera p) (pln_current p)"
proof -
  obtain cu a where xa: "x = (cu, a)" by (cases x)
  let ?strs = "ad_streams a"
  from p obtain username password where
    c: "pln_camera p = cam_uuid (ad_camera a)" and ip: "pln_current p = text_of (pln_device p) ''ip''"
    and cred: "credentials_for_candidate (env_plain (rce_media env)) cu d = Inr (Some (username, password))"
    and v: "validated_updates env (pln_device p) ?strs username password = Inr (Inr (pln_updates p, pln_probes p))"
    by (auto simp: planned_def xa)
  from v have upd: "proposed_updates env (pln_device p) ?strs username password = Inr (Inr (pln_updates p))"
    and probed: "collect_probes (rce_media env) (pln_updates p) username password
      (rce_completed env (filter (\<lambda>k. k \<in> set (enabled_tokens ?strs)) (map fst (pln_updates p)))) [] = Inr (pln_probes p)"
    by (auto simp: validated_updates_def bind_err_def map_sum_def split: sum.splits)
  note mine = adoption_streams [OF x [unfolded xa]] adoption_profile_camera [OF ok(1) x [unfolded xa]]
  have keyed: "uniq_on profile_key (profiles d)" using ok(1) by (simp add: stream_tables_ok_def)
  have addressed: "\<forall>(q, z) \<in> set ?strs. prf_uri q \<noteq> None \<and> prf_uri q \<noteq> Some []"
  proof clarify
    fix q z assume qz: "(q, z) \<in> set ?strs"
    have "prf_uuid q = str_profile z" using mine(2) [OF qz] by (auto simp: stream_profile_def dest: row_get_SomeD)
    then show "prf_uri q \<noteq> None \<and> prf_uri q \<noteq> Some []" using ok(2) mine(1,3) [OF qz] by (fastforce simp: all_addressed_def)
  qed
  have "\<exists>uri. (pln_camera p, prf_token q, Some uri) \<in> set A \<and> answers env uri username password \<and>
      (source_host uri = pln_current p \<or> (\<exists>old. prf_uri q = Some old \<and> replace_host old (pln_current p) = Inr uri))"
    if qz: "(q, z) \<in> set ?strs" "str_enabled z" for q z
  proof -
    have "prf_token q \<in> fst ` set (pln_updates p)" by (rule enabled_have_updates [OF upd addressed qz])
    then obtain uri where uri: "map_of (pln_updates p) (prf_token q) = Some uri"
      by (meson map_of_eq_None_iff not_None_eq)
    have "prf_token q \<in> set (rce_completed env (filter (\<lambda>k. k \<in> set (enabled_tokens ?strs)) (map fst (pln_updates p))))"
      using qz \<open>prf_token q \<in> fst ` set (pln_updates p)\<close> unfolding ends [rule_format] enabled_tokens_def by force
    from collect_answers [OF probed this] have "answers env uri username password" by (simp add: uri)
    moreover have "(pln_camera p, prf_token q, prf_uri q) \<in> set (addresses d)"
      using mine(1,5) [OF qz(1)] by (force simp: addresses_def c)
    then have "(pln_camera p, prf_token q, Some uri) \<in> set A"
      unfolding A set_map using overrides_last [OF plans, of pln_updates, OF uri] by (metis imageI)
    moreover have "source_host uri = pln_current p \<or> (\<exists>old. prf_uri q = Some old \<and> replace_host old (pln_current p) = Inr uri)"
    proof (rule disjE [OF proposed_profiles [OF upd uri]])
      assume "\<exists>old. (prf_token q, old) \<in> set (with_uri ?strs) \<and> replace_host old (text_of (pln_device p) ''ip'') = Inr uri"
      then obtain old q' z' where old: "(q', z') \<in> set ?strs" "prf_token q' = prf_token q" "prf_uri q' = Some old"
        "replace_host old (pln_current p) = Inr uri"
        by (auto simp: with_uri_member ip)
      have "profile_key q' = profile_key q" using mine(5) [OF qz(1)] mine(5) [OF old(1)] old(2) by simp
      then have "q' = q" using uniq_on_same [OF keyed mine(1) [OF old(1)] mine(1) [OF qz(1)]] by blast
      then show ?thesis using old by blast
    qed (simp add: ip)
    ultimately show ?thesis by blast
  qed
  then show ?thesis
    unfolding verified_move_def using inv x [unfolded xa] p cred
    by (intro exI [of _ inventory] exI [of _ cu] exI [of _ a] exI [of _ "pln_device p"] exI [of _ username] exI [of _ password])
       (auto simp: planned_def xa c)
qed


subsection \<open>Witnesses\<close>

lemma demo_recovery_tables: "stream_tables_ok (med_db demo_media_start)" "all_addressed (med_db demo_media_start)"
  "uniq_on cam_uuid (cameras (med_db demo_media_start))" "uniq_on cam_candidate (cameras (med_db demo_media_start))"
  by (simp_all add: stream_tables_ok_def all_addressed_def demo_media_start_def demo_media_db_def demo_simps demo_profile_def
      blank_profile_def uniq_on_def refs_def)

lemma demo_inspection: "inspection_codes (demo_recovery r)"
  by (simp add: inspection_codes_def demo_recovery_fields)

lemma first_attempt: "attempt_due 300 100 None"
  by (simp add: attempt_due_def)



end
