(* ===== verification/Lan.thy ===== *)
theory Lan
  imports Net PyNumbers "HOL-Library.List_Lexorder" "HOL-Library.Char_ord" "HOL-Library.Product_Lexorder"
begin

text \<open>
  Which networks a scan may touch (camadmiral/discovery.py): the connected private networks in their
  order, subnets that the operator entered, and the routing table. The interfaces of the machine and
  the primary address of one are system calls: \<open>found\<close> and \<open>primary\<close>. The routing table is its text.
\<close>

datatype scan_error = ScanValueError string | ScanRuntimeError string

definition err_text :: "scan_error \<Rightarrow> string" where
  "err_text e = (case e of ScanValueError s \<Rightarrow> s | ScanRuntimeError s \<Rightarrow> s)"

record lan_interface =
  lan_name :: string
  lan_address :: ipv4
  lan_network :: ipv4_network
  lan_direct :: bool

definition max_scan_hosts :: nat where
  "max_scan_hosts = 1024"

definition usable_hosts :: "ipv4_network \<Rightarrow> nat" where
  "usable_hosts n = num_addresses n - 2"

definition sweep_allowed :: "ipv4_network \<Rightarrow> bool" where
  "sweep_allowed n \<longleftrightarrow> usable_hosts n \<le> max_scan_hosts"

text \<open>\<open>network.hosts()\<close>.\<close>

definition host_addresses :: "ipv4_network \<Rightarrow> ipv4 list" where
  "host_addresses n =
     (if 31 \<le> net_plen n then [net_base n ..< net_base n + num_addresses n]
      else [net_base n + 1 ..< net_base n + num_addresses n - 1])"

definition sweep_targets :: "lan_interface \<Rightarrow> ipv4 list" where
  "sweep_targets i = filter (\<lambda>h. h \<noteq> lan_address i) (host_addresses (lan_network i))"

definition bounded_interface_addresses :: "lan_interface \<Rightarrow> string list \<Rightarrow> string list" where
  "bounded_interface_addresses i candidates =
     map ipv4_str (take max_scan_hosts (sort (remdups
       (concat (map (\<lambda>s. case parse_ipv4 s of
          None \<Rightarrow> []
        | Some a \<Rightarrow> if in_net a (lan_network i) \<and> a \<noteq> lan_address i then [a] else []) candidates)))))"

subsection \<open>Text of the routing table\<close>

definition line_break :: "char \<Rightarrow> bool" where
  "line_break c = (let n = of_char c :: nat in 10 \<le> n \<and> n \<le> 13 \<or> 28 \<le> n \<and> n \<le> 30 \<or> n = 133)"

text \<open>\<open>str.splitlines\<close>: a carriage return and a line feed are one break.\<close>

fun split_lines :: "string \<Rightarrow> string \<Rightarrow> string list" where
  "split_lines acc [] = (if acc = [] then [] else [rev acc])"
| "split_lines acc [c] = [if line_break c then rev acc else rev (c # acc)]"
| "split_lines acc (c # c' # s) =
     (if line_break c then
        rev acc # (if c = CHR 0x0D \<and> c' = CHR 0x0A then split_lines [] s else split_lines [] (c' # s))
      else split_lines (c # acc) (c' # s))"

definition splitlines :: "string \<Rightarrow> string list" where
  "splitlines s = split_lines [] s"

text \<open>\<open>str.split()\<close>.\<close>

fun split_words :: "string \<Rightarrow> string \<Rightarrow> string list" where
  "split_words acc [] = (if acc = [] then [] else [rev acc])"
| "split_words acc (c # s) =
     (if py_space c then (if acc = [] then split_words [] s else rev acc # split_words [] s)
      else split_words (c # acc) s)"

definition words_of :: "string \<Rightarrow> string list" where
  "words_of s = split_words [] s"

definition hex_value :: "char \<Rightarrow> nat option" where
  "hex_value c =
     (let n = of_char c :: nat in
      if 48 \<le> n \<and> n \<le> 57 then Some (n - 48)
      else if 97 \<le> n \<and> n \<le> 102 then Some (n - 87)
      else if 65 \<le> n \<and> n \<le> 70 then Some (n - 55) else None)"

definition hex_digits :: "string \<Rightarrow> nat option" where
  "hex_digits s =
     (case those (map hex_value s) of None \<Rightarrow> None | Some ns \<Rightarrow> Some (foldl (\<lambda>v n. 16 * v + n) 0 ns))"

text \<open>\<open>int(s, 16)\<close>.\<close>

definition parse_hex :: "string \<Rightarrow> int option" where
  "parse_hex s =
     (let t = py_strip s;
          (neg, body) = (if startswith t ''-'' then (True, tl t)
                         else if startswith t ''+'' then (False, tl t) else (False, t));
          digits = (if startswith body ''0x'' \<or> startswith body ''0X''
                    then (if startswith (drop 2 body) ''_'' then drop 3 body else drop 2 body) else body)
      in if list_all (\<lambda>g. g \<noteq> []) (split_char CHR ''_'' digits)
         then map_option (\<lambda>n. if neg then - int n else int n) (hex_digits (filter (\<lambda>c. c \<noteq> CHR ''_'') digits))
         else None)"

text \<open>\<open>int.from_bytes(bytes.fromhex(s), 'little')\<close> of a field without white space.\<close>

fun little_endian :: "string \<Rightarrow> nat option" where
  "little_endian [] = Some 0"
| "little_endian [c] = None"
| "little_endian (a # b # s) =
     (case (hex_value a, hex_value b, little_endian s) of
        (Some x, Some y, Some rest) \<Rightarrow> Some (16 * x + y + 256 * rest)
      | _ \<Rightarrow> None)"

definition address_of_hex :: "string \<Rightarrow> ipv4 option" where
  "address_of_hex s = (case little_endian s of None \<Rightarrow> None | Some n \<Rightarrow> if n < 2 ^ 32 then Some n else None)"

definition route_network :: "string \<Rightarrow> string \<Rightarrow> ipv4_network option" where
  "route_network destination netmask =
     (case (address_of_hex destination, address_of_hex netmask) of
        (Some a, Some b) \<Rightarrow> parse_network (ipv4_str a @ ''/'' @ ipv4_str b)
      | _ \<Rightarrow> None)"

subsection \<open>The default interface\<close>

fun default_routes :: "string list \<Rightarrow> scan_error + (int \<times> string) list" where
  "default_routes [] = Inr []"
| "default_routes (line # rest) =
     (case words_of line of
        name # destination # gateway # flags # ref # uses # metric # netmask # others \<Rightarrow>
          if destination \<noteq> ''00000000'' then default_routes rest
          else
            (case parse_hex flags of
               None \<Rightarrow> Inl (ScanValueError ''flags'')
             | Some f \<Rightarrow>
                 if even f then default_routes rest
                 else
                   (case parse_int metric of
                      None \<Rightarrow> Inl (ScanValueError ''metric'')
                    | Some n \<Rightarrow>
                        (case default_routes rest of Inl e \<Rightarrow> Inl e | Inr rs \<Rightarrow> Inr ((n, name) # rs))))
      | _ \<Rightarrow> default_routes rest)"

definition default_interface_name :: "string \<Rightarrow> scan_error + string" where
  "default_interface_name route_text =
     (case default_routes (tl (splitlines route_text)) of
        Inl e \<Rightarrow> Inl e
      | Inr [] \<Rightarrow> Inl (ScanRuntimeError ''No default LAN interface found'')
      | Inr (r # rs) \<Rightarrow> Inr (snd (Min (set (r # rs)))))"

subsection \<open>Connected networks\<close>

definition virtual_prefixes :: "string list" where
  "virtual_prefixes = [''docker'', ''veth'', ''br-'', ''virbr'', ''tailscale'', ''tun'', ''tap'']"

definition eligible :: "lan_interface \<Rightarrow> bool" where
  "eligible i \<longleftrightarrow>
     lan_name i \<noteq> ''lo'' \<and> \<not> list_ex (startswith (lan_name i)) virtual_prefixes \<and>
     (let a = lan_address i in
      is_private a \<and> \<not> is_loopback a \<and> \<not> is_link_local a \<and> \<not> is_multicast a \<and> \<not> is_unspecified a)"

fun first_of_networks :: "ipv4_network list \<Rightarrow> lan_interface list \<Rightarrow> lan_interface list" where
  "first_of_networks seen [] = []"
| "first_of_networks seen (i # is) =
     (if lan_network i \<in> set seen then first_of_networks seen is
      else i # first_of_networks (lan_network i # seen) is)"

definition lan_order :: "string \<Rightarrow> ipv4 option \<Rightarrow> lan_interface \<Rightarrow> bool \<times> bool \<times> string \<times> nat \<times> nat" where
  "lan_order name primary i =
     (lan_name i \<noteq> name, Some (lan_address i) \<noteq> primary, lan_name i, net_base (lan_network i), lan_address i)"

definition private_lan_interfaces ::
  "string \<Rightarrow> lan_interface list \<Rightarrow> (string \<Rightarrow> ipv4 option) \<Rightarrow> scan_error + lan_interface list" where
  "private_lan_interfaces route_text found primary =
     (case default_interface_name route_text of
        Inl e \<Rightarrow> Inl e
      | Inr name \<Rightarrow>
          (case first_of_networks [] (sort_key (lan_order name (primary name)) (filter eligible found)) of
             [] \<Rightarrow> Inl (ScanRuntimeError ''No eligible private IPv4 LAN found'')
           | i # is \<Rightarrow> Inr (i # is)))"

definition default_lan_interface ::
  "string \<Rightarrow> lan_interface list \<Rightarrow> (string \<Rightarrow> ipv4 option) \<Rightarrow> scan_error + lan_interface" where
  "default_lan_interface route_text found primary =
     map_sum id hd (private_lan_interfaces route_text found primary)"

subsection \<open>Subnets that were asked for\<close>

definition private_ranges :: "ipv4_network list" where
  "private_ranges =
     [mk_network (10 * 16777216) 8, mk_network (172 * 16777216 + 16 * 65536) 12,
      mk_network (192 * 16777216 + 168 * 65536) 16]"

definition normalize_private_scan_subnet :: "pyval \<Rightarrow> scan_error + ipv4_network" where
  "normalize_private_scan_subnet v =
     (case v of
        PStr s \<Rightarrow>
          (case parse_network (py_strip s) of
             None \<Rightarrow> Inl (ScanValueError ''Enter a private IPv4 subnet in CIDR notation'')
           | Some n \<Rightarrow>
               if list_ex (subnet_of n) private_ranges then Inr n
               else Inl (ScanValueError ''Only private IPv4 subnets can be scanned''))
      | _ \<Rightarrow> Inl (ScanValueError ''Enter a private IPv4 subnet in CIDR notation''))"

definition custom_scan_subnet :: "pyval \<Rightarrow> scan_error + ipv4_network" where
  "custom_scan_subnet v =
     (case normalize_private_scan_subnet v of
        Inl e \<Rightarrow> Inl e
      | Inr n \<Rightarrow>
          if max_scan_hosts < usable_hosts n
          then Inl (ScanValueError (''Custom subnets are limited to '' @ nat_digits max_scan_hosts @ '' usable hosts''))
          else Inr n)"

fun matching_routes :: "ipv4 \<Rightarrow> string list \<Rightarrow> (int \<times> int \<times> string) list" where
  "matching_routes a [] = []"
| "matching_routes a (line # rest) =
     (case words_of line of
        name # destination # gateway # flags # ref # uses # metric # netmask # others \<Rightarrow>
          (case (route_network destination netmask, parse_hex flags, parse_int metric) of
             (Some route, Some f, Some n) \<Rightarrow>
               (if odd f \<and> in_net a route then [(- int (net_plen route), n, name)] else []) @ matching_routes a rest
           | _ \<Rightarrow> matching_routes a rest)
      | _ \<Rightarrow> matching_routes a rest)"

definition representative :: "ipv4_network \<Rightarrow> ipv4" where
  "representative n = (case host_addresses n of [] \<Rightarrow> net_base n | h # _ \<Rightarrow> h)"

definition route_interface_name :: "ipv4_network \<Rightarrow> string \<Rightarrow> scan_error + string" where
  "route_interface_name n route_text =
     (case matching_routes (representative n) (tl (splitlines route_text)) of
        [] \<Rightarrow> Inl (ScanRuntimeError (''No IPv4 route to '' @ network_str n))
      | r # rs \<Rightarrow> Inr (snd (snd (Min (set (r # rs))))))"

definition min_key :: "('a \<Rightarrow> 'b :: linorder) \<Rightarrow> 'a list \<Rightarrow> 'a" where
  "min_key f xs = hd (sort_key f xs)"

definition routed_scan_interface ::
  "string \<Rightarrow> (string \<Rightarrow> ipv4 option) \<Rightarrow> lan_interface list \<Rightarrow> ipv4_network \<Rightarrow> scan_error + lan_interface" where
  "routed_scan_interface route_text primary available n =
     (case route_interface_name n route_text of
        Inl e \<Rightarrow> Inl e
      | Inr name \<Rightarrow>
          (case filter (\<lambda>i. lan_name i = name) available of
             [] \<Rightarrow> Inl (ScanRuntimeError (''Route to '' @ network_str n @ '' uses '' @ name
                     @ '', which has no private IPv4 address''))
           | i # is \<Rightarrow>
               (let source = min_key (\<lambda>j. (Some (lan_address j) \<noteq> primary name, lan_address j)) (i # is) in
                Inr \<lparr>lan_name = lan_name source, lan_address = lan_address source, lan_network = n, lan_direct = False\<rparr>)))"

fun normalize_all :: "pyval list \<Rightarrow> ipv4_network list \<Rightarrow> scan_error + ipv4_network list" where
  "normalize_all [] acc = Inr acc"
| "normalize_all (v # vs) acc =
     (case normalize_private_scan_subnet v of
        Inl e \<Rightarrow> Inl e
      | Inr n \<Rightarrow> normalize_all vs (if n \<in> set acc then acc else acc @ [n]))"

text \<open>The interface for one subnet, or why there is none.\<close>

definition subnet_interface ::
  "string \<Rightarrow> (string \<Rightarrow> ipv4 option) \<Rightarrow> lan_interface list \<Rightarrow> ipv4_network \<Rightarrow> scan_error + lan_interface" where
  "subnet_interface route_text primary lans n =
     (case map_of (rev (map (\<lambda>i. (network_str (lan_network i), i)) lans)) (network_str n) of
        Some i \<Rightarrow> Inr i
      | None \<Rightarrow>
          (case custom_scan_subnet (PStr (network_str n)) of
             Inl e \<Rightarrow> Inl e
           | Inr _ \<Rightarrow> routed_scan_interface route_text primary lans n))"

fun select_interfaces ::
  "string \<Rightarrow> (string \<Rightarrow> ipv4 option) \<Rightarrow> lan_interface list \<Rightarrow> ipv4_network list \<Rightarrow>
   lan_interface list \<times> (string \<times> string) list" where
  "select_interfaces route_text primary lans [] = ([], [])"
| "select_interfaces route_text primary lans (n # ns) =
     (case (subnet_interface route_text primary lans n, select_interfaces route_text primary lans ns) of
        (Inr i, (is, errors)) \<Rightarrow> (i # is, errors)
      | (Inl e, (is, errors)) \<Rightarrow> (is, (network_str n, take 200 (err_text e)) # errors))"

definition selected_scan_interfaces ::
  "string \<Rightarrow> lan_interface list \<Rightarrow> (string \<Rightarrow> ipv4 option) \<Rightarrow> pyval list option \<Rightarrow>
   scan_error + lan_interface list \<times> (string \<times> string) list" where
  "selected_scan_interfaces route_text found primary subnets =
     (case private_lan_interfaces route_text found primary of
        Inl e \<Rightarrow> Inl e
      | Inr lans \<Rightarrow>
          (case subnets of
             None \<Rightarrow> Inr (lans, [])
           | Some vs \<Rightarrow>
               (case normalize_all vs [] of
                  Inl e \<Rightarrow> Inl e
                | Inr ns \<Rightarrow> Inr (select_interfaces route_text primary lans ns))))"

end
