(* ===== verification/Scan.thy ===== *)
theory Scan
  imports Lan Inventory Url
begin

text \<open>
  What a scan makes of the answers of the network (camadmiral/discovery.py): ONVIF replies, RTSP ports,
  the ARP table, and their merging into devices.

  A reply is the parsed XML document (\<open>None\<close> where it is not XML); \<open>unquote\<close> is \<open>urllib.parse.unquote\<close>.
  Addresses are IPv4: the sockets are AF_INET.
\<close>

subsection \<open>ONVIF replies\<close>

datatype xml = Elem (xml_tag: string) (xml_text: string) (xml_children: "xml list")

fun xml_iter :: "xml \<Rightarrow> xml list" where
  "xml_iter (Elem t x cs) = Elem t x cs # concat (map xml_iter cs)"

definition local_name :: "string \<Rightarrow> string" where
  "local_name tag = (case rpartition_char CHR ''}'' tag of (_, _, name) \<Rightarrow> name)"

definition element_text :: "xml \<Rightarrow> string \<Rightarrow> string" where
  "element_text e name =
     (case find (\<lambda>c. local_name (xml_tag c) = name \<and> xml_text c \<noteq> []) (xml_iter e) of
        None \<Rightarrow> [] | Some c \<Rightarrow> py_strip (xml_text c))"

text \<open>The elements of a list of strings.\<close>

definition strings_of :: "pyval \<Rightarrow> string list" where
  "strings_of v = (case v of PList l \<Rightarrow> map py_str l | _ \<Rightarrow> [])"

definition is_onvif_camera :: "pydict \<Rightarrow> bool" where
  "is_onvif_camera m \<longleftrightarrow>
     list_ex (\<lambda>t. endswith (py_lower t) '':networkvideotransmitter'' \<or> py_lower t = ''tds:device'') (strings_of (dget m ''types'')) \<or>
     list_ex (\<lambda>s. startswith (py_lower s) ''onvif://www.onvif.org/'') (strings_of (dget m ''scopes'')) \<or>
     list_ex (\<lambda>u. contains (py_lower u) ''/onvif/'') (strings_of (dget m ''service_urls''))"

fun scope_metadata :: "(string \<Rightarrow> string) \<Rightarrow> string list \<Rightarrow> (string \<times> string) list \<Rightarrow> scan_error + (string \<times> string) list" where
  "scope_metadata unquote [] acc = Inr acc"
| "scope_metadata unquote (scope # scopes) acc =
     (case urlsplit scope of
        None \<Rightarrow> Inl (ScanValueError ''urlsplit'')
      | Some u \<Rightarrow>
          let parts = map unquote (filter (\<lambda>x. x \<noteq> []) (split_char CHR ''/'' (url_path u))) in
          if length parts < 2 then scope_metadata unquote scopes acc
          else
            let key = py_lower (last (butlast parts)); v = py_strip (last parts) in
            scope_metadata unquote scopes
              (if key \<in> {''name'', ''hardware''} \<and> v \<noteq> [] \<and> map_of acc key = None then acc @ [(key, v)] else acc))"

definition text_list :: "string list \<Rightarrow> pyval" where
  "text_list xs = PList (map PStr xs)"

definition text_or_none :: "string \<Rightarrow> pyval" where
  "text_or_none s = (if s = [] then PNone else PStr s)"

definition optional_text :: "string option \<Rightarrow> pyval" where
  "optional_text x = (case x of None \<Rightarrow> PNone | Some s \<Rightarrow> PStr s)"

definition probe_match :: "(string \<Rightarrow> string) \<Rightarrow> string \<Rightarrow> xml \<Rightarrow> scan_error + pydict" where
  "probe_match unquote sender e =
     (let xaddrs = words_of (element_text e ''XAddrs'');
          scopes = filter (\<lambda>s. \<not> contains (py_lower s) ''/location/'') (words_of (element_text e ''Scopes''));
          types = words_of (element_text e ''Types'');
          endpoint = element_text e ''Address''
      in case scope_metadata unquote scopes [] of
           Inl err \<Rightarrow> Inl err
         | Inr meta \<Rightarrow>
             Inr [(''ip'', PStr sender), (''endpoint_reference'', text_or_none endpoint),
                  (''service_urls'', text_list (sort (remdups xaddrs))), (''scopes'', text_list scopes),
                  (''types'', text_list types), (''name'', optional_text (map_of meta ''name'')),
                  (''model'', optional_text (map_of meta ''hardware''))])"

fun probe_matches :: "(string \<Rightarrow> string) \<Rightarrow> string \<Rightarrow> xml list \<Rightarrow> scan_error + pydict list" where
  "probe_matches unquote sender [] = Inr []"
| "probe_matches unquote sender (e # es) =
     (if local_name (xml_tag e) \<noteq> ''ProbeMatch'' then probe_matches unquote sender es
      else
        case (probe_match unquote sender e, probe_matches unquote sender es) of
          (Inr m, Inr ms) \<Rightarrow> Inr (m # ms)
        | (Inl err, _) \<Rightarrow> Inl err
        | (_, Inl err) \<Rightarrow> Inl err)"

definition parse_probe_matches :: "(string \<Rightarrow> string) \<Rightarrow> xml option \<Rightarrow> string \<Rightarrow> scan_error + pydict list" where
  "parse_probe_matches unquote payload sender =
     (case payload of None \<Rightarrow> Inr [] | Some document \<Rightarrow> probe_matches unquote sender (xml_iter document))"

text \<open>One accepted match: a device that answered before gains the new addresses, scopes and types.\<close>

definition union_field :: "pydict \<Rightarrow> pydict \<Rightarrow> string \<Rightarrow> pyval" where
  "union_field a b k = text_list (sort (remdups (strings_of (dget a k) @ strings_of (dget b k))))"

definition note_match :: "pydict \<Rightarrow> (string \<times> pydict) list \<Rightarrow> (string \<times> pydict) list" where
  "note_match m found =
     (let key = py_str (py_or (dget m ''endpoint_reference'') (dget m ''ip'')) in
      case map_of found key of
        None \<Rightarrow> AList.update key m found
      | Some e \<Rightarrow>
          AList.update key
            (dset ''types'' (union_field e m ''types'')
              (dset ''scopes'' (union_field e m ''scopes'') (dset ''service_urls'' (union_field e m ''service_urls'') e))) found)"

fun note_replies ::
  "(string \<Rightarrow> string) \<Rightarrow> (string \<times> xml option) list \<Rightarrow> (string \<times> pydict) list \<Rightarrow> scan_error + (string \<times> pydict) list" where
  "note_replies unquote [] found = Inr found"
| "note_replies unquote ((sender, payload) # replies) found =
     (case parse_probe_matches unquote payload sender of
        Inl e \<Rightarrow> Inl e
      | Inr ms \<Rightarrow> note_replies unquote replies (fold note_match (filter is_onvif_camera ms) found))"

text \<open>Sorting by address raises where a text is none.\<close>

definition sort_by_ip :: "pydict list \<Rightarrow> scan_error + pydict list" where
  "sort_by_ip ds =
     (if list_all (\<lambda>d. parse_ipv4 (py_str (dget d ''ip'')) \<noteq> None) ds
      then Inr (sort_key (\<lambda>d. the (parse_ipv4 (py_str (dget d ''ip'')))) ds)
      else Inl (ScanValueError ''ip''))"

definition discover_onvif :: "(string \<Rightarrow> string) \<Rightarrow> (string \<times> xml option) list \<Rightarrow> scan_error + pydict list" where
  "discover_onvif unquote replies =
     (case note_replies unquote replies [] of Inl e \<Rightarrow> Inl e | Inr found \<Rightarrow> sort_by_ip (map snd found))"

text \<open>The addresses that a scan of an interface probes one by one.\<close>

definition unicast_targets :: "lan_interface \<Rightarrow> string list \<Rightarrow> string list" where
  "unicast_targets i neighbours =
     (if sweep_allowed (lan_network i) then map ipv4_str (sweep_targets i) else bounded_interface_addresses i neighbours)"

subsection \<open>RTSP ports\<close>

definition rtsp_ports :: "nat list" where
  "rtsp_ports = [554, 8554]"

definition note_endpoint :: "string \<times> pydict \<Rightarrow> (string \<times> pydict list) list \<Rightarrow> (string \<times> pydict list) list" where
  "note_endpoint = (\<lambda>(address, endpoint) found.
     AList.update address ((case map_of found address of None \<Rightarrow> [] | Some es \<Rightarrow> es) @ [endpoint]) found)"

definition port_of :: "pydict \<Rightarrow> int" where
  "port_of e = (case dget e ''port'' of PInt n \<Rightarrow> n | _ \<Rightarrow> 0)"

text \<open>\<open>probe\<close> opens a port; \<open>completed\<close> is the order in which the probes end.\<close>

definition discover_rtsp_targets ::
  "(string \<Rightarrow> nat \<Rightarrow> pydict option) \<Rightarrow> ((string \<times> nat) list \<Rightarrow> (string \<times> nat) list) \<Rightarrow> string list \<Rightarrow> scan_error + pydict list" where
  "discover_rtsp_targets probe completed targets =
     (let jobs = completed (concat (map (\<lambda>a. map (Pair a) rtsp_ports) targets));
          answers = concat (map (\<lambda>(a, p). case probe a p of
             None \<Rightarrow> [] | Some e \<Rightarrow> if truthy (dget e ''verified'') then [(a, e)] else []) jobs);
          found = fold note_endpoint answers []
      in sort_by_ip (map (\<lambda>(a, es). [(''ip'', PStr a), (''endpoints'', PList (map PDict (sort_key port_of es)))]) found))"

subsection \<open>Neighbours\<close>

definition read_arp_table :: "string option \<Rightarrow> (string \<times> string) list" where
  "read_arp_table text =
     (case text of
        None \<Rightarrow> []
      | Some t \<Rightarrow>
          fold (\<lambda>line entries.
            case words_of line of
              address # kind # flags # hardware # others \<Rightarrow>
                if flags = ''0x0'' \<or> py_lower hardware = ''00:00:00:00:00:00'' then entries
                else AList.update address (py_lower hardware) entries
            | _ \<Rightarrow> entries) (tl (splitlines t)) [])"

definition reachable_targets :: "lan_interface \<Rightarrow> pydict list \<Rightarrow> string list" where
  "reachable_targets i known =
     sort_key (\<lambda>s. the (parse_ipv4 s)) (remdups (concat (map (\<lambda>d.
       case parse_ipv4 (text_of d ''ip'') of
         None \<Rightarrow> []
       | Some a \<Rightarrow> if truthy (dget d ''mac'') \<and> in_net a (lan_network i) \<and> a \<noteq> lan_address i
                   then [text_of d ''ip''] else []) known)))"

definition discover_reachable_known :: "(string \<Rightarrow> bool) \<Rightarrow> lan_interface \<Rightarrow> pydict list \<Rightarrow> string list" where
  "discover_reachable_known ping i known = filter ping (reachable_targets i known)"

subsection \<open>Merging\<close>

definition blank_device :: "string \<Rightarrow> device" where
  "blank_device a = [(''ip'', PStr a), (''onvif'', PNone), (''rtsp'', PList [])]"

definition put_service :: "string \<Rightarrow> string \<Rightarrow> pyval \<Rightarrow> (string \<times> device) list \<Rightarrow> (string \<times> device) list" where
  "put_service a k v ds =
     AList.update a (dset k v (case map_of ds a of None \<Rightarrow> blank_device a | Some d \<Rightarrow> d)) ds"

definition ip_text :: "pydict \<Rightarrow> string" where
  "ip_text d = py_str (dget d ''ip'')"

definition finish_device :: "(string \<times> string) list \<Rightarrow> string \<times> device \<Rightarrow> device" where
  "finish_device arp = (\<lambda>(a, d).
     let d' = dset ''mac'' (optional_text (map_of arp a)) d; onvif = dsub d' ''onvif'' in
     dset ''display_name'' (py_or (dget onvif ''name'') (py_or (dget onvif ''model'') (PStr a))) d')"

definition merge_discovery :: "pydict list \<Rightarrow> pydict list \<Rightarrow> (string \<times> string) list \<Rightarrow> scan_error + device list" where
  "merge_discovery onvif rtsp arp =
     (let with_onvif = fold (\<lambda>x. put_service (ip_text x) ''onvif'' (PDict x)) onvif [];
          with_rtsp = fold (\<lambda>x. put_service (ip_text x) ''rtsp'' (dget x ''endpoints'')) rtsp with_onvif
      in sort_by_ip (map (finish_device arp) with_rtsp))"

end
