(* ===== verification/Targeted.thy ===== *)
theory Targeted
  imports Scan
begin

text \<open>
  Looking for known cameras again (camadmiral/discovery.py, \<open>discover_targeted\<close>): a target is found by its
  ONVIF endpoint or else by its hardware address, and only where the evidence is unambiguous. What
  several interfaces found is joined by \<open>deduplicate_targeted_devices\<close>.
\<close>

subsection \<open>Matching targets\<close>

definition endpoint_matches :: "pydict list \<Rightarrow> pydict \<Rightarrow> pydict list" where
  "endpoint_matches onvif target =
     (let endpoint = ident_of target ''endpoint_reference'' in
      if endpoint = [] then [] else filter (\<lambda>d. py_lower (text_of d ''endpoint_reference'') = endpoint) onvif)"

definition mac_matches :: "lan_interface \<Rightarrow> (string \<times> string) list \<Rightarrow> pydict \<Rightarrow> string list" where
  "mac_matches i arp target =
     (let mac = ident_of target ''mac'' in
      if mac = [] then []
      else map fst (filter (\<lambda>(a, m). py_lower m = mac \<and>
             (case parse_ipv4 a of None \<Rightarrow> False | Some n \<Rightarrow> in_net n (lan_network i))) arp))"

text \<open>A target with what its endpoint and its hardware address match.\<close>

type_synonym target_match = "string \<times> pydict list \<times> string list"

definition target_matches :: "lan_interface \<Rightarrow> pydict list \<Rightarrow> (string \<times> string) list \<Rightarrow> pydict list \<Rightarrow> target_match list" where
  "target_matches i onvif arp targets =
     map (\<lambda>t. (text_of t ''candidate_uuid'', endpoint_matches onvif t, mac_matches i arp t)) targets"

definition endpoint_claims :: "target_match list \<Rightarrow> string \<Rightarrow> string list" where
  "endpoint_claims tms a = map fst (filter (\<lambda>(c, es, ms). length es = 1 \<and> ip_text (hd es) = a) tms)"

text \<open>Targets found so far, the addresses given away, and the targets left for their hardware address.\<close>

fun match_endpoints ::
  "(string \<Rightarrow> string list) \<Rightarrow> target_match list \<Rightarrow> (string \<times> string) list \<Rightarrow> string list \<Rightarrow> (string \<times> string list) list \<Rightarrow>
   (string \<times> string) list \<times> string list \<times> (string \<times> string list) list" where
  "match_endpoints claims [] found claimed fallbacks = (found, claimed, fallbacks)"
| "match_endpoints claims ((c, es, ms) # tms) found claimed fallbacks =
     (case es of
        [] \<Rightarrow> match_endpoints claims tms found claimed (fallbacks @ [(c, ms)])
      | [e] \<Rightarrow>
          if length (claims (ip_text e)) \<noteq> 1 then match_endpoints claims tms found claimed fallbacks
          else match_endpoints claims tms (AList.update c (ip_text e) found) (ip_text e # claimed) fallbacks
      | _ \<Rightarrow> match_endpoints claims tms found claimed fallbacks)"

text \<open>The addresses that fallbacks claim, in the order of the first claim.\<close>

definition note_claim :: "string list \<Rightarrow> string \<times> string list \<Rightarrow> (string \<times> string list) list \<Rightarrow> (string \<times> string list) list" where
  "note_claim claimed = (\<lambda>(c, ms) claims.
     case filter (\<lambda>a. a \<notin> set claimed) ms of
       [a] \<Rightarrow> AList.update a ((case map_of claims a of None \<Rightarrow> [] | Some cs \<Rightarrow> cs) @ [c]) claims
     | _ \<Rightarrow> claims)"

definition match_mac :: "string \<times> string list \<Rightarrow> (string \<times> string) list \<Rightarrow> (string \<times> string) list" where
  "match_mac = (\<lambda>(a, cs) found. case cs of [c] \<Rightarrow> AList.update c a found | _ \<Rightarrow> found)"

definition match_targets :: "target_match list \<Rightarrow> (string \<times> string) list" where
  "match_targets tms =
     (case match_endpoints (endpoint_claims tms) tms [] [] [] of
        (found, claimed, fallbacks) \<Rightarrow> fold match_mac (fold (note_claim claimed) fallbacks []) found)"

definition verified_endpoints :: "(string \<Rightarrow> nat \<Rightarrow> pydict option) \<Rightarrow> string \<Rightarrow> pydict list" where
  "verified_endpoints probe a =
     concat (map (\<lambda>p. case probe a p of None \<Rightarrow> [] | Some e \<Rightarrow> if truthy (dget e ''verified'') then [e] else []) rtsp_ports)"

definition discover_targeted ::
  "(string \<Rightarrow> nat \<Rightarrow> pydict option) \<Rightarrow> lan_interface \<Rightarrow> pydict list \<Rightarrow> (string \<times> string) list \<Rightarrow> pydict list \<Rightarrow>
   scan_error + device list" where
  "discover_targeted probe i onvif arp targets =
     (if targets = [] then Inr []
      else
        let found = map snd (match_targets (target_matches i onvif arp targets)) in
        if \<not> list_all (\<lambda>a. parse_ipv4 a \<noteq> None) found then Inl (ScanValueError ''ip'')
        else
          merge_discovery (filter (\<lambda>d. ip_text d \<in> set found) onvif)
            (concat (map (\<lambda>a. case verified_endpoints probe a of
                [] \<Rightarrow> [] | es \<Rightarrow> [[(''ip'', PStr a), (''endpoints'', PList (map PDict es))]])
              (sort_key (\<lambda>a. the (parse_ipv4 a)) (remdups found))))
            arp)"

subsection \<open>Joining what several interfaces found\<close>

definition target_identity :: "device \<Rightarrow> string \<times> string \<times> string" where
  "target_identity d = (text_of d ''ip'', ident_of d ''mac'', ident_of (dsub d ''onvif'') ''endpoint_reference'')"

definition agree_where_known :: "string \<Rightarrow> string \<Rightarrow> bool" where
  "agree_where_known a b \<longleftrightarrow> a = [] \<or> b = [] \<or> a = b"

definition compatible_identity :: "device \<Rightarrow> string \<times> string \<times> string \<Rightarrow> bool" where
  "compatible_identity d identity =
     (case (target_identity d, identity) of
        ((ip, mac, endpoint), (ip', mac', endpoint')) \<Rightarrow>
          ip = ip' \<and> agree_where_known mac mac' \<and> agree_where_known endpoint endpoint' \<and>
          (mac \<noteq> [] \<and> mac = mac' \<or> endpoint \<noteq> [] \<and> endpoint = endpoint'))"

definition take_field :: "pydict \<Rightarrow> string \<Rightarrow> pydict \<Rightarrow> pydict" where
  "take_field from k d = (if \<not> truthy (dget d k) \<and> truthy (dget from k) then dset k (dget from k) d else d)"

definition merge_onvif :: "pydict \<Rightarrow> pydict \<Rightarrow> pydict" where
  "merge_onvif old new =
     take_field new ''model'' (take_field new ''name''
       (fold (\<lambda>k. dset k (union_field old new k)) [''service_urls'', ''scopes'', ''types''] old))"

definition rtsp_entries :: "device \<Rightarrow> pydict list" where
  "rtsp_entries d = dict_items (dlist d ''rtsp'')"

definition rtsp_key :: "pydict \<Rightarrow> pyval \<times> pyval" where
  "rtsp_key e = (dget e ''url'', dget e ''port'')"

definition merge_targeted :: "device \<Rightarrow> device \<Rightarrow> device" where
  "merge_targeted d existing =
     (let onvif = dsub d ''onvif''; old = dsub existing ''onvif'';
          with_onvif = (if onvif = [] then existing
                        else dset ''onvif'' (PDict (if old = [] then onvif else merge_onvif old onvif)) existing);
          with_mac = take_field d ''mac'' with_onvif;
          known = map rtsp_key (rtsp_entries with_mac);
          fresh = filter (\<lambda>e. rtsp_key e \<notin> set known) (rtsp_entries d)
      in dset ''rtsp'' (PList (dlist with_mac ''rtsp'' @ map PDict fresh)) with_mac)"

fun join_device :: "device \<Rightarrow> device list \<Rightarrow> device list" where
  "join_device d [] = [d]"
| "join_device d (e # es) =
     (if compatible_identity e (target_identity d) then merge_targeted d e # es else e # join_device d es)"

definition deduplicate_targeted_devices :: "device list \<Rightarrow> device list" where
  "deduplicate_targeted_devices ds = fold join_device ds []"

end
