(* ===== verification/TargetedProps.thy ===== *)
theory TargetedProps
  imports Targeted
begin

text \<open>
  What the search for known cameras promises: no two cameras are found at one address, every match has its
  evidence, and joining what several interfaces found loses nothing.
\<close>

subsection \<open>Matching\<close>

definition endpoint_found :: "target_match list \<Rightarrow> string \<times> string \<Rightarrow> bool" where
  "endpoint_found tms = (\<lambda>(c, a). \<exists>e ms. (c, [e], ms) \<in> set tms \<and> ip_text e = a \<and> endpoint_claims tms a = [c])"

lemma endpoint_claims_append: "endpoint_claims (xs @ ys) a = endpoint_claims xs a @ endpoint_claims ys a"
  by (simp add: endpoint_claims_def)

lemma endpoint_claims_Cons:
  "endpoint_claims ((c, es, ms) # tms) a = (if length es = 1 \<and> ip_text (hd es) = a then [c] else []) @ endpoint_claims tms a"
  by (simp add: endpoint_claims_def)

text \<open>\<open>seen\<close> are the targets handled so far.\<close>

definition endpoints_ok :: "target_match list \<Rightarrow> target_match list \<Rightarrow> (string \<times> string) list \<Rightarrow> string list \<Rightarrow> (string \<times> string list) list \<Rightarrow> bool" where
  "endpoints_ok all seen found claimed fallbacks \<longleftrightarrow>
     distinct (map fst found) \<and> distinct (map snd found) \<and> snd ` set found \<subseteq> set claimed \<and>
     (\<forall>a \<in> set claimed. endpoint_claims seen a \<noteq> []) \<and> (\<forall>x \<in> set found. endpoint_found all x) \<and>
     (\<forall>(c, ms) \<in> set fallbacks. (c, [], ms) \<in> set all)"

lemma update_set: "distinct (map fst xs) \<Longrightarrow> set (AList.update k v xs) = insert (k, v) {x \<in> set xs. fst x \<noteq> k}"
  by (induction xs) (auto simp: image_iff)

lemma update_values:
  "distinct (map fst xs) \<Longrightarrow> distinct (map snd xs) \<Longrightarrow> v \<notin> snd ` set xs \<Longrightarrow> distinct (map snd (AList.update k v xs))"
proof (induction xs)
  case (Cons x xs)
  then have "v \<noteq> snd x" "v \<notin> snd ` set xs" by auto
  moreover have "snd x \<notin> snd ` set (AList.update k v xs)"
    using Cons.prems update_set [of xs k v] \<open>v \<noteq> snd x\<close> by auto
  moreover have "distinct (map snd (AList.update k v xs))" using Cons by simp
  ultimately show ?case using Cons.prems(2) by (cases x) (simp del: distinct_map)
qed simp

lemma match_endpoints_ok:
  assumes "match_endpoints (endpoint_claims all) tms found claimed fallbacks = (found', claimed', fallbacks')"
    and "all = seen @ tms" "endpoints_ok all seen found claimed fallbacks"
  shows "endpoints_ok all all found' claimed' fallbacks'"
  using assms
proof (induction tms arbitrary: seen found claimed fallbacks)
  case Nil
  then show ?case by simp
next
  case (Cons tm tms)
  obtain c es ms where tm: "tm = (c, es, ms)" by (cases tm)
  have all: "all = (seen @ [tm]) @ tms" using Cons.prems(2) by simp
  have ok: "endpoints_ok all (seen @ [tm]) found claimed fallbacks"
    using Cons.prems(3) by (simp add: endpoints_ok_def endpoint_claims_append)
  consider "es = []" | e where "es = [e]" | "length es > 1" by (cases es; cases "tl es") auto
  then show ?case
  proof cases
    case 1
    have "endpoints_ok all (seen @ [tm]) found claimed (fallbacks @ [(c, ms)])"
      using ok tm 1 all by (auto simp: endpoints_ok_def)
    then show ?thesis using Cons.IH [OF _ all] Cons.prems(1) tm 1 by simp
  next
    case 3
    then show ?thesis using Cons.IH [OF _ all ok] Cons.prems(1) tm by (cases es; cases "tl es") auto
  next
    case (2 e)
    let ?a = "ip_text e"
    show ?thesis
    proof (cases "length (endpoint_claims all ?a) = 1")
      case False
      then show ?thesis using Cons.IH [OF _ all ok] Cons.prems(1) tm 2 by simp
    next
      case True
      have split: "endpoint_claims all ?a = endpoint_claims seen ?a @ [c] @ endpoint_claims tms ?a"
        unfolding all tm 2 endpoint_claims_append endpoint_claims_Cons by (simp add: endpoint_claims_def)
      then have sole: "endpoint_claims seen ?a = []" "endpoint_claims all ?a = [c]" using True by auto
      then have fresh: "?a \<notin> set claimed" using Cons.prems(3) by (auto simp: endpoints_ok_def)
      have justified: "endpoint_found all (c, ?a)" using all tm 2 sole by (auto simp: endpoint_found_def)
      have "endpoints_ok all (seen @ [tm]) (AList.update c ?a found) (?a # claimed) fallbacks"
        using ok fresh justified 2
        by (auto simp: endpoints_ok_def distinct_update update_set intro!: update_values)
           (auto simp: endpoint_claims_append endpoint_claims_Cons tm)
      then show ?thesis using Cons.IH [OF _ all] Cons.prems(1) tm 2 True by simp
    qed
  qed
qed

text \<open>The claims on the remaining addresses.\<close>

definition claims_ok :: "target_match list \<Rightarrow> string list \<Rightarrow> (string \<times> string list) list \<Rightarrow> bool" where
  "claims_ok all claimed claims \<longleftrightarrow>
     distinct (map fst claims) \<and> fst ` set claims \<inter> set claimed = {} \<and>
     (\<forall>(a, cs) \<in> set claims. \<forall>c \<in> set cs. \<exists>ms. (c, [], ms) \<in> set all \<and> filter (\<lambda>a. a \<notin> set claimed) ms = [a])"

lemma note_claims_ok:
  "claims_ok all claimed claims \<Longrightarrow> \<forall>(c, ms) \<in> set fallbacks. (c, [], ms) \<in> set all \<Longrightarrow>
   claims_ok all claimed (fold (note_claim claimed) fallbacks claims)"
proof (induction fallbacks arbitrary: claims)
  case (Cons x fallbacks)
  obtain c ms where x: "x = (c, ms)" by (cases x)
  have "claims_ok all claimed (note_claim claimed x claims)"
  proof (cases "\<exists>a. filter (\<lambda>a. a \<notin> set claimed) ms = [a]")
    case True
    then obtain a where a: "filter (\<lambda>a. a \<notin> set claimed) ms = [a]" by blast
    have "a \<in> set (filter (\<lambda>a. a \<notin> set claimed) ms)" unfolding a by simp
    then have "a \<notin> set claimed" by simp
    let ?cs = "case map_of claims a of None \<Rightarrow> [] | Some cs \<Rightarrow> cs"
    have old: "\<forall>c \<in> set ?cs. \<exists>ms. (c, [], ms) \<in> set all \<and> filter (\<lambda>a. a \<notin> set claimed) ms = [a]"
      using Cons.prems(1) by (auto simp: claims_ok_def split: option.split dest!: map_of_SomeD)
    have "(c, [], ms) \<in> set all" using Cons.prems(2) x by auto
    then show ?thesis
      using Cons.prems(1) a old \<open>a \<notin> set claimed\<close>
      by (auto simp: x note_claim_def claims_ok_def distinct_update update_set)
  next
    case False
    then have "note_claim claimed x claims = claims" by (auto simp: x note_claim_def split: list.split)
    then show ?thesis using Cons.prems(1) by simp
  qed
  then show ?case using Cons.IH Cons.prems(2) by simp
qed simp

definition mac_found :: "target_match list \<Rightarrow> string list \<Rightarrow> string \<times> string \<Rightarrow> bool" where
  "mac_found tms claimed = (\<lambda>(c, a). \<exists>ms. (c, [], ms) \<in> set tms \<and> filter (\<lambda>a. a \<notin> set claimed) ms = [a])"

lemma match_macs_ok:
  assumes "claims_ok all claimed claims" "distinct (map fst found)" "distinct (map snd found)"
    "fst ` set claims \<inter> snd ` set found = {}"
    "\<forall>x \<in> set found. endpoint_found all x \<or> mac_found all claimed x"
  shows "let found' = fold match_mac claims found in
    distinct (map fst found') \<and> distinct (map snd found') \<and> (\<forall>x \<in> set found'. endpoint_found all x \<or> mac_found all claimed x)"
  using assms
proof (induction claims arbitrary: found)
  case (Cons y claims)
  obtain a cs where y: "y = (a, cs)" by (cases y)
  have rest: "claims_ok all claimed claims" using Cons.prems(1) by (simp add: claims_ok_def)
  show ?case
  proof (cases "\<exists>c. cs = [c]")
    case True
    then obtain c where c: "cs = [c]" by blast
    have "mac_found all claimed (c, a)" using Cons.prems(1) by (auto simp: y c claims_ok_def mac_found_def)
    moreover have "a \<notin> fst ` set claims" using Cons.prems(1) by (simp add: y claims_ok_def)
    moreover have "a \<notin> snd ` set found" using Cons.prems(4) by (auto simp: y)
    ultimately have "let found' = fold match_mac claims (AList.update c a found) in
        distinct (map fst found') \<and> distinct (map snd found') \<and> (\<forall>x \<in> set found'. endpoint_found all x \<or> mac_found all claimed x)"
      using Cons.prems by (intro Cons.IH rest) (auto simp: distinct_update update_set intro!: update_values)
    then show ?thesis by (simp add: y c match_mac_def)
  next
    case False
    then have "match_mac y found = found" by (auto simp: y match_mac_def split: list.split)
    then show ?thesis using Cons.IH [OF rest Cons.prems(2,3) _ Cons.prems(5)] Cons.prems(4) by auto
  qed
qed simp

text \<open>The addresses that endpoints gave away.\<close>

definition given_away :: "target_match list \<Rightarrow> string list" where
  "given_away tms = fst (snd (match_endpoints (endpoint_claims tms) tms [] [] []))"


subsection \<open>Joining\<close>

text \<open>A device that stands for another: same address, its RTSP endpoints, its hardware address.\<close>

definition covers :: "device \<Rightarrow> device \<Rightarrow> bool" where
  "covers e d \<longleftrightarrow>
     text_of e ''ip'' = text_of d ''ip'' \<and> rtsp_key ` set (rtsp_entries d) \<subseteq> rtsp_key ` set (rtsp_entries e) \<and>
     (ident_of d ''mac'' \<noteq> [] \<longrightarrow> ident_of e ''mac'' = ident_of d ''mac'')"

definition mac_readable :: "device \<Rightarrow> bool" where
  "mac_readable d \<longleftrightarrow> (truthy (dget d ''mac'') \<longrightarrow> ident_of d ''mac'' \<noteq> [])"

lemma dict_items_append: "dict_items (xs @ map PDict ys) = dict_items xs @ ys"
proof -
  have "concat (map (\<lambda>v. case v of PDict d \<Rightarrow> [d] | _ \<Rightarrow> []) (map PDict ys)) = ys" by (induction ys) simp_all
  then show ?thesis unfolding dict_items_def map_append concat_append by simp
qed

lemma image_new: "f ` (A \<union> {x \<in> B. f x \<notin> f ` A}) = f ` A \<union> f ` B"
  by blast

lemma text_of_dset [simp]: "j \<noteq> k \<Longrightarrow> text_of (dset k v d) j = text_of d j"
  by (simp add: text_of_def)

lemma take_field_other [simp]: "j \<noteq> k \<Longrightarrow> dget (take_field x k d) j = dget d j"
  by (simp add: take_field_def)

lemma merge_fields:
  "dget (merge_targeted d e) ''ip'' = dget e ''ip''"
  "dget (merge_targeted d e) ''mac'' = (if truthy (dget e ''mac'') \<or> \<not> truthy (dget d ''mac'') then dget e ''mac'' else dget d ''mac'')"
  "dlist (merge_targeted d e) ''rtsp'' =
     dlist e ''rtsp'' @ map PDict (filter (\<lambda>x. rtsp_key x \<notin> rtsp_key ` set (rtsp_entries e)) (rtsp_entries d))"
proof -
  let ?onvif = "if dsub d ''onvif'' = [] then e
    else dset ''onvif'' (PDict (if dsub e ''onvif'' = [] then dsub d ''onvif'' else merge_onvif (dsub e ''onvif'') (dsub d ''onvif''))) e"
  have "dget ?onvif k = dget e k" if "k \<noteq> ''onvif''" for k using that by simp
  then have "dget (take_field d ''mac'' ?onvif) ''rtsp'' = dget e ''rtsp''" "dget (take_field d ''mac'' ?onvif) ''ip'' = dget e ''ip''"
    "dget (take_field d ''mac'' ?onvif) ''mac'' = (if truthy (dget e ''mac'') \<or> \<not> truthy (dget d ''mac'') then dget e ''mac'' else dget d ''mac'')"
    by (auto simp: take_field_def)
  then show "dget (merge_targeted d e) ''ip'' = dget e ''ip''"
    "dget (merge_targeted d e) ''mac'' = (if truthy (dget e ''mac'') \<or> \<not> truthy (dget d ''mac'') then dget e ''mac'' else dget d ''mac'')"
    "dlist (merge_targeted d e) ''rtsp'' =
     dlist e ''rtsp'' @ map PDict (filter (\<lambda>x. rtsp_key x \<notin> rtsp_key ` set (rtsp_entries e)) (rtsp_entries d))"
    by (simp_all add: merge_targeted_def Let_def dlist_def rtsp_entries_def)
qed

lemma merge_keys: "rtsp_key ` set (rtsp_entries (merge_targeted d e)) = rtsp_key ` set (rtsp_entries e) \<union> rtsp_key ` set (rtsp_entries d)"
  unfolding rtsp_entries_def [of "merge_targeted d e"] merge_fields dict_items_append
  by (simp only: rtsp_entries_def [symmetric] set_append set_filter image_new)

lemma merge_mac: "text_of (merge_targeted d e) ''mac'' = (if truthy (dget e ''mac'') \<or> \<not> truthy (dget d ''mac'') then text_of e ''mac'' else text_of d ''mac'')"
  by (simp add: text_of_def merge_fields)

lemma mac_empty: "\<not> truthy (dget d ''mac'') \<Longrightarrow> ident_of d ''mac'' = []"
  by (simp add: ident_of_def text_of_def)

lemma merge_covers_old:
  assumes "mac_readable e" "covers e x"
  shows "covers (merge_targeted d e) x"
proof -
  have "text_of (merge_targeted d e) ''ip'' = text_of e ''ip''" by (simp add: text_of_def merge_fields)
  moreover have "ident_of (merge_targeted d e) ''mac'' = ident_of e ''mac'' \<or> ident_of e ''mac'' = []"
    using mac_empty [of e] by (auto simp: ident_of_def merge_mac)
  ultimately show ?thesis using assms merge_keys [of d e] by (auto simp: covers_def)
qed

lemma merge_covers_new:
  assumes "mac_readable d" "mac_readable e" "compatible_identity e (target_identity d)"
  shows "covers (merge_targeted d e) d"
proof -
  have "text_of (merge_targeted d e) ''ip'' = text_of e ''ip''" by (simp add: text_of_def merge_fields)
  moreover have "text_of e ''ip'' = text_of d ''ip''" "agree_where_known (ident_of e ''mac'') (ident_of d ''mac'')"
    using assms(3) by (simp_all add: compatible_identity_def target_identity_def)
  moreover have "ident_of (merge_targeted d e) ''mac'' = (if truthy (dget e ''mac'') \<or> \<not> truthy (dget d ''mac'') then ident_of e ''mac'' else ident_of d ''mac'')"
    by (simp add: ident_of_def merge_mac)
  ultimately show ?thesis
    using assms(1,2) merge_keys [of d e] mac_empty [of d] by (auto simp: covers_def agree_where_known_def mac_readable_def)
qed

lemma merge_readable: "mac_readable d \<Longrightarrow> mac_readable e \<Longrightarrow> mac_readable (merge_targeted d e)"
  by (simp add: mac_readable_def merge_fields ident_of_def merge_mac)

lemma covers_refl [simp]: "covers d d"
  by (simp add: covers_def)

lemma join_readable: "mac_readable d \<Longrightarrow> \<forall>e \<in> set es. mac_readable e \<Longrightarrow> \<forall>e \<in> set (join_device d es). mac_readable e"
  by (induction es) (auto simp: merge_readable)

lemma join_covers:
  assumes "mac_readable d" "\<forall>e \<in> set es. mac_readable e"
  shows "(\<exists>e \<in> set (join_device d es). covers e d) \<and> (\<forall>x. (\<exists>e \<in> set es. covers e x) \<longrightarrow> (\<exists>e \<in> set (join_device d es). covers e x))"
  using assms by (induction es) (auto simp: merge_covers_new merge_covers_old)

text \<open>
  Joining what several interfaces found loses no evidence: every found device is represented by one with its
  address, all its RTSP endpoints and its hardware address.
\<close>

theorem joining_loses_nothing:
  assumes "\<forall>d \<in> set ds. mac_readable d" "d \<in> set ds"
  shows "\<exists>e \<in> set (deduplicate_targeted_devices ds). covers e d"
proof -
  have "\<forall>d \<in> set ds. mac_readable d \<Longrightarrow> \<forall>e \<in> set es. mac_readable e \<Longrightarrow>
      \<forall>x. x \<in> set ds \<or> (\<exists>e \<in> set es. covers e x) \<longrightarrow> (\<exists>e \<in> set (fold join_device ds es). covers e x)" for es
  proof (induction ds arbitrary: es)
    case (Cons y ds)
    then have "\<forall>x. x \<in> set ds \<or> (\<exists>e \<in> set (join_device y es). covers e x) \<longrightarrow> (\<exists>e \<in> set (fold join_device ds (join_device y es)). covers e x)"
      using join_readable [of y es] by simp
    moreover have "\<exists>e \<in> set (join_device y es). covers e y"
      "\<forall>x. (\<exists>e \<in> set es. covers e x) \<longrightarrow> (\<exists>e \<in> set (join_device y es). covers e x)"
      using join_covers [of y es] Cons.prems by simp_all
    ultimately show ?case by auto
  qed auto
  from this [of "[]"] assms show ?thesis by (simp add: deduplicate_targeted_devices_def)
qed

definition demo_seen_device :: "nat \<Rightarrow> device" where
  "demo_seen_device port = [(''ip'', PStr ''10.0.0.9''), (''mac'', PStr ''aa:bb''), (''onvif'', PNone),
     (''rtsp'', PList [PDict [(''url'', PStr ''rtsp://10.0.0.9''), (''port'', PInt (int port))]])]"

theorem joining_loses_nothing_witness:
  "length (deduplicate_targeted_devices [demo_seen_device 554, demo_seen_device 8554]) = 1
   \<and> (\<exists>e \<in> set (deduplicate_targeted_devices [demo_seen_device 554, demo_seen_device 8554]). covers e (demo_seen_device 8554))"
proof
  have "list_all mac_readable [demo_seen_device 554, demo_seen_device 8554]" by code_simp
  then have "\<forall>d \<in> set [demo_seen_device 554, demo_seen_device 8554]. mac_readable d" by simp
  then show "\<exists>e \<in> set (deduplicate_targeted_devices [demo_seen_device 554, demo_seen_device 8554]). covers e (demo_seen_device 8554)"
    by (rule joining_loses_nothing) simp
  show "length (deduplicate_targeted_devices [demo_seen_device 554, demo_seen_device 8554]) = 1" by code_simp
qed

text \<open>A reference that only the second observation gives is not taken over.\<close>

lemma joining_drops_reference:
  "map (\<lambda>d. dget (dsub d ''onvif'') ''endpoint_reference'') (deduplicate_targeted_devices
     [[(''ip'', PStr ''a''), (''mac'', PStr ''m''), (''onvif'', PDict [(''endpoint_reference'', PNone)])],
      [(''ip'', PStr ''a''), (''mac'', PStr ''m''), (''onvif'', PDict [(''endpoint_reference'', PStr ''urn'')])]]) = [PNone]"
  by code_simp

end
