(* ===== verification/ScanLan.thy ===== *)
theory ScanLan
  imports Targeted
begin

text \<open>
  A whole scan (camadmiral/discovery.py, \<open>scan_lan\<close>, \<open>scan_targeted_lan\<close>, \<open>scan_explicit_address\<close>): scanners
  run beside each other on every interface, and each result is booked when it arrives. The environment gives the
  answers of the network and the order \<open>sce_completed\<close> in which the scanners end; times and logs are left out.
\<close>

record scan_env =
  sce_routes :: string
  sce_found :: "lan_interface list"
  sce_primary :: "string \<Rightarrow> ipv4 option"
  sce_arp_before :: "string option"
  sce_arp_after :: "string option"
  sce_replies :: "lan_interface \<Rightarrow> string list \<Rightarrow> string + (string \<times> xml option) list"
  sce_probe :: "string \<Rightarrow> nat \<Rightarrow> pydict option"
  sce_ping :: "string \<Rightarrow> bool"
  sce_unquote :: "string \<Rightarrow> string"
  sce_probes_done :: "(string \<times> nat) list \<Rightarrow> (string \<times> nat) list"
  sce_completed :: "(string \<times> lan_interface) list \<Rightarrow> (string \<times> lan_interface) list"

type_synonym scan_job = "string \<times> lan_interface"

record subnet_state =
  sns_subnet :: string
  sns_interface :: "lan_interface option"
  sns_status :: string
  sns_scanners :: "(string \<times> string) list"
  sns_failures :: "(string \<times> string) list"
  sns_error :: "string option"

record scan_state =
  scs_networks :: "(string \<times> subnet_state) list"
  scs_results :: "(string \<times> pyval) list"
  scs_failures :: "(string \<times> string) list"
  scs_successes :: "string list"

record scan_result =
  scr_network :: lan_interface
  scr_networks :: "subnet_state list"
  scr_scanners :: "(string \<times> string) list"
  scr_errors :: "(string \<times> string) list"
  scr_devices :: "device list"
  scr_reachable :: "string list"

text \<open>How a scan ends early: \<open>DiscoveryScanError\<close> with its message and the states of the networks, or an error of
  a function it calls, which it does not catch.\<close>

datatype scan_stop = ScanStopped string "subnet_state list" | ScanRaised scan_error

definition stop_text :: "scan_stop \<Rightarrow> string" where
  "stop_text e = (case e of ScanStopped m _ \<Rightarrow> m | ScanRaised e' \<Rightarrow> err_text e')"

definition stop_networks :: "scan_stop \<Rightarrow> subnet_state list" where
  "stop_networks e = (case e of ScanStopped _ ns \<Rightarrow> ns | ScanRaised _ \<Rightarrow> [])"

definition scanner_names :: "string list" where
  "scanner_names = [''onvif'', ''rtsp'', ''reachability'']"

subsection \<open>Scanners\<close>

definition neighbours_of :: "scan_env \<Rightarrow> lan_interface \<Rightarrow> string list" where
  "neighbours_of env i =
     (if sweep_allowed (lan_network i) then []
      else bounded_interface_addresses i (map fst (read_arp_table (sce_arp_before env))))"

definition probes_rtsp :: "scan_env \<Rightarrow> lan_interface \<Rightarrow> bool" where
  "probes_rtsp env i \<longleftrightarrow> sweep_allowed (lan_network i) \<or> neighbours_of env i \<noteq> []"

definition scan_jobs :: "scan_env \<Rightarrow> lan_interface list \<Rightarrow> scan_job list" where
  "scan_jobs env is =
     concat (map (\<lambda>i. [(''onvif'', i)] @ (if probes_rtsp env i then [(''rtsp'', i)] else []) @ [(''reachability'', i)]) is)"

definition as_text_error :: "scan_error + 'a \<Rightarrow> string + 'a" where
  "as_text_error r = (case r of Inl e \<Rightarrow> Inl (err_text e) | Inr x \<Rightarrow> Inr x)"

definition run_scanner :: "scan_env \<Rightarrow> pydict list \<Rightarrow> scan_job \<Rightarrow> string + pyval list" where
  "run_scanner env known = (\<lambda>(scanner, i).
     let targets = unicast_targets i (neighbours_of env i) in
     if scanner = ''onvif'' then
       (case sce_replies env i targets of
          Inl e \<Rightarrow> Inl e
        | Inr replies \<Rightarrow> map_sum id (map PDict) (as_text_error (discover_onvif (sce_unquote env) replies)))
     else if scanner = ''rtsp'' then
       map_sum id (map PDict) (as_text_error (discover_rtsp_targets (sce_probe env) (sce_probes_done env) targets))
     else Inr (map PStr (discover_reachable_known (sce_ping env) i known)))"

subsection \<open>Booking results\<close>

definition subnet_verdict :: "string list \<Rightarrow> string" where
  "subnet_verdict states =
     (if ''running'' \<in> set states then ''running'' else if ''complete'' \<in> set states then ''complete'' else ''error'')"

definition initial_scanners :: "scan_env \<Rightarrow> lan_interface \<Rightarrow> (string \<times> string) list" where
  "initial_scanners env i =
     [(''onvif'', ''running''), (''rtsp'', if probes_rtsp env i then ''running'' else ''skipped''), (''reachability'', ''running'')]"

definition started :: "scan_env \<Rightarrow> lan_interface list \<Rightarrow> (string \<times> string) list \<Rightarrow> string \<Rightarrow> subnet_state" where
  "started env is route_errors subnet =
     (case map_of (rev (map (\<lambda>i. (network_str (lan_network i), i)) is)) subnet of
        None \<Rightarrow> \<lparr>sns_subnet = subnet, sns_interface = None, sns_status = ''error'', sns_scanners = [], sns_failures = [],
          sns_error = Some (case map_of route_errors subnet of Some e \<Rightarrow> e | None \<Rightarrow> ''No IPv4 route to '' @ subnet)\<rparr>
      | Some i \<Rightarrow> \<lparr>sns_subnet = subnet, sns_interface = Some i, sns_status = ''running'', sns_scanners = initial_scanners env i,
          sns_failures = [], sns_error = None\<rparr>)"

definition outcome_text :: "string + 'a \<Rightarrow> string" where
  "outcome_text r = (case r of Inl _ \<Rightarrow> ''error'' | Inr _ \<Rightarrow> ''complete'')"

definition book_subnet :: "string \<Rightarrow> string + pyval list \<Rightarrow> subnet_state \<Rightarrow> subnet_state" where
  "book_subnet scanner r n =
     (let scanners = AList.update scanner (outcome_text r) (sns_scanners n);
          failures = (case r of Inl e \<Rightarrow> AList.update scanner (take 200 e) (sns_failures n) | Inr _ \<Rightarrow> sns_failures n);
          status = subnet_verdict (map snd scanners)
      in n\<lparr>sns_scanners := scanners, sns_failures := failures, sns_status := status,
           sns_error := (if status = ''error'' then Some (take 200 (py_join ''; '' (map snd failures))) else sns_error n)\<rparr>)"

definition book_result :: "scan_job \<Rightarrow> string + pyval list \<Rightarrow> scan_state \<Rightarrow> scan_state" where
  "book_result = (\<lambda>(scanner, i) r s.
     let subnet = network_str (lan_network i) in
     s\<lparr>scs_networks := map (\<lambda>(k, n). (k, if k = subnet then book_subnet scanner r n else n)) (scs_networks s),
       scs_results := scs_results s @ (case r of Inl _ \<Rightarrow> [] | Inr xs \<Rightarrow> map (Pair scanner) xs),
       scs_failures := scs_failures s @ (case r of Inl e \<Rightarrow> [(scanner, subnet @ '': '' @ take 160 e)] | Inr _ \<Rightarrow> []),
       scs_successes := (case r of Inl _ \<Rightarrow> scs_successes s | Inr _ \<Rightarrow> scanner # scs_successes s)\<rparr>)"

definition run_jobs :: "scan_env \<Rightarrow> pydict list \<Rightarrow> scan_job list \<Rightarrow> scan_state \<Rightarrow> scan_state" where
  "run_jobs env known jobs s = fold (\<lambda>j. book_result j (run_scanner env known j)) jobs s"

definition values_of :: "string \<Rightarrow> (string \<times> 'a) list \<Rightarrow> 'a list" where
  "values_of k xs = map snd (filter (\<lambda>(k', _). k' = k) xs)"

definition scanner_verdict :: "scan_env \<Rightarrow> lan_interface list \<Rightarrow> scan_state \<Rightarrow> string \<Rightarrow> string" where
  "scanner_verdict env is s scanner =
     (if scanner = ''rtsp'' \<and> \<not> list_ex (probes_rtsp env) is then ''skipped''
      else if scanner \<in> set (scs_successes s) then ''complete'' else ''error'')"

definition scan_networks ::
  "scan_env \<Rightarrow> pydict list \<Rightarrow> lan_interface list \<Rightarrow> (string \<times> string) list \<Rightarrow> string list \<Rightarrow> scan_state" where
  "scan_networks env known is route_errors subnets =
     run_jobs env known (sce_completed env (scan_jobs env is))
       \<lparr>scs_networks = map (\<lambda>k. (k, started env is route_errors k)) (remdups subnets),
        scs_results = [], scs_failures = [], scs_successes = []\<rparr>"

subsection \<open>Known devices that answer\<close>

definition confirmed_reachable :: "pydict list \<Rightarrow> (string \<times> string) list \<Rightarrow> string list \<Rightarrow> string list" where
  "confirmed_reachable known arp reached =
     filter (\<lambda>a.
       let device = (case map_of (rev (map (\<lambda>d. (text_of d ''ip'', d)) known)) a of None \<Rightarrow> [] | Some d \<Rightarrow> d);
           expected = py_lower (text_of device ''mac'');
           observed = py_lower (case map_of arp a of None \<Rightarrow> [] | Some m \<Rightarrow> m)
       in expected \<noteq> [] \<and> observed = expected) reached"

subsection \<open>The scan\<close>

definition requested_subnets :: "pyval list \<Rightarrow> scan_error + string list" where
  "requested_subnets vs = map_sum id (map network_str) (normalize_all vs [])"

definition select_for_scan ::
  "scan_env \<Rightarrow> pyval list option \<Rightarrow> scan_stop + string list option \<times> lan_interface list \<times> (string \<times> string) list" where
  "select_for_scan env subnets =
     (let stop = (\<lambda>e. ScanStopped (err_text e) []);
          select = (\<lambda>names. map_sum stop (Pair names)
            (selected_scan_interfaces (sce_routes env) (sce_found env) (sce_primary env) (map_option (map PStr) names)))
      in case subnets of
           None \<Rightarrow> select None
         | Some vs \<Rightarrow>
             (case requested_subnets vs of
                Inl e \<Rightarrow> Inl (stop e)
              | Inr [] \<Rightarrow> Inl (ScanStopped ''Select at least one IPv4 subnet'' [])
              | Inr (n # ns) \<Rightarrow> select (Some (n # ns))))"

definition scan_lan :: "scan_env \<Rightarrow> pydict list \<Rightarrow> pyval list option \<Rightarrow> scan_stop + scan_result" where
  "scan_lan env known subnets =
     (case select_for_scan env subnets of
        Inl e \<Rightarrow> Inl e
      | Inr (names, is, route_errors) \<Rightarrow>
          let order = (case names of None \<Rightarrow> map (\<lambda>i. network_str (lan_network i)) is | Some ns \<Rightarrow> ns) in
          if is = [] then Inl (ScanStopped ''No selected IPv4 subnet is routable'' (map (started env is route_errors) (remdups order)))
          else
            let s = scan_networks env known is route_errors order;
                scanners = map (\<lambda>k. (k, scanner_verdict env is s k)) scanner_names;
                errors = map (\<lambda>(k, _). (k, take 200 (py_join ''; '' (values_of k (scs_failures s)))))
                  (filter (\<lambda>(k, v). v = ''error'') scanners);
                states = map snd (scs_networks s)
            in if scanner_verdict env is s ''onvif'' = ''error'' \<and> scanner_verdict env is s ''rtsp'' \<noteq> ''complete''
               then Inl (ScanStopped ''ONVIF discovery failed and no RTSP sweep completed'' states)
               else
                 let arp = read_arp_table (sce_arp_after env);
                     reachable = confirmed_reachable known arp (map py_str (values_of ''reachability'' (scs_results s)))
                 in case merge_discovery (dict_items (values_of ''onvif'' (scs_results s)))
                           (dict_items (values_of ''rtsp'' (scs_results s))) arp of
                      Inl e \<Rightarrow> Inl (ScanRaised e)
                    | Inr ds \<Rightarrow>
                        Inr \<lparr>scr_network = hd is, scr_networks = states, scr_scanners = scanners, scr_errors = errors,
                          scr_devices = ds, scr_reachable = reachable\<rparr>)"

text \<open>The search for known cameras; \<open>sce_arp_after\<close> is the table it reads.\<close>

definition run_targeted :: "scan_env \<Rightarrow> pydict list \<Rightarrow> lan_interface \<Rightarrow> string + device list" where
  "run_targeted env targets i =
     (if targets = [] then Inr []
      else
        case sce_replies env i (unicast_targets i []) of
          Inl e \<Rightarrow> Inl e
        | Inr replies \<Rightarrow>
            (case discover_onvif (sce_unquote env) replies of
               Inl e \<Rightarrow> Inl (err_text e)
             | Inr onvif \<Rightarrow>
                 as_text_error (discover_targeted (sce_probe env) i onvif (read_arp_table (sce_arp_after env)) targets)))"

definition targeted_failures :: "(lan_interface \<times> (string + device list)) list \<Rightarrow> string list" where
  "targeted_failures rs = concat (map (\<lambda>(i, r). case r of
      Inl e \<Rightarrow> [network_str (lan_network i) @ '': '' @ take 160 e] | Inr _ \<Rightarrow> []) rs)"

definition select_targeted ::
  "scan_env \<Rightarrow> pyval list option \<Rightarrow> scan_stop + lan_interface list \<times> (string \<times> string) list" where
  "select_targeted env subnets =
     (case subnets of
        None \<Rightarrow> map_sum ScanRaised (\<lambda>is. (is, [])) (private_lan_interfaces (sce_routes env) (sce_found env) (sce_primary env))
      | Some vs \<Rightarrow>
          (case requested_subnets vs of
             Inl e \<Rightarrow> Inl (ScanRaised e)
           | Inr [] \<Rightarrow> Inl (ScanStopped ''Select at least one IPv4 subnet'' [])
           | Inr (n # ns) \<Rightarrow>
               (case selected_scan_interfaces (sce_routes env) (sce_found env) (sce_primary env) (Some (map PStr (n # ns))) of
                  Inl e \<Rightarrow> Inl (ScanRaised e)
                | Inr ([], route_errors) \<Rightarrow> Inl (ScanStopped ''No selected IPv4 subnet is routable'' [])
                | Inr (i # is, route_errors) \<Rightarrow> Inr (i # is, route_errors))))"

definition scan_targeted_lan :: "scan_env \<Rightarrow> pydict list \<Rightarrow> pyval list option \<Rightarrow> scan_stop + scan_result" where
  "scan_targeted_lan env targets subnets =
     (case select_targeted env subnets of
        Inl e \<Rightarrow> Inl e
      | Inr (is, route_errors) \<Rightarrow>
          let jobs = map snd (sce_completed env (map (Pair ''recovery'') is));
              rs = map (\<lambda>i. (i, run_targeted env targets i)) jobs;
              devices = deduplicate_targeted_devices (concat (map (\<lambda>(_, r). case r of Inl _ \<Rightarrow> [] | Inr ds \<Rightarrow> ds) rs));
              failures = targeted_failures rs
          in if failures \<noteq> [] \<and> length failures = length is then Inl (ScanStopped ''Recovery failed on every connected LAN'' [])
             else
               let errors = map (\<lambda>(k, e). k @ '': '' @ e) route_errors @ failures in
               Inr \<lparr>scr_network = hd is, scr_networks = [], scr_scanners = [(''recovery'', ''complete'')],
                 scr_errors = (if errors = [] then [] else [(''recovery'', py_join ''; '' errors)]),
                 scr_devices = devices, scr_reachable = []\<rparr>)"

subsection \<open>One address\<close>

definition outside_network :: "lan_interface \<Rightarrow> scan_error" where
  "outside_network i = ScanValueError (''Address must be inside '' @ network_str (lan_network i))"

text \<open>Here a later answer of a device replaces the one before it.\<close>

fun note_explicit ::
  "(string \<Rightarrow> string) \<Rightarrow> string \<Rightarrow> (string \<times> xml option) list \<Rightarrow> (string \<times> pydict) list \<Rightarrow> scan_error + (string \<times> pydict) list"
where
  "note_explicit unquote target [] found = Inr found"
| "note_explicit unquote target ((sender, payload) # replies) found =
     (if sender \<noteq> target then note_explicit unquote target replies found
      else
        case parse_probe_matches unquote payload sender of
          Inl e \<Rightarrow> Inl e
        | Inr ms \<Rightarrow>
            note_explicit unquote target replies
              (fold (\<lambda>m. AList.update (py_str (py_or (dget m ''endpoint_reference'') (dget m ''ip''))) m)
                (filter is_onvif_camera ms) found))"

definition discover_onvif_address :: "scan_env \<Rightarrow> lan_interface \<Rightarrow> ipv4 \<Rightarrow> string + pydict list" where
  "discover_onvif_address env i target =
     (if \<not> in_net target (lan_network i) \<or> target = lan_address i then Inl (err_text (outside_network i))
      else
        case sce_replies env i [ipv4_str target] of
          Inl e \<Rightarrow> Inl e
        | Inr replies \<Rightarrow>
            map_sum err_text (map snd) (note_explicit (sce_unquote env) (ipv4_str target) replies []))"

definition discover_rtsp_address :: "scan_env \<Rightarrow> lan_interface \<Rightarrow> ipv4 \<Rightarrow> string + pydict list" where
  "discover_rtsp_address env i target =
     (if \<not> in_net target (lan_network i) \<or> target = lan_address i then Inl (err_text (outside_network i))
      else
        let endpoints = filter (\<lambda>e. truthy (dget e ''verified'')) (List.map_filter (sce_probe env (ipv4_str target)) rtsp_ports)
        in Inr (if endpoints = [] then [] else [[(''ip'', PStr (ipv4_str target)), (''endpoints'', PList (map PDict endpoints))]]))"

definition part_of :: "string + 'a list \<Rightarrow> 'a list" where
  "part_of r = (case r of Inl _ \<Rightarrow> [] | Inr xs \<Rightarrow> xs)"

definition error_of :: "string \<Rightarrow> string + 'a \<Rightarrow> (string \<times> string) list" where
  "error_of scanner r = (case r of Inl e \<Rightarrow> [(scanner, take 200 e)] | Inr _ \<Rightarrow> [])"

definition scan_explicit_address :: "scan_env \<Rightarrow> string \<Rightarrow> scan_stop + scan_result" where
  "scan_explicit_address env address =
     (case parse_ipv4 address of
        None \<Rightarrow> Inl (ScanRaised (ScanValueError address))
      | Some target \<Rightarrow>
          (case private_lan_interfaces (sce_routes env) (sce_found env) (sce_primary env) of
             Inl e \<Rightarrow> Inl (ScanRaised e)
           | Inr is \<Rightarrow>
               (case (if is_private target then find (\<lambda>i. in_net target (lan_network i) \<and> target \<noteq> lan_address i) is else None) of
                  None \<Rightarrow> Inl (ScanStopped (''Address must be a camera address inside a connected LAN (''
                      @ py_join '', '' (map (\<lambda>i. network_str (lan_network i)) is) @ '')'') [])
                | Some i \<Rightarrow>
                    let onvif = discover_onvif_address env i target; rtsp = discover_rtsp_address env i target in
                    case merge_discovery (part_of onvif) (part_of rtsp) (read_arp_table (sce_arp_after env)) of
                      Inl e \<Rightarrow> Inl (ScanRaised e)
                    | Inr ds \<Rightarrow>
                        Inr \<lparr>scr_network = i, scr_networks = [],
                          scr_scanners = [(''onvif'', outcome_text onvif), (''rtsp'', outcome_text rtsp)],
                          scr_errors = error_of ''onvif'' onvif @ error_of ''rtsp'' rtsp,
                          scr_devices = ds, scr_reachable = []\<rparr>)))"

end
