(* ===== verification/Worker.thy ===== *)
theory Worker
  imports ScanLan Inventory
begin

text \<open>
  The scanner process (camadmiral/scanner_worker.py): it takes a request file, runs the scan that it asks for, folds
  the devices found into the inventory and publishes the outcome. Its files are the state; \<open>None\<close> is a missing or
  unreadable one. The heartbeat, times other than \<open>now\<close> and logs are left out.
\<close>

datatype 'a json_file = NoFile | NotJson | Json 'a

record worker =
  wkr_inventory :: "pydict json_file"
  wkr_state :: "pydict json_file"
  wkr_request :: "pydict json_file"

definition read_or :: "pydict \<Rightarrow> pydict json_file \<Rightarrow> pydict" where
  "read_or d f = (case f of Json x \<Rightarrow> x | _ \<Rightarrow> d)"

definition read_inventory :: "worker \<Rightarrow> pydict" where
  "read_inventory w = read_or [(''devices'', PList [])] (wkr_inventory w)"

subsection \<open>Documents\<close>

definition interface_dict :: "lan_interface \<Rightarrow> pydict" where
  "interface_dict i =
     [(''interface'', PStr (lan_name i)), (''address'', PStr (ipv4_str (lan_address i))),
      (''subnet'', PStr (network_str (lan_network i))), (''hosts'', PInt (int (usable_hosts (lan_network i)))),
      (''source'', PStr (if lan_direct i then ''detected'' else ''custom'')), (''multicast'', PBool (lan_direct i))]"

definition text_dict :: "(string \<times> string) list \<Rightarrow> pyval" where
  "text_dict xs = PDict (map (\<lambda>(k, v). (k, PStr v)) xs)"

definition network_dict :: "subnet_state \<Rightarrow> pydict" where
  "network_dict n =
     (let status = [(''status'', PStr (sns_status n))];
          error = (case sns_error n of None \<Rightarrow> [] | Some e \<Rightarrow> [(''error'', PStr e)]);
          scanners = [(''scanners'', text_dict (sns_scanners n))];
          failures = (if sns_failures n = [] then [] else [(''scanner_errors'', text_dict (sns_failures n))])
      in case sns_interface n of
           None \<Rightarrow> [(''subnet'', PStr (sns_subnet n))] @ status @ error @ scanners
         | Some i \<Rightarrow> interface_dict i @ status @ scanners @ failures @ error)"

definition summary_dict :: "summary \<Rightarrow> pyval" where
  "summary_dict s = PDict
     [(''devices'', PInt (int (sum_devices s))), (''online'', PInt (int (sum_online s))),
      (''offline'', PInt (int (sum_offline s))), (''onvif'', PInt (int (sum_onvif s))), (''rtsp'', PInt (int (sum_rtsp s))),
      (''services_unavailable'', PInt (int (sum_services_unavailable s))), (''conflicts'', PInt (int (sum_conflicts s)))]"

definition dict_list :: "pydict list \<Rightarrow> pyval" where
  "dict_list ds = PList (map PDict ds)"

text \<open>What every scan returns; \<open>scan_lan\<close> adds its networks and the devices that answered.\<close>

definition result_dict :: "string \<Rightarrow> scan_result \<Rightarrow> pydict" where
  "result_dict now r =
     [(''completed_at'', PStr now), (''network'', PDict (interface_dict (scr_network r))),
      (''scanners'', text_dict (scr_scanners r)), (''scanner_errors'', text_dict (scr_errors r)),
      (''devices'', dict_list (scr_devices r))]"

definition lan_result_dict :: "string \<Rightarrow> scan_result \<Rightarrow> pydict" where
  "lan_result_dict now r =
     result_dict now r @ [(''networks'', dict_list (map network_dict (scr_networks r))),
       (''reachable_known'', text_list (scr_reachable r))]"

subsection \<open>Progress\<close>

text \<open>\<open>skipped\<close> is the verdict when every scanner was skipped: it differs between a network and a scanner.\<close>

definition progress_verdict :: "string \<Rightarrow> pyval list \<Rightarrow> string" where
  "progress_verdict skipped states =
     (if PStr ''running'' \<in> set states then ''running''
      else if PStr ''complete'' \<in> set states then ''complete''
      else if states \<noteq> [] \<and> set states \<subseteq> {PStr ''skipped''} then skipped
      else ''error'')"

definition progress_network :: "string \<Rightarrow> string \<Rightarrow> lan_interface \<Rightarrow> pydict \<Rightarrow> pydict" where
  "progress_network scanner state i network =
     (let scanners = dset scanner (PStr state) (dsub network ''scanners'') in
      dset ''status'' (PStr (progress_verdict ''complete'' (map snd scanners))) (dset ''scanners'' (PDict scanners) network))"

fun progress_networks :: "string \<Rightarrow> string \<Rightarrow> lan_interface \<Rightarrow> pydict list \<Rightarrow> pydict list" where
  "progress_networks scanner state i [] =
     [progress_network scanner state i (interface_dict i @ [(''status'', PStr ''queued''), (''scanners'', PDict [])])]"
| "progress_networks scanner state i (n # ns) =
     (if dget n ''subnet'' = PStr (network_str (lan_network i))
      then progress_network scanner state i (dmerge n (interface_dict i)) # ns
      else n # progress_networks scanner state i ns)"

definition progress_scanners :: "pydict list \<Rightarrow> pydict" where
  "progress_scanners networks =
     (let scanners = map (\<lambda>n. dsub n ''scanners'') networks;
          names = remdups (concat (map (map fst) scanners))
      in map (\<lambda>k. (k, PStr (progress_verdict ''skipped'' (List.map_filter (\<lambda>d. map_of d k) scanners)))) names)"

definition scan_progress :: "string \<Rightarrow> string \<Rightarrow> lan_interface \<Rightarrow> pydict json_file \<Rightarrow> pydict json_file" where
  "scan_progress scanner state i f =
     (let current = read_or [] f;
          networks = progress_networks scanner state i (dict_items (dlist current ''networks''))
      in Json (dmerge current
           [(''status'', PStr ''running''), (''phase'', PStr ''scanning''), (''network'', PDict (interface_dict i)),
            (''networks'', dict_list networks), (''scanners'', PDict (progress_scanners networks))]))"

subsection \<open>Requests\<close>

definition requested :: "pydict \<Rightarrow> string list" where
  "requested request = concat (map (\<lambda>v. case v of PStr s \<Rightarrow> [s] | _ \<Rightarrow> []) (dlist request ''subnets''))"

definition asked_subnets :: "pydict \<Rightarrow> pyval list option" where
  "asked_subnets request = (if dhas ''subnets'' request then Some (map PStr (requested request)) else None)"

definition id_text :: "device \<Rightarrow> string" where
  "id_text d = py_str (dget d ''candidate_uuid'')"

definition observed_keys :: "device list \<Rightarrow> string list" where
  "observed_keys ds =
     concat (map (\<lambda>d. if truthy (dget d ''mac'') then [py_lower (text_of d ''mac'')] else []) ds) @
     concat (map (\<lambda>d. if truthy (dget (dsub d ''onvif'') ''endpoint_reference'')
        then [py_lower (text_of (dsub d ''onvif'') ''endpoint_reference'')] else []) ds)"

definition at_address :: "string \<Rightarrow> device list \<Rightarrow> device \<Rightarrow> bool" where
  "at_address address observations d \<longleftrightarrow>
     text_of d ''ip'' = address \<or> py_lower (text_of d ''mac'') \<in> set (observed_keys observations)
     \<or> py_lower (text_of (dsub d ''onvif'') ''endpoint_reference'') \<in> set (observed_keys observations)"

definition without_ids :: "string list \<Rightarrow> device list \<Rightarrow> device list" where
  "without_ids ids ds = filter (\<lambda>d. id_text d \<notin> set ids) ds"

definition with_ids :: "string list \<Rightarrow> device list \<Rightarrow> device list" where
  "with_ids ids ds = filter (\<lambda>d. id_text d \<in> set ids) ds"

definition scan_one_address ::
  "scan_env \<Rightarrow> (nat \<Rightarrow> string) \<Rightarrow> string \<Rightarrow> pydict \<Rightarrow> device list \<Rightarrow> scan_stop + pydict" where
  "scan_one_address env fresh now request previous =
     (let address = text_of request ''address'' in
      case scan_explicit_address env address of
        Inl e \<Rightarrow> Inl e
      | Inr r \<Rightarrow>
          let target_previous = filter (at_address address (scr_devices r)) previous;
              untouched = without_ids (map id_text target_previous) previous;
              updated = reconcile_inventory target_previous (scr_devices r) now [] fresh
          in Inr (dset ''devices'' (dict_list (untouched @ updated)) (result_dict now r)))"

definition target_ids :: "pydict \<Rightarrow> string list" where
  "target_ids request =
     map id_text (filter (\<lambda>d. truthy (dget d ''candidate_uuid'')) (dict_items (dlist request ''targets'')))"

definition scan_for_targets ::
  "scan_env \<Rightarrow> (nat \<Rightarrow> string) \<Rightarrow> string \<Rightarrow> pydict \<Rightarrow> device list \<Rightarrow> scan_stop + pydict" where
  "scan_for_targets env fresh now request previous =
     (let ids = target_ids request in
      case scan_targeted_lan env (dict_items (dlist request ''targets'')) (asked_subnets request) of
        Inl e \<Rightarrow> Inl e
      | Inr r \<Rightarrow>
          let recovered = reconcile_inventory (with_ids ids previous) (scr_devices r) now [] fresh;
              combined = annotate_identity_conflicts (without_ids ids previous @ recovered)
          in Inr (dset ''devices'' (dict_list (sort_key display_key combined)) (result_dict now r)))"

definition scan_whole_lan ::
  "scan_env \<Rightarrow> (nat \<Rightarrow> string) \<Rightarrow> string \<Rightarrow> pydict \<Rightarrow> device list \<Rightarrow> scan_stop + pydict" where
  "scan_whole_lan env fresh now request previous =
     (case scan_lan env previous (asked_subnets request) of
        Inl e \<Rightarrow> Inl e
      | Inr r \<Rightarrow>
          (case (if dhas ''subnets'' request
                 then reconcile_scanned_subnets previous (scr_devices r) now (requested request) (scr_reachable r) fresh
                 else Some (reconcile_inventory previous (scr_devices r) now (scr_reachable r) fresh)) of
             None \<Rightarrow> Inl (ScanRaised (ScanValueError ''subnets''))
           | Some ds \<Rightarrow> Inr (dset ''devices'' (dict_list ds) (lan_result_dict now r))))"

definition scan_for ::
  "scan_env \<Rightarrow> (nat \<Rightarrow> string) \<Rightarrow> string \<Rightarrow> pydict \<Rightarrow> device list \<Rightarrow> scan_stop + pydict" where
  "scan_for env fresh now request previous =
     (if dget request ''mode'' = PStr ''address'' then scan_one_address env fresh now request previous
      else if dget request ''mode'' = PStr ''targeted'' then scan_for_targets env fresh now request previous
      else scan_whole_lan env fresh now request previous)"

subsection \<open>Outcome\<close>

definition queued_networks :: "string \<Rightarrow> pydict \<Rightarrow> pyval" where
  "queued_networks status request =
     dict_list (map (\<lambda>s. [(''subnet'', PStr s), (''status'', PStr status), (''scanners'', PDict [])]) (requested request))"

definition shown_summary :: "pydict \<Rightarrow> device list \<Rightarrow> pyval" where
  "shown_summary inventory previous = py_or (dget inventory ''summary'') (summary_dict (inventory_summary previous))"

definition running_state :: "pydict \<Rightarrow> pydict \<Rightarrow> pydict" where
  "running_state request inventory =
     (let previous = dict_items (dlist inventory ''devices'') in
      [(''status'', PStr ''running''), (''phase'', PStr ''starting''),
       (''scan_id'', PStr (py_str (dget_or request ''scan_id'' (PStr ''unknown'')))),
       (''requested_at'', dget request ''requested_at''), (''inventory_scan_id'', dget inventory ''scan_id''),
       (''devices'', dict_list previous), (''summary'', shown_summary inventory previous),
       (''network'', dget inventory ''network''), (''networks'', queued_networks ''queued'' request),
       (''duration_ms'', dget inventory ''duration_ms''), (''completed_at'', dget inventory ''completed_at''),
       (''raw_log'', dget_or inventory ''raw_log'' (PList []))])"

definition failed_state :: "string \<Rightarrow> pydict \<Rightarrow> pydict \<Rightarrow> scan_stop \<Rightarrow> pydict" where
  "failed_state now request inventory e =
     (let previous = dict_items (dlist inventory ''devices'');
          networks = (if stop_networks e = [] then queued_networks ''error'' request
                      else dict_list (map network_dict (stop_networks e)))
      in [(''status'', PStr ''error''), (''phase'', PStr ''error''),
          (''scan_id'', PStr (py_str (dget_or request ''scan_id'' (PStr ''unknown'')))), (''completed_at'', PStr now),
          (''error'', PStr (take 300 (stop_text e))), (''inventory_scan_id'', dget inventory ''scan_id''),
          (''devices'', dict_list previous), (''summary'', shown_summary inventory previous),
          (''network'', dget inventory ''network''), (''networks'', networks)])"

definition finished_scan :: "pydict \<Rightarrow> pydict \<Rightarrow> pydict" where
  "finished_scan request result =
     (let scan_id = PStr (py_str (dget_or request ''scan_id'' (PStr ''unknown''))) in
      dmerge (dset ''summary'' (summary_dict (inventory_summary (dict_items (dlist result ''devices'')))) result)
        [(''status'', PStr ''complete''), (''phase'', PStr ''complete''), (''scan_id'', scan_id),
         (''inventory_scan_id'', scan_id)])"

definition handle_scan :: "scan_env \<Rightarrow> (nat \<Rightarrow> string) \<Rightarrow> string \<Rightarrow> pydict \<Rightarrow> worker \<Rightarrow> worker" where
  "handle_scan env fresh now request w =
     (let inventory = read_inventory w;
          previous = dict_items (dlist inventory ''devices'');
          w = w\<lparr>wkr_state := Json (running_state request inventory)\<rparr>;
          w = (case scan_for env fresh now request previous of
                 Inr result \<Rightarrow>
                   w\<lparr>wkr_inventory := Json (finished_scan request result), wkr_state := Json (finished_scan request result)\<rparr>
               | Inl e \<Rightarrow> w\<lparr>wkr_state := Json (failed_state now request inventory e)\<rparr>)
      in w\<lparr>wkr_request := NoFile\<rparr>)"

text \<open>\<open>main\<close>: what the process shows when it starts, and one turn of its loop.\<close>

definition start_worker :: "worker \<Rightarrow> worker" where
  "start_worker w =
     (if wkr_state w \<noteq> NoFile then w
      else
        let inventory = read_inventory w in
        if truthy (dget inventory ''devices'')
        then w\<lparr>wkr_state := Json (dmerge inventory [(''status'', PStr ''complete''), (''phase'', PStr ''complete'')])\<rparr>
        else w\<lparr>wkr_state := Json [(''status'', PStr ''idle''), (''phase'', PStr ''idle''), (''devices'', PList [])]\<rparr>)"

definition worker_turn :: "scan_env \<Rightarrow> (nat \<Rightarrow> string) \<Rightarrow> string \<Rightarrow> worker \<Rightarrow> worker" where
  "worker_turn env fresh now w =
     (case wkr_request w of
        NoFile \<Rightarrow> w
      | NotJson \<Rightarrow> w\<lparr>wkr_request := NoFile\<rparr>
      | Json request \<Rightarrow> handle_scan env fresh now request w)"

end
