(* ===== verification/LanProps.thy ===== *)
theory LanProps
  imports Scan
begin

text \<open>
  What bounds a scan: the networks it may choose, the addresses it probes, and that every subnet that was
  asked for is either scanned or reported.
\<close>

subsection \<open>Chosen networks\<close>

lemma first_of_networks_subset: "set (first_of_networks seen is) \<subseteq> set is"
  by (induction seen "is" rule: first_of_networks.induct) auto

lemma private_lans:
  "private_lan_interfaces route_text found primary = Inr is \<Longrightarrow> i \<in> set is \<Longrightarrow> i \<in> set found \<and> eligible i"
  using first_of_networks_subset [of "[]"]
  by (fastforce simp: private_lan_interfaces_def split: sum.splits list.splits)

lemma min_key_in: "xs \<noteq> [] \<Longrightarrow> min_key f xs \<in> set xs"
  unfolding min_key_def by (metis hd_in_set length_0_conv length_sort set_sort)

text \<open>A custom network: asked for, within the private ranges and small enough to be swept.\<close>

definition custom_network :: "ipv4_network \<Rightarrow> bool" where
  "custom_network n \<longleftrightarrow> list_ex (subnet_of n) private_ranges \<and> sweep_allowed n"

definition net_ok :: "ipv4_network \<Rightarrow> bool" where
  "net_ok n \<longleftrightarrow> net_base n < 2 ^ 32 \<and> net_plen n \<le> 32 \<and> net_base n mod net_size (net_plen n) = 0"

lemma parse_octet_le: "parse_octet s = Some n \<Longrightarrow> n \<le> 255"
  by (auto simp: parse_octet_def split: if_splits)

lemma parse_ipv4_range: "parse_ipv4 s = Some a \<Longrightarrow> a < 2 ^ 32"
proof -
  assume a: "parse_ipv4 s = Some a"
  obtain os where os: "map parse_octet (split_char CHR ''.'' s) = os" by simp
  from a obtain w x y z where shape: "os = [Some w, Some x, Some y, Some z]" "a = ((w * 256 + x) * 256 + y) * 256 + z"
    unfolding parse_ipv4_def os by (auto split: list.splits option.splits)
  have "\<forall>v. Some v \<in> set os \<longrightarrow> v \<le> 255" unfolding os [symmetric] by (auto intro: parse_octet_le [OF sym])
  then have "w \<le> 255" "x \<le> 255" "y \<le> 255" "z \<le> 255" unfolding shape by auto
  then show ?thesis unfolding shape by simp
qed

lemma mk_network_ok: "a < 2 ^ 32 \<Longrightarrow> p \<le> 32 \<Longrightarrow> net_ok (mk_network a p)"
  by (auto simp: net_ok_def mk_network_def intro: le_less_trans [OF div_times_less_eq_dividend])

lemma prefix_of_mask_le: "prefix_of_mask m = Some p \<Longrightarrow> p \<le> 32"
  by (auto simp: prefix_of_mask_def find_Some_iff)

lemma parse_prefix_le: "parse_prefix s = Some p \<Longrightarrow> p \<le> 32"
  by (auto simp: parse_prefix_def split: if_splits option.splits dest: prefix_of_mask_le)

lemma parse_network_ok: "parse_network s = Some n \<Longrightarrow> net_ok n"
  by (auto simp: parse_network_def split: list.splits option.splits intro!: mk_network_ok parse_ipv4_range parse_prefix_le)

lemma normalized_ok: "normalize_private_scan_subnet v = Inr n \<Longrightarrow> net_ok n \<and> list_ex (subnet_of n) private_ranges"
  by (auto simp: normalize_private_scan_subnet_def split: pyval.splits option.splits if_splits dest: parse_network_ok)

lemma strip_solid: "list_all (\<lambda>c. \<not> py_space c) s \<Longrightarrow> py_strip s = s"
proof -
  have "list_all (\<lambda>c. \<not> py_space c) s \<Longrightarrow> dropWhile py_space s = s" for s by (cases s) auto
  from this [of s] this [of "rev s"] show "list_all (\<lambda>c. \<not> py_space c) s \<Longrightarrow> py_strip s = s"
    by (simp add: py_strip_def py_lstrip_def py_rstrip_def)
qed

lemma digits_solid: "list_all (\<lambda>c. \<not> py_space c) (nat_digits n)"
  using nat_digits_all [of n] by (auto simp: list_all_iff is_digit_def py_space_def Let_def)

lemma network_str_solid: "list_all (\<lambda>c. \<not> py_space c) (network_str n)"
  using digits_solid
  by (simp add: network_str_def ipv4_str_def octets_def py_join_def del: nat_digits.simps) (simp add: py_space_def)

lemma custom_scan_subnet_str:
  assumes "net_ok n" "custom_scan_subnet (PStr (network_str n)) = Inr n'"
  shows "n' = n \<and> custom_network n"
proof -
  have "parse_network (py_strip (network_str n)) = Some n"
    unfolding strip_solid [OF network_str_solid] using assms(1) by (intro parse_network_str) (simp_all add: net_ok_def)
  then have "normalize_private_scan_subnet (PStr (network_str n)) =
      (if list_ex (subnet_of n) private_ranges then Inr n else Inl (ScanValueError ''Only private IPv4 subnets can be scanned''))"
    by (simp only: normalize_private_scan_subnet_def pyval.case option.case)
  then show ?thesis
    using assms(2) unfolding custom_scan_subnet_def custom_network_def sweep_allowed_def
    by (cases "list_ex (subnet_of n) private_ranges"; cases "max_scan_hosts < usable_hosts n") simp_all
qed

lemma normalize_all_ok:
  "normalize_all vs acc = Inr ns \<Longrightarrow> \<forall>n \<in> set acc. net_ok n \<and> list_ex (subnet_of n) private_ranges \<Longrightarrow>
   \<forall>n \<in> set ns. net_ok n \<and> list_ex (subnet_of n) private_ranges"
proof (induction vs arbitrary: acc)
  case (Cons v vs)
  show ?case
  proof (cases "normalize_private_scan_subnet v")
    case (Inl e)
    then show ?thesis using Cons.prems(1) by simp
  next
    case (Inr n)
    let ?acc = "if n \<in> set acc then acc else acc @ [n]"
    have "normalize_all vs ?acc = Inr ns" using Cons.prems(1) unfolding normalize_all.simps Inr sum.case .
    moreover have "\<forall>n \<in> set ?acc. net_ok n \<and> list_ex (subnet_of n) private_ranges"
      using Cons.prems(2) normalized_ok [OF Inr] by (cases "n \<in> set acc") auto
    ultimately show ?thesis by (rule Cons.IH)
  qed
qed simp

text \<open>An interface that a scan may use.\<close>

definition scannable :: "lan_interface list \<Rightarrow> lan_interface \<Rightarrow> bool" where
  "scannable found i \<longleftrightarrow>
     i \<in> set found \<and> eligible i \<or>
     \<not> lan_direct i \<and> net_ok (lan_network i) \<and> custom_network (lan_network i) \<and>
       (\<exists>j \<in> set found. eligible j \<and> lan_name i = lan_name j \<and> lan_address i = lan_address j)"

lemma routed_interface:
  assumes "routed_scan_interface route_text primary available n = Inr i"
  shows "lan_network i = n \<and> \<not> lan_direct i \<and> (\<exists>j \<in> set available. lan_name i = lan_name j \<and> lan_address i = lan_address j)"
proof -
  obtain name j js where name: "filter (\<lambda>i. lan_name i = name) available = j # js"
    and i: "Inr i = (let source = min_key (\<lambda>j. (Some (lan_address j) \<noteq> primary name, lan_address j)) (j # js) in
      Inr \<lparr>lan_name = lan_name source, lan_address = lan_address source, lan_network = n, lan_direct = False\<rparr> :: scan_error + lan_interface)"
    using assms by (simp add: routed_scan_interface_def split: sum.splits list.splits)
  let ?source = "min_key (\<lambda>j. (Some (lan_address j) \<noteq> primary name, lan_address j)) (j # js)"
  have "?source \<in> set (j # js)" by (rule min_key_in) simp
  then have "?source \<in> set available" using name by (metis filter_is_subset subsetD)
  then show ?thesis using i unfolding Let_def by auto
qed

lemma subnet_interface_ok:
  assumes "subnet_interface route_text primary lans n = Inr i" "net_ok n" "\<forall>j \<in> set lans. j \<in> set found \<and> eligible j"
  shows "scannable found i"
proof (cases "map_of (rev (map (\<lambda>i. (network_str (lan_network i), i)) lans)) (network_str n)")
  case (Some j)
  then have "j \<in> set lans" by (auto dest!: map_of_SomeD)
  then show ?thesis using assms(1,3) Some by (simp add: subnet_interface_def scannable_def)
next
  case None
  then obtain n' where "custom_scan_subnet (PStr (network_str n)) = Inr n'" "routed_scan_interface route_text primary lans n = Inr i"
    using assms(1) by (auto simp: subnet_interface_def split: sum.splits)
  then show ?thesis
    using custom_scan_subnet_str [OF assms(2)] routed_interface [of route_text primary lans n i] assms(2,3)
    by (auto simp: scannable_def)
qed

lemma select_interfaces_ok:
  "select_interfaces route_text primary lans ns = (is, errors) \<Longrightarrow> \<forall>n \<in> set ns. net_ok n \<Longrightarrow>
   \<forall>j \<in> set lans. j \<in> set found \<and> eligible j \<Longrightarrow> i \<in> set is \<Longrightarrow> scannable found i"
proof (induction ns arbitrary: "is" errors)
  case (Cons n ns)
  obtain is' errors' where rest: "select_interfaces route_text primary lans ns = (is', errors')"
    by (cases "select_interfaces route_text primary lans ns")
  show ?case
  proof (cases "subnet_interface route_text primary lans n")
    case (Inl e)
    then show ?thesis using Cons rest by auto
  next
    case (Inr j)
    then have "scannable found j" using subnet_interface_ok Cons.prems by simp
    then show ?thesis using Cons rest Inr by auto
  qed
qed simp

lemma selected_scannable:
  assumes "selected_scan_interfaces route_text found primary subnets = Inr (is, errors)" "i \<in> set is"
  shows "scannable found i"
proof -
  obtain lans where lans: "private_lan_interfaces route_text found primary = Inr lans"
    using assms(1) by (auto simp: selected_scan_interfaces_def split: sum.splits)
  show ?thesis
  proof (cases subnets)
    case None
    then show ?thesis using assms lans private_lans [OF lans] by (simp add: selected_scan_interfaces_def scannable_def)
  next
    case (Some vs)
    then obtain ns where ns: "normalize_all vs [] = Inr ns" "select_interfaces route_text primary lans ns = (is, errors)"
      using assms(1) lans by (auto simp: selected_scan_interfaces_def split: sum.splits)
    then show ?thesis
      using select_interfaces_ok [OF ns(2), of found i] assms(2) normalize_all_ok [OF ns(1)] private_lans [OF lans] by simp
  qed
qed

subsection \<open>Probed addresses\<close>

lemma net_is_mk: "net_ok n \<Longrightarrow> n = mk_network (net_base n) (net_plen n)"
  by (cases n) (auto simp: net_ok_def mk_network_def)

lemma host_in_net:
  assumes "net_ok n" "h \<in> set (host_addresses n)"
  shows "in_net h n"
proof -
  have "net_base n \<le> h \<and> h \<le> broadcast n"
    using assms(2) by (auto simp: host_addresses_def broadcast_def split: if_splits)
  then have "in_net h (mk_network (net_base n) (net_plen n))" unfolding in_net_range using net_is_mk [OF assms(1)] by metis
  then show ?thesis using net_is_mk [OF assms(1)] by metis
qed

lemma host_small: "net_ok n \<Longrightarrow> h \<in> set (host_addresses n) \<Longrightarrow> h < 2 ^ 32"
proof -
  assume n: "net_ok n" and h: "h \<in> set (host_addresses n)"
  let ?s = "net_size (net_plen n)"
  have "?s dvd 2 ^ 32" unfolding net_size_def by (rule le_imp_power_dvd) simp
  then have "net_base n + ?s \<le> 2 ^ 32"
  proof -
    obtain m where m: "2 ^ 32 = ?s * m" using \<open>?s dvd 2 ^ 32\<close> by (rule dvdE)
    obtain k where k: "net_base n = ?s * k" using n by (auto simp: net_ok_def mod_eq_0_iff_dvd elim: dvdE)
    have "?s * k < ?s * m" using n unfolding net_ok_def k m by simp
    then have "Suc k \<le> m" by simp
    then have "?s * Suc k \<le> ?s * m" by (rule mult_le_mono2)
    then show ?thesis unfolding k m by simp
  qed
  then show "h < 2 ^ 32" using h by (auto simp: host_addresses_def num_addresses_def split: if_splits)
qed

lemma host_count: "length (host_addresses n) \<le> max 2 (usable_hosts n)"
proof (cases "31 \<le> net_plen n")
  case True
  have "2 ^ (32 - net_plen n) \<le> (2 :: nat) ^ 1" by (rule power_increasing) (use True in simp_all)
  then show ?thesis using True by (simp add: host_addresses_def num_addresses_def net_size_def)
qed (simp add: host_addresses_def usable_hosts_def)

text \<open>What is probed on an interface: other addresses of its network, at most as many as the limit.\<close>

lemma target_facts:
  assumes "net_ok (lan_network i)" "s \<in> set (unicast_targets i neighbours)"
  shows "\<exists>a. parse_ipv4 s = Some a \<and> in_net a (lan_network i) \<and> a \<noteq> lan_address i"
proof (cases "sweep_allowed (lan_network i)")
  case True
  then obtain a where a: "s = ipv4_str a" "a \<in> set (host_addresses (lan_network i))" "a \<noteq> lan_address i"
    using assms(2) by (auto simp: unicast_targets_def sweep_targets_def)
  then show ?thesis using host_in_net [OF assms(1) a(2)] host_small [OF assms(1) a(2)] by (auto simp: parse_ipv4_str)
next
  case False
  then obtain a t where "s = ipv4_str a" "in_net a (lan_network i)" "a \<noteq> lan_address i" "parse_ipv4 t = Some a"
    using assms(2)
    by (fastforce simp: unicast_targets_def bounded_interface_addresses_def dest!: in_set_takeD split: option.splits if_splits)
  moreover from this have "a < 2 ^ 32" by (auto dest: parse_ipv4_range)
  ultimately show ?thesis by (auto simp: parse_ipv4_str)
qed

lemma private_range_private:
  assumes "net_ok n" "list_ex (subnet_of n) private_ranges" "in_net a n"
  shows "is_private a"
proof -
  obtain r where r: "r \<in> set private_ranges" "subnet_of n r" using assms(2) by (auto simp: list_ex_iff)
  obtain b p where bp: "r = mk_network b p" using r(1) by (auto simp: private_ranges_def)
  have "in_net a r"
    using subnet_of_in_net [of "net_base n" "net_plen n" b p a] net_is_mk [OF assms(1)] r(2) assms(3) bp by metis
  then have sector: "a div 16777216 = 10 \<or> a div 1048576 = 2753 \<or> a div 65536 = 49320"
    using r(1) by (auto simp: private_ranges_def net_size_def)
  then have "list_ex (in_net a) private_networks"
    by (auto simp: private_networks_def net_size_def)
  moreover have "a \<noteq> 3221225481 \<and> a \<noteq> 3221225482" using sector by auto
  then have "\<not> list_ex (in_net a) private_exceptions" by (simp add: private_exceptions_def net_size_def)
  ultimately show ?thesis by (simp add: is_private_def)
qed



subsection \<open>Every subnet is answered\<close>

lemma normalize_all_keeps: "normalize_all vs acc = Inr ns \<Longrightarrow> set acc \<subseteq> set ns"
proof (induction vs arbitrary: acc)
  case (Cons v vs)
  show ?case
  proof (cases "normalize_private_scan_subnet v")
    case (Inr n)
    have "normalize_all vs (if n \<in> set acc then acc else acc @ [n]) = Inr ns"
      using Cons.prems unfolding normalize_all.simps Inr sum.case .
    from Cons.IH [OF this] show ?thesis by (auto split: if_splits)
  qed (use Cons.prems in simp)
qed simp

lemma normalize_all_in: "normalize_all vs acc = Inr ns \<Longrightarrow> v \<in> set vs \<Longrightarrow> \<exists>n. normalize_private_scan_subnet v = Inr n \<and> n \<in> set ns"
proof (induction vs arbitrary: acc)
  case (Cons w vs)
  show ?case
  proof (cases "normalize_private_scan_subnet w")
    case (Inr n)
    let ?acc = "if n \<in> set acc then acc else acc @ [n]"
    have run: "normalize_all vs ?acc = Inr ns" using Cons.prems(1) unfolding normalize_all.simps Inr sum.case .
    have "n \<in> set ?acc" by simp
    then show ?thesis using Cons.IH [OF run] Cons.prems(2) normalize_all_keeps [OF run] Inr by auto
  qed (use Cons.prems in simp)
qed simp

lemma select_interfaces_total:
  assumes "n \<in> set ns" "select_interfaces route_text primary lans ns = (is, errors)"
  shows "(\<exists>i \<in> set is. network_str (lan_network i) = network_str n) \<or> map_of errors (network_str n) \<noteq> None"
  using assms
proof (induction ns arbitrary: "is" errors)
  case (Cons k ns)
  obtain is' errors' where rest: "select_interfaces route_text primary lans ns = (is', errors')"
    by (cases "select_interfaces route_text primary lans ns")
  show ?case
  proof (cases "subnet_interface route_text primary lans k")
    case (Inl e)
    then show ?thesis using Cons rest by (auto split: if_splits)
  next
    case (Inr j)
    have "network_str (lan_network j) = network_str k"
    proof (cases "map_of (rev (map (\<lambda>i. (network_str (lan_network i), i)) lans)) (network_str k)")
      case (Some j')
      then have "network_str (lan_network j') = network_str k" by (auto dest!: map_of_SomeD)
      then show ?thesis using Inr Some by (simp add: subnet_interface_def)
    next
      case None
      then have "routed_scan_interface route_text primary lans k = Inr j"
        using Inr by (auto simp: subnet_interface_def split: sum.splits)
      then show ?thesis using routed_interface by metis
    qed
    then show ?thesis using Cons rest Inr by auto
  qed
qed simp

theorem every_subnet_answered:
  assumes "selected_scan_interfaces route_text found primary (Some vs) = Inr (is, errors)" "v \<in> set vs"
  shows "\<exists>n. normalize_private_scan_subnet v = Inr n \<and>
    ((\<exists>i \<in> set is. network_str (lan_network i) = network_str n) \<or> map_of errors (network_str n) \<noteq> None)"
proof -
  obtain lans ns where "normalize_all vs [] = Inr ns" "select_interfaces route_text primary lans ns = (is, errors)"
    using assms(1) by (auto simp: selected_scan_interfaces_def split: sum.splits)
  then show ?thesis using normalize_all_in [OF _ assms(2)] select_interfaces_total by metis
qed

subsection \<open>Witnesses\<close>

text \<open>A machine with one network.\<close>

definition demo_routes :: string where
  "demo_routes = ''h'' @ [CHR 0x0A] @ ''e 00000000 0 1 0 0 0 00000000''"

definition demo_lan :: lan_interface where
  "demo_lan = \<lparr>lan_name = ''e'', lan_address = 3232235781, lan_network = mk_network 3232235776 24, lan_direct = True\<rparr>"

lemma demo_default: "default_interface_name demo_routes = Inr ''e''"
  by code_simp

lemma demo_eligible: "eligible demo_lan"
  by (simp add: eligible_def demo_lan_def virtual_prefixes_def startswith_def is_private_def private_networks_def
      private_exceptions_def net_size_def is_loopback_def is_link_local_def is_multicast_def is_unspecified_def)

lemma demo_selection: "selected_scan_interfaces demo_routes [demo_lan] (\<lambda>_. None) None = Inr ([demo_lan], [])"
  by (simp add: selected_scan_interfaces_def private_lan_interfaces_def demo_default demo_eligible)



end
