(* ===== verification/ScanLanProps.thy ===== *)
theory ScanLanProps
  imports ScanLan LanProps
begin

text \<open>
  Booking the results of a scan: the state of every network is determined by the outcomes of its own scanners, in
  whatever order they end, and a network with no interface keeps its error.
\<close>

subsection \<open>Networks of a scan are distinct\<close>

lemma network_str_inject: "net_ok m \<Longrightarrow> net_ok n \<Longrightarrow> network_str m = network_str n \<Longrightarrow> m = n"
  by (metis net_ok_def parse_network_str option.inject)

lemma first_of_networks_distinct: "distinct (map lan_network (first_of_networks seen is)) \<and>
    lan_network ` set (first_of_networks seen is) \<inter> set seen = {}"
  by (induction seen "is" rule: first_of_networks.induct) auto

lemma normalize_all_distinct: "normalize_all vs acc = Inr ns \<Longrightarrow> distinct acc \<Longrightarrow> distinct ns"
proof (induction vs arbitrary: acc)
  case (Cons v vs)
  show ?case
  proof (cases "normalize_private_scan_subnet v")
    case (Inr n)
    have "normalize_all vs (if n \<in> set acc then acc else acc @ [n]) = Inr ns"
      using Cons.prems(1) unfolding normalize_all.simps Inr sum.case .
    from Cons.IH [OF this] show ?thesis using Cons.prems(2) by simp
  qed (use Cons.prems in simp)
qed simp

lemma subnet_interface_str: "subnet_interface route_text primary lans n = Inr i \<Longrightarrow> network_str (lan_network i) = network_str n"
proof (cases "map_of (rev (map (\<lambda>i. (network_str (lan_network i), i)) lans)) (network_str n)")
  case (Some j)
  assume "subnet_interface route_text primary lans n = Inr i"
  then show ?thesis using Some by (auto simp: subnet_interface_def dest!: map_of_SomeD)
next
  case None
  assume "subnet_interface route_text primary lans n = Inr i"
  then have "routed_scan_interface route_text primary lans n = Inr i"
    using None by (auto simp: subnet_interface_def split: sum.splits)
  then show ?thesis using routed_interface by metis
qed

lemma select_interfaces_strs:
  "select_interfaces route_text primary lans ns = (is, errors) \<Longrightarrow> distinct (map network_str ns) \<Longrightarrow>
   distinct (map (\<lambda>i. network_str (lan_network i)) is) \<and> (\<lambda>i. network_str (lan_network i)) ` set is \<subseteq> network_str ` set ns"
proof (induction ns arbitrary: "is" errors)
  case (Cons n ns)
  obtain is' errors' where rest: "select_interfaces route_text primary lans ns = (is', errors')"
    by (cases "select_interfaces route_text primary lans ns")
  have IH: "distinct (map (\<lambda>i. network_str (lan_network i)) is')"
    "(\<lambda>i. network_str (lan_network i)) ` set is' \<subseteq> network_str ` set ns"
    using Cons.IH [OF rest] Cons.prems(2) by auto
  show ?case
  proof (cases "subnet_interface route_text primary lans n")
    case (Inl e)
    then show ?thesis using Cons.prems rest IH by auto
  next
    case (Inr i)
    then have "is = i # is'" using Cons.prems(1) rest by simp
    then show ?thesis using subnet_interface_str [OF Inr] Cons.prems(2) IH by auto
  qed
qed simp

definition found_ok :: "scan_env \<Rightarrow> bool" where
  "found_ok env \<longleftrightarrow> list_all (\<lambda>i. net_ok (lan_network i)) (sce_found env)"

lemma private_lans_distinct:
  assumes "found_ok env" "private_lan_interfaces route_text (sce_found env) primary = Inr is"
  shows "distinct (map (\<lambda>i. network_str (lan_network i)) is)"
proof -
  obtain name where "is = first_of_networks [] (sort_key (lan_order name (primary name)) (filter eligible (sce_found env)))"
    using assms(2) by (auto simp: private_lan_interfaces_def split: sum.splits list.splits)
  then have "distinct (map lan_network is)" using first_of_networks_distinct by metis
  moreover have "i \<in> set is \<Longrightarrow> net_ok (lan_network i)" for i
    using private_lans [OF assms(2)] assms(1) by (auto simp: found_ok_def list_all_iff)
  ultimately show ?thesis
    by (auto simp: distinct_map inj_on_def dest!: network_str_inject)
qed

lemma normalized_strs:
  assumes "normalize_all vs [] = Inr ns"
  shows "distinct (map network_str ns)"
  using normalize_all_distinct [OF assms] normalize_all_ok [OF assms]
  by (auto simp: distinct_map intro!: inj_onI intro: network_str_inject)

lemma select_for_scan_strs:
  assumes "found_ok env" "select_for_scan env subnets = Inr (names, is, route_errors)"
  shows "distinct (map (\<lambda>i. network_str (lan_network i)) is)"
proof -
  have sel: "selected_scan_interfaces (sce_routes env) (sce_found env) (sce_primary env) (map_option (map PStr) names) = Inr (is, route_errors)"
    using assms(2)
    by (cases subnets; simp add: select_for_scan_def Let_def split: sum.splits list.splits)
       (auto simp: map_sum_def split: sum.splits)
  obtain lans where lans: "private_lan_interfaces (sce_routes env) (sce_found env) (sce_primary env) = Inr lans"
    using sel by (auto simp: selected_scan_interfaces_def split: sum.splits)
  show ?thesis
  proof (cases names)
    case None
    then show ?thesis using sel lans private_lans_distinct [OF assms(1) lans] by (simp add: selected_scan_interfaces_def)
  next
    case (Some vs)
    then obtain ns where ns: "normalize_all (map PStr vs) [] = Inr ns"
      "select_interfaces (sce_routes env) (sce_primary env) lans ns = (is, route_errors)"
      using sel lans by (auto simp: selected_scan_interfaces_def split: sum.splits)
    then show ?thesis using select_interfaces_strs [OF ns(2) normalized_strs [OF ns(1)]] by simp
  qed
qed


subsection \<open>Booking\<close>

definition job_subnet :: "scan_job \<Rightarrow> string" where
  "job_subnet j = network_str (lan_network (snd j))"

lemma update_present:
  "k \<in> fst ` set xs \<Longrightarrow> distinct (map fst xs) \<Longrightarrow> AList.update k v xs = map (\<lambda>(k', w). (k', if k' = k then v else w)) xs"
proof (induction xs)
  case (Cons x xs)
  obtain k' w where x: "x = (k', w)" by (cases x)
  show ?case
  proof (cases "k' = k")
    case True
    then have "k \<notin> fst ` set xs" using Cons.prems(2) x by auto
    then have "map (\<lambda>(k', w). (k', if k' = k then v else w)) xs = xs" by (intro map_idI) (auto simp: image_iff)
    then show ?thesis using True x by simp
  qed (use Cons x in auto)
qed simp

text \<open>What the jobs of one network do to its state.\<close>

definition book_jobs :: "scan_env \<Rightarrow> pydict list \<Rightarrow> scan_job list \<Rightarrow> subnet_state \<Rightarrow> subnet_state" where
  "book_jobs env known jobs n = fold (\<lambda>j. book_subnet (fst j) (run_scanner env known j)) jobs n"

lemma run_jobs_networks:
  "scs_networks (run_jobs env known jobs s) =
   map (\<lambda>(k, n). (k, book_jobs env known (filter (\<lambda>j. job_subnet j = k) jobs) n)) (scs_networks s)"
proof (induction jobs arbitrary: s)
  case Nil
  show ?case by (simp add: run_jobs_def book_jobs_def)
next
  case (Cons j jobs)
  let ?s = "book_result j (run_scanner env known j) s"
  have "run_jobs env known (j # jobs) s = run_jobs env known jobs ?s" by (simp add: run_jobs_def)
  moreover have "scs_networks ?s = map (\<lambda>(k, n). (k, if k = job_subnet j then book_subnet (fst j) (run_scanner env known j) n else n))
      (scs_networks s)"
    by (simp add: book_result_def job_subnet_def Let_def split: prod.splits)
  ultimately show ?case using Cons.IH [of ?s] by (auto simp: book_jobs_def)
qed

lemma book_jobs_scanners:
  assumes "distinct (map fst (sns_scanners n))" "fst ` set jobs \<subseteq> fst ` set (sns_scanners n)" "snd ` set jobs \<subseteq> {i}"
  shows "sns_scanners (book_jobs env known jobs n) =
    map (\<lambda>(k, v). (k, if (k, i) \<in> set jobs then outcome_text (run_scanner env known (k, i)) else v)) (sns_scanners n)"
  using assms
proof (induction jobs arbitrary: n)
  case Nil
  show ?case by (simp add: book_jobs_def)
next
  case (Cons j jobs)
  let ?n = "book_subnet (fst j) (run_scanner env known j) n"
  obtain k where j: "j = (k, i)" using Cons.prems(3) by (cases j) simp
  have upd: "sns_scanners ?n = map (\<lambda>(k', w). (k', if k' = k then outcome_text (run_scanner env known (k, i)) else w)) (sns_scanners n)"
    using Cons.prems j update_present [of k "sns_scanners n"] by (simp add: book_subnet_def Let_def)
  then have keys: "map fst (sns_scanners ?n) = map fst (sns_scanners n)" by (simp add: case_prod_beta)
  then have "fst ` set (sns_scanners ?n) = fst ` set (sns_scanners n)" by (metis list.set_map)
  then have "sns_scanners (book_jobs env known jobs ?n) =
      map (\<lambda>(k, v). (k, if (k, i) \<in> set jobs then outcome_text (run_scanner env known (k, i)) else v)) (sns_scanners ?n)"
    using Cons.prems by (intro Cons.IH) (simp_all only: keys, auto)
  moreover have "book_jobs env known (j # jobs) n = book_jobs env known jobs ?n" by (simp add: book_jobs_def)
  ultimately show ?case using upd unfolding j by (auto simp: case_prod_beta)
qed

lemma book_jobs_status:
  "sns_status n = subnet_verdict (map snd (sns_scanners n)) \<Longrightarrow>
   sns_status (book_jobs env known jobs n) = subnet_verdict (map snd (sns_scanners (book_jobs env known jobs n)))"
proof (induction jobs arbitrary: n)
  case (Cons j jobs)
  have "book_jobs env known (j # jobs) n = book_jobs env known jobs (book_subnet (fst j) (run_scanner env known j) n)"
    by (simp add: book_jobs_def)
  then show ?case using Cons.IH [of "book_subnet (fst j) (run_scanner env known j) n"] by (simp add: book_subnet_def Let_def)
qed (simp add: book_jobs_def)

lemma book_jobs_same:
  "sns_subnet (book_jobs env known jobs n) = sns_subnet n \<and> sns_interface (book_jobs env known jobs n) = sns_interface n"
proof (induction jobs arbitrary: n)
  case (Cons j jobs)
  then show ?case by (simp add: book_jobs_def book_subnet_def Let_def)
qed (simp add: book_jobs_def)

text \<open>What the state of a network must be at the end, read off the outcomes of its scanners.\<close>

definition final_scanners :: "scan_env \<Rightarrow> pydict list \<Rightarrow> lan_interface \<Rightarrow> (string \<times> string) list" where
  "final_scanners env known i =
     map (\<lambda>k. (k, if k = ''rtsp'' \<and> \<not> probes_rtsp env i then ''skipped'' else outcome_text (run_scanner env known (k, i))))
       scanner_names"

definition final_status :: "scan_env \<Rightarrow> pydict list \<Rightarrow> lan_interface \<Rightarrow> string" where
  "final_status env known i =
     (if ''complete'' \<in> snd ` set (final_scanners env known i) then ''complete'' else ''error'')"

lemma outcome_not_running: "outcome_text r \<noteq> ''running''"
  by (simp add: outcome_text_def split: sum.splits)

lemma booked_network:
  assumes "set jobs = {(k, i) | k. k \<in> set scanner_names \<and> (k = ''rtsp'' \<longrightarrow> probes_rtsp env i)}"
    "sns_scanners n = initial_scanners env i" "sns_status n = ''running''"
  shows "sns_scanners (book_jobs env known jobs n) = final_scanners env known i \<and>
    sns_status (book_jobs env known jobs n) = final_status env known i"
proof -
  have start: "sns_status n = subnet_verdict (map snd (sns_scanners n))"
    unfolding assms(2,3) by (simp add: initial_scanners_def subnet_verdict_def)
  have scanners: "sns_scanners (book_jobs env known jobs n) = final_scanners env known i"
    unfolding book_jobs_scanners [of n jobs i env known, unfolded assms(1,2)]
    by (subst book_jobs_scanners [of n jobs i])
       (auto simp: assms(1,2) initial_scanners_def final_scanners_def scanner_names_def)
  have "''running'' \<notin> set (map snd (final_scanners env known i))"
    using outcome_not_running [symmetric] by (auto simp: final_scanners_def scanner_names_def)
  then show ?thesis
    using book_jobs_status [OF start, of env known jobs] unfolding scanners subnet_verdict_def final_status_def by simp
qed


subsection \<open>The whole scan\<close>

lemma scan_jobs_set:
  "set (scan_jobs env is) = {(k, i) | k i. i \<in> set is \<and> k \<in> set scanner_names \<and> (k = ''rtsp'' \<longrightarrow> probes_rtsp env i)}"
  by (auto simp: scan_jobs_def scanner_names_def)

lemma jobs_of_network:
  assumes "distinct (map (\<lambda>i. network_str (lan_network i)) is)" "i \<in> set is" "set jobs = set (scan_jobs env is)"
  shows "set (filter (\<lambda>j. job_subnet j = network_str (lan_network i)) jobs) =
    {(k, i) | k. k \<in> set scanner_names \<and> (k = ''rtsp'' \<longrightarrow> probes_rtsp env i)}"
proof -
  have unique: "j \<in> set is \<and> network_str (lan_network j) = network_str (lan_network i) \<longleftrightarrow> j = i" for j
    using assms(1,2) by (auto simp: distinct_map inj_on_def)
  have "set (filter (\<lambda>j. job_subnet j = network_str (lan_network i)) jobs) =
      {(k, j) | k j. (j \<in> set is \<and> network_str (lan_network j) = network_str (lan_network i)) \<and>
        k \<in> set scanner_names \<and> (k = ''rtsp'' \<longrightarrow> probes_rtsp env j)}"
    unfolding set_filter assms(3) scan_jobs_set job_subnet_def by auto
  then show ?thesis unfolding unique by blast
qed

lemma started_cases:
  obtains (missing) "sns_interface (started env is route_errors k) = None" "sns_status (started env is route_errors k) = ''error''"
      "sns_scanners (started env is route_errors k) = []" "k \<notin> (\<lambda>i. network_str (lan_network i)) ` set is"
  | (present) i where "i \<in> set is" "network_str (lan_network i) = k" "sns_interface (started env is route_errors k) = Some i"
      "sns_status (started env is route_errors k) = ''running''"
      "sns_scanners (started env is route_errors k) = initial_scanners env i"
proof (cases "map_of (rev (map (\<lambda>i. (network_str (lan_network i), i)) is)) k")
  case None
  then have "k \<notin> (\<lambda>i. network_str (lan_network i)) ` set is" by (auto simp: map_of_eq_None_iff image_image)
  then show ?thesis using None by (intro missing) (simp_all add: started_def)
next
  case (Some i)
  then have "i \<in> set is" "network_str (lan_network i) = k" by (auto dest!: map_of_SomeD)
  then show ?thesis using Some by (intro present) (simp_all add: started_def)
qed

definition settled :: "scan_env \<Rightarrow> pydict list \<Rightarrow> subnet_state \<Rightarrow> bool" where
  "settled env known n \<longleftrightarrow>
     (case sns_interface n of
        None \<Rightarrow> sns_scanners n = [] \<and> sns_status n = ''error''
      | Some i \<Rightarrow> sns_scanners n = final_scanners env known i \<and> sns_status n = final_status env known i)"

lemma scan_networks_settled:
  assumes "distinct (map (\<lambda>i. network_str (lan_network i)) is)" "\<forall>js. set (sce_completed env js) = set js"
    "(k, n) \<in> set (scs_networks (scan_networks env known is route_errors order))"
  shows "settled env known n"
proof -
  let ?jobs = "sce_completed env (scan_jobs env is)"
  let ?js = "filter (\<lambda>j. job_subnet j = k) ?jobs"
  have n: "n = book_jobs env known ?js (started env is route_errors k)"
    using assms(3) by (auto simp: scan_networks_def run_jobs_networks)
  show ?thesis
  proof (cases rule: started_cases [of env "is" route_errors k])
    case missing
    have "?js = []" using missing(4) assms(2) by (auto simp: filter_empty_conv scan_jobs_set job_subnet_def)
    then have "n = started env is route_errors k" unfolding n book_jobs_def by simp
    then show ?thesis using missing by (simp add: settled_def)
  next
    case (present i)
    have "set ?js = {(k, i) | k. k \<in> set scanner_names \<and> (k = ''rtsp'' \<longrightarrow> probes_rtsp env i)}"
      using jobs_of_network [OF assms(1) present(1), of ?jobs env] assms(2) present(2) by simp
    from booked_network [OF this present(5,4)] show ?thesis
      using book_jobs_same present(3) unfolding n settled_def by simp
  qed
qed

lemma scan_lan_cases:
  assumes "scan_lan env known subnets = Inr r"
  obtains names "is" route_errors order where "select_for_scan env subnets = Inr (names, is, route_errors)"
    "scr_networks r = map snd (scs_networks (scan_networks env known is route_errors order))"
proof -
  obtain names "is" route_errors where sel: "select_for_scan env subnets = Inr (names, is, route_errors)"
    using assms by (auto simp: scan_lan_def split: sum.splits)
  show thesis
    using that [OF sel] assms unfolding scan_lan_def sel by (auto simp: Let_def split: if_splits sum.splits)
qed


text \<open>A machine with one network, on which nothing answers.\<close>

definition demo_scan :: scan_env where
  "demo_scan = \<lparr>sce_routes = demo_routes, sce_found = [demo_lan], sce_primary = (\<lambda>_. None), sce_arp_before = None,
     sce_arp_after = None, sce_replies = (\<lambda>_ _. Inr []), sce_probe = (\<lambda>_ _. None), sce_ping = (\<lambda>_. False),
     sce_unquote = (\<lambda>s. s), sce_probes_done = (\<lambda>js. js), sce_completed = rev\<rparr>"


lemma demo_sweeps: "sweep_allowed (lan_network demo_lan)"
  by (simp add: demo_lan_def sweep_allowed_def usable_hosts_def num_addresses_def net_size_def mk_network_def max_scan_hosts_def)

lemma concat_nothing: "concat (map (\<lambda>(a, p). []) js) = []"
  by (induction js) auto

lemma silent_ports: "discover_rtsp_targets (\<lambda>_ _. None) (\<lambda>js. js) targets = Inr []"
  by (simp add: discover_rtsp_targets_def concat_nothing sort_by_ip_def)

lemma demo_scanners:
  "run_scanner demo_scan [] (''onvif'', demo_lan) = Inr []"
  "run_scanner demo_scan [] (''rtsp'', demo_lan) = Inr []"
  "run_scanner demo_scan [] (''reachability'', demo_lan) = Inr []"
  by (simp_all add: run_scanner_def demo_scan_def silent_ports discover_onvif_def sort_by_ip_def as_text_error_def
      discover_reachable_known_def reachable_targets_def)

lemma demo_networks:
  "scan_networks demo_scan [] [demo_lan] [] [network_str (lan_network demo_lan)] =
   \<lparr>scs_networks = [(network_str (lan_network demo_lan), \<lparr>sns_subnet = network_str (lan_network demo_lan),
      sns_interface = Some demo_lan, sns_status = ''complete'',
      sns_scanners = [(''onvif'', ''complete''), (''rtsp'', ''complete''), (''reachability'', ''complete'')],
      sns_failures = [], sns_error = None\<rparr>)],
    scs_results = [], scs_failures = [], scs_successes = [''onvif'', ''rtsp'', ''reachability'']\<rparr>"
proof -
  have jobs: "sce_completed demo_scan (scan_jobs demo_scan [demo_lan]) =
      [(''reachability'', demo_lan), (''rtsp'', demo_lan), (''onvif'', demo_lan)]"
    by (simp add: scan_jobs_def probes_rtsp_def demo_sweeps) (simp add: demo_scan_def)
  show ?thesis
    unfolding scan_networks_def jobs
    by (simp add: run_jobs_def demo_scanners book_result_def book_subnet_def outcome_text_def subnet_verdict_def started_def
        initial_scanners_def probes_rtsp_def demo_sweeps Let_def del: nat_digits.simps)
qed

lemma string_neq: "(''complete'' = ''error'') = False" "([demo_lan] = []) = False"
  by simp_all

definition demo_booked :: scan_state where
  "demo_booked = scan_networks demo_scan [] [demo_lan] [] [network_str (lan_network demo_lan)]"

lemma demo_verdict:
  "scanner_verdict demo_scan [demo_lan] demo_booked ''onvif'' = ''complete''"
  "scanner_verdict demo_scan [demo_lan] demo_booked ''rtsp'' = ''complete''"
  "scanner_verdict demo_scan [demo_lan] demo_booked ''reachability'' = ''complete''"
  by (simp_all add: scanner_verdict_def demo_booked_def demo_networks probes_rtsp_def demo_sweeps)

lemma demo_scan_result: "\<exists>r. scan_lan demo_scan [] None = Inr r \<and> scr_networks r = map snd (scs_networks demo_booked)"
proof -
  have sel: "select_for_scan demo_scan None = Inr (None, [demo_lan], [])"
    using demo_selection by (simp add: select_for_scan_def demo_scan_def)
  have results: "scs_results demo_booked = []" by (simp add: demo_booked_def demo_networks)
  have merge: "merge_discovery [] [] arp = Inr []" for arp by (simp add: merge_discovery_def sort_by_ip_def)
  have empty: "dict_items (values_of k []) = []" for k by (simp add: values_of_def dict_items_def)
  show ?thesis
    unfolding scan_lan_def sel sum.case prod.case option.case list.map(1,2) demo_booked_def [symmetric] Let_def
      demo_verdict results empty merge
    by (simp only: scanner_names_def list.map Let_def demo_verdict list.distinct char.inject if_False
        string_neq simp_thms) (intro exI conjI, rule refl, rule scan_result.select_convs(2))
qed

lemma demo_found: "found_ok demo_scan" "\<forall>js. set (sce_completed demo_scan js) = set js"
  by (simp_all add: found_ok_def demo_scan_def demo_lan_def mk_network_ok)


end
