(* ===== verification/WorkerProps.thy ===== *)
theory WorkerProps
  imports Worker ScanLanProps
begin

text \<open>
  The scanner process never loses a known device and never publishes a half-done scan.
\<close>

subsection \<open>Known devices\<close>

definition known_ids :: "device list \<Rightarrow> bool" where
  "known_ids ds \<longleftrightarrow> list_all (\<lambda>d. \<exists>u. dget d ''candidate_uuid'' = PStr u \<and> u \<noteq> []) ds"

lemma known_truthy: "known_ids ds \<Longrightarrow> d \<in> set ds \<Longrightarrow> truthy (uuid_of d) \<and> uuid_of d = PStr (id_text d)"
  by (auto simp: known_ids_def list_all_iff uuid_of_def id_text_def)

lemma id_text_uuid: "id_text d = py_str (uuid_of d)"
  by (simp add: id_text_def uuid_of_def)

lemma known_filter: "known_ids ds \<Longrightarrow> known_ids (filter P ds)"
  by (auto simp: known_ids_def list_all_iff)

lemma reconcile_keeps_ids:
  assumes "known_ids ds"
  shows "id_text ` set ds \<subseteq> id_text ` set (reconcile_inventory ds current now reachable fresh)"
proof
  fix u
  assume "u \<in> id_text ` set ds"
  then obtain d where d: "d \<in> set ds" "u = id_text d" by auto
  then obtain r where "r \<in> set (reconcile_inventory ds current now reachable fresh)" "uuid_of r = uuid_of d"
    using reconcile_keeps_candidates known_truthy [OF assms] by metis
  then show "u \<in> id_text ` set (reconcile_inventory ds current now reachable fresh)"
    unfolding d(2) id_text_uuid by (metis imageI id_text_uuid)
qed

lemma annotate_ids: "id_text ` set (annotate_identity_conflicts ds) = id_text ` set ds"
proof -
  have "map id_text (annotate_identity_conflicts ds) = map id_text ds"
    by (rule map_annotate) (simp add: id_text_def)
  then show ?thesis by (metis list.set_map)
qed

lemma split_ids: "id_text ` set (without_ids ids ds) \<union> id_text ` set (with_ids ids ds) = id_text ` set ds"
  by (auto simp: without_ids_def with_ids_def)

lemma replaced_ids:
  "id_text ` set target \<subseteq> A \<Longrightarrow> id_text ` set ds \<subseteq> id_text ` set (without_ids (map id_text target) ds) \<union> A"
  by (auto simp: without_ids_def)

lemma subnets_keep_ids:
  assumes "known_ids ds" "reconcile_scanned_subnets ds current now subnets reachable fresh = Some out"
  shows "id_text ` set ds \<subseteq> id_text ` set out"
proof -
  obtain networks where networks: "parse_networks subnets = Some networks"
    using assms(2) by (auto simp: reconcile_scanned_subnets_def split: option.splits)
  define P where "P = targeted_device networks (concat (map stable_keys current))"
  have out: "out = sort_key display_key (annotate_identity_conflicts
      (filter (\<lambda>d. \<not> P d) ds @ reconcile_inventory (filter P ds) current now reachable fresh))"
    using assms(2) unfolding reconcile_scanned_subnets_def networks option.case Let_def P_def by simp
  have "id_text ` set (filter P ds) \<subseteq> id_text ` set (reconcile_inventory (filter P ds) current now reachable fresh)"
    using reconcile_keeps_ids [OF known_filter [OF assms(1)]] .
  then show ?thesis unfolding out set_sort annotate_ids by auto
qed

definition result_devices :: "pydict \<Rightarrow> device list" where
  "result_devices d = dict_items (dlist d ''devices'')"

lemma dict_items_map: "dict_items (map PDict ds) = ds"
  by (induction ds) (auto simp: dict_items_def)

lemma result_devices_set: "result_devices (dset ''devices'' (dict_list ds) d) = ds"
  by (simp add: result_devices_def dlist_def dict_list_def dict_items_map)

lemma scan_keeps_ids:
  assumes "known_ids previous" "scan_for env fresh now request previous = Inr result"
  shows "id_text ` set previous \<subseteq> id_text ` set (result_devices result)"
proof -
  consider (address) "scan_one_address env fresh now request previous = Inr result"
    | (targeted) "scan_for_targets env fresh now request previous = Inr result"
    | (lan) "scan_whole_lan env fresh now request previous = Inr result"
    using assms(2) by (auto simp: scan_for_def split: if_splits)
  then show ?thesis
  proof cases
    case address
    then obtain r where r: "result = dset ''devices'' (dict_list
        (without_ids (map id_text (filter (at_address (text_of request ''address'') (scr_devices r)) previous)) previous @
         reconcile_inventory (filter (at_address (text_of request ''address'') (scr_devices r)) previous) (scr_devices r) now [] fresh))
        (result_dict now r)"
      by (auto simp: scan_one_address_def Let_def split: sum.splits)
    show ?thesis
      unfolding r result_devices_set set_append image_Un
      by (rule replaced_ids [OF reconcile_keeps_ids [OF known_filter [OF assms(1)]]])
  next
    case targeted
    then obtain r where r: "result = dset ''devices'' (dict_list (sort_key display_key (annotate_identity_conflicts
        (without_ids (target_ids request) previous @
         reconcile_inventory (with_ids (target_ids request) previous) (scr_devices r) now [] fresh)))) (result_dict now r)"
      by (auto simp: scan_for_targets_def Let_def split: sum.splits)
    have "known_ids (with_ids (target_ids request) previous)" unfolding with_ids_def by (rule known_filter [OF assms(1)])
    from reconcile_keeps_ids [OF this] show ?thesis
      unfolding r result_devices_set set_sort annotate_ids set_append image_Un split_ids [of "target_ids request" previous, symmetric]
      by blast
  next
    case lan
    then obtain r ds where "result = dset ''devices'' (dict_list ds) (lan_result_dict now r)"
      "(if dhas ''subnets'' request
        then reconcile_scanned_subnets previous (scr_devices r) now (requested request) (scr_reachable r) fresh
        else Some (reconcile_inventory previous (scr_devices r) now (scr_reachable r) fresh)) = Some ds"
      by (auto simp: scan_whole_lan_def split: sum.splits option.splits)
    moreover from this(2) have "id_text ` set previous \<subseteq> id_text ` set ds"
      using subnets_keep_ids [OF assms(1)] reconcile_keeps_ids [OF assms(1)]
      by (cases "dhas ''subnets'' request") (simp_all only: if_True if_False option.inject, blast+)
    ultimately show ?thesis by (simp add: result_devices_set)
  qed
qed

subsection \<open>Publishing\<close>

text \<open>
  C9: A scan request is always consumed and never loses a known device: when the scan fails the inventory is exactly
  the one before and the published state still shows its devices; when it completes, every device of the inventory
  before is still there under its UUID, and the published state is the new inventory.
\<close>

theorem scan_keeps_inventory:
  assumes "known_ids (result_devices (read_inventory w))" "w' = handle_scan env fresh now request w"
  shows "wkr_request w' = NoFile \<and>
    (\<exists>state. wkr_state w' = Json state \<and>
      (dget state ''status'' = PStr ''error'' \<and> wkr_inventory w' = wkr_inventory w \<and>
         result_devices state = result_devices (read_inventory w) \<or>
       dget state ''status'' = PStr ''complete'' \<and> wkr_inventory w' = Json state \<and>
         id_text ` set (result_devices (read_inventory w)) \<subseteq> id_text ` set (result_devices state)))"
proof (cases "scan_for env fresh now request (result_devices (read_inventory w))")
  case (Inl e)
  then show ?thesis
    unfolding assms(2) handle_scan_def Let_def result_devices_def
    by (simp add: failed_state_def dget_def Let_def dlist_def dict_list_def dict_items_map)
next
  case (Inr result)
  have "result_devices (finished_scan request result) = result_devices result"
    by (simp add: finished_scan_def result_devices_def dlist_def Let_def)
  moreover have "dget (finished_scan request result) ''status'' = PStr ''complete''"
    by (simp add: finished_scan_def Let_def)
  ultimately show ?thesis
    using scan_keeps_ids [OF assms(1) Inr] Inr
    unfolding assms(2) handle_scan_def Let_def result_devices_def by simp
qed


subsection \<open>Witness\<close>

definition demo_worker :: worker where
  "demo_worker = \<lparr>wkr_inventory = Json [(''devices'', PList [PDict [(''candidate_uuid'', PStr ''a''), (''ip'', PStr ''x'')]])],
     wkr_state = NoFile, wkr_request = NoFile\<rparr>"

theorem scan_keeps_inventory_witness:
  "\<exists>state. wkr_state (handle_scan demo_scan (\<lambda>_. ''u'') ''t'' [(''mode'', PStr ''address'')] demo_worker) = Json state \<and>
     ''a'' \<in> id_text ` set (result_devices state)"
proof -
  have devices: "result_devices (read_inventory demo_worker) = [[(''candidate_uuid'', PStr ''a''), (''ip'', PStr ''x'')]]"
    by (simp add: demo_worker_def read_inventory_def read_or_def result_devices_def dlist_def dget_def dict_items_def)
  then have "known_ids (result_devices (read_inventory demo_worker))" by (simp add: known_ids_def dget_def)
  moreover have "''a'' \<in> id_text ` set (result_devices (read_inventory demo_worker))"
    unfolding devices by (simp add: id_text_def dget_def)
  ultimately show ?thesis
    using scan_keeps_inventory [OF _ refl, of demo_worker demo_scan "\<lambda>_. ''u''" "''t''" "[(''mode'', PStr ''address'')]"]
    by (metis subsetD)
qed

end
