(* ===== verification/ScanQueue.thy ===== *)
theory ScanQueue
  imports Worker Adoption IdentityStore Delivery
begin

text \<open>
  Asking for scans (camadmiral/app.py): the networks that the operator selected, a scan of them, a scan of one address,
  and the scan for cameras that stopped answering. All of them write the request file that the scanner process takes,
  so a request is only written while no other waits and no scan runs. Decoration of the replies and the Unix time
  that a request carries beside its date are left out.
\<close>

subsection \<open>Networks to scan\<close>

record network_choice =
  nwc_cidr :: string
  nwc_selected :: bool
  nwc_detected :: bool
  nwc_interface :: "lan_interface option"

definition connected_lans :: "scan_env \<Rightarrow> lan_interface list" where
  "connected_lans env =
     (case private_lan_interfaces (sce_routes env) (sce_found env) (sce_primary env) of Inl _ \<Rightarrow> [] | Inr is \<Rightarrow> is)"

definition by_subnet :: "lan_interface list \<Rightarrow> (string \<times> lan_interface) list" where
  "by_subnet is = fold (\<lambda>i. AList.update (network_str (lan_network i)) i) is []"

text \<open>The entries of a saved list that are still valid, in their normal form.\<close>

definition valid_subnets :: "(pyval \<Rightarrow> scan_error + ipv4_network) \<Rightarrow> string list \<Rightarrow> string list" where
  "valid_subnets check vs =
     concat (map (\<lambda>v. case check (PStr v) of Inl _ \<Rightarrow> [] | Inr n \<Rightarrow> [network_str n]) vs)"

definition first_occurrences :: "'a list \<Rightarrow> 'a list" where
  "first_occurrences xs = rev (remdups (rev xs))"

definition custom_choice :: "scan_env \<Rightarrow> lan_interface list \<Rightarrow> string list \<Rightarrow> string \<Rightarrow> network_choice" where
  "custom_choice env lans excluded subnet =
     \<lparr>nwc_cidr = subnet, nwc_selected = (subnet \<notin> set excluded), nwc_detected = False,
      nwc_interface =
        (case custom_scan_subnet (PStr subnet) of
           Inl _ \<Rightarrow> None
         | Inr n \<Rightarrow>
             (case routed_scan_interface (sce_routes env) (sce_primary env) lans n of Inl _ \<Rightarrow> None | Inr i \<Rightarrow> Some i))\<rparr>"

definition discovery_network_configuration :: "scan_env \<Rightarrow> db \<Rightarrow> network_choice list" where
  "discovery_network_configuration env d =
     (case discovery_network_settings d of
        (custom_saved, excluded_detected, excluded_custom) \<Rightarrow>
          let lans = connected_lans env;
              connected = by_subnet lans;
              excluded = valid_subnets normalize_private_scan_subnet excluded_detected;
              excluded_c = valid_subnets custom_scan_subnet excluded_custom;
              custom = first_occurrences (valid_subnets custom_scan_subnet custom_saved)
          in map (\<lambda>(subnet, i). \<lparr>nwc_cidr = subnet, nwc_selected = (subnet \<notin> set excluded), nwc_detected = True,
                 nwc_interface = Some i\<rparr>) connected @
             map (custom_choice env lans excluded_c) (filter (\<lambda>s. map_of connected s = None) custom))"

definition selected_discovery_subnets :: "scan_env \<Rightarrow> db \<Rightarrow> string list" where
  "selected_discovery_subnets env d = map nwc_cidr (filter nwc_selected (discovery_network_configuration env d))"

text \<open>Saving the selection. \<open>selected_custom\<close> is the part of it that is not connected.\<close>

fun read_selected :: "string list \<Rightarrow> string list \<Rightarrow> string list \<Rightarrow> scan_error + string list" where
  "read_selected detected [] acc = Inr acc"
| "read_selected detected (v # vs) acc =
     (case normalize_private_scan_subnet (PStr v) of
        Inl e \<Rightarrow> Inl e
      | Inr n \<Rightarrow>
          let subnet = network_str n in
          case (if subnet \<in> set detected then Inr n else custom_scan_subnet (PStr subnet)) of
            Inl e \<Rightarrow> Inl e
          | Inr _ \<Rightarrow> read_selected detected vs (if subnet \<in> set acc then acc else acc @ [subnet]))"

fun read_custom :: "string list \<Rightarrow> string list \<Rightarrow> string list \<Rightarrow> scan_error + string list" where
  "read_custom detected [] acc = Inr acc"
| "read_custom detected (v # vs) acc =
     (case custom_scan_subnet (PStr v) of
        Inl e \<Rightarrow> Inl e
      | Inr n \<Rightarrow>
          let subnet = network_str n in
          read_custom detected vs (if subnet \<in> set detected \<or> subnet \<in> set acc then acc else acc @ [subnet]))"

definition subnet_order :: "string \<Rightarrow> nat \<times> nat" where
  "subnet_order s = (case parse_network s of None \<Rightarrow> (0, 0) | Some n \<Rightarrow> (net_base n, net_plen n))"

definition update_discovery_networks ::
  "scan_env \<Rightarrow> string list \<Rightarrow> string list option \<Rightarrow> timestamp \<Rightarrow> db \<Rightarrow> scan_error + db" where
  "update_discovery_networks env selected_subnets custom_subnets t d =
     (let detected = map fst (by_subnet (connected_lans env)) in
      case read_selected detected selected_subnets [] of
        Inl e \<Rightarrow> Inl e
      | Inr selected \<Rightarrow>
          let selected_custom = filter (\<lambda>s. s \<notin> set detected) selected in
          case read_custom detected (case custom_subnets of Some vs \<Rightarrow> vs | None \<Rightarrow> selected_custom) [] of
            Inl e \<Rightarrow> Inl e
          | Inr given \<Rightarrow>
              let custom = given @ filter (\<lambda>s. s \<notin> set given) selected_custom;
                  prior = valid_subnets normalize_private_scan_subnet (fst (snd (discovery_network_settings d)));
                  excluded = filter (\<lambda>s. s \<notin> set detected \<and> s \<notin> set selected) prior @
                    filter (\<lambda>s. s \<notin> set selected) detected
              in Inr (save_discovery_network_settings custom (sort_key subnet_order (remdups excluded))
                   (filter (\<lambda>s. s \<notin> set selected) custom) t d))"

subsection \<open>Requests\<close>

text \<open>The memory of the recovery scans: when a camera was last looked for and how often, and until when they pause.\<close>

record scan_queue =
  scq_worker :: worker
  scq_attempts :: "(string \<times> rat \<times> nat) list"
  scq_paused :: rat

definition read_scan_state :: "worker \<Rightarrow> pydict" where
  "read_scan_state w =
     preserve_inventory (read_or [(''status'', PStr ''starting''), (''phase'', PStr ''starting'')] (wkr_state w))
       (read_or [] (wkr_inventory w))"

definition scan_pending :: "worker \<Rightarrow> bool" where
  "scan_pending w \<longleftrightarrow>
     wkr_request w \<noteq> NoFile \<or> dget (read_scan_state w) ''status'' \<in> {PStr ''queued'', PStr ''running''}"

definition put_request :: "pydict \<Rightarrow> scan_queue \<Rightarrow> scan_queue" where
  "put_request request q = q\<lparr>scq_worker := (scq_worker q)\<lparr>wkr_request := Json request\<rparr>\<rparr>"

definition manual_scan_priority_window :: rat where
  "manual_scan_priority_window = 30"

datatype scan_reply = NoNetworks | Busy | Accepted | InvalidAddress

definition start_discovery :: "scan_env \<Rightarrow> rat \<Rightarrow> string \<Rightarrow> string \<Rightarrow> db \<Rightarrow> scan_queue \<Rightarrow> scan_reply \<times> scan_queue" where
  "start_discovery env now scan_id requested_at d q =
     (case selected_discovery_subnets env d of
        [] \<Rightarrow> (NoNetworks, q)
      | s # ss \<Rightarrow>
          if scan_pending (scq_worker q)
          then (Busy, q\<lparr>scq_paused := max (scq_paused q) (now + manual_scan_priority_window)\<rparr>)
          else (Accepted, put_request [(''scan_id'', PStr scan_id), (''subnets'', text_list (s # ss)),
                 (''requested_at'', PStr requested_at)] q))"

definition add_discovery_address :: "string \<Rightarrow> string \<Rightarrow> string \<Rightarrow> scan_queue \<Rightarrow> scan_reply \<times> scan_queue" where
  "add_discovery_address address scan_id requested_at q =
     (case parse_ipv4 (py_strip address) of
        None \<Rightarrow> (InvalidAddress, q)
      | Some a \<Rightarrow>
          if \<not> is_private a then (InvalidAddress, q)
          else if scan_pending (scq_worker q) then (Busy, q)
          else (Accepted, put_request [(''scan_id'', PStr scan_id), (''mode'', PStr ''address''),
                 (''address'', PStr (ipv4_str a)), (''requested_at'', PStr requested_at)] q))"

subsection \<open>Looking for cameras that stopped answering\<close>

definition recovery_scan_fast_retries :: nat where
  "recovery_scan_fast_retries = 12"

definition recovery_scan_fast_interval :: rat where
  "recovery_scan_fast_interval = 10"

definition file_candidates :: "worker \<Rightarrow> (string \<times> device) list" where
  "file_candidates w =
     fold (\<lambda>d. AList.update (id_text d) d)
       (filter (\<lambda>d. truthy (dget d ''candidate_uuid''))
         (dict_items (dlist (read_or [(''devices'', PList [])] (wkr_inventory w)) ''devices''))) []"

definition enabled_streams :: "adoption \<Rightarrow> stream_row list" where
  "enabled_streams a = filter str_enabled (map snd (ad_streams a))"

definition needs_recovery :: "bool \<Rightarrow> stream_row list \<Rightarrow> bool" where
  "needs_recovery unreachable strs \<longleftrightarrow>
     strs \<noteq> [] \<and>
     (unreachable \<or>
      list_ex (\<lambda>s. str_health s \<in> {Offline, AuthFailed} \<or> str_probe_status s \<notin> {''pending'', ''ready'', ''idle''}) strs)"

definition fast_retry :: "bool \<Rightarrow> stream_row list \<Rightarrow> bool" where
  "fast_retry unreachable strs \<longleftrightarrow>
     unreachable \<or>
     list_ex (\<lambda>s. str_health s = Offline \<or> str_probe_status s \<in> {''unavailable'', ''timeout'', ''error''}) strs"

text \<open>\<open>slow\<close> is the interval of the environment (\<open>CAMADMIRAL_RECOVERY_SCAN_INTERVAL\<close>).\<close>

definition scan_due :: "rat \<Rightarrow> rat \<Rightarrow> bool \<Rightarrow> (rat \<times> nat) option \<Rightarrow> bool" where
  "scan_due slow now fast entry =
     (case entry of
        None \<Rightarrow> True
      | Some (previous, n) \<Rightarrow>
          (if fast \<and> n \<le> recovery_scan_fast_retries then recovery_scan_fast_interval else slow) \<le> now - previous)"

record scan_target =
  sct_candidate :: string
  sct_endpoint :: pyval
  sct_mac :: pyval

record eligible_target =
  elg_tried :: bool
  elg_previous :: rat
  elg_adoption :: string
  elg_target :: scan_target

definition forget_attempt :: "string \<Rightarrow> (string \<times> rat \<times> nat) list \<Rightarrow> (string \<times> rat \<times> nat) list" where
  "forget_attempt c m = filter (\<lambda>(k, _). k \<noteq> c) m"

text \<open>One adoption: the attempts that are remembered after it, and the target where it is due.\<close>

definition consider_adoption ::
  "rat \<Rightarrow> rat \<Rightarrow> string list \<Rightarrow> (string \<times> device) list \<Rightarrow> db \<Rightarrow> string \<times> adoption \<Rightarrow> (string \<times> rat \<times> nat) list \<Rightarrow>
   (string \<times> rat \<times> nat) list \<times> eligible_target list" where
  "consider_adoption slow now stalled candidates d = (\<lambda>(c, a) m.
     if \<not> cam_enabled (ad_camera a) then (forget_attempt c m, [])
     else
       let candidate = (case linked_candidate (cam_uuid (ad_camera a)) c candidates d of None \<Rightarrow> [] | Some x \<Rightarrow> x);
           strs = enabled_streams a;
           unreachable = (dget candidate ''status'' = PStr ''offline'' \<or> cam_uuid (ad_camera a) \<in> set stalled);
           endpoint = dget (dsub candidate ''onvif'') ''endpoint_reference'';
           mac = dget candidate ''mac''
       in if \<not> needs_recovery unreachable strs then (forget_attempt c m, [])
          else if \<not> scan_due slow now (fast_retry unreachable strs) (map_of m c) then (m, [])
          else if truthy (dget candidate ''identity_conflict'') then (m, [])
          else if \<not> truthy endpoint \<and> \<not> truthy mac then (m, [])
          else (m, [\<lparr>elg_tried = (map_of m c \<noteq> None),
                 elg_previous = (case map_of m c of None \<Rightarrow> 0 | Some (previous, _) \<Rightarrow> previous), elg_adoption = c,
                 elg_target = \<lparr>sct_candidate = py_str (py_or (dget candidate ''candidate_uuid'') (PStr c)),
                   sct_endpoint = endpoint, sct_mac = mac\<rparr>\<rparr>]))"

fun consider_adoptions ::
  "rat \<Rightarrow> rat \<Rightarrow> string list \<Rightarrow> (string \<times> device) list \<Rightarrow> db \<Rightarrow> (string \<times> adoption) list \<Rightarrow> (string \<times> rat \<times> nat) list \<Rightarrow>
   (string \<times> rat \<times> nat) list \<times> eligible_target list" where
  "consider_adoptions slow now stalled candidates d [] m = (m, [])"
| "consider_adoptions slow now stalled candidates d (x # xs) m =
     (let (m', es) = consider_adoption slow now stalled candidates d x m;
          (m'', es') = consider_adoptions slow now stalled candidates d xs m'
      in (m'', es @ es'))"

definition target_device :: "scan_target \<Rightarrow> device" where
  "target_device t = [(''onvif'', PDict [(''endpoint_reference'', sct_endpoint t)]), (''mac'', sct_mac t)]"

definition max_scan_targets :: nat where
  "max_scan_targets = 16"

text \<open>A target of the same device is joined with the one before; the stronger evidence is kept.\<close>

fun join_target :: "scan_target \<Rightarrow> scan_target list \<Rightarrow> scan_target list option" where
  "join_target t [] = None"
| "join_target t (u # us) =
     (if same_identity (target_device t) (target_device u)
      then Some ((if truthy (sct_endpoint t) \<and> \<not> truthy (sct_endpoint u) then t else u) # us)
      else map_option (Cons u) (join_target t us))"

definition choose_target :: "eligible_target \<Rightarrow> scan_target list \<times> string list \<Rightarrow> scan_target list \<times> string list" where
  "choose_target e = (\<lambda>(targets, chosen).
     case join_target (elg_target e) targets of
       Some targets' \<Rightarrow> (targets', elg_adoption e # chosen)
     | None \<Rightarrow>
         if length targets < max_scan_targets then (targets @ [elg_target e], elg_adoption e # chosen)
         else (targets, chosen))"

definition choose_targets :: "eligible_target list \<Rightarrow> scan_target list \<times> string list" where
  "choose_targets es =
     fold choose_target (sort_key (\<lambda>e. (elg_tried e, elg_previous e, elg_adoption e)) es) ([], [])"

definition target_dict :: "scan_target \<Rightarrow> pydict" where
  "target_dict t =
     [(''candidate_uuid'', PStr (sct_candidate t)), (''endpoint_reference'', sct_endpoint t), (''mac'', sct_mac t)]"

definition note_scan :: "rat \<Rightarrow> string \<Rightarrow> (string \<times> rat \<times> nat) list \<Rightarrow> (string \<times> rat \<times> nat) list" where
  "note_scan now c m = AList.update c (now, Suc (case map_of m c of None \<Rightarrow> 0 | Some (_, n) \<Rightarrow> n)) m"

text \<open>The attempts that are remembered, the targets of the next scan and the adoptions that they stand for.\<close>

definition recovery_targets ::
  "rat \<Rightarrow> rat \<Rightarrow> string list \<Rightarrow> db \<Rightarrow> scan_queue \<Rightarrow> (string \<times> rat \<times> nat) list \<times> scan_target list \<times> string list" where
  "recovery_targets slow now stalled d q =
     (let adoptions = sort_key fst (adoption_map d);
          known = filter (\<lambda>(c, _). c \<in> set (map fst adoptions)) (scq_attempts q);
          (attempts, es) = consider_adoptions slow now stalled (file_candidates (scq_worker q)) d adoptions known
      in (attempts, choose_targets es))"

definition targeted_request :: "string \<Rightarrow> string \<Rightarrow> scan_target list \<Rightarrow> string list \<Rightarrow> pydict" where
  "targeted_request scan_id requested_at targets subnets =
     [(''scan_id'', PStr scan_id), (''requested_at'', PStr requested_at), (''mode'', PStr ''targeted''),
      (''targets'', dict_list (map target_dict targets)), (''subnets'', text_list subnets)]"

definition queue_targeted_recovery_scan ::
  "scan_env \<Rightarrow> rat \<Rightarrow> rat \<Rightarrow> string \<Rightarrow> string \<Rightarrow> string list \<Rightarrow> db \<Rightarrow> scan_queue \<Rightarrow> bool \<times> scan_queue" where
  "queue_targeted_recovery_scan env slow now scan_id requested_at stalled d q =
     (if now < scq_paused q \<or> scan_pending (scq_worker q) then (False, q)
      else
        case recovery_targets slow now stalled d q of
          (attempts, targets, chosen) \<Rightarrow>
            let subnets = selected_discovery_subnets env d in
            if targets = [] \<or> subnets = [] then (False, q\<lparr>scq_attempts := attempts\<rparr>)
            else (True, (put_request (targeted_request scan_id requested_at targets subnets) q)
                   \<lparr>scq_attempts := fold (note_scan now) (remdups chosen) attempts\<rparr>))"

end
