(* ===== verification/ScanQueueProps.thy ===== *)
theory ScanQueueProps
  imports ScanQueue WorkerProps
begin

text \<open>
  What is scanned is what the operator selected, a request is never overwritten before it is answered, and cameras that
  stopped answering are looked for only where there is reason to.
\<close>

subsection \<open>The selection is kept\<close>

lemma first_occurrences_set [simp]: "set (first_occurrences xs) = set xs"
  by (simp add: first_occurrences_def)

lemma normalize_str:
  assumes "net_ok n" "list_ex (subnet_of n) private_ranges"
  shows "normalize_private_scan_subnet (PStr (network_str n)) = Inr n"
proof -
  have "parse_network (py_strip (network_str n)) = Some n"
    unfolding strip_solid [OF network_str_solid] using assms(1) by (intro parse_network_str) (simp_all add: net_ok_def)
  then show ?thesis using assms(2) by (simp only: normalize_private_scan_subnet_def pyval.case option.case if_True)
qed

text \<open>A text that a check accepts as its own normal form.\<close>

definition normal_form :: "(pyval \<Rightarrow> scan_error + ipv4_network) \<Rightarrow> string \<Rightarrow> bool" where
  "normal_form check s \<longleftrightarrow> (\<exists>n. check (PStr s) = Inr n \<and> network_str n = s)"

lemma valid_subnets_id: "\<forall>s \<in> set xs. normal_form check s \<Longrightarrow> valid_subnets check xs = xs"
  by (induction xs) (auto simp: valid_subnets_def normal_form_def)

lemma normalized_form:
  assumes "normalize_private_scan_subnet v = Inr n"
  shows "normalize_private_scan_subnet (PStr (network_str n)) = Inr n"
  using normalized_ok [OF assms] by (simp add: normalize_str)

lemma custom_normalized: "custom_scan_subnet v = Inr n \<Longrightarrow> normalize_private_scan_subnet v = Inr n"
  by (auto simp: custom_scan_subnet_def split: sum.splits if_splits)

lemma custom_form:
  assumes "custom_scan_subnet v = Inr n"
  shows "custom_scan_subnet (PStr (network_str n)) = Inr n"
  using assms normalized_form [OF custom_normalized [OF assms]]
  by (simp add: custom_scan_subnet_def custom_normalized [OF assms])

lemma valid_subnets_forms: "s \<in> set (valid_subnets normalize_private_scan_subnet vs) \<Longrightarrow> normal_form normalize_private_scan_subnet s"
  using normalized_form by (auto simp: valid_subnets_def normal_form_def split: sum.splits dest: sym)

lemma read_selected_set:
  "read_selected detected vs acc = Inr selected \<Longrightarrow>
   set selected = set acc \<union> {network_str n | n v. v \<in> set vs \<and> normalize_private_scan_subnet (PStr v) = Inr n}"
proof (induction vs arbitrary: acc)
  case (Cons v vs)
  show ?case
  proof (cases "normalize_private_scan_subnet (PStr v)")
    case (Inr n)
    let ?acc = "if network_str n \<in> set acc then acc else acc @ [network_str n]"
    have "read_selected detected vs ?acc = Inr selected"
      using Cons.prems unfolding read_selected.simps Inr sum.case Let_def
      by (cases "if network_str n \<in> set detected then Inr n else custom_scan_subnet (PStr (network_str n))") simp_all
    from Cons.IH [OF this] show ?thesis using Inr by (auto split: if_splits)
  qed (use Cons.prems in simp)
qed simp

lemma read_selected_forms:
  assumes "read_selected detected vs acc = Inr selected" "s \<in> set selected" "s \<notin> set acc" "s \<notin> set detected"
  shows "normal_form custom_scan_subnet s"
  using assms
proof (induction vs arbitrary: acc)
  case (Cons v vs)
  show ?case
  proof (cases "normalize_private_scan_subnet (PStr v)")
    case (Inr n)
    let ?acc = "if network_str n \<in> set acc then acc else acc @ [network_str n]"
    let ?check = "if network_str n \<in> set detected then Inr n else custom_scan_subnet (PStr (network_str n))"
    obtain m where check: "?check = Inr m" and run: "read_selected detected vs ?acc = Inr selected"
      using Cons.prems(1) unfolding read_selected.simps Inr sum.case Let_def by (cases ?check) simp_all
    show ?thesis
    proof (cases "s = network_str n")
      case True
      then have "custom_scan_subnet (PStr s) = Inr m" using check Cons.prems(4) by simp
      moreover from this have "m = n" using custom_normalized normalized_form [OF Inr] True by fastforce
      ultimately show ?thesis using True by (auto simp: normal_form_def)
    next
      case False
      then have "s \<notin> set ?acc" using Cons.prems(3) by simp
      then show ?thesis using Cons.IH [OF run Cons.prems(2)] Cons.prems(4) by blast
    qed
  qed (use Cons.prems in simp)
qed simp

lemma read_custom_forms:
  "read_custom detected vs acc = Inr custom \<Longrightarrow> s \<in> set custom \<Longrightarrow> s \<in> set acc \<or> normal_form custom_scan_subnet s"
proof (induction vs arbitrary: acc)
  case (Cons v vs)
  show ?case
  proof (cases "custom_scan_subnet (PStr v)")
    case (Inr n)
    let ?acc = "if network_str n \<in> set detected \<or> network_str n \<in> set acc then acc else acc @ [network_str n]"
    have "read_custom detected vs ?acc = Inr custom"
      using Cons.prems(1) unfolding read_custom.simps Inr sum.case Let_def .
    from Cons.IH [OF this Cons.prems(2)] show ?thesis
      using custom_form [OF Inr] by (auto simp: normal_form_def split: if_splits)
  qed (use Cons.prems in simp)
qed simp

lemma by_subnet_keys: "set (map fst (by_subnet is)) = (\<lambda>i. network_str (lan_network i)) ` set is"
proof -
  have "fst ` set (fold (\<lambda>i. AList.update (network_str (lan_network i)) i) is acc) =
      fst ` set acc \<union> (\<lambda>i. network_str (lan_network i)) ` set is" for acc :: "(string \<times> lan_interface) list"
    by (induction "is" arbitrary: acc) (auto simp: AList.dom_update)
  then show ?thesis by (simp add: by_subnet_def)
qed

definition connected_private :: "scan_env \<Rightarrow> bool" where
  "connected_private env \<longleftrightarrow>
     list_all (\<lambda>i. net_ok (lan_network i) \<and> list_ex (subnet_of (lan_network i)) private_ranges) (connected_lans env)"

lemma connected_forms:
  assumes "connected_private env" "s \<in> set (map fst (by_subnet (connected_lans env)))"
  shows "normal_form normalize_private_scan_subnet s"
  using assms normalize_str unfolding by_subnet_keys connected_private_def list_all_iff normal_form_def by fastforce


lemma saved_settings:
  "discovery_network_settings (save_discovery_network_settings custom detected excluded t d) = (custom, detected, excluded)"
  by (simp add: discovery_network_settings_def save_discovery_network_settings_def)

lemma detected_part:
  "map nwc_cidr (filter nwc_selected (map (\<lambda>(subnet, i). \<lparr>nwc_cidr = subnet, nwc_selected = (subnet \<notin> set excluded),
     nwc_detected = True, nwc_interface = Some i\<rparr>) xs)) = filter (\<lambda>s. s \<notin> set excluded) (map fst xs)"
  by (induction xs) auto

lemma custom_part:
  "map nwc_cidr (filter nwc_selected (map (custom_choice env lans excluded) xs)) = filter (\<lambda>s. s \<notin> set excluded) xs"
  by (induction xs) (auto simp: custom_choice_def)

lemma configured_selection:
  assumes "discovery_network_settings d = (custom, excluded, excluded_custom)"
    "\<forall>s \<in> set custom \<union> set excluded_custom. normal_form custom_scan_subnet s"
    "\<forall>s \<in> set excluded. normal_form normalize_private_scan_subnet s"
    "detected = set (map fst (by_subnet (connected_lans env)))"
  shows "set (selected_discovery_subnets env d) =
    (detected - set excluded) \<union> (set custom - detected - set excluded_custom)"
proof -
  have valid: "valid_subnets custom_scan_subnet custom = custom" "valid_subnets custom_scan_subnet excluded_custom = excluded_custom"
    "valid_subnets normalize_private_scan_subnet excluded = excluded"
    using assms(2,3) by (simp_all add: valid_subnets_id)
  have known: "map_of (by_subnet (connected_lans env)) s = None \<longleftrightarrow> s \<notin> detected" for s
    unfolding assms(4) by (simp add: map_of_eq_None_iff)
  show ?thesis
    unfolding selected_discovery_subnets_def discovery_network_configuration_def assms(1) prod.case Let_def valid known
      filter_append map_append detected_part custom_part
    by (auto simp: assms(4))
qed

text \<open>
  C13: What the operator saves is what is scanned: once a selection has been saved, the subnets that the next scan asks
  for are exactly the entries of the selection in their normal form, connected or not, provided that the connected
  networks lie in the private ranges.
\<close>

theorem saved_selection_is_scanned:
  assumes "connected_private env" "update_discovery_networks env selection custom t d = Inr d'"
  shows "set (selected_discovery_subnets env d') =
    {network_str n | n v. v \<in> set selection \<and> normalize_private_scan_subnet (PStr v) = Inr n}"
proof -
  define detected where "detected = map fst (by_subnet (connected_lans env))"
  note saved = assms(2) [unfolded update_discovery_networks_def Let_def, folded detected_def]
  obtain selected where selected: "read_selected detected selection [] = Inr selected"
    using saved by (cases "read_selected detected selection []") simp_all
  note saved = saved [unfolded selected sum.case]
  obtain given where given: "read_custom detected
      (case custom of Some vs \<Rightarrow> vs | None \<Rightarrow> filter (\<lambda>s. s \<notin> set detected) selected) [] = Inr given"
    using saved by (cases "read_custom detected
      (case custom of Some vs \<Rightarrow> vs | None \<Rightarrow> filter (\<lambda>s. s \<notin> set detected) selected) []") simp_all
  define customs where "customs = given @ filter (\<lambda>s. s \<notin> set given) (filter (\<lambda>s. s \<notin> set detected) selected)"
  define prior where "prior = valid_subnets normalize_private_scan_subnet (fst (snd (discovery_network_settings d)))"
  define excluded where "excluded = sort_key subnet_order (remdups (filter (\<lambda>s. s \<notin> set detected \<and> s \<notin> set selected) prior @
    filter (\<lambda>s. s \<notin> set selected) detected))"
  have d': "d' = save_discovery_network_settings customs excluded (filter (\<lambda>s. s \<notin> set selected) customs) t d"
    using saved [unfolded given sum.case] unfolding customs_def prior_def excluded_def by simp
  have customs_ok: "\<forall>s \<in> set customs. normal_form custom_scan_subnet s"
    using read_custom_forms [OF given] read_selected_forms [OF selected] by (auto simp: customs_def)
  have "\<forall>s \<in> set detected. normal_form normalize_private_scan_subnet s"
    using connected_forms [OF assms(1)] by (simp add: detected_def)
  then have excluded_ok: "\<forall>s \<in> set excluded. normal_form normalize_private_scan_subnet s"
    using valid_subnets_forms by (auto simp: excluded_def prior_def)
  have "set (selected_discovery_subnets env d') = (set detected - set excluded) \<union>
      (set customs - set detected - set (filter (\<lambda>s. s \<notin> set selected) customs))"
    unfolding d' by (rule configured_selection [OF saved_settings]) (use customs_ok excluded_ok in \<open>auto simp: detected_def\<close>)
  also have "\<dots> = set selected" by (auto simp: excluded_def customs_def)
  finally show ?thesis using read_selected_set [OF selected] by simp
qed


text \<open>A connected network outside the private ranges cannot be deselected, and no scan of the selection runs.\<close>

lemma normalize_all_error:
  assumes "v \<in> set vs" "normalize_private_scan_subnet v = Inl e"
  shows "\<exists>e'. normalize_all vs acc = Inl e'"
  using assms normalize_all_in [of vs acc] by (cases "normalize_all vs acc") fastforce+

lemma unlisted_network_blocks_scans:
  assumes "s \<in> set (map fst (by_subnet (connected_lans env)))" "normalize_private_scan_subnet (PStr s) = Inl e"
  shows "s \<in> set (selected_discovery_subnets env d) \<and>
    (\<exists>m. scan_lan env known (Some (map PStr (selected_discovery_subnets env d))) = Inl (ScanStopped m []))"
proof
  obtain custom excluded excluded_custom where settings: "discovery_network_settings d = (custom, excluded, excluded_custom)"
    by (cases "discovery_network_settings d")
  have "s \<notin> set (valid_subnets normalize_private_scan_subnet excluded)"
    using valid_subnets_forms assms(2) by (fastforce simp: normal_form_def)
  then show chosen: "s \<in> set (selected_discovery_subnets env d)"
    using assms(1)
    unfolding selected_discovery_subnets_def discovery_network_configuration_def settings prod.case Let_def
      filter_append map_append detected_part custom_part by simp
  have "\<exists>e'. normalize_all (map PStr (selected_discovery_subnets env d)) [] = Inl e'"
    by (rule normalize_all_error [of "PStr s"]) (use chosen assms(2) in auto)
  then obtain e' where "requested_subnets (map PStr (selected_discovery_subnets env d)) = Inl e'"
    by (auto simp: requested_subnets_def)
  then show "\<exists>m. scan_lan env known (Some (map PStr (selected_discovery_subnets env d))) = Inl (ScanStopped m [])"
    by (simp add: scan_lan_def select_for_scan_def)
qed

definition benchmark_lan :: lan_interface where
  "benchmark_lan = \<lparr>lan_name = ''e'', lan_address = 3323068417, lan_network = mk_network 3323068416 16, lan_direct = True\<rparr>"

lemma benchmark_lan_unlisted:
  "connected_lans (demo_scan\<lparr>sce_found := [benchmark_lan]\<rparr>) = [benchmark_lan] \<and>
   \<not> list_ex (subnet_of (lan_network benchmark_lan)) private_ranges"
proof
  have "eligible benchmark_lan"
    by (simp add: eligible_def benchmark_lan_def virtual_prefixes_def startswith_def is_private_def private_networks_def
        private_exceptions_def net_size_def is_loopback_def is_link_local_def is_multicast_def is_unspecified_def)
  then show "connected_lans (demo_scan\<lparr>sce_found := [benchmark_lan]\<rparr>) = [benchmark_lan]"
    by (simp add: connected_lans_def private_lan_interfaces_def demo_scan_def demo_default)
  show "\<not> list_ex (subnet_of (lan_network benchmark_lan)) private_ranges"
    by (simp add: benchmark_lan_def private_ranges_def subnet_of_def mk_network_def net_size_def broadcast_def num_addresses_def)
qed

subsection \<open>No request is lost\<close>

datatype scan_op =
    AskScan rat string string
  | AskAddress string string string
  | AskRecovery rat string string "string list"
  | RunScanner "nat \<Rightarrow> string" string

definition request_id :: "pydict \<Rightarrow> string" where
  "request_id request = py_str (dget_or request ''scan_id'' (PStr ''unknown''))"

text \<open>One operation, with the request that it writes and the one that it answers.\<close>

definition scan_op_step :: "scan_env \<Rightarrow> rat \<Rightarrow> db \<Rightarrow> scan_op \<Rightarrow> scan_queue \<Rightarrow> scan_queue" where
  "scan_op_step env slow d op q =
     (case op of
        AskScan now i t \<Rightarrow> snd (start_discovery env now i t d q)
      | AskAddress a i t \<Rightarrow> snd (add_discovery_address a i t q)
      | AskRecovery now i t stalled \<Rightarrow> snd (queue_targeted_recovery_scan env slow now i t stalled d q)
      | RunScanner fresh now \<Rightarrow> q\<lparr>scq_worker := worker_turn env fresh now (scq_worker q)\<rparr>)"

definition asked_now :: "scan_env \<Rightarrow> rat \<Rightarrow> db \<Rightarrow> scan_op \<Rightarrow> scan_queue \<Rightarrow> string list" where
  "asked_now env slow d op q =
     (case op of
        AskScan now i t \<Rightarrow> if fst (start_discovery env now i t d q) = Accepted then [i] else []
      | AskAddress a i t \<Rightarrow> if fst (add_discovery_address a i t q) = Accepted then [i] else []
      | AskRecovery now i t stalled \<Rightarrow> if fst (queue_targeted_recovery_scan env slow now i t stalled d q) then [i] else []
      | RunScanner fresh now \<Rightarrow> [])"

definition published_id :: "pydict json_file \<Rightarrow> string list" where
  "published_id f = (case f of Json s \<Rightarrow> [py_str (dget s ''scan_id'')] | _ \<Rightarrow> [])"

definition answered_now :: "scan_env \<Rightarrow> scan_op \<Rightarrow> scan_queue \<Rightarrow> string list" where
  "answered_now env op q =
     (case (op, wkr_request (scq_worker q)) of
        (RunScanner fresh now, Json r) \<Rightarrow> published_id (wkr_state (worker_turn env fresh now (scq_worker q)))
      | _ \<Rightarrow> [])"

text \<open>A run, with the requests accepted and those answered by a published outcome, in their order.\<close>

fun scan_ops :: "scan_env \<Rightarrow> rat \<Rightarrow> db \<Rightarrow> scan_op list \<Rightarrow> scan_queue \<Rightarrow> string list \<times> string list \<times> scan_queue" where
  "scan_ops env slow d [] q = ([], [], q)"
| "scan_ops env slow d (op # ops) q =
     (case scan_ops env slow d ops (scan_op_step env slow d op q) of
        (asked, answered, q') \<Rightarrow> (asked_now env slow d op q @ asked, answered_now env op q @ answered, q'))"

definition pending_ids :: "scan_queue \<Rightarrow> string list" where
  "pending_ids q = (case wkr_request (scq_worker q) of Json r \<Rightarrow> [request_id r] | _ \<Rightarrow> [])"

lemma request_id_head: "request_id ((''scan_id'', PStr i) # r) = i"
  by (simp add: request_id_def dget_or_def)

lemma put_request_pending: "pending_ids (put_request ((''scan_id'', PStr i) # r) q) = [i]"
  by (simp add: pending_ids_def put_request_def request_id_head)

lemma not_pending: "\<not> scan_pending (scq_worker q) \<Longrightarrow> pending_ids q = []"
  by (auto simp: scan_pending_def pending_ids_def)

lemma handled_id: "published_id (wkr_state (handle_scan env fresh now request w)) = [request_id request]"
  by (auto simp: handle_scan_def published_id_def Let_def finished_scan_def failed_state_def request_id_def dget_def
      split: sum.splits)

lemma handled_request: "wkr_request (handle_scan env fresh now request w) = NoFile"
  by (simp add: handle_scan_def Let_def)

lemma start_discovery_pending:
  "pending_ids q @ (if fst (start_discovery env now i t d q) = Accepted then [i] else []) = pending_ids (snd (start_discovery env now i t d q))"
  using not_pending [of q] put_request_pending by (auto simp: start_discovery_def pending_ids_def split: list.splits)

lemma add_address_pending:
  "pending_ids q @ (if fst (add_discovery_address a i t q) = Accepted then [i] else []) = pending_ids (snd (add_discovery_address a i t q))"
  using not_pending [of q] put_request_pending by (auto simp: add_discovery_address_def split: option.splits)

lemma queue_scan_cases:
  obtains (idle) q1 where "queue_targeted_recovery_scan env slow now i t stalled d q = (False, q1)"
      "scq_worker q1 = scq_worker q"
  | (asked) attempts targets chosen q1 where "queue_targeted_recovery_scan env slow now i t stalled d q = (True, q1)"
      "recovery_targets slow now stalled d q = (attempts, targets, chosen)" "targets \<noteq> []" "selected_discovery_subnets env d \<noteq> []"
      "wkr_request (scq_worker q1) = Json (targeted_request i t targets (selected_discovery_subnets env d))"
      "scq_attempts q1 = fold (note_scan now) (remdups chosen) attempts"
      "\<not> scan_pending (scq_worker q)" "scq_paused q \<le> now"
proof -
  obtain attempts targets chosen where found: "recovery_targets slow now stalled d q = (attempts, targets, chosen)"
    by (metis prod_cases3)
  note run = queue_targeted_recovery_scan_def [of env slow now i t stalled d q, unfolded found prod.case Let_def]
  show thesis
  proof (cases "now < scq_paused q \<or> scan_pending (scq_worker q) \<or> targets = [] \<or> selected_discovery_subnets env d = []")
    case True
    then show ?thesis
      by (intro idle [of "if now < scq_paused q \<or> scan_pending (scq_worker q) then q else q\<lparr>scq_attempts := attempts\<rparr>"])
         (auto simp: run)
  next
    case False
    then show ?thesis using asked [OF _ found] unfolding run by (simp add: put_request_def)
  qed
qed

lemma queue_scan_pending:
  "pending_ids q @ (if fst (queue_targeted_recovery_scan env slow now i t stalled d q) then [i] else []) =
   pending_ids (snd (queue_targeted_recovery_scan env slow now i t stalled d q))"
proof (cases rule: queue_scan_cases [of env slow now i t stalled d q])
  case (asked attempts targets chosen q1)
  then show ?thesis using not_pending [of q] by (simp add: pending_ids_def targeted_request_def request_id_head)
qed (simp_all add: pending_ids_def)

lemma run_scanner_pending:
  "pending_ids q = answered_now env (RunScanner fresh now) q @ pending_ids (q\<lparr>scq_worker := worker_turn env fresh now (scq_worker q)\<rparr>)"
  by (cases "wkr_request (scq_worker q)")
     (simp_all add: pending_ids_def answered_now_def worker_turn_def handled_id handled_request)

lemma scan_op_step_pending:
  "pending_ids q @ asked_now env slow d op q = answered_now env op q @ pending_ids (scan_op_step env slow d op q)"
proof (cases op)
  case (RunScanner fresh now)
  then show ?thesis using run_scanner_pending [of q env fresh now] by (simp add: scan_op_step_def asked_now_def)
qed (simp_all add: scan_op_step_def asked_now_def answered_now_def start_discovery_pending add_address_pending queue_scan_pending
      split: json_file.splits)

text \<open>
  C14: No scan request is lost, overwritten or answered twice: in any run of scans asked for by the operator or for
  recovery and of turns of the scanner process, the requests that were accepted are answered one by one in their order,
  each by a published outcome that names it, and at most the last one is still waiting.
\<close>

theorem requests_are_answered_in_order:
  "case scan_ops env slow d ops q of (asked, answered, q') \<Rightarrow>
     pending_ids q @ asked = answered @ pending_ids q' \<and> length (pending_ids q') \<le> 1"
proof -
  obtain asked answered q' where run: "scan_ops env slow d ops q = (asked, answered, q')" by (metis prod_cases3)
  then have "pending_ids q @ asked = answered @ pending_ids q'"
  proof (induction ops arbitrary: q asked answered)
    case (Cons op ops)
    obtain asked' answered' where rest: "scan_ops env slow d ops (scan_op_step env slow d op q) = (asked', answered', q')"
      and lists: "asked = asked_now env slow d op q @ asked'" "answered = answered_now env op q @ answered'"
      using Cons.prems by (auto split: prod.splits)
    have "pending_ids q @ asked = answered_now env op q @ pending_ids (scan_op_step env slow d op q) @ asked'"
      unfolding lists append_assoc [symmetric] scan_op_step_pending ..
    then show ?case using Cons.IH [OF rest] unfolding lists by simp
  qed simp
  then show ?thesis unfolding run by (simp add: pending_ids_def split: json_file.splits)
qed

subsection \<open>Recovery scans have reasons\<close>

lemma join_target_subset: "join_target t us = Some vs \<Longrightarrow> set vs \<subseteq> insert t (set us) \<and> length vs = length us"
proof (induction us arbitrary: vs)
  case (Cons u us)
  then show ?case by (auto split: if_splits)
qed simp

lemma choose_target_bounds:
  assumes "length (fst acc) \<le> max_scan_targets"
  shows "length (fst (choose_target e acc)) \<le> max_scan_targets \<and>
    set (fst (choose_target e acc)) \<subseteq> insert (elg_target e) (set (fst acc))"
proof -
  obtain ts chosen where acc: "acc = (ts, chosen)" by (cases acc)
  show ?thesis
  proof (cases "join_target (elg_target e) ts")
    case None
    then show ?thesis using assms unfolding acc choose_target_def by auto
  next
    case (Some vs)
    then show ?thesis using assms join_target_subset [OF Some] unfolding acc choose_target_def by simp
  qed
qed

lemma choose_targets_bounds:
  "set (fst (choose_targets es)) \<subseteq> elg_target ` set es \<and> length (fst (choose_targets es)) \<le> max_scan_targets"
proof -
  have "set (fst (fold choose_target xs acc)) \<subseteq> elg_target ` set xs \<union> set (fst acc) \<and>
      length (fst (fold choose_target xs acc)) \<le> max_scan_targets" if "length (fst acc) \<le> max_scan_targets" for xs acc
    using that
  proof (induction xs arbitrary: acc)
    case (Cons x xs)
    let ?acc = "choose_target x acc"
    have bounds: "length (fst ?acc) \<le> max_scan_targets" "set (fst ?acc) \<subseteq> insert (elg_target x) (set (fst acc))"
      using choose_target_bounds [OF Cons.prems, of x] by simp_all
    then show ?case using Cons.IH [OF bounds(1)] by auto
  qed simp
  from this [of "([], [])" "sort_key (\<lambda>e. (elg_tried e, elg_previous e, elg_adoption e)) es"] show ?thesis
    by (simp add: choose_targets_def)
qed

text \<open>Why a device may be looked for, given the attempts made before.\<close>

definition justified ::
  "rat \<Rightarrow> rat \<Rightarrow> string list \<Rightarrow> (string \<times> device) list \<Rightarrow> db \<Rightarrow> (rat \<times> nat) option \<Rightarrow> string \<times> adoption \<Rightarrow> scan_target \<Rightarrow> bool" where
  "justified slow now stalled candidates d entry = (\<lambda>(c, a) t.
     cam_enabled (ad_camera a) \<and>
     (\<exists>device. linked_candidate (cam_uuid (ad_camera a)) c candidates d = Some device \<and>
        (let unreachable = (dget device ''status'' = PStr ''offline'' \<or> cam_uuid (ad_camera a) \<in> set stalled) in
         needs_recovery unreachable (enabled_streams a) \<and> scan_due slow now (fast_retry unreachable (enabled_streams a)) entry) \<and>
        \<not> truthy (dget device ''identity_conflict'') \<and>
        sct_endpoint t = dget (dsub device ''onvif'') ''endpoint_reference'' \<and> sct_mac t = dget device ''mac'' \<and>
        (truthy (sct_endpoint t) \<or> truthy (sct_mac t))))"

lemma consider_adoption_justified:
  assumes "consider_adoption slow now stalled candidates d x m = (m', es)" "e \<in> set es"
  shows "justified slow now stalled candidates d (map_of m (fst x)) x (elg_target e)"
proof -
  obtain c a where x: "x = (c, a)" by (cases x)
  have empty: "dget [] k = PNone" "dsub [] k = []" for k by (simp_all add: dget_def dsub_def)
  show ?thesis
    using assms unfolding x consider_adoption_def prod.case Let_def justified_def
    by (cases "linked_candidate (cam_uuid (ad_camera a)) c candidates d")
       (auto simp: empty split: if_splits)
qed

lemma consider_adoption_attempts:
  "consider_adoption slow now stalled candidates d x m = (m', es) \<Longrightarrow> k \<noteq> fst x \<Longrightarrow> map_of m' k = map_of m k"
proof -
  have "map_of (forget_attempt c m) k = map_of m k" if "k \<noteq> c" for c
    using that by (induction m) (auto simp: forget_attempt_def)
  then show "consider_adoption slow now stalled candidates d x m = (m', es) \<Longrightarrow> k \<noteq> fst x \<Longrightarrow> map_of m' k = map_of m k"
    by (auto simp: consider_adoption_def Let_def split: prod.splits if_splits)
qed

lemma consider_adoptions_justified:
  "consider_adoptions slow now stalled candidates d xs m = (m', es) \<Longrightarrow> distinct (map fst xs) \<Longrightarrow> e \<in> set es \<Longrightarrow>
   \<exists>x \<in> set xs. justified slow now stalled candidates d (map_of m (fst x)) x (elg_target e)"
proof (induction xs arbitrary: m m' es)
  case (Cons x xs)
  obtain m1 es1 where first: "consider_adoption slow now stalled candidates d x m = (m1, es1)"
    by (cases "consider_adoption slow now stalled candidates d x m")
  obtain m2 es2 where others: "consider_adoptions slow now stalled candidates d xs m1 = (m2, es2)"
    by (cases "consider_adoptions slow now stalled candidates d xs m1")
  have es: "es = es1 @ es2" using Cons.prems(1) first others by simp
  show ?case
  proof (cases "e \<in> set es1")
    case True
    then show ?thesis using consider_adoption_justified [OF first] by auto
  next
    case False
    then have "e \<in> set es2" using Cons.prems(3) es by simp
    then obtain y where "y \<in> set xs" "justified slow now stalled candidates d (map_of m1 (fst y)) y (elg_target e)"
      using Cons.IH [OF others] Cons.prems(2) by auto
    moreover from this have "fst y \<noteq> fst x" using Cons.prems(2) by (metis distinct.simps(2) image_eqI list.map(2) list.set_map)
    ultimately show ?thesis using consider_adoption_attempts [OF first] by auto
  qed
qed simp

lemma adoption_map_keys:
  "map fst (adoption_map d) = map cam_candidate (filter (\<lambda>c. adoption_for_candidate (cam_candidate c) d \<noteq> None) (cameras d))"
proof -
  have "map fst (concat (map (\<lambda>c. case adoption_for_candidate (cam_candidate c) d of None \<Rightarrow> [] | Some a \<Rightarrow> [(cam_candidate c, a)]) cs)) =
      map cam_candidate (filter (\<lambda>c. adoption_for_candidate (cam_candidate c) d \<noteq> None) cs)" for cs
    by (induction cs) (auto split: option.splits)
  then show ?thesis unfolding adoption_map_def .
qed

lemma adoption_map_distinct: "distinct (map cam_candidate (cameras d)) \<Longrightarrow> distinct (map fst (adoption_map d))"
  unfolding adoption_map_keys by (rule distinct_map_filter)

lemma recovery_targets_justified:
  assumes "distinct (map cam_candidate (cameras d))" "recovery_targets slow now stalled d q = (attempts, targets, chosen)"
    "t \<in> set targets"
  shows "\<exists>x \<in> set (adoption_map d).
    justified slow now stalled (file_candidates (scq_worker q)) d (map_of (scq_attempts q) (fst x)) x t"
proof -
  let ?known = "filter (\<lambda>(c, _). c \<in> set (map fst (adoption_map d))) (scq_attempts q)"
  obtain es where run: "consider_adoptions slow now stalled (file_candidates (scq_worker q)) d (sort_key fst (adoption_map d)) ?known =
      (attempts, es)" "targets = fst (choose_targets es)"
    using assms(2) by (auto simp: recovery_targets_def Let_def split: prod.splits)
  obtain e where e: "e \<in> set es" "t = elg_target e" using choose_targets_bounds assms(3) run(2) by blast
  have "distinct (map fst (sort_key fst (adoption_map d)))"
    using adoption_map_distinct [OF assms(1)] by (simp add: distinct_map)
  then obtain x where x: "x \<in> set (adoption_map d)"
    "justified slow now stalled (file_candidates (scq_worker q)) d (map_of ?known (fst x)) x t"
    using consider_adoptions_justified [OF run(1) _ e(1)] e(2) by auto
  moreover have "map_of ?known (fst x) = map_of (scq_attempts q) (fst x)"
  proof -
    have "k \<in> A \<Longrightarrow> map_of (filter (\<lambda>(c, _). c \<in> A) m) k = map_of m k" for k A and m :: "(string \<times> rat \<times> nat) list"
      by (induction m) auto
    then show ?thesis using x(1) by auto
  qed
  ultimately show ?thesis by auto
qed

text \<open>
  C15: A recovery scan is asked for only while no scan is pending and the operator's scans have no priority, and only
  for the selected subnets. It looks for at most sixteen devices, each of them the unambiguously known device of an
  enabled camera whose streams fail or whose device is silent, and whose last attempt is long enough ago.
\<close>

theorem recovery_scans_have_reasons:
  assumes "distinct (map cam_candidate (cameras d))"
    "queue_targeted_recovery_scan env slow now i t stalled d q = (True, q')"
  shows "\<not> scan_pending (scq_worker q) \<and> scq_paused q \<le> now \<and>
    (\<exists>targets. wkr_request (scq_worker q') = Json (targeted_request i t targets (selected_discovery_subnets env d)) \<and>
       targets \<noteq> [] \<and> length targets \<le> max_scan_targets \<and>
       list_all (\<lambda>u. \<exists>x \<in> set (adoption_map d).
         justified slow now stalled (file_candidates (scq_worker q)) d (map_of (scq_attempts q) (fst x)) x u) targets)"
proof (cases rule: queue_scan_cases [of env slow now i t stalled d q])
  case (asked attempts targets chosen q1)
  have "length targets \<le> max_scan_targets"
    using asked(2) choose_targets_bounds by (auto simp: recovery_targets_def Let_def split: prod.splits) (metis fst_conv)
  then show ?thesis
    using asked recovery_targets_justified [OF assms(1) asked(2)] assms(2) by (auto simp: list_all_iff)
qed (use assms(2) in auto)


subsection \<open>Witness\<close>

lemma demo_connected: "connected_lans demo_scan = [demo_lan]"
  using demo_eligible by (simp add: connected_lans_def private_lan_interfaces_def demo_scan_def demo_default)

theorem saved_selection_is_scanned_witness:
  "\<exists>d'. update_discovery_networks demo_scan [] None 0 demo_db = Inr d' \<and> set (selected_discovery_subnets demo_scan d') = {}"
proof -
  have "subnet_of (lan_network demo_lan) (mk_network (192 * 16777216 + 168 * 65536) 16)"
    by (simp add: demo_lan_def subnet_of_def mk_network_def net_size_def broadcast_def num_addresses_def)
  then have "connected_private demo_scan"
    unfolding connected_private_def demo_connected by (simp add: private_ranges_def) (simp add: demo_lan_def mk_network_ok)
  moreover obtain d' where "update_discovery_networks demo_scan [] None 0 demo_db = Inr d'"
    by (simp add: update_discovery_networks_def)
  ultimately show ?thesis using saved_selection_is_scanned [of demo_scan "[]" None 0 demo_db d'] by simp
qed

end
