(* ===== verification/ScanQueueDemo.thy ===== *)
theory ScanQueueDemo
  imports ScanQueueProps RecoveryDemo
begin

text \<open>
  A recovery scan: the stream of the one camera fails, and its device is known by its hardware address.
\<close>

definition demo_queue :: scan_queue where
  "demo_queue = \<lparr>scq_worker = \<lparr>wkr_inventory = Json [(''devices'', PList [PDict demo_device])], wkr_state = NoFile,
     wkr_request = NoFile\<rparr>, scq_attempts = [], scq_paused = 0\<rparr>"

lemma demo_file_candidates: "file_candidates (scq_worker demo_queue) = [(''k1'', demo_device)]"
  by (simp add: file_candidates_def demo_queue_def read_or_def dlist_def dget_def dict_items_def id_text_def demo_device_def)

lemma demo_not_pending: "\<not> scan_pending (scq_worker demo_queue)"
  by (simp add: scan_pending_def demo_queue_def read_scan_state_def read_or_def preserve_inventory_def dget_def)

lemma demo_subnets: "selected_discovery_subnets demo_scan demo_media_db = [network_str (lan_network demo_lan)]"
  by (simp add: selected_discovery_subnets_def discovery_network_configuration_def discovery_network_settings_def
      demo_media_db_def demo_db_def empty_db_def demo_connected by_subnet_def valid_subnets_def first_occurrences_def)

lemma demo_targets: "\<exists>attempts t chosen. recovery_targets 300 100 [] demo_media_db demo_queue = (attempts, [t], chosen)"
proof -
  obtain a where a: "adoption_map demo_media_db = [(''k1'', a)]" "ad_camera a = demo_camera" "ad_streams a = demo_joined_streams"
    by (rule demo_adoptions)
  have "linked_candidate ''c1'' ''k1'' [(''k1'', demo_device)] demo_media_db = Some demo_device"
    by (simp add: linked_candidate_def camera_identity_link_def demo_media_db_def demo_db_def empty_db_def row_get_def)
  moreover have "enabled_streams a = [demo_stream\<lparr>str_key := ''stream_a''\<rparr>]"
    by (simp add: enabled_streams_def a demo_joined_streams_def demo_stream_def)
  moreover have "needs_recovery False [demo_stream\<lparr>str_key := ''stream_a''\<rparr>]"
    by (simp add: needs_recovery_def demo_stream_def)
  moreover have "truthy (dget demo_device ''mac'')" by (simp add: demo_device_def dget_def)
  ultimately obtain t where "consider_adoptions 300 100 [] [(''k1'', demo_device)] demo_media_db [(''k1'', a)] [] = ([], [t])"
    using demo_seen
    by (simp add: consider_adoption_def a demo_camera_def scan_due_def Let_def)
  moreover have "scq_attempts demo_queue = []" by (simp add: demo_queue_def)
  ultimately show ?thesis
    by (simp add: recovery_targets_def a demo_file_candidates choose_targets_def choose_target_def max_scan_targets_def)
qed

theorem recovery_scans_have_reasons_witness:
  "\<exists>q' targets. queue_targeted_recovery_scan demo_scan 300 100 ''i'' ''t'' [] demo_media_db demo_queue = (True, q') \<and>
     wkr_request (scq_worker q') =
       Json (targeted_request ''i'' ''t'' targets (selected_discovery_subnets demo_scan demo_media_db)) \<and>
     targets \<noteq> [] \<and> length targets \<le> max_scan_targets"
proof -
  obtain attempts t chosen where found: "recovery_targets 300 100 [] demo_media_db demo_queue = (attempts, [t], chosen)"
    using demo_targets by blast
  have "scq_paused demo_queue = 0" by (simp add: demo_queue_def)
  then obtain q' where run: "queue_targeted_recovery_scan demo_scan 300 100 ''i'' ''t'' [] demo_media_db demo_queue = (True, q')"
    using demo_not_pending by (simp add: queue_targeted_recovery_scan_def found demo_subnets)
  have "distinct (map cam_candidate (cameras demo_media_db))" by (simp add: demo_media_db_def demo_db_def empty_db_def)
  from recovery_scans_have_reasons [OF this run] run show ?thesis by blast
qed


text \<open>
  Three cameras of one device, known by its hardware address, by its ONVIF endpoint and by both: two targets remain that
  name the same endpoint, so the scan finds it claimed twice and ignores it.
\<close>

definition channel :: "string \<Rightarrow> pyval \<Rightarrow> pyval \<Rightarrow> eligible_target" where
  "channel c endpoint mac = \<lparr>elg_tried = False, elg_previous = 0, elg_adoption = c,
     elg_target = \<lparr>sct_candidate = c, sct_endpoint = endpoint, sct_mac = mac\<rparr>\<rparr>"

lemma joined_targets_may_repeat:
  "\<exists>a b chosen. choose_targets [channel ''a'' PNone (PStr ''m''), channel ''b'' (PStr ''e'') PNone, channel ''c'' (PStr ''e'') (PStr ''m'')] =
     ([a, b], chosen) \<and> same_identity (target_device a) (target_device b)"
proof -
  have "choose_targets [channel ''a'' PNone (PStr ''m''), channel ''b'' (PStr ''e'') PNone, channel ''c'' (PStr ''e'') (PStr ''m'')] =
      ([\<lparr>sct_candidate = ''c'', sct_endpoint = PStr ''e'', sct_mac = PStr ''m''\<rparr>,
        \<lparr>sct_candidate = ''b'', sct_endpoint = PStr ''e'', sct_mac = PNone\<rparr>], [''c'', ''b'', ''a''])"
    by (simp add: choose_targets_def channel_def choose_target_def max_scan_targets_def target_device_def same_identity_def
        physical_identity_def ident_of_def text_of_def dget_def dsub_def py_strip_def py_lstrip_def py_rstrip_def py_space_def
        py_lower_def)
  moreover have "same_identity (target_device \<lparr>sct_candidate = ''c'', sct_endpoint = PStr ''e'', sct_mac = PStr ''m''\<rparr>)
      (target_device \<lparr>sct_candidate = ''b'', sct_endpoint = PStr ''e'', sct_mac = PNone\<rparr>)"
    by (simp add: target_device_def same_identity_def physical_identity_def ident_of_def text_of_def dget_def dsub_def
        py_strip_def py_lstrip_def py_rstrip_def py_space_def py_lower_def)
  ultimately show ?thesis by blast
qed

end
