(* ===== verification/Catalog.thy ===== *)
theory Catalog
  imports Scan PyNumbers
begin

text \<open>
  The catalogue of RTSP paths (camadmiral/rtsp_catalog.py): what is accepted as a catalogue, and the addresses that it
  proposes for a camera. The document is the JSON file, \<open>None\<close> where it cannot be read. A value that a field access or
  \<open>urlsplit\<close> does not accept raises, which is \<open>CatalogRaises\<close>.
\<close>

datatype catalog_error = CatalogError string | CatalogRaises

record catalog_path =
  cpt_label :: string
  cpt_path :: string

record catalog_rule =
  crl_id :: string
  crl_aliases :: "string list"
  crl_source :: string
  crl_paths :: "catalog_path list"

record catalog =
  ctl_revision :: string
  ctl_limit :: nat
  ctl_rules :: "catalog_rule list"

record catalog_candidate =
  ccd_label :: string
  ccd_uri :: string
  ccd_rule :: string
  ccd_revision :: string
  ccd_source :: string

definition max_rules :: nat where
  "max_rules = 32"

definition max_paths_per_rule :: nat where
  "max_paths_per_rule = 4"

definition max_probe_limit :: int where
  "max_probe_limit = 12"

subsection \<open>Loading\<close>

definition rule_error :: "string \<Rightarrow> string \<Rightarrow> catalog_error" where
  "rule_error rule_id problem = CatalogError (''RTSP catalog rule '' @ rule_id @ '' has '' @ problem)"

definition load_path :: "string \<Rightarrow> pyval \<Rightarrow> catalog_error + catalog_path" where
  "load_path rule_id v =
     (case v of
        PDict entry \<Rightarrow>
          (case (dget entry ''label'', dget entry ''path'') of
             (PStr label, PStr path) \<Rightarrow>
               if \<not> startswith path ''/'' \<or> CHR ''@'' \<in> set path \<or> CHR ''#'' \<in> set path
               then Inl (rule_error rule_id ''an invalid path'') else Inr \<lparr>cpt_label = label, cpt_path = path\<rparr>
           | _ \<Rightarrow> Inl (rule_error rule_id ''an invalid path''))
      | _ \<Rightarrow> Inl CatalogRaises)"

fun load_paths :: "string \<Rightarrow> pyval list \<Rightarrow> catalog_error + catalog_path list" where
  "load_paths rule_id [] = Inr []"
| "load_paths rule_id (v # vs) =
     (case load_path rule_id v of
        Inl e \<Rightarrow> Inl e
      | Inr p \<Rightarrow> (case load_paths rule_id vs of Inl e \<Rightarrow> Inl e | Inr ps \<Rightarrow> Inr (p # ps)))"

definition alias_texts :: "pyval \<Rightarrow> string list option" where
  "alias_texts v =
     (case v of
        PList vs \<Rightarrow> those (map (\<lambda>x. case x of PStr s \<Rightarrow> if s = [] then None else Some s | _ \<Rightarrow> None) vs)
      | _ \<Rightarrow> None)"

definition source_ok :: "string \<Rightarrow> bool option" where
  "source_ok s =
     (case urlsplit s of None \<Rightarrow> None | Some u \<Rightarrow> Some (url_scheme u = ''https'' \<and> url_hostname u \<noteq> None))"

definition load_rule :: "string list \<Rightarrow> pyval \<Rightarrow> catalog_error + catalog_rule" where
  "load_rule seen v =
     (case v of
        PDict rule \<Rightarrow>
          (case dget rule ''id'' of
             PStr rule_id \<Rightarrow>
               if rule_id = [] \<or> rule_id \<in> set seen
               then Inl (CatalogError ''RTSP compatibility catalog has a duplicate or invalid rule ID'')
               else
                 (case alias_texts (dget rule ''manufacturer_aliases'') of
                    None \<Rightarrow> Inl (rule_error rule_id ''invalid aliases'')
                  | Some aliases \<Rightarrow>
                      (case source_ok (text_of rule ''source_url'') of
                         None \<Rightarrow> Inl CatalogRaises
                       | Some False \<Rightarrow> Inl (rule_error rule_id ''invalid provenance'')
                       | Some True \<Rightarrow>
                           (case dget rule ''paths'' of
                              PList paths \<Rightarrow>
                                if paths = [] \<or> max_paths_per_rule < length paths
                                then Inl (rule_error rule_id ''an invalid path count'')
                                else map_sum id (\<lambda>ps. \<lparr>crl_id = rule_id, crl_aliases = aliases,
                                       crl_source = text_of rule ''source_url'', crl_paths = ps\<rparr>) (load_paths rule_id paths)
                            | _ \<Rightarrow> Inl (rule_error rule_id ''an invalid path count''))))
           | _ \<Rightarrow> Inl (CatalogError ''RTSP compatibility catalog has a duplicate or invalid rule ID''))
      | _ \<Rightarrow> Inl CatalogRaises)"

fun load_rules :: "string list \<Rightarrow> pyval list \<Rightarrow> catalog_error + catalog_rule list" where
  "load_rules seen [] = Inr []"
| "load_rules seen (v # vs) =
     (case load_rule seen v of
        Inl e \<Rightarrow> Inl e
      | Inr r \<Rightarrow> (case load_rules (crl_id r # seen) vs of Inl e \<Rightarrow> Inl e | Inr rs \<Rightarrow> Inr (r # rs)))"

definition probe_limit_of :: "pyval \<Rightarrow> nat option" where
  "probe_limit_of v =
     (case v of
        PInt n \<Rightarrow> if 1 \<le> n \<and> n \<le> max_probe_limit then Some (nat n) else None
      | PBool b \<Rightarrow> if b then Some 1 else None
      | _ \<Rightarrow> None)"

definition load_catalog :: "pyval option \<Rightarrow> catalog_error + catalog" where
  "load_catalog document =
     (case document of
        None \<Rightarrow> Inl (CatalogError ''RTSP compatibility catalog could not be loaded'')
      | Some (PDict c) \<Rightarrow>
          (case dget c ''revision'' of
             PStr revision \<Rightarrow>
               if py_strip revision = [] then Inl (CatalogError ''RTSP compatibility catalog has no revision'')
               else
                 (case dget c ''rules'' of
                    PList rules \<Rightarrow>
                      if rules = [] \<or> max_rules < length rules
                      then Inl (CatalogError ''RTSP compatibility catalog has an invalid rule count'')
                      else
                        (case probe_limit_of (dget c ''probe_limit'') of
                           None \<Rightarrow> Inl (CatalogError ''RTSP compatibility catalog has an invalid probe limit'')
                         | Some limit \<Rightarrow>
                             map_sum id (\<lambda>rs. \<lparr>ctl_revision = revision, ctl_limit = limit, ctl_rules = rs\<rparr>) (load_rules [] rules))
                  | _ \<Rightarrow> Inl (CatalogError ''RTSP compatibility catalog has an invalid rule count''))
           | _ \<Rightarrow> Inl (CatalogError ''RTSP compatibility catalog has no revision''))
      | Some _ \<Rightarrow> Inl CatalogRaises)"

subsection \<open>Addresses for a camera\<close>

definition candidate_hints :: "device \<Rightarrow> string" where
  "candidate_hints candidate =
     (let onvif = dsub candidate ''onvif'';
          values = [dget candidate ''display_name'', dget onvif ''name'', dget onvif ''model''] @ dlist onvif ''scopes''
      in py_join '' '' (map (\<lambda>v. py_lower (py_str v)) (filter truthy values)))"

definition ordered_rules :: "string \<Rightarrow> catalog_rule list \<Rightarrow> catalog_rule list" where
  "ordered_rules hints rules =
     (let matches = (\<lambda>r. list_ex (\<lambda>a. contains hints (py_lower a)) (crl_aliases r));
          matching = filter matches rules
      in matching @ filter (\<lambda>r. r \<notin> set matching) rules)"

text \<open>\<open>int(endpoint['port'])\<close>, \<open>None\<close> where it raises.\<close>

definition int_of :: "pyval \<Rightarrow> int option" where
  "int_of v =
     (case v of PInt n \<Rightarrow> Some n | PBool b \<Rightarrow> Some (of_bool b) | PStr s \<Rightarrow> parse_int s | _ \<Rightarrow> None)"

definition candidate_port :: "device \<Rightarrow> int option" where
  "candidate_port candidate =
     (case filter (\<lambda>e. truthy (dget e ''port'')) (dict_items (dlist candidate ''rtsp'')) of
        [] \<Rightarrow> Some 554
      | e # _ \<Rightarrow> int_of (dget e ''port''))"

definition candidate_netloc :: "string \<Rightarrow> int \<Rightarrow> string" where
  "candidate_netloc host port =
     (let netloc = (if CHR '':'' \<in> set host then ''['' @ host @ '']'' else host)
      in if port \<noteq> 554 then netloc @ '':'' @ int_str port else netloc)"

text \<open>The paths with their rules, until the limit is reached.\<close>

fun resolve_paths ::
  "string \<Rightarrow> nat \<Rightarrow> (catalog_rule \<times> catalog_path) list \<Rightarrow> string \<Rightarrow> catalog_candidate list \<Rightarrow> catalog_error + catalog_candidate list" where
  "resolve_paths netloc limit [] revision acc = Inr acc"
| "resolve_paths netloc limit ((r, p) # rps) revision acc =
     (case urlsplit (cpt_path p) of
        None \<Rightarrow> Inl CatalogRaises
      | Some u \<Rightarrow>
          let uri = urlunsplit ''rtsp'' netloc (url_path u) (url_query u) in
          if uri \<in> set (map ccd_uri acc) then resolve_paths netloc limit rps revision acc
          else
            let acc' = acc @ [\<lparr>ccd_label = cpt_label p, ccd_uri = uri, ccd_rule = crl_id r, ccd_revision = revision,
                  ccd_source = crl_source r\<rparr>]
            in if limit \<le> length acc' then Inr acc' else resolve_paths netloc limit rps revision acc')"

definition catalog_candidates :: "device \<Rightarrow> catalog \<Rightarrow> catalog_error + catalog_candidate list" where
  "catalog_candidates candidate c =
     (case candidate_port candidate of
        None \<Rightarrow> Inl CatalogRaises
      | Some port \<Rightarrow>
          let host = text_of candidate ''ip'' in
          if host = [] then Inr []
          else
            resolve_paths (candidate_netloc host port) (ctl_limit c)
              (concat (map (\<lambda>r. map (Pair r) (crl_paths r)) (ordered_rules (candidate_hints candidate) (ctl_rules c))))
              (ctl_revision c) [])"

end
