(* ===== verification/DirectRtsp.thy ===== *)
theory DirectRtsp
  imports ScanQueue Catalog Roles RtspUri Availability
begin

text \<open>
  Cameras that are added by the address of their streams (camadmiral/app.py): which addresses are accepted, what is
  probed, and the adoption of a direct camera and of a discovered one without ONVIF.

  \<open>resolve\<close> is the name service, \<open>probe\<close> is \<open>probe_source\<close> (modelled in Media), \<open>digest\<close> the SHA-256 of a text in
  hexadecimal digits. The reconciliation of the relay and of Frigate that follows an adoption is left out.
\<close>

datatype dns_answer = DnsTimeout | DnsError | DnsAddresses "ipv4 list"

subsection \<open>Permitted addresses\<close>

definition rfc1918_networks :: "ipv4_network list" where
  "rfc1918_networks =
     [mk_network (10 * 16777216) 8, mk_network (172 * 16777216 + 16 * 65536) 12, mk_network (192 * 16777216 + 168 * 65536) 16]"

definition permitted_direct_ipv4 :: "lan_interface list \<Rightarrow> ipv4 \<Rightarrow> bool" where
  "permitted_direct_ipv4 interfaces a \<longleftrightarrow>
     list_ex (in_net a) rfc1918_networks \<and>
     \<not> is_loopback a \<and> \<not> is_link_local a \<and> \<not> is_multicast a \<and> \<not> is_unspecified a \<and>
     list_all (\<lambda>i. a \<noteq> lan_address i \<and> a \<noteq> net_base (lan_network i) \<and> a \<noteq> broadcast (lan_network i)) interfaces"

definition resolve_direct_rtsp_hostname :: "(string \<Rightarrow> dns_answer) \<Rightarrow> string \<Rightarrow> string + ipv4 list" where
  "resolve_direct_rtsp_hostname resolve host =
     (case resolve host of
        DnsTimeout \<Rightarrow> Inl ''The RTSP hostname did not resolve in time.''
      | DnsError \<Rightarrow> Inl ''The RTSP hostname could not be resolved.''
      | DnsAddresses [] \<Rightarrow> Inl ''The RTSP hostname did not resolve to an IPv4 address.''
      | DnsAddresses (a # as) \<Rightarrow> Inr (sort (remdups (a # as))))"

definition label_char :: "char \<Rightarrow> bool" where
  "label_char c = (let n = of_char c :: nat in 97 \<le> n \<and> n \<le> 122 \<or> is_digit c)"

definition dns_name_label :: "string \<Rightarrow> bool" where
  "dns_name_label s \<longleftrightarrow>
     s \<noteq> [] \<and> length s \<le> 63 \<and> label_char (hd s) \<and> label_char (last s) \<and>
     list_all (\<lambda>c. label_char c \<or> c = CHR ''-'') s"

text \<open>\<open>None\<close> is a valid host.\<close>

definition validate_direct_rtsp_host :: "scan_env \<Rightarrow> (string \<Rightarrow> dns_answer) \<Rightarrow> string \<Rightarrow> string option" where
  "validate_direct_rtsp_host env resolve host =
     (let interfaces = connected_lans env in
      case parse_ipv4 host of
        Some a \<Rightarrow>
          if permitted_direct_ipv4 interfaces a then None else Some ''Only private LAN RTSP addresses can be added.''
      | None \<Rightarrow>
          if list_all (\<lambda>c. is_digit c \<or> c = CHR ''.'') host
          then Some ''Enter a valid RTSP hostname or private IPv4 address.''
          else if 253 < length host \<or> \<not> list_all dns_name_label (split_char CHR ''.'' host)
          then Some ''Enter a valid ASCII RTSP hostname.''
          else
            (case resolve_direct_rtsp_hostname resolve host of
               Inl e \<Rightarrow> Some e
             | Inr as \<Rightarrow>
                 if list_all (permitted_direct_ipv4 interfaces) as then None
                 else Some ''The RTSP hostname must resolve only to private LAN addresses.''))"

subsection \<open>Normal form of a stream address\<close>

definition control_char :: "char \<Rightarrow> bool" where
  "control_char c = (let n = of_char c :: nat in n < 32 \<or> n = 127)"

definition ascii_char :: "char \<Rightarrow> bool" where
  "ascii_char c \<longleftrightarrow> (of_char c :: nat) < 128"

definition direct_host :: "string \<Rightarrow> string" where
  "direct_host hostname =
     (let host = py_lower hostname in if endswith host ''.'' then butlast host else host)"

definition normalize_direct_rtsp_url :: "(string \<Rightarrow> string option) \<Rightarrow> string \<Rightarrow> string + string \<times> source_key \<times> string" where
  "normalize_direct_rtsp_url validate v =
     (let entered = py_strip v in
      if entered = [] then Inl ''Enter a complete RTSP URL.''
      else if \<not> contains entered ''://'' then Inl ''Enter a complete RTSP URL. To find a camera by IP, use Scan network.''
      else if CHR 0x5C \<in> set entered \<or> list_ex control_char entered then Inl ''Enter a valid RTSP URL.''
      else
        case urlsplit entered of
          None \<Rightarrow> Inl ''Enter a valid RTSP URL.''
        | Some u \<Rightarrow>
            (case url_port u of
               None \<Rightarrow> Inl ''Enter a valid RTSP URL.''
             | Some given \<Rightarrow>
                 let port = (case given of None \<Rightarrow> 554 | Some n \<Rightarrow> if n = 0 then 554 else n) in
                 case url_hostname u of
                   None \<Rightarrow> Inl ''Stream URLs must start with rtsp:// and include a host.''
                 | Some hostname \<Rightarrow>
                     if py_lower (url_scheme u) \<noteq> ''rtsp''
                     then Inl ''Stream URLs must start with rtsp:// and include a host.''
                     else if url_userinfo u \<noteq> None then Inl ''Enter the username and password in their separate fields.''
                     else if url_fragment u \<noteq> [] then Inl ''RTSP stream URLs cannot include a fragment.''
                     else if port < 1 \<or> 65535 < port then Inl ''Enter a valid RTSP port.''
                     else
                       let host = direct_host hostname in
                       if \<not> list_all ascii_char host then Inl ''Enter a valid ASCII RTSP hostname.''
                       else if host = [] then Inl ''Stream URLs must include a host.''
                       else
                         case validate host of
                           Some e \<Rightarrow> Inl e
                         | None \<Rightarrow>
                             let authority = (if given = None then host else host @ '':'' @ nat_digits port);
                                 path = (if url_path u = [] then ''/'' else url_path u)
                             in Inr (urlunsplit ''rtsp'' authority path (url_query u),
                                     (''rtsp'', host, port, path, url_query u), host)))"

definition normalize_rtsp_url :: "device \<Rightarrow> string \<Rightarrow> string + string" where
  "normalize_rtsp_url candidate v =
     (case normalize_direct_rtsp_url (\<lambda>_. None) v of
        Inl e \<Rightarrow> Inl e
      | Inr (normalized, _, host) \<Rightarrow>
          if py_lower host \<noteq> py_lower (text_of candidate ''ip'')
          then Inl (''The stream URL must use the discovered camera address '' @ text_of candidate ''ip'' @ ''.'')
          else Inr normalized)"

fun normalize_each :: "(string \<Rightarrow> string + 'a) \<Rightarrow> string list \<Rightarrow> string + 'a list" where
  "normalize_each f [] = Inr []"
| "normalize_each f (v # vs) =
     (case f v of
        Inl e \<Rightarrow> Inl e
      | Inr x \<Rightarrow> (case normalize_each f vs of Inl e \<Rightarrow> Inl e | Inr xs \<Rightarrow> Inr (x # xs)))"

subsection \<open>Profiles and probes\<close>

type_synonym source_probe = "string \<Rightarrow> string \<Rightarrow> string \<Rightarrow> probe_result"

definition manual_profile ::
  "(string \<Rightarrow> string) \<Rightarrow> string \<Rightarrow> string \<Rightarrow> probe_result \<Rightarrow> nat \<Rightarrow> catalog_candidate option \<Rightarrow> profile_input" where
  "manual_profile digest label uri r position entry =
     \<lparr>pin_token = ''manual-'' @ take 20 (digest uri),
      pin_name = Some (if py_strip label = [] then ''Stream '' @ nat_digits position else py_strip label),
      pin_width = Some (pr_width r), pin_height = Some (pr_height r),
      pin_encoding = Some (py_upper_ascii (case pr_vcodec r of None \<Rightarrow> [] | Some c \<Rightarrow> c)),
      pin_fps = Some (pr_fps r), pin_bitrate = Some 0, pin_uri = Some uri,
      pin_kind = Some (case entry of None \<Rightarrow> ''manual_rtsp'' | Some _ \<Rightarrow> ''catalog_rtsp''),
      pin_cat_revision = map_option ccd_revision entry, pin_cat_rule = map_option ccd_rule entry,
      pin_cat_url = map_option ccd_source entry\<rparr>"

definition media_profile_of :: "profile_input \<Rightarrow> media_profile" where
  "media_profile_of p =
     \<lparr>mp_token = Some (pin_token p), mp_uri = pin_uri p, mp_encoding = pin_encoding p, mp_width = pin_width p,
      mp_height = pin_height p, mp_bitrate = pin_bitrate p, mp_fps = pin_fps p\<rparr>"

definition role_tokens :: "profile_input list \<Rightarrow> (role \<times> string) list" where
  "role_tokens ps =
     (case select_stream_roles (map media_profile_of ps) of
        None \<Rightarrow> [] | Some r \<Rightarrow> [(Record, rol_record r), (Detect, rol_detect r)])"

definition probe_exact_sources :: "source_probe \<Rightarrow> string list \<Rightarrow> string \<Rightarrow> string \<Rightarrow> probe_result list" where
  "probe_exact_sources probe uris username password = map (\<lambda>uri. probe uri username password) uris"

definition probe_catalog_sources :: "source_probe \<Rightarrow> string list \<Rightarrow> string \<Rightarrow> string \<Rightarrow> probe_result list" where
  "probe_catalog_sources probe uris username password =
     (case uris of
        [] \<Rightarrow> []
      | uri # rest \<Rightarrow>
          let r = probe uri username password in
          if pr_status r = ''auth_failed'' \<or> rest = [] then [r]
          else r # probe_exact_sources probe rest username password)"

definition rejected_sources :: "probe_result list \<Rightarrow> (nat \<times> string) list" where
  "rejected_sources rs =
     concat (map (\<lambda>(i, r). if pr_status r = ''ready'' then [] else [(Suc i, pr_status r)]) (enumerate 0 rs))"

definition auth_rejected :: "probe_result list \<Rightarrow> bool" where
  "auth_rejected rs \<longleftrightarrow> list_ex (\<lambda>r. pr_status r = ''auth_failed'') rs"

subsection \<open>A camera by its stream addresses\<close>

datatype adoption_reply =
    InvalidName
  | InvalidSource string
  | DifferentHosts
  | DuplicateSource
  | SourcesRejected bool "(nat \<times> string) list"
  | SourceTaken string string
  | CandidateUnknown
  | CandidateOffline
  | CatalogUnavailable
  | CatalogBroken
  | FactoryCredentials
  | InspectionFailed string
  | NoUsableStreams
  | AdoptionFailed repo_error
  | Adopted "adoption option"

definition adoption_result :: "db \<Rightarrow> repo_error + adoption option \<times> db \<Rightarrow> adoption_reply \<times> db" where
  "adoption_result d r =
     (case r of
        Inl (SourceAlreadyAssignedError c name) \<Rightarrow> (SourceTaken c name, d)
      | Inl e \<Rightarrow> (AdoptionFailed e, d)
      | Inr (a, d') \<Rightarrow> (Adopted a, d'))"

definition create_direct_rtsp_camera ::
  "scan_env \<Rightarrow> (string \<Rightarrow> dns_answer) \<Rightarrow> source_probe \<Rightarrow> (string \<Rightarrow> string) \<Rightarrow> (string \<Rightarrow> string \<Rightarrow> string) \<Rightarrow>
   string \<Rightarrow> (string \<times> string) list \<Rightarrow> string \<Rightarrow> string \<Rightarrow> timestamp \<Rightarrow> db \<Rightarrow> adoption_reply \<times> db" where
  "create_direct_rtsp_camera env resolve probe digest enc name srcs username password t d =
     (let display_name = py_strip name in
      if display_name = [] then (InvalidName, d)
      else
        case normalize_each (normalize_direct_rtsp_url (validate_direct_rtsp_host env resolve)) (map snd srcs) of
          Inl e \<Rightarrow> (InvalidSource e, d)
        | Inr normalized \<Rightarrow>
            let keys = map (\<lambda>(_, key, _). key) normalized;
                hosts = map (\<lambda>(_, _, host). host) normalized;
                uris = map fst normalized
            in if length (remdups hosts) \<noteq> 1 then (DifferentHosts, d)
               else if \<not> distinct keys then (DuplicateSource, d)
               else
                 let user = py_strip username;
                     results = probe_exact_sources probe uris user password;
                     rejected = rejected_sources results
                 in if rejected \<noteq> [] then (SourcesRejected (auth_rejected results) rejected, d)
                    else
                      let found_profiles = map (\<lambda>(i, (label, _), uri, r). manual_profile digest label uri r (Suc i) None)
                            (enumerate 0 (zip srcs (zip uris results)));
                          (u, d1) = new_uuid d;
                          candidate = [(''candidate_uuid'', PStr (''direct-rtsp:'' @ u)), (''display_name'', PStr display_name),
                            (''ip'', PStr (hd hosts))]
                      in adoption_result d (adopt enc candidate user password found_profiles (role_tokens found_profiles) Direct keys t d1))"

subsection \<open>A discovered camera by its stream addresses\<close>

definition find_candidate :: "string \<Rightarrow> worker \<Rightarrow> db \<Rightarrow> device option" where
  "find_candidate c w d =
     (let devices = dict_items (dlist (read_or [(''devices'', PList [])] (wkr_inventory w)) ''devices'') in
      case find (\<lambda>x. dget x ''candidate_uuid'' = PStr c) devices of
        Some x \<Rightarrow> Some x
      | None \<Rightarrow>
          (case adoption_for_candidate c d of
             None \<Rightarrow> None
           | Some a \<Rightarrow>
               (case linked_candidate (cam_uuid (ad_camera a)) c
                       (fold (\<lambda>x. AList.update (id_text x) x) devices []) d of
                  None \<Rightarrow> None
                | Some [] \<Rightarrow> None
                | Some x \<Rightarrow> Some (dset ''candidate_uuid'' (PStr c) x))))"

definition media_key :: "profile_input \<Rightarrow> string option \<times> int option \<times> int option \<times> rat" where
  "media_key p = (pin_encoding p, pin_width p, pin_height p, round_to 2 (or_zero (pin_fps p)))"

fun first_by :: "('a \<Rightarrow> 'b) \<Rightarrow> 'a list \<Rightarrow> 'b list \<Rightarrow> 'a list" where
  "first_by key [] seen = []"
| "first_by key (x # xs) seen =
     (if key x \<in> set seen then first_by key xs seen else x # first_by key xs (key x # seen))"

text \<open>Labels, addresses and catalogue entries of the probes that were made, with their results.\<close>

definition ready_profiles ::
  "(string \<Rightarrow> string) \<Rightarrow> (string \<times> string \<times> catalog_candidate option) list \<Rightarrow> probe_result list \<Rightarrow> profile_input list" where
  "ready_profiles digest srcs results =
     concat (map (\<lambda>(i, (label, uri, entry), r).
         if pr_status r = ''ready'' then [manual_profile digest label uri r (Suc i) entry] else [])
       (enumerate 0 (zip srcs results)))"

definition rtsp_sources ::
  "catalog_error + catalog \<Rightarrow> device \<Rightarrow> (string \<times> string) list \<Rightarrow> adoption_reply + (string \<times> string \<times> catalog_candidate option) list" where
  "rtsp_sources loaded candidate srcs =
     (if srcs = [] then
        (case loaded of
           Inl (CatalogError _) \<Rightarrow> Inl CatalogUnavailable
         | Inl CatalogRaises \<Rightarrow> Inl CatalogBroken
         | Inr c \<Rightarrow>
             (case catalog_candidates candidate c of
                Inl _ \<Rightarrow> Inl CatalogBroken
              | Inr entries \<Rightarrow> Inr (map (\<lambda>e. (ccd_label e, ccd_uri e, Some e)) entries)))
      else
        (case normalize_each (normalize_rtsp_url candidate) (map snd srcs) of
           Inl e \<Rightarrow> Inl (InvalidSource e)
         | Inr normalized \<Rightarrow>
             if \<not> distinct normalized then Inl DuplicateSource
             else Inr (map (\<lambda>((label, _), uri). (label, uri, None)) (zip srcs normalized))))"

definition adopt_rtsp_candidate ::
  "(catalog_error + catalog) \<Rightarrow> source_probe \<Rightarrow> (string \<Rightarrow> string) \<Rightarrow> (string \<Rightarrow> string \<Rightarrow> string) \<Rightarrow> string \<Rightarrow> string \<Rightarrow>
   (string \<times> string) list \<Rightarrow> string \<Rightarrow> string \<Rightarrow> timestamp \<Rightarrow> worker \<Rightarrow> db \<Rightarrow> adoption_reply \<times> db" where
  "adopt_rtsp_candidate loaded probe digest enc c name srcs username password t w d =
     (case find_candidate c w d of
        None \<Rightarrow> (CandidateUnknown, d)
      | Some candidate \<Rightarrow>
          if dget candidate ''status'' \<noteq> PStr ''online'' then (CandidateOffline, d)
          else
            case rtsp_sources loaded candidate srcs of
              Inl e \<Rightarrow> (e, d)
            | Inr found \<Rightarrow>
                let user = py_strip username;
                    uris = map (\<lambda>(_, uri, _). uri) found;
                    results = (if srcs = [] then probe_catalog_sources probe uris user password
                               else probe_exact_sources probe uris user password);
                    ready = ready_profiles digest found results;
                    found_profiles = (if srcs = [] then first_by media_key ready [] else ready)
                in if found_profiles = [] then (SourcesRejected (auth_rejected results) (rejected_sources results), d)
                   else
                     let adopted = dset ''display_name''
                           (py_or (PStr (py_strip name)) (py_or (dget candidate ''display_name'') (dget candidate ''ip''))) candidate
                     in adoption_result d (adopt enc adopted user password found_profiles (role_tokens found_profiles) Discovery [] t d))"

subsection \<open>A discovered camera by ONVIF\<close>

text \<open>\<open>inspect\<close> is the ONVIF inspection of the device; its error is a code.\<close>

definition factory_credentials :: "string \<Rightarrow> string \<Rightarrow> bool" where
  "factory_credentials username password \<longleftrightarrow> py_lower username = ''admin'' \<and> password = ''admin''"

definition adopt_candidate ::
  "(device \<Rightarrow> (string \<times> string) option \<Rightarrow> string + profile_input list) \<Rightarrow> (string \<Rightarrow> string \<Rightarrow> string) \<Rightarrow> string \<Rightarrow> string \<Rightarrow>
   string \<Rightarrow> bool \<Rightarrow> timestamp \<Rightarrow> worker \<Rightarrow> db \<Rightarrow> adoption_reply \<times> db" where
  "adopt_candidate inspect enc c username password allow_factory t w d =
     (case find_candidate c w d of
        None \<Rightarrow> (CandidateUnknown, d)
      | Some candidate \<Rightarrow>
          if dget candidate ''status'' \<noteq> PStr ''online'' then (CandidateOffline, d)
          else
            let submitted = py_strip username;
                factory = factory_credentials submitted password;
                user = (if allow_factory then ''admin'' else submitted);
                secret = (if allow_factory then ''admin'' else password)
            in case inspect candidate (if user = [] then None else Some (user, secret)) of
                 Inl code \<Rightarrow>
                   (if code = ''credentials_required'' \<and> \<not> allow_factory \<and> \<not> factory
                       \<and> (case inspect candidate (Some (''admin'', ''admin'')) of Inl _ \<Rightarrow> False | Inr _ \<Rightarrow> True)
                    then FactoryCredentials else InspectionFailed code, d)
               | Inr found_profiles \<Rightarrow>
                   if factory \<and> \<not> allow_factory then (FactoryCredentials, d)
                   else if role_tokens found_profiles = [] then (NoUsableStreams, d)
                   else adoption_result d (adopt enc candidate user secret found_profiles (role_tokens found_profiles) Discovery [] t d))"

end
