(* ===== verification/DirectRtspProps.thy ===== *)
theory DirectRtspProps
  imports DirectRtsp LanProps
begin

text \<open>
  Addresses that the program builds name the host they should and nothing else: the addresses of the catalogue, and the
  stream addresses that the operator enters.
\<close>

subsection \<open>Addresses that are built\<close>

definition solid :: "string \<Rightarrow> bool" where
  "solid s \<longleftrightarrow> list_all (\<lambda>c. \<not> special c) s"

lemma solid_plain: "solid h \<Longrightarrow> plain_host h \<and> CHR ''@'' \<notin> set h \<and> CHR ''%'' \<notin> set h"
  by (auto simp: solid_def plain_host_def list_all_iff special_def)

lemma solid_url: "solid s \<Longrightarrow> list_all url_char s \<and> list_all (Not \<circ> netloc_end) s"
  by (auto simp: solid_def list_all_iff special_def)

text \<open>What an address of a host with an optional port, a path and a query splits into.\<close>

lemma built_address:
  assumes "h \<noteq> []" "solid h" "py_lower h = h" "tail = [] \<or> (\<exists>x. tail = CHR '':'' # x \<and> solid x)"
    and "list_all url_char (p @ q)" "CHR ''?'' \<notin> set p" "CHR ''#'' \<notin> set (p @ q)"
  shows "\<exists>u. urlsplit (urlunsplit ''rtsp'' (h @ tail) p q) = Some u \<and> url_scheme u = ''rtsp'' \<and> url_netloc u = h @ tail \<and>
    url_hostname u = Some h \<and> snd (host_and_port u) = drop 1 tail \<and> url_userinfo u = None \<and>
    url_path u = (if p = [] \<or> hd p = CHR ''/'' then p else CHR ''/'' # p) \<and> url_query u = q \<and> url_fragment u = []"
proof -
  let ?p = "if p = [] \<or> hd p = CHR ''/'' then p else CHR ''/'' # p"
  let ?u = "\<lparr>url_scheme = ''rtsp'', url_netloc = h @ tail, url_path = ?p, url_query = q, url_fragment = []\<rparr>"
  have colon: "\<not> netloc_end CHR '':''" "url_char CHR '':''" "url_char CHR ''/''" by (simp_all add: netloc_end_def url_char_def)
  have tail: "list_all url_char tail" "list_all (Not \<circ> netloc_end) tail" "x \<notin> set tail"
    if "special x" "x \<noteq> CHR '':''" for x
    using assms(4) colon solid_url that by (auto simp: list_all_iff solid_def)
  have outh: "x \<notin> set h" if "special x" for x using assms(2) that by (auto simp: solid_def list_all_iff)
  have specials: "special CHR ''@''" "special CHR ''[''" "special CHR '']''" "special CHR '':''" by (simp_all add: special_def)
  have scheme: "py_lower ''rtsp'' = ''rtsp''" "list_all scheme_char ''rtsp''" "list_all url_char ''rtsp''" "is_alpha_ascii CHR ''r''" by code_simp+
  have "url_ok ?u"
    using assms(5-7) solid_url [OF assms(2)] tail [OF specials(1)] colon scheme
    by (auto simp: url_ok_def)
  have out: "x \<notin> set (h @ tail)" if "special x" "x \<noteq> CHR '':''" for x using outh [OF that(1)] tail(3) [OF that] by simp
  have net: "netloc_ok (h @ tail)" using out [OF specials(2)] out [OF specials(3)] by (simp add: netloc_ok_def)
  have "urlunsplit ''rtsp'' (h @ tail) p q = urlunsplit ''rtsp'' (h @ tail) ?p q"
    using assms(1) by (simp add: urlunsplit_def)
  then have split: "urlsplit (urlunsplit ''rtsp'' (h @ tail) p q) = Some ?u"
    using urlsplit_urlunsplit [OF \<open>url_ok ?u\<close>] net assms(1) by simp
  have info: "hostinfo_of (h @ tail) = h @ tail" "rpartition_char CHR ''@'' (h @ tail) = ([], False, h @ tail)"
    using out [OF specials(1)] by (simp_all add: hostinfo_of_def rpartition_char_def partition_char_absent)
  have bracket: "partition_char CHR ''['' (h @ tail) = (h @ tail, False, [])"
    using out [OF specials(2)] by (intro partition_char_absent) simp
  have "CHR '':'' \<notin> set h" using outh [OF specials(4)] .
  then have port: "partition_char CHR '':'' (h @ tail) = (h, tail \<noteq> [], drop 1 tail)"
    using assms(4) by (auto simp: partition_char_absent partition_char_at)
  have hp: "host_and_port ?u = (h, drop 1 tail)"
    unfolding host_and_port_def url.select_convs info(1) bracket prod.case bool.case port ..
  have "partition_char CHR ''%'' h = (h, False, [])" using solid_plain [OF assms(2)] by (intro partition_char_absent) simp
  then have "url_hostname ?u = Some h" using assms(1,3) by (simp add: url_hostname_def hp)
  moreover have "url_userinfo ?u = None" by (simp add: url_userinfo_def info(2))
  ultimately show ?thesis using split hp by (intro exI [of _ ?u]) simp
qed

lemma digits_solid_host: "solid (nat_digits n)"
  using digits_plain by (auto simp: solid_def list_all_iff)

lemma digit_lower: "is_digit c \<Longrightarrow> lower_char c = c"
  by (auto simp: is_digit_def lower_char_def lower_code_def Let_def)

lemma ipv4_str_chars: "list_all (\<lambda>c. is_digit c \<or> c = CHR ''.'') (ipv4_str a)"
  using nat_digits_all by (auto simp: ipv4_str_def octets_def py_join_def list_all_iff simp del: nat_digits.simps)

lemma ipv4_str_host: "solid (ipv4_str a) \<and> py_lower (ipv4_str a) = ipv4_str a \<and> ipv4_str a \<noteq> []"
proof -
  have dot: "\<not> special CHR ''.''" "lower_char CHR ''.'' = CHR ''.''" by code_simp+
  have digit: "\<not> special c" if "is_digit c" for c
    using that by (auto simp: is_digit_def special_def netloc_end_def url_char_def Let_def)
  have "solid (ipv4_str a)" using ipv4_str_chars [of a] dot(1) digit by (auto simp: solid_def list_all_iff)
  moreover have "py_lower (ipv4_str a) = ipv4_str a"
    unfolding py_lower_def using ipv4_str_chars [of a] dot(2) digit_lower by (intro map_idI) (auto simp: list_all_iff)
  moreover have "ipv4_str a \<noteq> []" by (simp add: ipv4_str_def octets_def py_join_def del: nat_digits.simps)
  ultimately show ?thesis by blast
qed

subsection \<open>Hosts that are accepted\<close>

lemma split_char_chars: "c \<in> set s \<Longrightarrow> c \<noteq> d \<Longrightarrow> \<exists>w \<in> set (split_char d s). c \<in> set w"
  by (induction s) (auto split: list.splits)

lemma split_char_end: "[] \<notin> set (tl (split_char d s)) \<Longrightarrow> s = [] \<or> last s \<noteq> d"
proof (induction s)
  case (Cons x s)
  obtain w ws where w: "split_char d s = w # ws" using split_char_nonempty [of d s] by (cases "split_char d s") auto
  show ?case
  proof (cases "x = d")
    case True
    then have "[] \<notin> set (w # ws)" using Cons.prems w by simp
    then have "s \<noteq> []" "last s \<noteq> d" using Cons.IH w by (cases s; auto)+
    then show ?thesis by simp
  next
    case False
    then have "s = [] \<or> last s \<noteq> d" using Cons w by simp
    then show ?thesis using False by auto
  qed
qed simp

definition host_char :: "char \<Rightarrow> bool" where
  "host_char c \<longleftrightarrow> label_char c \<or> c = CHR ''-'' \<or> c = CHR ''.''"

lemma host_char_solid: "list_all host_char h \<Longrightarrow> solid h \<and> py_lower h = h"
proof -
  have mark: "\<not> special CHR ''-''" "\<not> special CHR ''.''" "lower_char CHR ''-'' = CHR ''-''" "lower_char CHR ''.'' = CHR ''.''"
    by code_simp+
  have label: "\<not> special c \<and> lower_char c = c" if "label_char c" for c
    using that by (auto simp: label_char_def is_digit_def special_def netloc_end_def url_char_def lower_char_def lower_code_def Let_def)
  assume "list_all host_char h"
  then show ?thesis
    using mark label by (auto simp: solid_def host_char_def list_all_iff py_lower_def intro!: map_idI)
qed

lemma split_host:
  assumes "list_all (\<lambda>w. w \<noteq> [] \<and> list_all (\<lambda>c. label_char c \<or> c = CHR ''-'') w) (split_char CHR ''.'' h)"
  shows "list_all host_char h \<and> (h = [] \<or> last h \<noteq> CHR ''.'')"
proof -
  have "host_char c" if "c \<in> set h" for c
    using split_char_chars [OF that, of "CHR ''.''"] assms by (auto simp: host_char_def list_all_iff)
  moreover have "[] \<notin> set (tl (split_char CHR ''.'' h))"
    using assms split_char_nonempty [of "CHR ''.''" h] by (cases "split_char CHR ''.'' h") (auto simp: list_all_iff)
  ultimately show ?thesis using split_char_end [of "CHR ''.''" h] by (auto simp: list_all_iff)
qed

definition permitted_host :: "scan_env \<Rightarrow> (string \<Rightarrow> dns_answer) \<Rightarrow> string \<Rightarrow> bool" where
  "permitted_host env resolve host \<longleftrightarrow>
     (case parse_ipv4 host of
        Some a \<Rightarrow> permitted_direct_ipv4 (connected_lans env) a
      | None \<Rightarrow>
          (case resolve host of
             DnsAddresses as \<Rightarrow> as \<noteq> [] \<and> list_all (permitted_direct_ipv4 (connected_lans env)) as
           | _ \<Rightarrow> False))"

lemma valid_host:
  assumes "validate_direct_rtsp_host env resolve h = None"
  shows "list_all host_char h \<and> (h = [] \<or> last h \<noteq> CHR ''.'') \<and> permitted_host env resolve h"
proof (cases "parse_ipv4 h")
  case (Some a)
  then have "permitted_direct_ipv4 (connected_lans env) a"
    using assms by (simp add: validate_direct_rtsp_host_def Let_def split: if_splits)
  moreover have "list_all (\<lambda>w. parse_octet w \<noteq> None) (split_char CHR ''.'' h)"
    using Some by (auto simp: parse_ipv4_def list_all_iff split: list.splits option.splits)
  then have "list_all (\<lambda>w. w \<noteq> [] \<and> list_all (\<lambda>c. label_char c \<or> c = CHR ''-'') w) (split_char CHR ''.'' h)"
    by (auto simp: list_all_iff parse_octet_def label_char_def Let_def split: if_splits)
  ultimately show ?thesis using split_host Some by (auto simp: permitted_host_def)
next
  case None
  then have labels: "list_all dns_name_label (split_char CHR ''.'' h)"
    using assms by (auto simp: validate_direct_rtsp_host_def Let_def split: if_splits)
  obtain as where r: "resolve_direct_rtsp_hostname resolve h = Inr as" "list_all (permitted_direct_ipv4 (connected_lans env)) as"
    using assms None by (auto simp: validate_direct_rtsp_host_def Let_def split: if_splits sum.splits)
  have "permitted_host env resolve h"
    using r None by (auto simp: permitted_host_def resolve_direct_rtsp_hostname_def list_all_iff split: dns_answer.splits list.splits)
  moreover have "list_all (\<lambda>w. w \<noteq> [] \<and> list_all (\<lambda>c. label_char c \<or> c = CHR ''-'') w) (split_char CHR ''.'' h)"
    using labels by (auto simp: list_all_iff dns_name_label_def)
  ultimately show ?thesis using split_host by blast
qed

lemma normalized_address:
  assumes "normalize_direct_rtsp_url validate v = Inr (uri, key, host)"
  obtains u given port path where
    "urlsplit (py_strip v) = Some u" "url_port u = Some given" "port = (case given of None \<Rightarrow> 554 | Some n \<Rightarrow> if n = 0 then 554 else n)"
    "1 \<le> port" "port \<le> 65535" "host \<noteq> []" "validate host = None" "path = (if url_path u = [] then ''/'' else url_path u)"
    "uri = urlunsplit ''rtsp'' (host @ (if given = None then [] else CHR '':'' # nat_digits port)) path (url_query u)"
    "key = (''rtsp'', host, port, path, url_query u)" "url_netloc u \<noteq> []"
    "CHR 0x5C \<notin> set (py_strip v)" "\<not> list_ex control_char (py_strip v)"
proof -
  obtain u where u: "urlsplit (py_strip v) = Some u"
    using assms by (auto simp: normalize_direct_rtsp_url_def Let_def split: if_splits option.splits)
  obtain given where given: "url_port u = Some given"
    using assms u by (auto simp: normalize_direct_rtsp_url_def Let_def split: if_splits option.splits)
  obtain hn where hn: "url_hostname u = Some hn"
    using assms u given by (auto simp: normalize_direct_rtsp_url_def Let_def split: if_splits option.splits)
  define port where port: "port = (case given of None \<Rightarrow> 554 | Some n \<Rightarrow> if n = 0 then 554 else n)"
  define path where path: "path = (if url_path u = [] then ''/'' else url_path u)"
  note x = assms [unfolded normalize_direct_rtsp_url_def Let_def u given hn option.case, folded port path]
  have facts: "CHR 0x5C \<notin> set (py_strip v)" "\<not> list_ex control_char (py_strip v)" "1 \<le> port" "port \<le> 65535"
    "host = direct_host hn" "host \<noteq> []" "validate host = None" "key = (''rtsp'', host, port, path, url_query u)"
    "uri = urlunsplit ''rtsp'' (if given = None then host else host @ '':'' @ nat_digits port) path (url_query u)"
    using x by (auto split: if_splits option.splits)
  have "url_netloc u \<noteq> []"
    using hn by (auto simp: url_hostname_def host_and_port_def hostinfo_of_def rpartition_char_def Let_def)
  moreover have "(if given = None then host else host @ '':'' @ nat_digits port) =
      host @ (if given = None then [] else CHR '':'' # nat_digits port)" by simp
  ultimately show thesis using that [OF u given port facts(3,4,6,7) path _ facts(8) _ facts(1,2)] facts(9) by simp
qed

subsection \<open>The address of a direct camera\<close>

lemma urlsplit_chars:
  assumes "urlsplit s = Some u"
  shows "set (url_path u) \<subseteq> set s \<and> set (url_query u) \<subseteq> set s"
proof -
  obtain scheme s1 where s1: "split_scheme (clean_url s) = (scheme, s1)" by (cases "split_scheme (clean_url s)")
  define s2 where "s2 = (if startswith s1 ''//'' then dropWhile (Not \<circ> netloc_end) (drop 2 s1) else s1)"
  obtain s3 f3 fragment where s3: "partition_char CHR ''#'' s2 = (s3, f3, fragment)" by (cases "partition_char CHR ''#'' s2")
  obtain path f4 query where s4: "partition_char CHR ''?'' s3 = (path, f4, query)" by (cases "partition_char CHR ''?'' s3")
  have u: "url_path u = path" "url_query u = query"
    using assms s1 s3 s4 by (auto simp: urlsplit_def Let_def s2_def split: if_splits)
  have "set s1 \<subseteq> set s"
    using split_scheme_ok [OF s1] by (auto simp: clean_url_def dest!: subsetD dest: set_dropWhileD)
  moreover have "set s2 \<subseteq> set s1" by (auto simp: s2_def dest: set_dropWhileD in_set_dropD)
  moreover have "set s3 \<subseteq> set s2" "set path \<subseteq> set s3" "set query \<subseteq> set s3"
    using partition_char_set [OF s3] partition_char_set [OF s4] by simp_all
  ultimately show ?thesis unfolding u by (meson subset_trans)
qed

lemma host_char_plain: "list_all host_char h \<Longrightarrow> c \<in> set h \<Longrightarrow> ascii_char c \<and> \<not> control_char c \<and> c \<noteq> CHR 0x5C"
proof -
  assume h: "list_all host_char h" "c \<in> set h"
  have mark: "ascii_char CHR ''-'' \<and> \<not> control_char CHR ''-''" "ascii_char CHR ''.'' \<and> \<not> control_char CHR ''.''" by code_simp+
  have label: "ascii_char c \<and> \<not> control_char c \<and> c \<noteq> CHR 0x5C" if "label_char c"
    using that by (auto simp: label_char_def is_digit_def ascii_char_def control_char_def Let_def)
  have "host_char c" using h by (simp add: list_all_iff)
  then show ?thesis using mark label by (auto simp: host_char_def)
qed

lemma host_kept: "list_all host_char h \<Longrightarrow> last h \<noteq> CHR ''.'' \<Longrightarrow> h \<noteq> [] \<Longrightarrow> direct_host h = h \<and> strip_dots (py_lower h) = h"
proof -
  assume h: "list_all host_char h" "last h \<noteq> CHR ''.''" "h \<noteq> []"
  then obtain g x where g: "h = g @ [x]" "x \<noteq> CHR ''.''" by (cases h rule: rev_cases) auto
  then show ?thesis using host_char_solid [OF h(1)] by (auto simp: direct_host_def endswith_def strip_dots_def suffix_def Let_def)
qed

text \<open>What an accepted address splits into.\<close>

lemma accepted_address:
  assumes "normalize_direct_rtsp_url (validate_direct_rtsp_host env resolve) v = Inr (uri, key, host)"
  obtains w given port where
    "urlsplit uri = Some w" "url_scheme w = ''rtsp''" "url_hostname w = Some host" "url_userinfo w = None" "url_fragment w = []"
    "url_port w = Some given" "port = (case given of None \<Rightarrow> 554 | Some n \<Rightarrow> if n = 0 then 554 else n)"
    "1 \<le> port" "port \<le> 65535" "key = (''rtsp'', host, port, url_path w, url_query w)" "url_path w \<noteq> []"
    "uri = urlunsplit ''rtsp'' (if given = None then host else host @ '':'' @ nat_digits port) (url_path w) (url_query w)"
    "set (url_path w) \<union> set (url_query w) \<subseteq> {CHR ''/''} \<union> set (py_strip v)"
    "CHR 0x5C \<notin> set (py_strip v)" "\<not> list_ex control_char (py_strip v)" "host \<noteq> []"
    "list_all host_char host" "last host \<noteq> CHR ''.''" "permitted_host env resolve host"
    "validate_direct_rtsp_host env resolve host = None"
proof -
  obtain u given port path where u: "urlsplit (py_strip v) = Some u" "url_port u = Some given"
    and port: "port = (case given of None \<Rightarrow> 554 | Some n \<Rightarrow> if n = 0 then 554 else n)" "1 \<le> port" "port \<le> 65535"
    and host: "host \<noteq> []" "validate_direct_rtsp_host env resolve host = None"
    and path: "path = (if url_path u = [] then ''/'' else url_path u)"
    and uri: "uri = urlunsplit ''rtsp'' (host @ (if given = None then [] else CHR '':'' # nat_digits port)) path (url_query u)"
    and key: "key = (''rtsp'', host, port, path, url_query u)" and net: "url_netloc u \<noteq> []"
    and clean: "CHR 0x5C \<notin> set (py_strip v)" "\<not> list_ex control_char (py_strip v)"
    using normalized_address [OF assms] .
  let ?tail = "if given = None then [] else CHR '':'' # nat_digits port"
  note good = valid_host [OF host(2)]
  have ok: "url_ok u" using urlsplit_ok [OF u(1)] by blast
  have slash: "url_char CHR ''/''" by (simp add: url_char_def)
  have pq: "list_all url_char (path @ url_query u)" "CHR ''?'' \<notin> set path" "CHR ''#'' \<notin> set (path @ url_query u)"
    using ok path slash by (auto simp: url_ok_def)
  have first: "path \<noteq> []" "hd path = CHR ''/''" using ok net path by (auto simp: url_ok_def)
  have tail: "?tail = [] \<or> (\<exists>x. ?tail = CHR '':'' # x \<and> solid x)" using digits_solid_host by auto
  obtain w where w: "urlsplit uri = Some w" "url_scheme w = ''rtsp''" "url_hostname w = Some host" "url_userinfo w = None"
    "url_fragment w = []" "snd (host_and_port w) = drop 1 ?tail" "url_path w = path" "url_query w = url_query u"
    using built_address [of host ?tail path "url_query u"] host(1) host_char_solid good tail pq first unfolding uri by auto
  let ?given = "if given = None then None else Some port"
  have "url_port w = Some ?given"
    using w(6) port(3) nat_digits_all [of port] by (simp add: url_port_def Let_def digits_val_nat_digits del: nat_digits.simps)
  moreover have "port = (case ?given of None \<Rightarrow> 554 | Some n \<Rightarrow> if n = 0 then 554 else n)" using port by auto
  moreover have "uri = urlunsplit ''rtsp'' (if ?given = None then host else host @ '':'' @ nat_digits port) (url_path w) (url_query w)"
    using uri w(7,8) by auto
  moreover have "set (url_path w) \<union> set (url_query w) \<subseteq> {CHR ''/''} \<union> set (py_strip v)"
    using urlsplit_chars [OF u(1)] w(7,8) path by auto
  ultimately show thesis
    using that [OF w(1-5) _ _ port(2,3)] w(7,8) key first(1) clean host good by simp
qed

text \<open>
  C16: an address that is accepted for a direct camera is an RTSP address of the host that was checked and carries no
  credentials and no fragment. The host is a permitted private address, or a name of which every address that the name
  service gives is one. The key that detects duplicates is the one that the repository computes for the stored address,
  and the stored address is accepted again with the same result unless blanks at its end are lost.
\<close>

theorem direct_address_is_private:
  assumes "normalize_direct_rtsp_url (validate_direct_rtsp_host env resolve) v = Inr (uri, key, host)"
  shows "(case urlsplit uri of
            None \<Rightarrow> False
          | Some u \<Rightarrow> url_scheme u = ''rtsp'' \<and> url_hostname u = Some host \<and> url_userinfo u = None \<and> url_fragment u = [])
       \<and> permitted_host env resolve host \<and> rtsp_source_key uri = Some key
       \<and> (py_strip uri = uri \<longrightarrow>
            normalize_direct_rtsp_url (validate_direct_rtsp_host env resolve) uri = Inr (uri, key, host))"
  using assms
proof (cases rule: accepted_address)
  case (1 w given port)
  have scheme: "py_lower ''rtsp'' = ''rtsp''" "list_all (\<lambda>c. ascii_char c \<and> \<not> control_char c \<and> c \<noteq> CHR 0x5C) ''rtsp://:?''"
    by code_simp+
  have key: "rtsp_source_key uri = Some key"
    using 1(1-11) scheme(1) host_kept [OF 1(17,18,16)] by (simp add: rtsp_source_key_def)
  have chars: "c \<in> set ''rtsp://:?'' \<or> c \<in> set host \<or> c \<in> set (nat_digits port) \<or> c \<in> set (py_strip v)"
    if "c \<in> set uri" for c
    using that 1(13) unfolding 1(12) by (auto simp: urlunsplit_def Let_def simp del: nat_digits.simps split: if_splits)
  have digit: "\<not> control_char c \<and> c \<noteq> CHR 0x5C" if "c \<in> set (nat_digits port)" for c
    using digits_plain [OF that] by (auto simp: is_digit_def control_char_def Let_def)
  have clean: "\<not> control_char c \<and> c \<noteq> CHR 0x5C" if "c \<in> set uri" for c
    using chars [OF that] scheme(2) host_char_plain [OF 1(17)] digit 1(14,15) by (auto simp: list_all_iff list_ex_iff)
  have again: "normalize_direct_rtsp_url (validate_direct_rtsp_host env resolve) uri = Inr (uri, key, host)" if s: "py_strip uri = uri"
  proof -
    have "\<exists>rest. uri = ''rtsp'' @ ''://'' @ rest" unfolding 1(12) using 1(16) by (simp add: urlunsplit_def Let_def)
    then have "contains uri ''://''" unfolding contains_sublist sublist_def by blast
    moreover have "CHR 0x5C \<notin> set uri" "\<not> list_ex control_char uri" using clean by (auto simp: list_ex_iff)
    moreover have "list_all ascii_char host" using host_char_plain [OF 1(17)] by (auto simp: list_all_iff)
    moreover have "uri \<noteq> []" using 1(12) by (simp add: urlunsplit_def Let_def)
    ultimately show ?thesis
      using 1 scheme(1) host_kept [OF 1(17,18,16)] s by (simp add: normalize_direct_rtsp_url_def Let_def)
  qed
  show ?thesis using 1(1-5,19) key again by simp
qed

subsection \<open>Addresses of the catalogue\<close>

text \<open>An RTSP address of the host without credentials and without a fragment.\<close>

definition bare_address :: "string \<Rightarrow> string \<Rightarrow> bool" where
  "bare_address host uri \<longleftrightarrow>
     (case urlsplit uri of
        None \<Rightarrow> False
      | Some u \<Rightarrow> url_scheme u = ''rtsp'' \<and> url_hostname u = Some host \<and> url_userinfo u = None \<and> url_fragment u = [])"

lemma bare_built:
  assumes "h \<noteq> []" "solid h" "py_lower h = h" "tail = [] \<or> (\<exists>x. tail = CHR '':'' # x \<and> solid x)" "url_ok u"
  shows "bare_address h (urlunsplit ''rtsp'' (h @ tail) (url_path u) (url_query u))"
  using built_address [OF assms(1-4), of "url_path u" "url_query u"] assms(5) by (auto simp: url_ok_def bare_address_def)

lemma int_str_solid: "solid (int_str i)"
proof -
  have "\<not> special CHR ''-''" by code_simp
  then show ?thesis using digits_solid_host by (simp add: int_str_def solid_def del: nat_digits.simps)
qed

lemma candidate_netloc_shape:
  "solid h \<Longrightarrow> \<exists>tail. candidate_netloc h port = h @ tail \<and> (tail = [] \<or> (\<exists>x. tail = CHR '':'' # x \<and> solid x))"
  using solid_plain [of h] int_str_solid by (auto simp: candidate_netloc_def plain_host_def Let_def)

lemma resolve_paths_good:
  assumes "h \<noteq> []" "solid h" "py_lower h = h" "tail = [] \<or> (\<exists>x. tail = CHR '':'' # x \<and> solid x)"
  shows "netloc = h @ tail \<Longrightarrow> resolve_paths netloc limit rps revision acc = Inr cs \<Longrightarrow> length acc < limit \<Longrightarrow> distinct (map ccd_uri acc) \<Longrightarrow>
    list_all (bare_address h) (map ccd_uri acc) \<Longrightarrow>
    length cs \<le> limit \<and> distinct (map ccd_uri cs) \<and> list_all (bare_address h) (map ccd_uri cs)"
proof (induction netloc limit rps revision acc rule: resolve_paths.induct)
  case (2 netloc limit r p rps revision acc)
  obtain u where u: "urlsplit (cpt_path p) = Some u" using "2.prems"(2) by (auto split: option.splits)
  let ?uri = "urlunsplit ''rtsp'' netloc (url_path u) (url_query u)"
  let ?acc = "acc @ [\<lparr>ccd_label = cpt_label p, ccd_uri = ?uri, ccd_rule = crl_id r, ccd_revision = revision, ccd_source = crl_source r\<rparr>]"
  show ?case
  proof (cases "?uri \<in> set (map ccd_uri acc)")
    case True
    then show ?thesis using "2.IH"(1) [OF u refl True] "2.prems" u by (simp add: Let_def)
  next
    case False
    have "bare_address h ?uri" unfolding "2.prems"(1) using urlsplit_ok [OF u] by (intro bare_built [OF assms]) blast
    then have good: "distinct (map ccd_uri ?acc)" "list_all (bare_address h) (map ccd_uri ?acc)"
      using "2.prems"(4,5) False by auto
    show ?thesis
    proof (cases "limit \<le> length ?acc")
      case True
      then have "cs = ?acc" using "2.prems"(2) u False by (simp add: Let_def)
      then show ?thesis using good "2.prems"(3) by simp
    next
      case less: False
      then have "resolve_paths netloc limit rps revision ?acc = Inr cs" using "2.prems"(2) u False by (simp add: Let_def)
      then show ?thesis using "2.IH"(2) [OF u refl False refl less "2.prems"(1)] less good by simp
    qed
  qed
qed simp

lemma map_sum_Inr: "map_sum f g x = Inr y \<longleftrightarrow> (\<exists>z. x = Inr z \<and> y = g z)"
  by (cases x) auto

lemma loaded_limit: "load_catalog document = Inr c \<Longrightarrow> 1 \<le> ctl_limit c \<and> ctl_limit c \<le> 12"
  by (auto simp: load_catalog_def map_sum_Inr probe_limit_of_def max_probe_limit_def Let_def split: option.splits pyval.splits if_splits sum.splits)

text \<open>
  C18: whatever the document of the catalogue holds, the addresses that it proposes for a camera at an IPv4 address are at
  most twelve different RTSP addresses of that camera, without credentials and without a fragment.
\<close>

theorem catalog_stays_at_camera:
  assumes "load_catalog document = Inr c" "catalog_candidates candidate c = Inr cs" "text_of candidate ''ip'' = ipv4_str a"
  shows "length cs \<le> 12 \<and> distinct (map ccd_uri cs) \<and> list_all (bare_address (ipv4_str a)) (map ccd_uri cs)"
proof -
  obtain port where port: "candidate_port candidate = Some port" using assms(2) by (auto simp: catalog_candidates_def split: option.splits)
  obtain tail where tail: "candidate_netloc (ipv4_str a) port = ipv4_str a @ tail" "tail = [] \<or> (\<exists>x. tail = CHR '':'' # x \<and> solid x)"
    using candidate_netloc_shape ipv4_str_host by blast
  have "length cs \<le> ctl_limit c \<and> distinct (map ccd_uri cs) \<and> list_all (bare_address (ipv4_str a)) (map ccd_uri cs)"
    using assms(2) ipv4_str_host [of a] loaded_limit [OF assms(1)]
    by (intro resolve_paths_good [OF _ _ _ tail(2,1)]) (auto simp: catalog_candidates_def port assms(3) Let_def)
  then show ?thesis using loaded_limit [OF assms(1)] by linarith
qed

subsection \<open>Cameras that are added by their addresses\<close>

lemma normalize_each_in: "normalize_each f vs = Inr xs \<Longrightarrow> x \<in> set xs \<Longrightarrow> \<exists>v \<in> set vs. f v = Inr x"
proof (induction f vs arbitrary: xs rule: normalize_each.induct)
  case (2 f v vs)
  obtain y where y: "f v = Inr y" using "2.prems"(1) by (auto split: sum.splits)
  obtain ys where ys: "normalize_each f vs = Inr ys" "xs = y # ys" using "2.prems"(1) y by (auto split: sum.splits)
  then show ?case using "2.IH" [OF y ys(1)] "2.prems"(2) y by auto
qed simp

lemma none_rejected: "rejected_sources rs = [] \<Longrightarrow> list_all (\<lambda>r. pr_status r = ''ready'') rs"
proof -
  assume "rejected_sources rs = []"
  then have "\<forall>x \<in> set (enumerate 0 rs). pr_status (snd x) = ''ready''"
    by (auto simp: rejected_sources_def split: if_splits)
  moreover have "snd ` set (enumerate 0 rs) = set rs" by (simp only: set_map [symmetric] map_snd_enumerate)
  ultimately have "\<forall>r \<in> set rs. pr_status r = ''ready''" by (metis imageE)
  then show ?thesis by (simp only: list_all_iff)
qed

lemma adoption_result_adopted: "adoption_result d r = (Adopted a, d') \<Longrightarrow> r = Inr (a, d')"
  by (auto simp: adoption_result_def split: sum.splits repo_error.splits)

lemma adoption_result_other: "adoption_result d r = (reply, d') \<Longrightarrow> (\<And>a. reply \<noteq> Adopted a) \<Longrightarrow> d' = d"
  by (auto simp: adoption_result_def split: sum.splits repo_error.splits)

lemma adopt_unassigned: "adopt enc candidate username password inputs roles origin reject t d = Inr r \<Longrightarrow> assigned_source reject d = None"
  by (auto simp: adopt_def Let_def split: if_splits option.splits)

lemma assigned_new_uuid: "new_uuid d = (u, d') \<Longrightarrow> assigned_source keys d' = assigned_source keys d"
  by (auto simp: new_uuid_def assigned_source_def)

lemma one_host: "length (remdups hs) = 1 \<Longrightarrow> h \<in> set hs \<Longrightarrow> g \<in> set hs \<Longrightarrow> g = h"
  by (metis One_nat_def length_Suc_conv length_0_conv set_remdups list.set(1,2) singletonD)

lemma created_direct:
  assumes "create_direct_rtsp_camera env resolve probe digest enc name srcs username password t d = (reply, d')"
  shows "case reply of
      Adopted a \<Rightarrow>
        (case normalize_each (normalize_direct_rtsp_url (validate_direct_rtsp_host env resolve)) (map snd srcs) of
           Inl e \<Rightarrow> False
         | Inr checked \<Rightarrow>
             checked \<noteq> [] \<and> distinct (map (\<lambda>(uri, key, host). key) checked)
             \<and> list_all (\<lambda>(uri, key, host). host = snd (snd (hd checked)) \<and> permitted_host env resolve host) checked
             \<and> list_all (\<lambda>(uri, key, host). pr_status (probe uri (py_strip username) password) = ''ready'') checked
             \<and> assigned_source (map (\<lambda>(uri, key, host). key) checked) d = None)
    | _ \<Rightarrow> d' = d"
proof (cases "\<exists>a. reply = Adopted a")
  case False
  then have "d' = d"
    using assms adoption_result_other
    by (auto simp: create_direct_rtsp_camera_def Let_def split: if_splits sum.splits prod.splits)
  then show ?thesis using False by (auto split: adoption_reply.splits)
next
  case True
  then obtain a where a: "reply = Adopted a" by blast
  let ?f = "normalize_direct_rtsp_url (validate_direct_rtsp_host env resolve)"
  obtain checked where n: "normalize_each ?f (map snd srcs) = Inr checked"
    using assms a by (cases "normalize_each ?f (map snd srcs)") (auto simp: create_direct_rtsp_camera_def Let_def split: if_splits)
  let ?keys = "map (\<lambda>(_, key, _). key) checked"
  let ?hosts = "map (\<lambda>(_, _, host). host) checked"
  let ?results = "probe_exact_sources probe (map fst checked) (py_strip username) password"
  note x = assms [unfolded create_direct_rtsp_camera_def Let_def n sum.case a]
  have guards: "length (remdups ?hosts) = 1" "distinct ?keys" "rejected_sources ?results = []"
    using x by (auto split: if_splits)
  obtain u d1 where u: "new_uuid d = (u, d1)" by (cases "new_uuid d")
  have "assigned_source ?keys d1 = None"
    using x guards u by (auto split: if_splits dest!: adoption_result_adopted adopt_unassigned)
  then have taken: "assigned_source ?keys d = None" using assigned_new_uuid [OF u] by simp
  have some: "checked \<noteq> []" using guards(1) by auto
  have "permitted_host env resolve host" if "(uri, key, host) \<in> set checked" for uri key host
  proof -
    obtain v where "?f v = Inr (uri, key, host)"
      using normalize_each_in [OF n \<open>(uri, key, host) \<in> set checked\<close>] by blast
    then show ?thesis by (cases rule: accepted_address)
  qed
  moreover have "host = snd (snd (hd checked))" if "(uri, key, host) \<in> set checked" for uri key host
    using one_host [OF guards(1), of "snd (snd (hd checked))" host] that some by (force simp: case_prod_beta)
  moreover have "list_all (\<lambda>(uri, key, host). pr_status (probe uri (py_strip username) password) = ''ready'') checked"
    using none_rejected [OF guards(3)] by (auto simp: probe_exact_sources_def list_all_iff)
  ultimately show ?thesis using a n some guards(2) taken by (auto simp: list_all_iff)
qed

text \<open>
  C17: a camera that is added by its stream addresses was checked: all addresses were accepted, name one and the same
  permitted host and differ from each other, every one of them answered its probe with video, and none of them belongs to
  a camera that is adopted already. A request that is turned down leaves the database as it was.
\<close>

theorem direct_camera_was_checked:
  "case create_direct_rtsp_camera env resolve probe digest enc name srcs username password t d of (reply, d') \<Rightarrow>
    (case reply of
      Adopted a \<Rightarrow>
        (case normalize_each (normalize_direct_rtsp_url (validate_direct_rtsp_host env resolve)) (map snd srcs) of
           Inl e \<Rightarrow> False
         | Inr checked \<Rightarrow>
             checked \<noteq> [] \<and> distinct (map (\<lambda>(uri, key, host). key) checked)
             \<and> list_all (\<lambda>(uri, key, host). host = snd (snd (hd checked)) \<and> permitted_host env resolve host) checked
             \<and> list_all (\<lambda>(uri, key, host). pr_status (probe uri (py_strip username) password) = ''ready'') checked
             \<and> assigned_source (map (\<lambda>(uri, key, host). key) checked) d = None)
    | _ \<Rightarrow> d' = d)"
proof (cases "create_direct_rtsp_camera env resolve probe digest enc name srcs username password t d")
  case (Pair reply d')
  then show ?thesis using created_direct by simp
qed

end
