(* ===== verification/DirectRtspDemo.thy ===== *)
theory DirectRtspDemo
  imports DirectRtspProps ScanQueueProps
begin

text \<open>
  Runs of the address checks: an address on the network of the machine, a small catalogue, and a camera that is added by
  the address of its stream.
\<close>

definition demo_address :: string where
  "demo_address = ''rtsp://cam/a''"

definition demo_names :: "string \<Rightarrow> dns_answer" where
  "demo_names = (\<lambda>_. DnsAddresses [3232235785])"

definition demo_key_of :: source_key where
  "demo_key_of = (''rtsp'', ''cam'', 554, ''/a'', [])"

lemma demo_host: "validate_direct_rtsp_host demo_scan demo_names ''cam'' = None"
proof -
  have "parse_ipv4 ''cam'' = None" "\<not> list_all (\<lambda>c. is_digit c \<or> c = CHR ''.'') ''cam''"
    "list_all dns_name_label (split_char CHR ''.'' ''cam'')" by code_simp+
  moreover have "permitted_direct_ipv4 [demo_lan] 3232235785"
    by (simp add: permitted_direct_ipv4_def rfc1918_networks_def demo_lan_def net_size_def is_loopback_def is_link_local_def
        is_multicast_def is_unspecified_def broadcast_def num_addresses_def mk_network_def in_net_def)
  ultimately show ?thesis
    by (simp add: validate_direct_rtsp_host_def demo_connected resolve_direct_rtsp_hostname_def demo_names_def)
qed

lemma demo_normal:
  assumes "validate ''cam'' = None"
  shows "normalize_direct_rtsp_url validate demo_address = Inr (demo_address, demo_key_of, ''cam'')"
proof -
  have "py_strip demo_address = demo_address" "contains demo_address ''://''" "CHR 0x5C \<notin> set demo_address"
    "\<not> list_ex control_char demo_address" "demo_address \<noteq> []" by code_simp+
  moreover have "urlsplit demo_address = Some \<lparr>url_scheme = ''rtsp'', url_netloc = ''cam'', url_path = ''/a'',
      url_query = [], url_fragment = []\<rparr>" (is "_ = Some ?u") by code_simp
  moreover have "url_port ?u = Some None" "url_hostname ?u = Some ''cam''" "url_userinfo ?u = None" by code_simp+
  moreover have "py_lower ''rtsp'' = ''rtsp''" "direct_host ''cam'' = ''cam''"
    "list_all ascii_char ''cam''" "urlunsplit ''rtsp'' ''cam'' ''/a'' [] = demo_address" by code_simp+
  ultimately show ?thesis using assms by (simp add: normalize_direct_rtsp_url_def demo_key_of_def Let_def)
qed

lemma demo_accepted:
  "normalize_direct_rtsp_url (validate_direct_rtsp_host demo_scan demo_names) demo_address = Inr (demo_address, demo_key_of, ''cam'')"
  by (rule demo_normal) (rule demo_host)

theorem direct_address_is_private_witness:
  "normalize_direct_rtsp_url (validate_direct_rtsp_host demo_scan demo_names) demo_address =
     Inr (demo_address, demo_key_of, ''cam'') \<and> rtsp_source_key demo_address = Some demo_key_of"
  using direct_address_is_private [OF demo_accepted] demo_accepted by simp

definition demo_document :: pyval where
  "demo_document = PDict [(''revision'', PStr ''1''), (''probe_limit'', PInt 2),
     (''rules'', PList [PDict [(''id'', PStr ''r''), (''manufacturer_aliases'', PList [PStr ''Door'']),
        (''source_url'', PStr ''https://s''),
        (''paths'', PList [PDict [(''label'', PStr ''Main''), (''path'', PStr ''//x/a?b'')]])]])]"

theorem catalog_stays_at_camera_witness:
  "\<exists>c cs. load_catalog (Some demo_document) = Inr c \<and>
     catalog_candidates [(''ip'', PStr ''0.0.0.9'')] c = Inr cs \<and> map ccd_uri cs = [''rtsp://0.0.0.9/a?b''] \<and> length cs \<le> 12"
proof -
  obtain c where c: "load_catalog (Some demo_document) = Inr c"
    "map_sum id (map ccd_uri) (catalog_candidates [(''ip'', PStr ''0.0.0.9'')] c) = Inr [''rtsp://0.0.0.9/a?b'']"
  proof -
    have "case load_catalog (Some demo_document) of Inl e \<Rightarrow> False | Inr c \<Rightarrow>
        map_sum id (map ccd_uri) (catalog_candidates [(''ip'', PStr ''0.0.0.9'')] c) = Inr [''rtsp://0.0.0.9/a?b'']"
      by code_simp
    then show thesis using that by (auto split: sum.splits)
  qed
  then obtain cs where cs: "catalog_candidates [(''ip'', PStr ''0.0.0.9'')] c = Inr cs" "map ccd_uri cs = [''rtsp://0.0.0.9/a?b'']"
    by (auto simp: map_sum_Inr)
  have "text_of [(''ip'', PStr ''0.0.0.9'')] ''ip'' = ipv4_str 9"
  proof -
    have "octets 9 = [0, 0, 0, 9]" by (simp add: octets_def)
    moreover have "py_join ''.'' (map nat_digits [0, 0, 0, 9]) = ''0.0.0.9''" by code_simp
    ultimately show ?thesis by (simp add: text_of_def dget_def ipv4_str_def)
  qed
  from catalog_stays_at_camera [OF c(1) cs(1) this] have "length cs \<le> 12" by simp
  then show ?thesis using c(1) cs by (intro exI [of _ c] exI [of _ cs]) simp
qed

text \<open>A camera with one stream is adopted.\<close>

definition demo_probe :: source_probe where
  "demo_probe = (\<lambda>_ _ _. \<lparr>pr_status = ''ready'', pr_latency = 1, pr_vcodec = Some ''h264'', pr_acodec = None, pr_width = 640,
     pr_height = 480, pr_fps = 5\<rparr>)"

definition demo_created :: "adoption_reply \<times> db" where
  "demo_created = create_direct_rtsp_camera demo_scan demo_names demo_probe (\<lambda>_. ''0123456789abcdef0123'') (\<lambda>p u. p) ''Door''
     [(''Main'', demo_address)] ''u'' ''p'' 7 (empty_db (\<lambda>n. replicate n CHR ''x''))"

definition demo_found :: profile_input where
  "demo_found = manual_profile (\<lambda>_. ''0123456789abcdef0123'') ''Main'' demo_address (demo_probe [] [] []) 1 None"

lemma demo_is_created: "\<exists>a d'. demo_created = (Adopted (Some a), d') \<and> cam_name (ad_camera a) = ''Door''"
proof -
  let ?d = "empty_db (\<lambda>n. replicate n CHR ''x'')"
  let ?adopt = "adopt (\<lambda>p u. p) [(''candidate_uuid'', PStr (''direct-rtsp:'' @ fst (new_uuid ?d))), (''display_name'', PStr ''Door''),
      (''ip'', PStr ''cam'')] ''u'' ''p'' [demo_found] (role_tokens [demo_found]) Direct [demo_key_of] 7 (snd (new_uuid ?d))"
  have clean: "py_strip ''Door'' = ''Door''" "py_strip ''u'' = ''u''" by code_simp+
  have "demo_created = adoption_result ?d ?adopt"
    unfolding demo_created_def create_direct_rtsp_camera_def
    by (simp add: clean demo_accepted probe_exact_sources_def rejected_sources_def demo_probe_def demo_found_def case_prod_beta Let_def)
  moreover have "case ?adopt of Inr (Some a, _) \<Rightarrow> cam_name (ad_camera a) = ''Door'' | _ \<Rightarrow> False" by code_simp
  then obtain a d' where "?adopt = Inr (Some a, d')" "cam_name (ad_camera a) = ''Door''"
    by (auto split: sum.splits prod.splits option.splits)
  ultimately show ?thesis by (intro exI [of _ a] exI [of _ d']) (simp add: adoption_result_def)
qed

end
