(* ===== verification/Spec2Isabelle.thy ===== *)
theory Spec2Isabelle
  imports
    Inventory AlertProps Availability Delivery Auth Config Crypto Roles IdentityStore Url Readoption
    FrigateOutcome MediaProps RelayWatchProps RelayHealthProps RecoveryRollback
    TargetedProps WorkerProps ScanQueueDemo DirectRtspDemo
begin

text \<open>
  CamAdmiral finds the cameras of a local network, keeps an inventory of them, adopts them with their
  credentials, relays their streams, watches their health, reports outages and configures Frigate
  with them. The state is an SQLite database (\<open>src/camadmiral/storage.py\<close>), an inventory
  document (\<open>inventory.py\<close>) and a few in-memory maps. HTTP handlers and background threads
  (\<open>app.py\<close>) call the components below; each call is one atomic step on the state, as the
  code makes it one transaction or one locked section.

  Foundations.
  \<^item> \<open>Prelude\<close>: tables as lists of rows, UPDATE, DELETE and INSERT with and without conflict
    clauses, keys and references, the locale \<open>row_table\<close> of a keyed table and the locale
    \<open>kept_invariant\<close> of runs of operations.
  \<^item> \<open>PyValue\<close>: Python strings and JSON-like values, dictionaries with their laws
    (locale \<open>py_dict\<close>); \<open>PyNumbers\<close>: numbers in documents and text; \<open>Programs\<close>: programs that change a
    state and may fail, what they keep and what they achieve; \<open>Net\<close>: IPv4 addresses and networks; \<open>Base64\<close>;
    \<open>Url\<close>: \<open>urlsplit\<close> and the stored parts of a stream address; \<open>RtspUri\<close>: addresses with credentials.

  Components.
  \<^item> \<open>Inventory\<close> (\<open>inventory.py\<close>, \<open>scan_state.py\<close>): matching a scan with the saved
    devices. No device is lost or merged, matching needs evidence, conflict flags are exact, a partial
    scan leaves other devices alone.
  \<^item> \<open>Schema\<close> (\<open>storage.py\<close>, tables), \<open>Health\<close> (probe results, camera state,
    incidents, alerts, authentication retries) with \<open>HealthInv\<close> (the database constraints as an
    invariant of every operation), \<open>HealthProps\<close> and \<open>AlertProps\<close> (what the operations
    promise), \<open>Availability\<close> (the report computed from the history).
  \<^item> \<open>Delivery\<close> (\<open>storage.py\<close>, \<open>notifications.py\<close>, \<open>app.py\<close>): the outbox, the
    delivery round and pairing with a Telegram chat.
  \<^item> \<open>IdentityStore\<close> (\<open>storage.py\<close>, \<open>camera_identity.py\<close>): identity periods,
    links and blocked devices.
  \<^item> \<open>Roles\<close> (\<open>roles.py\<close>), \<open>Adoption\<close> and \<open>Streams\<close> (\<open>storage.py\<close>) with
    \<open>AdoptionProps\<close> and \<open>Readoption\<close>: adopting cameras, their settings and their removal.
  \<^item> The Frigate integration (\<open>frigate.py\<close>, \<open>storage.py\<close>): \<open>FrigateStore\<close> (targets, selections,
    bindings, retired cameras), \<open>FrigateClient\<close> (the requests, and programs that send them and use
    the database), \<open>FrigateDesired\<close> (the configuration a camera should have and its comparison with
    Frigate's), \<open>FrigateSync\<close> (\<open>reconcile_frigate\<close>), \<open>FrigateRetire\<close> (the full synchronisation and the
    removal of a camera). \<open>FrigateLogic\<close> and \<open>FrigateOwned\<close> hold the contracts of these programs as
    locales that extend one another, interpreted three times; \<open>FrigateDemo\<close> is the instance that the
    witnesses evaluate; \<open>FrigateProps\<close> and \<open>FrigateOutcome\<close> hold the properties: only resources of
    CamAdmiral are touched, wanted ones are spared, what is counted as applied was read back, and
    nothing is sent when nothing is to do.
  \<^item> The media relay (\<open>media.py\<close>): \<open>Media\<close> (requests to go2rtc, reconciling its streams and preloads, probes
    with ffprobe, configuration revisions), \<open>RelayWatch\<close> (\<open>RelayRuntimeActivityMonitor\<close>) and \<open>RelayHealth\<close>
    (\<open>RelayHealthMonitor\<close>: the cache of thumbnails, periodic snapshots, retries of rejected credentials). With
    \<open>MediaDemo\<close> as their instance, \<open>MediaProps\<close> shows that only CamAdmiral's streams are touched, that a relay
    that obeys is brought to the wanted streams, and that a failure is recorded; \<open>RelayWatchProps\<close> when a
    stalled stream is reported; \<open>RelayHealthProps\<close> that the monitor's memory is bounded and that it blames
    credentials on evidence only.
  \<^item> Address recovery (\<open>recovery.py\<close>): \<open>Recovery\<close> is the pass \<open>recover_inventory_addresses\<close> with its memory of
    attempts; the ONVIF inspection is a parameter. \<open>RecoveryProps\<close> shows how attempts are paced,
    \<open>RecoveryRollback\<close> that a failed move leaves every stored address as it was and that a camera counts as
    recovered only when its streams answered at the stored new addresses; \<open>RecoveryDemo\<close> is a camera that moved.
  \<^item> Discovery (\<open>discovery.py\<close>): \<open>Lan\<close> (the networks a scan may touch), \<open>Scan\<close> (what is made of ONVIF replies, RTSP
    ports and the ARP table), \<open>Targeted\<close> (finding known cameras again) and \<open>ScanLan\<close> (whole scans: \<open>scan_lan\<close>,
    \<open>scan_targeted_lan\<close>, \<open>scan_explicit_address\<close>). A record \<open>scan_env\<close> holds what the network and the machine answer.
    \<open>LanProps\<close> shows that scans stay in private networks and are bounded, \<open>TargetedProps\<close> that known cameras are
    found on unambiguous evidence only, \<open>ScanLanProps\<close> that the outcome of a scan does not depend on the order in
    which its scanners end.
  \<^item> The scanner process (\<open>scanner_worker.py\<close>): \<open>Worker\<close>, its files being the state; \<open>WorkerProps\<close> shows that no
    request loses a known device or publishes a failed scan as inventory.
  \<^item> Requests for scans (\<open>app.py\<close>): \<open>ScanQueue\<close> is the selection of networks and the three handlers that write the
    scanner's request file. \<open>ScanQueueProps\<close> shows that what is selected is what is scanned, that no request displaces
    another and that a recovery scan looks for cameras that need it only; \<open>ScanQueueDemo\<close> is such a scan.
  \<^item> Cameras by their addresses: \<open>Catalog\<close> (\<open>rtsp_catalog.py\<close>) and \<open>DirectRtsp\<close> (\<open>app.py\<close>: which addresses are
    accepted, and the adoption of direct cameras, by the catalogue and by ONVIF; the name service, the probe and the
    ONVIF inspection are parameters). \<open>DirectRtspProps\<close> shows that accepted addresses are private and checked and that
    the catalogue stays at the camera; \<open>DirectRtspDemo\<close> runs them.
  \<^item> \<open>Auth\<close> (\<open>auth.py\<close>), \<open>Config\<close> (\<open>config.py\<close>), \<open>Crypto\<close> (\<open>crypto.py\<close>).

  Conventions. Times are integers in microseconds, or rationals in seconds where the code uses floats;
  float arithmetic is exact. Random UUIDs come from a supply that the database carries, its values
  distinct where a theorem needs it. An error is a value of a sum type and leaves the database as it
  was. Strings are lists of characters below 256. AES-GCM, Telegram,
  Frigate, go2rtc and ffprobe are parameters; what is relied on of them is stated where they are used. Nothing
  is assumed of Frigate and go2rtc: every answer is a function of the requests sent so far. Jobs that run
  beside a monitor are numbers whose outcome the environment gives when the monitor looks. A loop that polls until a
  deadline takes the number of polls that end before it from the environment (\<open>env_polls\<close>), so it
  ends for every deadline; the theorems hold for every such number. Where a library function rejects a text,
  the error carries the rejected text or the name of the field in place of the library's message.

  Not modelled: the database migrations, the other HTTP handlers (they pass a request on to one operation of the
  repository and wrap its result) and the pages, sockets and other system calls, the ONVIF client, the snapshot process, process supervision and diagnostics; of the Frigate integration the HTTP layer,
  the import of existing Frigate cameras (targets have none here) and the discovery of Frigate.
\<close>

end
